(* ===== verification/Prelude.thy ===== *)
theory Prelude
  imports Complex_Main "HOL-Library.AList" "HOL-Library.Char_ord" "HOL-Library.List_Lexorder"
    "HOL-Library.Sublist"
begin

text \<open>
  Shared vocabulary of the development: results of fallible code, Python dictionaries as
  insertion-ordered association lists, Python string methods on \<^typ>\<open>string\<close>, times.

  \<^item> A computation that may raise has type \<open>'e + 'a\<close>, \<open>Inl\<close> being the exception.
    \<open>ebind\<close> sequences two of them, \<open>ensure\<close> is \<open>if not b: raise e\<close>.
  \<^item> A \<open>dict\<close> is a list of pairs. \<open>AList.update\<close> overwrites in place or appends,
    which is what \<open>d[k] = v\<close> does to the iteration order of a Python dictionary.
  \<^item> A \<open>str\<close> is a \<^typ>\<open>string\<close>; one \<^typ>\<open>char\<close> stands for one code point below 256, and the
    methods follow Python on that range.
  \<^item> A \<open>datetime\<close> is an \<^typ>\<open>int\<close>, the microseconds since the epoch (Python's resolution).
\<close>

type_synonym ('k, 'v) dict = "('k \<times> 'v) list"
type_synonym time = int

abbreviation usec :: "int \<Rightarrow> int" where
  "usec seconds \<equiv> seconds * 1000000"

named_theorems result_simps \<open>inversion of results\<close>
named_theorems dict_simps \<open>lookup and update of dictionaries\<close>

section \<open>Results\<close>

definition ebind :: "'e + 'a \<Rightarrow> ('a \<Rightarrow> 'e + 'b) \<Rightarrow> 'e + 'b" where
  "ebind r f = (case r of Inl e \<Rightarrow> Inl e | Inr a \<Rightarrow> f a)"

definition ensure :: "bool \<Rightarrow> 'e \<Rightarrow> 'e + unit" where
  "ensure b e = (if b then Inr () else Inl e)"

text \<open>\<open>for x in xs: body(x)\<close> where the body may raise: the first exception ends the loop.\<close>

fun for_each :: "('a \<Rightarrow> 'e + unit) \<Rightarrow> 'a list \<Rightarrow> 'e + unit" where
  "for_each f [] = Inr ()"
| "for_each f (x # xs) = ebind (f x) (\<lambda>_. for_each f xs)"

text \<open>A list built by a comprehension whose element expression may raise.\<close>

fun map_result :: "('a \<Rightarrow> 'e + 'b) \<Rightarrow> 'a list \<Rightarrow> 'e + 'b list" where
  "map_result f [] = Inr []"
| "map_result f (x # xs) = ebind (f x) (\<lambda>y. ebind (map_result f xs) (\<lambda>ys. Inr (y # ys)))"

lemma ebind_simps [simp]:
  "ebind (Inl e) f = Inl e"
  "ebind (Inr a) f = f a"
  by (simp_all add: ebind_def)

lemma ebind_Inr_iff [result_simps]: "ebind r f = Inr b \<longleftrightarrow> (\<exists>a. r = Inr a \<and> f a = Inr b)"
  by (cases r) auto

lemma ebind_Inl_iff [result_simps]:
  "ebind r f = Inl e \<longleftrightarrow> r = Inl e \<or> (\<exists>a. r = Inr a \<and> f a = Inl e)"
  by (cases r) auto

lemma ensure_True [simp]: "ensure True e = Inr ()"
  by (simp add: ensure_def)

lemma ensure_False [simp]: "ensure False e = Inl e"
  by (simp add: ensure_def)

lemma ensure_Inr_iff [result_simps, simp]: "ensure b e = Inr u \<longleftrightarrow> b"
  by (simp add: ensure_def)

lemma ensure_Inl_iff [result_simps]: "ensure b e = Inl e' \<longleftrightarrow> \<not> b \<and> e' = e"
  by (auto simp: ensure_def)

lemma for_each_Inr_iff [result_simps]:
  "for_each f xs = Inr u \<longleftrightarrow> (\<forall>x \<in> set xs. f x = Inr ())"
proof (induction xs)
  case (Cons x xs)
  then show ?case by (cases "f x") auto
qed simp

lemma map_result_Inr_iff:
  "map_result f xs = Inr ys \<longleftrightarrow> list_all2 (\<lambda>x y. f x = Inr y) xs ys"
  by (induction xs arbitrary: ys) (auto simp: result_simps list_all2_Cons1)

lemma map_result_length: "map_result f xs = Inr ys \<Longrightarrow> length ys = length xs"
  by (simp add: map_result_Inr_iff list_all2_lengthD)

section \<open>Dictionaries\<close>

abbreviation keys :: "('k, 'v) dict \<Rightarrow> 'k list" where
  "keys d \<equiv> map fst d"

abbreviation dvalues :: "('k, 'v) dict \<Rightarrow> 'v list" where
  "dvalues d \<equiv> map snd d"

text \<open>\<open>d1 == d2\<close> for dictionaries whose values are compared by \<open>==\<close>: order is ignored.\<close>

definition dict_eq :: "('k, 'v) dict \<Rightarrow> ('k, 'v) dict \<Rightarrow> bool" where
  "dict_eq d1 d2 \<longleftrightarrow>
     length d1 = length d2 \<and> list_all (\<lambda>(k, v). map_of d2 k = Some v) d1"

text \<open>\<open>{**d1, **d2}\<close>\<close>

definition dict_merge :: "('k, 'v) dict \<Rightarrow> ('k, 'v) dict \<Rightarrow> ('k, 'v) dict" where
  "dict_merge d1 d2 = foldl (\<lambda>d (k, v). AList.update k v d) d1 d2"

lemma map_of_update [simp, dict_simps]: "map_of (AList.update k v d) = (map_of d)(k \<mapsto> v)"
  by (rule update_conv')

lemma keys_update [dict_simps]:
  "keys (AList.update k v d) = (if k \<in> set (keys d) then keys d else keys d @ [k])"
  by (rule update_keys)

lemma set_update_distinct:
  assumes "distinct (keys d)"
  shows "set (AList.update k v d) = insert (k, v) {p \<in> set d. fst p \<noteq> k}"
  using assms by (induction d) (auto simp: image_iff)

lemma distinct_update [simp, intro]: "distinct (keys d) \<Longrightarrow> distinct (keys (AList.update k v d))"
  by (rule AList.distinct_update)

lemma update_present_length: "k \<in> set (keys d) \<Longrightarrow> length (AList.update k v d) = length d"
  by (induction d) auto

lemma dict_eq_refl: "distinct (keys d) \<Longrightarrow> dict_eq d d"
  by (auto simp: dict_eq_def list_all_iff)

lemma dict_eq_map_of:
  assumes "distinct (keys d1)" "distinct (keys d2)" "dict_eq d1 d2"
  shows "map_of d1 = map_of d2"
proof -
  have sub: "set d1 \<subseteq> set d2"
    using assms(3) by (auto simp: dict_eq_def list_all_iff dest: map_of_SomeD)
  have "card (set d1) = card (set d2)"
    using assms by (simp add: dict_eq_def distinct_card distinct_map)
  with sub have "set d1 = set d2"
    by (simp add: card_subset_eq)
  with assms(1,2) show ?thesis
    by (rule map_of_inject_set [THEN iffD2])
qed

lemma map_of_dict_merge: "map_of (dict_merge d1 d2) = map_of d1 ++ map_of (rev d2)"
proof -
  have "map_of (foldl (\<lambda>d (k, v). AList.update k v d) d1 d2) = map_of d1 ++ map_of (rev d2)" for d1
  proof (induction d2 arbitrary: d1)
    case (Cons p d2)
    then show ?case
      by (cases p) (simp add: map_add_def fun_eq_iff split: option.splits)
  qed simp
  then show ?thesis by (simp add: dict_merge_def)
qed

section \<open>Strings\<close>

definition starts_with :: "string \<Rightarrow> string \<Rightarrow> bool" where
  "starts_with s p = prefix p s"

text \<open>\<open>s.startswith(tuple)\<close>\<close>

definition starts_with_any :: "string \<Rightarrow> string list \<Rightarrow> bool" where
  "starts_with_any s ps = list_ex (starts_with s) ps"

definition remove_prefix :: "string \<Rightarrow> string \<Rightarrow> string" where
  "remove_prefix s p = (if starts_with s p then drop (length p) s else s)"

text \<open>\<open>s.partition(c)\<close>: before, separator (empty when absent) and after.\<close>

definition partition_at :: "char \<Rightarrow> string \<Rightarrow> string \<times> string \<times> string" where
  "partition_at c s =
     (let before = takeWhile (\<lambda>x. x \<noteq> c) s; rest = dropWhile (\<lambda>x. x \<noteq> c) s
      in (before, take 1 rest, drop 1 rest))"

text \<open>\<open>s.split(c)\<close>\<close>

fun split_on :: "char \<Rightarrow> string \<Rightarrow> string list" where
  "split_on c [] = [[]]"
| "split_on c (x # xs) =
     (if x = c then [] # split_on c xs
      else case split_on c xs of [] \<Rightarrow> [[x]] | w # ws \<Rightarrow> (x # w) # ws)"

text \<open>\<open>str.isspace\<close> on the code points below 256.\<close>

definition is_space :: "char \<Rightarrow> bool" where
  "is_space c = (let n = of_char c :: nat in
     (9 \<le> n \<and> n \<le> 13) \<or> (28 \<le> n \<and> n \<le> 32) \<or> n = 133 \<or> n = 160)"

definition strip :: "string \<Rightarrow> string" where
  "strip s = rev (dropWhile is_space (rev (dropWhile is_space s)))"

definition rstrip_char :: "char \<Rightarrow> string \<Rightarrow> string" where
  "rstrip_char c s = rev (dropWhile (\<lambda>x. x = c) (rev s))"

text \<open>\<open>str.lower\<close> on the code points below 256.\<close>

definition lower_char :: "char \<Rightarrow> char" where
  "lower_char c = (let n = of_char c :: nat in
     if (65 \<le> n \<and> n \<le> 90) \<or> (192 \<le> n \<and> n \<le> 222 \<and> n \<noteq> 215) then char_of (n + 32) else c)"

definition lower :: "string \<Rightarrow> string" where
  "lower s = map lower_char s"

definition is_lower_ascii :: "char \<Rightarrow> bool" where
  "is_lower_ascii c = (CHR ''a'' \<le> c \<and> c \<le> CHR ''z'')"

definition is_digit_ascii :: "char \<Rightarrow> bool" where
  "is_digit_ascii c = (CHR ''0'' \<le> c \<and> c \<le> CHR ''9'')"

fun join_with :: "string \<Rightarrow> string list \<Rightarrow> string" where
  "join_with sep [] = []"
| "join_with sep [x] = x"
| "join_with sep (x # y # xs) = x @ sep @ join_with sep (y # xs)"

text \<open>\<open>str(n)\<close>\<close>

definition digit_char :: "nat \<Rightarrow> char" where
  "digit_char d = char_of (48 + d)"

fun nat_str :: "nat \<Rightarrow> string" where
  "nat_str n = (if n < 10 then [digit_char n] else nat_str (n div 10) @ [digit_char (n mod 10)])"

declare nat_str.simps [simp del]

definition int_str :: "int \<Rightarrow> string" where
  "int_str i = (if i < 0 then CHR ''-'' # nat_str (nat (- i)) else nat_str (nat i))"

lemma starts_with_append [simp]: "starts_with (p @ s) p"
  by (simp add: starts_with_def)

lemma remove_prefix_append [simp]: "remove_prefix (p @ s) p = s"
  by (simp add: remove_prefix_def)

lemma split_on_not_Nil [simp]: "split_on c s \<noteq> []"
  by (induction s) (auto split: list.splits)

lemma partition_at_append [simp]:
  "c \<notin> set k \<Longrightarrow> partition_at c (k @ c # v) = (k, [c], v)"
  by (induction k) (auto simp: partition_at_def Let_def)

lemma strip_empty [simp]: "strip [] = []"
  by (simp add: strip_def)

end
