(* ===== verification/Sha256.thy ===== *)
theory Sha256
  imports Prelude "HOL-Library.Word"
begin

unbundle bit_operations_syntax

text \<open>
  \<open>bytes\<close>, \<open>str.encode\<close> and \<open>hashlib.sha256(...).hexdigest()\<close>: what the program uses of the
  standard library to compute request and content digests. SHA-256 is written out (FIPS 180-4)
  on 32-bit words, so that a digest is a value of the model and not an assumption.
\<close>

type_synonym bytes = "8 word list"
type_synonym u32 = "32 word"

text \<open>\<open>s.encode()\<close>: UTF-8, on the code points below 256.\<close>

definition utf8_char :: "char \<Rightarrow> bytes" where
  "utf8_char c = (let n = of_char c :: nat in
     if n < 128 then [word_of_nat n]
     else [word_of_nat (192 + n div 64), word_of_nat (128 + n mod 64)])"

definition encode :: "string \<Rightarrow> bytes" where
  "encode s = concat (map utf8_char s)"

definition sha_k :: "u32 list" where
  "sha_k = [
  1116352408, 1899447441, 3049323471, 3921009573,  961987163, 1508970993, 2453635748, 2870763221,
  3624381080,  310598401,  607225278, 1426881987, 1925078388, 2162078206, 2614888103, 3248222580,
  3835390401, 4022224774,  264347078,  604807628,  770255983, 1249150122, 1555081692, 1996064986,
  2554220882, 2821834349, 2952996808, 3210313671, 3336571891, 3584528711,  113926993,  338241895,
   666307205,  773529912, 1294757372, 1396182291, 1695183700, 1986661051, 2177026350, 2456956037,
  2730485921, 2820302411, 3259730800, 3345764771, 3516065817, 3600352804, 4094571909,  275423344,
   430227734,  506948616,  659060556,  883997877,  958139571, 1322822218, 1537002063, 1747873779,
  1955562222, 2024104815, 2227730452, 2361852424, 2428436474, 2756734187, 3204031479, 3329325298]"

definition sha_init :: "u32 list" where
  "sha_init = [1779033703, 3144134277, 1013904242, 2773480762,
               1359893119, 2600822924, 528734635, 1541459225]"

definition rotr :: "nat \<Rightarrow> u32 \<Rightarrow> u32" where
  "rotr n x = drop_bit n x OR push_bit (32 - n) x"

definition small_sigma0 :: "u32 \<Rightarrow> u32" where
  "small_sigma0 x = rotr 7 x XOR rotr 18 x XOR drop_bit 3 x"

definition small_sigma1 :: "u32 \<Rightarrow> u32" where
  "small_sigma1 x = rotr 17 x XOR rotr 19 x XOR drop_bit 10 x"

definition big_sigma0 :: "u32 \<Rightarrow> u32" where
  "big_sigma0 x = rotr 2 x XOR rotr 13 x XOR rotr 22 x"

definition big_sigma1 :: "u32 \<Rightarrow> u32" where
  "big_sigma1 x = rotr 6 x XOR rotr 11 x XOR rotr 25 x"

text \<open>The message schedule, latest word first.\<close>

primrec sha_extend :: "nat \<Rightarrow> u32 list \<Rightarrow> u32 list" where
  "sha_extend 0 ws = ws"
| "sha_extend (Suc n) ws =
     sha_extend n ((small_sigma1 (ws ! 1) + ws ! 6 + small_sigma0 (ws ! 14) + ws ! 15) # ws)"

fun sha_round :: "u32 list \<Rightarrow> u32 \<times> u32 \<Rightarrow> u32 list" where
  "sha_round [a, b, c, d, e, f, g, h] (k, w) =
     (let t1 = h + big_sigma1 e + ((e AND f) XOR (NOT e AND g)) + k + w;
          t2 = big_sigma0 a + ((a AND b) XOR (a AND c) XOR (b AND c))
      in [t1 + t2, a, b, c, d + t1, e, f, g])"
| "sha_round st _ = st"

fun be_words :: "bytes \<Rightarrow> u32 list" where
  "be_words (a # b # c # d # bs) =
     word_of_int (uint a * 16777216 + uint b * 65536 + uint c * 256 + uint d) # be_words bs"
| "be_words _ = []"

definition sha_block :: "u32 list \<Rightarrow> u32 list \<Rightarrow> u32 list" where
  "sha_block st block =
     map2 (+) st (foldl sha_round st (zip sha_k (rev (sha_extend 48 (rev block)))))"

function sha_blocks :: "u32 list \<Rightarrow> u32 list \<Rightarrow> u32 list" where
  "sha_blocks st ws =
     (if length ws < 16 then st else sha_blocks (sha_block st (take 16 ws)) (drop 16 ws))"
  by pat_completeness auto
termination
  by (relation "measure (\<lambda>(st, ws). length ws)") auto

declare sha_blocks.simps [simp del]

definition be_bytes :: "nat \<Rightarrow> int \<Rightarrow> bytes" where
  "be_bytes n x = map (\<lambda>i. word_of_int (x div 256 ^ i)) (rev [0..<n])"

definition sha_pad :: "bytes \<Rightarrow> bytes" where
  "sha_pad m = (let z = (119 - length m mod 64) mod 64 in
     m @ [128] @ replicate z 0 @ be_bytes 8 (8 * int (length m)))"

definition hex_digit :: "nat \<Rightarrow> char" where
  "hex_digit d = (if d < 10 then char_of (48 + d) else char_of (87 + d))"

definition hex_bytes :: "bytes \<Rightarrow> string" where
  "hex_bytes bs = concat (map (\<lambda>b. [hex_digit (unat b div 16), hex_digit (unat b mod 16)]) bs)"

definition sha256 :: "bytes \<Rightarrow> bytes" where
  "sha256 m = concat (map (\<lambda>w. be_bytes 4 (uint w)) (sha_blocks sha_init (be_words (sha_pad m))))"

definition sha256_hex :: "bytes \<Rightarrow> string" where
  "sha256_hex m = hex_bytes (sha256 m)"

text \<open>A digest is 64 characters from \<open>0-9a-f\<close>, whatever the content.\<close>

definition is_hex :: "char \<Rightarrow> bool" where
  "is_hex c = (is_digit_ascii c \<or> (CHR ''a'' \<le> c \<and> c \<le> CHR ''f''))"

lemma sha_round_length: "length st = 8 \<Longrightarrow> length (sha_round st kw) = 8"
  by (cases "(st, kw)" rule: sha_round.cases) (auto simp: Let_def)

lemma sha_rounds_length: "length st = 8 \<Longrightarrow> length (foldl sha_round st kws) = 8"
  by (induction kws arbitrary: st) (auto simp: sha_round_length)

lemma sha_blocks_length: "length st = 8 \<Longrightarrow> length (sha_blocks st ws) = 8"
proof (induction st ws rule: sha_blocks.induct)
  case (1 st ws)
  then show ?case
    by (subst sha_blocks.simps) (auto simp: sha_block_def sha_rounds_length)
qed

lemma sha256_length: "length (sha256 m) = 32"
proof -
  have "length (concat (map (\<lambda>w. be_bytes 4 (uint w)) ws)) = 4 * length ws" for ws :: "u32 list"
    by (induction ws) (auto simp: be_bytes_def)
  then show ?thesis
    by (simp add: sha256_def sha_blocks_length sha_init_def)
qed

lemma hex_digit_hex: "d < 16 \<Longrightarrow> is_hex (hex_digit d)"
proof -
  have "\<forall>d \<in> set [0..<16]. is_hex (hex_digit d)"
    by code_simp
  then show "d < 16 \<Longrightarrow> is_hex (hex_digit d)" by simp
qed

lemma sha256_hex_length: "length (sha256_hex m) = 64"
proof -
  have "length (hex_bytes bs) = 2 * length bs" for bs
    by (induction bs) (auto simp: hex_bytes_def)
  then show ?thesis by (simp add: sha256_hex_def sha256_length)
qed

lemma unat_byte_bound: "unat (b :: 8 word) < 256"
  using unsigned_less [where 'a = nat, of b] by simp

lemma sha256_hex_chars: "list_all is_hex (sha256_hex m)"
proof -
  have "is_hex (hex_digit (unat b div 16)) \<and> is_hex (hex_digit (unat b mod 16))" for b :: "8 word"
    using unat_byte_bound [of b] by (auto intro!: hex_digit_hex)
  then show ?thesis
    by (auto simp: sha256_hex_def hex_bytes_def list_all_iff)
qed

end
