(* ===== verification/Json.thy ===== *)
theory Json
  imports Sha256
begin

text \<open>
  JSON values as the pool handles them (\<open>JobPayloadValue\<close> of contracts.py), Python's \<open>==\<close> on
  them, and the canonical text \<open>json.dumps(v, allow_nan=False, separators=(",", ":"),
  sort_keys=True)\<close> that validation.py measures and digests.

  A float carries the text Python's \<open>repr\<close> gives for it and its exact value; an object is a
  dictionary with string keys, in insertion order.
\<close>

datatype num = Fin rat | PInf | NInf | NaN

datatype json =
    JNull
  | JBool bool
  | JInt int
  | JFloat string num
  | JStr string
  | JArr "json list"
  | JObj "(string \<times> json) list"

type_synonym payload = "(string, json) dict"

section \<open>Python equality\<close>

text \<open>A \<open>bool\<close> is an \<open>int\<close> and an \<open>int\<close> equals the \<open>float\<close> of its value.\<close>

fun num_val :: "json \<Rightarrow> num option" where
  "num_val (JBool b) = Some (Fin (if b then 1 else 0))"
| "num_val (JInt i) = Some (Fin (of_int i))"
| "num_val (JFloat _ n) = Some n"
| "num_val _ = None"

definition num_eq :: "num \<Rightarrow> num \<Rightarrow> bool" where
  "num_eq a b = (a = b \<and> a \<noteq> NaN)"

fun num_less :: "num \<Rightarrow> num \<Rightarrow> bool" where
  "num_less (Fin a) (Fin b) = (a < b)"
| "num_less (Fin _) PInf = True"
| "num_less NInf (Fin _) = True"
| "num_less NInf PInf = True"
| "num_less _ _ = False"

fun py_eq :: "json \<Rightarrow> json \<Rightarrow> bool" where
  "py_eq (JStr s) b = (b = JStr s)"
| "py_eq JNull b = (b = JNull)"
| "py_eq (JArr xs) b = (case b of JArr ys \<Rightarrow> list_all2 py_eq xs ys | _ \<Rightarrow> False)"
| "py_eq (JObj xs) b =
     (case b of
        JObj ys \<Rightarrow> length xs = length ys \<and>
          list_all (\<lambda>p. case map_of ys (fst p) of None \<Rightarrow> False | Some w \<Rightarrow> py_eq (snd p) w) xs
      | _ \<Rightarrow> False)"
| "py_eq a b = (case num_val b of None \<Rightarrow> False | Some y \<Rightarrow> num_eq (the (num_val a)) y)"

text \<open>\<open>d1 == d2\<close> on payload dictionaries.\<close>

definition payload_eq :: "payload \<Rightarrow> payload \<Rightarrow> bool" where
  "payload_eq d1 d2 = py_eq (JObj d1) (JObj d2)"

text \<open>\<open>d.get(k)\<close> of a payload dictionary: a missing key is \<open>None\<close>, the JSON null.\<close>

definition pget :: "payload \<Rightarrow> string \<Rightarrow> json" where
  "pget d k = (case map_of d k of None \<Rightarrow> JNull | Some v \<Rightarrow> v)"

section \<open>Canonical text\<close>

definition esc_char :: "char \<Rightarrow> string" where
  "esc_char c = (let n = of_char c :: nat in
     if c = CHR 0x22 then [CHR 0x5C, CHR 0x22]
     else if c = CHR 0x5C then [CHR 0x5C, CHR 0x5C]
     else if n = 10 then [CHR 0x5C, CHR ''n'']
     else if n = 13 then [CHR 0x5C, CHR ''r'']
     else if n = 9 then [CHR 0x5C, CHR ''t'']
     else if n = 12 then [CHR 0x5C, CHR ''f'']
     else if n = 8 then [CHR 0x5C, CHR ''b'']
     else if 32 \<le> n \<and> n \<le> 126 then [c]
     else [CHR 0x5C, CHR ''u'', CHR ''0'', CHR ''0'', hex_digit (n div 16), hex_digit (n mod 16)])"

definition enc_str :: "string \<Rightarrow> string" where
  "enc_str s = CHR 0x22 # concat (map esc_char s) @ [CHR 0x22]"

definition enc_members :: "(string \<times> string) list \<Rightarrow> string" where
  "enc_members kvs = join_with '','' (map (\<lambda>(k, t). enc_str k @ '':'' @ t) kvs)"

fun enc :: "json \<Rightarrow> string" where
  "enc JNull = ''null''"
| "enc (JBool b) = (if b then ''true'' else ''false'')"
| "enc (JInt i) = int_str i"
| "enc (JFloat r _) = r"
| "enc (JStr s) = enc_str s"
| "enc (JArr vs) = ''['' @ join_with '','' (map enc vs) @ '']''"
| "enc (JObj kvs) =
     ''{'' @ enc_members (sort_key fst (map (\<lambda>(k, v). (k, enc v)) kvs)) @ ''}''"

fun finite_json :: "json \<Rightarrow> bool" where
  "finite_json (JFloat _ n) = (case n of Fin _ \<Rightarrow> True | _ \<Rightarrow> False)"
| "finite_json (JArr vs) = list_all finite_json vs"
| "finite_json (JObj kvs) = list_all (\<lambda>p. finite_json (snd p)) kvs"
| "finite_json _ = True"

text \<open>Nesting depth as \<open>_validate_json_tree\<close> counts it: the root is at depth 1.\<close>

fun json_depth :: "json \<Rightarrow> nat" where
  "json_depth (JArr vs) = Suc (foldr max (map json_depth vs) 0)"
| "json_depth (JObj kvs) = Suc (foldr max (map (\<lambda>p. json_depth (snd p)) kvs) 0)"
| "json_depth _ = 1"

lemma foldr_max_le_iff: "foldr max xs 0 \<le> (n::nat) \<longleftrightarrow> (\<forall>x \<in> set xs. x \<le> n)"
  by (induction xs) auto

lemma json_depth_pos [simp]: "0 < json_depth j"
  by (cases j) auto

text \<open>Objects as Python has them: one entry per key.\<close>

fun distinct_json :: "json \<Rightarrow> bool" where
  "distinct_json (JArr vs) = list_all distinct_json vs"
| "distinct_json (JObj kvs) = (distinct (keys kvs) \<and> list_all (\<lambda>p. distinct_json (snd p)) kvs)"
| "distinct_json _ = True"

lemma py_eq_refl: "finite_json j \<Longrightarrow> distinct_json j \<Longrightarrow> py_eq j j"
proof (induction j)
  case (JArr vs)
  then show ?case by (auto simp: list_all2_same list_all_iff)
next
  case (JObj kvs)
  have "py_eq v v" if "(k, v) \<in> set kvs" for k v
    using that JObj by (fastforce simp: list_all_iff)
  with JObj.prems show ?case
    by (auto simp: list_all_iff)
qed (auto simp: num_eq_def)

end
