(* ===== verification/Contracts.thy ===== *)
theory Contracts
  imports Json
begin

text \<open>
  The typed contracts of \<open>contracts.py\<close>: constants, enumerations, the frozen dataclasses as
  records (one field prefix per class, since Isabelle record fields are global names), and the
  exception classes as one datatype. \<open>JobRequirements\<close> brings its two conversions to and from
  the JSON column of the Postgres store, and their round trip.
\<close>

section \<open>Constants\<close>

definition MAX_JOB_ID_LENGTH :: nat where "MAX_JOB_ID_LENGTH = 255"
definition MAX_ASSET_KEY_LENGTH :: nat where "MAX_ASSET_KEY_LENGTH = 1024"
definition MAX_JOB_INPUT_KEYS :: nat where "MAX_JOB_INPUT_KEYS = 16"
definition MAX_JOB_PAYLOAD_BYTES :: nat where "MAX_JOB_PAYLOAD_BYTES = 16384"
definition MAX_JOB_PAYLOAD_DEPTH :: nat where "MAX_JOB_PAYLOAD_DEPTH = 8"
definition MIN_JOB_PRIORITY :: int where "MIN_JOB_PRIORITY = 0"
definition MAX_JOB_PRIORITY :: int where "MAX_JOB_PRIORITY = 1000"
definition MIN_JOB_ATTEMPT_BUDGET :: int where "MIN_JOB_ATTEMPT_BUDGET = 1"
definition MAX_JOB_ATTEMPT_BUDGET :: int where "MAX_JOB_ATTEMPT_BUDGET = 20"
definition MIN_EXECUTION_DEADLINE_SECONDS :: int where "MIN_EXECUTION_DEADLINE_SECONDS = 60"
definition MAX_EXECUTION_DEADLINE_SECONDS :: int where "MAX_EXECUTION_DEADLINE_SECONDS = 7200"
definition MAX_CAPABILITY_ID_LENGTH :: nat where "MAX_CAPABILITY_ID_LENGTH = 128"
definition MAX_WORKER_ID_LENGTH :: nat where "MAX_WORKER_ID_LENGTH = 128"
definition MAX_TENANT_ID_LENGTH :: nat where "MAX_TENANT_ID_LENGTH = 128"
definition MAX_JOB_REQUIREMENT_ENTRIES :: nat where "MAX_JOB_REQUIREMENT_ENTRIES = 16"
definition MAX_REQUIREMENT_VALUE_LENGTH :: nat where "MAX_REQUIREMENT_VALUE_LENGTH = 128"
definition MAX_REQUIREMENT_VRAM_MB :: int where "MAX_REQUIREMENT_VRAM_MB = 1000000"
definition MAX_AUDIT_REASON_LENGTH :: nat where "MAX_AUDIT_REASON_LENGTH = 300"
definition MAX_WORKER_GPUS :: nat where "MAX_WORKER_GPUS = 16"
definition MAX_GPU_NAME_LENGTH :: nat where "MAX_GPU_NAME_LENGTH = 128"
definition POOL_WORKER_ONLINE_WINDOW_SECONDS :: int where
  "POOL_WORKER_ONLINE_WINDOW_SECONDS = 90"
definition POOL_WORKER_VISIBILITY_WINDOW_SECONDS :: int where
  "POOL_WORKER_VISIBILITY_WINDOW_SECONDS = 24 * 60 * 60"
definition PUBLICATION_MODE_IMMUTABLE_CREATE_ONCE :: string where
  "PUBLICATION_MODE_IMMUTABLE_CREATE_ONCE = ''immutable_create_once''"
definition DETERMINISTIC_ECHO_CAPABILITY :: string where
  "DETERMINISTIC_ECHO_CAPABILITY = ''test.deterministic.echo.v1''"
definition ATTEMPT_BUDGET_EXHAUSTED :: string where
  "ATTEMPT_BUDGET_EXHAUSTED = ''attempt budget exhausted''"
definition DEFAULT_READ_PREFIXES :: "string list" where
  "DEFAULT_READ_PREFIXES = [''inputs/'', ''outputs/'']"
definition DEFAULT_OUTPUT_PREFIXES :: "string list" where
  "DEFAULT_OUTPUT_PREFIXES = [''outputs/'']"

lemmas contract_bounds =
  MAX_JOB_ID_LENGTH_def MAX_ASSET_KEY_LENGTH_def MAX_JOB_INPUT_KEYS_def MAX_JOB_PAYLOAD_BYTES_def
  MAX_JOB_PAYLOAD_DEPTH_def MIN_JOB_PRIORITY_def MAX_JOB_PRIORITY_def MIN_JOB_ATTEMPT_BUDGET_def
  MAX_JOB_ATTEMPT_BUDGET_def MIN_EXECUTION_DEADLINE_SECONDS_def MAX_EXECUTION_DEADLINE_SECONDS_def
  MAX_CAPABILITY_ID_LENGTH_def MAX_WORKER_ID_LENGTH_def MAX_TENANT_ID_LENGTH_def
  MAX_JOB_REQUIREMENT_ENTRIES_def MAX_REQUIREMENT_VALUE_LENGTH_def MAX_REQUIREMENT_VRAM_MB_def
  MAX_AUDIT_REASON_LENGTH_def MAX_WORKER_GPUS_def MAX_GPU_NAME_LENGTH_def

section \<open>Enumerations\<close>

datatype job_status = QUEUED | PROCESSING | COMPLETED | FAILED | CANCELLED

datatype job_failure_code =
  INVALID_INPUT | UNSUPPORTED_OPERATION | PROVIDER_UNAVAILABLE | TEMPORARY_FAILURE

datatype worker_status = W_ACTIVE | W_DRAINING | W_REVOKED

datatype cost_class = LOCAL | HOSTED | PREMIUM

datatype audit_event_type =
    WORKER_HEARTBEAT | WORKER_STATUS_CHANGED | WORKER_REVOKED | LEASE_GRANTED | LEASE_EMPTY
  | JOB_HEARTBEAT | JOB_COMPLETED | JOB_FAILED | JOB_RELEASED | COMPLETION_REJECTED
  | AUTH_REJECTED | RATE_LIMITED

datatype pool_worker_status = PW_BUSY | PW_DRAINING | PW_ONLINE | PW_OFFLINE

fun failure_code_str :: "job_failure_code \<Rightarrow> string" where
  "failure_code_str INVALID_INPUT = ''invalid_input''"
| "failure_code_str UNSUPPORTED_OPERATION = ''unsupported_operation''"
| "failure_code_str PROVIDER_UNAVAILABLE = ''provider_unavailable''"
| "failure_code_str TEMPORARY_FAILURE = ''temporary_failure''"

fun worker_status_str :: "worker_status \<Rightarrow> string" where
  "worker_status_str W_ACTIVE = ''active''"
| "worker_status_str W_DRAINING = ''draining''"
| "worker_status_str W_REVOKED = ''revoked''"

section \<open>Exceptions\<close>

text \<open>
  The exception classes the modelled code raises, with the argument a handler or a caller can
  observe. \<open>WorkerIdentityMismatch\<close> is a subclass of \<open>WorkerAuthError\<close>.
\<close>

datatype exn =
    ValueError string
  | TypeError string
  | WorkerAuthError string
  | WorkerIdentityMismatch string
  | WorkerAuthBusy
  | IdentitySubjectTaken string
  | WorkerTenantMismatch string
  | IdempotencyConflict string
  | UniqueViolation string
  | CheckViolation string
  | DataError string
  | KeyError string
  | ProfileNotQualified string
  | AssetNotFound string
  | AssetTooLarge string int "int option"
  | AssetStorageUnavailable
  | RateLimited string
  | WorkerRevoked string
  | WorkerMismatch string
  | WorkerNotRegistered string
  | JobNotFound string
  | StaleLease string
  | CompletionRejected string
  | TransferError string
  | PluginRequestRejected string

fun is_worker_auth_error :: "exn \<Rightarrow> bool" where
  "is_worker_auth_error (WorkerAuthError _) = True"
| "is_worker_auth_error (WorkerIdentityMismatch _) = True"
| "is_worker_auth_error _ = False"

section \<open>Jobs\<close>

record job_requirements =
  min_vram_mb :: "int option"
  gpu_models :: "string list"
  labels :: "string list"
  worker_ids :: "string list"
  runtime_versions :: "(string, string) dict"

definition no_requirements :: job_requirements where
  "no_requirements = \<lparr>min_vram_mb = None, gpu_models = [], labels = [], worker_ids = [],
                      runtime_versions = []\<rparr>"

text \<open>\<open>==\<close> of two \<open>JobRequirements\<close>: the generated dataclass comparison, field by field.\<close>

definition requirements_eq :: "job_requirements \<Rightarrow> job_requirements \<Rightarrow> bool" where
  "requirements_eq a b \<longleftrightarrow>
     min_vram_mb a = min_vram_mb b \<and> gpu_models a = gpu_models b \<and> labels a = labels b \<and>
     worker_ids a = worker_ids b \<and> dict_eq (runtime_versions a) (runtime_versions b)"

definition as_payload :: "job_requirements \<Rightarrow> payload" where
  "as_payload r =
     (case min_vram_mb r of None \<Rightarrow> [] | Some n \<Rightarrow> [(''min_vram_mb'', JInt n)]) @
     (if gpu_models r \<noteq> [] then [(''gpu_models'', JArr (map JStr (gpu_models r)))] else []) @
     (if labels r \<noteq> [] then [(''labels'', JArr (map JStr (labels r)))] else []) @
     (if worker_ids r \<noteq> [] then [(''worker_ids'', JArr (map JStr (worker_ids r)))] else []) @
     (if runtime_versions r \<noteq> []
      then [(''runtime_versions'', JObj (map (\<lambda>(k, v). (k, JStr v)) (runtime_versions r)))] else [])"

text \<open>Truth value of a JSON value, as \<open>x or default\<close> reads it.\<close>

fun truthy :: "json \<Rightarrow> bool" where
  "truthy JNull = False"
| "truthy (JBool b) = b"
| "truthy (JInt i) = (i \<noteq> 0)"
| "truthy (JFloat _ n) = (n \<noteq> Fin 0)"
| "truthy (JStr s) = (s \<noteq> [])"
| "truthy (JArr xs) = (xs \<noteq> [])"
| "truthy (JObj kvs) = (kvs \<noteq> [])"

definition get_or :: "payload \<Rightarrow> string \<Rightarrow> json \<Rightarrow> json" where
  "get_or d k dflt = (if truthy (pget d k) then pget d k else dflt)"

fun is_str :: "json \<Rightarrow> bool" where
  "is_str (JStr _) = True"
| "is_str _ = False"

fun the_str :: "json \<Rightarrow> string" where
  "the_str (JStr s) = s"
| "the_str _ = []"

text \<open>
  \<open>from_payload\<close> applies \<open>str(...)\<close> to the entries of \<open>gpu_models\<close> and \<open>labels\<close>; the argument
  \<open>py_str\<close> is that conversion for the values that are not already strings.
\<close>

definition str_of :: "(json \<Rightarrow> string) \<Rightarrow> json \<Rightarrow> string" where
  "str_of py_str v = (case v of JStr s \<Rightarrow> s | _ \<Rightarrow> py_str v)"

fun int_instance :: "json \<Rightarrow> int option" where
  "int_instance (JInt i) = Some i"
| "int_instance (JBool b) = Some (if b then 1 else 0)"
| "int_instance _ = None"

definition from_payload :: "(json \<Rightarrow> string) \<Rightarrow> payload \<Rightarrow> exn + job_requirements" where
  "from_payload py_str p =
     (let mv = pget p ''min_vram_mb'';
          gm = get_or p ''gpu_models'' (JArr []);
          lb = get_or p ''labels'' (JArr []);
          wi = get_or p ''worker_ids'' (JArr []);
          rv = get_or p ''runtime_versions'' (JObj [])
      in case (gm, lb) of
           (JArr gs, JArr ls) \<Rightarrow>
             if mv \<noteq> JNull \<and> int_instance mv = None
             then Inl (TypeError ''requirements min_vram_mb must be an integer'')
             else (case wi of
               JArr ws \<Rightarrow>
                 if list_all is_str ws
                 then (case rv of
                   JObj vs \<Rightarrow>
                     if list_all (\<lambda>p. is_str (snd p)) vs
                     then Inr \<lparr>min_vram_mb = int_instance mv,
                               gpu_models = map (str_of py_str) gs,
                               labels = map (str_of py_str) ls,
                               worker_ids = map the_str ws,
                               runtime_versions = map (\<lambda>p. (fst p, the_str (snd p))) vs\<rparr>
                     else Inl (TypeError ''requirements runtime_versions must map strings to strings'')
                 | _ \<Rightarrow> Inl (TypeError ''requirements runtime_versions must map strings to strings''))
                 else Inl (TypeError ''requirements worker_ids must be an array of strings'')
             | _ \<Rightarrow> Inl (TypeError ''requirements worker_ids must be an array of strings''))
         | _ \<Rightarrow> Inl (TypeError ''requirements gpu_models and labels must be arrays''))"

lemma str_of_JStr [simp]: "map (str_of f) (map JStr xs) = xs"
  by (simp add: str_of_def o_def)

lemma the_str_JStr [simp]: "map the_str (map JStr xs) = xs"
  by (simp add: o_def)

lemma all_is_str [simp]: "list_all is_str (map JStr xs)"
  by (simp add: list_all_iff)

lemma pget_as_payload:
  "pget (as_payload r) ''min_vram_mb'' =
     (case min_vram_mb r of None \<Rightarrow> JNull | Some n \<Rightarrow> JInt n)"
  "get_or (as_payload r) ''gpu_models'' (JArr []) = JArr (map JStr (gpu_models r))"
  "get_or (as_payload r) ''labels'' (JArr []) = JArr (map JStr (labels r))"
  "get_or (as_payload r) ''worker_ids'' (JArr []) = JArr (map JStr (worker_ids r))"
  "get_or (as_payload r) ''runtime_versions'' (JObj []) =
     JObj (map (\<lambda>(k, v). (k, JStr v)) (runtime_versions r))"
  by (simp_all add: as_payload_def get_or_def pget_def split: option.split)

lemma versions_strings:
  "list_all (\<lambda>p. is_str (snd p)) (map (\<lambda>(k, v). (k, JStr v)) vs)"
  "map (\<lambda>p. (fst p, the_str (snd p))) (map (\<lambda>(k, v). (k, JStr v)) vs) = vs"
  by (induction vs) auto

lemma from_payload_as_payload: "from_payload py_str (as_payload r) = Inr r"
  by (cases "min_vram_mb r")
    (simp_all add: from_payload_def pget_as_payload versions_strings Let_def del: map_map list.map)

text \<open>The JSON form of requirements that \<open>PostgresJobStore.submit\<close> writes is read back
  by \<open>_record\<close> as exactly the requirements submitted, for every combination of set and unset fields.\<close>

theorem requirements_roundtrip: "from_payload py_str (as_payload r) = Inr r"
  by (rule from_payload_as_payload)

record job_submission =
  s_job_id :: string
  s_idempotency_key :: string
  s_capability_id :: string
  s_input_keys :: "string list"
  s_output_key :: string
  s_contract_version :: int
  s_payload :: payload
  s_tenant_id :: "string option"
  s_requirements :: job_requirements
  s_priority :: int
  s_attempt_budget :: int
  s_execution_deadline_seconds :: int

record job_record =
  j_job_id :: string
  j_idempotency_key :: string
  j_capability_id :: string
  j_status :: job_status
  j_input_keys :: "string list"
  j_output_key :: string
  j_attempts :: int
  j_created_at :: time
  j_updated_at :: time
  j_contract_version :: int
  j_payload :: payload
  j_tenant_id :: "string option"
  j_requirements :: job_requirements
  j_priority :: int
  j_attempt_budget :: int
  j_execution_deadline_seconds :: int
  j_request_digest :: string
  j_claim_token :: "string option"
  j_leased_by :: "string option"
  j_executed_by :: "string option"
  j_execution_metadata :: payload
  j_lease_until :: "time option"
  j_output_content_type :: "string option"
  j_output_sha256 :: "string option"
  j_output_byte_length :: "int option"
  j_error :: "string option"
  j_failure_code :: "job_failure_code option"
  j_failure_message :: "string option"
  j_retryable :: bool
  j_progress_percent :: "int option"
  j_cancelled_at :: "time option"

record submission_result =
  sr_record :: job_record
  sr_created :: bool

record asset_descriptor =
  ad_key :: string
  ad_size :: int
  ad_content_type :: "string option"

section \<open>Workers\<close>

record worker_capability =
  wc_capability_id :: string
  wc_plugin_id :: string
  wc_plugin_version :: string
  wc_concurrency :: int

record gpu_telemetry =
  gt_index :: int
  gt_name :: string
  gt_utilization_pct :: "int option"
  gt_memory_used_mb :: "int option"
  gt_memory_total_mb :: "int option"

record worker_registration =
  r_worker_id :: string
  r_capabilities :: "worker_capability list"
  r_tenant_id :: "string option"
  r_gpu_model :: "string option"
  r_vram_mb :: "int option"
  r_runtime_versions :: "(string, string) dict"
  r_cost_class :: cost_class
  r_labels :: "string list"
  r_active_leases :: int
  r_draining :: bool
  r_gpus :: "gpu_telemetry list"
  r_busy_job_id :: "string option"

record worker_record =
  w_worker_id :: string
  w_identity_subject :: string
  w_status :: worker_status
  w_capabilities :: "worker_capability list"
  w_gpu_model :: "string option"
  w_vram_mb :: "int option"
  w_runtime_versions :: "(string, string) dict"
  w_cost_class :: cost_class
  w_labels :: "string list"
  w_active_leases :: int
  w_last_heartbeat_at :: "time option"
  w_created_at :: time
  w_updated_at :: time
  w_revoked_at :: "time option"
  w_gpus :: "gpu_telemetry list"
  w_busy_job_id :: "string option"
  w_tenant_id :: "string option"

definition capability_ids :: "worker_record \<Rightarrow> string list" where
  "capability_ids w = map wc_capability_id (w_capabilities w)"

record pool_worker_view =
  pv_worker_id :: string
  pv_status :: pool_worker_status
  pv_last_heartbeat_at :: "time option"
  pv_capability_ids :: "string list"
  pv_gpus :: "gpu_telemetry list"
  pv_busy_job_id :: "string option"
  pv_draining :: bool
  pv_tenant_id :: "string option"
  pv_gpu_model :: "string option"
  pv_vram_mb :: "int option"
  pv_runtime_versions :: "(string, string) dict"

record capability_queue_depth =
  cq_queued :: nat
  cq_processing :: nat

record queue_depth =
  qd_queued :: nat
  qd_processing :: nat
  qd_by_capability :: "(string, capability_queue_depth) dict"
  qd_online_workers_by_capability :: "(string, nat) dict"

record worker_identity =
  id_worker_id :: string
  id_subject :: string
  id_method :: string

section \<open>Audit, schemas, grants and manifests\<close>

record audit_event =
  ae_event_type :: audit_event_type
  ae_worker_id :: "string option"
  ae_job_id :: "string option"
  ae_detail :: payload
  ae_created_at :: time

record capability_schema =
  cs_capability_id :: string
  cs_contract_version :: int
  cs_input_schema :: payload

record asset_grant =
  ag_key :: string
  ag_url :: string
  ag_method :: string
  ag_expires_at :: time
  ag_content_type :: "string option"

record lease_grant =
  lg_job_id :: string
  lg_claim_token :: string
  lg_lease_until :: time
  lg_execution_deadline_seconds :: int
  lg_capability_id :: string
  lg_contract_version :: int
  lg_request_digest :: string
  lg_idempotency_key :: string
  lg_input_keys :: "string list"
  lg_output_key :: string
  lg_payload :: payload
  lg_input_grants :: "asset_grant list"
  lg_output_grant :: asset_grant
  lg_tenant_id :: "string option"

record output_manifest =
  m_output_key :: string
  m_content_type :: string
  m_byte_length :: int
  m_sha256 :: string
  m_idempotency_key :: string
  m_request_digest :: string
  m_plugin_id :: string
  m_plugin_version :: string
  m_model_id :: string
  m_model_version :: string
  m_publication_mode :: string
  m_seed :: "int option"
  m_diagnostics :: payload

text \<open>Enumerations and failure codes have decidable equality and a linear order, so the library's
  containers and sorting apply to them.\<close>

instantiation job_status :: linorder
begin

definition job_status_rank :: "job_status \<Rightarrow> nat" where
  "job_status_rank s = (case s of QUEUED \<Rightarrow> 0 | PROCESSING \<Rightarrow> 1 | COMPLETED \<Rightarrow> 2 | FAILED \<Rightarrow> 3
                        | CANCELLED \<Rightarrow> 4)"

definition less_eq_job_status :: "job_status \<Rightarrow> job_status \<Rightarrow> bool" where
  "less_eq_job_status a b = (job_status_rank a \<le> job_status_rank b)"

definition less_job_status :: "job_status \<Rightarrow> job_status \<Rightarrow> bool" where
  "less_job_status a b = (job_status_rank a < job_status_rank b)"

instance
  by standard
    (auto simp: less_eq_job_status_def less_job_status_def job_status_rank_def split: job_status.splits)

end

end
