(* ===== verification/Regex.thy ===== *)
theory Regex
  imports Prelude
begin

text \<open>
  Regular expressions as the program uses Python's \<open>re\<close>: character classes, concatenation,
  alternatives, star and bounded repetition, matched by derivatives. \<open>full_match\<close> is
  \<open>re.fullmatch\<close>; \<open>match_dollar\<close> is \<open>re.match\<close> of a pattern \<open>^...$\<close>, whose \<open>$\<close> also matches
  just before one final newline.
\<close>

datatype re =
    Nope
  | Eps
  | Cls "char \<Rightarrow> bool"
  | Seq re re
  | Alt re re
  | Star re

fun nullable :: "re \<Rightarrow> bool" where
  "nullable Nope = False"
| "nullable Eps = True"
| "nullable (Cls p) = False"
| "nullable (Seq a b) = (nullable a \<and> nullable b)"
| "nullable (Alt a b) = (nullable a \<or> nullable b)"
| "nullable (Star a) = True"

fun deriv :: "char \<Rightarrow> re \<Rightarrow> re" where
  "deriv c Nope = Nope"
| "deriv c Eps = Nope"
| "deriv c (Cls p) = (if p c then Eps else Nope)"
| "deriv c (Seq a b) =
     (if nullable a then Alt (Seq (deriv c a) b) (deriv c b) else Seq (deriv c a) b)"
| "deriv c (Alt a b) = Alt (deriv c a) (deriv c b)"
| "deriv c (Star a) = Seq (deriv c a) (Star a)"

fun full_match :: "re \<Rightarrow> string \<Rightarrow> bool" where
  "full_match r [] = nullable r"
| "full_match r (c # cs) = full_match (deriv c r) cs"

definition match_dollar :: "re \<Rightarrow> string \<Rightarrow> bool" where
  "match_dollar r s =
     (full_match r s \<or> (s \<noteq> [] \<and> last s = CHR 0x0A \<and> full_match r (butlast s)))"

definition Plus :: "re \<Rightarrow> re" where
  "Plus r = Seq r (Star r)"

definition Lit :: "string \<Rightarrow> re" where
  "Lit s = foldr (\<lambda>c r. Seq (Cls (\<lambda>x. x = c)) r) s Eps"

text \<open>\<open>r{0,n}\<close> and \<open>r{n}\<close>\<close>

primrec upto_times :: "nat \<Rightarrow> re \<Rightarrow> re" where
  "upto_times 0 r = Eps"
| "upto_times (Suc n) r = Alt Eps (Seq r (upto_times n r))"

primrec times_re :: "nat \<Rightarrow> re \<Rightarrow> re" where
  "times_re 0 r = Eps"
| "times_re (Suc n) r = Seq r (times_re n r)"

section \<open>What the matcher accepts\<close>

inductive in_lang :: "re \<Rightarrow> string \<Rightarrow> bool" where
  eps: "in_lang Eps []"
| cls: "p c \<Longrightarrow> in_lang (Cls p) [c]"
| seq: "in_lang a s \<Longrightarrow> in_lang b t \<Longrightarrow> in_lang (Seq a b) (s @ t)"
| alt1: "in_lang a s \<Longrightarrow> in_lang (Alt a b) s"
| alt2: "in_lang b s \<Longrightarrow> in_lang (Alt a b) s"
| star0: "in_lang (Star a) []"
| star1: "in_lang a s \<Longrightarrow> in_lang (Star a) t \<Longrightarrow> in_lang (Star a) (s @ t)"

inductive_cases in_lang_cases [elim!]:
  "in_lang Nope s" "in_lang Eps s" "in_lang (Cls p) s" "in_lang (Seq a b) s" "in_lang (Alt a b) s"

lemma nullable_iff: "nullable r \<longleftrightarrow> in_lang r []"
proof (induction r)
  case (Seq a b)
  then show ?case using in_lang.seq [of a "[]" b "[]"] by auto
qed (auto intro: in_lang.intros)

lemma star_Cons:
  assumes "in_lang (Star a) (c # cs)"
  shows "\<exists>s t. cs = s @ t \<and> in_lang a (c # s) \<and> in_lang (Star a) t"
  using assms
proof (induction "Star a" "c # cs" arbitrary: c cs rule: in_lang.induct)
  case (star1 s t)
  then show ?case by (cases s) auto
qed

lemma deriv_iff: "in_lang (deriv c r) cs \<longleftrightarrow> in_lang r (c # cs)"
proof (induction r arbitrary: cs)
  case (Seq a b)
  show ?case
  proof
    assume "in_lang (deriv c (Seq a b)) cs"
    then consider s t where "cs = s @ t" "in_lang (deriv c a) s" "in_lang b t"
      | "nullable a" "in_lang (deriv c b) cs"
      by (auto split: if_splits)
    then show "in_lang (Seq a b) (c # cs)"
    proof cases
      case 1
      then show ?thesis using Seq.IH(1) in_lang.seq [of a "c # s" b t] by simp
    next
      case 2
      then show ?thesis using Seq.IH(2) in_lang.seq [of a "[]" b "c # cs"] by (simp add: nullable_iff)
    qed
  next
    assume "in_lang (Seq a b) (c # cs)"
    then obtain s t where st: "c # cs = s @ t" "in_lang a s" "in_lang b t" by auto
    show "in_lang (deriv c (Seq a b)) cs"
    proof (cases s)
      case Nil
      with st Seq.IH(2) show ?thesis by (auto simp: nullable_iff intro: in_lang.intros)
    next
      case (Cons x s')
      with st have "cs = s' @ t" "in_lang (deriv c a) s'" using Seq.IH(1) by auto
      with st show ?thesis by (auto intro: in_lang.intros)
    qed
  qed
next
  case (Star a)
  show ?case
  proof
    assume "in_lang (deriv c (Star a)) cs"
    then obtain s t where "cs = s @ t" "in_lang (deriv c a) s" "in_lang (Star a) t" by auto
    then show "in_lang (Star a) (c # cs)"
      using Star.IH in_lang.star1 [of a "c # s" t] by simp
  next
    assume "in_lang (Star a) (c # cs)"
    then show "in_lang (deriv c (Star a)) cs"
      using Star.IH by (auto dest!: star_Cons intro: in_lang.intros)
  qed
qed (auto intro: in_lang.intros)

theorem full_match_iff: "full_match r s \<longleftrightarrow> in_lang r s"
  by (induction s arbitrary: r) (auto simp: nullable_iff deriv_iff)

text \<open>Every character of a matched string is in some class of the expression.\<close>

fun re_chars :: "re \<Rightarrow> char \<Rightarrow> bool" where
  "re_chars (Cls p) c = p c"
| "re_chars (Seq a b) c = (re_chars a c \<or> re_chars b c)"
| "re_chars (Alt a b) c = (re_chars a c \<or> re_chars b c)"
| "re_chars (Star a) c = re_chars a c"
| "re_chars _ c = False"

lemma in_lang_chars: "in_lang r s \<Longrightarrow> c \<in> set s \<Longrightarrow> re_chars r c"
  by (induction rule: in_lang.induct) auto

lemma full_match_chars: "full_match r s \<Longrightarrow> c \<in> set s \<Longrightarrow> re_chars r c"
  by (simp add: full_match_iff in_lang_chars)

lemma match_dollar_chars:
  assumes "match_dollar r s" "c \<in> set (butlast s)"
  shows "re_chars r c"
  using assms by (auto simp: match_dollar_def dest: full_match_chars in_set_butlastD)

fun max_len :: "re \<Rightarrow> nat option" where
  "max_len Nope = Some 0"
| "max_len Eps = Some 0"
| "max_len (Cls p) = Some 1"
| "max_len (Seq a b) = (case (max_len a, max_len b) of (Some x, Some y) \<Rightarrow> Some (x + y) | _ \<Rightarrow> None)"
| "max_len (Alt a b) = (case (max_len a, max_len b) of (Some x, Some y) \<Rightarrow> Some (max x y) | _ \<Rightarrow> None)"
| "max_len (Star a) = None"

lemma in_lang_max_len: "in_lang r s \<Longrightarrow> max_len r = Some n \<Longrightarrow> length s \<le> n"
  by (induction arbitrary: n rule: in_lang.induct) (fastforce split: option.splits)+

lemma max_len_upto [simp]: "max_len (upto_times n (Cls p)) = Some n"
  by (induction n) auto

lemma re_chars_upto: "re_chars (upto_times n r) c \<Longrightarrow> re_chars r c"
  by (induction n) auto

end
