(* ===== verification/Enrollment.thy ===== *)
theory Enrollment
  imports Contracts Regex
begin

text \<open>
  \<open>enrollment.py\<close>: the operator's allowlist of workers, from its JSON configuration. The text is
  read by \<open>json.loads\<close>, an argument here: it gives the document with objects as the lists of
  their pairs in source order (duplicates included), which is what \<open>object_pairs_hook\<close> sees.
\<close>

definition lower_digit :: "char \<Rightarrow> bool" where
  "lower_digit c = (is_lower_ascii c \<or> is_digit_ascii c)"

definition WORKER_ID_PATTERN :: re where
  "WORKER_ID_PATTERN =
     Seq (Cls lower_digit) (upto_times 127 (Cls (\<lambda>c. lower_digit c \<or> c = CHR ''-'')))"

record worker_enrollment =
  we_identity_subject :: string
  we_tenant_id :: "string option"

definition bounded_stripped :: "nat \<Rightarrow> string \<Rightarrow> bool" where
  "bounded_stripped m s \<longleftrightarrow> 1 \<le> length s \<and> length s \<le> m \<and> s = strip s"

text \<open>\<open>WorkerEnrollment(identity_subject, tenant_id)\<close> with its \<open>__post_init__\<close>.\<close>

definition mk_enrollment :: "string \<Rightarrow> string option \<Rightarrow> exn + worker_enrollment" where
  "mk_enrollment subject tenant =
     ebind (ensure (bounded_stripped 255 subject)
       (ValueError ''enrollment needs a nonempty, bounded identity subject'')) (\<lambda>_.
     ebind (ensure (case tenant of None \<Rightarrow> True | Some t \<Rightarrow> bounded_stripped MAX_TENANT_ID_LENGTH t)
       (ValueError ''enrollment tenant must be a bounded string or null'')) (\<lambda>_.
     Inr \<lparr>we_identity_subject = subject, we_tenant_id = tenant\<rparr>))"

type_synonym enrollments = "(string, worker_enrollment) dict"

text \<open>The loop of \<open>validate_enrollments\<close> with its set of subjects.\<close>

fun enrollments_loop :: "string list \<Rightarrow> enrollments \<Rightarrow> exn + unit" where
  "enrollments_loop subjects [] = Inr ()"
| "enrollments_loop subjects ((worker_id, e) # es) =
     (if \<not> full_match WORKER_ID_PATTERN worker_id then Inl (ValueError ''invalid enrolled worker id'')
      else if we_identity_subject e \<in> set subjects
      then Inl (ValueError ''an identity subject cannot enroll two workers'')
      else enrollments_loop (we_identity_subject e # subjects) es)"

definition validate_enrollments :: "enrollments option \<Rightarrow> exn + enrollments" where
  "validate_enrollments es =
     (let result = (case es of None \<Rightarrow> [] | Some d \<Rightarrow> d)
      in ebind (enrollments_loop [] result) (\<lambda>_. Inr result))"

text \<open>\<open>unique_object\<close> as the hook sees every object of the document, innermost first.\<close>

fun unique_objects :: "json \<Rightarrow> bool" where
  "unique_objects (JArr vs) = list_all unique_objects vs"
| "unique_objects (JObj kvs) = (list_all (\<lambda>p. unique_objects (snd p)) kvs \<and> distinct (keys kvs))"
| "unique_objects _ = True"

definition BAD_ENROLLMENTS :: exn where
  "BAD_ENROLLMENTS = ValueError ''invalid OGWP_WORKER_ENROLLMENTS configuration''"

definition enrollment_entry :: "json \<Rightarrow> exn + worker_enrollment" where
  "enrollment_entry entry =
     (case entry of
        JObj kvs \<Rightarrow>
          if set (keys kvs) = {''identity_subject'', ''tenant_id''}
          then
            (case (pget kvs ''identity_subject'', pget kvs ''tenant_id'') of
               (JStr s, JNull) \<Rightarrow> mk_enrollment s None
             | (JStr s, JStr t) \<Rightarrow> mk_enrollment s (Some t)
             | (JStr s, _) \<Rightarrow> Inl (ValueError ''enrollment tenant must be a bounded string or null'')
             | _ \<Rightarrow> Inl (ValueError ''enrollment needs a nonempty, bounded identity subject''))
          else Inl (ValueError ''expected identity_subject and explicit tenant_id'')
      | _ \<Rightarrow> Inl (ValueError ''expected identity_subject and explicit tenant_id''))"

definition enrollments_from_json :: "(string \<Rightarrow> json option) \<Rightarrow> string option \<Rightarrow> exn + enrollments" where
  "enrollments_from_json loads val =
     (if val = None \<or> val = Some [] then Inr []
      else
        (case loads (the val) of
           Some (JObj data) \<Rightarrow>
             if unique_objects (JObj data)
             then
               (case ebind (map_result (\<lambda>p. ebind (enrollment_entry (snd p)) (\<lambda>e. Inr (fst p, e))) data)
                       (\<lambda>es. validate_enrollments (Some es)) of
                  Inr es \<Rightarrow> Inr es
                | Inl _ \<Rightarrow> Inl BAD_ENROLLMENTS)
             else Inl BAD_ENROLLMENTS
         | _ \<Rightarrow> Inl BAD_ENROLLMENTS))"

section \<open>What an accepted allowlist is\<close>

definition enrollment_ok :: "worker_enrollment \<Rightarrow> bool" where
  "enrollment_ok e \<longleftrightarrow> bounded_stripped 255 (we_identity_subject e) \<and>
     (case we_tenant_id e of None \<Rightarrow> True | Some t \<Rightarrow> bounded_stripped MAX_TENANT_ID_LENGTH t)"

lemma mk_enrollment_iff:
  "mk_enrollment s t = Inr e \<longleftrightarrow>
     e = \<lparr>we_identity_subject = s, we_tenant_id = t\<rparr> \<and> enrollment_ok e"
  by (auto simp: mk_enrollment_def enrollment_ok_def result_simps)

lemma enrollments_loop_iff:
  "enrollments_loop subjects es = Inr () \<longleftrightarrow>
     list_all (\<lambda>p. full_match WORKER_ID_PATTERN (fst p)) es \<and>
     distinct (map (\<lambda>p. we_identity_subject (snd p)) es) \<and>
     set subjects \<inter> set (map (\<lambda>p. we_identity_subject (snd p)) es) = {}"
  by (induction subjects es rule: enrollments_loop.induct) auto

lemma validate_enrollments_iff:
  "validate_enrollments (Some es) = Inr es' \<longleftrightarrow>
     es' = es \<and> list_all (\<lambda>p. full_match WORKER_ID_PATTERN (fst p)) es \<and>
     distinct (map (\<lambda>p. we_identity_subject (snd p)) es)"
  by (auto simp: validate_enrollments_def result_simps enrollments_loop_iff)

lemma enrollment_entry_ok: "enrollment_entry j = Inr e \<Longrightarrow> enrollment_ok e"
  by (auto simp: enrollment_entry_def mk_enrollment_iff split: json.splits if_splits)

text \<open>Every allowlist read from the configuration is safe to admit workers by: worker
  ids are distinct and of the permitted form, no identity subject enrolls two workers, and every
  entry has a bounded, stripped subject and an explicit tenant. Every other configuration is
  refused with the one error that repeats none of its text.\<close>

theorem enrollments_from_json_safe:
  "case enrollments_from_json loads val of
     Inl e \<Rightarrow> e = BAD_ENROLLMENTS
   | Inr es \<Rightarrow> distinct (keys es) \<and> distinct (map (\<lambda>p. we_identity_subject (snd p)) es) \<and>
       list_all (\<lambda>(k, e). full_match WORKER_ID_PATTERN k \<and> enrollment_ok e) es"
proof (cases "enrollments_from_json loads val")
  case (Inl e)
  then show ?thesis
    by (auto simp: enrollments_from_json_def split: if_splits option.splits json.splits sum.splits)
next
  case (Inr es)
  show ?thesis
  proof (cases "val = None \<or> val = Some []")
    case True
    with Inr show ?thesis by (auto simp: enrollments_from_json_def)
  next
    case False
    with Inr obtain data es0 where d: "loads (the val) = Some (JObj data)" "unique_objects (JObj data)"
        "map_result (\<lambda>p. ebind (enrollment_entry (snd p)) (\<lambda>e. Inr (fst p, e))) data = Inr es0"
        "validate_enrollments (Some es0) = Inr es"
      by (auto simp: enrollments_from_json_def ebind_Inr_iff
          split: if_splits option.splits json.splits sum.splits)
    have all: "list_all2 (\<lambda>p q. fst q = fst p \<and> enrollment_ok (snd q)) data es0"
      using d(3) unfolding map_result_Inr_iff
      by (rule list_all2_mono) (auto simp: result_simps dest: enrollment_entry_ok)
    then have "keys es0 = keys data"
      by (simp add: list_all2_conv_all_nth list_eq_iff_nth_eq)
    moreover have "list_all (\<lambda>q. enrollment_ok (snd q)) es0"
      using all by (auto simp: list_all2_conv_all_nth list_all_length)
    ultimately show ?thesis
      using Inr d(2,4) by (auto simp: validate_enrollments_iff list_all_iff)
  qed
qed

end
