(* ===== verification/Validation.thy ===== *)
theory Validation
  imports Contracts Regex
begin

text \<open>
  \<open>validation.py\<close>: the capability id pattern, the canonical request digest, the bounds on a
  submission and its requirements, and the payload check. \<open>_validate_json_tree\<close> is modelled
  twice: here on JSON trees (\<open>tree_loop\<close>, the worklist of the source), where no container repeats, and
  in ObjectGraph on Python objects with identity, where the repeated-container branches live.
\<close>

section \<open>Capability ids\<close>

definition lower_digit_us :: "char \<Rightarrow> bool" where
  "lower_digit_us c = (is_lower_ascii c \<or> is_digit_ascii c \<or> c = CHR ''_'')"

definition CAPABILITY_ID_PATTERN :: re where
  "CAPABILITY_ID_PATTERN =
     Seq (Cls is_lower_ascii)
    (Seq (Star (Cls lower_digit_us))
    (Seq (Star (Seq (Lit ''.'') (Plus (Cls (\<lambda>c. lower_digit_us c \<or> c = CHR ''-'')))))
    (Seq (Lit ''.v'') (Plus (Cls is_digit_ascii)))))"

definition validate_capability_id :: "string \<Rightarrow> exn + string" where
  "validate_capability_id capability_id =
     (if capability_id = [] \<or> MAX_CAPABILITY_ID_LENGTH < length capability_id
         \<or> \<not> match_dollar CAPABILITY_ID_PATTERN capability_id
      then Inl (ValueError ''capability_id must look like namespace.name.v1'')
      else Inr capability_id)"

section \<open>Digest\<close>

definition NOT_JSON :: exn where
  "NOT_JSON = ValueError ''Out of range float values are not JSON compliant''"

definition json_dumps :: "json \<Rightarrow> exn + string" where
  "json_dumps j = (if finite_json j then Inr (enc j) else Inl NOT_JSON)"

definition digest_fields :: "job_submission \<Rightarrow> json" where
  "digest_fields sub = JObj [
     (''capability_id'', JStr (s_capability_id sub)),
     (''contract_version'', JInt (s_contract_version sub)),
     (''input_keys'', JArr (map JStr (s_input_keys sub))),
     (''output_key'', JStr (s_output_key sub)),
     (''payload'', JObj (s_payload sub))]"

definition job_request_digest :: "job_submission \<Rightarrow> exn + string" where
  "job_request_digest sub =
     ebind (json_dumps (digest_fields sub)) (\<lambda>canonical. Inr (sha256_hex (encode canonical)))"

section \<open>Payload\<close>

text \<open>The work left on the stack shrinks when a container is replaced by its children.\<close>

lemma sum_list_rev_nat: "sum_list (map f (rev xs)) = (sum_list (map f xs) :: nat)"
  by (simp add: rev_map [symmetric] sum_list_rev)

lemma json_size_obj: "sum_list (map (\<lambda>p. Suc (size (snd p))) kvs) \<le> size (JObj kvs)"
  by (induction kvs) auto

lemma json_size_arr: "sum_list (map (\<lambda>v. Suc (size v)) vs) \<le> size (JArr vs)"
  by (induction vs) auto

lemma tree_loop_obj_smaller:
  "sum_list (map (\<lambda>p. Suc (size (fst p))) (rev (map (\<lambda>p. (snd p, n)) kvs) @ stack))
     < sum_list (map (\<lambda>p. Suc (size (fst p))) ((JObj kvs, m) # stack))"
  using json_size_obj [of kvs] by (simp add: rev_map [symmetric] sum_list_rev_nat o_def)

lemma tree_loop_arr_smaller:
  "sum_list (map (\<lambda>p. Suc (size (fst p))) (rev (map (\<lambda>v. (v, n)) vs) @ stack))
     < sum_list (map (\<lambda>p. Suc (size (fst p))) ((JArr vs, m) # stack))"
  using json_size_arr [of vs] by (simp add: rev_map [symmetric] sum_list_rev_nat o_def)

text \<open>The loop of \<open>_validate_json_tree\<close>; the head of the list is the top of the stack, and
  \<open>stack.extend\<close> leaves the last child on top.\<close>

function tree_loop :: "(json \<times> nat) list \<Rightarrow> exn + unit" where
  "tree_loop [] = Inr ()"
| "tree_loop ((v, depth) # stack) =
     (if MAX_JOB_PAYLOAD_DEPTH < depth
      then Inl (ValueError (''job payload exceeds depth '' @ nat_str MAX_JOB_PAYLOAD_DEPTH))
      else case v of
        JObj kvs \<Rightarrow> tree_loop (rev (map (\<lambda>p. (snd p, depth + 1)) kvs) @ stack)
      | JArr vs \<Rightarrow> tree_loop (rev (map (\<lambda>x. (x, depth + 1)) vs) @ stack)
      | JFloat _ n \<Rightarrow>
          (case n of Fin _ \<Rightarrow> tree_loop stack
           | _ \<Rightarrow> Inl (ValueError ''job payload numbers must be finite''))
      | _ \<Rightarrow> tree_loop stack)"
  by pat_completeness auto

termination
  by (relation "measure (\<lambda>st. sum_list (map (\<lambda>p. Suc (size (fst p))) st))")
    (simp_all only: tree_loop_obj_smaller tree_loop_arr_smaller in_measure wf_measure, simp_all)

definition validate_json_tree :: "json \<Rightarrow> exn + unit" where
  "validate_json_tree v = tree_loop [(v, 1)]"

definition validate_job_payload :: "payload \<Rightarrow> exn + unit" where
  "validate_job_payload p =
     ebind (validate_json_tree (JObj p)) (\<lambda>_.
     ebind (json_dumps (JObj p)) (\<lambda>text.
     ensure (length (encode text) \<le> MAX_JOB_PAYLOAD_BYTES)
       (ValueError (''job payload exceeds '' @ nat_str MAX_JOB_PAYLOAD_BYTES @ '' bytes''))))"

section \<open>Requirements and submissions\<close>

definition requirement_entries :: "string \<Rightarrow> string list \<Rightarrow> exn + unit" where
  "requirement_entries label vals =
     ebind (ensure (length vals \<le> MAX_JOB_REQUIREMENT_ENTRIES)
        (ValueError (label @ '' must hold at most '' @ nat_str MAX_JOB_REQUIREMENT_ENTRIES
                     @ '' entries''))) (\<lambda>_.
     for_each (\<lambda>v. ensure (v \<noteq> [] \<and> length v \<le> MAX_REQUIREMENT_VALUE_LENGTH)
        (ValueError (label @ '' entries must contain 1 to ''
                     @ nat_str MAX_REQUIREMENT_VALUE_LENGTH @ '' characters''))) vals)"

definition validate_job_requirements :: "job_requirements \<Rightarrow> exn + unit" where
  "validate_job_requirements r =
     ebind (ensure (case min_vram_mb r of None \<Rightarrow> True
                    | Some n \<Rightarrow> 0 \<le> n \<and> n \<le> MAX_REQUIREMENT_VRAM_MB)
        (ValueError (''min_vram_mb must be between 0 and '' @ int_str MAX_REQUIREMENT_VRAM_MB)))
     (\<lambda>_. for_each (\<lambda>(label, vals). requirement_entries label vals)
        [(''gpu_models'', gpu_models r),
         (''labels'', labels r),
         (''worker_ids'', worker_ids r),
         (''runtime_versions'', keys (runtime_versions r) @ dvalues (runtime_versions r))])"

definition check_text :: "string \<times> string option \<times> nat \<Rightarrow> exn + unit" where
  "check_text = (\<lambda>(label, value, maximum).
     ensure (case value of None \<Rightarrow> True | Some v \<Rightarrow> v \<noteq> [] \<and> length v \<le> maximum)
       (ValueError (label @ '' must contain 1 to '' @ nat_str maximum @ '' characters'')))"

definition check_range :: "string \<times> int \<times> int \<times> int \<Rightarrow> exn + unit" where
  "check_range = (\<lambda>(label, value, minimum, maximum).
     ensure (minimum \<le> value \<and> value \<le> maximum)
       (ValueError (label @ '' must be between '' @ int_str minimum @ '' and '' @ int_str maximum)))"

definition validate_job_submission :: "job_submission \<Rightarrow> exn + unit" where
  "validate_job_submission sub =
     ebind (for_each check_text
       [(''job_id'', Some (s_job_id sub), MAX_JOB_ID_LENGTH),
        (''idempotency_key'', Some (s_idempotency_key sub), MAX_JOB_ID_LENGTH),
        (''tenant_id'', s_tenant_id sub, MAX_JOB_ID_LENGTH),
        (''output_key'', Some (s_output_key sub), MAX_ASSET_KEY_LENGTH)]) (\<lambda>_.
     ebind (ensure (length (s_input_keys sub) \<le> MAX_JOB_INPUT_KEYS)
       (ValueError (''input_keys must hold at most '' @ nat_str MAX_JOB_INPUT_KEYS
                    @ '' entries''))) (\<lambda>_.
     ebind (for_each (\<lambda>key. ensure (key \<noteq> [] \<and> length key \<le> MAX_ASSET_KEY_LENGTH)
       (ValueError (''input_keys entries must contain 1 to '' @ nat_str MAX_ASSET_KEY_LENGTH
                    @ '' characters''))) (s_input_keys sub)) (\<lambda>_.
     ebind (ensure (length (remdups (s_input_keys sub)) = length (s_input_keys sub))
       (ValueError ''input_keys must not repeat a key'')) (\<lambda>_.
     ebind (ensure (1 \<le> s_contract_version sub)
       (ValueError ''contract_version must be positive'')) (\<lambda>_.
     ebind (validate_capability_id (s_capability_id sub)) (\<lambda>_.
     ebind (for_each check_range
       [(''priority'', s_priority sub, MIN_JOB_PRIORITY, MAX_JOB_PRIORITY),
        (''attempt_budget'', s_attempt_budget sub, MIN_JOB_ATTEMPT_BUDGET, MAX_JOB_ATTEMPT_BUDGET),
        (''execution_deadline_seconds'', s_execution_deadline_seconds sub,
         MIN_EXECUTION_DEADLINE_SECONDS, MAX_EXECUTION_DEADLINE_SECONDS)]) (\<lambda>_.
     ebind (validate_job_requirements (s_requirements sub)) (\<lambda>_.
     validate_job_payload (s_payload sub)))))))))"

section \<open>What the checks establish\<close>

abbreviation tree_item_ok :: "json \<times> nat \<Rightarrow> bool" where
  "tree_item_ok p \<equiv> snd p \<le> MAX_JOB_PAYLOAD_DEPTH \<and>
     json_depth (fst p) + snd p \<le> Suc MAX_JOB_PAYLOAD_DEPTH \<and> finite_json (fst p)"

lemma children_depth:
  assumes "d \<le> (m::nat)" "\<And>x. x \<in> set xs \<Longrightarrow> 0 < f x"
  shows "Suc (foldr max (map f xs) 0) + d \<le> Suc m \<longleftrightarrow>
           (\<forall>x \<in> set xs. Suc d \<le> m \<and> f x + Suc d \<le> Suc m)"
  using assms foldr_max_le_iff [of "map f xs" "m - d"] by fastforce

lemma tree_loop_iff: "tree_loop st = Inr () \<longleftrightarrow> (\<forall>p \<in> set st. tree_item_ok p)"
proof (induction st rule: tree_loop.induct)
  case (2 v depth stack)
  show ?case
  proof (cases "MAX_JOB_PAYLOAD_DEPTH < depth")
    case False
    then have d: "depth \<le> MAX_JOB_PAYLOAD_DEPTH" by simp
    show ?thesis
    proof (cases v)
      case (JArr vs)
      show ?thesis
        using "2.IH"(6) [OF False JArr] False d
          children_depth [OF d, of vs json_depth]
        by (simp add: JArr list_all_iff ball_Un) blast
    next
      case (JObj kvs)
      show ?thesis
        using "2.IH"(7) [OF False JObj] False d
          children_depth [OF d, of kvs "\<lambda>p. json_depth (snd p)"]
        by (simp add: JObj list_all_iff ball_Un) blast
    next
      case (JFloat r n)
      then show ?thesis using d "2.IH"(4) [OF False JFloat] by (cases n) simp_all
    qed (use d "2.IH"(1,2,3,5) False in simp_all)
  qed auto
qed simp

lemma validate_json_tree_iff:
  "validate_json_tree j = Inr () \<longleftrightarrow> json_depth j \<le> MAX_JOB_PAYLOAD_DEPTH \<and> finite_json j"
  by (auto simp: validate_json_tree_def tree_loop_iff MAX_JOB_PAYLOAD_DEPTH_def simp del: tree_loop.simps)

lemma json_dumps_Inr [result_simps]: "json_dumps j = Inr t \<longleftrightarrow> finite_json j \<and> t = enc j"
  by (auto simp: json_dumps_def)

lemma validate_job_payload_iff:
  "validate_job_payload p = Inr () \<longleftrightarrow>
     json_depth (JObj p) \<le> MAX_JOB_PAYLOAD_DEPTH \<and> finite_json (JObj p) \<and>
     length (encode (enc (JObj p))) \<le> MAX_JOB_PAYLOAD_BYTES"
  by (auto simp: validate_job_payload_def result_simps validate_json_tree_iff simp del: finite_json.simps
      json_depth.simps enc.simps)

lemma validate_capability_id_iff:
  "validate_capability_id c = Inr c' \<longleftrightarrow>
     c' = c \<and> c \<noteq> [] \<and> length c \<le> MAX_CAPABILITY_ID_LENGTH \<and> match_dollar CAPABILITY_ID_PATTERN c"
  by (auto simp: validate_capability_id_def)

definition requirements_ok :: "job_requirements \<Rightarrow> bool" where
  "requirements_ok r \<longleftrightarrow>
     (case min_vram_mb r of None \<Rightarrow> True | Some n \<Rightarrow> 0 \<le> n \<and> n \<le> MAX_REQUIREMENT_VRAM_MB) \<and>
     list_all (\<lambda>vals. length vals \<le> MAX_JOB_REQUIREMENT_ENTRIES \<and>
        list_all (\<lambda>v. v \<noteq> [] \<and> length v \<le> MAX_REQUIREMENT_VALUE_LENGTH) vals)
       [gpu_models r, labels r, worker_ids r, keys (runtime_versions r) @ dvalues (runtime_versions r)]"

lemma requirement_entries_iff [result_simps]:
  "requirement_entries l vals = Inr () \<longleftrightarrow>
     length vals \<le> MAX_JOB_REQUIREMENT_ENTRIES \<and>
     list_all (\<lambda>v. v \<noteq> [] \<and> length v \<le> MAX_REQUIREMENT_VALUE_LENGTH) vals"
  by (auto simp: requirement_entries_def result_simps list_all_iff)

lemma validate_job_requirements_iff:
  "validate_job_requirements r = Inr () \<longleftrightarrow> requirements_ok r"
  by (simp add: validate_job_requirements_def requirements_ok_def result_simps)

text \<open>The bounds every stored job satisfies, as one predicate on the submission.\<close>

definition submission_ok :: "job_submission \<Rightarrow> bool" where
  "submission_ok sub \<longleftrightarrow>
     s_job_id sub \<noteq> [] \<and> length (s_job_id sub) \<le> MAX_JOB_ID_LENGTH \<and>
     s_idempotency_key sub \<noteq> [] \<and> length (s_idempotency_key sub) \<le> MAX_JOB_ID_LENGTH \<and>
     (case s_tenant_id sub of None \<Rightarrow> True | Some t \<Rightarrow> t \<noteq> [] \<and> length t \<le> MAX_JOB_ID_LENGTH) \<and>
     s_output_key sub \<noteq> [] \<and> length (s_output_key sub) \<le> MAX_ASSET_KEY_LENGTH \<and>
     length (s_input_keys sub) \<le> MAX_JOB_INPUT_KEYS \<and> distinct (s_input_keys sub) \<and>
     list_all (\<lambda>k. k \<noteq> [] \<and> length k \<le> MAX_ASSET_KEY_LENGTH) (s_input_keys sub) \<and>
     1 \<le> s_contract_version sub \<and>
     validate_capability_id (s_capability_id sub) = Inr (s_capability_id sub) \<and>
     MIN_JOB_PRIORITY \<le> s_priority sub \<and> s_priority sub \<le> MAX_JOB_PRIORITY \<and>
     MIN_JOB_ATTEMPT_BUDGET \<le> s_attempt_budget sub \<and>
     s_attempt_budget sub \<le> MAX_JOB_ATTEMPT_BUDGET \<and>
     MIN_EXECUTION_DEADLINE_SECONDS \<le> s_execution_deadline_seconds sub \<and>
     s_execution_deadline_seconds sub \<le> MAX_EXECUTION_DEADLINE_SECONDS \<and>
     requirements_ok (s_requirements sub) \<and>
     json_depth (JObj (s_payload sub)) \<le> MAX_JOB_PAYLOAD_DEPTH \<and>
     finite_json (JObj (s_payload sub)) \<and>
     length (encode (enc (JObj (s_payload sub)))) \<le> MAX_JOB_PAYLOAD_BYTES"

lemma remdups_length_iff: "length (remdups xs) = length xs \<longleftrightarrow> distinct xs"
  by (metis card_distinct distinct_card length_remdups_card_conv)

lemma check_text_iff [result_simps]:
  "check_text (l, v, m) = Inr () \<longleftrightarrow>
     (case v of None \<Rightarrow> True | Some t \<Rightarrow> t \<noteq> [] \<and> length t \<le> m)"
  by (simp add: check_text_def)

lemma check_range_iff [result_simps]: "check_range (l, v, lo, hi) = Inr () \<longleftrightarrow> lo \<le> v \<and> v \<le> hi"
  by (simp add: check_range_def)

lemma validate_capability_id_unit:
  "(\<exists>x. validate_capability_id c = Inr x) \<longleftrightarrow> validate_capability_id c = Inr c"
  by (auto simp: validate_capability_id_iff)

lemma submission_accepted_iff: "validate_job_submission sub = Inr () \<longleftrightarrow> submission_ok sub"
  unfolding validate_job_submission_def submission_ok_def
  by (simp add: result_simps validate_job_requirements_iff validate_job_payload_iff
      remdups_length_iff validate_capability_id_unit list_all_iff
      del: finite_json.simps json_depth.simps enc.simps) blast

text \<open>A submission is accepted exactly when every bound holds at once: the sizes of the
  ids and keys, distinct input keys, a positive contract version, a well-formed capability id, the
  ranges of priority, attempt budget and deadline, the requirement bounds, and a payload that is
  finite, at most eight levels deep and at most 16384 canonical bytes.\<close>

theorem validate_job_submission_iff: "validate_job_submission sub = Inr () \<longleftrightarrow> submission_ok sub"
  by (rule submission_accepted_iff)

text \<open>\<open>CAPABILITY_ID_PATTERN\<close> ends in a dollar sign and is applied with \<open>match\<close>, so
  a capability id with one trailing newline is accepted although it is not of the documented
  form.\<close>

lemma capability_id_trailing_newline:
  "validate_capability_id (''test.v1'' @ [CHR 0x0A]) = Inr (''test.v1'' @ [CHR 0x0A]) \<and>
   \<not> full_match CAPABILITY_ID_PATTERN (''test.v1'' @ [CHR 0x0A])"
  by code_simp

end
