(* ===== verification/JobStoreSpec.thy ===== *)
theory JobStoreSpec
  imports JobSpec
begin

text \<open>
  The contract of the \<open>JobStore\<close> protocol as a locale. A provider gives the lookup of a job,
  the effect of an operation on its state and the boolean the operation returns; its laws are
  that every operation moves every job by \<open>job_step\<close>, and that the fenced operations (heartbeat,
  complete, fail, release) take effect exactly when the job is processing under the presented
  claim token. \<open>proper\<close> excludes a submission that reuses the id of another job, which the
  in-memory store lets overwrite that job, and arguments a database would alter or refuse.
\<close>

fun claim_of :: "store_op \<Rightarrow> (string \<times> string) option" where
  "claim_of (Heartbeat k t _ _ _) = Some (k, t)"
| "claim_of (Complete k t _ _) = Some (k, t)"
| "claim_of (Fail k t _ _) = Some (k, t)"
| "claim_of (Release k t _ _) = Some (k, t)"
| "claim_of _ = None"

fun claim_effect :: "store_op \<Rightarrow> job_record \<Rightarrow> job_record" where
  "claim_effect (Heartbeat _ _ secs p now) r = beaten_record r secs p now"
| "claim_effect (Complete _ _ c now) r = completed_record r c now"
| "claim_effect (Fail _ _ f now) r = failed_record r f now"
| "claim_effect (Release _ _ reason now) r = released_record r reason now"
| "claim_effect _ r = r"

fun settles :: "string \<Rightarrow> store_op \<Rightarrow> bool" where
  "settles k (Complete k' _ _ _) = (k' = k)"
| "settles k (Fail k' _ _ _) = (k' = k)"
| "settles k _ = False"

fun leases_with :: "string \<Rightarrow> store_op \<Rightarrow> bool" where
  "leases_with t (Lease _ _ t') = (t' = t)"
| "leases_with t _ = False"

lemma settles_claim: "settles k op \<Longrightarrow> \<exists>t. claim_of op = Some (k, t)"
  by (cases op) auto

lemma settles_effect: "settles k op \<Longrightarrow> is_terminal (claim_effect op r)"
  by (cases op) (simp_all add: is_terminal_def record_effects)

text \<open>Runs: the operations in the order the store executes them.\<close>

fun run_ops :: "(store_op \<Rightarrow> 's \<Rightarrow> 's) \<Rightarrow> store_op list \<Rightarrow> 's \<Rightarrow> 's" where
  "run_ops step [] s = s"
| "run_ops step (op # ops) s = run_ops step ops (step op s)"

fun proper_run :: "(store_op \<Rightarrow> 's \<Rightarrow> bool) \<Rightarrow> (store_op \<Rightarrow> 's \<Rightarrow> 's) \<Rightarrow> store_op list \<Rightarrow> 's \<Rightarrow> bool" where
  "proper_run ok step [] s = True"
| "proper_run ok step (op # ops) s = (ok op s \<and> proper_run ok step ops (step op s))"

text \<open>How many operations of a run settled job \<open>k\<close>: completions and failures that returned
  \<open>True\<close>.\<close>

fun settlements ::
  "(store_op \<Rightarrow> 's \<Rightarrow> bool) \<Rightarrow> (store_op \<Rightarrow> 's \<Rightarrow> 's) \<Rightarrow> string \<Rightarrow> store_op list \<Rightarrow> 's \<Rightarrow> nat"
where
  "settlements reply step k [] s = 0"
| "settlements reply step k (op # ops) s =
     (if settles k op \<and> reply op s then 1 else 0) + settlements reply step k ops (step op s)"

locale job_store =
  fixes good :: "'s \<Rightarrow> bool"
    and lookup :: "'s \<Rightarrow> string \<Rightarrow> job_record option"
    and step :: "store_op \<Rightarrow> 's \<Rightarrow> 's"
    and reply :: "store_op \<Rightarrow> 's \<Rightarrow> bool"
    and proper :: "store_op \<Rightarrow> 's \<Rightarrow> bool"
  assumes good_step: "good s \<Longrightarrow> good (step op s)"
    and lookup_id: "good s \<Longrightarrow> lookup s k = Some r \<Longrightarrow> j_job_id r = k"
    and lookup_ok: "good s \<Longrightarrow> lookup s k = Some r \<Longrightarrow> record_ok r"
    and moves: "good s \<Longrightarrow> proper op s \<Longrightarrow> job_step op (lookup s k) (lookup (step op s) k)"
    and fenced: "good s \<Longrightarrow> proper op s \<Longrightarrow> claim_of op = Some (k, t) \<Longrightarrow>
      reply op s \<longleftrightarrow> (\<exists>r. lookup s k = Some r \<and> holds_claim r t)"
    and effect: "good s \<Longrightarrow> proper op s \<Longrightarrow> claim_of op = Some (k, t) \<Longrightarrow> lookup s k = Some r \<Longrightarrow>
      holds_claim r t \<Longrightarrow> lookup (step op s) k = Some (claim_effect op r)"
    and refused: "good s \<Longrightarrow> claim_of op = Some (k, t) \<Longrightarrow> \<not> reply op s \<Longrightarrow> step op s = s"
begin

lemma good_run: "good s \<Longrightarrow> good (run_ops step ops s)"
  by (induction ops arbitrary: s) (auto intro: good_step)

lemma keeps_request:
  assumes "good s" "proper_run proper step ops s" "lookup s k = Some r"
  shows "\<exists>r'. lookup (run_ops step ops s) k = Some r' \<and> request_of r' = request_of r \<and>
           j_attempts r \<le> j_attempts r' \<and> j_created_at r' = j_created_at r"
  using assms
proof (induction ops arbitrary: s r)
  case (Cons op ops)
  then have "job_step op (Some r) (lookup (step op s) k)"
    using moves [of s op k] by simp
  from job_step_Some [OF this] obtain r1 where r1: "lookup (step op s) k = Some r1"
      "request_of r1 = request_of r" "j_attempts r \<le> j_attempts r1" "j_created_at r1 = j_created_at r"
    by blast
  from Cons.IH [OF good_step [OF Cons.prems(1), of op] _ r1(1)] Cons.prems(2) r1 show ?case
    by fastforce
qed simp

lemma terminal_absorbing:
  assumes "good s" "proper_run proper step ops s" "lookup s k = Some r" "is_terminal r"
  shows "lookup (run_ops step ops s) k = Some r"
  using assms
proof (induction ops arbitrary: s)
  case (Cons op ops)
  then have "lookup (step op s) k = Some r"
    using moves [of s op k] job_step_terminal by fastforce
  with Cons show ?case by (simp add: good_step)
qed simp

lemma step_keeps_token_out:
  assumes "good s" "proper op s" "\<not> leases_with t op"
    "\<And>r. lookup s k = Some r \<Longrightarrow> \<not> holds_claim r t"
    "lookup (step op s) k = Some r'"
  shows "\<not> holds_claim r' t"
proof -
  have "job_step op (lookup s k) (Some r')"
    using moves [OF assms(1,2), of k] assms(5) by simp
  then show ?thesis
    using assms(3,4)
    by (cases "lookup s k") (auto elim!: job_step_from_Some job_step_from_None
        simp: holds_claim_def record_effects)
qed

lemma token_out_forever:
  assumes "good s" "proper_run proper step ops s" "list_all (\<lambda>op. \<not> leases_with t op) ops"
    "\<And>r. lookup s k = Some r \<Longrightarrow> \<not> holds_claim r t"
    "lookup (run_ops step ops s) k = Some r'"
  shows "\<not> holds_claim r' t"
  using assms
proof (induction ops arbitrary: s)
  case (Cons op ops)
  have "\<not> holds_claim r t" if "lookup (step op s) k = Some r" for r
    using step_keeps_token_out [of s op t k r] Cons.prems that by simp
  with Cons.IH [of "step op s"] Cons.prems show ?case by (simp add: good_step)
qed simp

lemma stale_refused:
  assumes "good s" "proper_run proper step ops s" "list_all (\<lambda>op. \<not> leases_with t op) ops"
    "\<And>r. lookup s k = Some r \<Longrightarrow> \<not> holds_claim r t" "claim_of op = Some (k, t)"
    "proper op (run_ops step ops s)"
  shows "\<not> reply op (run_ops step ops s)"
    and "step op (run_ops step ops s) = run_ops step ops s"
proof -
  show "\<not> reply op (run_ops step ops s)"
    using fenced [OF good_run [OF assms(1)] assms(6,5)] token_out_forever [OF assms(1-4)] by blast
  then show "step op (run_ops step ops s) = run_ops step ops s"
    using refused [OF good_run [OF assms(1)] assms(5)] by blast
qed

lemma settled_is_terminal:
  assumes "good s" "proper op s" "settles k op" "reply op s"
  shows "\<exists>r. lookup (step op s) k = Some r \<and> is_terminal r"
  using settles_claim [OF assms(3)] fenced [OF assms(1,2)] effect [OF assms(1,2)] assms(4)
    settles_effect [OF assms(3)] by metis

lemma terminal_no_settlements:
  assumes "good s" "proper_run proper step ops s" "lookup s k = Some r" "is_terminal r"
  shows "settlements reply step k ops s = 0"
  using assms
proof (induction ops arbitrary: s)
  case (Cons op ops)
  have "lookup (step op s) k = Some r"
    using terminal_absorbing [of s "[op]" k r] Cons.prems by simp
  moreover have "\<not> (settles k op \<and> reply op s)"
    using settles_claim [of k op] fenced [OF Cons.prems(1), of op k] Cons.prems(2,3,4)
    by (auto simp: holds_claim_def is_terminal_def)
  ultimately show ?case
    using Cons by (auto simp: good_step)
qed simp

lemma settled_at_most_once:
  assumes "good s" "proper_run proper step ops s"
  shows "settlements reply step k ops s \<le> 1"
  using assms
proof (induction ops arbitrary: s)
  case (Cons op ops)
  show ?case
  proof (cases "settles k op \<and> reply op s")
    case True
    with settled_is_terminal [of s op k] Cons.prems obtain r where
      "lookup (step op s) k = Some r" "is_terminal r" by auto
    with terminal_no_settlements [of "step op s" ops k r] True Cons.prems show ?thesis
      by (simp add: good_step)
  next
    case False
    with Cons show ?thesis by (auto simp: good_step)
  qed
qed simp

lemma attempts_bounded:
  assumes "good s" "lookup (run_ops step ops s) k = Some r"
  shows "0 \<le> j_attempts r \<and> j_attempts r \<le> j_attempt_budget r \<and>
         j_attempt_budget r \<le> MAX_JOB_ATTEMPT_BUDGET"
  using lookup_ok [OF good_run [OF assms(1)] assms(2)] by (simp add: record_ok_def)

end

end
