(* ===== verification/MemoryStore.thy ===== *)
theory MemoryStore
  imports JobStoreSpec
begin

text \<open>
  \<open>MemoryJobStore\<close> of memory.py: the dictionary \<open>records\<close> from job id to \<open>JobRecord\<close> and its
  operations. No operation awaits anything, so each is one atomic step of the event loop; clock
  readings and the lease token are arguments.
\<close>

type_synonym job_table = "(string, job_record) dict"

section \<open>Operations\<close>

definition replays :: "job_record \<Rightarrow> job_submission \<Rightarrow> bool" where
  "replays r sub \<longleftrightarrow>
     j_capability_id r = s_capability_id sub \<and>
     j_contract_version r = s_contract_version sub \<and>
     j_input_keys r = s_input_keys sub \<and>
     j_output_key r = s_output_key sub \<and>
     payload_eq (j_payload r) (s_payload sub) \<and>
     j_tenant_id r = s_tenant_id sub \<and>
     requirements_eq (j_requirements r) (s_requirements sub) \<and>
     j_priority r = s_priority sub \<and>
     j_attempt_budget r = s_attempt_budget sub \<and>
     j_execution_deadline_seconds r = s_execution_deadline_seconds sub"

definition mem_submit ::
  "job_submission \<Rightarrow> time \<Rightarrow> job_table \<Rightarrow> (exn + submission_result) \<times> job_table"
where
  "mem_submit sub now s =
     (case validate_job_submission sub of
        Inl e \<Rightarrow> (Inl e, s)
      | Inr _ \<Rightarrow>
        (case find (\<lambda>r. j_idempotency_key r = s_idempotency_key sub) (dvalues s) of
           Some r \<Rightarrow>
             if \<not> replays r sub then (Inl (IdempotencyConflict (s_idempotency_key sub)), s)
             else (Inr \<lparr>sr_record = r, sr_created = False\<rparr>, s)
         | None \<Rightarrow>
           (case job_request_digest sub of
              Inl e \<Rightarrow> (Inl e, s)
            | Inr digest \<Rightarrow>
              let r = new_record sub now digest
              in (Inr \<lparr>sr_record = r, sr_created = True\<rparr>, AList.update (j_job_id r) r s))))"

definition mem_get :: "string \<Rightarrow> job_table \<Rightarrow> job_record option" where
  "mem_get job_id s = map_of s job_id"

definition mem_list_for_tenant :: "string \<Rightarrow> job_table \<Rightarrow> job_record list" where
  "mem_list_for_tenant tenant s = filter (\<lambda>r. j_tenant_id r = Some tenant) (dvalues s)"

definition mem_cancel :: "string \<Rightarrow> time \<Rightarrow> job_table \<Rightarrow> bool \<times> job_table" where
  "mem_cancel job_id now s =
     (case map_of s job_id of
        None \<Rightarrow> (False, s)
      | Some r \<Rightarrow>
          if j_status r \<notin> {QUEUED, PROCESSING} then (False, s)
          else (True, AList.update job_id (cancelled_record r now) s))"

text \<open>\<open>min(candidates, key=...)\<close>: the first of the least.\<close>

definition mem_candidates :: "lease_query \<Rightarrow> time \<Rightarrow> job_table \<Rightarrow> job_record list" where
  "mem_candidates q now s = filter (claimable q now) (dvalues s)"

definition lease_key :: "job_record \<Rightarrow> int \<times> time" where
  "lease_key r = (j_priority r, j_created_at r)"

definition mem_lease ::
  "lease_query \<Rightarrow> time \<Rightarrow> string \<Rightarrow> job_table \<Rightarrow> job_record option \<times> job_table"
where
  "mem_lease q now token s =
     (case mem_candidates q now s of
        [] \<Rightarrow> (None, s)
      | c # cs \<Rightarrow>
        let r = arg_min_list lease_key (c # cs);
            leased = leased_record r q now token
        in (Some leased, AList.update (j_job_id r) leased s))"

definition mem_leased :: "string \<Rightarrow> string \<Rightarrow> job_table \<Rightarrow> job_record option" where
  "mem_leased job_id token s =
     (case map_of s job_id of
        None \<Rightarrow> None
      | Some r \<Rightarrow>
          if j_status r \<noteq> PROCESSING \<or> j_claim_token r = None \<or> j_claim_token r \<noteq> Some token
          then None else Some r)"

definition mem_heartbeat ::
  "string \<Rightarrow> string \<Rightarrow> int \<Rightarrow> int option \<Rightarrow> time \<Rightarrow> job_table \<Rightarrow> bool \<times> job_table"
where
  "mem_heartbeat job_id token lease_seconds progress now s =
     (case mem_leased job_id token s of
        None \<Rightarrow> (False, s)
      | Some r \<Rightarrow> (True, AList.update job_id (beaten_record r lease_seconds progress now) s))"

definition mem_complete ::
  "string \<Rightarrow> string \<Rightarrow> completion \<Rightarrow> time \<Rightarrow> job_table \<Rightarrow> bool \<times> job_table"
where
  "mem_complete job_id token c now s =
     (case mem_leased job_id token s of
        None \<Rightarrow> (False, s)
      | Some r \<Rightarrow> (True, AList.update job_id (completed_record r c now) s))"

definition mem_fail ::
  "string \<Rightarrow> string \<Rightarrow> failure \<Rightarrow> time \<Rightarrow> job_table \<Rightarrow> bool \<times> job_table"
where
  "mem_fail job_id token f now s =
     (case mem_leased job_id token s of
        None \<Rightarrow> (False, s)
      | Some r \<Rightarrow> (True, AList.update job_id (failed_record r f now) s))"

definition mem_release ::
  "string \<Rightarrow> string \<Rightarrow> string \<Rightarrow> time \<Rightarrow> job_table \<Rightarrow> bool \<times> job_table"
where
  "mem_release job_id token reason now s =
     (case mem_leased job_id token s of
        None \<Rightarrow> (False, s)
      | Some r \<Rightarrow> (True, AList.update job_id (released_record r reason now) s))"

text \<open>\<open>expire_exhausted\<close>: the loop over a snapshot of the items.\<close>

fun expire_loop ::
  "time \<Rightarrow> (string \<Rightarrow> time) \<Rightarrow> (string \<times> job_record) list \<Rightarrow> nat \<Rightarrow> job_table \<Rightarrow> nat \<times> job_table"
where
  "expire_loop now later [] expired s = (expired, s)"
| "expire_loop now later ((k, r) # items) expired s =
     (if j_status r \<noteq> PROCESSING
         \<or> (case j_lease_until r of None \<Rightarrow> True | Some t \<Rightarrow> t \<ge> now)
         \<or> j_attempts r < j_attempt_budget r
      then expire_loop now later items expired s
      else expire_loop now later items (expired + 1)
             (AList.update k (expired_record r (later k)) s))"

definition mem_expire_exhausted ::
  "time \<Rightarrow> (string \<Rightarrow> time) \<Rightarrow> job_table \<Rightarrow> nat \<times> job_table"
where
  "mem_expire_exhausted now later s = expire_loop now later s 0 s"

text \<open>\<open>queue_depth\<close>: the two totals and the per-capability counters, updated row by row.\<close>

type_synonym depth_counts = "nat \<times> nat \<times> (string, capability_queue_depth) dict"

definition count_row :: "job_record \<Rightarrow> depth_counts \<Rightarrow> depth_counts" where
  "count_row r = (\<lambda>(queued, processing, by_capability).
     if j_status r \<notin> {QUEUED, PROCESSING} then (queued, processing, by_capability)
     else
       let c = (case map_of by_capability (j_capability_id r) of
                  None \<Rightarrow> \<lparr>cq_queued = 0, cq_processing = 0\<rparr> | Some c \<Rightarrow> c)
       in if j_status r = QUEUED
          then (queued + 1, processing,
                AList.update (j_capability_id r) (c\<lparr>cq_queued := cq_queued c + 1\<rparr>) by_capability)
          else (queued, processing + 1,
                AList.update (j_capability_id r) (c\<lparr>cq_processing := cq_processing c + 1\<rparr>)
                  by_capability))"

definition mem_queue_depth :: "job_table \<Rightarrow> queue_depth" where
  "mem_queue_depth s =
     (let (queued, processing, by_capability) = fold count_row (dvalues s) (0, 0, [])
      in \<lparr>qd_queued = queued, qd_processing = processing, qd_by_capability = by_capability,
          qd_online_workers_by_capability = []\<rparr>)"

section \<open>The store as a provider of \<open>job_store\<close>\<close>

fun mem_step :: "store_op \<Rightarrow> job_table \<Rightarrow> job_table" where
  "mem_step (Submit sub now) s = snd (mem_submit sub now s)"
| "mem_step (Cancel k now) s = snd (mem_cancel k now s)"
| "mem_step (Lease q now t) s = snd (mem_lease q now t s)"
| "mem_step (Heartbeat k t secs p now) s = snd (mem_heartbeat k t secs p now s)"
| "mem_step (Complete k t c now) s = snd (mem_complete k t c now s)"
| "mem_step (Fail k t f now) s = snd (mem_fail k t f now s)"
| "mem_step (Release k t reason now) s = snd (mem_release k t reason now s)"
| "mem_step (Expire now later) s = snd (mem_expire_exhausted now later s)"

fun mem_reply :: "store_op \<Rightarrow> job_table \<Rightarrow> bool" where
  "mem_reply (Cancel k now) s = fst (mem_cancel k now s)"
| "mem_reply (Heartbeat k t secs p now) s = fst (mem_heartbeat k t secs p now s)"
| "mem_reply (Complete k t c now) s = fst (mem_complete k t c now s)"
| "mem_reply (Fail k t f now) s = fst (mem_fail k t f now s)"
| "mem_reply (Release k t reason now) s = fst (mem_release k t reason now s)"
| "mem_reply _ s = False"

text \<open>A submission that does not take the id of a job stored under another idempotency key.\<close>

fun fresh_submit :: "store_op \<Rightarrow> job_table \<Rightarrow> bool" where
  "fresh_submit (Submit sub now) s =
     (case map_of s (s_job_id sub) of
        None \<Rightarrow> True
      | Some r \<Rightarrow> j_idempotency_key r = s_idempotency_key sub)"
| "fresh_submit _ s = True"

definition mem_ok :: "job_table \<Rightarrow> bool" where
  "mem_ok s \<longleftrightarrow> distinct (keys s) \<and> list_all (\<lambda>(k, r). j_job_id r = k \<and> stored_ok r) s \<and>
     distinct (map j_idempotency_key (dvalues s))"

lemma request_digest_ok: "submission_ok sub \<Longrightarrow> job_request_digest sub = Inr (digest_of sub)"
  by (simp add: job_request_digest_def json_dumps_def digest_of_def digest_fields_def
      submission_ok_def list_all_iff del: enc.simps)

lemma mem_leased_iff: "mem_leased k t s = Some r \<longleftrightarrow> map_of s k = Some r \<and> holds_claim r t"
  by (auto simp: mem_leased_def holds_claim_def split: option.splits)

lemma mem_leased_None: "mem_leased k t s = None \<longleftrightarrow> (\<forall>r. map_of s k = Some r \<longrightarrow> \<not> holds_claim r t)"
  by (auto simp: mem_leased_def holds_claim_def split: option.splits)

lemma update_values_key:
  assumes "distinct (keys s)" "map_of s k = Some r" "f r' = f r"
  shows "map f (dvalues (AList.update k r' s)) = map f (dvalues s)"
  using assms by (induction s) (auto split: if_splits)

lemma update_values_subset: "set (dvalues (AList.update k r s)) \<subseteq> insert r (set (dvalues s))"
  by (induction s) auto

lemma update_values_fresh:
  assumes "distinct (map f (dvalues s))" "f r \<notin> set (map f (dvalues s))"
  shows "distinct (map f (dvalues (AList.update k r s)))"
  using assms
proof (induction s)
  case (Cons p s)
  have "f (snd p) \<notin> f ` set (dvalues (AList.update k r s))"
  proof -
    have "f ` set (dvalues (AList.update k r s)) \<subseteq> insert (f r) (f ` set (dvalues s))"
      using update_values_subset [of k r s] by blast
    moreover have "f (snd p) \<notin> insert (f r) (f ` set (dvalues s))"
      using Cons.prems by (force simp: image_image)
    ultimately show ?thesis by blast
  qed
  with Cons show ?case by (cases p) (auto simp: image_image)
qed simp

lemma mem_ok_lookup: "mem_ok s \<Longrightarrow> map_of s k = Some r \<Longrightarrow> j_job_id r = k \<and> stored_ok r"
  by (auto simp: mem_ok_def list_all_iff dest: map_of_SomeD)

lemma mem_ok_entries:
  assumes "list_all (\<lambda>(k, r). j_job_id r = k \<and> stored_ok r) s" "stored_ok r" "j_job_id r = k"
  shows "list_all (\<lambda>(k, r). j_job_id r = k \<and> stored_ok r) (AList.update k r s)"
  using assms by (induction s) auto

lemma mem_ok_update:
  assumes "mem_ok s" "map_of s k = Some r" "stored_ok r'" "request_of r' = request_of r"
  shows "mem_ok (AList.update k r' s)"
proof -
  have "j_job_id r' = k" "j_idempotency_key r' = j_idempotency_key r"
    using assms(4) mem_ok_lookup [OF assms(1,2)] by (simp_all add: request_of_def)
  with assms show ?thesis
    by (simp add: mem_ok_def mem_ok_entries update_values_key del: map_map)
qed

lemma mem_ok_insert:
  assumes "mem_ok s" "stored_ok r" "j_idempotency_key r \<notin> set (map j_idempotency_key (dvalues s))"
  shows "mem_ok (AList.update (j_job_id r) r s)"
  using assms by (simp add: mem_ok_def mem_ok_entries update_values_fresh del: map_map)

lemma expire_loop_Cons:
  "expire_loop now later ((k, r) # items) n s =
     (if exhausted now r
      then expire_loop now later items (n + 1) (AList.update k (expired_record r (later k)) s)
      else expire_loop now later items n s)"
  by (auto simp: exhausted_def split: option.splits)

lemma update_append_middle:
  "k \<notin> set (keys xs) \<Longrightarrow> AList.update k v (xs @ (k, w) # ys) = xs @ (k, v) # ys"
  by (induction xs) auto

definition expire_entry :: "time \<Rightarrow> (string \<Rightarrow> time) \<Rightarrow> string \<times> job_record \<Rightarrow> string \<times> job_record" where
  "expire_entry now later = (\<lambda>(k, r). (k, if exhausted now r then expired_record r (later k) else r))"

lemma fst_expire_entry [simp]: "fst (expire_entry now later p) = fst p"
  by (cases p) (simp add: expire_entry_def)

lemma expire_loop_spec:
  "distinct (keys (pre @ items)) \<Longrightarrow>
     expire_loop now later items n (pre @ items) =
       (n + length (filter (exhausted now) (dvalues items)),
        pre @ map (expire_entry now later) items)"
proof (induction items arbitrary: pre n)
  case (Cons p items)
  obtain k r where p: "p = (k, r)" by force
  have fresh: "k \<notin> set (keys pre)" and d: "distinct (keys ((pre @ [(k, r')]) @ items))" for r'
    using Cons.prems p by auto
  show ?case
    using Cons.IH [OF d, of _ r] Cons.IH [OF d, of _ "expired_record r (later k)"] fresh
    by (simp add: p expire_loop_Cons update_append_middle expire_entry_def del: expire_loop.simps)
qed simp

lemma mem_expire_spec:
  "distinct (keys s) \<Longrightarrow>
     mem_expire_exhausted now later s =
       (length (filter (exhausted now) (dvalues s)), map (expire_entry now later) s)"
  using expire_loop_spec [of "[]" s now later 0] by (simp add: mem_expire_exhausted_def)

lemma lookup_expire:
  "map_of (map (expire_entry now later) s) k =
     (case map_of s k of None \<Rightarrow> None
      | Some r \<Rightarrow> Some (if exhausted now r then expired_record r (later k) else r))"
  by (induction s) (auto simp: expire_entry_def)

lemma keys_expire [simp]: "keys (map (expire_entry now later) s) = keys s"
  by simp

lemma arg_min_list_mem: "xs \<noteq> [] \<Longrightarrow> arg_min_list f xs \<in> set xs"
  by (rule arg_min_list_in)

lemma find_SomeD: "find P xs = Some x \<Longrightarrow> x \<in> set xs \<and> P x"
  by (induction xs) (auto split: if_splits)

text \<open>What each operation does to the table, as a case distinction without the code's detours.\<close>

lemma mem_submit_cases:
  obtains (invalid) e where "mem_submit sub now s = (Inl e, s)"
  | (conflict) r where "r \<in> set (dvalues s)" "j_idempotency_key r = s_idempotency_key sub"
      "mem_submit sub now s = (Inl (IdempotencyConflict (s_idempotency_key sub)), s)"
  | (replay) r where "submission_ok sub" "r \<in> set (dvalues s)"
      "j_idempotency_key r = s_idempotency_key sub" "replays r sub"
      "mem_submit sub now s = (Inr \<lparr>sr_record = r, sr_created = False\<rparr>, s)"
  | (created) "submission_ok sub"
      "s_idempotency_key sub \<notin> set (map j_idempotency_key (dvalues s))"
      "mem_submit sub now s =
         (Inr \<lparr>sr_record = new_record sub now (digest_of sub), sr_created = True\<rparr>,
          AList.update (s_job_id sub) (new_record sub now (digest_of sub)) s)"
proof (cases "validate_job_submission sub")
  case (Inl e)
  then show ?thesis by (intro invalid) (simp add: mem_submit_def)
next
  case (Inr u)
  then have ok: "submission_ok sub" by (simp add: submission_accepted_iff [symmetric])
  show ?thesis
  proof (cases "find (\<lambda>r. j_idempotency_key r = s_idempotency_key sub) (dvalues s)")
    case None
    then have "s_idempotency_key sub \<notin> set (map j_idempotency_key (dvalues s))"
      by (auto simp: find_None_iff simp del: map_map)
    with None Inr show ?thesis
      by (intro created [OF ok]) (auto simp: mem_submit_def request_digest_ok [OF ok] Let_def
          new_record_def simp del: map_map)
  next
    case (Some r)
    then have "r \<in> set (dvalues s)" "j_idempotency_key r = s_idempotency_key sub"
      using find_SomeD [OF Some] by simp_all
    with Some Inr ok show ?thesis
      by (cases "replays r sub") (rule replay conflict, auto simp: mem_submit_def simp del: set_map)+
  qed
qed

lemma mem_lease_cases:
  obtains (none) "mem_candidates q now s = []" "mem_lease q now t s = (None, s)"
  | (some) r where "r \<in> set (mem_candidates q now s)"
      "r = arg_min_list lease_key (mem_candidates q now s)"
      "mem_lease q now t s =
         (Some (leased_record r q now t), AList.update (j_job_id r) (leased_record r q now t) s)"
proof (cases "mem_candidates q now s")
  case Nil
  then show ?thesis by (intro none) (simp_all add: mem_lease_def)
next
  case (Cons c cs)
  let ?r = "arg_min_list lease_key (mem_candidates q now s)"
  have "?r \<in> set (mem_candidates q now s)"
    by (rule arg_min_list_mem) (simp add: Cons)
  then show ?thesis
    by (rule some) (simp_all add: mem_lease_def Cons Let_def)
qed

definition table_ok :: "job_table \<Rightarrow> bool" where
  "table_ok s \<longleftrightarrow> distinct (keys s) \<and> list_all (\<lambda>(k, r). j_job_id r = k) s"

lemma mem_ok_table: "mem_ok s \<Longrightarrow> table_ok s"
  by (auto simp: mem_ok_def table_ok_def list_all_iff)

lemma table_ok_lookup: "table_ok s \<Longrightarrow> map_of s k = Some r \<Longrightarrow> j_job_id r = k"
  by (auto simp: table_ok_def list_all_iff dest: map_of_SomeD)

lemma table_candidates_iff:
  "table_ok s \<Longrightarrow> r \<in> set (mem_candidates q now s) \<longleftrightarrow>
     map_of s (j_job_id r) = Some r \<and> claimable q now r"
  by (force simp: mem_candidates_def table_ok_def list_all_iff dest: map_of_SomeD
      intro: map_of_is_SomeI)

lemma mem_candidates_iff:
  "mem_ok s \<Longrightarrow> r \<in> set (mem_candidates q now s) \<longleftrightarrow>
     map_of s (j_job_id r) = Some r \<and> claimable q now r"
  by (rule table_candidates_iff [OF mem_ok_table])

lemma mem_good_expire: "mem_ok s \<Longrightarrow> mem_ok (map (expire_entry now later) s)"
proof -
  assume ok: "mem_ok s"
  have "map j_idempotency_key (dvalues (map (expire_entry now later) s)) =
          map j_idempotency_key (dvalues s)"
    by (auto simp: expire_entry_def record_effects)
  moreover have "j_job_id (snd (expire_entry now later p)) = fst p \<and>
      stored_ok (snd (expire_entry now later p))" if "p \<in> set s" for p
    using ok that by (auto simp: mem_ok_def list_all_iff expire_entry_def stored_ok_def
        record_ok_effects) (auto simp: record_effects)
  ultimately show ?thesis
    using ok by (auto simp: mem_ok_def list_all_iff simp del: map_map)
      (metis fst_expire_entry fst_conv snd_conv)+
qed

lemma mem_ok_step: "mem_ok s \<Longrightarrow> mem_ok (mem_step op s)"
proof (cases op)
  case (Submit sub now)
  assume ok: "mem_ok s"
  then show ?thesis
    using mem_ok_insert [OF ok stored_ok_new [of sub now]]
    by (cases rule: mem_submit_cases [of sub now s]) (simp_all add: Submit new_record_def)
next
  case (Lease q now t)
  assume ok: "mem_ok s"
  then show ?thesis
    by (cases rule: mem_lease_cases [of q now s t])
      (auto simp: Lease mem_candidates_iff record_ok_effects stored_ok_def
        intro!: mem_ok_update dest: mem_ok_lookup)
next
  case (Expire now later)
  assume ok: "mem_ok s"
  then show ?thesis
    using mem_good_expire [OF ok] mem_expire_spec [of s now later]
    by (simp add: Expire mem_ok_def)
qed (auto simp: mem_cancel_def mem_heartbeat_def mem_complete_def mem_fail_def mem_release_def
      mem_leased_iff is_live_def record_ok_effects stored_ok_def
      intro!: mem_ok_update dest: mem_ok_lookup split: option.splits)

lemma mem_moves:
  assumes ok: "table_ok s" and fresh: "fresh_submit op s"
  shows "job_step op (map_of s k) (map_of (mem_step op s) k)"
proof (cases op)
  case (Submit sub now)
  then show ?thesis
  proof (cases rule: mem_submit_cases [of sub now s])
    case created
    have "map_of s (s_job_id sub) = None"
      using fresh created(2) Submit by (force split: option.splits dest: map_of_SomeD)
    then show ?thesis
      using created by (auto simp: Submit intro: job_step.intros)
  qed (auto simp: Submit intro: job_step.intros)
next
  case (Lease q now t)
  then show ?thesis
    using ok by (cases rule: mem_lease_cases [of q now s t])
      (auto simp: Lease table_candidates_iff intro: job_step.intros)
next
  case (Expire now later)
  then show ?thesis
    using ok table_ok_lookup [OF ok, of k]
    by (auto simp: mem_expire_spec table_ok_def lookup_expire intro: job_step.intros split: option.splits)
qed (auto simp: mem_cancel_def mem_heartbeat_def mem_complete_def mem_fail_def mem_release_def
      mem_leased_iff is_live_def dest: table_ok_lookup [OF ok] intro: job_step.intros
      split: option.splits)

interpretation mem: job_store mem_ok "\<lambda>s k. map_of s k" mem_step mem_reply fresh_submit
proof (unfold_locales, goal_cases)
  case (1 s op) then show ?case by (rule mem_ok_step)
next
  case (2 s k r) then show ?case using mem_ok_lookup by blast
next
  case (3 s k r) then show ?case using mem_ok_lookup by (auto simp: stored_ok_def)
next
  case (4 s op k) then show ?case by (intro mem_moves mem_ok_table)
next
  case (5 s op k t) then show ?case
    by (cases op) (auto simp: mem_heartbeat_def mem_complete_def mem_fail_def mem_release_def
        mem_leased_iff mem_leased_None split: option.splits)
next
  case (6 s op k t r) then show ?case
    by (cases op) (auto simp: mem_heartbeat_def mem_complete_def mem_fail_def mem_release_def
        mem_leased_iff mem_leased_None split: option.splits)
next
  case (7 s op k t) then show ?case
    by (cases op) (auto simp: mem_heartbeat_def mem_complete_def mem_fail_def mem_release_def
        split: option.splits)
qed

end
