(* ===== verification/Registry.thy ===== *)
theory Registry
  imports MemoryStore
begin

text \<open>
  \<open>MemoryWorkerRegistry\<close> and \<open>MemoryAuditLog\<close> of memory.py, and the contract of the
  \<open>WorkerRegistry\<close> protocol as the locale \<open>worker_registry\<close>: identity and tenant of a worker never
  change, a revoked worker is not revived by a heartbeat, an identity subject owns one worker.
\<close>

type_synonym worker_table = "(string, worker_record) dict"

section \<open>Registry\<close>

definition upsert_record ::
  "worker_registration \<Rightarrow> string \<Rightarrow> worker_status \<Rightarrow> worker_record option \<Rightarrow> time \<Rightarrow> worker_record"
where
  "upsert_record reg subject status existing now =
     \<lparr>w_worker_id = r_worker_id reg, w_identity_subject = subject, w_status = status,
      w_capabilities = r_capabilities reg, w_gpu_model = r_gpu_model reg,
      w_vram_mb = r_vram_mb reg, w_runtime_versions = r_runtime_versions reg,
      w_cost_class = r_cost_class reg, w_labels = r_labels reg,
      w_active_leases = r_active_leases reg, w_last_heartbeat_at = Some now,
      w_created_at = (case existing of None \<Rightarrow> now | Some e \<Rightarrow> w_created_at e),
      w_updated_at = now,
      w_revoked_at = (case existing of None \<Rightarrow> None | Some e \<Rightarrow> w_revoked_at e),
      w_gpus = r_gpus reg, w_busy_job_id = r_busy_job_id reg, w_tenant_id = r_tenant_id reg\<rparr>"

definition reg_upsert ::
  "worker_registration \<Rightarrow> string \<Rightarrow> time \<Rightarrow> worker_table \<Rightarrow> (exn + worker_record) \<times> worker_table"
where
  "reg_upsert reg subject now s =
     (let existing = map_of s (r_worker_id reg);
          status0 = (if r_draining reg then W_DRAINING else W_ACTIVE) in
      if (case existing of None \<Rightarrow> False | Some e \<Rightarrow> w_identity_subject e \<noteq> subject)
      then (Inl (WorkerIdentityMismatch (r_worker_id reg)), s)
      else if (case existing of None \<Rightarrow> False | Some e \<Rightarrow> w_tenant_id e \<noteq> r_tenant_id reg)
      then (Inl (WorkerTenantMismatch (r_worker_id reg)), s)
      else
        let status = (case existing of
                        None \<Rightarrow> status0
                      | Some e \<Rightarrow> if w_status e = W_REVOKED then W_REVOKED else status0) in
        if list_ex (\<lambda>other. w_identity_subject other = subject \<and> w_worker_id other \<noteq> r_worker_id reg)
             (dvalues s)
        then (Inl (IdentitySubjectTaken subject), s)
        else
          let record = upsert_record reg subject status existing now
          in (Inr record, AList.update (w_worker_id record) record s))"

definition reg_get :: "string \<Rightarrow> worker_table \<Rightarrow> worker_record option" where
  "reg_get worker_id s = map_of s worker_id"

definition reg_find_by_identity_subject :: "string \<Rightarrow> worker_table \<Rightarrow> worker_record option" where
  "reg_find_by_identity_subject subject s = find (\<lambda>w. w_identity_subject w = subject) (dvalues s)"

definition reg_list :: "worker_table \<Rightarrow> worker_record list" where
  "reg_list s = map (\<lambda>k. the (map_of s k)) (sort (keys s))"

definition reg_list_by_tenant :: "string option \<Rightarrow> worker_table \<Rightarrow> worker_record list" where
  "reg_list_by_tenant tenant s = filter (\<lambda>w. w_tenant_id w = tenant) (reg_list s)"

definition reg_set_status :: "string \<Rightarrow> worker_status \<Rightarrow> time \<Rightarrow> worker_table \<Rightarrow> bool \<times> worker_table" where
  "reg_set_status worker_id status now s =
     (case map_of s worker_id of
        None \<Rightarrow> (False, s)
      | Some w \<Rightarrow>
          (True, AList.update worker_id
             (w\<lparr>w_status := status, w_updated_at := now,
                w_revoked_at := (if status = W_REVOKED then Some now else w_revoked_at w)\<rparr>) s))"

section \<open>Audit log\<close>

definition audit_record ::
  "audit_event_type \<Rightarrow> string option \<Rightarrow> string option \<Rightarrow> payload \<Rightarrow> time \<Rightarrow> audit_event list \<Rightarrow> audit_event list"
where
  "audit_record ty worker_id job_id detail now events =
     events @ [\<lparr>ae_event_type = ty, ae_worker_id = worker_id, ae_job_id = job_id,
                ae_detail = detail, ae_created_at = now\<rparr>]"

definition audit_list_for_job :: "string \<Rightarrow> audit_event list \<Rightarrow> audit_event list" where
  "audit_list_for_job job_id events = filter (\<lambda>e. ae_job_id e = Some job_id) events"

section \<open>Contract of a registry\<close>

datatype registry_op =
    Upsert worker_registration string time
  | SetStatus string worker_status time

text \<open>One worker's row under an operation: identity, tenant and creation time are fixed; a heartbeat
  keeps a revocation.\<close>

definition binding :: "worker_record \<Rightarrow> string \<times> string \<times> string option \<times> time" where
  "binding w = (w_worker_id w, w_identity_subject w, w_tenant_id w, w_created_at w)"

fun is_upsert :: "registry_op \<Rightarrow> bool" where
  "is_upsert (Upsert _ _ _) = True"
| "is_upsert _ = False"

locale worker_registry =
  fixes good :: "'s \<Rightarrow> bool"
    and lookup :: "'s \<Rightarrow> string \<Rightarrow> worker_record option"
    and step :: "registry_op \<Rightarrow> 's \<Rightarrow> 's"
  assumes good_step: "good s \<Longrightarrow> good (step op s)"
    and lookup_id: "good s \<Longrightarrow> lookup s k = Some w \<Longrightarrow> w_worker_id w = k"
    and one_owner: "good s \<Longrightarrow> lookup s k = Some w \<Longrightarrow> lookup s k' = Some w' \<Longrightarrow>
      w_identity_subject w = w_identity_subject w' \<Longrightarrow> k = k'"
    and keeps_binding: "good s \<Longrightarrow> lookup s k = Some w \<Longrightarrow>
      \<exists>w'. lookup (step op s) k = Some w' \<and> binding w' = binding w"
    and keeps_revoked: "good s \<Longrightarrow> lookup s k = Some w \<Longrightarrow> w_status w = W_REVOKED \<Longrightarrow> is_upsert op \<Longrightarrow>
      lookup (step op s) k = Some w' \<Longrightarrow> w_status w' = W_REVOKED \<and> w_revoked_at w' = w_revoked_at w"
begin

lemma good_run: "good s \<Longrightarrow> good (foldl (\<lambda>s op. step op s) s ops)"
  by (induction ops arbitrary: s) (auto intro: good_step)

lemma binding_run:
  assumes "good s" "lookup s k = Some w"
  shows "\<exists>w'. lookup (foldl (\<lambda>s op. step op s) s ops) k = Some w' \<and> binding w' = binding w"
  using assms
proof (induction ops arbitrary: s w)
  case (Cons op ops)
  then obtain w1 where "lookup (step op s) k = Some w1" "binding w1 = binding w"
    using keeps_binding by blast
  with Cons.IH [OF good_step [OF Cons.prems(1)], of op w1] show ?case by auto
qed simp

lemma revoked_run:
  assumes "good s" "lookup s k = Some w" "w_status w = W_REVOKED" "list_all is_upsert ops"
  shows "\<exists>w'. lookup (foldl (\<lambda>s op. step op s) s ops) k = Some w' \<and> w_status w' = W_REVOKED \<and>
           w_revoked_at w' = w_revoked_at w"
  using assms
proof (induction ops arbitrary: s w)
  case (Cons op ops)
  then obtain w1 where w1: "lookup (step op s) k = Some w1"
    using keeps_binding by blast
  with keeps_revoked [OF Cons.prems(1,2,3) _ w1] Cons.prems(4)
  have "w_status w1 = W_REVOKED" "w_revoked_at w1 = w_revoked_at w" by simp_all
  with Cons.IH [OF good_step [OF Cons.prems(1)] w1] Cons.prems(4) show ?case by auto
qed simp

lemma subject_owner_run:
  assumes "good s" "lookup (foldl (\<lambda>s op. step op s) s ops) k = Some w"
    "lookup (foldl (\<lambda>s op. step op s) s ops) k' = Some w'"
    "w_identity_subject w = w_identity_subject w'"
  shows "k = k'"
  using one_owner [OF good_run [OF assms(1)] assms(2-4)] .

end

section \<open>The memory registry provides it\<close>

fun reg_step :: "registry_op \<Rightarrow> worker_table \<Rightarrow> worker_table" where
  "reg_step (Upsert reg subject now) s = snd (reg_upsert reg subject now s)"
| "reg_step (SetStatus k status now) s = snd (reg_set_status k status now s)"

definition reg_ok :: "worker_table \<Rightarrow> bool" where
  "reg_ok s \<longleftrightarrow> distinct (keys s) \<and> list_all (\<lambda>(k, w). w_worker_id w = k) s \<and>
     distinct (map w_identity_subject (dvalues s))"

lemma reg_ok_lookup: "reg_ok s \<Longrightarrow> map_of s k = Some w \<Longrightarrow> w_worker_id w = k"
  by (auto simp: reg_ok_def list_all_iff dest: map_of_SomeD)

lemma reg_ok_Nil [simp]: "reg_ok []"
  by (simp add: reg_ok_def)

lemma reg_upsert_cases:
  obtains (refused) e where "reg_upsert reg subject now s = (Inl e, s)"
  | (stored) status where
      "\<And>e. map_of s (r_worker_id reg) = Some e \<Longrightarrow>
         w_identity_subject e = subject \<and> w_tenant_id e = r_tenant_id reg \<and>
         (w_status e = W_REVOKED \<longrightarrow> status = W_REVOKED)"
      "\<And>w. w \<in> set (dvalues s) \<Longrightarrow> w_identity_subject w = subject \<Longrightarrow> w_worker_id w = r_worker_id reg"
      "reg_upsert reg subject now s =
         (Inr (upsert_record reg subject status (map_of s (r_worker_id reg)) now),
          AList.update (r_worker_id reg)
            (upsert_record reg subject status (map_of s (r_worker_id reg)) now) s)"
proof (cases "reg_upsert reg subject now s")
  case (Pair r s')
  show ?thesis
  proof (cases r)
    case (Inl e)
    with Pair have "reg_upsert reg subject now s = (Inl e, s)"
      by (auto simp: reg_upsert_def Let_def split: if_splits option.splits)
    then show ?thesis by (rule refused)
  next
    case (Inr w)
    define status where "status = (case map_of s (r_worker_id reg) of
        None \<Rightarrow> (if r_draining reg then W_DRAINING else W_ACTIVE)
      | Some e \<Rightarrow> if w_status e = W_REVOKED then W_REVOKED
                  else (if r_draining reg then W_DRAINING else W_ACTIVE))"
    show ?thesis
      using Pair Inr
      by (intro stored [of status])
        (auto simp: reg_upsert_def Let_def status_def upsert_record_def list_ex_iff
          split: if_splits option.splits)
  qed
qed

lemma upsert_record_sel [simp]:
  "w_worker_id (upsert_record reg subject st ex now) = r_worker_id reg"
  "w_identity_subject (upsert_record reg subject st ex now) = subject"
  "w_status (upsert_record reg subject st ex now) = st"
  "w_tenant_id (upsert_record reg subject st ex now) = r_tenant_id reg"
  by (simp_all add: upsert_record_def)

lemma reg_ok_entries:
  assumes "list_all (\<lambda>(k, w). w_worker_id w = k) s" "w_worker_id w = k"
  shows "list_all (\<lambda>(k, w). w_worker_id w = k) (AList.update k w s)"
  using assms by (induction s) auto

lemma reg_ok_step: "reg_ok s \<Longrightarrow> reg_ok (reg_step op s)"
proof (cases op)
  case (Upsert reg subject now)
  assume ok: "reg_ok s"
  show ?thesis
  proof (cases rule: reg_upsert_cases [of reg subject now s])
    case (stored status)
    let ?w = "upsert_record reg subject status (map_of s (r_worker_id reg)) now"
    have "distinct (map w_identity_subject (dvalues (AList.update (r_worker_id reg) ?w s)))"
    proof (cases "map_of s (r_worker_id reg)")
      case None
      have "subject \<notin> set (map w_identity_subject (dvalues s))"
      proof
        assume "subject \<in> set (map w_identity_subject (dvalues s))"
        then obtain k w where kw: "(k, w) \<in> set s" "w_identity_subject w = subject" by auto
        then have "w_worker_id w = r_worker_id reg" using stored(2) [of w] by force
        moreover have "w_worker_id w = k" using kw ok by (auto simp: reg_ok_def list_all_iff)
        ultimately show False using kw None by (force simp: map_of_eq_None_iff)
      qed
      with ok show ?thesis by (intro update_values_fresh) (simp_all add: reg_ok_def del: map_map)
    next
      case (Some e)
      then have "w_identity_subject ?w = w_identity_subject e" using stored(1) by simp
      from update_values_key [of s "r_worker_id reg" e w_identity_subject, OF _ Some this] ok
      show ?thesis by (simp add: reg_ok_def del: map_map)
    qed
    with ok stored(3) show ?thesis
      by (simp add: Upsert reg_ok_def reg_ok_entries del: map_map)
  qed (simp add: Upsert ok)
next
  case (SetStatus k status now)
  assume ok: "reg_ok s"
  show ?thesis
  proof (cases "map_of s k")
    case (Some w)
    let ?w = "w\<lparr>w_status := status, w_updated_at := now,
                w_revoked_at := (if status = W_REVOKED then Some now else w_revoked_at w)\<rparr>"
    have "map w_identity_subject (dvalues (AList.update k ?w s)) = map w_identity_subject (dvalues s)"
      using ok Some by (intro update_values_key [of s k w]) (simp_all add: reg_ok_def)
    with Some ok show ?thesis
      using reg_ok_lookup [OF ok Some]
      by (simp add: SetStatus reg_set_status_def reg_ok_def reg_ok_entries del: map_map)
  qed (simp add: SetStatus reg_set_status_def ok)
qed

lemma reg_one_owner:
  assumes "reg_ok s" "map_of s k = Some w" "map_of s k' = Some w'"
    "w_identity_subject w = w_identity_subject w'"
  shows "k = k'"
proof -
  have "inj_on w_identity_subject (set (dvalues s))"
    using assms(1) by (simp add: reg_ok_def distinct_map del: map_map)
  moreover have "w \<in> set (dvalues s)" "w' \<in> set (dvalues s)"
    using assms(2,3) by (force dest: map_of_SomeD)+
  ultimately have "w = w'" using assms(4) by (auto dest: inj_onD)
  then show ?thesis using reg_ok_lookup assms(1-3) by metis
qed

interpretation memreg: worker_registry reg_ok "\<lambda>s k. map_of s k" reg_step
proof (unfold_locales, goal_cases)
  case (1 s op) then show ?case by (rule reg_ok_step)
next
  case (2 s k w) then show ?case by (rule reg_ok_lookup)
next
  case (3 s k w k' w') then show ?case by (rule reg_one_owner)
next
  case (4 s k w op)
  then show ?case
  proof (cases op)
    case (Upsert reg subject now)
    show ?thesis
    proof (cases rule: reg_upsert_cases [of reg subject now s])
      case refused
      with 4 Upsert show ?thesis by simp
    next
      case (stored status)
      show ?thesis
      proof (cases "k = r_worker_id reg")
        case True
        then have "map_of (reg_step op s) k = Some (upsert_record reg subject status (Some w) now)"
          using 4 Upsert stored(3) by simp
        moreover have "binding (upsert_record reg subject status (Some w) now) = binding w"
          using True 4 stored(1) [of w] reg_ok_lookup [OF 4] by (simp add: binding_def upsert_record_def)
        ultimately show ?thesis by blast
      next
        case False
        with 4 Upsert stored(3) show ?thesis by simp
      qed
    qed
  qed (auto simp: reg_set_status_def binding_def split: option.splits)
next
  case (5 s k w op w')
  then show ?case
  proof (cases op)
    case (Upsert reg subject now)
    show ?thesis
    proof (cases rule: reg_upsert_cases [of reg subject now s])
      case refused
      with 5 Upsert show ?thesis by simp
    next
      case (stored status)
      show ?thesis
      proof (cases "k = r_worker_id reg")
        case True
        then have "w' = upsert_record reg subject status (Some w) now"
          using 5 Upsert stored(3) by simp
        with True 5(2,3) stored(1) [of w] show ?thesis by (simp add: upsert_record_def)
      next
        case False
        with 5 Upsert stored(3) show ?thesis by simp
      qed
    qed
  qed auto
qed

lemma reg_upsert_accepts:
  assumes "reg_ok s" "map_of s (r_worker_id reg) = Some e" "w_identity_subject e = subject"
    "w_tenant_id e = r_tenant_id reg"
  shows "fst (reg_upsert reg subject now s) =
    Inr (upsert_record reg subject
           (if w_status e = W_REVOKED then W_REVOKED
            else if r_draining reg then W_DRAINING else W_ACTIVE) (Some e) now)"
proof -
  have "\<not> (w_identity_subject other = subject \<and> w_worker_id other \<noteq> r_worker_id reg)"
    if "other \<in> set (dvalues s)" for other
  proof -
    from that obtain k where k: "map_of s k = Some other"
      using assms(1) by (auto simp: reg_ok_def intro: map_of_is_SomeI)
    then show ?thesis
      using reg_one_owner [OF assms(1) k assms(2)] reg_ok_lookup [OF assms(1) k] assms(3) by auto
  qed
  then have "\<not> list_ex (\<lambda>other. w_identity_subject other = subject \<and> w_worker_id other \<noteq> r_worker_id reg)
               (dvalues s)"
    unfolding list_ex_iff by blast
  with assms(2-4) show ?thesis by (simp add: reg_upsert_def Let_def)
qed

section \<open>Properties\<close>

definition demo_registration :: "string \<Rightarrow> string option \<Rightarrow> worker_registration" where
  "demo_registration worker tenant =
     \<lparr>r_worker_id = worker, r_capabilities = [], r_tenant_id = tenant, r_gpu_model = None,
      r_vram_mb = None, r_runtime_versions = [], r_cost_class = LOCAL, r_labels = [],
      r_active_leases = 0, r_draining = False, r_gpus = [], r_busy_job_id = None\<rparr>"

text \<open>Claim C17: a worker's identity subject, tenant and creation time are immutable: whatever
  registrations and status changes follow, by whatever identities, its row keeps them, and no two
  worker ids ever share an identity subject.\<close>

theorem registry_binding_immutable:
  assumes "reg_ok s" "map_of s k = Some w"
  shows "(\<exists>w'. map_of (foldl (\<lambda>s op. reg_step op s) s ops) k = Some w' \<and> binding w' = binding w) \<and>
         distinct (map w_identity_subject (dvalues (foldl (\<lambda>s op. reg_step op s) s ops)))"
  using memreg.binding_run [OF assms] memreg.good_run [OF assms(1), of ops, unfolded reg_ok_def]
  by blast

definition demo_workers :: worker_table where
  "demo_workers = snd (reg_upsert (demo_registration ''w'' (Some ''t1'')) ''sub'' 1 [])"

lemma demo_workers_ok: "reg_ok demo_workers"
  using reg_ok_step [OF reg_ok_Nil, of "Upsert (demo_registration ''w'' (Some ''t1'')) ''sub'' 1"]
  by (simp add: demo_workers_def)

theorem registry_binding_immutable_witness:
  "\<exists>w. map_of (foldl (\<lambda>s op. reg_step op s) demo_workers
        [Upsert (demo_registration ''w'' (Some ''t2'')) ''sub'' 2, SetStatus ''w'' W_REVOKED 3]) ''w'' = Some w \<and>
     w_tenant_id w = Some ''t1''"
proof -
  obtain w0 where "map_of demo_workers ''w'' = Some w0" "w_tenant_id w0 = Some ''t1''"
    by (simp add: demo_workers_def demo_registration_def reg_upsert_def upsert_record_def Let_def)
  from registry_binding_immutable [OF demo_workers_ok this(1),
      of "[Upsert (demo_registration ''w'' (Some ''t2'')) ''sub'' 2, SetStatus ''w'' W_REVOKED 3]"] this(2)
  show ?thesis by (auto simp: binding_def)
qed

text \<open>Revocation survives every heartbeat: as long as no operator sets the status, a
  revoked worker stays revoked since the same time.\<close>

theorem registry_revoked_stays:
  assumes "reg_ok s" "map_of s k = Some w" "w_status w = W_REVOKED" "list_all is_upsert ops"
  shows "\<exists>w'. map_of (foldl (\<lambda>s op. reg_step op s) s ops) k = Some w' \<and> w_status w' = W_REVOKED \<and>
           w_revoked_at w' = w_revoked_at w"
  using assms by (rule memreg.revoked_run)

theorem registry_revoked_stays_witness:
  "\<exists>w. map_of (foldl (\<lambda>s op. reg_step op s) (snd (reg_set_status ''w'' W_REVOKED 5 demo_workers))
        [Upsert (demo_registration ''w'' (Some ''t1'')) ''sub'' 9]) ''w'' = Some w \<and>
     w_status w = W_REVOKED"
proof -
  have ok: "reg_ok (snd (reg_set_status ''w'' W_REVOKED 5 demo_workers))"
    using reg_ok_step [OF demo_workers_ok, of "SetStatus ''w'' W_REVOKED 5"] by simp
  obtain w0 where "map_of (snd (reg_set_status ''w'' W_REVOKED 5 demo_workers)) ''w'' = Some w0"
      "w_status w0 = W_REVOKED"
    by (simp add: demo_workers_def demo_registration_def reg_upsert_def upsert_record_def
        reg_set_status_def Let_def)
  from registry_revoked_stays [OF ok this, of "[Upsert (demo_registration ''w'' (Some ''t1'')) ''sub'' 9]"]
  show ?thesis by auto
qed

text \<open>An operator's drain does not last: \<open>set_worker_status(..., DRAINING)\<close> is undone by
  the worker's next ordinary heartbeat, which makes it active (and so leasable) again.\<close>

theorem registry_drain_undone:
  assumes "reg_ok s" "map_of s (r_worker_id reg) = Some w" "w_status w \<noteq> W_REVOKED"
    "w_identity_subject w = subject" "w_tenant_id w = r_tenant_id reg" "\<not> r_draining reg"
  shows "\<exists>w'. fst (reg_upsert reg subject later (snd (reg_set_status (r_worker_id reg) W_DRAINING now s))) = Inr w' \<and>
           w_status w' = W_ACTIVE"
proof -
  let ?s = "snd (reg_set_status (r_worker_id reg) W_DRAINING now s)"
  have ok: "reg_ok ?s"
    using reg_ok_step [OF assms(1), of "SetStatus (r_worker_id reg) W_DRAINING now"] by simp
  obtain e where "map_of ?s (r_worker_id reg) = Some e" "w_identity_subject e = subject"
      "w_tenant_id e = r_tenant_id reg" "w_status e = W_DRAINING"
    using assms by (simp add: reg_set_status_def)
  with reg_upsert_accepts [OF ok, of reg e subject later] assms(6) show ?thesis by simp
qed

theorem registry_drain_undone_witness:
  "\<exists>w. fst (reg_upsert (demo_registration ''w'' (Some ''t1'')) ''sub'' 9
        (snd (reg_set_status ''w'' W_DRAINING 5 demo_workers))) = Inr w \<and> w_status w = W_ACTIVE"
proof -
  obtain w0 where w0: "map_of demo_workers ''w'' = Some w0" "w_status w0 = W_ACTIVE"
      "w_identity_subject w0 = ''sub''" "w_tenant_id w0 = Some ''t1''"
    by (simp add: demo_workers_def demo_registration_def reg_upsert_def upsert_record_def Let_def)
  show ?thesis
    using registry_drain_undone [OF demo_workers_ok, of "demo_registration ''w'' (Some ''t1'')" w0 "''sub''" 9 5] w0
    by (simp add: demo_registration_def)
qed

end
