(* ===== verification/Auth.thy ===== *)
theory Auth
  imports Enrollment Registry
begin

text \<open>
  \<open>auth.py\<close>: the bearer credential, the static-token authenticator, the Google ID-token
  authenticator and the worker id of a service account. Google's verifier is an argument: it gives
  the claims of a token for an audience, or \<open>None\<close> where it raises. Also \<open>MemoryWorkerAuthenticator\<close>
  of memory.py.
\<close>

definition BEARER_PREFIX :: string where "BEARER_PREFIX = ''Bearer ''"
definition STATIC_AUTH_METHOD :: string where "STATIC_AUTH_METHOD = ''static''"
definition GOOGLE_OIDC_AUTH_METHOD :: string where "GOOGLE_OIDC_AUTH_METHOD = ''google_oidc''"
definition SHA256_HEX_PATTERN :: re where "SHA256_HEX_PATTERN = times_re 64 (Cls is_hex)"
definition DEFAULT_WORKER_ACCOUNT_PREFIX :: string where
  "DEFAULT_WORKER_ACCOUNT_PREFIX = ''gpu-worker-''"

definition bearer_credential :: "string option \<Rightarrow> exn + string" where
  "bearer_credential authorization =
     (case authorization of
        None \<Rightarrow> Inl (WorkerAuthError ''missing bearer credential'')
      | Some a \<Rightarrow>
          if \<not> starts_with a BEARER_PREFIX then Inl (WorkerAuthError ''missing bearer credential'')
          else
            let credential = remove_prefix a BEARER_PREFIX
            in if credential = [] then Inl (WorkerAuthError ''missing bearer credential'')
               else Inr credential)"

section \<open>Static tokens\<close>

type_synonym tokens = "(string, string) dict"

fun tokens_loop :: "string list \<Rightarrow> tokens \<Rightarrow> exn + tokens" where
  "tokens_loop [] tokens = Inr tokens"
| "tokens_loop (entry # entries) tokens =
     (let (worker_id, separator, digest) = partition_at (CHR '':'') (strip entry) in
      if worker_id = [] \<and> separator = [] \<and> digest = [] then tokens_loop entries tokens
      else if worker_id = [] \<or> \<not> match_dollar SHA256_HEX_PATTERN digest
      then Inl (ValueError ''worker tokens must be worker-id:<sha256 hex> pairs'')
      else tokens_loop entries (AList.update worker_id digest tokens))"

definition tokens_from_env_value :: "string \<Rightarrow> exn + tokens" where
  "tokens_from_env_value v =
     ebind (tokens_loop (split_on (CHR '','') v) []) (\<lambda>tokens.
     if tokens = [] then Inl (ValueError ''worker tokens must enroll at least one worker'')
     else Inr tokens)"

definition static_authenticate :: "tokens \<Rightarrow> string option \<Rightarrow> exn + worker_identity" where
  "static_authenticate tokens authorization =
     ebind (bearer_credential authorization) (\<lambda>credential.
     let digest = sha256_hex (encode credential);
         matched = foldl (\<lambda>m (worker_id, expected). if digest = expected then Some worker_id else m)
                     None tokens
     in case matched of
          None \<Rightarrow> Inl (WorkerAuthError ''unknown worker credential'')
        | Some worker_id \<Rightarrow>
            Inr \<lparr>id_worker_id = worker_id, id_subject = STATIC_AUTH_METHOD @ '':'' @ worker_id,
                 id_method = STATIC_AUTH_METHOD\<rparr>)"

definition memory_authenticate ::
  "(string, worker_identity) dict \<Rightarrow> string option \<Rightarrow> exn + worker_identity"
where
  "memory_authenticate identities authorization =
     (case authorization of
        None \<Rightarrow> Inl (WorkerAuthError ''missing bearer credential'')
      | Some a \<Rightarrow>
          if \<not> starts_with a ''Bearer '' then Inl (WorkerAuthError ''missing bearer credential'')
          else
            (case map_of identities (remove_prefix a ''Bearer '') of
               None \<Rightarrow> Inl (WorkerAuthError ''unknown worker credential'')
             | Some i \<Rightarrow> Inr i))"

section \<open>Service accounts and Google tokens\<close>

definition ACCOUNT_DOMAIN_PATTERN :: re where
  "ACCOUNT_DOMAIN_PATTERN =
     Seq (Cls is_lower_ascii)
    (Seq (Star (Cls (\<lambda>c. lower_digit c \<or> c = CHR ''-''))) (Lit ''.iam.gserviceaccount.com''))"

definition worker_id_from_account :: "string \<Rightarrow> string \<Rightarrow> exn + string" where
  "worker_id_from_account email account_prefix =
     (let (local_part, separator, domain) = partition_at (CHR ''@'') email in
      if separator = [] \<or> \<not> starts_with local_part account_prefix
         \<or> \<not> full_match ACCOUNT_DOMAIN_PATTERN domain
      then Inl (WorkerAuthError ''identity subject is not a worker account'')
      else
        let worker_id = remove_prefix local_part account_prefix
        in if \<not> full_match WORKER_ID_PATTERN worker_id
           then Inl (WorkerAuthError ''identity subject does not name a valid worker id'')
           else Inr worker_id)"

record google_auth =
  ga_audience :: string
  ga_auto_enroll :: bool
  ga_account_prefix :: string
  ga_enrollments :: enrollments
  ga_free_slots :: nat

definition new_google_auth ::
  "string \<Rightarrow> bool \<Rightarrow> string \<Rightarrow> enrollments option \<Rightarrow> int \<Rightarrow> exn + google_auth"
where
  "new_google_auth audience auto_enroll account_prefix es max_concurrent =
     ebind (validate_enrollments es) (\<lambda>enrolled.
     if auto_enroll \<and> enrolled = []
     then Inl (ValueError ''auto-enrollment requires an explicit enrollment allowlist'')
     else if max_concurrent < 1 then Inl (ValueError ''verification concurrency must be positive'')
     else Inr \<lparr>ga_audience = audience, ga_auto_enroll = auto_enroll,
               ga_account_prefix = account_prefix, ga_enrollments = enrolled,
               ga_free_slots = nat max_concurrent\<rparr>)"

text \<open>The two halves of \<open>authenticate\<close> around the verifier thread: taking a verification slot, and
  what follows its result. The slot is given back by the thread's done callback
  (\<open>google_finished\<close>), also when the caller has gone.\<close>

definition google_begin :: "string option \<Rightarrow> google_auth \<Rightarrow> (exn + string) \<times> google_auth" where
  "google_begin authorization g =
     (case bearer_credential authorization of
        Inl e \<Rightarrow> (Inl e, g)
      | Inr credential \<Rightarrow>
          if ga_free_slots g = 0 then (Inl WorkerAuthBusy, g)
          else (Inr credential, g\<lparr>ga_free_slots := ga_free_slots g - 1\<rparr>))"

definition google_finished :: "google_auth \<Rightarrow> google_auth" where
  "google_finished g = g\<lparr>ga_free_slots := ga_free_slots g + 1\<rparr>"

definition google_resolve :: "google_auth \<Rightarrow> worker_table \<Rightarrow> payload option \<Rightarrow> exn + worker_identity" where
  "google_resolve g reg result =
     (case result of
        None \<Rightarrow> Inl (WorkerAuthError ''identity token verification failed'')
      | Some claims \<Rightarrow>
        if pget claims ''email_verified'' \<noteq> JBool True
        then Inl (WorkerAuthError ''identity token email is not verified'')
        else
          (case pget claims ''email'' of
             JStr email \<Rightarrow>
               if email = [] then Inl (WorkerAuthError ''identity token carries no email claim'')
               else
                 ebind
                   (case reg_find_by_identity_subject email reg of
                      Some record \<Rightarrow> Inr (w_worker_id record)
                    | None \<Rightarrow>
                        if ga_auto_enroll g
                        then ebind (worker_id_from_account email (ga_account_prefix g)) (\<lambda>_.
                          case find (\<lambda>p. we_identity_subject (snd p) = email) (ga_enrollments g) of
                            None \<Rightarrow> Inl (WorkerAuthError ''identity subject is not approved for enrollment'')
                          | Some (worker_id, _) \<Rightarrow>
                              (case reg_get worker_id reg of
                                 Some existing \<Rightarrow>
                                   if w_identity_subject existing \<noteq> email
                                   then Inl (WorkerAuthError ''worker identity binding does not match'')
                                   else Inr worker_id
                               | None \<Rightarrow> Inr worker_id))
                        else Inl (WorkerAuthError ''identity subject is not enrolled''))
                   (\<lambda>worker_id. Inr \<lparr>id_worker_id = worker_id, id_subject = email,
                                     id_method = GOOGLE_OIDC_AUTH_METHOD\<rparr>)
           | _ \<Rightarrow> Inl (WorkerAuthError ''identity token carries no email claim'')))"

definition google_authenticate ::
  "(string \<Rightarrow> string \<Rightarrow> payload option) \<Rightarrow> worker_table \<Rightarrow> string option \<Rightarrow> google_auth \<Rightarrow>
     (exn + worker_identity) \<times> google_auth"
where
  "google_authenticate verifier reg authorization g =
     (case google_begin authorization g of
        (Inl e, g') \<Rightarrow> (Inl e, g')
      | (Inr credential, g') \<Rightarrow>
          (google_resolve g' reg (verifier credential (ga_audience g')), google_finished g'))"

section \<open>Properties\<close>

lemma partition_at_inverse:
  "partition_at c s = (a, sep, b) \<Longrightarrow> sep \<noteq> [] \<Longrightarrow> s = a @ c # b \<and> c \<notin> set a"
  by (induction s arbitrary: a) (auto simp: partition_at_def Let_def split: if_splits)

lemma worker_id_chars:
  "full_match WORKER_ID_PATTERN w \<Longrightarrow> c \<in> set w \<Longrightarrow> lower_digit c \<or> c = CHR ''-''"
  by (drule (1) full_match_chars) (auto simp: WORKER_ID_PATTERN_def dest: re_chars_upto)

lemma tokens_loop_ok:
  "tokens_loop entries tokens = Inr tokens' \<Longrightarrow>
     list_all (\<lambda>(w, d). w \<noteq> [] \<and> match_dollar SHA256_HEX_PATTERN d) tokens \<Longrightarrow> distinct (keys tokens) \<Longrightarrow>
     list_all (\<lambda>(w, d). w \<noteq> [] \<and> match_dollar SHA256_HEX_PATTERN d) tokens' \<and> distinct (keys tokens')"
proof (induction entries tokens rule: tokens_loop.induct)
  case (2 entry entries tokens)
  obtain w sep d where p: "partition_at (CHR '':'') (strip entry) = (w, sep, d)"
    using prod_cases3 by blast
  have "list_all (\<lambda>(w, d). w \<noteq> [] \<and> match_dollar SHA256_HEX_PATTERN d) (AList.update w d tokens)"
    if "w \<noteq> []" "match_dollar SHA256_HEX_PATTERN d"
    using that 2(4) by (induction tokens) auto
  with 2 show ?case by (auto simp: p split: if_splits)
qed simp

lemma bearer_iff:
  "bearer_credential a = Inr c \<longleftrightarrow> c \<noteq> [] \<and> a = Some (BEARER_PREFIX @ c)"
  by (auto simp: bearer_credential_def Let_def starts_with_def prefix_def split: option.splits)

lemma foldl_last_match:
  "foldl (\<lambda>m (w, e). if d = e then Some w else m) m0 ts = Some w \<Longrightarrow>
     m0 = Some w \<or> (w, d) \<in> set ts"
proof (induction ts arbitrary: m0)
  case (Cons p ts)
  obtain w' e where p: "p = (w', e)" by force
  show ?case using Cons.IH [of "if d = e then Some w' else m0"] Cons.prems
    by (cases "d = e") (auto simp: p)
qed simp

lemma foldl_some_match:
  "(w, d) \<in> set ts \<or> m0 \<noteq> None \<Longrightarrow>
     foldl (\<lambda>m (w, e). if d = e then Some w else m) m0 ts \<noteq> None"
  by (induction ts arbitrary: m0) auto

lemma static_authenticate_bearer:
  "c \<noteq> [] \<Longrightarrow> static_authenticate tokens (Some (BEARER_PREFIX @ c)) =
     (case foldl (\<lambda>m (w, e). if sha256_hex (encode c) = e then Some w else m) None tokens of
        None \<Rightarrow> Inl (WorkerAuthError ''unknown worker credential'')
      | Some w \<Rightarrow> Inr \<lparr>id_worker_id = w, id_subject = STATIC_AUTH_METHOD @ '':'' @ w,
                        id_method = STATIC_AUTH_METHOD\<rparr>)"
  using bearer_iff [of "Some (BEARER_PREFIX @ c)" c] by (simp add: static_authenticate_def Let_def)

lemma static_authenticate_no_bearer:
  "static_authenticate tokens a = Inr i \<Longrightarrow> \<exists>c. c \<noteq> [] \<and> a = Some (BEARER_PREFIX @ c)"
  by (auto simp: static_authenticate_def ebind_Inr_iff bearer_iff)

text \<open>The static authenticator admits exactly the enrolled tokens: it accepts a header
  only if it is a bearer credential whose SHA-256 is the digest configured for the worker it names
  (any configuration it accepts maps nonempty ids to 64 hexadecimal digits), and it accepts the
  bearer credential of every configured digest.\<close>

theorem static_authenticate_sound:
  assumes "tokens_from_env_value v = Inr tokens"
  shows "(\<forall>i. static_authenticate tokens a = Inr i \<longrightarrow>
            (\<exists>c. a = Some (BEARER_PREFIX @ c) \<and> c \<noteq> [] \<and>
               map_of tokens (id_worker_id i) = Some (sha256_hex (encode c)) \<and>
               id_subject i = STATIC_AUTH_METHOD @ '':'' @ id_worker_id i)) \<and>
         (\<forall>c. c \<noteq> [] \<and> sha256_hex (encode c) \<in> set (dvalues tokens) \<longrightarrow>
            (\<exists>i. static_authenticate tokens (Some (BEARER_PREFIX @ c)) = Inr i)) \<and>
         list_all (\<lambda>(w, d). w \<noteq> [] \<and> match_dollar SHA256_HEX_PATTERN d) tokens"
proof -
  have ok: "list_all (\<lambda>(w, d). w \<noteq> [] \<and> match_dollar SHA256_HEX_PATTERN d) tokens" "distinct (keys tokens)"
    using assms tokens_loop_ok [of "split_on (CHR '','') v" "[]"]
    by (auto simp: tokens_from_env_value_def result_simps split: if_splits)
  have sound: "\<exists>c. a = Some (BEARER_PREFIX @ c) \<and> c \<noteq> [] \<and>
          map_of tokens (id_worker_id i) = Some (sha256_hex (encode c)) \<and>
          id_subject i = STATIC_AUTH_METHOD @ '':'' @ id_worker_id i"
    if i: "static_authenticate tokens a = Inr i" for i
  proof -
    obtain c where c: "c \<noteq> []" "a = Some (BEARER_PREFIX @ c)"
      using static_authenticate_no_bearer [OF i] by blast
    obtain w where w: "foldl (\<lambda>m (w, e). if sha256_hex (encode c) = e then Some w else m) None tokens = Some w"
        "i = \<lparr>id_worker_id = w, id_subject = STATIC_AUTH_METHOD @ '':'' @ w,
              id_method = STATIC_AUTH_METHOD\<rparr>"
      using i static_authenticate_bearer [OF c(1), of tokens] by (auto simp: c(2) split: option.splits)
    then have "(w, sha256_hex (encode c)) \<in> set tokens"
      using foldl_last_match [OF w(1)] by simp
    with c w(2) ok(2) show ?thesis by auto
  qed
  have complete: "\<exists>i. static_authenticate tokens (Some (BEARER_PREFIX @ c)) = Inr i"
    if c: "c \<noteq> []" "sha256_hex (encode c) \<in> set (dvalues tokens)" for c
  proof -
    obtain w where "(w, sha256_hex (encode c)) \<in> set tokens" using c(2) by auto
    with foldl_some_match [of w "sha256_hex (encode c)" tokens None] show ?thesis
      by (auto simp: static_authenticate_bearer [OF c(1)])
  qed
  show ?thesis
    using sound complete ok(1) by (intro conjI allI impI) (assumption | elim conjE | simp only:)+
qed

definition demo_tokens_env :: string where
  "demo_tokens_env = ''gpu-1:'' @ replicate 64 (CHR ''a'')"

lemma demo_tokens: "tokens_from_env_value demo_tokens_env = Inr [(''gpu-1'', replicate 64 (CHR ''a''))]"
  by code_simp

theorem static_authenticate_sound_witness:
  "tokens_from_env_value demo_tokens_env = Inr [(''gpu-1'', replicate 64 (CHR ''a''))] \<and>
   match_dollar SHA256_HEX_PATTERN (replicate 64 (CHR ''a''))"
  using static_authenticate_sound [OF demo_tokens, of "Some ''Bearer x''"] demo_tokens
  by simp

lemma at_sign: "\<not> lower_digit (CHR ''@'')"
  by code_simp

text \<open>A service account name is resolved to the worker id it spells, and only accounts of
  the form \<open>prefix id @ project.iam.gserviceaccount.com\<close> with a permitted id are resolved.\<close>

theorem worker_id_from_account_iff:
  "worker_id_from_account email p = Inr w \<longleftrightarrow>
     (\<exists>domain. email = p @ w @ CHR ''@'' # domain \<and> CHR ''@'' \<notin> set p \<and>
        full_match WORKER_ID_PATTERN w \<and> full_match ACCOUNT_DOMAIN_PATTERN domain)"
proof
  assume "worker_id_from_account email p = Inr w"
  then obtain lp sep domain where part: "partition_at (CHR ''@'') email = (lp, sep, domain)"
      and ok: "sep \<noteq> []" "starts_with lp p" "full_match ACCOUNT_DOMAIN_PATTERN domain"
        "full_match WORKER_ID_PATTERN (remove_prefix lp p)" "w = remove_prefix lp p"
    by (auto simp: worker_id_from_account_def Let_def split: prod.splits if_splits)
  have lp: "lp = p @ w"
    using ok(2,5) by (auto simp: starts_with_def prefix_def)
  have "email = lp @ CHR ''@'' # domain" "CHR ''@'' \<notin> set lp"
    using part ok(1) partition_at_inverse [of "CHR ''@''" email] by simp_all
  with lp have "email = p @ w @ CHR ''@'' # domain" "CHR ''@'' \<notin> set p" by simp_all
  with ok(3-5) show "\<exists>domain. email = p @ w @ CHR ''@'' # domain \<and> CHR ''@'' \<notin> set p \<and>
        full_match WORKER_ID_PATTERN w \<and> full_match ACCOUNT_DOMAIN_PATTERN domain"
    by blast
next
  assume "\<exists>domain. email = p @ w @ CHR ''@'' # domain \<and> CHR ''@'' \<notin> set p \<and>
        full_match WORKER_ID_PATTERN w \<and> full_match ACCOUNT_DOMAIN_PATTERN domain"
  then obtain domain where d: "email = (p @ w) @ CHR ''@'' # domain" "CHR ''@'' \<notin> set p"
      "full_match WORKER_ID_PATTERN w" "full_match ACCOUNT_DOMAIN_PATTERN domain" by auto
  have "CHR ''@'' \<notin> set w"
    using worker_id_chars [OF d(3), of "CHR ''@''"] at_sign by auto
  with d(2) have "CHR ''@'' \<notin> set (p @ w)" by simp
  from partition_at_append [OF this, of domain] d show "worker_id_from_account email p = Inr w"
    by (simp add: worker_id_from_account_def Let_def del: partition_at_append)
qed

text \<open>A Google token is admitted only with a verified e-mail, and only as the worker that
  e-mail is enrolled as: the registry's own row for that subject, or, with auto-enrollment, the
  worker id the allowlist gives it, provided no other identity holds that id.\<close>

theorem google_resolve_sound:
  assumes "reg_ok reg" "google_resolve g reg result = Inr i"
  shows "\<exists>claims. result = Some claims \<and> pget claims ''email_verified'' = JBool True \<and>
      pget claims ''email'' = JStr (id_subject i) \<and> id_subject i \<noteq> [] \<and>
      ((\<exists>w. map_of reg (id_worker_id i) = Some w \<and> w_identity_subject w = id_subject i) \<or>
       (ga_auto_enroll g \<and> map_of reg (id_worker_id i) = None \<and>
        (\<exists>e. (id_worker_id i, e) \<in> set (ga_enrollments g) \<and> we_identity_subject e = id_subject i) \<and>
        (\<exists>w. worker_id_from_account (id_subject i) (ga_account_prefix g) = Inr w)))"
proof -
  obtain claims email where c: "result = Some claims" "pget claims ''email_verified'' = JBool True"
      "pget claims ''email'' = JStr email" "email \<noteq> []"
    using assms(2) by (auto simp: google_resolve_def split: option.splits if_splits json.splits)
  have subject: "id_subject i = email"
    using assms(2) c by (auto simp: google_resolve_def ebind_Inr_iff)
  show ?thesis
  proof (cases "reg_find_by_identity_subject email reg")
    case (Some w)
    then have w: "w \<in> set (dvalues reg)" "w_identity_subject w = email"
      using find_SomeD unfolding reg_find_by_identity_subject_def by fastforce+
    have "id_worker_id i = w_worker_id w"
      using assms(2) c Some by (auto simp: google_resolve_def)
    moreover have "map_of reg (w_worker_id w) = Some w"
      using w(1) assms(1) by (auto simp: reg_ok_def list_all_iff intro: map_of_is_SomeI)
    ultimately show ?thesis using c subject w(2) by auto
  next
    case None
    then have auto: "ga_auto_enroll g"
      using assms(2) c by (auto simp: google_resolve_def split: if_splits)
    obtain w where acc: "worker_id_from_account email (ga_account_prefix g) = Inr w"
      using assms(2) c None auto by (auto simp: google_resolve_def ebind_Inr_iff)
    obtain k e where f: "find (\<lambda>p. we_identity_subject (snd p) = email) (ga_enrollments g) = Some (k, e)"
      using assms(2) c None auto acc
      by (cases "find (\<lambda>p. we_identity_subject (snd p) = email) (ga_enrollments g)")
        (auto simp: google_resolve_def)
    have e: "(k, e) \<in> set (ga_enrollments g)" "we_identity_subject e = email"
      using find_SomeD [OF f] by simp_all
    have "id_worker_id i = k \<and> (case map_of reg k of None \<Rightarrow> True | Some w \<Rightarrow> w_identity_subject w = email)"
      using assms(2) c None auto acc f
      by (auto simp: google_resolve_def reg_get_def split: option.splits if_splits)
    with c subject auto acc e show ?thesis by (auto split: option.splits)
  qed
qed

definition demo_google :: google_auth where
  "demo_google = \<lparr>ga_audience = ''aud'', ga_auto_enroll = False, ga_account_prefix = ''gpu-worker-'',
                  ga_enrollments = [], ga_free_slots = 1\<rparr>"

theorem google_resolve_sound_witness:
  "\<exists>w. map_of demo_workers ''w'' = Some w \<and> w_identity_subject w = ''sub''"
proof -
  have "google_resolve demo_google demo_workers
      (Some [(''email_verified'', JBool True), (''email'', JStr ''sub'')]) =
    Inr \<lparr>id_worker_id = ''w'', id_subject = ''sub'', id_method = GOOGLE_OIDC_AUTH_METHOD\<rparr>"
    by (simp add: google_resolve_def pget_def demo_google_def reg_find_by_identity_subject_def
        demo_workers_def demo_registration_def reg_upsert_def upsert_record_def Let_def)
  from google_resolve_sound [OF demo_workers_ok this] show ?thesis
    by (simp add: demo_google_def)
qed

end
