(* ===== verification/Plugins.thy ===== *)
theory Plugins
  imports Auth
begin

text \<open>
  \<open>plugins.py\<close>: the plugin contract, the reference plugin \<open>DeterministicEchoPlugin\<close>, and the schemas a
  coordinator publishes; \<open>gpu_sampler.py\<close>: reading the output of nvidia-smi. A path is any value
  (type variable); the bytes behind it are given by an argument.
\<close>

section \<open>The plugin contract\<close>

definition DETERMINISTIC_ECHO_PLUGIN_ID :: string where
  "DETERMINISTIC_ECHO_PLUGIN_ID = ''deterministic-echo''"
definition DETERMINISTIC_ECHO_PLUGIN_VERSION :: string where
  "DETERMINISTIC_ECHO_PLUGIN_VERSION = ''1''"
definition DETERMINISTIC_ECHO_CONTRACT_VERSION :: int where
  "DETERMINISTIC_ECHO_CONTRACT_VERSION = 1"
definition DETERMINISTIC_ECHO_OUTPUT_NAME :: string where
  "DETERMINISTIC_ECHO_OUTPUT_NAME = ''output.txt''"
definition DETERMINISTIC_ECHO_CONTENT_TYPE :: string where
  "DETERMINISTIC_ECHO_CONTENT_TYPE = ''text/plain''"
definition DETERMINISTIC_ECHO_HEADER :: bytes where
  "DETERMINISTIC_ECHO_HEADER = encode (''deterministic-echo/v1'' @ [CHR 0x0A])"
definition DEFAULT_ECHO_LABEL :: string where "DEFAULT_ECHO_LABEL = ''echo''"
definition MAX_ECHO_LABEL_LENGTH :: nat where "MAX_ECHO_LABEL_LENGTH = 64"

definition DETERMINISTIC_ECHO_SCHEMA :: capability_schema where
  "DETERMINISTIC_ECHO_SCHEMA =
     \<lparr>cs_capability_id = DETERMINISTIC_ECHO_CAPABILITY,
      cs_contract_version = DETERMINISTIC_ECHO_CONTRACT_VERSION,
      cs_input_schema =
        [(''type'', JStr ''object''), (''additionalProperties'', JBool False),
         (''properties'', JObj
           [(''seed'', JObj [(''type'', JStr ''integer''), (''minimum'', JInt 0)]),
            (''label'', JObj [(''type'', JStr ''string''), (''maxLength'', JInt 64)])])]\<rparr>"

record capability_manifest =
  cm_plugin_id :: string
  cm_plugin_version :: string
  cm_capabilities :: "worker_capability list"
  cm_schemas :: "capability_schema list"

record validated_request =
  vr_capability_id :: string
  vr_contract_version :: int
  vr_inputs :: payload
  vr_seed :: "int option"

record 'p plugin_output =
  po_path :: 'p
  po_content_type :: string
  po_model_id :: string
  po_model_version :: string
  po_seed :: "int option"
  po_diagnostics :: payload

section \<open>The reference plugin\<close>

definition echo_capabilities :: capability_manifest where
  "echo_capabilities =
     \<lparr>cm_plugin_id = DETERMINISTIC_ECHO_PLUGIN_ID, cm_plugin_version = DETERMINISTIC_ECHO_PLUGIN_VERSION,
      cm_capabilities = [\<lparr>wc_capability_id = DETERMINISTIC_ECHO_CAPABILITY,
                          wc_plugin_id = DETERMINISTIC_ECHO_PLUGIN_ID,
                          wc_plugin_version = DETERMINISTIC_ECHO_PLUGIN_VERSION, wc_concurrency = 1\<rparr>],
      cm_schemas = [DETERMINISTIC_ECHO_SCHEMA]\<rparr>"

definition payload_get :: "payload \<Rightarrow> string \<Rightarrow> json \<Rightarrow> json" where
  "payload_get p k a = (case map_of p k of None \<Rightarrow> a | Some v \<Rightarrow> v)"

definition echo_validate :: "lease_grant \<Rightarrow> exn + validated_request" where
  "echo_validate lease =
     (if lg_capability_id lease \<noteq> DETERMINISTIC_ECHO_CAPABILITY
      then Inl (PluginRequestRejected ''unsupported capability'')
      else if lg_contract_version lease \<noteq> DETERMINISTIC_ECHO_CONTRACT_VERSION
      then Inl (PluginRequestRejected ''unsupported contract version'')
      else if \<not> set (keys (lg_payload lease)) \<subseteq> {''seed'', ''label''}
      then Inl (PluginRequestRejected ''payload carries unsupported keys'')
      else case payload_get (lg_payload lease) ''seed'' (JInt 0) of
        JInt seed \<Rightarrow>
          if seed < 0 then Inl (PluginRequestRejected ''seed must be a non-negative integer'')
          else (case payload_get (lg_payload lease) ''label'' (JStr DEFAULT_ECHO_LABEL) of
             JStr lbl \<Rightarrow>
               if length lbl > MAX_ECHO_LABEL_LENGTH
               then Inl (PluginRequestRejected ''label must be a string of at most 64 characters'')
               else Inr \<lparr>vr_capability_id = lg_capability_id lease,
                         vr_contract_version = lg_contract_version lease,
                         vr_inputs = [(''seed'', JInt seed), (''label'', JStr lbl)],
                         vr_seed = Some seed\<rparr>
           | _ \<Rightarrow> Inl (PluginRequestRejected ''label must be a string of at most 64 characters''))
      | _ \<Rightarrow> Inl (PluginRequestRejected ''seed must be a non-negative integer''))"

text \<open>\<open>f"{v}"\<close> of a validated input: a text or an integer.\<close>

fun json_text :: "json \<Rightarrow> string" where
  "json_text (JStr s) = s"
| "json_text (JInt n) = int_str n"
| "json_text _ = []"

text \<open>The bytes the execution writes, from the contents of the inputs in the order they arrived.\<close>

definition echo_output :: "(string, bytes) dict \<Rightarrow> validated_request \<Rightarrow> bytes" where
  "echo_output inputs request =
     (let digest = sha256_hex (concat (map snd (sort_key fst inputs)));
          nl = [CHR 0x0A];
          body = ''label='' @ json_text (pget (vr_inputs request) ''label'') @ nl @
                 ''seed='' @ json_text (pget (vr_inputs request) ''seed'') @ nl @
                 ''sha256='' @ digest @ nl
      in DETERMINISTIC_ECHO_HEADER @ encode body)"

text \<open>\<open>execute\<close>: \<open>read\<close> is \<open>Path.read_bytes\<close>, \<open>out\<close> the path of the output in the workspace; the
  result is the output with the bytes written there.\<close>

definition echo_execute ::
  "('p \<Rightarrow> exn + bytes) \<Rightarrow> 'p \<Rightarrow> (string, 'p) dict \<Rightarrow> validated_request \<Rightarrow>
     exn + 'p plugin_output \<times> bytes"
where
  "echo_execute read out input_paths request =
     ebind (map_result (\<lambda>(k, p). ebind (read p) (\<lambda>c. Inr (k, c))) (sort_key fst input_paths)) (\<lambda>inputs.
     Inr (\<lparr>po_path = out, po_content_type = DETERMINISTIC_ECHO_CONTENT_TYPE,
           po_model_id = DETERMINISTIC_ECHO_PLUGIN_ID, po_model_version = DETERMINISTIC_ECHO_PLUGIN_VERSION,
           po_seed = vr_seed request, po_diagnostics = []\<rparr>,
          echo_output inputs request))"

section \<open>Published schemas\<close>

definition capability_schemas_from_plugins ::
  "capability_manifest list \<Rightarrow> (string, capability_schema) dict"
where
  "capability_schemas_from_plugins plugins =
     fold (\<lambda>m schemas. fold (\<lambda>sch d. AList.update (cs_capability_id sch) sch d) (cm_schemas m) schemas)
       plugins []"

section \<open>The GPU sampler\<close>

text \<open>\<open>int(text)\<close>: surrounding white space, a sign, decimal digits with single underscores between
  them, at most 4300 of them.\<close>

fun digits_us :: "string \<Rightarrow> bool" where
  "digits_us [] = False"
| "digits_us [c] = is_digit_ascii c"
| "digits_us (c # d # cs) =
     (is_digit_ascii c \<and> (if d = CHR ''_'' then digits_us cs else digits_us (d # cs)))"

definition int_of_text :: "string \<Rightarrow> exn + int" where
  "int_of_text txt =
     (let t = strip txt;
          (neg, ds) = (case t of c # r \<Rightarrow> if c = CHR ''-'' then (True, r)
                                          else if c = CHR ''+'' then (False, r) else (False, t)
                               | [] \<Rightarrow> (False, []));
          digits = filter is_digit_ascii ds;
          n = foldl (\<lambda>n c. n * 10 + (of_char c - 48)) (0 :: int) digits
      in if digits_us ds \<and> length digits \<le> 4300 then Inr (if neg then - n else n)
         else Inl (ValueError ''invalid literal for int()''))"

text \<open>\<open>str.splitlines\<close>\<close>

definition is_line_end :: "char \<Rightarrow> bool" where
  "is_line_end c = (let n = of_char c :: nat in (10 \<le> n \<and> n \<le> 13) \<or> (28 \<le> n \<and> n \<le> 30) \<or> n = 133)"

fun lines_from :: "string \<Rightarrow> string \<Rightarrow> string list" where
  "lines_from cur [] = (if cur = [] then [] else [rev cur])"
| "lines_from cur (c # cs) =
     (if c = CHR 0x0D then
        (case cs of d # ds \<Rightarrow> if d = CHR 0x0A then rev cur # lines_from [] ds
                              else rev cur # lines_from [] cs
                  | [] \<Rightarrow> [rev cur])
      else if is_line_end c then rev cur # lines_from [] cs
      else lines_from (c # cur) cs)"

definition splitlines :: "string \<Rightarrow> string list" where
  "splitlines s = lines_from [] s"

definition NOT_AVAILABLE :: string where "NOT_AVAILABLE = ''[N/A]''"

definition optional_int :: "string \<Rightarrow> exn + int option" where
  "optional_int v =
     (if v = NOT_AVAILABLE \<or> v = [] then Inr None else ebind (int_of_text v) (\<lambda>n. Inr (Some n)))"

definition parse_gpu_line :: "string \<Rightarrow> exn + gpu_telemetry" where
  "parse_gpu_line stripped =
     (case map strip (split_on (CHR '','') stripped) of
        [index, name, utilization_pct, memory_used_mb, memory_total_mb] \<Rightarrow>
          ebind (int_of_text index) (\<lambda>i.
          ebind (optional_int utilization_pct) (\<lambda>u.
          ebind (optional_int memory_used_mb) (\<lambda>m.
          ebind (optional_int memory_total_mb) (\<lambda>t.
          Inr \<lparr>gt_index = i, gt_name = name, gt_utilization_pct = u, gt_memory_used_mb = m,
                gt_memory_total_mb = t\<rparr>))))
      | fs \<Rightarrow> Inl (ValueError (''expected 5 fields, got '' @ nat_str (length fs))))"

definition parse_csv :: "string \<Rightarrow> exn + gpu_telemetry list" where
  "parse_csv stdout =
     map_result parse_gpu_line (filter (\<lambda>l. l \<noteq> []) (map strip (splitlines stdout)))"

text \<open>Where the sampler looks for the binary: the constructor's argument, the environment variable,
  \<open>shutil.which\<close>, the path under WSL if it exists.\<close>

definition WSL_NVIDIA_SMI_PATH :: string where
  "WSL_NVIDIA_SMI_PATH = ''/usr/lib/wsl/lib/nvidia-smi''"

definition resolve_binary ::
  "string option \<Rightarrow> (string, string) dict \<Rightarrow> string option \<Rightarrow> bool \<Rightarrow> string option"
where
  "resolve_binary override env on_path wsl_exists =
     (case override of
        Some b \<Rightarrow> Some b
      | None \<Rightarrow>
          (case map_of env ''OGWP_NVIDIA_SMI'' of
             Some v \<Rightarrow> if v \<noteq> [] then Some v
                       else (case on_path of Some p \<Rightarrow> Some p
                             | None \<Rightarrow> if wsl_exists then Some WSL_NVIDIA_SMI_PATH else None)
           | None \<Rightarrow> (case on_path of Some p \<Rightarrow> Some p
                     | None \<Rightarrow> if wsl_exists then Some WSL_NVIDIA_SMI_PATH else None)))"

datatype smi_run = Smi_timeout | Smi_failed | Smi_output string

text \<open>\<open>sample\<close>: the samples, whether a warning is logged, and the new value of \<open>_warned\<close>.\<close>

definition gpu_sample ::
  "string option \<Rightarrow> (string \<Rightarrow> smi_run) \<Rightarrow> bool \<Rightarrow> gpu_telemetry list \<times> bool \<times> bool"
where
  "gpu_sample binary run warned =
     (let fail = ([], \<not> warned, True) in
      case binary of
        None \<Rightarrow> fail
      | Some b \<Rightarrow>
          (case run b of
             Smi_timeout \<Rightarrow> fail
           | Smi_failed \<Rightarrow> fail
           | Smi_output stdout \<Rightarrow>
               (case parse_csv stdout of Inl _ \<Rightarrow> fail | Inr gpus \<Rightarrow> (gpus, False, warned))))"

section \<open>Properties\<close>

lemma map_result_eq:
  "list_all2 (\<lambda>x y. f x = g y) xs ys \<Longrightarrow> map_result f xs = map_result g ys"
  by (induction rule: list_all2_induct) simp_all

text \<open>The reference plugin is deterministic: the bytes it writes depend only on the request
  and on which content each input key has, not on the order or the paths in which the inputs
  arrived; and any two workers' outputs therefore have the same digest.\<close>

theorem echo_deterministic:
  assumes "distinct (keys paths)" "distinct (keys paths')" "set (keys paths) = set (keys paths')"
    "\<And>k p p'. (k, p) \<in> set paths \<Longrightarrow> (k, p') \<in> set paths' \<Longrightarrow> read p = read' p'"
    "echo_execute read out paths request = Inr (o1, b1)"
    "echo_execute read' out' paths' request = Inr (o2, b2)"
  shows "b1 = b2"
proof -
  let ?f = "\<lambda>r (k, p). ebind (r p) (\<lambda>c. Inr (k, c))"
  let ?xs = "sort_key fst paths" and ?ys = "sort_key fst paths'"
  have k: "map fst ?xs = map fst ?ys"
  proof (rule sorted_distinct_set_unique)
    show "distinct (map fst ?xs)" "distinct (map fst ?ys)"
      using assms(1,2) by (simp_all add: distinct_map inj_on_def)
  qed (use assms(3) in simp_all)
  have "map_result (?f read) ?xs = map_result (?f read') ?ys"
  proof (rule map_result_eq)
    show "list_all2 (\<lambda>x y. ?f read x = ?f read' y) ?xs ?ys"
    proof (rule list_all2_all_nthI)
      show "length ?xs = length ?ys" using arg_cong [OF k, of length] by simp
      fix n assume n: "n < length ?xs"
      then have m: "n < length ?ys" using arg_cong [OF k, of length] by simp
      obtain a p where x: "?xs ! n = (a, p)" by (cases "?xs ! n")
      obtain b q where y: "?ys ! n = (b, q)" by (cases "?ys ! n")
      have "map fst ?xs ! n = map fst ?ys ! n" by (simp only: k)
      then have "a = b" using n m x y by simp
      moreover have "(a, p) \<in> set paths" using nth_mem [OF n] x by simp
      moreover have "(b, q) \<in> set paths'" using nth_mem [OF m] y by simp
      ultimately show "?f read (?xs ! n) = ?f read' (?ys ! n)" using assms(4) x y by simp
    qed
  qed
  with assms(5,6) show ?thesis by (auto simp: echo_execute_def result_simps)
qed

theorem echo_deterministic_witness:
  "echo_output [(''a'', [1]), (''b'', [2])] \<lparr>vr_capability_id = [], vr_contract_version = 1, vr_inputs = [], vr_seed = None\<rparr> =
   echo_output [(''b'', [2]), (''a'', [1])] \<lparr>vr_capability_id = [], vr_contract_version = 1, vr_inputs = [], vr_seed = None\<rparr>"
proof -
  let ?r = "\<lparr>vr_capability_id = [], vr_contract_version = 1, vr_inputs = [], vr_seed = None\<rparr>"
  let ?ps = "[(''a'', 1), (''b'', 2)] :: (string \<times> 8 word) list" and ?qs = "[(''b'', 2), (''a'', 1)] :: (string \<times> 8 word) list"
  let ?read = "\<lambda>p :: 8 word. Inr [p] :: exn + bytes"
  have e: "echo_execute ?read 0 ?ps ?r = Inr (\<lparr>po_path = 0, po_content_type = DETERMINISTIC_ECHO_CONTENT_TYPE,
           po_model_id = DETERMINISTIC_ECHO_PLUGIN_ID, po_model_version = DETERMINISTIC_ECHO_PLUGIN_VERSION,
           po_seed = None, po_diagnostics = []\<rparr>, echo_output [(''a'', [1]), (''b'', [2])] ?r)"
    "echo_execute ?read 0 ?qs ?r = Inr (\<lparr>po_path = 0, po_content_type = DETERMINISTIC_ECHO_CONTENT_TYPE,
           po_model_id = DETERMINISTIC_ECHO_PLUGIN_ID, po_model_version = DETERMINISTIC_ECHO_PLUGIN_VERSION,
           po_seed = None, po_diagnostics = []\<rparr>, echo_output [(''b'', [2]), (''a'', [1])] ?r)"
    by (simp_all add: echo_execute_def) (simp add: echo_output_def)
  show ?thesis by (rule echo_deterministic [OF _ _ _ _ e]) auto
qed

text \<open>A sample never raises, and over any sequence of samples at most one warning is logged.\<close>

fun warnings :: "(string option \<times> (string \<Rightarrow> smi_run)) list \<Rightarrow> bool \<Rightarrow> nat" where
  "warnings [] warned = 0"
| "warnings ((binary, run) # rs) warned =
     (let (_, w, warned') = gpu_sample binary run warned in (if w then 1 else 0) + warnings rs warned')"

lemma one_warning: "warnings rs warned \<le> (if warned then 0 else 1)"
proof (induction rs arbitrary: warned)
  case (Cons r rs)
  show ?case
    using Cons.IH [of True] Cons.IH [of False]
    by (cases r; cases warned) (auto simp: gpu_sample_def Let_def split: option.split smi_run.split sum.split)
qed simp

end
