(* ===== verification/Effects.thy ===== *)
theory Effects
  imports Plugins
begin

text \<open>
  Code that talks to the outside world and may raise: a run maps the list of the calls made so far,
  newest first, to a result and the extended list. Every answer of the world is a function of that
  list, so it may depend on everything that happened before. Also paths (\<open>PurePosixPath\<close>) and the
  truth value of a JSON value.
\<close>

lemma update_fresh: "k \<notin> set (keys d) \<Longrightarrow> AList.update k v d = d @ [(k, v)]"
  by (induction d) auto

lemma ebind_InrE: "ebind r f = Inr b \<Longrightarrow> (\<And>a. r = Inr a \<Longrightarrow> f a = Inr b \<Longrightarrow> P) \<Longrightarrow> P"
  by (auto simp: ebind_Inr_iff)

section \<open>Runs\<close>

type_synonym ('c, 'e, 'a) run = "'c list \<Rightarrow> ('e + 'a) \<times> 'c list"

definition mreturn :: "'a \<Rightarrow> ('c, 'e, 'a) run" where
  "mreturn a w = (Inr a, w)"

definition mraise :: "'e \<Rightarrow> ('c, 'e, 'a) run" where
  "mraise e w = (Inl e, w)"

definition mlift :: "'e + 'a \<Rightarrow> ('c, 'e, 'a) run" where
  "mlift r w = (r, w)"

definition mbind :: "('c, 'e, 'a) run \<Rightarrow> ('a \<Rightarrow> ('c, 'e, 'b) run) \<Rightarrow> ('c, 'e, 'b) run" where
  "mbind m f w = (case m w of (Inl e, w') \<Rightarrow> (Inl e, w') | (Inr a, w') \<Rightarrow> f a w')"

definition mcatch :: "('c, 'e, 'a) run \<Rightarrow> ('e \<Rightarrow> ('c, 'e, 'a) run) \<Rightarrow> ('c, 'e, 'a) run" where
  "mcatch m g w = (case m w of (Inl e, w') \<Rightarrow> g e w' | (Inr a, w') \<Rightarrow> (Inr a, w'))"

text \<open>\<open>try: m finally: f\<close>: an exception of \<open>f\<close> replaces the result of \<open>m\<close>.\<close>

definition mfinally :: "('c, 'e, 'a) run \<Rightarrow> ('c, 'e, unit) run \<Rightarrow> ('c, 'e, 'a) run" where
  "mfinally m f w =
     (case m w of (r, w') \<Rightarrow> (case f w' of (Inl e, w'') \<Rightarrow> (Inl e, w'') | (Inr _, w'') \<Rightarrow> (r, w'')))"

text \<open>A call, and what the world answers to it.\<close>

definition mcall :: "'c \<Rightarrow> ('c list \<Rightarrow> 'e + 'a) \<Rightarrow> ('c, 'e, 'a) run" where
  "mcall c answer w = (answer (c # w), c # w)"

abbreviation mobserve :: "'c \<Rightarrow> ('c list \<Rightarrow> 'a) \<Rightarrow> ('c, 'e, 'a) run" where
  "mobserve c answer \<equiv> mcall c (\<lambda>w. Inr (answer w))"

fun mfor :: "('a \<Rightarrow> ('c, 'e, unit) run) \<Rightarrow> 'a list \<Rightarrow> ('c, 'e, unit) run" where
  "mfor f [] = mreturn ()"
| "mfor f (x # xs) = mbind (f x) (\<lambda>_. mfor f xs)"

named_theorems run_simps \<open>results of runs\<close>

lemma mbind_Inr [run_simps]:
  "mbind m f w = (Inr b, w') \<longleftrightarrow> (\<exists>a l. m w = (Inr a, l) \<and> f a l = (Inr b, w'))"
  by (auto simp: mbind_def split: prod.splits sum.splits)

lemma mbind_Inl [run_simps]:
  "mbind m f w = (Inl e, w') \<longleftrightarrow>
     m w = (Inl e, w') \<or> (\<exists>a l. m w = (Inr a, l) \<and> f a l = (Inl e, w'))"
  by (auto simp: mbind_def split: prod.splits sum.splits)

lemma mbind_InrE:
  "mbind m f w = (Inr b, w') \<Longrightarrow> (\<And>a l. m w = (Inr a, l) \<Longrightarrow> f a l = (Inr b, w') \<Longrightarrow> P) \<Longrightarrow> P"
  by (auto simp: mbind_Inr)

lemma mreturn_iff [run_simps]: "mreturn a w = (r, w') \<longleftrightarrow> r = Inr a \<and> w' = w"
  by (auto simp: mreturn_def)

lemma mraise_iff [run_simps]: "mraise e w = (r, w') \<longleftrightarrow> r = Inl e \<and> w' = w"
  by (auto simp: mraise_def)

lemma mlift_iff [run_simps]: "mlift x w = (r, w') \<longleftrightarrow> x = r \<and> w' = w"
  by (auto simp: mlift_def)

lemma mcall_iff [run_simps]: "mcall c answer w = (r, w') \<longleftrightarrow> answer (c # w) = r \<and> w' = c # w"
  by (auto simp: mcall_def)

lemma mcatch_iff [run_simps]:
  "mcatch m g w = (r, w') \<longleftrightarrow>
     (\<exists>a. m w = (Inr a, w') \<and> r = Inr a) \<or> (\<exists>e l. m w = (Inl e, l) \<and> g e l = (r, w'))"
  by (auto simp: mcatch_def split: prod.splits sum.splits)

lemma mfinally_iff [run_simps]:
  "mfinally m f w = (r, w') \<longleftrightarrow>
     (\<exists>q l. m w = (q, l) \<and> ((\<exists>e. f l = (Inl e, w') \<and> r = Inl e) \<or> (\<exists>u. f l = (Inr u, w') \<and> r = q)))"
  by (auto simp: mfinally_def split: prod.splits sum.splits)

subsection \<open>The calls of a run\<close>

text \<open>\<open>only_calls P m\<close>: the run only appends calls that satisfy \<open>P\<close>.\<close>

definition only_calls :: "('c \<Rightarrow> bool) \<Rightarrow> ('c, 'e, 'a) run \<Rightarrow> bool" where
  "only_calls P m \<longleftrightarrow> (\<forall>w r w'. m w = (r, w') \<longrightarrow> (\<exists>L. w' = L @ w \<and> list_all P L))"

named_theorems call_intros \<open>calls a run makes\<close>

lemma only_callsD: "only_calls P m \<Longrightarrow> m w = (r, w') \<Longrightarrow> \<exists>L. w' = L @ w \<and> list_all P L"
  by (auto simp: only_calls_def)

lemma only_calls_mono: "only_calls P m \<Longrightarrow> (\<And>c. P c \<Longrightarrow> Q c) \<Longrightarrow> only_calls Q m"
  unfolding only_calls_def list_all_iff by blast

lemma only_calls_pure [call_intros]: "only_calls P (mreturn a)" "only_calls P (mraise e)" "only_calls P (mlift r)"
  by (auto simp: only_calls_def run_simps)

lemma only_calls_mcall [call_intros]: "P c \<Longrightarrow> only_calls P (mcall c answer)"
  by (auto simp: only_calls_def run_simps)

lemma only_calls_mbind [call_intros]: "only_calls P m \<Longrightarrow> (\<And>a. only_calls P (f a)) \<Longrightarrow> only_calls P (mbind m f)"
  unfolding only_calls_def mbind_def by (fastforce split: prod.splits sum.splits)

lemma only_calls_mcatch [call_intros]: "only_calls P m \<Longrightarrow> (\<And>e. only_calls P (g e)) \<Longrightarrow> only_calls P (mcatch m g)"
  unfolding only_calls_def mcatch_def by (fastforce split: prod.splits sum.splits)

lemma only_calls_mfinally [call_intros]: "only_calls P m \<Longrightarrow> only_calls P f \<Longrightarrow> only_calls P (mfinally m f)"
  unfolding only_calls_def mfinally_def by (fastforce split: prod.splits sum.splits)

lemma only_calls_mfor [call_intros]: "(\<And>x. x \<in> set xs \<Longrightarrow> only_calls P (f x)) \<Longrightarrow> only_calls P (mfor f xs)"
  by (induction xs) (auto intro: call_intros)

section \<open>Paths\<close>

text \<open>\<open>PurePosixPath\<close>: the root and the parts.\<close>

type_synonym path = "string \<times> string list"

definition path_root :: "string \<Rightarrow> string" where
  "path_root s = (let n = length (takeWhile (\<lambda>c. c = CHR ''/'') s) in
     if n = 0 then [] else if n = 2 then ''//'' else ''/'')"

definition path_of :: "string \<Rightarrow> path" where
  "path_of s = (path_root s, filter (\<lambda>p. p \<noteq> [] \<and> p \<noteq> ''.'') (split_on (CHR ''/'') s))"

definition path_join :: "path \<Rightarrow> string \<Rightarrow> path" where
  "path_join p s = (if fst (path_of s) \<noteq> [] then path_of s else (fst p, snd p @ snd (path_of s)))"

text \<open>\<open>str(path)\<close>\<close>

definition path_str :: "path \<Rightarrow> string" where
  "path_str p = (if fst p = [] \<and> snd p = [] then ''.'' else fst p @ join_with ''/'' (snd p))"

definition path_name :: "path \<Rightarrow> string" where
  "path_name p = (if snd p = [] then [] else last (snd p))"

text \<open>\<open>suffix\<close>: from the last dot of the name, unless it is the first or the last character.\<close>

definition path_suffix :: "path \<Rightarrow> string" where
  "path_suffix p =
     (let n = path_name p; after = rev (takeWhile (\<lambda>c. c \<noteq> CHR ''.'') (rev n)) in
      if after \<noteq> [] \<and> length after + 1 < length n then CHR ''.'' # after else [])"

lemma split_on_no: "c \<notin> set s \<Longrightarrow> split_on c s = [s]"
  by (induction s) auto

lemma path_of_plain:
  assumes "CHR ''/'' \<notin> set n" "n \<noteq> []" "n \<noteq> ''.''"
  shows "path_of n = ([], [n])"
proof -
  have "takeWhile (\<lambda>c. c = CHR ''/'') n = []" using assms(1,2) by (cases n) auto
  with assms show ?thesis by (simp add: path_of_def path_root_def split_on_no Let_def)
qed

lemma path_join_plain:
  "CHR ''/'' \<notin> set n \<Longrightarrow> n \<noteq> [] \<Longrightarrow> n \<noteq> ''.'' \<Longrightarrow> path_join p n = (fst p, snd p @ [n])"
  by (simp add: path_join_def path_of_plain)

lemma split_on_parts: "w \<in> set (split_on c s) \<Longrightarrow> c \<notin> set w"
  by (induction s arbitrary: w) (auto split: if_splits list.splits)

lemma path_name_plain: "CHR ''/'' \<notin> set (path_name (path_of s)) \<and> path_name (path_of s) \<noteq> ''.''"
proof (cases "snd (path_of s) = []")
  case False
  then have "path_name (path_of s) \<in> set (snd (path_of s))" by (simp add: path_name_def)
  then show ?thesis by (auto simp: path_of_def dest: split_on_parts)
qed (simp add: path_name_def)

end
