(* ===== verification/AssetStore.thy ===== *)
theory AssetStore
  imports Contracts
begin

text \<open>
  \<open>MemoryAssetStore\<close> and \<open>MemoryAssetTransfer\<close> of memory.py: immutable, create-once assets with
  grants limited to allowed key prefixes, and the contract of the \<open>AssetStore\<close> protocol as the
  locale \<open>immutable_assets\<close>. The files a transfer reads and writes are a dictionary from paths to
  bytes.
\<close>

definition DEFAULT_ASSET_CONTENT_TYPE :: string where
  "DEFAULT_ASSET_CONTENT_TYPE = ''application/octet-stream''"
definition MEMORY_READ_PREFIX :: string where "MEMORY_READ_PREFIX = ''memory://read/''"
definition MEMORY_UPLOAD_PREFIX :: string where "MEMORY_UPLOAD_PREFIX = ''memory://upload/''"

record asset_store =
  as_assets :: "(string, bytes) dict"
  as_content_types :: "(string, string) dict"
  as_publish_count :: nat
  as_read_prefixes :: "string list"
  as_output_prefixes :: "string list"

definition new_asset_store :: asset_store where
  "new_asset_store =
     \<lparr>as_assets = [], as_content_types = [], as_publish_count = 0,
      as_read_prefixes = DEFAULT_READ_PREFIXES, as_output_prefixes = DEFAULT_OUTPUT_PREFIXES\<rparr>"

definition require_prefix :: "string \<Rightarrow> string list \<Rightarrow> string \<Rightarrow> exn + unit" where
  "require_prefix key allowed grant =
     ensure (starts_with_any key allowed)
       (ValueError (''signed '' @ grant @ '' key must be in one of: '' @ join_with '', '' allowed))"

definition create_read_url :: "string \<Rightarrow> asset_store \<Rightarrow> exn + string" where
  "create_read_url key s =
     ebind (require_prefix key (as_read_prefixes s) ''read'') (\<lambda>_.
     if key \<notin> set (keys (as_assets s)) then Inl (AssetNotFound key)
     else Inr (MEMORY_READ_PREFIX @ key))"

definition create_output_upload_url :: "string \<Rightarrow> string \<Rightarrow> asset_store \<Rightarrow> exn + string" where
  "create_output_upload_url key content_type s =
     ebind (require_prefix key (as_output_prefixes s) ''output upload'') (\<lambda>_.
     Inr (MEMORY_UPLOAD_PREFIX @ key))"

definition describe :: "string \<Rightarrow> asset_store \<Rightarrow> asset_descriptor option" where
  "describe key s =
     (case map_of (as_assets s) key of
        None \<Rightarrow> None
      | Some content \<Rightarrow>
          Some \<lparr>ad_key = key, ad_size = int (length content),
                ad_content_type = Some (case map_of (as_content_types s) key of
                    None \<Rightarrow> DEFAULT_ASSET_CONTENT_TYPE | Some c \<Rightarrow> c)\<rparr>)"

definition asset_read :: "string \<Rightarrow> asset_store \<Rightarrow> exn + bytes" where
  "asset_read key s =
     (case map_of (as_assets s) key of None \<Rightarrow> Inl (AssetNotFound key) | Some c \<Rightarrow> Inr c)"

definition read_limited :: "string \<Rightarrow> int \<Rightarrow> asset_store \<Rightarrow> exn + bytes" where
  "read_limited key max_bytes s =
     ebind (asset_read key s) (\<lambda>content.
     if int (length content) > max_bytes
     then Inl (AssetTooLarge key max_bytes (Some (int (length content)))) else Inr content)"

definition write_once :: "string \<Rightarrow> bytes \<Rightarrow> string \<Rightarrow> asset_store \<Rightarrow> bool \<times> asset_store" where
  "write_once key content content_type s =
     (if key \<in> set (keys (as_assets s)) then (False, s)
      else (True, s\<lparr>as_assets := AList.update key content (as_assets s),
                    as_content_types := AList.update key content_type (as_content_types s),
                    as_publish_count := as_publish_count s + 1\<rparr>))"

section \<open>Transfer\<close>

record asset_transfer =
  at_store :: asset_store
  at_downloads :: "string list"
  at_uploads :: "string list"

type_synonym files = "(string, bytes) dict"

definition grant_key :: "string \<Rightarrow> string \<Rightarrow> exn + string" where
  "grant_key url p =
     (if \<not> starts_with url p then Inl (TransferError ''asset grant is not addressable in memory'')
      else Inr (remove_prefix url p))"

definition transfer_download ::
  "string \<Rightarrow> string \<Rightarrow> asset_transfer \<times> files \<Rightarrow> (exn + nat) \<times> asset_transfer \<times> files"
where
  "transfer_download url destination = (\<lambda>(t, fs).
     case ebind (grant_key url MEMORY_READ_PREFIX) (\<lambda>key.
          ebind (asset_read key (at_store t)) (\<lambda>content. Inr (key, content))) of
       Inl e \<Rightarrow> (Inl e, t, fs)
     | Inr (key, content) \<Rightarrow>
         (Inr (length content), t\<lparr>at_downloads := at_downloads t @ [key]\<rparr>,
          AList.update destination content fs))"

text \<open>A missing source file raises before anything is stored; that exception is \<open>TransferError\<close> of
  the file's name here.\<close>

definition transfer_upload ::
  "string \<Rightarrow> string \<Rightarrow> string \<Rightarrow> asset_transfer \<times> files \<Rightarrow> (exn + unit) \<times> asset_transfer \<times> files"
where
  "transfer_upload url source content_type = (\<lambda>(t, fs).
     case grant_key url MEMORY_UPLOAD_PREFIX of
       Inl e \<Rightarrow> (Inl e, t, fs)
     | Inr key \<Rightarrow>
       (case map_of fs source of
          None \<Rightarrow> (Inl (TransferError source), t, fs)
        | Some content \<Rightarrow>
            (Inr (), t\<lparr>at_store := snd (write_once key content content_type (at_store t)),
                       at_uploads := at_uploads t @ [key]\<rparr>, fs)))"

section \<open>Contract\<close>

locale immutable_assets =
  fixes content :: "'s \<Rightarrow> string \<Rightarrow> bytes option"
    and put :: "string \<Rightarrow> bytes \<Rightarrow> string \<Rightarrow> 's \<Rightarrow> bool \<times> 's"
  assumes created: "content s k = None \<Longrightarrow>
      fst (put k c ty s) \<and> content (snd (put k c ty s)) = (content s)(k \<mapsto> c)"
    and exists: "content s k \<noteq> None \<Longrightarrow> put k c ty s = (False, s)"
begin

lemma write_keeps: "content s k = Some c \<Longrightarrow> content (snd (put k' c' ty s)) k = Some c"
  using created [of s k'] exists [of s k'] by (cases "content s k'") auto

lemma writes_keep:
  "content s k = Some c \<Longrightarrow>
     content (foldl (\<lambda>s (k, c, ty). snd (put k c ty s)) s ws) k = Some c"
  by (induction ws arbitrary: s) (auto simp: write_keeps split: prod.split)

lemma first_write_wins:
  assumes "content s k = None"
  shows "content (foldl (\<lambda>s (k, c, ty). snd (put k c ty s)) s ws) k =
           map_of (map (\<lambda>(k, c, ty). (k, c)) ws) k"
  using assms
proof (induction ws arbitrary: s)
  case (Cons w ws)
  obtain k' c' ty where w: "w = (k', c', ty)" by (cases w) auto
  show ?case
  proof (cases "k' = k")
    case True
    then have "content (snd (put k' c' ty s)) k = Some c'"
      using created [of s k c' ty] Cons.prems by simp
    from writes_keep [OF this] show ?thesis using True by (simp add: w)
  next
    case False
    then have "content (snd (put k' c' ty s)) k = None"
      using created [of s k' c' ty] exists [of s k' c' ty] Cons.prems by (cases "content s k'") auto
    with Cons.IH False show ?thesis by (simp add: w)
  qed
qed simp

end

interpretation mem_assets: immutable_assets "\<lambda>s k. map_of (as_assets s) k" write_once
  by unfold_locales (auto simp: write_once_def map_of_eq_None_iff fun_eq_iff)

section \<open>Properties\<close>

text \<open>Assets are immutable: over any sequence of writes to a fresh store the content of a
  key is that of the first write of that key, and it is what \<open>describe\<close> sizes and what
  \<open>read_limited\<close> returns within the limit; a key never written is absent.\<close>

theorem asset_first_write_wins:
  "let s = foldl (\<lambda>s (k, c, ty). snd (write_once k c ty s)) new_asset_store ws in
   case map_of (map (\<lambda>(k, c, ty). (k, c)) ws) k of
     None \<Rightarrow> describe k s = None \<and> read_limited k n s = Inl (AssetNotFound k)
   | Some c \<Rightarrow> map_option ad_size (describe k s) = Some (int (length c)) \<and>
       read_limited k n s = (if int (length c) > n then Inl (AssetTooLarge k n (Some (int (length c))))
                             else Inr c)"
  using mem_assets.first_write_wins [of new_asset_store k ws]
  by (auto simp: new_asset_store_def describe_def read_limited_def asset_read_def Let_def
      split: option.splits)

text \<open>A read grant is given exactly for a stored key under an allowed prefix, and the
  in-memory transfer resolves that grant to the stored bytes of that key and nothing else; an
  upload through an output grant publishes the file's bytes unless the key already exists.\<close>

theorem asset_grants_resolve:
  "(create_read_url k s = Inr url \<longleftrightarrow>
      url = MEMORY_READ_PREFIX @ k \<and> starts_with_any k (as_read_prefixes s) \<and>
      map_of (as_assets s) k \<noteq> None) \<and>
   (case create_read_url k (at_store t) of
      Inl _ \<Rightarrow> True
    | Inr u \<Rightarrow> \<exists>c. map_of (as_assets (at_store t)) k = Some c \<and>
        transfer_download u path (t, fs) =
          (Inr (length c), t\<lparr>at_downloads := at_downloads t @ [k]\<rparr>, AList.update path c fs)) \<and>
   (case create_output_upload_url k ty (at_store t) of
      Inl _ \<Rightarrow> \<not> starts_with_any k (as_output_prefixes (at_store t))
    | Inr u \<Rightarrow> map_of (as_assets (at_store (fst (snd (transfer_upload u src ty (t, AList.update src c fs)))))) k =
        (case map_of (as_assets (at_store t)) k of None \<Rightarrow> Some c | Some c0 \<Rightarrow> Some c0))"
proof (intro conjI)
  show "create_read_url k s = Inr url \<longleftrightarrow>
      url = MEMORY_READ_PREFIX @ k \<and> starts_with_any k (as_read_prefixes s) \<and>
      map_of (as_assets s) k \<noteq> None"
    by (auto simp: create_read_url_def require_prefix_def result_simps map_of_eq_None_iff image_iff)
  show "case create_read_url k (at_store t) of
      Inl _ \<Rightarrow> True
    | Inr u \<Rightarrow> \<exists>c. map_of (as_assets (at_store t)) k = Some c \<and>
        transfer_download u path (t, fs) =
          (Inr (length c), t\<lparr>at_downloads := at_downloads t @ [k]\<rparr>, AList.update path c fs)"
    by (cases "map_of (as_assets (at_store t)) k")
      (auto simp: create_read_url_def require_prefix_def ensure_def transfer_download_def
        grant_key_def asset_read_def map_of_eq_None_iff dest: map_of_SomeD)
  show "case create_output_upload_url k ty (at_store t) of
      Inl _ \<Rightarrow> \<not> starts_with_any k (as_output_prefixes (at_store t))
    | Inr u \<Rightarrow> map_of (as_assets (at_store (fst (snd (transfer_upload u src ty (t, AList.update src c fs)))))) k =
        (case map_of (as_assets (at_store t)) k of None \<Rightarrow> Some c | Some c0 \<Rightarrow> Some c0)"
    by (auto simp: create_output_upload_url_def require_prefix_def ensure_def transfer_upload_def
        grant_key_def write_once_def map_of_eq_None_iff split: option.split dest: map_of_SomeD)
      (force dest: map_of_SomeD)
qed

end
