(* ===== verification/RateLimiter.thy ===== *)
theory RateLimiter
  imports Contracts
begin

text \<open>
  \<open>RateLimiter\<close> of service.py: per-key token buckets in an \<open>OrderedDict\<close>, oldest first. The
  clock is an argument of \<open>allow\<close>; token counts, floats in the source, are exact rationals.
\<close>

type_synonym buckets = "(string, rat \<times> time) dict"

record limiter =
  rl_limit :: rat
  rl_max_keys :: nat
  rl_buckets :: buckets

definition new_limiter :: "int \<Rightarrow> int \<Rightarrow> exn + limiter" where
  "new_limiter limit_per_minute max_keys =
     (if limit_per_minute < 1 \<or> max_keys < 1
      then Inl (ValueError ''rate limits and bucket capacity must be positive'')
      else Inr \<lparr>rl_limit = of_int limit_per_minute, rl_max_keys = nat max_keys, rl_buckets = []\<rparr>)"

definition total_seconds :: "time \<Rightarrow> rat" where
  "total_seconds d = of_int d / 1000000"

text \<open>The \<open>while self._buckets\<close> loop: drop idle buckets from the front.\<close>

fun evict :: "time \<Rightarrow> buckets \<Rightarrow> buckets" where
  "evict now [] = []"
| "evict now ((k, t, oldest) # bs) =
     (if total_seconds (now - oldest) < 60 then (k, t, oldest) # bs else evict now bs)"

definition move_to_end :: "'k \<Rightarrow> ('k, 'v) dict \<Rightarrow> ('k, 'v) dict" where
  "move_to_end k d = filter (\<lambda>p. fst p \<noteq> k) d @ filter (\<lambda>p. fst p = k) d"

definition refill :: "rat \<Rightarrow> rat \<Rightarrow> time \<Rightarrow> time \<Rightarrow> rat" where
  "refill limit tokens updated now =
     min limit (tokens + max 0 (total_seconds (now - updated)) * limit / 60)"

definition allow :: "time \<Rightarrow> string \<Rightarrow> limiter \<Rightarrow> bool \<times> limiter" where
  "allow now key l =
     (let bs = evict now (rl_buckets l) in
      if key \<notin> set (keys bs) \<and> rl_max_keys l \<le> length bs then (False, l\<lparr>rl_buckets := bs\<rparr>)
      else
        let (tokens0, updated) = (case map_of bs key of None \<Rightarrow> (rl_limit l, now) | Some b \<Rightarrow> b);
            tokens = refill (rl_limit l) tokens0 updated now;
            allowed = (tokens \<ge> 1);
            bs' = AList.update key (if allowed then tokens - 1 else tokens, now) bs
        in (allowed, l\<lparr>rl_buckets := move_to_end key bs'\<rparr>))"

section \<open>Well-formedness\<close>

definition limiter_ok :: "limiter \<Rightarrow> bool" where
  "limiter_ok l \<longleftrightarrow>
     1 \<le> rl_limit l \<and> 1 \<le> rl_max_keys l \<and> distinct (keys (rl_buckets l)) \<and>
     length (rl_buckets l) \<le> rl_max_keys l \<and>
     list_all (\<lambda>(k, t, u). 0 \<le> t \<and> t \<le> rl_limit l) (rl_buckets l)"

lemma evict_dropWhile: "evict now bs = dropWhile (\<lambda>(k, t, u). \<not> total_seconds (now - u) < 60) bs"
  by (induction now bs rule: evict.induct) auto

lemma evict_suffix: "\<exists>pre. bs = pre @ evict now bs \<and>
    list_all (\<lambda>(k, t, u). 60 \<le> total_seconds (now - u)) pre"
proof (induction now bs rule: evict.induct)
  case (2 now k t old bs)
  show ?case
  proof (cases "total_seconds (now - old) < 60")
    case False
    with 2 obtain pre where "bs = pre @ evict now bs"
      "list_all (\<lambda>(k, t, u). 60 \<le> total_seconds (now - u)) pre" by auto
    with False show ?thesis by (intro exI [of _ "(k, t, old) # pre"]) auto
  qed simp
qed simp

lemma map_of_move_to_end [simp]: "map_of (move_to_end k d) = map_of d"
proof
  fix x
  have "map_of (filter (\<lambda>p. fst p \<noteq> k) d) x = (if x = k then None else map_of d x)"
    "map_of (filter (\<lambda>p. fst p = k) d) x = (if x = k then map_of d x else None)"
    by (induction d) auto
  then show "map_of (move_to_end k d) x = map_of d x"
    by (cases "x = k") (simp_all add: move_to_end_def map_add_def split: option.split)
qed

lemma set_move_to_end [simp]: "set (move_to_end k d) = set d"
  by (auto simp: move_to_end_def)

lemma length_move_to_end [simp]: "length (move_to_end k d) = length d"
  by (induction d) (auto simp: move_to_end_def)

lemma distinct_move_to_end: "distinct (keys d) \<Longrightarrow> distinct (keys (move_to_end k d))"
  by (auto simp: move_to_end_def distinct_map inj_on_def)

lemma length_update: "length (AList.update k v d) = length d + (if k \<in> set (keys d) then 0 else 1)"
  by (induction d) auto

lemma refill_bounds: "0 \<le> t \<Longrightarrow> 0 \<le> limit \<Longrightarrow> 0 \<le> refill limit t u now \<and> refill limit t u now \<le> limit"
  by (simp add: refill_def)

lemma update_all:
  "list_all P d \<Longrightarrow> P (k, v) \<Longrightarrow> list_all P (AList.update k v d)"
  by (induction d) auto

lemma evict_keeps:
  "distinct (keys bs) \<Longrightarrow> distinct (keys (evict now bs))"
  "length (evict now bs) \<le> length bs"
  "list_all P bs \<Longrightarrow> list_all P (evict now bs)"
  by (induction now bs rule: evict.induct) auto

lemma limiter_ok_allow:
  assumes "limiter_ok l"
  shows "limiter_ok (snd (allow now key l))"
proof -
  let ?bs = "evict now (rl_buckets l)"
  have bs: "distinct (keys ?bs)" "length ?bs \<le> rl_max_keys l"
      "list_all (\<lambda>(k, t, u). 0 \<le> t \<and> t \<le> rl_limit l) ?bs"
    using assms evict_keeps unfolding limiter_ok_def by (blast intro: order_trans)+
  show ?thesis
  proof (cases "key \<notin> set (keys ?bs) \<and> rl_max_keys l \<le> length ?bs")
    case True
    then show ?thesis using assms bs by (simp add: allow_def limiter_ok_def)
  next
    case False
    obtain t0 u where tu: "(case map_of ?bs key of None \<Rightarrow> (rl_limit l, now) | Some b \<Rightarrow> b) = (t0, u)"
      by fastforce
    have "0 \<le> t0"
      using tu bs(3) assms by (auto simp: limiter_ok_def list_all_iff split: option.splits dest: map_of_SomeD)
    then have r: "0 \<le> refill (rl_limit l) t0 u now" "refill (rl_limit l) t0 u now \<le> rl_limit l"
      using refill_bounds assms by (auto simp: limiter_ok_def)
    let ?t = "refill (rl_limit l) t0 u now"
    let ?b = "AList.update key (if ?t \<ge> 1 then ?t - 1 else ?t, now) ?bs"
    have "snd (allow now key l) = l\<lparr>rl_buckets := move_to_end key ?b\<rparr>"
      using False tu by (auto simp add: allow_def Let_def)
    moreover have "distinct (keys (move_to_end key ?b))"
      by (intro distinct_move_to_end distinct_update bs(1))
    moreover have "length (move_to_end key ?b) \<le> rl_max_keys l"
      using False bs(2) by (auto simp: length_update)
    moreover have "list_all (\<lambda>(k, t, u). 0 \<le> t \<and> t \<le> rl_limit l) ?b"
      using r by (intro update_all [OF bs(3)]) auto
    then have "list_all (\<lambda>(k, t, u). 0 \<le> t \<and> t \<le> rl_limit l) (move_to_end key ?b)"
      by (simp only: list.pred_set set_move_to_end)
    ultimately show ?thesis
      using assms by (simp add: limiter_ok_def)
  qed
qed

section \<open>The budget of a key\<close>

text \<open>The tokens a call for \<open>key\<close> at \<open>now\<close> would find, if it is admitted to the table at all.\<close>

definition available :: "string \<Rightarrow> time \<Rightarrow> limiter \<Rightarrow> rat" where
  "available key now l =
     (case map_of (rl_buckets l) key of
        None \<Rightarrow> rl_limit l
      | Some (t, u) \<Rightarrow> refill (rl_limit l) t u now)"

lemma total_seconds_mono: "a \<le> b \<Longrightarrow> total_seconds a \<le> total_seconds b"
  by (simp add: total_seconds_def divide_right_mono)

lemma available_bounds: "limiter_ok l \<Longrightarrow> 0 \<le> available key now l \<and> available key now l \<le> rl_limit l"
  using refill_bounds [of _ "rl_limit l"]
  by (force simp: available_def limiter_ok_def list_all_iff split: option.split dest: map_of_SomeD)

text \<open>Evicting idle buckets does not change what any key can spend.\<close>

lemma available_evict:
  assumes "limiter_ok l"
  shows "available key now (l\<lparr>rl_buckets := evict now (rl_buckets l)\<rparr>) = available key now l"
proof -
  obtain pre where pre: "rl_buckets l = pre @ evict now (rl_buckets l)"
      "list_all (\<lambda>(k, t, u). 60 \<le> total_seconds (now - u)) pre"
    using evict_suffix by blast
  have full: "refill (rl_limit l) t u now = rl_limit l" if "(key, t, u) \<in> set pre" for t u
  proof -
    have "(key, t, u) \<in> set (rl_buckets l)"
      using that by (subst pre(1)) simp
    then have l: "0 \<le> t" "1 \<le> rl_limit l"
      using assms by (auto simp: limiter_ok_def list_all_iff)
    moreover have e: "60 \<le> total_seconds (now - u)"
      using that pre(2) by (auto simp: list_all_iff)
    moreover have "60 * rl_limit l \<le> total_seconds (now - u) * rl_limit l"
      using l e by (intro mult_right_mono) simp_all
    moreover have m: "max 0 (total_seconds (now - u)) = total_seconds (now - u)"
      using e by simp
    ultimately have "rl_limit l \<le> t + max 0 (total_seconds (now - u)) * rl_limit l / 60"
      unfolding m by linarith
    then show ?thesis by (simp add: refill_def)
  qed
  have "distinct (keys (pre @ evict now (rl_buckets l)))"
    using assms pre(1) by (simp add: limiter_ok_def)
  then have "key \<in> set (keys pre) \<Longrightarrow> map_of (evict now (rl_buckets l)) key = None"
    by (auto simp: map_of_eq_None_iff)
  moreover have "map_of (rl_buckets l) key =
      (case map_of pre key of None \<Rightarrow> map_of (evict now (rl_buckets l)) key | Some b \<Rightarrow> Some b)"
    by (subst pre(1)) (simp add: map_add_def map_of_append split: option.split)
  ultimately show ?thesis
  proof (cases "map_of pre key")
    case (Some b)
    then have "(key, b) \<in> set pre" by (rule map_of_SomeD)
    moreover from this have "key \<in> set (keys pre)" by force
    then have "map_of (evict now (rl_buckets l)) key = None"
      by (rule \<open>key \<in> set (keys pre) \<Longrightarrow> _\<close>)
    ultimately have "map_of (evict now (rl_buckets l)) key = None" "(key, b) \<in> set pre" by simp_all
    with Some \<open>map_of (rl_buckets l) key = _\<close> show ?thesis
      using full [of "fst b" "snd b"] by (simp add: available_def case_prod_unfold)
  qed (simp add: available_def split: option.split)
qed

lemma refill_now [simp]: "0 \<le> t \<Longrightarrow> t \<le> limit \<Longrightarrow> refill limit t now now = t"
  by (simp add: refill_def total_seconds_def)

lemma rl_limit_allow [simp]: "rl_limit (snd (allow now key l)) = rl_limit l"
  by (simp add: allow_def Let_def split: prod.split)

lemma allow_available:
  assumes ok: "limiter_ok l"
  shows "available k now (snd (allow now key l)) =
           available k now l - (if fst (allow now key l) \<and> k = key then 1 else 0)"
    and "fst (allow now key l) \<Longrightarrow> 1 \<le> available key now l"
proof -
  let ?l = "l\<lparr>rl_buckets := evict now (rl_buckets l)\<rparr>"
  let ?bs = "evict now (rl_buckets l)"
  have ok': "limiter_ok ?l"
    using ok unfolding limiter_ok_def
    by (auto intro: evict_keeps order_trans [OF evict_keeps(2)])
  have av: "available x now ?l = available x now l" for x
    by (rule available_evict [OF ok])
  have "available k now (snd (allow now key l)) =
           available k now l - (if fst (allow now key l) \<and> k = key then 1 else 0) \<and>
        (fst (allow now key l) \<longrightarrow> 1 \<le> available key now l)"
  proof (cases "key \<notin> set (keys ?bs) \<and> rl_max_keys l \<le> length ?bs")
    case True
    then show ?thesis by (simp add: allow_def av)
  next
    case False
    obtain t0 u where tu: "(case map_of ?bs key of None \<Rightarrow> (rl_limit l, now) | Some b \<Rightarrow> b) = (t0, u)"
      by fastforce
    let ?t = "refill (rl_limit l) t0 u now"
    have "available key now ?l = ?t"
      using tu ok by (auto simp: available_def limiter_ok_def split: option.splits)
    then have t: "available key now l = ?t"
      by (simp only: av)
    have b: "0 \<le> ?t" "?t \<le> rl_limit l"
      using available_bounds [OF ok, of key now] t by simp_all
    have eq: "allow now key l =
        (?t \<ge> 1, l\<lparr>rl_buckets := move_to_end key
           (AList.update key (if ?t \<ge> 1 then ?t - 1 else ?t, now) ?bs)\<rparr>)"
      using False tu by (auto simp: allow_def Let_def)
    show ?thesis
    proof (cases "k = key")
      case True
      with b t show ?thesis by (auto simp: eq available_def)
    next
      case False
      then have "available k now (snd (allow now key l)) = available k now ?l"
        by (simp add: eq available_def split: option.split)
      with False t av [of k] show ?thesis by (simp add: eq)
    qed
  qed
  then show "available k now (snd (allow now key l)) =
           available k now l - (if fst (allow now key l) \<and> k = key then 1 else 0)"
    and "fst (allow now key l) \<Longrightarrow> 1 \<le> available key now l" by blast+
qed

lemma available_later:
  assumes "limiter_ok l" "t1 \<le> t2"
  shows "available k t2 l \<le> available k t1 l + rl_limit l * total_seconds (t2 - t1) / 60"
proof -
  have pos: "0 \<le> rl_limit l" "0 \<le> total_seconds (t2 - t1)"
    using assms by (simp_all add: limiter_ok_def total_seconds_def)
  have "refill (rl_limit l) x u t2 \<le> refill (rl_limit l) x u t1 + rl_limit l * total_seconds (t2 - t1) / 60"
    for x u
  proof -
    have "max 0 (total_seconds (t2 - u)) \<le> max 0 (total_seconds (t1 - u)) + total_seconds (t2 - t1)"
      using pos(2) by (simp add: total_seconds_def max_def diff_divide_distrib)
    from mult_right_mono [OF this pos(1)]
    have "max 0 (total_seconds (t2 - u)) * rl_limit l / 60 \<le>
        max 0 (total_seconds (t1 - u)) * rl_limit l / 60 + rl_limit l * total_seconds (t2 - t1) / 60"
      by (simp add: algebra_simps)
    moreover have "0 \<le> rl_limit l * total_seconds (t2 - t1) / 60"
      using pos by simp
    ultimately show ?thesis
      by (simp add: refill_def min_def)
  qed
  moreover have "0 \<le> rl_limit l * total_seconds (t2 - t1) / 60"
    using pos by simp
  ultimately show ?thesis
    by (auto simp: available_def split: option.split)
qed

text \<open>The calls of a limiter in order, and how many of them were allowed for one key.\<close>

fun granted :: "string \<Rightarrow> (time \<times> string) list \<Rightarrow> limiter \<Rightarrow> nat" where
  "granted k [] l = 0"
| "granted k ((now, key) # calls) l =
     (if fst (allow now key l) \<and> k = key then 1 else 0) + granted k calls (snd (allow now key l))"

fun run_allow :: "(time \<times> string) list \<Rightarrow> limiter \<Rightarrow> limiter" where
  "run_allow [] l = l"
| "run_allow ((now, key) # calls) l = run_allow calls (snd (allow now key l))"

lemma granted_bound:
  assumes "limiter_ok l" "sorted (map fst calls)" "list_all (\<lambda>c. t0 \<le> fst c \<and> fst c \<le> t1) calls" "t0 \<le> t1"
  shows "of_nat (granted k calls l) \<le> available k t0 l + rl_limit l * total_seconds (t1 - t0) / 60"
  using assms
proof (induction calls arbitrary: l t0)
  case Nil
  then show ?case
    using available_bounds [of l k t0] by (simp add: limiter_ok_def total_seconds_def)
next
  case (Cons c calls)
  obtain now key where c: "c = (now, key)" by force
  let ?l = "snd (allow now key l)"
  have times: "t0 \<le> now" "now \<le> t1" using Cons.prems(3) c by simp_all
  have "of_nat (granted k calls ?l) \<le> available k now ?l + rl_limit l * total_seconds (t1 - now) / 60"
    using Cons.IH [of ?l now] Cons.prems c limiter_ok_allow [OF Cons.prems(1)] times
    by (auto simp: list_all_iff)
  also have "available k now ?l = available k now l - (if fst (allow now key l) \<and> k = key then 1 else 0)"
    by (rule allow_available(1) [OF Cons.prems(1)])
  finally have "of_nat (granted k (c # calls) l) \<le>
      available k now l + rl_limit l * total_seconds (t1 - now) / 60"
    by (auto simp: c split: if_splits)
  also have "\<dots> \<le> available k t0 l + rl_limit l * total_seconds (now - t0) / 60
      + rl_limit l * total_seconds (t1 - now) / 60"
    using available_later [OF Cons.prems(1) times(1), of k] by simp
  also have "\<dots> = available k t0 l + rl_limit l * total_seconds (t1 - t0) / 60"
    by (simp add: total_seconds_def field_simps)
  finally show ?case .
qed

text \<open>Claim C12: the request budget holds over every window of time: from any well-formed limiter
  and for any interleaving of calls of any keys with a clock that does not run backwards, the calls
  allowed for one key between \<open>t0\<close> and \<open>t1\<close> number at most the limit plus the refill of the
  elapsed time. Evicting idle buckets, capacity and other keys' calls never add to it.\<close>

theorem rate_limit_window:
  assumes "limiter_ok l" "sorted (map fst calls)"
    and "list_all (\<lambda>c. t0 \<le> fst c \<and> fst c \<le> t1) calls" "t0 \<le> t1"
  shows "of_nat (granted k calls l) \<le> rl_limit l + rl_limit l * total_seconds (t1 - t0) / 60"
  using granted_bound [OF assms, of k] available_bounds [OF assms(1), of k t0] by simp

theorem rate_limit_window_witness:
  "of_nat (granted ''a'' [(0, ''a''), (usec 1, ''b''), (usec 2, ''a'')]
      \<lparr>rl_limit = 1, rl_max_keys = 2, rl_buckets = []\<rparr>) \<le> (1 + 2 / 60 :: rat)"
  using rate_limit_window [of "\<lparr>rl_limit = 1, rl_max_keys = 2, rl_buckets = []\<rparr>"
      "[(0, ''a''), (usec 1, ''b''), (usec 2, ''a'')]" 0 "usec 2" "''a''"]
  by (simp add: limiter_ok_def total_seconds_def del: granted.simps)

text \<open>The table stays bounded and an active budget is never reset: whatever calls are
  made, there are at most \<open>max_keys\<close> buckets, each between zero tokens and the limit; a call for
  one key changes no other key's budget, and its own by exactly the token it takes.\<close>

theorem rate_limiter_state:
  assumes "limiter_ok l"
  shows "limiter_ok (run_allow calls l) \<and>
         length (rl_buckets (run_allow calls l)) \<le> rl_max_keys (run_allow calls l) \<and>
         available k now (snd (allow now key l)) =
           available k now l - (if fst (allow now key l) \<and> k = key then 1 else 0)"
proof -
  have "limiter_ok (run_allow calls l)"
    using assms by (induction calls l rule: run_allow.induct) (auto intro: limiter_ok_allow)
  then show ?thesis
    using allow_available(1) [OF assms] by (simp add: limiter_ok_def)
qed

theorem rate_limiter_state_witness:
  "length (rl_buckets (run_allow [(0, ''a''), (1, ''b''), (2, ''c'')]
      \<lparr>rl_limit = 1, rl_max_keys = 2, rl_buckets = []\<rparr>)) \<le> 2 \<and>
   limiter_ok (run_allow [(0, ''a''), (1, ''b''), (2, ''c'')]
      \<lparr>rl_limit = 1, rl_max_keys = 2, rl_buckets = []\<rparr>)"
  using rate_limiter_state [of "\<lparr>rl_limit = 1, rl_max_keys = 2, rl_buckets = []\<rparr>"
      "[(0, ''a''), (1, ''b''), (2, ''c'')]"]
  by (simp add: limiter_ok_def allow_def Let_def refill_def total_seconds_def move_to_end_def)

end
