(* ===== verification/EngineRecipes.thy ===== *)
theory EngineRecipes
  imports Contracts
begin

text \<open>
  \<open>engine_recipes.py\<close>: the declared recipe of the engine profile, its JSON description and its
  fingerprint. A setting's specification is a datatype of the two kinds the source writes as
  \<open>('choices', values)\<close> and \<open>('range', (minimum, maximum))\<close>.
\<close>

definition MESH3D :: string where "MESH3D = ''mesh3d-24gb-standard''"
definition MESH3D_MESH_CAPABILITY :: string where
  "MESH3D_MESH_CAPABILITY = ''mesh.trellis2.image_to_mesh.v1''"
definition MESH3D_CLEAN_CAPABILITY :: string where
  "MESH3D_CLEAN_CAPABILITY = ''mesh.blender.clean.v1''"
definition AISMITH_ENGINE :: string where "AISMITH_ENGINE = ''aismith-engine''"
definition GLB_CONTENT_TYPE :: string where "GLB_CONTENT_TYPE = ''model/gltf-binary''"
definition VIEW_ROLES :: "string list" where
  "VIEW_ROLES = [''front'', ''back'', ''left'', ''right'']"
definition QUALITY_TIERS :: "string list" where
  "QUALITY_TIERS = [''draft'', ''standard'', ''high'', ''ultra'']"
definition TARGET_TRIANGLES_RANGE :: "int \<times> int" where "TARGET_TRIANGLES_RANGE = (1000, 500000)"
definition MESH_RESOLUTIONS :: "int list" where "MESH_RESOLUTIONS = [512, 1024]"
definition MAX_SEED :: int where "MAX_SEED = 2 ^ 31 - 1"

datatype setting_spec = Choices "json list" | Range int int

record engine_stage =
  es_capability_id :: string
  es_stage :: string
  es_inputs :: "string list"
  es_required_inputs :: "string list"
  es_settings :: "(string, setting_spec) dict"
  es_required_settings :: "string list"
  es_one_of_settings :: "string list"
  es_attested_inputs :: "string list"
  es_deadline_seconds :: int
  es_weight_ids :: "string list"

abbreviation jstrs :: "string list \<Rightarrow> json" where
  "jstrs xs \<equiv> JArr (map JStr xs)"

fun spec_json :: "setting_spec \<Rightarrow> json" where
  "spec_json (Choices vs) = JObj [(''choices'', JArr vs)]"
| "spec_json (Range lo hi) = JObj [(''range'', JArr [JInt lo, JInt hi])]"

definition stage_description :: "engine_stage \<Rightarrow> json" where
  "stage_description s = JObj [
     (''capability_id'', JStr (es_capability_id s)), (''stage'', JStr (es_stage s)),
     (''inputs'', jstrs (es_inputs s)), (''required_inputs'', jstrs (es_required_inputs s)),
     (''settings'', JObj (map (\<lambda>(n, sp). (n, spec_json sp)) (es_settings s))),
     (''required_settings'', jstrs (es_required_settings s)),
     (''one_of_settings'', jstrs (es_one_of_settings s)),
     (''attested_inputs'', jstrs (es_attested_inputs s)),
     (''deadline_seconds'', JInt (es_deadline_seconds s)),
     (''weight_ids'', jstrs (es_weight_ids s))]"

record engine_recipe =
  er_engine :: string
  er_engine_tag :: "string option"
  er_engine_commit :: "string option"
  er_sources_lock_sha256 :: "string option"
  er_weights_lock_sha256 :: "string option"
  er_cuda_architecture :: string
  er_blender_series :: string
  er_min_vram_mb :: int
  er_stages :: "engine_stage list"
  er_provenance :: "(string, string) dict"

text \<open>\<open>not getattr(self, pin)\<close>: unset or empty.\<close>

definition pin_unset :: "string option \<Rightarrow> bool" where
  "pin_unset p = (case p of None \<Rightarrow> True | Some s \<Rightarrow> s = [])"

definition missing_pins :: "engine_recipe \<Rightarrow> string list" where
  "missing_pins r =
     map fst (filter (\<lambda>(n, p). pin_unset p)
       [(''engine_tag'', er_engine_tag r), (''engine_commit'', er_engine_commit r),
        (''sources_lock_sha256'', er_sources_lock_sha256 r),
        (''weights_lock_sha256'', er_weights_lock_sha256 r)])"

text \<open>\<open>tuple(dict.fromkeys(xs))\<close>: the first occurrence of each, in order.\<close>

definition dedupe :: "'a list \<Rightarrow> 'a list" where
  "dedupe xs = keys (foldl (\<lambda>d x. AList.update x () d) [] xs)"

definition recipe_weight_ids :: "engine_recipe \<Rightarrow> string list" where
  "recipe_weight_ids r = dedupe (concat (map es_weight_ids (er_stages r)))"

definition recipe_capability_ids :: "engine_recipe \<Rightarrow> string list" where
  "recipe_capability_ids r = map es_capability_id (er_stages r)"

definition stage_for :: "engine_recipe \<Rightarrow> string \<Rightarrow> engine_stage option" where
  "stage_for r c = find (\<lambda>s. es_capability_id s = c) (er_stages r)"

definition jopt :: "string option \<Rightarrow> json" where
  "jopt x = (case x of None \<Rightarrow> JNull | Some s \<Rightarrow> JStr s)"

definition recipe_description :: "engine_recipe \<Rightarrow> string \<Rightarrow> payload" where
  "recipe_description r profile = [
     (''profile'', JStr profile), (''kind'', JStr ''engine''), (''engine'', JStr (er_engine r)),
     (''engine_tag'', jopt (er_engine_tag r)), (''engine_commit'', jopt (er_engine_commit r)),
     (''sources_lock_sha256'', jopt (er_sources_lock_sha256 r)),
     (''weights_lock_sha256'', jopt (er_weights_lock_sha256 r)),
     (''cuda_architecture'', JStr (er_cuda_architecture r)),
     (''blender'', JStr (er_blender_series r @ ''.x LTS'')),
     (''min_vram_mb'', JInt (er_min_vram_mb r)),
     (''capabilities'', JArr (map stage_description (er_stages r))),
     (''provenance'', JObj (map (\<lambda>(k, v). (k, JStr v)) (er_provenance r)))]"

definition engine_recipe_version :: "payload \<Rightarrow> string" where
  "engine_recipe_version description =
     sha256_hex (encode (enc (JObj [(''description'', JObj description)])))"

section \<open>The declared recipe\<close>

definition MESH3D_MESH_STAGE :: engine_stage where
  "MESH3D_MESH_STAGE =
     \<lparr>es_capability_id = MESH3D_MESH_CAPABILITY, es_stage = ''mesh'',
      es_inputs = VIEW_ROLES, es_required_inputs = [''front''],
      es_settings = [(''resolution'', Choices (map JInt MESH_RESOLUTIONS)),
                     (''seed'', Range 0 MAX_SEED)],
      es_required_settings = [''resolution'', ''seed''], es_one_of_settings = [],
      es_attested_inputs = [''resolution'', ''seed''], es_deadline_seconds = 1800,
      es_weight_ids = [''trellis2-4b-fp8'', ''trellis-image-large-ss-decoder'', ''dinov3-vitl16'',
                       ''birefnet-general'', ''birefnet-general-lite'']\<rparr>"

definition MESH3D_CLEAN_STAGE :: engine_stage where
  "MESH3D_CLEAN_STAGE =
     \<lparr>es_capability_id = MESH3D_CLEAN_CAPABILITY, es_stage = ''clean'',
      es_inputs = ''mesh'' # VIEW_ROLES, es_required_inputs = [''mesh''],
      es_settings = [(''quality_tier'', Choices (map JStr QUALITY_TIERS)),
                     (''target_triangles'',
                      Range (fst TARGET_TRIANGLES_RANGE) (snd TARGET_TRIANGLES_RANGE))],
      es_required_settings = [], es_one_of_settings = [''quality_tier'', ''target_triangles''],
      es_attested_inputs = [''quality_tier'', ''target_triangles''], es_deadline_seconds = 600,
      es_weight_ids = []\<rparr>"

definition MESH3D_PROVENANCE :: "(string, string) dict" where
  "MESH3D_PROVENANCE = [
     (''status'', ''qualified: measured on one RTX 4090 (ilya-desktop), 2026-11-05/06''),
     (''scope'', ''front view only, mesh resolution 1024, clean standard tier without view ''
        @ ''projection, one RTX 4090 24 GB (WSL2, driver 610.88); multi-view, refine and ''
        @ ''the high/ultra tiers are unmeasured''),
     (''determinism'', ''mesh output is not deterministic: the same spec and seed gave a different ''
        @ ''mesh (sha256, face count, watertightness), so provenance never claims ''
        @ ''byte reproducibility''),
     (''engine_pins'', ''AISmith-3D tag engine-v0.1.0 (f7466926); lock digests computed at the tag ''
        @ ''and matched by inspect --full on the qualifying machine, 2026-11-07''),
     (''weights'', ''each stage requires only the weight sets it loads; the rig checkpoint ''
        @ ''(phase 2) is not required by mesh or clean''),
     (''min_vram_mb'', ''kept at 24 GB by decision; measured engine peaks were about 6.9 GB ''
        @ ''(mesh) and 3 GB (clean). Smaller cards get their own profile after a ''
        @ ''run on such a card''),
     (''cuda_architecture'', ''TRELLIS.2 native build contract (native-contract.json ''
        @ ''cuda_architecture 8.9); matched on the qualifying RTX 4090''),
     (''blender'', ''Blender 4.2.23 LTS on the qualifying machine''),
     (''mesh_deadline_seconds'', ''1800 by decision; measured wall time 1:44 to 3:27 over 4 runs ''
        @ ''(engine 102 to 205 s)''),
     (''clean_deadline_seconds'', ''600 by decision; measured wall time 0:46 to 0:49 over 3 runs ''
        @ ''(engine 44 to 46 s)''),
     (''mixed_mode'', ''one profile at a time by decision: not shared with H3 on one GPU''),
     (''mesh_resolutions'', ''AISmith-3D run_trellis_fp8 runs 768 at 1024, so only 512 and 1024 ''
        @ ''are accepted'')]"

definition MESH3D_RECIPE :: engine_recipe where
  "MESH3D_RECIPE =
     \<lparr>er_engine = AISMITH_ENGINE,
      er_engine_tag = Some ''engine-v0.1.0'',
      er_engine_commit = Some ''f7466926135bd1cdb9801432ce9d5371ad441596'',
      er_sources_lock_sha256 = Some ''34e7c16907f20268952173fb4f0c5b69dfd674e60a5017502ac2efe4fe19549b'',
      er_weights_lock_sha256 = Some ''c03f5a068628ebbff378c6f833a4ef04bd6fa06b0db6380a7514d6f5ac5c9d33'',
      er_cuda_architecture = ''8.9'', er_blender_series = ''4.2'', er_min_vram_mb = 24000,
      er_stages = [MESH3D_MESH_STAGE, MESH3D_CLEAN_STAGE],
      er_provenance = MESH3D_PROVENANCE\<rparr>"

definition ENGINE_RECIPES :: "(string, engine_recipe) dict" where
  "ENGINE_RECIPES = [(MESH3D, MESH3D_RECIPE)]"

lemma mesh3d_pinned: "missing_pins MESH3D_RECIPE = []"
  by (simp add: missing_pins_def MESH3D_RECIPE_def pin_unset_def)

lemma mesh3d_capabilities:
  "recipe_capability_ids MESH3D_RECIPE = [MESH3D_MESH_CAPABILITY, MESH3D_CLEAN_CAPABILITY]"
  by (simp add: recipe_capability_ids_def MESH3D_RECIPE_def MESH3D_MESH_STAGE_def MESH3D_CLEAN_STAGE_def)

lemma fst_set_update [simp]: "fst ` set (AList.update k v d) = insert k (fst ` set d)"
  by (induction d) auto

lemma dedupe_set: "set (dedupe xs) = set xs" and dedupe_distinct: "distinct (dedupe xs)"
proof -
  have "set (keys (foldl (\<lambda>d x. AList.update x () d) d xs)) = set (keys d) \<union> set xs \<and>
        (distinct (keys d) \<longrightarrow> distinct (keys (foldl (\<lambda>d x. AList.update x () d) d xs)))" for d
    by (induction xs arbitrary: d) (auto simp: keys_update)
  from this [of "[]"] show "set (dedupe xs) = set xs" "distinct (dedupe xs)"
    by (simp_all add: dedupe_def)
qed

end
