(* ===== verification/Profiles.thy ===== *)
theory Profiles
  imports EngineRecipes
begin

text \<open>
  \<open>machine_profiles.py\<close>: the declared machine profiles, what makes one unusable, the runtime
  version keys of a runtime that serves several profiles, and what the coordinator compares at
  completion. What the packaged ComfyUI template files determine is an argument: a profile's recipe
  version (\<open>comfy_version\<close>, the fingerprint over its template) and its input defaults
  (\<open>template_defaults\<close>). \<open>describe\<close> and \<open>features\<close> of a comfy profile read those files and are
  represented by whether they are present.
\<close>

definition LIGHTX8 :: string where "LIGHTX8 = ''h3-16gb-lightx8''"
definition STANDARD :: string where "STANDARD = ''h3-24gb-standard''"
definition SUBJECT12 :: string where "SUBJECT12 = ''flux2-klein-subject-12gb''"
definition RECIPE_KEY :: string where "RECIPE_KEY = ''magic_recipe''"
definition CONFIG_KEY :: string where "CONFIG_KEY = ''magic_config''"
definition LIGHTX8_CAPABILITY :: string where
  "LIGHTX8_CAPABILITY = ''video.minimax_h3.text_to_video.w4a8_16gb.lightx8.v1''"
definition STANDARD_CAPABILITY :: string where
  "STANDARD_CAPABILITY = ''video.minimax_h3.text_to_video.v1''"
definition SUBJECT12_CAPABILITY :: string where
  "SUBJECT12_CAPABILITY = ''image.flux2_klein.subject.12gb.v1''"
definition SUBJECT12_REFUSED_FLAGS :: "string list" where
  "SUBJECT12_REFUSED_FLAGS = [''--gpu-only'', ''--highvram'']"
definition H3_ATTESTED_INPUTS :: "string list" where
  "H3_ATTESTED_INPUTS = [''steps'', ''width'', ''height'', ''length'', ''fps'', ''seed'']"
definition NAMESPACE_SEPARATOR :: string where "NAMESPACE_SEPARATOR = ''@''"

section \<open>Launch checks\<close>

definition check_subject12_launch :: "string list \<Rightarrow> exn + unit" where
  "check_subject12_launch argv =
     ensure (\<not> list_ex (\<lambda>flag. flag \<in> set argv) SUBJECT12_REFUSED_FLAGS)
       (ValueError (''12GB subject recipe refuses --gpu-only and --highvram; ''
                    @ ''it was measured with models offloaded between stages''))"

text \<open>\<open>argv[argv.index(flag) + 1]\<close>, \<open>None\<close> where it raises IndexError.\<close>

definition flag_argument :: "string \<Rightarrow> string list \<Rightarrow> string option" where
  "flag_argument flag argv =
     (case dropWhile (\<lambda>a. a \<noteq> flag) argv of _ # v # _ \<Rightarrow> Some v | _ \<Rightarrow> None)"

definition check_lightx8_launch :: "string list \<Rightarrow> string \<Rightarrow> exn + unit" where
  "check_lightx8_launch argv pytorch_version =
     (if list_ex (\<lambda>flag. flag \<notin> set argv)
           [''--use-sage-attention'', ''--enable-dynamic-vram'', ''--fast-disk'',
            ''--disable-pinned-memory'']
         \<or> ''--reserve-vram'' \<notin> set argv
      then Inl (ValueError (''16GB recipe requires Sage, dynamic VRAM, fast disk, ''
                            @ ''disabled pinned memory and reserve-vram 0''))
      else
        (case flag_argument ''--reserve-vram'' argv of
           None \<Rightarrow> Inl (KeyError ''list index out of range'')
         | Some v \<Rightarrow>
             if v \<notin> {''0'', ''0.0''} then Inl (ValueError ''16GB recipe requires reserve-vram 0'')
             else if \<not> sublist ''+cu13'' pytorch_version
             then Inl (ValueError ''16GB recipe requires a CUDA 13 PyTorch build'')
             else Inr ()))"

section \<open>Profiles\<close>

datatype profile_kind = Comfy | Engine

datatype launch_check = NoCheck | Lightx8Check | Subject12Check

record machine_profile =
  mp_name :: string
  mp_capability_id :: string
  mp_template_directory :: string
  mp_has_describe :: bool
  mp_attested_inputs :: "string list"
  mp_mixed_mode :: bool
  mp_check_launch :: launch_check
  mp_has_features :: bool
  mp_kind :: profile_kind
  mp_engine :: "engine_recipe option"
  mp_qualified :: bool

definition profile_post_init :: "machine_profile \<Rightarrow> exn + unit" where
  "profile_post_init p =
     (if ((mp_kind p = Engine) \<noteq> (mp_engine p \<noteq> None)) \<or> ((\<not> mp_has_describe p) \<noteq> (mp_kind p = Engine))
      then Inl (ValueError (mp_name p @ '': an engine profile has an engine recipe and no template''))
      else
        (case mp_engine p of
           None \<Rightarrow> Inr ()
         | Some e \<Rightarrow>
             if mp_qualified p \<and> missing_pins e \<noteq> []
             then Inl (ValueError (mp_name p @ '' cannot be qualified with unset pins: ''
                                   @ join_with '', '' (missing_pins e)))
             else Inr ()))"

definition profile_capability_ids :: "machine_profile \<Rightarrow> string list" where
  "profile_capability_ids p =
     (case mp_engine p of Some e \<Rightarrow> recipe_capability_ids e | None \<Rightarrow> [mp_capability_id p])"

type_synonym profiles = "(string, machine_profile) dict"

definition get_profile :: "profiles \<Rightarrow> string \<Rightarrow> exn + machine_profile" where
  "get_profile ps name =
     (case map_of ps name of
        None \<Rightarrow> Inl (ValueError (''Unknown machine profile: '' @ name)) | Some p \<Rightarrow> Inr p)"

text \<open>\<open>unusable_reason\<close> after the lookup of the profile.\<close>

definition unusable_of :: "string \<Rightarrow> machine_profile \<Rightarrow> string option" where
  "unusable_of profile spec =
     (let missing = (case mp_engine spec of Some e \<Rightarrow> missing_pins e | None \<Rightarrow> []) in
      if mp_qualified spec \<and> missing = [] then None
      else
        let detail = (if missing \<noteq> [] then ''unset pins: '' @ join_with '', '' missing
                      else ''qualified is False'')
        in Some (profile @ '' is not qualified yet ('' @ detail
                 @ ''); it cannot be enrolled, registered ''
                 @ ''or dispatched until its qualification sets the pins and marks it qualified''))"

definition unusable_reason :: "profiles \<Rightarrow> string \<Rightarrow> exn + string option" where
  "unusable_reason ps profile = ebind (get_profile ps profile) (\<lambda>spec. Inr (unusable_of profile spec))"

definition require_qualified :: "profiles \<Rightarrow> string \<Rightarrow> exn + unit" where
  "require_qualified ps profile =
     ebind (unusable_reason ps profile) (\<lambda>reason.
     case reason of None \<Rightarrow> Inr () | Some r \<Rightarrow> Inl (ProfileNotQualified r))"

definition recipe_version :: "(string \<Rightarrow> string) \<Rightarrow> string \<Rightarrow> machine_profile \<Rightarrow> string" where
  "recipe_version comfy_version profile spec =
     (case mp_engine spec of
        Some e \<Rightarrow> engine_recipe_version
          (AList.update ''qualified'' (JBool (mp_qualified spec)) (recipe_description e profile))
      | None \<Rightarrow> comfy_version profile)"

record refused =
  rf_profiles :: "string list"
  rf_capability_ids :: "string list"
  rf_recipe_versions :: "string list"

definition unqualified :: "(string \<Rightarrow> string) \<Rightarrow> profiles \<Rightarrow> refused" where
  "unqualified comfy_version ps =
     (let bad = filter (\<lambda>(name, spec). unusable_of name spec \<noteq> None) ps
      in \<lparr>rf_profiles = keys bad,
          rf_capability_ids = concat (map (\<lambda>(name, spec). profile_capability_ids spec) bad),
          rf_recipe_versions = map (\<lambda>(name, spec). recipe_version comfy_version name spec) bad\<rparr>)"

definition PROFILES :: profiles where
  "PROFILES = [
     (STANDARD,
      \<lparr>mp_name = STANDARD, mp_capability_id = STANDARD_CAPABILITY,
       mp_template_directory = ''standard'', mp_has_describe = True,
       mp_attested_inputs = H3_ATTESTED_INPUTS, mp_mixed_mode = True, mp_check_launch = NoCheck,
       mp_has_features = True, mp_kind = Comfy, mp_engine = None, mp_qualified = True\<rparr>),
     (LIGHTX8,
      \<lparr>mp_name = LIGHTX8, mp_capability_id = LIGHTX8_CAPABILITY,
       mp_template_directory = ''profile'', mp_has_describe = True,
       mp_attested_inputs = H3_ATTESTED_INPUTS, mp_mixed_mode = False,
       mp_check_launch = Lightx8Check, mp_has_features = False, mp_kind = Comfy,
       mp_engine = None, mp_qualified = True\<rparr>),
     (SUBJECT12,
      \<lparr>mp_name = SUBJECT12, mp_capability_id = SUBJECT12_CAPABILITY,
       mp_template_directory = ''profile'', mp_has_describe = True,
       mp_attested_inputs = H3_ATTESTED_INPUTS, mp_mixed_mode = True,
       mp_check_launch = Subject12Check, mp_has_features = False, mp_kind = Comfy,
       mp_engine = None, mp_qualified = True\<rparr>),
     (MESH3D,
      \<lparr>mp_name = MESH3D, mp_capability_id = MESH3D_MESH_CAPABILITY,
       mp_template_directory = [], mp_has_describe = False,
       mp_attested_inputs = dedupe (concat (map es_attested_inputs (er_stages MESH3D_RECIPE))),
       mp_mixed_mode = False, mp_check_launch = NoCheck, mp_has_features = False,
       mp_kind = Engine, mp_engine = Some MESH3D_RECIPE, mp_qualified = True\<rparr>)]"

section \<open>Recipes at completion\<close>

definition profile_for_recipe :: "(string \<Rightarrow> string) \<Rightarrow> profiles \<Rightarrow> string \<Rightarrow> (string \<times> machine_profile) option" where
  "profile_for_recipe comfy_version ps version =
     find (\<lambda>(name, spec). recipe_version comfy_version name spec = version) ps"

definition recipe_input_defaults ::
  "(string \<Rightarrow> string) \<Rightarrow> (string \<Rightarrow> payload) \<Rightarrow> profiles \<Rightarrow> string \<Rightarrow> payload"
where
  "recipe_input_defaults comfy_version template_defaults ps version =
     (case profile_for_recipe comfy_version ps version of
        None \<Rightarrow> []
      | Some (name, spec) \<Rightarrow> if mp_kind spec \<noteq> Comfy then [] else template_defaults name)"

definition recipe_attested_inputs ::
  "(string \<Rightarrow> string) \<Rightarrow> profiles \<Rightarrow> string \<Rightarrow> string option \<Rightarrow> string list"
where
  "recipe_attested_inputs comfy_version ps version capability_id =
     (case profile_for_recipe comfy_version ps version of
        None \<Rightarrow> H3_ATTESTED_INPUTS
      | Some (name, spec) \<Rightarrow>
          (case mp_engine spec of
             None \<Rightarrow> mp_attested_inputs spec
           | Some e \<Rightarrow>
               (case (case capability_id of
                        None \<Rightarrow> None | Some c \<Rightarrow> if c = [] then None else stage_for e c) of
                  Some stage \<Rightarrow> es_attested_inputs stage
                | None \<Rightarrow> mp_attested_inputs spec)))"

section \<open>Runtime version keys\<close>

type_synonym versions = "(string, string) dict"

definition recipe_key :: "string option \<Rightarrow> string \<Rightarrow> string" where
  "recipe_key profile key =
     (case profile of None \<Rightarrow> key | Some p \<Rightarrow> key @ NAMESPACE_SEPARATOR @ p)"

definition pinned_recipe :: "versions \<Rightarrow> string option" where
  "pinned_recipe v =
     (case map_of v RECIPE_KEY of
        Some r \<Rightarrow> Some r
      | None \<Rightarrow>
          map_option snd (find (\<lambda>(k, _). starts_with k (RECIPE_KEY @ NAMESPACE_SEPARATOR)) (sort_key fst v)))"

definition is_feature :: "string \<Rightarrow> bool" where
  "is_feature k = starts_with k ''magic_feature_''"

text \<open>\<open>versions[key]\<close>\<close>

definition getitem :: "versions \<Rightarrow> string \<Rightarrow> exn + string" where
  "getitem v k = (case map_of v k of None \<Rightarrow> Inl (KeyError k) | Some x \<Rightarrow> Inr x)"

definition namespaced_versions :: "string \<Rightarrow> versions \<Rightarrow> exn + versions" where
  "namespaced_versions profile v =
     ebind (getitem v RECIPE_KEY) (\<lambda>r.
     ebind (getitem v CONFIG_KEY) (\<lambda>c.
     ebind (getitem v ''magic_profile'') (\<lambda>p.
     let own = dict_merge [(RECIPE_KEY, r), (CONFIG_KEY, c), (''magic_profile'', p)]
                 (filter (\<lambda>(k, _). is_feature k) v)
     in Inr (map (\<lambda>(k, x). (recipe_key (Some profile) k, x)) own))))"

definition is_profile_key :: "string \<Rightarrow> bool" where
  "is_profile_key k \<longleftrightarrow> k \<in> {RECIPE_KEY, CONFIG_KEY, ''magic_profile''} \<or> is_feature k"

definition attested_versions :: "string \<Rightarrow> versions \<Rightarrow> exn + versions" where
  "attested_versions profile v =
     ebind (namespaced_versions profile v) (\<lambda>own.
     Inr (dict_merge (filter (\<lambda>(k, _). \<not> is_profile_key k) v) own))"

section \<open>The configured profiles of a worker\<close>

definition parse_profiles :: "profiles \<Rightarrow> string \<Rightarrow> exn + string list" where
  "parse_profiles ps val =
     (let names = filter (\<lambda>n. n \<noteq> []) (map strip (split_on (CHR '','') val)) in
      ebind (for_each (\<lambda>n. ebind (get_profile ps n) (\<lambda>_. Inr ())) names) (\<lambda>_.
      ebind (for_each (require_qualified ps) names) (\<lambda>_.
      ebind (ensure (length (remdups names) = length names)
        (ValueError (''MVS_WORKER_PROFILE repeats a profile: '' @ val))) (\<lambda>_.
      let shared = filter (\<lambda>n. case map_of ps n of None \<Rightarrow> False | Some p \<Rightarrow> \<not> mp_mixed_mode p) names
      in if 1 < length names \<and> shared \<noteq> []
         then Inl (ValueError (join_with '', '' shared @ '' cannot share a runtime with other profiles''))
         else Inr names))))"

section \<open>Properties\<close>

text \<open>Every declared profile is consistent and usable: each of the four passes its own
  post-init check, none is refused at enrolment, registration or dispatch (the engine profile's
  pins are all set), and the coordinator therefore refuses no capability, name or recipe.\<close>

theorem all_profiles_usable:
  "list_all (\<lambda>(name, p). profile_post_init p = Inr () \<and> require_qualified PROFILES name = Inr () \<and>
      mp_name p = name) PROFILES \<and>
   unqualified comfy_version PROFILES =
     \<lparr>rf_profiles = [], rf_capability_ids = [], rf_recipe_versions = []\<rparr>"
proof -
  have u: "unusable_of n p = None" if "(n, p) \<in> set PROFILES" for n p
    using that by (auto simp: PROFILES_def unusable_of_def mesh3d_pinned)
  have d: "distinct (keys PROFILES)"
    by (simp add: PROFILES_def STANDARD_def LIGHTX8_def SUBJECT12_def MESH3D_def)
  have q: "require_qualified PROFILES n = Inr ()" if "(n, p) \<in> set PROFILES" for n p
    using that u [OF that] d by (simp add: require_qualified_def unusable_reason_def get_profile_def)
  have "profile_post_init p = Inr () \<and> mp_name p = n" if "(n, p) \<in> set PROFILES" for n p
    using that by (auto simp: PROFILES_def profile_post_init_def mesh3d_pinned)
  moreover have "filter (\<lambda>(n, p). unusable_of n p \<noteq> None) PROFILES = []"
    using u by (auto simp: filter_empty_conv)
  ultimately show ?thesis
    using q by (auto simp: list_all_iff unqualified_def Let_def)
qed

lemma dict_merge_append: "dict_merge d (xs @ ys) = dict_merge (dict_merge d xs) ys"
  by (simp add: dict_merge_def)

lemma map_of_rev_distinct: "distinct (keys d) \<Longrightarrow> map_of (rev d) = map_of d"
  by (rule map_of_inject_set [THEN iffD2]) (simp_all add: rev_map [symmetric])

lemma lookup_merge:
  "distinct (keys d2) \<Longrightarrow> map_of (dict_merge d1 d2) k =
     (case map_of d2 k of Some v \<Rightarrow> Some v | None \<Rightarrow> map_of d1 k)"
  by (simp add: map_of_dict_merge map_of_rev_distinct map_add_def split: option.split)

lemma distinct_merge: "distinct (keys d1) \<Longrightarrow> distinct (keys (dict_merge d1 d2))"
  unfolding dict_merge_def by (induction d2 arbitrary: d1) auto

lemma lookup_filter_key:
  "map_of (filter (\<lambda>(k, _). P k) d) k = (if P k then map_of d k else None)"
  by (induction d) auto

lemma recipe_key_inj: "recipe_key (Some p) k = recipe_key (Some p) k' \<longleftrightarrow> k = k'"
  by (simp add: recipe_key_def)

lemma lookup_recipe_key:
  "map_of (map (\<lambda>(k, x). (recipe_key (Some p) k, x)) d) (recipe_key (Some p) k) = map_of d k"
  by (induction d) (auto simp: recipe_key_inj)

lemma lookup_plain_key:
  "CHR ''@'' \<notin> set k \<Longrightarrow> map_of (map (\<lambda>(k, x). (recipe_key (Some p) k, x)) d) k = None"
  by (induction d) (auto simp: recipe_key_def NAMESPACE_SEPARATOR_def)

lemma namespaced_lookup:
  assumes "namespaced_versions p v = Inr own" "distinct (keys v)"
  shows "distinct (keys own)" "map_of own (recipe_key (Some p) k) = (if is_profile_key k then map_of v k else None)"
    "CHR ''@'' \<notin> set k' \<Longrightarrow> map_of own k' = None"
proof -
  obtain r c m where rcm: "map_of v RECIPE_KEY = Some r" "map_of v CONFIG_KEY = Some c"
      "map_of v ''magic_profile'' = Some m"
      "own = map (\<lambda>(k, x). (recipe_key (Some p) k, x))
         (dict_merge [(RECIPE_KEY, r), (CONFIG_KEY, c), (''magic_profile'', m)]
            (filter (\<lambda>(k, _). is_feature k) v))"
    using assms(1) by (auto simp: namespaced_versions_def getitem_def result_simps Let_def
        split: option.splits)
  let ?base = "[(RECIPE_KEY, r), (CONFIG_KEY, c), (''magic_profile'', m)]"
  have db: "distinct (keys ?base)" by (simp add: RECIPE_KEY_def CONFIG_KEY_def)
  have df: "distinct (keys (filter (\<lambda>(k, _). is_feature k) v))"
    using assms(2) by (induction v) auto
  have "inj_on (recipe_key (Some p)) A" for A by (auto simp: inj_on_def recipe_key_inj)
  moreover have "keys own = map (recipe_key (Some p))
      (keys (dict_merge ?base (filter (\<lambda>(k, _). is_feature k) v)))"
    by (simp add: rcm(4) case_prod_unfold)
  ultimately show "distinct (keys own)"
    using distinct_merge [OF db] by (simp add: distinct_map del: map_map)
  show "map_of own (recipe_key (Some p) k) = (if is_profile_key k then map_of v k else None)"
    using rcm(1-3)
    by (auto simp: rcm(4) lookup_recipe_key lookup_merge [OF df] lookup_filter_key is_profile_key_def
        split: option.split)
  show "CHR ''@'' \<notin> set k' \<Longrightarrow> map_of own k' = None"
    by (simp add: rcm(4) lookup_plain_key)
qed

text \<open>A further profile attests exactly what it registers: its report carries every shared
  runtime fact under its plain key, its own recipe, configuration, name and features under their
  namespaced keys with the values inspected, and never a plain recipe key, which belongs to the
  runtime's first profile.\<close>

theorem attested_versions_exact:
  assumes "attested_versions p v = Inr av" "distinct (keys v)" "CHR ''@'' \<notin> set k"
    and "list_all (\<lambda>x. CHR ''@'' \<notin> set x) (keys v)"
  shows "map_of av k = (if is_profile_key k then None else map_of v k) \<and>
         map_of av (recipe_key (Some p) k) = (if is_profile_key k then map_of v k else None)"
proof -
  obtain own where own: "namespaced_versions p v = Inr own"
      "av = dict_merge (filter (\<lambda>(k, _). \<not> is_profile_key k) v) own"
    using assms(1) by (auto simp: attested_versions_def result_simps)
  have "map_of v (recipe_key (Some p) k) = None"
    using assms(4) by (force simp: map_of_eq_None_iff list_all_iff recipe_key_def NAMESPACE_SEPARATOR_def)
  with namespaced_lookup [OF own(1) assms(2)] assms(3) show ?thesis
    by (auto simp: own(2) lookup_merge lookup_filter_key split: option.split)
qed

theorem attested_versions_exact_witness:
  "\<exists>av. attested_versions ''p2'' [(RECIPE_KEY, ''r''), (CONFIG_KEY, ''c''), (''magic_profile'', ''p2''),
      (''comfyui'', ''1'')] = Inr av \<and> map_of av RECIPE_KEY = None"
proof -
  let ?v = "[(RECIPE_KEY, ''r''), (CONFIG_KEY, ''c''), (''magic_profile'', ''p2''), (''comfyui'', ''1'')]"
  obtain av where "attested_versions ''p2'' ?v = Inr av"
    by (simp add: attested_versions_def namespaced_versions_def getitem_def RECIPE_KEY_def
        CONFIG_KEY_def Let_def)
  with attested_versions_exact [OF this, of RECIPE_KEY] show ?thesis
    by (simp add: is_profile_key_def RECIPE_KEY_def CONFIG_KEY_def)
qed

text \<open>A worker's configured profiles are accepted exactly when each is known and usable, none
  is repeated, and a runtime of several holds only profiles that may share one.\<close>

theorem parse_profiles_iff:
  "parse_profiles ps val = Inr names \<longleftrightarrow>
     names = filter (\<lambda>n. n \<noteq> []) (map strip (split_on (CHR '','') val)) \<and> distinct names \<and>
     list_all (\<lambda>n. case map_of ps n of None \<Rightarrow> False
        | Some p \<Rightarrow> unusable_of n p = None \<and> (length names \<le> 1 \<or> mp_mixed_mode p)) names"
proof -
  have len: "length (remdups xs) = length xs \<longleftrightarrow> distinct xs" for xs :: "string list"
    by (metis card_distinct distinct_card length_remdups_card_conv)
  have q: "require_qualified ps n = Inr () \<longleftrightarrow>
      (case map_of ps n of None \<Rightarrow> False | Some p \<Rightarrow> unusable_of n p = None)" for n
    by (simp add: require_qualified_def unusable_reason_def get_profile_def split: option.split)
  show ?thesis
    by (auto simp: parse_profiles_def Let_def result_simps get_profile_def q len list_all_iff
        filter_empty_conv split: option.splits if_splits) fastforce+
qed

end
