(* ===== verification/Service.thy ===== *)
theory Service
  imports Auth AssetStore RateLimiter Profiles
begin

text \<open>
  \<open>WorkerPoolService\<close> of service.py over the in-memory stores: one record of state (jobs, assets,
  workers, audit log, the five limiters, the authentication slots), one operation per method. An
  operation maps the state to a result (an exception or a value) and the state it leaves, which is
  kept when it raises. What an operation reads from outside (clocks, the lease token) is the record
  \<open>readings\<close>.
\<close>

section \<open>State, configuration, readings\<close>

record pool_state =
  ps_jobs :: job_table
  ps_assets :: asset_store
  ps_workers :: worker_table
  ps_audit :: "audit_event list"
  ps_worker_limiter :: limiter
  ps_global_limiter :: limiter
  ps_pre_auth_limiter :: limiter
  ps_source_limiter :: limiter
  ps_auth_audit_limiter :: limiter
  ps_active_auth :: nat

text \<open>\<open>pc_profile_module\<close> is \<open>None\<close> where importing machine_profiles raises ImportError; otherwise it
  holds the two functions the template files determine (see Profiles).\<close>

record pool_config =
  pc_default_lease_seconds :: int
  pc_max_verify_bytes :: int
  pc_grant_ttl_seconds :: int
  pc_enrollments :: enrollments
  pc_max_auth_concurrency :: nat
  pc_capability_schemas :: "(string, capability_schema) dict"
  pc_profile_module :: "((string \<Rightarrow> string) \<times> (string \<Rightarrow> payload)) option"

text \<open>The clock of the service, of the job store's test, of its settlements (by job id), of the
  lease, of the audit log, of the registry, of the i-th limiter call; the token of a lease.\<close>

record readings =
  rd_clock :: time
  rd_expire :: time
  rd_settle :: "string \<Rightarrow> time"
  rd_store :: time
  rd_audit :: time
  rd_registry :: time
  rd_limit :: "nat \<Rightarrow> time"
  rd_token :: string

type_synonym 'a operation = "pool_state \<Rightarrow> (exn + 'a) \<times> pool_state"

definition sreturn :: "'a \<Rightarrow> 'a operation" where
  "sreturn a s = (Inr a, s)"

definition sraise :: "exn \<Rightarrow> 'a operation" where
  "sraise e s = (Inl e, s)"

definition sbind :: "'a operation \<Rightarrow> ('a \<Rightarrow> 'b operation) \<Rightarrow> 'b operation" where
  "sbind m f s = (case m s of (Inl e, s') \<Rightarrow> (Inl e, s') | (Inr a, s') \<Rightarrow> f a s')"

definition slift :: "(pool_state \<Rightarrow> exn + 'a) \<Rightarrow> 'a operation" where
  "slift f s = (f s, s)"

definition sread :: "(pool_state \<Rightarrow> 'a) \<Rightarrow> 'a operation" where
  "sread f s = (Inr (f s), s)"

definition on_jobs :: "(job_table \<Rightarrow> 'a \<times> job_table) \<Rightarrow> 'a operation" where
  "on_jobs f s = (let (a, j) = f (ps_jobs s) in (Inr a, s\<lparr>ps_jobs := j\<rparr>))"

definition audit ::
  "audit_event_type \<Rightarrow> string option \<Rightarrow> string option \<Rightarrow> payload \<Rightarrow> readings \<Rightarrow> unit operation"
where
  "audit ty worker_id job_id detail rd s =
     (Inr (), s\<lparr>ps_audit := audit_record ty worker_id job_id detail (rd_audit rd) (ps_audit s)\<rparr>)"

definition GLOBAL_RATE_LIMIT_KEY :: string where "GLOBAL_RATE_LIMIT_KEY = ''*''"
definition OUTPUT_UPLOAD_CONTENT_TYPE :: string where
  "OUTPUT_UPLOAD_CONTENT_TYPE = ''application/octet-stream''"

section \<open>Unqualified profiles\<close>

definition DEFAULT_ATTESTED_INPUTS :: "string list" where
  "DEFAULT_ATTESTED_INPUTS = [''steps'', ''width'', ''height'', ''length'', ''fps'', ''seed'']"

definition svc_pinned_recipe :: "versions \<Rightarrow> string option" where
  "svc_pinned_recipe v =
     (case map_of v ''magic_recipe'' of
        Some r \<Rightarrow> Some r
      | None \<Rightarrow> map_option snd (find (\<lambda>(k, _). starts_with k ''magic_recipe@'') (sort_key fst v)))"

definition svc_recipe_attested_inputs :: "pool_config \<Rightarrow> string \<Rightarrow> string \<Rightarrow> string list" where
  "svc_recipe_attested_inputs cfg version capability_id =
     (case pc_profile_module cfg of
        None \<Rightarrow> DEFAULT_ATTESTED_INPUTS
      | Some (cv, _) \<Rightarrow> recipe_attested_inputs cv PROFILES version (Some capability_id))"

definition svc_unqualified :: "pool_config \<Rightarrow> refused" where
  "svc_unqualified cfg =
     (case pc_profile_module cfg of
        None \<Rightarrow> \<lparr>rf_profiles = keys ENGINE_RECIPES,
                 rf_capability_ids = concat (map (\<lambda>(_, r). recipe_capability_ids r) ENGINE_RECIPES),
                 rf_recipe_versions = []\<rparr>
      | Some (cv, _) \<Rightarrow> unqualified cv PROFILES)"

definition version_refused :: "refused \<Rightarrow> string \<times> string \<Rightarrow> bool" where
  "version_refused rf = (\<lambda>(key, val).
     let (base, _, profile) = partition_at (CHR ''@'') key
     in profile \<in> set (rf_profiles rf) \<or>
        (base = ''magic_profile'' \<and> val \<in> set (rf_profiles rf)) \<or>
        (base = ''magic_recipe'' \<and> val \<in> set (rf_recipe_versions rf)))"

definition unqualified_reason :: "string list \<Rightarrow> versions \<Rightarrow> refused \<Rightarrow> string option" where
  "unqualified_reason caps v rf =
     (case find (\<lambda>c. c \<in> set (rf_capability_ids rf)) caps of
        Some c \<Rightarrow> Some (c @ '' belongs to a machine profile that is not qualified yet'')
      | None \<Rightarrow>
          map_option (\<lambda>(k, _). k @ '' names a machine profile that is not qualified yet'')
            (find (version_refused rf) v))"

definition svc_recipe_defaults :: "pool_config \<Rightarrow> string \<Rightarrow> payload" where
  "svc_recipe_defaults cfg version =
     (case pc_profile_module cfg of
        None \<Rightarrow> []
      | Some (cv, td) \<Rightarrow> recipe_input_defaults cv td PROFILES version)"

section \<open>Host operations\<close>

definition without_claim_token :: "job_record \<Rightarrow> job_record" where
  "without_claim_token r = r\<lparr>j_claim_token := None\<rparr>"

definition svc_submit :: "pool_config \<Rightarrow> readings \<Rightarrow> job_submission \<Rightarrow> job_record operation" where
  "svc_submit cfg rd sub =
     (case unqualified_reason [s_capability_id sub] (runtime_versions (s_requirements sub))
             (svc_unqualified cfg) of
        Some reason \<Rightarrow> sraise (ProfileNotQualified reason)
      | None \<Rightarrow>
          sbind (on_jobs (mem_submit sub (rd_store rd))) (\<lambda>result.
          case result of
            Inl e \<Rightarrow> sraise e
          | Inr r \<Rightarrow> sreturn (without_claim_token (sr_record r))))"

definition svc_get :: "string \<Rightarrow> job_record option operation" where
  "svc_get job_id = sread (\<lambda>s. map_option without_claim_token (mem_get job_id (ps_jobs s)))"

definition svc_cancel :: "readings \<Rightarrow> string \<Rightarrow> bool operation" where
  "svc_cancel rd job_id = on_jobs (mem_cancel job_id (rd_store rd))"

definition svc_list_for_tenant :: "string \<Rightarrow> job_record list operation" where
  "svc_list_for_tenant tenant =
     sread (\<lambda>s. map without_claim_token (mem_list_for_tenant tenant (ps_jobs s)))"

definition svc_set_worker_status :: "readings \<Rightarrow> string \<Rightarrow> worker_status \<Rightarrow> bool operation" where
  "svc_set_worker_status rd worker_id status s =
     (let (changed, ws) = reg_set_status worker_id status (rd_registry rd) (ps_workers s);
          s1 = s\<lparr>ps_workers := ws\<rparr>
      in if \<not> changed then (Inr False, s1)
         else
           sbind (audit WORKER_STATUS_CHANGED (Some worker_id) None
                    [(''status'', JStr (worker_status_str status))] rd) (\<lambda>_.
           sbind (if status = W_REVOKED then audit WORKER_REVOKED (Some worker_id) None [] rd
                  else sreturn ()) (\<lambda>_.
           sreturn True)) s1)"

definition svc_list_workers :: "worker_record list operation" where
  "svc_list_workers = sread (\<lambda>s. reg_list (ps_workers s))"

text \<open>\<open>worker_views\<close>: one row, or none for a worker that is not shown.\<close>

definition worker_view :: "time \<Rightarrow> int \<Rightarrow> int \<Rightarrow> worker_record \<Rightarrow> pool_worker_view option" where
  "worker_view now online_window visibility_window w =
     (case w_last_heartbeat_at w of
        None \<Rightarrow> None
      | Some beat \<Rightarrow>
          if w_status w = W_REVOKED then None
          else if now - beat > usec visibility_window then None
          else
            let draining = (w_status w = W_DRAINING) in
            Some \<lparr>pv_worker_id = w_worker_id w,
              pv_status = (if w_busy_job_id w \<noteq> None then PW_BUSY
                           else if draining then PW_DRAINING
                           else if now - beat \<le> usec online_window then PW_ONLINE else PW_OFFLINE),
              pv_last_heartbeat_at = w_last_heartbeat_at w, pv_capability_ids = capability_ids w,
              pv_gpus = w_gpus w, pv_busy_job_id = w_busy_job_id w, pv_draining = draining,
              pv_tenant_id = w_tenant_id w, pv_gpu_model = w_gpu_model w, pv_vram_mb = w_vram_mb w,
              pv_runtime_versions = w_runtime_versions w\<rparr>)"

definition svc_worker_views ::
  "readings \<Rightarrow> string option \<Rightarrow> int \<Rightarrow> int \<Rightarrow> pool_worker_view list operation"
where
  "svc_worker_views rd tenant_id online_window visibility_window =
     sread (\<lambda>s. List.map_filter (worker_view (rd_clock rd) online_window visibility_window)
       (case tenant_id of
          None \<Rightarrow> reg_list (ps_workers s)
        | Some t \<Rightarrow> reg_list_by_tenant (Some t) (ps_workers s)))"

text \<open>\<open>online[c] = online.get(c, 0) + 1\<close> for the capabilities of every online worker.\<close>

definition count_one :: "string \<Rightarrow> (string, nat) dict \<Rightarrow> (string, nat) dict" where
  "count_one c d = AList.update c ((case map_of d c of None \<Rightarrow> 0 | Some n \<Rightarrow> n) + 1) d"

definition online_worker :: "time \<Rightarrow> worker_record \<Rightarrow> bool" where
  "online_worker now w =
     (case w_last_heartbeat_at w of
        None \<Rightarrow> False
      | Some beat \<Rightarrow> w_status w \<noteq> W_REVOKED \<and>
          \<not> now - beat > usec POOL_WORKER_ONLINE_WINDOW_SECONDS)"

definition svc_queue_depth :: "readings \<Rightarrow> queue_depth operation" where
  "svc_queue_depth rd =
     sread (\<lambda>s. (mem_queue_depth (ps_jobs s))\<lparr>qd_online_workers_by_capability :=
       fold (\<lambda>w online. if online_worker (rd_clock rd) w then fold count_one (capability_ids w) online
                         else online) (reg_list (ps_workers s)) []\<rparr>)"

definition svc_audit_for_job :: "string \<Rightarrow> audit_event list operation" where
  "svc_audit_for_job job_id = sread (\<lambda>s. audit_list_for_job job_id (ps_audit s))"

definition svc_upsert :: "readings \<Rightarrow> worker_registration \<Rightarrow> string \<Rightarrow> worker_record operation" where
  "svc_upsert rd reg subject s =
     (let (r, ws) = reg_upsert reg subject (rd_registry rd) (ps_workers s)
      in (r, s\<lparr>ps_workers := ws\<rparr>))"

definition enrollment_registration :: "string \<Rightarrow> string option \<Rightarrow> worker_registration" where
  "enrollment_registration worker_id tenant =
     \<lparr>r_worker_id = worker_id, r_capabilities = [], r_tenant_id = tenant, r_gpu_model = None,
      r_vram_mb = None, r_runtime_versions = [], r_cost_class = LOCAL, r_labels = [],
      r_active_leases = 0, r_draining = False, r_gpus = [], r_busy_job_id = None\<rparr>"

definition svc_enroll_worker ::
  "readings \<Rightarrow> string \<Rightarrow> worker_enrollment \<Rightarrow> worker_record operation"
where
  "svc_enroll_worker rd worker_id e s =
     (case validate_enrollments (Some [(worker_id, e)]) of
        Inl x \<Rightarrow> (Inl x, s)
      | Inr _ \<Rightarrow>
        (case reg_get worker_id (ps_workers s) of
           Some existing \<Rightarrow>
             if w_identity_subject existing \<noteq> we_identity_subject e
             then (Inl (WorkerIdentityMismatch worker_id), s)
             else if w_tenant_id existing \<noteq> we_tenant_id e
             then (Inl (WorkerTenantMismatch worker_id), s)
             else (Inr existing, s)
         | None \<Rightarrow>
             svc_upsert rd (enrollment_registration worker_id (we_tenant_id e))
               (we_identity_subject e) s))"

section \<open>Admission\<close>

definition approved_enrollment :: "pool_config \<Rightarrow> worker_identity \<Rightarrow> worker_enrollment operation" where
  "approved_enrollment cfg i = slift (\<lambda>s.
     case reg_get (id_worker_id i) (ps_workers s) of
       Some w \<Rightarrow>
         if w_identity_subject w \<noteq> id_subject i then Inl (WorkerIdentityMismatch (id_worker_id i))
         else if w_status w = W_REVOKED then Inl (WorkerRevoked (id_worker_id i))
         else mk_enrollment (w_identity_subject w) (w_tenant_id w)
     | None \<Rightarrow>
         (case map_of (pc_enrollments cfg) (id_worker_id i) of
            None \<Rightarrow> Inl (WorkerAuthError ''worker has no approved enrollment'')
          | Some e \<Rightarrow>
              if we_identity_subject e \<noteq> id_subject i
              then Inl (WorkerAuthError ''worker has no approved enrollment'')
              else Inr e))"

definition audit_auth :: "readings \<Rightarrow> audit_event_type \<Rightarrow> string option \<Rightarrow> unit operation" where
  "audit_auth rd ty worker_id s =
     (let (ok, l) = allow (rd_limit rd 4) GLOBAL_RATE_LIMIT_KEY (ps_auth_audit_limiter s);
          s1 = s\<lparr>ps_auth_audit_limiter := l\<rparr>
      in if ok
         then audit ty worker_id None
           [(''reason'', JStr (if ty = AUTH_REJECTED then ''invalid_credential''
                               else ''admission_rejected''))] rd s1
         else (Inr (), s1))"

text \<open>\<open>authenticate\<close> up to the call of the authenticator, which may suspend; it holds one of the
  authentication slots from here on.\<close>

definition auth_begin ::
  "pool_config \<Rightarrow> readings \<Rightarrow> string option \<Rightarrow> string \<Rightarrow> string operation"
where
  "auth_begin cfg rd authorization source s =
     (let (ok1, l1) = allow (rd_limit rd 0) source (ps_source_limiter s);
          s1 = s\<lparr>ps_source_limiter := l1\<rparr>
      in if \<not> ok1 then (Inl (RateLimited ''pre-authentication admission limit''), s1)
         else
           let (ok2, l2) = allow (rd_limit rd 1) GLOBAL_RATE_LIMIT_KEY (ps_pre_auth_limiter s1);
               s2 = s1\<lparr>ps_pre_auth_limiter := l2\<rparr>
           in if \<not> ok2 \<or> ps_active_auth s2 \<ge> pc_max_auth_concurrency cfg
              then (Inl (RateLimited ''pre-authentication admission limit''), s2)
              else
                (case authorization of
                   Some a \<Rightarrow>
                     if 8192 < length a
                     then sbind (audit_auth rd AUTH_REJECTED None)
                            (\<lambda>_. sraise (WorkerAuthError ''missing or oversized credential'')) s2
                     else (Inr a, s2\<lparr>ps_active_auth := ps_active_auth s2 + 1\<rparr>)
                 | None \<Rightarrow>
                     sbind (audit_auth rd AUTH_REJECTED None)
                       (\<lambda>_. sraise (WorkerAuthError ''missing or oversized credential'')) s2))"

definition auth_try ::
  "pool_config \<Rightarrow> readings \<Rightarrow> (exn + worker_identity) \<Rightarrow> worker_identity operation"
where
  "auth_try cfg rd result =
     (case result of
        Inl e \<Rightarrow> sraise e
      | Inr i \<Rightarrow>
          sbind (approved_enrollment cfg i) (\<lambda>_ s.
          let (ok1, l1) = allow (rd_limit rd 2) (id_worker_id i) (ps_worker_limiter s);
              s1 = s\<lparr>ps_worker_limiter := l1\<rparr>;
              (ok2, l2) = (if ok1 then allow (rd_limit rd 3) GLOBAL_RATE_LIMIT_KEY (ps_global_limiter s1)
                           else (False, ps_global_limiter s1));
              s2 = s1\<lparr>ps_global_limiter := l2\<rparr>
          in if ok2 then (Inr i, s2)
             else sbind (audit_auth rd RATE_LIMITED (Some (id_worker_id i)))
                    (\<lambda>_. sraise (RateLimited (id_worker_id i))) s2))"

text \<open>The rest of \<open>authenticate\<close>, from the authenticator's outcome: the \<open>try\<close> body, its two
  handlers and the \<open>finally\<close> that gives the slot back.\<close>

definition auth_end ::
  "pool_config \<Rightarrow> readings \<Rightarrow> (exn + worker_identity) \<Rightarrow> worker_identity operation"
where
  "auth_end cfg rd result s =
     (let (r, s1) = auth_try cfg rd result s;
          (r2, s2) = (case r of
             Inr i \<Rightarrow> (Inr i, s1)
           | Inl e \<Rightarrow>
               if e = WorkerAuthBusy then (Inl (RateLimited ''identity verification is busy''), s1)
               else if is_worker_auth_error e
               then sbind (audit_auth rd AUTH_REJECTED None) (\<lambda>_. sraise e) s1
               else (Inl e, s1))
      in (r2, s2\<lparr>ps_active_auth := ps_active_auth s2 - 1\<rparr>))"

definition svc_authenticate ::
  "pool_config \<Rightarrow> readings \<Rightarrow> (string \<Rightarrow> worker_table \<Rightarrow> exn + worker_identity) \<Rightarrow>
     string option \<Rightarrow> string \<Rightarrow> worker_identity operation"
where
  "svc_authenticate cfg rd authenticator authorization source =
     sbind (auth_begin cfg rd authorization source) (\<lambda>a s.
       auth_end cfg rd (authenticator a (ps_workers s)) s)"

section \<open>Worker operations\<close>

definition svc_register_heartbeat ::
  "pool_config \<Rightarrow> readings \<Rightarrow> worker_identity \<Rightarrow> worker_registration \<Rightarrow> worker_record operation"
where
  "svc_register_heartbeat cfg rd i reg =
     (if r_worker_id reg \<noteq> id_worker_id i then sraise (WorkerMismatch (r_worker_id reg))
      else
        sbind (approved_enrollment cfg i) (\<lambda>e.
        if r_tenant_id reg \<noteq> we_tenant_id e then sraise (WorkerTenantMismatch (r_worker_id reg))
        else
          let reg' = reg\<lparr>r_tenant_id := we_tenant_id e\<rparr> in
          sbind (slift (\<lambda>_. for_each
              (\<lambda>c. ebind (validate_capability_id (wc_capability_id c)) (\<lambda>_. Inr ()))
              (r_capabilities reg'))) (\<lambda>_.
          case unqualified_reason (map wc_capability_id (r_capabilities reg'))
                 (r_runtime_versions reg') (svc_unqualified cfg) of
            Some reason \<Rightarrow> sraise (ProfileNotQualified reason)
          | None \<Rightarrow> (\<lambda>s.
              case svc_upsert rd reg' (id_subject i) s of
                (Inl (IdentitySubjectTaken _), s1) \<Rightarrow> (Inl (WorkerMismatch (id_subject i)), s1)
              | (Inl e, s1) \<Rightarrow> (Inl e, s1)
              | (Inr w, s1) \<Rightarrow>
                  sbind (audit WORKER_HEARTBEAT (Some (w_worker_id w)) None
                    [(''capabilities'', JInt (int (length (r_capabilities reg')))),
                     (''draining'', JBool (r_draining reg'))] rd) (\<lambda>_. sreturn w) s1))))"

text \<open>The grants of a leased job: one read URL per input key, in order, then the upload URL.\<close>

definition input_grant :: "time \<Rightarrow> asset_store \<Rightarrow> string \<Rightarrow> exn + asset_grant" where
  "input_grant expires_at assets key =
     ebind (create_read_url key assets) (\<lambda>url.
     Inr \<lparr>ag_key = key, ag_url = url, ag_method = ''GET'', ag_expires_at = expires_at,
          ag_content_type = None\<rparr>)"

definition output_grant_of :: "time \<Rightarrow> asset_store \<Rightarrow> string \<Rightarrow> exn + asset_grant" where
  "output_grant_of expires_at assets key =
     ebind (create_output_upload_url key OUTPUT_UPLOAD_CONTENT_TYPE assets) (\<lambda>url.
     Inr \<lparr>ag_key = key, ag_url = url, ag_method = ''PUT'', ag_expires_at = expires_at,
          ag_content_type = Some OUTPUT_UPLOAD_CONTENT_TYPE\<rparr>)"

definition lease_grant_of ::
  "job_record \<Rightarrow> string \<Rightarrow> time \<Rightarrow> asset_grant list \<Rightarrow> asset_grant \<Rightarrow> lease_grant"
where
  "lease_grant_of job token lease_until input_grants output_grant =
     \<lparr>lg_job_id = j_job_id job, lg_claim_token = token, lg_lease_until = lease_until,
      lg_execution_deadline_seconds = j_execution_deadline_seconds job,
      lg_capability_id = j_capability_id job, lg_contract_version = j_contract_version job,
      lg_request_digest = j_request_digest job, lg_idempotency_key = j_idempotency_key job,
      lg_input_keys = j_input_keys job, lg_output_key = j_output_key job,
      lg_payload = j_payload job, lg_input_grants = input_grants,
      lg_output_grant = output_grant, lg_tenant_id = j_tenant_id job\<rparr>"

definition grant_job ::
  "pool_config \<Rightarrow> readings \<Rightarrow> worker_identity \<Rightarrow> int \<Rightarrow> job_record \<Rightarrow> lease_grant option operation"
where
  "grant_job cfg rd i seconds job =
     (case j_claim_token job of
        None \<Rightarrow> sraise (StaleLease (j_job_id job))
      | Some token \<Rightarrow>
          let now = rd_clock rd; expires_at = now + usec (pc_grant_ttl_seconds cfg) in
          sbind (slift (\<lambda>s. map_result (input_grant expires_at (ps_assets s)) (j_input_keys job)))
            (\<lambda>input_grants.
          sbind (slift (\<lambda>s. output_grant_of expires_at (ps_assets s) (j_output_key job)))
            (\<lambda>output_grant.
          sbind (audit LEASE_GRANTED (Some (id_worker_id i)) (Some (j_job_id job))
                   [(''attempt'', JInt (j_attempts job)),
                    (''capability_id'', JStr (j_capability_id job))] rd) (\<lambda>_.
          sreturn (Some (lease_grant_of job token (now + usec seconds) input_grants output_grant))))))"

definition worker_query :: "worker_record \<Rightarrow> worker_identity \<Rightarrow> string list \<Rightarrow> int \<Rightarrow> lease_query" where
  "worker_query w i effective seconds =
     \<lparr>q_worker_id = id_worker_id i, q_capability_ids = effective, q_lease_seconds = seconds,
      q_tenant_id = w_tenant_id w, q_vram_mb = w_vram_mb w, q_gpu_model = w_gpu_model w,
      q_labels = w_labels w, q_runtime_versions = w_runtime_versions w\<rparr>"

definition effective_capabilities :: "pool_config \<Rightarrow> worker_record \<Rightarrow> string list \<Rightarrow> string list" where
  "effective_capabilities cfg w caps =
     filter (\<lambda>c. c \<in> set (capability_ids w) \<and> c \<notin> set (rf_capability_ids (svc_unqualified cfg))) caps"

definition svc_lease ::
  "pool_config \<Rightarrow> readings \<Rightarrow> worker_identity \<Rightarrow> string list \<Rightarrow> int option \<Rightarrow> lease_grant option operation"
where
  "svc_lease cfg rd i caps lease_seconds =
     sbind (approved_enrollment cfg i) (\<lambda>_.
     sbind (sread (\<lambda>s. reg_get (id_worker_id i) (ps_workers s))) (\<lambda>found.
     case found of
       None \<Rightarrow> sraise (WorkerNotRegistered (id_worker_id i))
     | Some w \<Rightarrow>
         if w_status w = W_DRAINING then sreturn None
         else if unqualified_reason [] (w_runtime_versions w) (svc_unqualified cfg) \<noteq> None
         then sreturn None
         else
           let effective = effective_capabilities cfg w caps;
               seconds = (case lease_seconds of Some n \<Rightarrow> n | None \<Rightarrow> pc_default_lease_seconds cfg)
           in if effective = [] then sreturn None
              else
                sbind (on_jobs (mem_expire_exhausted (rd_expire rd) (rd_settle rd))) (\<lambda>_.
                sbind (on_jobs (mem_lease (worker_query w i effective seconds) (rd_store rd) (rd_token rd)))
                  (\<lambda>leased.
                case leased of
                  None \<Rightarrow>
                    sbind (audit LEASE_EMPTY (Some (id_worker_id i)) None [] rd) (\<lambda>_. sreturn None)
                | Some job \<Rightarrow> grant_job cfg rd i seconds job))))"

definition owned_job :: "pool_config \<Rightarrow> worker_identity \<Rightarrow> string \<Rightarrow> job_record operation" where
  "owned_job cfg i job_id =
     sbind (approved_enrollment cfg i) (\<lambda>_.
     slift (\<lambda>s.
       case mem_get job_id (ps_jobs s) of
         None \<Rightarrow> Inl (JobNotFound job_id)
       | Some r \<Rightarrow>
           if j_leased_by r \<noteq> Some (id_worker_id i) \<or> j_status r \<noteq> PROCESSING
           then Inl (StaleLease job_id) else Inr r))"

definition jint_opt :: "int option \<Rightarrow> json" where
  "jint_opt x = (case x of None \<Rightarrow> JNull | Some n \<Rightarrow> JInt n)"

definition svc_job_heartbeat ::
  "pool_config \<Rightarrow> readings \<Rightarrow> worker_identity \<Rightarrow> string \<Rightarrow> string \<Rightarrow> int option \<Rightarrow> time operation"
where
  "svc_job_heartbeat cfg rd i job_id token progress =
     sbind (owned_job cfg i job_id) (\<lambda>r.
     sbind (on_jobs (mem_heartbeat (j_job_id r) token (pc_default_lease_seconds cfg) progress (rd_store rd)))
       (\<lambda>accepted.
     if \<not> accepted then sraise (StaleLease job_id)
     else
       sbind (audit JOB_HEARTBEAT (Some (id_worker_id i)) (Some (j_job_id r))
                [(''progress_percent'', jint_opt progress)] rd) (\<lambda>_.
       sreturn (rd_clock rd + usec (pc_default_lease_seconds cfg)))))"

text \<open>\<open>_verify_output\<close>: \<open>reported\<close> and \<open>effective\<close> are read with \<open>dict.get\<close>, compared with \<open>==\<close>.\<close>

definition matches :: "json \<Rightarrow> (string \<times> json) list \<Rightarrow> bool" where
  "matches j expected =
     (case j of
        JObj d \<Rightarrow> list_all (\<lambda>(k, v). py_eq (pget d k) v) expected
      | _ \<Rightarrow> False)"

definition expected_inputs :: "pool_config \<Rightarrow> job_record \<Rightarrow> string \<Rightarrow> (string \<times> json) list" where
  "expected_inputs cfg r recipe =
     (let defaults = svc_recipe_defaults cfg recipe in
      map (\<lambda>k. (k, case map_of (j_payload r) k of Some v \<Rightarrow> v | None \<Rightarrow> pget defaults k))
        (svc_recipe_attested_inputs cfg recipe (j_capability_id r)))"

definition verify_output ::
  "pool_config \<Rightarrow> asset_store \<Rightarrow> job_record \<Rightarrow> output_manifest \<Rightarrow> exn + unit"
where
  "verify_output cfg assets r m =
     (let rv = runtime_versions (j_requirements r) in
      ebind (ensure (unqualified_reason [j_capability_id r] rv (svc_unqualified cfg) = None)
        (CompletionRejected ''profile_not_qualified'')) (\<lambda>_.
      ebind
        (case svc_pinned_recipe rv of
           None \<Rightarrow> Inr ()
         | Some recipe \<Rightarrow>
             ebind (ensure (matches (pget (m_diagnostics m) ''runtime_versions'')
                              (map (\<lambda>(k, v). (k, JStr v)) rv))
               (CompletionRejected ''recipe_configuration_mismatch'')) (\<lambda>_.
             ensure (matches (pget (m_diagnostics m) ''effective_inputs'') (expected_inputs cfg r recipe))
               (CompletionRejected ''effective_inputs_mismatch''))) (\<lambda>_.
      ebind (ensure (m_output_key m = j_output_key r)
        (CompletionRejected ''output_key_mismatch'')) (\<lambda>_.
      ebind (ensure (m_idempotency_key m = j_idempotency_key r)
        (CompletionRejected ''idempotency_key_mismatch'')) (\<lambda>_.
      ebind (ensure (m_request_digest m = j_request_digest r)
        (CompletionRejected ''request_digest_mismatch'')) (\<lambda>_.
      ebind (ensure (m_publication_mode m = PUBLICATION_MODE_IMMUTABLE_CREATE_ONCE)
        (CompletionRejected ''publication_mode_mismatch'')) (\<lambda>_.
      case describe (j_output_key r) assets of
        None \<Rightarrow> Inl (CompletionRejected ''output_missing'')
      | Some d \<Rightarrow>
          ebind (ensure (ad_size d = m_byte_length m)
            (CompletionRejected ''byte_length_mismatch'')) (\<lambda>_.
          ebind (ensure (\<not> m_byte_length m > pc_max_verify_bytes cfg)
            (CompletionRejected ''output_too_large'')) (\<lambda>_.
          ebind (read_limited (j_output_key r) (pc_max_verify_bytes cfg) assets) (\<lambda>content.
          ensure (sha256_hex content = m_sha256 m)
            (CompletionRejected ''sha256_mismatch'')))))))))))"

definition completion_of :: "output_manifest \<Rightarrow> completion" where
  "completion_of m =
     \<lparr>c_content_type = m_content_type m, c_sha256 = m_sha256 m, c_byte_length = m_byte_length m,
      c_execution_metadata =
        [(''model_id'', JStr (m_model_id m)), (''model_version'', JStr (m_model_version m)),
         (''plugin_id'', JStr (m_plugin_id m)), (''plugin_version'', JStr (m_plugin_version m)),
         (''seed'', jint_opt (m_seed m)), (''diagnostics'', JObj (m_diagnostics m))]\<rparr>"

definition rejection :: "string \<Rightarrow> failure" where
  "rejection reason = \<lparr>f_reason = reason, f_failure_code = INVALID_INPUT, f_failure_message = None,
                       f_retryable = False\<rparr>"

definition svc_complete ::
  "pool_config \<Rightarrow> readings \<Rightarrow> worker_identity \<Rightarrow> string \<Rightarrow> string \<Rightarrow> output_manifest \<Rightarrow> unit operation"
where
  "svc_complete cfg rd i job_id token m =
     sbind (owned_job cfg i job_id) (\<lambda>r s.
     case verify_output cfg (ps_assets s) r m of
       Inl (CompletionRejected reason) \<Rightarrow>
         sbind (on_jobs (mem_fail (j_job_id r) token (rejection reason) (rd_store rd))) (\<lambda>_.
         sbind (audit COMPLETION_REJECTED (Some (id_worker_id i)) (Some (j_job_id r))
                  [(''reason'', JStr reason)] rd) (\<lambda>_.
         sraise (CompletionRejected reason))) s
     | Inl e \<Rightarrow> (Inl e, s)
     | Inr _ \<Rightarrow>
         sbind (on_jobs (mem_complete (j_job_id r) token (completion_of m) (rd_store rd))) (\<lambda>accepted.
         if \<not> accepted then sraise (StaleLease job_id)
         else
           audit JOB_COMPLETED (Some (id_worker_id i)) (Some (j_job_id r))
             [(''byte_length'', JInt (m_byte_length m)), (''sha256'', JStr (m_sha256 m)),
              (''plugin_id'', JStr (m_plugin_id m)), (''plugin_version'', JStr (m_plugin_version m))]
             rd) s)"

definition svc_fail ::
  "pool_config \<Rightarrow> readings \<Rightarrow> worker_identity \<Rightarrow> string \<Rightarrow> string \<Rightarrow> string \<Rightarrow> bool \<Rightarrow>
     job_failure_code \<Rightarrow> unit operation"
where
  "svc_fail cfg rd i job_id token reason retryable code =
     sbind (owned_job cfg i job_id) (\<lambda>r.
     sbind (on_jobs (mem_fail (j_job_id r) token
              \<lparr>f_reason = reason, f_failure_code = code, f_failure_message = None,
               f_retryable = retryable\<rparr> (rd_store rd))) (\<lambda>accepted.
     if \<not> accepted then sraise (StaleLease job_id)
     else
       audit JOB_FAILED (Some (id_worker_id i)) (Some (j_job_id r))
         [(''reason'', JStr (take MAX_AUDIT_REASON_LENGTH reason)),
          (''retryable'', JBool retryable), (''failure_code'', JStr (failure_code_str code))] rd))"

definition svc_release ::
  "pool_config \<Rightarrow> readings \<Rightarrow> worker_identity \<Rightarrow> string \<Rightarrow> string \<Rightarrow> string \<Rightarrow> unit operation"
where
  "svc_release cfg rd i job_id token reason =
     sbind (owned_job cfg i job_id) (\<lambda>r.
     if j_attempts r \<ge> j_attempt_budget r then
       sbind (on_jobs (mem_fail (j_job_id r) token
                \<lparr>f_reason = reason, f_failure_code = TEMPORARY_FAILURE, f_failure_message = None,
                 f_retryable = True\<rparr> (rd_store rd))) (\<lambda>accepted.
       if \<not> accepted then sraise (StaleLease job_id)
       else
         audit JOB_FAILED (Some (id_worker_id i)) (Some (j_job_id r))
           [(''reason'', JStr (take MAX_AUDIT_REASON_LENGTH reason)), (''retryable'', JBool True),
            (''failure_code'', JStr (failure_code_str TEMPORARY_FAILURE)),
            (''budget_exhausted'', JBool True)] rd)
     else
       sbind (on_jobs (mem_release (j_job_id r) token reason (rd_store rd))) (\<lambda>accepted.
       if \<not> accepted then sraise (StaleLease job_id)
       else
         audit JOB_RELEASED (Some (id_worker_id i)) (Some (j_job_id r))
           [(''reason'', JStr (take MAX_AUDIT_REASON_LENGTH reason))] rd))"

definition svc_capabilities_schema :: "pool_config \<Rightarrow> json" where
  "svc_capabilities_schema cfg = JObj [(''capabilities'', JObj (map (\<lambda>(c, sch). (c, JObj
     [(''contract_version'', JInt (cs_contract_version sch)),
      (''input_schema'', JObj (cs_input_schema sch))])) (pc_capability_schemas cfg)))]"

text \<open>The construction of a service.\<close>

definition new_service ::
  "job_table \<Rightarrow> asset_store \<Rightarrow> worker_table \<Rightarrow> audit_event list \<Rightarrow> (string, capability_schema) dict \<Rightarrow>
     ((string \<Rightarrow> string) \<times> (string \<Rightarrow> payload)) option \<Rightarrow> int \<Rightarrow> int \<Rightarrow> int \<Rightarrow> int \<Rightarrow> int \<Rightarrow>
     enrollments option \<Rightarrow> int \<Rightarrow> int \<Rightarrow> int \<Rightarrow> int \<Rightarrow> exn + pool_config \<times> pool_state"
where
  "new_service jobs assets workers events schemas profile_module per_worker_limit global_limit
     default_lease_seconds max_verify_bytes grant_ttl_seconds es pre_auth_limit per_source_limit
     auth_audit_limit max_auth_concurrency =
     ebind (new_limiter per_worker_limit 4096) (\<lambda>wl.
     ebind (new_limiter global_limit 4096) (\<lambda>gl.
     ebind (validate_enrollments es) (\<lambda>enrolled.
     ebind (new_limiter pre_auth_limit 1) (\<lambda>pl.
     ebind (new_limiter per_source_limit 4096) (\<lambda>sl.
     ebind (new_limiter auth_audit_limit 1) (\<lambda>al.
     ebind (ensure (\<not> max_auth_concurrency < 1)
       (ValueError ''authentication concurrency must be positive'')) (\<lambda>_.
     Inr (\<lparr>pc_default_lease_seconds = default_lease_seconds, pc_max_verify_bytes = max_verify_bytes,
           pc_grant_ttl_seconds = grant_ttl_seconds, pc_enrollments = enrolled,
           pc_max_auth_concurrency = nat max_auth_concurrency, pc_capability_schemas = schemas,
           pc_profile_module = profile_module\<rparr>,
          \<lparr>ps_jobs = jobs, ps_assets = assets, ps_workers = workers, ps_audit = events,
           ps_worker_limiter = wl, ps_global_limiter = gl, ps_pre_auth_limiter = pl,
           ps_source_limiter = sl, ps_auth_audit_limiter = al, ps_active_auth = 0\<rparr>))))))))"

end
