(* ===== verification/Agent.thy ===== *)
theory Agent
  imports Effects Service
begin

text \<open>
  The outbound worker agent, \<open>WorkerAgent\<close> of agent.py. Everything outside the agent (the
  coordinator, the transfer, the plugins, the disk, the stop event) is the record \<open>agent_env\<close>: each
  answer is a function of the calls made so far, newest first, the call being answered included. The
  state keeps that list, the busy job and the job's heartbeat task.
\<close>

section \<open>The world around the agent\<close>

text \<open>Exceptions as the agent's handlers tell them apart, with the class name (\<open>type(exc).__name__\<close>)
  or the message: the subclasses of \<open>httpx.HTTPError\<close>, \<open>PluginRequestRejected\<close>, everything else.\<close>

datatype agent_exn = HTTPError string | PluginRejected string | OtherError string

fun exn_name :: "agent_exn \<Rightarrow> string" where
  "exn_name (HTTPError n) = n"
| "exn_name (PluginRejected _) = ''PluginRequestRejected''"
| "exn_name (OtherError n) = n"

record http_response =
  hr_status :: int
  hr_json :: "agent_exn + json"

datatype call =
    Credential
  | SampleGpus
  | IsStopped
  | Random
  | Sleep rat
  | Post string string json
  | Mkdir path
  | Rmtree path
  | Download string path int
  | ReadFile path
  | Upload string path string
  | Execute path "(string, path) dict" validated_request int

record agent_env =
  ev_credential :: "call list \<Rightarrow> agent_exn + string"
  ev_sample :: "call list \<Rightarrow> agent_exn + gpu_telemetry list"
  ev_stopped :: "call list \<Rightarrow> bool"
  ev_random :: "call list \<Rightarrow> rat"
  ev_post :: "call list \<Rightarrow> agent_exn + http_response"
  ev_mkdir :: "call list \<Rightarrow> agent_exn + unit"
  ev_download :: "call list \<Rightarrow> agent_exn + int"
  ev_read :: "call list \<Rightarrow> agent_exn + bytes"
  ev_upload :: "call list \<Rightarrow> agent_exn + unit"
  ev_execute :: "call list \<Rightarrow> agent_exn + path plugin_output"
  ev_beats :: "call list \<Rightarrow> nat"
  ev_progress :: "call list \<Rightarrow> int"
  ev_fromiso :: "string \<Rightarrow> time option"

text \<open>The agent's configuration. A plugin is the number of its position; \<open>ac_validate\<close> is \<open>validate\<close>
  of each.\<close>

record agent =
  ac_coordinator_url :: string
  ac_worker_id :: string
  ac_plugins :: "(string, nat) dict"
  ac_capabilities :: "(string, worker_capability) dict"
  ac_validate :: "nat \<Rightarrow> lease_grant \<Rightarrow> agent_exn + validated_request"
  ac_workspace_root :: path
  ac_max_input_bytes :: int
  ac_min_poll_seconds :: rat
  ac_max_poll_seconds :: rat
  ac_lease_seconds :: int
  ac_tenant_id :: "string option"
  ac_gpu_model :: "string option"
  ac_vram_mb :: "int option"
  ac_runtime_versions :: "(string, string) dict"

text \<open>The task of \<open>_job_heartbeats\<close>: absent, running (next is the presence heartbeat, or the job's),
  or ended by an exception.\<close>

datatype beat_task = No_task | Beating bool | Broken agent_exn

record agent_state =
  ag_busy_job_id :: "string option"
  ag_task :: beat_task
  ag_stop :: bool
  ag_log :: "call list"

type_synonym 'a act = "agent_state \<Rightarrow> (agent_exn + 'a) \<times> agent_state"

definition areturn :: "'a \<Rightarrow> 'a act" where
  "areturn a s = (Inr a, s)"

definition araise :: "agent_exn \<Rightarrow> 'a act" where
  "araise e s = (Inl e, s)"

definition abind :: "'a act \<Rightarrow> ('a \<Rightarrow> 'b act) \<Rightarrow> 'b act" where
  "abind m f s = (case m s of (Inl e, s') \<Rightarrow> (Inl e, s') | (Inr a, s') \<Rightarrow> f a s')"

definition acatch :: "'a act \<Rightarrow> (agent_exn \<Rightarrow> 'a act) \<Rightarrow> 'a act" where
  "acatch m h s = (case m s of (Inl e, s') \<Rightarrow> h e s' | (Inr a, s') \<Rightarrow> (Inr a, s'))"

definition ask :: "call \<Rightarrow> (call list \<Rightarrow> agent_exn + 'a) \<Rightarrow> 'a act" where
  "ask c answer s = (answer (c # ag_log s), s\<lparr>ag_log := c # ag_log s\<rparr>)"

definition new_agent ::
  "string \<Rightarrow> string \<Rightarrow> capability_manifest list \<Rightarrow> (nat \<Rightarrow> lease_grant \<Rightarrow> agent_exn + validated_request) \<Rightarrow>
     path \<Rightarrow> int \<Rightarrow> int \<Rightarrow> rat \<Rightarrow> rat \<Rightarrow> int \<Rightarrow> string option \<Rightarrow> string option \<Rightarrow> int option \<Rightarrow>
     (string, string) dict \<Rightarrow> exn + agent"
where
  "new_agent url worker_id plugins validate wsroot concurrency max_input_bytes min_poll max_poll
     lease_seconds tenant gpu_model vram versions =
     (if plugins = [] then Inl (ValueError ''a worker must serve at least one plugin'')
      else
        let owned = concat (map (\<lambda>(p, m). map (\<lambda>c. (wc_capability_id c, p,
              \<lparr>wc_capability_id = wc_capability_id c, wc_plugin_id = cm_plugin_id m,
               wc_plugin_version = cm_plugin_version m, wc_concurrency = concurrency\<rparr>))
              (cm_capabilities m)) (enumerate 0 plugins))
        in Inr \<lparr>ac_coordinator_url = rstrip_char (CHR ''/'') url, ac_worker_id = worker_id,
             ac_plugins = fold (\<lambda>(k, p, _) d. AList.update k p d) owned [],
             ac_capabilities = fold (\<lambda>(k, _, c) d. AList.update k c d) owned [],
             ac_validate = validate, ac_workspace_root = wsroot, ac_max_input_bytes = max_input_bytes,
             ac_min_poll_seconds = min_poll, ac_max_poll_seconds = max_poll,
             ac_lease_seconds = lease_seconds, ac_tenant_id = tenant, ac_gpu_model = gpu_model,
             ac_vram_mb = vram, ac_runtime_versions = versions\<rparr>)"

section \<open>The signed-URL transfer\<close>

text \<open>\<open>HttpAssetTransfer\<close>: the answer's status and the chunks of its body; the bytes in the
  destination file, if it was opened, are kept when the transfer raises.\<close>

fun write_chunks :: "int option \<Rightarrow> bytes list \<Rightarrow> bytes \<Rightarrow> (agent_exn + int) \<times> bytes" where
  "write_chunks max_bytes [] handle = (Inr (int (length handle)), handle)"
| "write_chunks max_bytes (chunk # chunks) handle =
     (if (case max_bytes of None \<Rightarrow> False | Some m \<Rightarrow> int (length handle) + int (length chunk) > m)
      then (Inl (OtherError ''TransferError''), handle)
      else write_chunks max_bytes chunks (handle @ chunk))"

definition http_download ::
  "int option \<Rightarrow> int \<Rightarrow> bytes list \<Rightarrow> (agent_exn + int) \<times> bytes option"
where
  "http_download max_bytes status chunks =
     (if status div 100 \<noteq> 2 then (Inl (OtherError ''TransferError''), None)
      else let (r, content) = write_chunks max_bytes chunks [] in (r, Some content))"

definition CREATE_ONCE_CONFLICT_STATUS :: int where "CREATE_ONCE_CONFLICT_STATUS = 412"

definition http_upload :: "int \<Rightarrow> agent_exn + unit" where
  "http_upload status =
     (if status = CREATE_ONCE_CONFLICT_STATUS then Inr ()
      else if status div 100 \<noteq> 2 then Inl (OtherError ''TransferError'') else Inr ())"

section \<open>Bodies of the requests\<close>

definition jstr_opt :: "string option \<Rightarrow> json" where
  "jstr_opt x = (case x of None \<Rightarrow> JNull | Some s \<Rightarrow> JStr s)"

definition gpu_telemetry_json :: "gpu_telemetry \<Rightarrow> json" where
  "gpu_telemetry_json g = JObj
     [(''index'', JInt (gt_index g)), (''name'', JStr (gt_name g)),
      (''utilization_pct'', jint_opt (gt_utilization_pct g)),
      (''memory_used_mb'', jint_opt (gt_memory_used_mb g)),
      (''memory_total_mb'', jint_opt (gt_memory_total_mb g))]"

definition capability_body :: "worker_capability \<Rightarrow> json" where
  "capability_body c = JObj
     [(''capability_id'', JStr (wc_capability_id c)), (''plugin_id'', JStr (wc_plugin_id c)),
      (''plugin_version'', JStr (wc_plugin_version c)), (''concurrency'', JInt (wc_concurrency c))]"

definition heartbeat_body :: "agent \<Rightarrow> bool \<Rightarrow> gpu_telemetry list \<Rightarrow> string option \<Rightarrow> json" where
  "heartbeat_body cfg draining gpus busy = JObj
     [(''worker_id'', JStr (ac_worker_id cfg)),
      (''capabilities'', JArr (map capability_body (dvalues (ac_capabilities cfg)))),
      (''tenant_id'', jstr_opt (ac_tenant_id cfg)), (''gpu_model'', jstr_opt (ac_gpu_model cfg)),
      (''vram_mb'', jint_opt (ac_vram_mb cfg)),
      (''runtime_versions'', JObj (map (\<lambda>(k, v). (k, JStr v)) (ac_runtime_versions cfg))),
      (''draining'', JBool draining), (''gpus'', JArr (map gpu_telemetry_json gpus)),
      (''busy_job_id'', jstr_opt busy)]"

definition lease_body :: "agent \<Rightarrow> json" where
  "lease_body cfg = JObj
     [(''capability_ids'', JArr (map JStr (keys (ac_capabilities cfg)))),
      (''lease_seconds'', JInt (ac_lease_seconds cfg))]"

definition beat_body :: "lease_grant \<Rightarrow> int \<Rightarrow> json" where
  "beat_body lease percent = JObj
     [(''claim_token'', JStr (lg_claim_token lease)), (''progress_percent'', JInt percent)]"

definition fail_body :: "lease_grant \<Rightarrow> string \<Rightarrow> bool \<Rightarrow> job_failure_code \<Rightarrow> json" where
  "fail_body lease reason retryable code = JObj
     [(''claim_token'', JStr (lg_claim_token lease)),
      (''reason'', JStr (take MAX_AUDIT_REASON_LENGTH reason)), (''retryable'', JBool retryable),
      (''failure_code'', JStr (failure_code_str code))]"

definition release_body :: "lease_grant \<Rightarrow> string \<Rightarrow> json" where
  "release_body lease reason = JObj
     [(''claim_token'', JStr (lg_claim_token lease)),
      (''reason'', JStr (take MAX_AUDIT_REASON_LENGTH reason))]"

definition complete_body ::
  "lease_grant \<Rightarrow> worker_capability \<Rightarrow> path plugin_output \<Rightarrow> bytes \<Rightarrow> json"
where
  "complete_body lease capability out content = JObj
     [(''claim_token'', JStr (lg_claim_token lease)),
      (''manifest'', JObj
        [(''output_key'', JStr (lg_output_key lease)),
         (''content_type'', JStr (po_content_type out)),
         (''byte_length'', JInt (int (length content))), (''sha256'', JStr (sha256_hex content)),
         (''idempotency_key'', JStr (lg_idempotency_key lease)),
         (''request_digest'', JStr (lg_request_digest lease)),
         (''plugin_id'', JStr (wc_plugin_id capability)),
         (''plugin_version'', JStr (wc_plugin_version capability)),
         (''model_id'', JStr (po_model_id out)), (''model_version'', JStr (po_model_version out)),
         (''publication_mode'', JStr PUBLICATION_MODE_IMMUTABLE_CREATE_ONCE),
         (''seed'', jint_opt (po_seed out)), (''diagnostics'', JObj (po_diagnostics out))])]"

text \<open>\<open>_lease_grant\<close> and \<open>_asset_grant\<close>: a missing key raises KeyError, a time that does not parse
  ValueError. A field of another JSON type than the coordinator's response model has is refused here,
  where the code would fail at its first use.\<close>

definition field_of :: "payload \<Rightarrow> string \<Rightarrow> (json \<Rightarrow> 'a option) \<Rightarrow> agent_exn + 'a" where
  "field_of d k p =
     (case map_of d k of
        None \<Rightarrow> Inl (OtherError ''KeyError'')
      | Some v \<Rightarrow> (case p v of None \<Rightarrow> Inl (OtherError ''TypeError'') | Some x \<Rightarrow> Inr x))"

fun as_str :: "json \<Rightarrow> string option" where
  "as_str (JStr s) = Some s" | "as_str _ = None"

fun as_str_opt :: "json \<Rightarrow> string option option" where
  "as_str_opt JNull = Some None" | "as_str_opt (JStr s) = Some (Some s)" | "as_str_opt _ = None"

fun as_int :: "json \<Rightarrow> int option" where
  "as_int (JInt n) = Some n" | "as_int _ = None"

fun as_obj :: "json \<Rightarrow> payload option" where
  "as_obj (JObj d) = Some d" | "as_obj _ = None"

fun as_list :: "json \<Rightarrow> json list option" where
  "as_list (JArr vs) = Some vs" | "as_list _ = None"

definition time_field :: "(string \<Rightarrow> time option) \<Rightarrow> payload \<Rightarrow> string \<Rightarrow> agent_exn + time" where
  "time_field fromiso d k =
     ebind (field_of d k as_str) (\<lambda>s.
     case fromiso s of None \<Rightarrow> Inl (OtherError ''ValueError'') | Some t \<Rightarrow> Inr t)"

definition asset_grant_of :: "(string \<Rightarrow> time option) \<Rightarrow> json \<Rightarrow> agent_exn + asset_grant" where
  "asset_grant_of fromiso v =
     (case as_obj v of
        None \<Rightarrow> Inl (OtherError ''TypeError'')
      | Some d \<Rightarrow>
          ebind (field_of d ''key'' as_str) (\<lambda>key.
          ebind (field_of d ''url'' as_str) (\<lambda>url.
          ebind (field_of d ''method'' as_str) (\<lambda>method.
          ebind (time_field fromiso d ''expires_at'') (\<lambda>expires.
          ebind (field_of d ''content_type'' as_str_opt) (\<lambda>content_type.
          Inr \<lparr>ag_key = key, ag_url = url, ag_method = method, ag_expires_at = expires,
                ag_content_type = content_type\<rparr>))))))"

definition lease_grant_from :: "(string \<Rightarrow> time option) \<Rightarrow> json \<Rightarrow> agent_exn + lease_grant" where
  "lease_grant_from fromiso v =
     (case as_obj v of
        None \<Rightarrow> Inl (OtherError ''TypeError'')
      | Some d \<Rightarrow>
          ebind (field_of d ''job_id'' as_str) (\<lambda>job_id.
          ebind (field_of d ''claim_token'' as_str) (\<lambda>token.
          ebind (time_field fromiso d ''lease_until'') (\<lambda>lease_until.
          ebind (field_of d ''execution_deadline_seconds'' as_int) (\<lambda>deadline.
          ebind (field_of d ''capability_id'' as_str) (\<lambda>capability.
          ebind (field_of d ''contract_version'' as_int) (\<lambda>version.
          ebind (field_of d ''request_digest'' as_str) (\<lambda>digest.
          ebind (field_of d ''idempotency_key'' as_str) (\<lambda>key.
          ebind (field_of d ''input_keys'' (\<lambda>v. Option.bind (as_list v) (\<lambda>vs. those (map as_str vs))))
            (\<lambda>input_keys.
          ebind (field_of d ''output_key'' as_str) (\<lambda>output_key.
          ebind (field_of d ''payload'' as_obj) (\<lambda>payload.
          ebind (field_of d ''input_grants'' as_list) (\<lambda>gs.
          ebind (map_result (asset_grant_of fromiso) gs) (\<lambda>input_grants.
          ebind (field_of d ''output_grant'' Some) (\<lambda>og.
          ebind (asset_grant_of fromiso og) (\<lambda>output_grant.
          Inr \<lparr>lg_job_id = job_id, lg_claim_token = token, lg_lease_until = lease_until,
                lg_execution_deadline_seconds = deadline, lg_capability_id = capability,
                lg_contract_version = version, lg_request_digest = digest,
                lg_idempotency_key = key, lg_input_keys = input_keys, lg_output_key = output_key,
                lg_payload = payload, lg_input_grants = input_grants,
                lg_output_grant = output_grant, lg_tenant_id = None\<rparr>))))))))))))))))"

section \<open>The heartbeats\<close>

definition route_url :: "agent \<Rightarrow> string \<Rightarrow> string" where
  "route_url cfg p = ac_coordinator_url cfg @ p"

definition job_url :: "agent \<Rightarrow> lease_grant \<Rightarrow> string \<Rightarrow> string" where
  "job_url cfg lease what = route_url cfg (''/worker/v1/jobs/'' @ lg_job_id lease @ what)"

definition auth_header :: "agent_env \<Rightarrow> string act" where
  "auth_header env = abind (ask Credential (ev_credential env)) (\<lambda>c. areturn (''Bearer '' @ c))"

definition http_post :: "agent_env \<Rightarrow> string \<Rightarrow> json \<Rightarrow> http_response act" where
  "http_post env url body =
     abind (auth_header env) (\<lambda>h. ask (Post url h body) (ev_post env))"

definition raise_for_status :: "http_response \<Rightarrow> unit act" where
  "raise_for_status r =
     (if 200 \<le> hr_status r \<and> hr_status r < 300 then areturn () else araise (HTTPError ''HTTPStatusError''))"

definition sample_gpus :: "agent_env \<Rightarrow> gpu_telemetry list act" where
  "sample_gpus env = acatch (ask SampleGpus (ev_sample env)) (\<lambda>_. areturn [])"

definition heartbeat :: "agent_env \<Rightarrow> agent \<Rightarrow> bool \<Rightarrow> unit act" where
  "heartbeat env cfg draining =
     abind (sample_gpus env) (\<lambda>gpus s.
     abind (http_post env (route_url cfg ''/worker/v1/heartbeat'')
              (heartbeat_body cfg draining gpus (ag_busy_job_id s))) raise_for_status s)"

text \<open>\<open>_job_heartbeats\<close>, one exchange at a time: the job's heartbeat, then the presence heartbeat, and
  again; an \<open>httpx.HTTPError\<close> is logged, any other exception ends the task.\<close>

definition beat_exchange :: "agent_env \<Rightarrow> agent \<Rightarrow> lease_grant \<Rightarrow> bool \<Rightarrow> unit act" where
  "beat_exchange env cfg lease presence =
     acatch
       (if presence then heartbeat env cfg False
        else (\<lambda>s. abind (http_post env (job_url cfg lease ''/heartbeat'')
                           (beat_body lease (ev_progress env (ag_log s)))) (\<lambda>_. areturn ()) s))
       (\<lambda>e. case e of HTTPError _ \<Rightarrow> areturn () | _ \<Rightarrow> araise e)"

definition beat_step :: "agent_env \<Rightarrow> agent \<Rightarrow> lease_grant \<Rightarrow> agent_state \<Rightarrow> agent_state" where
  "beat_step env cfg lease s =
     (case ag_task s of
        Beating presence \<Rightarrow>
          (case beat_exchange env cfg lease presence s of
             (Inl e, s') \<Rightarrow> s'\<lparr>ag_task := Broken e\<rparr>
           | (Inr _, s') \<Rightarrow> s'\<lparr>ag_task := Beating (\<not> presence)\<rparr>)
      | _ \<Rightarrow> s)"

text \<open>What the task does while the agent awaits something: some number of exchanges.\<close>

definition beats :: "agent_env \<Rightarrow> agent \<Rightarrow> lease_grant \<Rightarrow> unit act" where
  "beats env cfg lease s = (Inr (), (beat_step env cfg lease ^^ ev_beats env (ag_log s)) s)"

text \<open>An await: the task's exchanges before the awaited call takes effect, the call, and the exchanges
  before its answer is seen.\<close>

definition await :: "agent_env \<Rightarrow> agent \<Rightarrow> lease_grant \<Rightarrow> 'a act \<Rightarrow> 'a act" where
  "await env cfg lease m s =
     (let (_, s1) = beats env cfg lease s;
          (r, s2) = m s1;
          (_, s3) = beats env cfg lease s2
      in (r, s3))"

section \<open>Serving a lease\<close>

datatype agent_outcome = A_IDLE | A_COMPLETED | A_FAILED | A_RELEASED | A_REJECTED

definition agent_fail ::
  "agent_env \<Rightarrow> agent \<Rightarrow> lease_grant \<Rightarrow> string \<Rightarrow> bool \<Rightarrow> job_failure_code \<Rightarrow> unit act"
where
  "agent_fail env cfg lease reason retryable code =
     abind (await env cfg lease
       (http_post env (job_url cfg lease ''/fail'') (fail_body lease reason retryable code)))
       (\<lambda>_. areturn ())"

definition agent_reject :: "agent_env \<Rightarrow> agent \<Rightarrow> lease_grant \<Rightarrow> string \<Rightarrow> agent_outcome act" where
  "agent_reject env cfg lease reason =
     abind (agent_fail env cfg lease reason False UNSUPPORTED_OPERATION) (\<lambda>_. areturn A_REJECTED)"

definition DRAIN_RELEASE_REASON :: string where "DRAIN_RELEASE_REASON = ''draining''"

definition agent_release :: "agent_env \<Rightarrow> agent \<Rightarrow> lease_grant \<Rightarrow> string \<Rightarrow> agent_outcome act" where
  "agent_release env cfg lease reason =
     abind (await env cfg lease
       (http_post env (job_url cfg lease ''/release'') (release_body lease reason)))
       (\<lambda>_. areturn A_RELEASED)"

definition INPUTS_DIRECTORY :: string where "INPUTS_DIRECTORY = ''inputs''"

fun download_loop ::
  "agent_env \<Rightarrow> agent \<Rightarrow> path \<Rightarrow> asset_grant list \<Rightarrow> (string, path) dict \<Rightarrow> (string, path) dict act"
where
  "download_loop env cfg inputs [] paths = areturn paths"
| "download_loop env cfg inputs (g # gs) paths =
     (let destination = path_join inputs (path_name (path_of (ag_key g))) in
      abind (ask (Download (ag_url g) destination (ac_max_input_bytes cfg)) (ev_download env)) (\<lambda>written.
      if written > ac_max_input_bytes cfg then araise (OtherError ''TransferError'')
      else download_loop env cfg inputs gs (AList.update (ag_key g) destination paths)))"

definition download_inputs ::
  "agent_env \<Rightarrow> agent \<Rightarrow> lease_grant \<Rightarrow> path \<Rightarrow> (string, path) dict act"
where
  "download_inputs env cfg lease workspace =
     abind (ask (Rmtree workspace) (\<lambda>_. Inr ())) (\<lambda>_.
     let inputs = path_join workspace INPUTS_DIRECTORY in
     abind (ask (Mkdir inputs) (ev_mkdir env)) (\<lambda>_.
     download_loop env cfg inputs (lg_input_grants lease) []))"

text \<open>\<open>response.json().get("detail")\<close>, read for the log: a body that is no object has no \<open>get\<close>.\<close>

definition completion_reason :: "http_response \<Rightarrow> unit act" where
  "completion_reason r =
     (case hr_json r of
        Inl e \<Rightarrow> araise e
      | Inr (JObj _) \<Rightarrow> areturn ()
      | Inr _ \<Rightarrow> araise (OtherError ''AttributeError''))"

definition publish ::
  "agent_env \<Rightarrow> agent \<Rightarrow> lease_grant \<Rightarrow> path plugin_output \<Rightarrow> agent_outcome act"
where
  "publish env cfg lease out =
     abind (ask (ReadFile (po_path out)) (ev_read env)) (\<lambda>content.
     abind (await env cfg lease (ask
       (Upload (ag_url (lg_output_grant lease)) (po_path out)
         (case ag_content_type (lg_output_grant lease) of
            Some c \<Rightarrow> if c \<noteq> [] then c else po_content_type out | None \<Rightarrow> po_content_type out))
       (ev_upload env))) (\<lambda>_.
     case map_of (ac_capabilities cfg) (lg_capability_id lease) of
       None \<Rightarrow> araise (OtherError ''KeyError'')
     | Some capability \<Rightarrow>
         abind (await env cfg lease
           (http_post env (job_url cfg lease ''/complete'') (complete_body lease capability out content)))
           (\<lambda>r.
         if hr_status r = 409 \<or> hr_status r = 422
         then abind (completion_reason r) (\<lambda>_. areturn A_FAILED)
         else abind (raise_for_status r) (\<lambda>_. areturn A_COMPLETED))))"

text \<open>The body of the inner \<open>try\<close>, its two handlers, and the \<open>finally\<close>.\<close>

definition work ::
  "agent_env \<Rightarrow> agent \<Rightarrow> lease_grant \<Rightarrow> validated_request \<Rightarrow> path \<Rightarrow> agent_outcome act"
where
  "work env cfg lease req workspace =
     abind (download_inputs env cfg lease workspace) (\<lambda>input_paths s.
     abind (await env cfg lease (ask
         (Execute workspace input_paths req (lg_execution_deadline_seconds lease)) (ev_execute env)))
       (publish env cfg lease) (s\<lparr>ag_task := Beating False\<rparr>))"

definition handled_work ::
  "agent_env \<Rightarrow> agent \<Rightarrow> lease_grant \<Rightarrow> validated_request \<Rightarrow> path \<Rightarrow> agent_outcome act"
where
  "handled_work env cfg lease req workspace =
     acatch (work env cfg lease req workspace) (\<lambda>e.
       case e of
         PluginRejected m \<Rightarrow> agent_reject env cfg lease m
       | _ \<Rightarrow> agent_release env cfg lease (exn_name e))"

definition cleanup :: "path \<Rightarrow> (agent_exn + agent_outcome) \<times> agent_state \<Rightarrow>
    (agent_exn + agent_outcome) \<times> agent_state" where
  "cleanup workspace rs =
     (let (r, s) = rs; s' = s\<lparr>ag_busy_job_id := None, ag_task := No_task\<rparr> in
      case ag_task s of
        Broken e \<Rightarrow> (Inl e, s')
      | _ \<Rightarrow> (r, s'\<lparr>ag_log := Rmtree workspace # ag_log s'\<rparr>))"

definition serve :: "agent_env \<Rightarrow> agent \<Rightarrow> lease_grant \<Rightarrow> agent_outcome act" where
  "serve env cfg lease =
     (case map_of (ac_plugins cfg) (lg_capability_id lease) of
        None \<Rightarrow> agent_reject env cfg lease ''capability is not served by this worker''
      | Some p \<Rightarrow>
          (case ac_validate cfg p lease of
             Inl (PluginRejected m) \<Rightarrow> agent_reject env cfg lease m
           | Inl e \<Rightarrow> araise e
           | Inr req \<Rightarrow> (\<lambda>s.
               abind (if ag_stop s then ask IsStopped (\<lambda>log. Inr (ev_stopped env log)) else areturn False)
                 (\<lambda>stopped s.
               if stopped then agent_release env cfg lease DRAIN_RELEASE_REASON s
               else
                 let workspace = path_join (ac_workspace_root cfg) (lg_job_id lease) in
                 cleanup workspace
                   (handled_work env cfg lease req workspace (s\<lparr>ag_busy_job_id := Some (lg_job_id lease)\<rparr>)))
               s)))"

section \<open>The loop\<close>

definition run_once :: "agent_env \<Rightarrow> agent \<Rightarrow> agent_outcome act" where
  "run_once env cfg =
     abind (heartbeat env cfg False) (\<lambda>_.
     abind (http_post env (route_url cfg ''/worker/v1/lease'') (lease_body cfg)) (\<lambda>r.
     if hr_status r = 204 then areturn A_IDLE
     else
       abind (raise_for_status r) (\<lambda>_.
       case hr_json r of
         Inl e \<Rightarrow> araise e
       | Inr j \<Rightarrow>
           (case lease_grant_from (ev_fromiso env) j of
              Inl e \<Rightarrow> araise e
            | Inr lease \<Rightarrow> serve env cfg lease))))"

text \<open>\<open>min(x, y)\<close> of the poll delays, and one turn of the \<open>while\<close> loop: the new backoff.\<close>

definition run_turn :: "agent_env \<Rightarrow> agent \<Rightarrow> rat \<Rightarrow> rat act" where
  "run_turn env cfg backoff =
     abind (acatch (run_once env cfg) (\<lambda>e. case e of HTTPError _ \<Rightarrow> areturn A_IDLE | _ \<Rightarrow> araise e))
       (\<lambda>outcome.
     if outcome \<noteq> A_IDLE then areturn (ac_min_poll_seconds cfg)
     else
       abind (ask Random (\<lambda>log. Inr (ev_random env log))) (\<lambda>x.
       abind (ask (Sleep (min (ac_max_poll_seconds cfg) backoff * x)) (\<lambda>_. Inr ())) (\<lambda>_.
       areturn (min (ac_max_poll_seconds cfg) (backoff * 2)))))"

text \<open>\<open>run_forever\<close> with the number of turns it may take; \<open>None\<close> when they are used up.\<close>

fun run_loop :: "nat \<Rightarrow> agent_env \<Rightarrow> agent \<Rightarrow> rat \<Rightarrow> agent_state \<Rightarrow> ((agent_exn + unit) \<times> agent_state) option"
where
  "run_loop n env cfg backoff s =
     (let s1 = s\<lparr>ag_log := IsStopped # ag_log s\<rparr> in
      if ev_stopped env (ag_log s1)
      then Some (acatch (heartbeat env cfg True)
                  (\<lambda>e. case e of HTTPError _ \<Rightarrow> areturn () | _ \<Rightarrow> araise e) s1)
      else
        (case n of
           0 \<Rightarrow> None
         | Suc m \<Rightarrow>
             (case run_turn env cfg backoff s1 of
                (Inl e, s') \<Rightarrow> Some (Inl e, s')
              | (Inr b, s') \<Rightarrow> run_loop m env cfg b s')))"

declare run_loop.simps [simp del]

definition run_forever ::
  "nat \<Rightarrow> agent_env \<Rightarrow> agent \<Rightarrow> agent_state \<Rightarrow> ((agent_exn + unit) \<times> agent_state) option"
where
  "run_forever n env cfg s =
     map_option (\<lambda>(r, s'). (r, s'\<lparr>ag_stop := False\<rparr>))
       (run_loop n env cfg (ac_min_poll_seconds cfg) (s\<lparr>ag_stop := True\<rparr>))"

end
