(* ===== verification/MemoryProps.thy ===== *)
theory MemoryProps
  imports MemoryStore
begin

text \<open>
  The correctness properties of the in-memory job store: the facts of the \<open>job_store\<close> contract
  read off its interpretation \<open>mem\<close>, and what is specific to this store (the choice a lease makes,
  the effect of \<open>expire_exhausted\<close>, the counters of \<open>queue_depth\<close>, replays of a submission).
\<close>

section \<open>Concrete jobs for the witnesses\<close>

definition demo_submission :: "string \<Rightarrow> string \<Rightarrow> int \<Rightarrow> job_submission" where
  "demo_submission job key priority =
     \<lparr>s_job_id = job, s_idempotency_key = key, s_capability_id = ''test.v1'', s_input_keys = [],
      s_output_key = ''outputs/o'', s_contract_version = 1, s_payload = [(''n'', JInt 1)],
      s_tenant_id = None, s_requirements = no_requirements, s_priority = priority,
      s_attempt_budget = 1, s_execution_deadline_seconds = 60\<rparr>"

definition demo_query :: "string \<Rightarrow> lease_query" where
  "demo_query worker =
     \<lparr>q_worker_id = worker, q_capability_ids = [''test.v1''], q_lease_seconds = 30,
      q_tenant_id = None, q_vram_mb = None, q_gpu_model = None, q_labels = [],
      q_runtime_versions = []\<rparr>"

definition demo_completion :: completion where
  "demo_completion = \<lparr>c_content_type = ''text/plain'', c_sha256 = ''00'', c_byte_length = 1,
                      c_execution_metadata = []\<rparr>"

definition demo_failure :: failure where
  "demo_failure = \<lparr>f_reason = ''boom'', f_failure_code = TEMPORARY_FAILURE,
                   f_failure_message = None, f_retryable = True\<rparr>"

definition demo_record :: "string \<Rightarrow> string \<Rightarrow> int \<Rightarrow> time \<Rightarrow> job_record" where
  "demo_record job key priority now =
     new_record (demo_submission job key priority) now (digest_of (demo_submission job key priority))"

lemma demo_capability: "validate_capability_id ''test.v1'' = Inr ''test.v1''"
  by code_simp

lemma demo_payload: "length (encode (enc (JObj [(''n'', JInt 1)]))) = 7"
  by code_simp

lemma demo_submission_ok:
  "job \<noteq> [] \<Longrightarrow> key \<noteq> [] \<Longrightarrow> length job \<le> 255 \<Longrightarrow> length key \<le> 255 \<Longrightarrow>
     0 \<le> p \<Longrightarrow> p \<le> 1000 \<Longrightarrow> submission_ok (demo_submission job key p)"
  by (simp add: submission_ok_def demo_submission_def contract_bounds requirements_ok_def
      no_requirements_def demo_capability demo_payload del: enc.simps)

lemma demo_mem_ok:
  "mem_ok [(''a'', demo_record ''a'' ''ka'' 1 0), (''b'', demo_record ''b'' ''kb'' 0 0)]"
  unfolding mem_ok_def
  by (simp add: demo_record_def stored_ok_new demo_submission_ok)
    (simp add: new_record_def demo_submission_def)

section \<open>Invariant and life cycle\<close>

lemma mem_ok_Nil [simp]: "mem_ok []"
  by (simp add: mem_ok_def)

text \<open>Claim C5: after any sequence of store operations on an empty store the table has one entry
  per job under the job's own id, idempotency keys are unique, and every row is well formed: a
  claim token, a holder and a lease deadline exactly while processing, a failure code exactly when
  failed, an output digest and executor exactly when completed, attempts between 0 and the budget,
  an admissible request and the digest of that request.\<close>

theorem mem_reachable_ok: "mem_ok (run_ops mem_step ops [])"
  by (rule mem.good_run) simp

text \<open>Completed, failed and cancelled are final: whatever operations follow, short of a
  new submission under the same job id, the row is unchanged.\<close>

theorem mem_terminal_absorbing:
  assumes "mem_ok s" "proper_run fresh_submit mem_step ops s" "map_of s k = Some r" "is_terminal r"
  shows "map_of (run_ops mem_step ops s) k = Some r"
  using assms by (rule mem.terminal_absorbing)

lemma demo_done_ok:
  "mem_ok [(''a'', cancelled_record (demo_record ''a'' ''ka'' 1 0) 5)]"
proof -
  have "stored_ok (demo_record ''a'' ''ka'' 1 0)"
    by (simp add: demo_record_def stored_ok_new demo_submission_ok)
  then have "stored_ok (cancelled_record (demo_record ''a'' ''ka'' 1 0) 5)"
    by (simp add: stored_ok_def record_ok_effects) (simp add: is_live_def demo_record_def new_record_def
        record_ok_effects)
  then show ?thesis
    unfolding mem_ok_def
    by (simp, simp add: demo_record_def new_record_def demo_submission_def cancelled_record_def)
qed

theorem mem_terminal_absorbing_witness:
  "map_of (run_ops mem_step [Cancel ''a'' 9, Lease (demo_query ''w'') 9 ''t'']
             [(''a'', cancelled_record (demo_record ''a'' ''ka'' 1 0) 5)]) ''a'' =
     Some (cancelled_record (demo_record ''a'' ''ka'' 1 0) 5)"
  by (rule mem_terminal_absorbing [OF demo_done_ok])
    (simp_all add: is_terminal_def cancelled_record_def)

text \<open>Claim C4: fencing. Once a token is not the current claim of a job, and no later lease is
  handed the same token, every heartbeat, completion, failure or release presenting it returns
  \<open>False\<close> and leaves the whole table as it is, however the job moved in between.\<close>

theorem mem_stale_token_refused:
  assumes "mem_ok s" "proper_run fresh_submit mem_step ops s"
    "list_all (\<lambda>op. \<not> leases_with t op) ops"
    "\<And>r. map_of s k = Some r \<Longrightarrow> \<not> holds_claim r t" "claim_of op = Some (k, t)"
  shows "\<not> mem_reply op (run_ops mem_step ops s) \<and>
         mem_step op (run_ops mem_step ops s) = run_ops mem_step ops s"
proof -
  have "fresh_submit op (run_ops mem_step ops s)"
    using assms(5) by (cases op) simp_all
  with mem.stale_refused [OF assms] show ?thesis by blast
qed

theorem mem_stale_token_refused_witness:
  "\<not> mem_reply (Complete ''a'' ''old'' demo_completion 9)
       (run_ops mem_step [Lease (demo_query ''w'') 3 ''new'']
         [(''a'', demo_record ''a'' ''ka'' 1 0), (''b'', demo_record ''b'' ''kb'' 0 0)])"
proof (rule conjunct1 [OF mem_stale_token_refused [OF demo_mem_ok, of _ "''old''" "''a''"]])
  show "\<not> holds_claim r ''old''"
    if "map_of [(''a'', demo_record ''a'' ''ka'' 1 0), (''b'', demo_record ''b'' ''kb'' 0 0)] ''a'' = Some r"
    for r
    using that by (auto simp: holds_claim_def demo_record_def new_record_def)
qed simp_all

text \<open>A job is settled at most once: in any run from the empty store in which no
  submission reuses the id of another job, at most one completion or failure of a job succeeds.\<close>

theorem mem_settled_at_most_once:
  assumes "proper_run fresh_submit mem_step ops []"
  shows "settlements mem_reply mem_step k ops [] \<le> 1"
  using assms by (intro mem.settled_at_most_once) simp_all

theorem mem_settled_at_most_once_witness:
  "settlements mem_reply mem_step ''a''
     [Lease (demo_query ''w'') 0 ''t'', Fail ''a'' ''t'' demo_failure 1,
      Complete ''a'' ''t'' demo_completion 2] [] \<le> 1"
  by (rule mem_settled_at_most_once) simp

section \<open>Leasing\<close>

text \<open>Claim C6: a lease hands out a job exactly when some job of the table is claimable by the
  worker; the job it hands out is claimable, no claimable job has a lower priority value or, at
  the same priority, an older creation time, and the only change is that job becoming processing
  under the fresh token with one more attempt.\<close>

theorem mem_lease_optimal:
  assumes "mem_ok s"
  shows "case mem_lease q now t s of
      (None, s') \<Rightarrow> s' = s \<and> (\<forall>r \<in> set (dvalues s). \<not> claimable q now r)
    | (Some l, s') \<Rightarrow>
        \<exists>r. map_of s (j_job_id r) = Some r \<and> claimable q now r \<and> l = leased_record r q now t \<and>
            (\<forall>r' \<in> set (dvalues s). claimable q now r' \<longrightarrow>
               (j_priority r, j_created_at r) \<le> (j_priority r', j_created_at r')) \<and>
            map_of s' = (map_of s)(j_job_id r \<mapsto> l)"
proof (cases rule: mem_lease_cases [of q now s t])
  case none
  then show ?thesis by (auto simp: mem_candidates_def filter_empty_conv)
next
  case (some r)
  have "lease_key r \<le> lease_key r'" if "r' \<in> set (mem_candidates q now s)" for r'
    using that f_arg_min_list_f [of "mem_candidates q now s" lease_key] some(2)
    by (metis List.finite_set Min_le empty_iff empty_set finite_imageI imageI)
  then have least: "(j_priority r, j_created_at r) \<le> (j_priority r', j_created_at r')"
    if "r' \<in> set (dvalues s)" "claimable q now r'" for r'
    using that by (auto simp: mem_candidates_def lease_key_def)
  moreover have "map_of s (j_job_id r) = Some r" "claimable q now r"
    using some(1) by (simp_all add: mem_candidates_iff [OF assms])
  ultimately show ?thesis
    by (simp add: some(3)) (use least in blast)
qed

theorem mem_lease_optimal_witness:
  "\<exists>l s'. mem_lease (demo_query ''w'') 3 ''t''
     [(''a'', demo_record ''a'' ''ka'' 1 0), (''b'', demo_record ''b'' ''kb'' 0 0)] = (Some l, s') \<and>
     j_job_id l = ''b''"
  using mem_lease_optimal [OF demo_mem_ok, of "demo_query ''w''" 3 "''t''"]
  by (simp add: mem_lease_def mem_candidates_def claimable_def demo_record_def new_record_def
      demo_submission_def demo_query_def satisfies_requirements_def no_requirements_def is_leasable_def
      lease_key_def leased_record_def Let_def)

text \<open>How many times a run handed job \<open>k\<close> to a worker.\<close>

fun grants :: "string \<Rightarrow> store_op list \<Rightarrow> job_table \<Rightarrow> int" where
  "grants k [] s = 0"
| "grants k (op # ops) s =
     (case op of
        Lease q now t \<Rightarrow>
          (case fst (mem_lease q now t s) of
             Some l \<Rightarrow> (if j_job_id l = k then 1 else 0) | None \<Rightarrow> 0)
      | _ \<Rightarrow> 0) + grants k ops (mem_step op s)"

definition attempts_at :: "string \<Rightarrow> job_table \<Rightarrow> int" where
  "attempts_at k s = (case map_of s k of None \<Rightarrow> 0 | Some r \<Rightarrow> j_attempts r)"

definition grant_at :: "string \<Rightarrow> store_op \<Rightarrow> job_table \<Rightarrow> int" where
  "grant_at k op s =
     (case op of
        Lease q now t \<Rightarrow>
          (case fst (mem_lease q now t s) of
             Some l \<Rightarrow> (if j_job_id l = k then 1 else 0) | None \<Rightarrow> 0)
      | _ \<Rightarrow> 0)"

lemma job_step_attempts:
  "job_step op x y \<Longrightarrow> (\<And>q now t. op \<noteq> Lease q now t) \<Longrightarrow>
     (case y of None \<Rightarrow> 0 | Some r \<Rightarrow> j_attempts r) = (case x of None \<Rightarrow> 0 | Some r \<Rightarrow> j_attempts r)"
  by (induction rule: job_step.induct) (auto simp: record_effects)

lemma step_attempts:
  assumes "mem_ok s" "fresh_submit op s"
  shows "attempts_at k (mem_step op s) = attempts_at k s + grant_at k op s"
proof (cases "\<exists>q now t. op = Lease q now t")
  case True
  then obtain q now t where op: "op = Lease q now t" by blast
  show ?thesis
    using assms by (cases rule: mem_lease_cases [of q now s t])
      (auto simp: op attempts_at_def grant_at_def mem_candidates_iff leased_record_def)
next
  case False
  then show ?thesis
    using job_step_attempts [OF mem_moves [OF mem_ok_table [OF assms(1)] assms(2), of k]]
    by (cases op) (simp_all add: attempts_at_def grant_at_def)
qed

lemma grants_attempts:
  "mem_ok s \<Longrightarrow> proper_run fresh_submit mem_step ops s \<Longrightarrow>
     attempts_at k s + grants k ops s = attempts_at k (run_ops mem_step ops s)"
proof (induction ops arbitrary: s)
  case (Cons op ops)
  then show ?case
    using step_attempts [of s op k] Cons.IH [of "mem_step op s"] mem_ok_step [of s op]
    by (simp add: grant_at_def)
qed simp

text \<open>Claim C14: the attempt budget bounds executions: over any run from the empty store in which
  no submission reuses another job's id, a job is handed to workers at most 20 times, and at most
  its own budget's number of times.\<close>

theorem mem_grants_bounded:
  assumes "proper_run fresh_submit mem_step ops []"
    and "map_of (run_ops mem_step ops []) k = Some r"
  shows "grants k ops [] \<le> j_attempt_budget r \<and> grants k ops [] \<le> 20"
  using grants_attempts [OF mem_ok_Nil assms(1), of k] assms(2)
    mem.attempts_bounded [OF mem_ok_Nil assms(2)]
  by (simp add: attempts_at_def contract_bounds)

lemma mem_submit_new:
  assumes "submission_ok sub" "s_idempotency_key sub \<notin> set (map j_idempotency_key (dvalues s))"
  shows "mem_submit sub now s =
    (Inr \<lparr>sr_record = new_record sub now (digest_of sub), sr_created = True\<rparr>,
     AList.update (s_job_id sub) (new_record sub now (digest_of sub)) s)"
proof -
  have "find (\<lambda>r. j_idempotency_key r = s_idempotency_key sub) (dvalues s) = None"
    using assms(2) by (force simp: find_None_iff)
  with assms(1) show ?thesis
    by (simp add: mem_submit_def submission_accepted_iff [THEN iffD2] request_digest_ok Let_def)
qed

text \<open>Claim C15: no job is stuck. A processing job whose lease has lapsed either has attempts left,
  and then any worker that qualifies for it is given some job by its next lease, or has none left,
  and then the next expiry marks it failed with the exhausted-budget error, retryable.\<close>

theorem mem_lapsed_job_recovers:
  assumes "mem_ok s" "map_of s k = Some r" "j_status r = PROCESSING"
    "j_lease_until r = Some t" "t < now"
  shows "if j_attempts r < j_attempt_budget r
    then (\<forall>q. j_capability_id r \<in> set (q_capability_ids q) \<and> j_tenant_id r = q_tenant_id q \<and>
            satisfies_requirements r (q_vram_mb q) (q_gpu_model q) (q_labels q) (q_worker_id q)
              (q_runtime_versions q) \<longrightarrow> fst (mem_lease q now tok s) \<noteq> None)
    else (\<exists>r'. map_of (snd (mem_expire_exhausted now later s)) k = Some r' \<and>
            j_status r' = FAILED \<and> j_error r' = Some ATTEMPT_BUDGET_EXHAUSTED \<and> j_retryable r' \<and>
            j_claim_token r' = None)"
proof (cases "j_attempts r < j_attempt_budget r")
  case True
  have "fst (mem_lease q now tok s) \<noteq> None" if "claimable q now r" for q
  proof (cases rule: mem_lease_cases [of q now s tok])
    case none
    with that assms(1,2) mem_ok_lookup [OF assms(1,2)] mem_candidates_iff [OF assms(1), of r q now]
    show ?thesis by simp
  qed simp
  with True assms(3-) show ?thesis by (simp add: claimable_def is_leasable_def)
next
  case False
  with assms show ?thesis
    by (simp add: mem_expire_spec mem_ok_def lookup_expire exhausted_def expired_record_def settled_def)
qed

text \<open>\<open>expire_exhausted\<close> fails exactly the processing jobs whose lease has lapsed and
  whose attempts have reached the budget, returns their number, and leaves every other row.\<close>

theorem mem_expire_exact:
  assumes "mem_ok s"
  shows "fst (mem_expire_exhausted now later s) = length (filter (exhausted now) (dvalues s)) \<and>
    map_of (snd (mem_expire_exhausted now later s)) k =
      map_option (\<lambda>r. if exhausted now r then expired_record r (later k) else r) (map_of s k)"
  using assms by (simp add: mem_expire_spec mem_ok_def lookup_expire split: option.split)

lemma demo_leased_ok:
  "mem_ok [(''a'', leased_record (demo_record ''a'' ''ka'' 1 0) (demo_query ''w'') 0 ''t'')]"
proof -
  have "claimable (demo_query ''w'') 0 (demo_record ''a'' ''ka'' 1 0)"
    by (simp add: claimable_def demo_query_def demo_record_def new_record_def demo_submission_def
        satisfies_requirements_def no_requirements_def is_leasable_def)
  moreover have "stored_ok (demo_record ''a'' ''ka'' 1 0)"
    by (simp add: demo_record_def stored_ok_new demo_submission_ok)
  ultimately have "stored_ok (leased_record (demo_record ''a'' ''ka'' 1 0) (demo_query ''w'') 0 ''t'')"
    by (simp add: stored_ok_def record_ok_effects)
  then show ?thesis
    unfolding mem_ok_def
    by (simp, simp add: demo_record_def new_record_def demo_submission_def leased_record_def)
qed

theorem mem_lapsed_job_recovers_witness:
  "\<exists>r'. map_of (snd (mem_expire_exhausted (usec 31) (\<lambda>_. usec 31)
      [(''a'', leased_record (demo_record ''a'' ''ka'' 1 0) (demo_query ''w'') 0 ''t'')])) ''a'' = Some r' \<and>
    j_status r' = FAILED"
proof -
  let ?r = "leased_record (demo_record ''a'' ''ka'' 1 0) (demo_query ''w'') 0 ''t''"
  have "map_of [(''a'', ?r)] ''a'' = Some ?r" "j_status ?r = PROCESSING"
    "j_lease_until ?r = Some (usec 30)" "\<not> j_attempts ?r < j_attempt_budget ?r"
    by (simp_all add: leased_record_def demo_query_def demo_record_def)
      (simp add: new_record_def demo_submission_def)
  then show ?thesis
    using mem_lapsed_job_recovers [OF demo_leased_ok, of "''a''" ?r "usec 30" "usec 31" _ "\<lambda>_. usec 31"]
    by (simp only: if_False) auto
qed

theorem mem_expire_exact_witness:
  "fst (mem_expire_exhausted (usec 31) (\<lambda>_. usec 31)
      [(''a'', leased_record (demo_record ''a'' ''ka'' 1 0) (demo_query ''w'') 0 ''t'')]) = 1"
  using mem_expire_exact [OF demo_leased_ok, of "usec 31" "\<lambda>_. usec 31"]
  by (simp add: exhausted_def leased_record_def demo_query_def demo_record_def new_record_def
      demo_submission_def)

lemma demo_submit:
  "mem_step (Submit (demo_submission ''a'' ''ka'' 1) 0) [] = [(''a'', demo_record ''a'' ''ka'' 1 0)]"
  using mem_submit_new [of "demo_submission ''a'' ''ka'' 1" "[]" 0] demo_submission_ok
  by (simp add: demo_record_def) (simp add: demo_submission_def)

theorem mem_grants_bounded_witness:
  "grants ''a'' [Submit (demo_submission ''a'' ''ka'' 1) 0, Lease (demo_query ''w'') 3 ''t''] [] \<le> 20"
proof -
  let ?ops = "[Submit (demo_submission ''a'' ''ka'' 1) 0, Lease (demo_query ''w'') 3 ''t'']"
  have ok: "mem_ok [(''a'', demo_record ''a'' ''ka'' 1 0)]"
    using mem_ok_step [OF mem_ok_Nil, of "Submit (demo_submission ''a'' ''ka'' 1) 0"]
    by (simp add: demo_submit del: mem_step.simps)
  have "\<exists>r. map_of (run_ops mem_step ?ops []) ''a'' = Some r"
    using mem.keeps_request [OF ok, of "[Lease (demo_query ''w'') 3 ''t'']" "''a''"]
    by (auto simp: demo_submit simp del: mem_step.simps)
  then show ?thesis
    using mem_grants_bounded [of ?ops "''a''"] by (auto simp del: mem_step.simps grants.simps)
qed

section \<open>Submitting\<close>

lemma find_unique_key:
  assumes "distinct (map f xs)" "x \<in> set xs" "f x = k"
  shows "find (\<lambda>y. f y = k) xs = Some x"
  using assms by (induction xs) auto



text \<open>A submission under a new idempotency key but the id of a stored job replaces that
  job's row, whatever its state: a completed or processing job is gone from the table and the
  call reports a job created. (The Postgres store refuses it: the id is its primary key.)\<close>

theorem mem_submit_overwrites:
  assumes "mem_ok s" "submission_ok sub"
    and "s_idempotency_key sub \<notin> j_idempotency_key ` set (dvalues s)"
    and "map_of s (s_job_id sub) = Some old"
  shows "fst (mem_submit sub now s) =
           Inr \<lparr>sr_record = new_record sub now (digest_of sub), sr_created = True\<rparr> \<and>
         map_of (snd (mem_submit sub now s)) (s_job_id sub) =
           Some (new_record sub now (digest_of sub)) \<and>
         old \<notin> set (dvalues (snd (mem_submit sub now s)))"
proof -
  have "old \<notin> set (dvalues (AList.update (s_job_id sub) (new_record sub now (digest_of sub)) s))"
  proof
    assume "old \<in> set (dvalues (AList.update (s_job_id sub) (new_record sub now (digest_of sub)) s))"
    moreover have "j_job_id old = s_job_id sub" "old \<noteq> new_record sub now (digest_of sub)"
      using mem_ok_lookup [OF assms(1,4)] map_of_SomeD [OF assms(4)] assms(3)
      by (auto simp: image_iff)
    ultimately show False
      using assms(1) by (auto simp: mem_ok_def set_update_distinct list_all_iff)
  qed
  then show ?thesis
    using mem_submit_new [of sub s now] assms(2,3) by (simp add: image_image)
qed

theorem mem_submit_overwrites_witness:
  "fst (mem_submit (demo_submission ''a'' ''kb'' 0) 7
      [(''a'', cancelled_record (demo_record ''a'' ''ka'' 1 0) 5)]) =
     Inr \<lparr>sr_record = demo_record ''a'' ''kb'' 0 7, sr_created = True\<rparr>"
  using mem_submit_overwrites [OF demo_done_ok, of "demo_submission ''a'' ''kb'' 0"
      "cancelled_record (demo_record ''a'' ''ka'' 1 0) 5" 7] demo_submission_ok
  by (simp add: demo_record_def demo_submission_def cancelled_record_def new_record_def)

definition flag_submission :: "json \<Rightarrow> job_submission" where
  "flag_submission v = (demo_submission ''a'' ''ka'' 1)\<lparr>s_payload := [(''flag'', v)]\<rparr>"

text \<open>Replays are decided by Python's \<open>==\<close>, which equates \<open>True\<close> with \<open>1\<close>: two
  requests whose payloads differ in that, and whose canonical texts therefore differ, count as the
  same request.\<close>

lemma mem_replay_conflates_bool:
  "replays (new_record (flag_submission (JInt 1)) now d) (flag_submission (JBool True)) \<and>
   enc (digest_fields (flag_submission (JInt 1))) \<noteq> enc (digest_fields (flag_submission (JBool True)))"
proof
  show "replays (new_record (flag_submission (JInt 1)) now d) (flag_submission (JBool True))"
    by (simp add: replays_def new_record_def flag_submission_def demo_submission_def payload_eq_def
        num_eq_def requirements_eq_def no_requirements_def dict_eq_def)
  show "enc (digest_fields (flag_submission (JInt 1))) \<noteq> enc (digest_fields (flag_submission (JBool True)))"
    by code_simp
qed

section \<open>Counting\<close>

definition row_count :: "(job_record \<Rightarrow> bool) \<Rightarrow> job_record list \<Rightarrow> nat" where
  "row_count P rs = length (filter P rs)"

definition in_capability :: "string \<Rightarrow> job_status \<Rightarrow> job_record \<Rightarrow> bool" where
  "in_capability c st r \<longleftrightarrow> j_capability_id r = c \<and> j_status r = st"

definition depth_at :: "(string, capability_queue_depth) dict \<Rightarrow> string \<Rightarrow> nat \<times> nat" where
  "depth_at d c = (case map_of d c of None \<Rightarrow> (0, 0) | Some x \<Rightarrow> (cq_queued x, cq_processing x))"

definition row_one :: "(job_record \<Rightarrow> bool) \<Rightarrow> job_record \<Rightarrow> nat" where
  "row_one P r = (if P r then 1 else 0)"

lemma row_count_simps [simp]:
  "row_count P [] = 0" "row_count P (r # rs) = row_one P r + row_count P rs"
  by (simp_all add: row_count_def row_one_def)

lemma count_one_row:
  assumes "count_row r (q, p, d) = (q', p', d')"
  shows "q' = q + row_one (\<lambda>r. j_status r = QUEUED) r" (is ?q)
    and "p' = p + row_one (\<lambda>r. j_status r = PROCESSING) r" (is ?p)
    and "depth_at d' c = (fst (depth_at d c) + row_one (in_capability c QUEUED) r,
                      snd (depth_at d c) + row_one (in_capability c PROCESSING) r)" (is ?d)
    and "map_of d' c = None \<longleftrightarrow>
        map_of d c = None \<and> row_one (\<lambda>r. j_capability_id r = c \<and> is_live r) r = 0" (is ?n)
proof -
  consider (q) "j_status r = QUEUED" | (p) "j_status r = PROCESSING" | (x) "\<not> is_live r"
    by (auto simp: is_live_def)
  then have "?q \<and> ?p \<and> ?d \<and> ?n"
    using assms
    by cases (auto simp: count_row_def Let_def row_one_def in_capability_def depth_at_def
        is_live_def split: option.splits if_splits)
  then show ?q ?p ?d ?n by blast+
qed

lemma fold_count_rows:
  "fold count_row rs (q, p, d) = (q', p', d') \<Longrightarrow>
     q' = q + row_count (\<lambda>r. j_status r = QUEUED) rs \<and>
     p' = p + row_count (\<lambda>r. j_status r = PROCESSING) rs \<and>
     depth_at d' c = (fst (depth_at d c) + row_count (in_capability c QUEUED) rs,
                      snd (depth_at d c) + row_count (in_capability c PROCESSING) rs) \<and>
     (map_of d' c = None \<longleftrightarrow>
        map_of d c = None \<and> row_count (\<lambda>r. j_capability_id r = c \<and> is_live r) rs = 0)"
proof (induction rs arbitrary: q p d)
  case (Cons r rs)
  obtain q1 p1 d1 where one: "count_row r (q, p, d) = (q1, p1, d1)"
    by (metis prod_cases3)
  with Cons.prems have "fold count_row rs (q1, p1, d1) = (q', p', d')" by simp
  from Cons.IH [OF this] count_one_row [OF one] show ?case by auto
qed simp

lemma mem_depth_exact:
  "qd_queued (mem_queue_depth s) = row_count (\<lambda>r. j_status r = QUEUED) (dvalues s) \<and>
   qd_processing (mem_queue_depth s) = row_count (\<lambda>r. j_status r = PROCESSING) (dvalues s) \<and>
   map_of (qd_by_capability (mem_queue_depth s)) c =
     (if row_count (\<lambda>r. j_capability_id r = c \<and> is_live r) (dvalues s) = 0 then None
      else Some \<lparr>cq_queued = row_count (in_capability c QUEUED) (dvalues s),
                 cq_processing = row_count (in_capability c PROCESSING) (dvalues s)\<rparr>)"
proof -
  obtain q p d where d: "fold count_row (dvalues s) (0, 0, []) = (q, p, d)"
    by (metis prod_cases3)
  from fold_count_rows [OF d, of c] show ?thesis
    by (auto simp: mem_queue_depth_def d depth_at_def split: option.splits)
qed

text \<open>The queue depth is exact: the totals are the numbers of queued and of processing
  rows; a capability has an entry exactly when some live job needs it, and the entry holds that
  capability's own two numbers.\<close>

theorem mem_queue_depth_exact:
  "qd_queued (mem_queue_depth s) = row_count (\<lambda>r. j_status r = QUEUED) (dvalues s) \<and>
   qd_processing (mem_queue_depth s) = row_count (\<lambda>r. j_status r = PROCESSING) (dvalues s) \<and>
   map_of (qd_by_capability (mem_queue_depth s)) c =
     (if row_count (\<lambda>r. j_capability_id r = c \<and> is_live r) (dvalues s) = 0 then None
      else Some \<lparr>cq_queued = row_count (in_capability c QUEUED) (dvalues s),
                 cq_processing = row_count (in_capability c PROCESSING) (dvalues s)\<rparr>)"
  by (rule mem_depth_exact)

end
