(* ===== verification/ServiceProps.thy ===== *)
theory ServiceProps
  imports Service MemoryProps
begin

text \<open>
  Correctness of the coordinator service: who may touch a job, what a completion establishes, what
  a lease hands out, admission, and what the host sees.
\<close>

section \<open>A concrete pool for the witnesses\<close>

definition demo_limiter :: limiter where
  "demo_limiter = \<lparr>rl_limit = 10, rl_max_keys = 4, rl_buckets = []\<rparr>"

definition demo_config :: pool_config where
  "demo_config =
     \<lparr>pc_default_lease_seconds = 30, pc_max_verify_bytes = 100, pc_grant_ttl_seconds = 60,
      pc_enrollments = [], pc_max_auth_concurrency = 2, pc_capability_schemas = [],
      pc_profile_module = None\<rparr>"

definition demo_worker :: "worker_status \<Rightarrow> worker_record" where
  "demo_worker status =
     \<lparr>w_worker_id = ''w'', w_identity_subject = ''sub'', w_status = status,
      w_capabilities = [\<lparr>wc_capability_id = ''test.v1'', wc_plugin_id = ''p'', wc_plugin_version = ''1'',
                         wc_concurrency = 1\<rparr>],
      w_gpu_model = None, w_vram_mb = None, w_runtime_versions = [], w_cost_class = LOCAL,
      w_labels = [], w_active_leases = 0, w_last_heartbeat_at = Some 0, w_created_at = 0,
      w_updated_at = 0, w_revoked_at = None, w_gpus = [], w_busy_job_id = None, w_tenant_id = None\<rparr>"

definition demo_identity :: worker_identity where
  "demo_identity = \<lparr>id_worker_id = ''w'', id_subject = ''sub'', id_method = ''static''\<rparr>"

definition demo_pool :: "job_table \<Rightarrow> worker_status \<Rightarrow> pool_state" where
  "demo_pool jobs status =
     \<lparr>ps_jobs = jobs,
      ps_assets = new_asset_store\<lparr>as_assets := [(''outputs/o'', [1, 2])]\<rparr>,
      ps_workers = [(''w'', demo_worker status)], ps_audit = [],
      ps_worker_limiter = demo_limiter, ps_global_limiter = demo_limiter,
      ps_pre_auth_limiter = demo_limiter, ps_source_limiter = demo_limiter,
      ps_auth_audit_limiter = demo_limiter, ps_active_auth = 0\<rparr>"

definition demo_readings :: readings where
  "demo_readings =
     \<lparr>rd_clock = 5, rd_expire = 5, rd_settle = (\<lambda>_. 5), rd_store = 5, rd_audit = 5, rd_registry = 5,
      rd_limit = (\<lambda>_. 5), rd_token = ''t2''\<rparr>"

definition demo_row :: job_record where
  "demo_row = leased_record (demo_record ''a'' ''ka'' 1 0) (demo_query ''w'') 0 ''t''"

definition demo_leased :: job_table where
  "demo_leased = [(''a'', demo_row)]"

definition demo_manifest :: output_manifest where
  "demo_manifest =
     \<lparr>m_output_key = ''outputs/o'', m_content_type = ''text/plain'', m_byte_length = 2,
      m_sha256 = sha256_hex [1, 2], m_idempotency_key = ''ka'',
      m_request_digest = digest_of (demo_submission ''a'' ''ka'' 1), m_plugin_id = ''p'',
      m_plugin_version = ''1'', m_model_id = ''m'', m_model_version = ''1'',
      m_publication_mode = PUBLICATION_MODE_IMMUTABLE_CREATE_ONCE, m_seed = None,
      m_diagnostics = []\<rparr>"

lemmas demo_defs = demo_pool_def demo_config_def demo_worker_def demo_identity_def demo_readings_def
  demo_manifest_def demo_limiter_def new_asset_store_def DEFAULT_READ_PREFIXES_def
  DEFAULT_OUTPUT_PREFIXES_def

lemma demo_leased_mem_ok: "mem_ok (ps_jobs (demo_pool demo_leased st))"
  using demo_leased_ok by (simp add: demo_pool_def demo_leased_def demo_row_def)

section \<open>Inversion of operations\<close>

named_theorems op_simps \<open>running operations\<close>

lemma sbind_Inr [op_simps]:
  "sbind m f s = (Inr b, s') \<longleftrightarrow> (\<exists>a s1. m s = (Inr a, s1) \<and> f a s1 = (Inr b, s'))"
  by (auto simp: sbind_def split: prod.splits sum.splits)

lemma sbind_Inl [op_simps]:
  "sbind m f s = (Inl e, s') \<longleftrightarrow>
     m s = (Inl e, s') \<or> (\<exists>a s1. m s = (Inr a, s1) \<and> f a s1 = (Inl e, s'))"
  by (auto simp: sbind_def split: prod.splits sum.splits)

lemma sreturn_iff [op_simps]: "sreturn a s = (r, s') \<longleftrightarrow> r = Inr a \<and> s' = s"
  by (auto simp: sreturn_def)

lemma sraise_iff [op_simps]: "sraise e s = (r, s') \<longleftrightarrow> r = Inl e \<and> s' = s"
  by (auto simp: sraise_def)

lemma slift_iff [op_simps]: "slift f s = (r, s') \<longleftrightarrow> r = f s \<and> s' = s"
  by (auto simp: slift_def)

lemma sread_iff [op_simps]: "sread f s = (r, s') \<longleftrightarrow> r = Inr (f s) \<and> s' = s"
  by (auto simp: sread_def)

lemma on_jobs_iff [op_simps]:
  "on_jobs f s = (r, s') \<longleftrightarrow> r = Inr (fst (f (ps_jobs s))) \<and> s' = s\<lparr>ps_jobs := snd (f (ps_jobs s))\<rparr>"
  by (auto simp: on_jobs_def split: prod.splits)

lemma audit_iff [op_simps]:
  "audit ty w j d rd s = (r, s') \<longleftrightarrow>
     r = Inr () \<and> s' = s\<lparr>ps_audit := audit_record ty w j d (rd_audit rd) (ps_audit s)\<rparr>"
  by (auto simp: audit_def)

section \<open>Ownership and fencing\<close>

definition approved :: "pool_config \<Rightarrow> pool_state \<Rightarrow> worker_identity \<Rightarrow> bool" where
  "approved cfg s i \<longleftrightarrow>
     (case map_of (ps_workers s) (id_worker_id i) of
        Some w \<Rightarrow> w_identity_subject w = id_subject i \<and> w_status w \<noteq> W_REVOKED
      | None \<Rightarrow> (\<exists>e. map_of (pc_enrollments cfg) (id_worker_id i) = Some e \<and>
                     we_identity_subject e = id_subject i))"

lemma approved_enrollment_state [simp]: "snd (approved_enrollment cfg i s) = s"
  by (simp add: approved_enrollment_def slift_def)

lemma approved_enrollment_approved:
  "approved_enrollment cfg i s = (Inr e, s') \<Longrightarrow> s' = s \<and> approved cfg s i"
  by (auto simp: approved_enrollment_def op_simps approved_def reg_get_def
      split: option.splits if_splits)

lemma owned_job_iff:
  "owned_job cfg i k s = (Inr r, s') \<longleftrightarrow>
     s' = s \<and> (\<exists>e. approved_enrollment cfg i s = (Inr e, s)) \<and> map_of (ps_jobs s) k = Some r \<and>
     j_leased_by r = Some (id_worker_id i) \<and> j_status r = PROCESSING"
  by (auto simp: owned_job_def op_simps mem_get_def dest: approved_enrollment_approved
      split: option.splits if_splits)

lemma owned_job_state: "owned_job cfg i k s = (r, s') \<Longrightarrow> s' = s"
  by (cases r) (auto simp: owned_job_def op_simps dest: approved_enrollment_approved
      dest!: arg_cong [of _ _ snd])

text \<open>The four calls a worker makes on a job it holds.\<close>

datatype job_call =
    Beat "int option"
  | Finish output_manifest
  | GiveUp string bool job_failure_code
  | GiveBack string

fun svc_call ::
  "pool_config \<Rightarrow> readings \<Rightarrow> worker_identity \<Rightarrow> string \<Rightarrow> string \<Rightarrow> job_call \<Rightarrow> unit operation"
where
  "svc_call cfg rd i k t (Beat p) = sbind (svc_job_heartbeat cfg rd i k t p) (\<lambda>_. sreturn ())"
| "svc_call cfg rd i k t (Finish m) = svc_complete cfg rd i k t m"
| "svc_call cfg rd i k t (GiveUp reason retryable code) = svc_fail cfg rd i k t reason retryable code"
| "svc_call cfg rd i k t (GiveBack reason) = svc_release cfg rd i k t reason"

definition same_but :: "string \<Rightarrow> job_table \<Rightarrow> job_table \<Rightarrow> bool" where
  "same_but k s s' \<longleftrightarrow> (\<forall>k'. k' \<noteq> k \<longrightarrow> map_of s' k' = map_of s k')"

lemma mem_leased_ops:
  "mem_leased k t s = None \<Longrightarrow> mem_heartbeat k t secs p now s = (False, s)"
  "mem_leased k t s = None \<Longrightarrow> mem_complete k t c now s = (False, s)"
  "mem_leased k t s = None \<Longrightarrow> mem_fail k t f now s = (False, s)"
  "mem_leased k t s = None \<Longrightarrow> mem_release k t x now s = (False, s)"
  "mem_leased k t s = Some r \<Longrightarrow>
     mem_heartbeat k t secs p now s = (True, AList.update k (beaten_record r secs p now) s)"
  "mem_leased k t s = Some r \<Longrightarrow>
     mem_complete k t c now s = (True, AList.update k (completed_record r c now) s)"
  "mem_leased k t s = Some r \<Longrightarrow>
     mem_fail k t f now s = (True, AList.update k (failed_record r f now) s)"
  "mem_leased k t s = Some r \<Longrightarrow>
     mem_release k t x now s = (True, AList.update k (released_record r x now) s)"
  by (simp_all add: mem_heartbeat_def mem_complete_def mem_fail_def mem_release_def)

lemma svc_call_owner:
  assumes "mem_ok (ps_jobs s)" "svc_call cfg rd i k t call s = (res, s')"
  shows "(ps_jobs s' = ps_jobs s \<and> (\<forall>u. res \<noteq> Inr u)) \<or>
         (\<exists>r e. approved_enrollment cfg i s = (Inr e, s) \<and> map_of (ps_jobs s) k = Some r \<and>
            j_leased_by r = Some (id_worker_id i) \<and> holds_claim r t \<and>
            same_but k (ps_jobs s) (ps_jobs s'))"
proof (cases "owned_job cfg i k s")
  case (Pair own s1)
  with owned_job_state have s1: "s1 = s" by blast
  show ?thesis
  proof (cases own)
    case (Inl e)
    with Pair s1 assms(2) show ?thesis
      by (cases call) (auto simp: svc_job_heartbeat_def svc_complete_def svc_fail_def svc_release_def
          sbind_def)
  next
    case (Inr r)
    with Pair s1 have own: "owned_job cfg i k s = (Inr r, s)" by simp
    then have r: "map_of (ps_jobs s) k = Some r" "j_leased_by r = Some (id_worker_id i)"
        "\<exists>e. approved_enrollment cfg i s = (Inr e, s)" "j_status r = PROCESSING"
      by (auto simp: owned_job_iff)
    have id: "j_job_id r = k" using mem_ok_lookup [OF assms(1) r(1)] by simp
    show ?thesis
    proof (cases "mem_leased k t (ps_jobs s)")
      case None
      with assms(2) own id show ?thesis
        by (cases call) (auto simp: svc_job_heartbeat_def svc_complete_def svc_fail_def
            svc_release_def sbind_def on_jobs_def audit_def sraise_def mem_leased_ops
            split: sum.splits exn.splits if_splits)
    next
      case (Some r')
      then have r': "r' = r" "holds_claim r t"
        using r(1) by (auto simp: mem_leased_iff)
      have "same_but k (ps_jobs s) (ps_jobs s')"
        using assms(2) own id Some
        by (cases call) (auto simp: svc_job_heartbeat_def svc_complete_def svc_fail_def
            svc_release_def sbind_def on_jobs_def audit_def sraise_def sreturn_def mem_leased_ops
            same_but_def split: sum.splits exn.splits if_splits)
      with r r' show ?thesis by blast
    qed
  qed
qed

text \<open>Claim C2: no effect without ownership: if any of the four job calls (heartbeat, complete,
  fail, release) succeeds or changes any job, then the caller is an approved, unrevoked worker
  under its own identity, the job is processing under its lease and the claim token it presents is
  the current one; and only that job changes.\<close>

theorem svc_call_needs_ownership:
  assumes "mem_ok (ps_jobs s)" "svc_call cfg rd i k t call s = (res, s')"
    "ps_jobs s' \<noteq> ps_jobs s \<or> res = Inr ()"
  shows "approved cfg s i \<and>
         (\<exists>r. map_of (ps_jobs s) k = Some r \<and> j_leased_by r = Some (id_worker_id i) \<and>
            holds_claim r t) \<and>
         (\<forall>k'. k' \<noteq> k \<longrightarrow> map_of (ps_jobs s') k' = map_of (ps_jobs s) k')"
  using svc_call_owner [OF assms(1,2)] assms(3) approved_enrollment_approved
  unfolding same_but_def by blast

section \<open>Completion\<close>

lemma verify_output_Inr:
  assumes "verify_output cfg assets r m = Inr ()"
  shows "\<exists>content. map_of (as_assets assets) (j_output_key r) = Some content \<and>
      sha256_hex content = m_sha256 m \<and> int (length content) = m_byte_length m \<and>
      m_byte_length m \<le> pc_max_verify_bytes cfg"
  using assms
  by (auto simp: verify_output_def Let_def result_simps describe_def read_limited_def asset_read_def
      split: option.splits if_splits)

lemma verify_output_fields:
  assumes "verify_output cfg assets r m = Inr ()"
  shows "m_output_key m = j_output_key r" "m_idempotency_key m = j_idempotency_key r"
    "m_request_digest m = j_request_digest r"
    "m_publication_mode m = PUBLICATION_MODE_IMMUTABLE_CREATE_ONCE"
    "svc_pinned_recipe (runtime_versions (j_requirements r)) = Some recipe \<Longrightarrow>
       matches (pget (m_diagnostics m) ''runtime_versions'')
         (map (\<lambda>(k, v). (k, JStr v)) (runtime_versions (j_requirements r))) \<and>
       matches (pget (m_diagnostics m) ''effective_inputs'') (expected_inputs cfg r recipe)"
  using assms by (auto simp: verify_output_def Let_def result_simps split: option.splits)

lemma verify_output_Inl:
  assumes "verify_output cfg assets r m = Inl e"
  shows "\<exists>reason. e = CompletionRejected reason"
  using assms
  by (auto simp: verify_output_def Let_def result_simps describe_def read_limited_def asset_read_def
      split: option.splits if_splits)

text \<open>Claim C1: a completion is accepted only for real, verified output: the caller holds the job's
  claim; the stored object under the job's own output key hashes to the attested digest, has the
  attested length and is within the verification limit; the manifest repeats the job's output key,
  idempotency key and request digest and the create-once mode; if the job pins a recipe, the
  reported runtime versions and the effective inputs match what the job requires. The job then is
  completed with exactly these facts, and one audit event is appended.\<close>

theorem svc_complete_sound:
  assumes "mem_ok (ps_jobs s)" "svc_complete cfg rd i k t m s = (Inr (), s')"
  shows "\<exists>r content.
      map_of (ps_jobs s) k = Some r \<and> j_leased_by r = Some (id_worker_id i) \<and> holds_claim r t \<and>
      map_of (as_assets (ps_assets s)) (j_output_key r) = Some content \<and>
      sha256_hex content = m_sha256 m \<and> int (length content) = m_byte_length m \<and>
      m_byte_length m \<le> pc_max_verify_bytes cfg \<and>
      m_output_key m = j_output_key r \<and> m_idempotency_key m = j_idempotency_key r \<and>
      m_request_digest m = j_request_digest r \<and>
      m_publication_mode m = PUBLICATION_MODE_IMMUTABLE_CREATE_ONCE \<and>
      (case svc_pinned_recipe (runtime_versions (j_requirements r)) of
         None \<Rightarrow> True
       | Some recipe \<Rightarrow>
           matches (pget (m_diagnostics m) ''runtime_versions'')
             (map (\<lambda>(k, v). (k, JStr v)) (runtime_versions (j_requirements r))) \<and>
           matches (pget (m_diagnostics m) ''effective_inputs'') (expected_inputs cfg r recipe)) \<and>
      map_of (ps_jobs s') k = Some (completed_record r (completion_of m) (rd_store rd)) \<and>
      length (ps_audit s') = length (ps_audit s) + 1"
proof -
  obtain r where own: "owned_job cfg i k s = (Inr r, s)"
    using assms(2) by (auto simp: svc_complete_def op_simps dest: owned_job_state)
  then have r: "map_of (ps_jobs s) k = Some r" "j_leased_by r = Some (id_worker_id i)"
    by (simp_all add: owned_job_iff)
  have id: "j_job_id r = k" using mem_ok_lookup [OF assms(1) r(1)] by simp
  have v: "verify_output cfg (ps_assets s) r m = Inr ()"
    using assms(2) own by (auto simp: svc_complete_def sbind_def on_jobs_def audit_def sraise_def
        split: sum.splits exn.splits prod.splits)
  obtain r' where leased: "mem_leased k t (ps_jobs s) = Some r'"
    using assms(2) own v id by (cases "mem_leased k t (ps_jobs s)")
      (auto simp: svc_complete_def sbind_def on_jobs_def audit_def sraise_def mem_leased_ops)
  then have r': "r' = r" "holds_claim r t" using r(1) by (auto simp: mem_leased_iff)
  have fin: "s' = s\<lparr>ps_jobs := AList.update k (completed_record r (completion_of m) (rd_store rd)) (ps_jobs s),
      ps_audit := ps_audit s'\<rparr>" "length (ps_audit s') = length (ps_audit s) + 1"
    using assms(2) own v id leased r'(1)
    by (auto simp: svc_complete_def sbind_def on_jobs_def audit_def mem_leased_ops audit_record_def)
  from verify_output_Inr [OF v] obtain content where c:
    "map_of (as_assets (ps_assets s)) (j_output_key r) = Some content"
    "sha256_hex content = m_sha256 m" "int (length content) = m_byte_length m"
    "m_byte_length m \<le> pc_max_verify_bytes cfg" by blast
  have "map_of (ps_jobs s') k = Some (completed_record r (completion_of m) (rd_store rd))"
    by (subst fin(1)) simp
  with r r'(2) c verify_output_fields [OF v] fin(2) show ?thesis
    by (intro exI [of _ r] exI [of _ content]) (auto split: option.split)
qed

text \<open>A failed verification settles the job: whatever check of the completion fails, the
  call raises \<open>CompletionRejected\<close>; a caller with the current claim token thereby fails the job for
  good (invalid input, not retryable), a caller with a stale token changes no job.\<close>

theorem svc_complete_rejected:
  assumes "mem_ok (ps_jobs s)" "owned_job cfg i k s = (Inr r, s)"
    "verify_output cfg (ps_assets s) r m = Inl e"
  shows "\<exists>reason s'. e = CompletionRejected reason \<and>
      svc_complete cfg rd i k t m s = (Inl (CompletionRejected reason), s') \<and>
      (if holds_claim r t
       then map_of (ps_jobs s') k = Some (failed_record r (rejection reason) (rd_store rd))
       else ps_jobs s' = ps_jobs s)"
proof -
  obtain reason where e: "e = CompletionRejected reason"
    using verify_output_Inl [OF assms(3)] by blast
  have r: "map_of (ps_jobs s) k = Some r" using assms(2) by (simp add: owned_job_iff)
  have id: "j_job_id r = k" using mem_ok_lookup [OF assms(1) r] by simp
  show ?thesis
  proof (cases "holds_claim r t")
    case True
    then have "mem_leased k t (ps_jobs s) = Some r" using r by (simp add: mem_leased_iff)
    with True assms(2,3) id e show ?thesis
      by (auto simp: svc_complete_def sbind_def on_jobs_def audit_def sraise_def mem_leased_ops)
  next
    case False
    then have "mem_leased k t (ps_jobs s) = None" using r by (simp add: mem_leased_None)
    with False assms(2,3) id e show ?thesis
      by (auto simp: svc_complete_def sbind_def on_jobs_def audit_def sraise_def mem_leased_ops)
  qed
qed

text \<open>A release never loses the job: with attempts left it is queued again under no
  claim, with the budget spent it is failed as a retryable temporary failure; in both cases the
  reason is kept and the claim ends.\<close>

theorem svc_release_settles:
  assumes "mem_ok (ps_jobs s)" "svc_release cfg rd i k t reason s = (Inr (), s')"
  shows "\<exists>r r'. map_of (ps_jobs s) k = Some r \<and> map_of (ps_jobs s') k = Some r' \<and>
      j_error r' = Some reason \<and> j_claim_token r' = None \<and> j_attempts r' = j_attempts r \<and>
      (if j_attempts r < j_attempt_budget r then j_status r' = QUEUED
       else j_status r' = FAILED \<and> j_failure_code r' = Some TEMPORARY_FAILURE \<and> j_retryable r')"
proof -
  obtain r where own: "owned_job cfg i k s = (Inr r, s)"
    using assms(2) by (auto simp: svc_release_def op_simps dest: owned_job_state)
  then have r: "map_of (ps_jobs s) k = Some r" by (simp add: owned_job_iff)
  have id: "j_job_id r = k" using mem_ok_lookup [OF assms(1) r] by simp
  obtain r1 where leased: "mem_leased k t (ps_jobs s) = Some r1"
    using assms(2) own id by (cases "mem_leased k t (ps_jobs s)")
      (auto simp: svc_release_def sbind_def on_jobs_def audit_def sraise_def mem_leased_ops
        split: if_splits)
  then have "r1 = r" using r by (simp add: mem_leased_iff)
  with assms(2) own id leased r show ?thesis
    by (auto simp: svc_release_def sbind_def on_jobs_def audit_def mem_leased_ops record_effects
        split: if_splits)
qed

section \<open>Leasing\<close>

lemma mem_expire_ok: "mem_ok s \<Longrightarrow> mem_ok (snd (mem_expire_exhausted now later s))"
  using mem_ok_step [of s "Expire now later"] by simp

lemma grant_job_state:
  assumes "grant_job cfg rd i seconds job s = (res, s')"
  shows "ps_jobs s' = ps_jobs s \<and>
    (case res of
       Inl e \<Rightarrow> ps_audit s' = ps_audit s
     | Inr None \<Rightarrow> False
     | Inr (Some g) \<Rightarrow> length (ps_audit s') = length (ps_audit s) + 1 \<and>
         (\<exists>token input_grants output_grant.
            j_claim_token job = Some token \<and>
            g = lease_grant_of job token (rd_clock rd + usec seconds) input_grants output_grant \<and>
            map_result (input_grant (rd_clock rd + usec (pc_grant_ttl_seconds cfg)) (ps_assets s))
              (j_input_keys job) = Inr input_grants \<and>
            output_grant_of (rd_clock rd + usec (pc_grant_ttl_seconds cfg)) (ps_assets s)
              (j_output_key job) = Inr output_grant))"
  using assms
  by (auto simp: grant_job_def sbind_def slift_def sreturn_def sraise_def audit_def audit_record_def
      Let_def split: option.splits prod.splits sum.splits)

lemma approved_enrollment_not_asset: "fst (approved_enrollment cfg i s) \<noteq> Inl (AssetNotFound key)"
  by (auto simp: approved_enrollment_def slift_def mk_enrollment_def ensure_def split: option.split)

lemma map_result_Inl: "map_result f xs = Inl e \<Longrightarrow> \<exists>x \<in> set xs. f x = Inl e"
  by (induction xs) (auto simp: result_simps)

lemma input_grant_asset_error: "input_grant x assets k = Inl (AssetNotFound key) \<Longrightarrow> key = k"
  by (auto simp: input_grant_def create_read_url_def require_prefix_def ensure_def ebind_Inl_iff
      split: if_splits)

lemma output_grant_asset_error: "output_grant_of x assets k \<noteq> Inl (AssetNotFound key)"
  by (simp add: output_grant_of_def create_output_upload_url_def require_prefix_def ensure_def)

lemma grant_job_asset_error:
  "grant_job cfg rd i seconds job s = (Inl (AssetNotFound key), s') \<Longrightarrow> key \<in> set (j_input_keys job)"
  by (cases "j_claim_token job")
    (auto simp: grant_job_def op_simps Let_def dest: output_grant_asset_error [THEN notE, OF sym]
      dest!: map_result_Inl [OF sym] input_grant_asset_error)

text \<open>The part of \<open>lease\<close> that decides whether the store is asked at all.\<close>

lemma svc_lease_cases:
  assumes "svc_lease cfg rd i caps secs s = (res, s')"
  obtains (early) "ps_jobs s' = ps_jobs s" "ps_audit s' = ps_audit s" "\<And>g. res \<noteq> Inr (Some g)"
      "\<And>key. res \<noteq> Inl (AssetNotFound key)"
  | (asked) w s1 leased where
      "map_of (ps_workers s) (id_worker_id i) = Some w" "\<exists>e. approved_enrollment cfg i s = (Inr e, s)"
      "w_status w \<noteq> W_DRAINING"
      "unqualified_reason [] (w_runtime_versions w) (svc_unqualified cfg) = None"
      "mem_lease (worker_query w i (effective_capabilities cfg w caps)
           (case secs of Some n \<Rightarrow> n | None \<Rightarrow> pc_default_lease_seconds cfg)) (rd_store rd) (rd_token rd)
         (snd (mem_expire_exhausted (rd_expire rd) (rd_settle rd) (ps_jobs s))) = (leased, s1)"
      "(case leased of
          None \<Rightarrow> res = Inr None \<and> ps_jobs s' = s1
        | Some job \<Rightarrow> grant_job cfg rd i
            (case secs of Some n \<Rightarrow> n | None \<Rightarrow> pc_default_lease_seconds cfg) job
            (s\<lparr>ps_jobs := s1\<rparr>) = (res, s'))"
proof (cases "approved_enrollment cfg i s")
  case (Pair a sa)
  then have sa: "sa = s" using approved_enrollment_state [of cfg i s] by simp
  show ?thesis
  proof (cases a)
    case (Inl e)
    with Pair sa assms approved_enrollment_not_asset [of cfg i s] show ?thesis
      by (intro early) (auto simp: svc_lease_def sbind_def)
  next
    case (Inr e)
    show ?thesis
    proof (cases "map_of (ps_workers s) (id_worker_id i)")
      case None
      with Pair sa Inr assms show ?thesis
        by (intro early) (auto simp: svc_lease_def sbind_def sread_def sraise_def reg_get_def)
    next
      case (Some w)
      show ?thesis
      proof (cases "w_status w = W_DRAINING \<or>
          unqualified_reason [] (w_runtime_versions w) (svc_unqualified cfg) \<noteq> None \<or>
          effective_capabilities cfg w caps = []")
        case True
        with Pair sa Inr Some assms show ?thesis
          by (intro early) (auto simp: svc_lease_def sbind_def sread_def sreturn_def reg_get_def
              Let_def split: if_splits)
      next
        case False
        obtain leased s1 where l: "mem_lease (worker_query w i (effective_capabilities cfg w caps)
             (case secs of Some n \<Rightarrow> n | None \<Rightarrow> pc_default_lease_seconds cfg)) (rd_store rd) (rd_token rd)
           (snd (mem_expire_exhausted (rd_expire rd) (rd_settle rd) (ps_jobs s))) = (leased, s1)"
          by force
        show ?thesis
        proof (rule asked [OF Some _ _ _ l])
          show "\<exists>e. approved_enrollment cfg i s = (Inr e, s)" using Pair sa Inr by simp
          show "w_status w \<noteq> W_DRAINING"
            "unqualified_reason [] (w_runtime_versions w) (svc_unqualified cfg) = None"
            using False by simp_all
          show "case leased of
              None \<Rightarrow> res = Inr None \<and> ps_jobs s' = s1
            | Some job \<Rightarrow> grant_job cfg rd i
                (case secs of Some n \<Rightarrow> n | None \<Rightarrow> pc_default_lease_seconds cfg) job
                (s\<lparr>ps_jobs := s1\<rparr>) = (res, s')"
            using False Pair sa Inr Some l assms
            by (auto simp: svc_lease_def sbind_def sread_def sreturn_def reg_get_def on_jobs_def
                audit_def Let_def split: option.splits prod.splits)
        qed
      qed
    qed
  qed
qed

lemma input_grant_keys: "map_result (input_grant t assets) ks = Inr ins \<Longrightarrow> map ag_key ins = ks"
  unfolding map_result_Inr_iff
  by (induction rule: list_all2_induct) (auto simp: input_grant_def result_simps)

lemma output_grant_key: "output_grant_of t assets k = Inr out \<Longrightarrow> ag_key out = k"
  by (auto simp: output_grant_of_def result_simps)

lemma leased_record_same:
  "j_job_id (leased_record r q now token) = j_job_id r"
  "j_capability_id (leased_record r q now token) = j_capability_id r"
  "j_tenant_id (leased_record r q now token) = j_tenant_id r"
  "j_claim_token (leased_record r q now token) = Some token"
  "j_request_digest (leased_record r q now token) = j_request_digest r"
  "j_payload (leased_record r q now token) = j_payload r"
  "j_input_keys (leased_record r q now token) = j_input_keys r"
  "j_output_key (leased_record r q now token) = j_output_key r"
  by (simp_all add: leased_record_def)

text \<open>Claim C3: a lease goes only to a worker that may run the job: the worker is registered,
  approved under its own identity, neither draining nor revoked, and offers nothing unqualified;
  the job's capability was asked for, is registered by the worker and is qualified; the job's
  tenant is exactly the worker's and its requirements hold of the worker. The job is then
  processing under the fresh token with one more attempt, and the grant carries exactly the job's
  request, one read grant per input key and the upload grant of its output key.\<close>

theorem svc_lease_sound:
  assumes "mem_ok (ps_jobs s)" "svc_lease cfg rd i caps secs s = (Inr (Some g), s')"
  shows "\<exists>w r. map_of (ps_workers s) (id_worker_id i) = Some w \<and> approved cfg s i \<and>
      w_status w = W_ACTIVE \<and>
      map_of (snd (mem_expire_exhausted (rd_expire rd) (rd_settle rd) (ps_jobs s))) (lg_job_id g) = Some r \<and>
      lg_capability_id g = j_capability_id r \<and> lg_capability_id g \<in> set caps \<and>
      lg_capability_id g \<in> set (capability_ids w) \<and>
      lg_capability_id g \<notin> set (rf_capability_ids (svc_unqualified cfg)) \<and>
      j_tenant_id r = w_tenant_id w \<and> lg_tenant_id g = w_tenant_id w \<and>
      satisfies_requirements r (w_vram_mb w) (w_gpu_model w) (w_labels w) (id_worker_id i)
        (w_runtime_versions w) \<and>
      map_of (ps_jobs s') (lg_job_id g) =
        Some (leased_record r (worker_query w i (effective_capabilities cfg w caps)
          (case secs of Some n \<Rightarrow> n | None \<Rightarrow> pc_default_lease_seconds cfg)) (rd_store rd) (rd_token rd)) \<and>
      lg_claim_token g = rd_token rd \<and> lg_request_digest g = j_request_digest r \<and>
      lg_payload g = j_payload r \<and> lg_input_keys g = j_input_keys r \<and>
      map ag_key (lg_input_grants g) = j_input_keys r \<and> ag_key (lg_output_grant g) = j_output_key r"
proof -
  from assms(2) show ?thesis
  proof (cases rule: svc_lease_cases)
    case (asked w s1 leased)
    let ?q = "worker_query w i (effective_capabilities cfg w caps)
          (case secs of Some n \<Rightarrow> n | None \<Rightarrow> pc_default_lease_seconds cfg)"
    let ?j = "snd (mem_expire_exhausted (rd_expire rd) (rd_settle rd) (ps_jobs s))"
    have ok: "mem_ok ?j" by (rule mem_expire_ok [OF assms(1)])
    have appr: "approved cfg s i" using asked(2) approved_enrollment_approved by blast
    then have act: "w_status w = W_ACTIVE"
      using asked(1,3) by (cases "w_status w") (auto simp: approved_def)
    obtain job where job: "leased = Some job" using asked(6) by (cases leased) auto
    obtain r where r: "r \<in> set (mem_candidates ?q (rd_store rd) ?j)"
        "job = leased_record r ?q (rd_store rd) (rd_token rd)"
        "s1 = AList.update (j_job_id r) (leased_record r ?q (rd_store rd) (rd_token rd)) ?j"
      using asked(5) job by (cases rule: mem_lease_cases [of ?q "rd_store rd" ?j "rd_token rd"]) auto
    have c: "map_of ?j (j_job_id r) = Some r" "claimable ?q (rd_store rd) r"
      using r(1) by (simp_all add: mem_candidates_iff [OF ok])
    note job_sel = leased_record_same [of r ?q "rd_store rd" "rd_token rd", folded r(2)]
    from asked(6) job have g: "grant_job cfg rd i
        (case secs of Some n \<Rightarrow> n | None \<Rightarrow> pc_default_lease_seconds cfg) job (s\<lparr>ps_jobs := s1\<rparr>) =
        (Inr (Some g), s')" by simp
    from grant_job_state [OF g] job_sel obtain ins out where gr:
      "ps_jobs s' = s1"
      "g = lease_grant_of job (rd_token rd) (rd_clock rd + usec (case secs of Some n \<Rightarrow> n
             | None \<Rightarrow> pc_default_lease_seconds cfg)) ins out"
      "map_result (input_grant (rd_clock rd + usec (pc_grant_ttl_seconds cfg)) (ps_assets s))
         (j_input_keys job) = Inr ins"
      "output_grant_of (rd_clock rd + usec (pc_grant_ttl_seconds cfg)) (ps_assets s)
         (j_output_key job) = Inr out"
      by auto
    have ins: "map ag_key ins = j_input_keys job" by (rule input_grant_keys [OF gr(3)])
    have out: "ag_key out = j_output_key job" by (rule output_grant_key [OF gr(4)])
    show ?thesis
      using asked(1) appr act c ins out
      by (intro exI [of _ w] exI [of _ r])
        (simp add: gr(1,2) r(3) lease_grant_of_def job_sel claimable_def worker_query_def
          effective_capabilities_def)
  next
    case early
    then show ?thesis by blast
  qed
qed

text \<open>When an input asset is missing, \<open>lease\<close> raises after the store has leased the job:
  the worker gets no grant, no audit event is written, and the job stays processing under a token
  nobody was given, with the attempt spent, until its lease lapses.\<close>

theorem svc_lease_missing_asset:
  assumes "mem_ok (ps_jobs s)" "svc_lease cfg rd i caps secs s = (Inl (AssetNotFound key), s')"
  shows "ps_audit s' = ps_audit s \<and>
    (\<exists>r. map_of (ps_jobs s') (j_job_id r) = Some r \<and> key \<in> set (j_input_keys r) \<and>
       j_status r = PROCESSING \<and> j_leased_by r = Some (id_worker_id i) \<and>
       j_claim_token r = Some (rd_token rd) \<and> 1 \<le> j_attempts r)"
proof -
  from assms(2) show ?thesis
  proof (cases rule: svc_lease_cases)
    case (asked w s1 leased)
    let ?q = "worker_query w i (effective_capabilities cfg w caps)
          (case secs of Some n \<Rightarrow> n | None \<Rightarrow> pc_default_lease_seconds cfg)"
    let ?j = "snd (mem_expire_exhausted (rd_expire rd) (rd_settle rd) (ps_jobs s))"
    have ok: "mem_ok ?j" by (rule mem_expire_ok [OF assms(1)])
    obtain job where job: "leased = Some job" using asked(6) by (cases leased) auto
    obtain r where r: "r \<in> set (mem_candidates ?q (rd_store rd) ?j)"
        "job = leased_record r ?q (rd_store rd) (rd_token rd)"
        "s1 = AList.update (j_job_id r) (leased_record r ?q (rd_store rd) (rd_token rd)) ?j"
      using asked(5) job by (cases rule: mem_lease_cases [of ?q "rd_store rd" ?j "rd_token rd"]) auto
    have "0 \<le> j_attempts r"
      using r(1) mem_ok_lookup [OF ok, of "j_job_id r" r]
      by (simp add: mem_candidates_iff [OF ok] stored_ok_def record_ok_def)
    then have sel: "j_status job = PROCESSING" "j_leased_by job = Some (id_worker_id i)"
        "j_claim_token job = Some (rd_token rd)" "1 \<le> j_attempts job" "j_job_id job = j_job_id r"
      by (simp_all add: r(2) leased_record_def worker_query_def)
    from asked(6) job have g: "grant_job cfg rd i
        (case secs of Some n \<Rightarrow> n | None \<Rightarrow> pc_default_lease_seconds cfg) job (s\<lparr>ps_jobs := s1\<rparr>) =
        (Inl (AssetNotFound key), s')" by simp
    have keys: "key \<in> set (j_input_keys job)"
      using g by (rule grant_job_asset_error)
    have "map_of (ps_jobs s') (j_job_id job) = Some job" "ps_audit s' = ps_audit s"
      using grant_job_state [OF g] sel(5) by (simp_all add: r(2,3))
    with sel keys show ?thesis by blast
  next
    case early
    then show ?thesis by blast
  qed
qed

section \<open>Admission\<close>

text \<open>Revocation and identity are enforced on every worker operation: a revoked worker,
  or an identity other than the one the worker is bound to, gets an exception from each of
  heartbeat, lease and the four job calls, and no job, worker or audit row changes.\<close>

theorem svc_revoked_locked_out:
  assumes "map_of (ps_workers s) (id_worker_id i) = Some w"
    "w_status w = W_REVOKED \<or> w_identity_subject w \<noteq> id_subject i"
    "w_worker_id w = id_worker_id i"
  shows "(\<exists>e. svc_call cfg rd i k t call s = (Inl e, s)) \<and>
         (\<exists>e. svc_lease cfg rd i caps secs s = (Inl e, s)) \<and>
         (\<exists>e. svc_register_heartbeat cfg rd i reg s = (Inl e, s))"
proof -
  have "\<exists>e. approved_enrollment cfg i s = (Inl e, s)"
    using assms(1,2) by (cases "w_identity_subject w = id_subject i")
      (simp_all add: approved_enrollment_def slift_def reg_get_def)
  then obtain e where e: "approved_enrollment cfg i s = (Inl e, s)" by blast
  have "\<exists>e. svc_call cfg rd i k t call s = (Inl e, s)"
    using e by (cases call) (auto simp: svc_job_heartbeat_def svc_complete_def svc_fail_def
        svc_release_def owned_job_def sbind_def)
  moreover have "\<exists>e. svc_lease cfg rd i caps secs s = (Inl e, s)"
    using e by (auto simp: svc_lease_def sbind_def)
  moreover have "\<exists>e. svc_register_heartbeat cfg rd i reg s = (Inl e, s)"
    using e by (auto simp: svc_register_heartbeat_def sbind_def sraise_def)
  ultimately show ?thesis by blast
qed

lemma audit_auth_state:
  "audit_auth rd ty w s = (r, s') \<Longrightarrow> ps_active_auth s' = ps_active_auth s \<and> ps_jobs s' = ps_jobs s \<and>
     ps_workers s' = ps_workers s \<and> r = Inr ()"
  by (auto simp: audit_auth_def audit_def Let_def split: prod.splits if_splits)

lemma auth_try_state:
  assumes "auth_try cfg rd result s = (r, s')"
  shows "ps_active_auth s' = ps_active_auth s \<and> ps_jobs s' = ps_jobs s \<and> ps_workers s' = ps_workers s \<and>
    (\<forall>i. r = Inr i \<longrightarrow> result = Inr i \<and> approved cfg s i)"
proof (cases result)
  case (Inr i)
  show ?thesis
  proof (cases "approved_enrollment cfg i s")
    case (Pair a s1)
    then have "s1 = s" using approved_enrollment_state [of cfg i s] by simp
    with assms Inr Pair show ?thesis
      by (cases a) (auto simp: auth_try_def sbind_def sraise_def Let_def
          dest: audit_auth_state approved_enrollment_approved split: prod.splits if_splits sum.splits)
  qed
qed (use assms in \<open>auto simp: auth_try_def sraise_def\<close>)

lemma authenticate_facts:
  assumes "svc_authenticate cfg rd authenticator authorization source s = (res, s')"
  shows "ps_active_auth s' = ps_active_auth s \<and> ps_jobs s' = ps_jobs s \<and> ps_workers s' = ps_workers s \<and>
    (\<forall>i. res = Inr i \<longrightarrow>
       (\<exists>a. authorization = Some a \<and> length a \<le> 8192 \<and> authenticator a (ps_workers s) = Inr i) \<and>
       approved cfg s i)"
proof (cases "auth_begin cfg rd authorization source s")
  case (Pair r s1)
  show ?thesis
  proof (cases r)
    case (Inl e)
    with Pair assms have "res = Inl e" "s' = s1" by (auto simp: svc_authenticate_def sbind_def)
    with Pair Inl show ?thesis
      by (auto simp: auth_begin_def sbind_def sraise_def Let_def dest: audit_auth_state
          split: prod.splits if_splits option.splits sum.splits)
  next
    case (Inr a)
    then have b: "authorization = Some a" "length a \<le> 8192"
        "ps_active_auth s1 = ps_active_auth s + 1" "ps_jobs s1 = ps_jobs s" "ps_workers s1 = ps_workers s"
      using Pair by (auto simp: auth_begin_def sbind_def sraise_def Let_def
          split: prod.splits if_splits option.splits sum.splits)
    have e: "auth_end cfg rd (authenticator a (ps_workers s1)) s1 = (res, s')"
      using assms Pair Inr by (simp add: svc_authenticate_def sbind_def)
    obtain r2 s2 where t: "auth_try cfg rd (authenticator a (ps_workers s1)) s1 = (r2, s2)" by force
    have "ps_active_auth s' = ps_active_auth s2 - 1 \<and> ps_jobs s' = ps_jobs s2 \<and>
        ps_workers s' = ps_workers s2 \<and> (\<forall>i. res = Inr i \<longrightarrow> r2 = Inr i)"
      using e t by (auto simp: auth_end_def Let_def sbind_def sraise_def dest: audit_auth_state
          split: prod.splits if_splits sum.splits)
    moreover have "approved cfg s1 i \<longleftrightarrow> approved cfg s i" for i
      using b(5) by (simp add: approved_def)
    ultimately show ?thesis
      using auth_try_state [OF t] b by auto
  qed
qed

text \<open>Claim C13: authentication admits only approved identities: it returns an identity only if the
  authenticator gave it for the presented credential and the registry or the allowlist binds that
  worker id to that very subject, unrevoked; it changes neither jobs nor workers; and it gives its
  slot back on every path.\<close>

theorem svc_authenticate_sound:
  assumes "svc_authenticate cfg rd authenticator authorization source s = (res, s')"
  shows "ps_active_auth s' = ps_active_auth s \<and> ps_jobs s' = ps_jobs s \<and> ps_workers s' = ps_workers s \<and>
    (\<forall>i. res = Inr i \<longrightarrow>
       (\<exists>a. authorization = Some a \<and> length a \<le> 8192 \<and> authenticator a (ps_workers s) = Inr i) \<and>
       approved cfg s i)"
  using assms by (rule authenticate_facts)

section \<open>Witnesses\<close>

lemma demo_row_sel:
  "j_job_id demo_row = ''a''" "j_leased_by demo_row = Some ''w''" "j_status demo_row = PROCESSING"
  "j_claim_token demo_row = Some ''t''" "j_output_key demo_row = ''outputs/o''"
  "j_capability_id demo_row = ''test.v1''" "j_requirements demo_row = no_requirements"
  "j_idempotency_key demo_row = ''ka''" "j_attempts demo_row = 1" "j_attempt_budget demo_row = 1"
  "j_request_digest demo_row = digest_of (demo_submission ''a'' ''ka'' 1)" "holds_claim demo_row ''t''"
  by (simp_all add: demo_row_def leased_record_def demo_record_def demo_query_def holds_claim_def)
    (simp_all add: new_record_def demo_submission_def)

lemma demo_enrollment:
  "approved_enrollment demo_config demo_identity (demo_pool jobs W_ACTIVE) =
     (Inr \<lparr>we_identity_subject = ''sub'', we_tenant_id = None\<rparr>, demo_pool jobs W_ACTIVE)"
  by (simp add: approved_enrollment_def slift_def demo_defs reg_get_def mk_enrollment_def
      bounded_stripped_def strip_def is_space_def Let_def)

lemma demo_owned:
  "owned_job demo_config demo_identity ''a'' (demo_pool demo_leased W_ACTIVE) =
     (Inr demo_row, demo_pool demo_leased W_ACTIVE)"
  by (simp add: owned_job_iff demo_enrollment demo_row_sel)
    (simp add: demo_pool_def demo_leased_def demo_identity_def)

lemma demo_qualified: "unqualified_reason [''test.v1''] [] (svc_unqualified demo_config) = None"
  by (simp add: unqualified_reason_def svc_unqualified_def demo_config_def ENGINE_RECIPES_def
      mesh3d_capabilities MESH3D_MESH_CAPABILITY_def MESH3D_CLEAN_CAPABILITY_def)

lemma demo_verified:
  "verify_output demo_config (ps_assets (demo_pool jobs st)) demo_row demo_manifest = Inr ()"
  by (simp add: verify_output_def demo_row_sel no_requirements_def demo_qualified svc_pinned_recipe_def Let_def)
    (simp add: demo_defs describe_def read_limited_def asset_read_def demo_row_sel)

lemma demo_held: "mem_leased ''a'' ''t'' demo_leased = Some demo_row"
  by (simp add: mem_leased_iff demo_leased_def demo_row_sel)

lemma demo_pool_jobs [simp]: "ps_jobs (demo_pool jobs st) = jobs"
  by (simp add: demo_pool_def)

lemma demo_complete:
  "\<exists>s'. svc_complete demo_config demo_readings demo_identity ''a'' ''t'' demo_manifest
     (demo_pool demo_leased W_ACTIVE) = (Inr (), s')"
  by (simp add: svc_complete_def sbind_def demo_owned demo_verified on_jobs_def demo_row_sel
      mem_leased_ops(6) [OF demo_held] audit_def)

theorem svc_call_needs_ownership_witness:
  "approved demo_config (demo_pool demo_leased W_ACTIVE) demo_identity"
proof -
  obtain s' where "svc_call demo_config demo_readings demo_identity ''a'' ''t'' (Finish demo_manifest)
      (demo_pool demo_leased W_ACTIVE) = (Inr (), s')"
    using demo_complete by auto
  from svc_call_needs_ownership [OF demo_leased_mem_ok this] show ?thesis by simp
qed

theorem svc_complete_sound_witness:
  "\<exists>s' c. svc_complete demo_config demo_readings demo_identity ''a'' ''t'' demo_manifest
      (demo_pool demo_leased W_ACTIVE) = (Inr (), s') \<and> sha256_hex c = sha256_hex [1, 2]"
proof -
  obtain s' where s': "svc_complete demo_config demo_readings demo_identity ''a'' ''t'' demo_manifest
      (demo_pool demo_leased W_ACTIVE) = (Inr (), s')"
    using demo_complete by blast
  from svc_complete_sound [OF demo_leased_mem_ok s'] s' show ?thesis
    by (auto simp: demo_manifest_def)
qed

lemma demo_rejected:
  "verify_output demo_config (ps_assets (demo_pool jobs st)) demo_row
     (demo_manifest\<lparr>m_idempotency_key := ''kb''\<rparr>) = Inl (CompletionRejected ''idempotency_key_mismatch'')"
  by (simp add: verify_output_def demo_row_sel no_requirements_def demo_qualified svc_pinned_recipe_def Let_def)
    (simp add: demo_manifest_def)

theorem svc_complete_rejected_witness:
  "\<exists>s'. map_of (ps_jobs s') ''a'' =
      Some (failed_record demo_row (rejection ''idempotency_key_mismatch'') 5) \<and>
    svc_complete demo_config demo_readings demo_identity ''a'' ''t''
      (demo_manifest\<lparr>m_idempotency_key := ''kb''\<rparr>) (demo_pool demo_leased W_ACTIVE) =
      (Inl (CompletionRejected ''idempotency_key_mismatch''), s')"
  using svc_complete_rejected [OF demo_leased_mem_ok demo_owned demo_rejected, of demo_readings "''t''"]
  by (auto simp: demo_row_sel demo_readings_def)

theorem svc_release_settles_witness:
  "\<exists>s' r'. svc_release demo_config demo_readings demo_identity ''a'' ''t'' ''drain''
      (demo_pool demo_leased W_ACTIVE) = (Inr (), s') \<and>
    map_of (ps_jobs s') ''a'' = Some r' \<and> j_status r' = FAILED"
proof -
  obtain s' where s': "svc_release demo_config demo_readings demo_identity ''a'' ''t'' ''drain''
      (demo_pool demo_leased W_ACTIVE) = (Inr (), s')"
    by (simp add: svc_release_def sbind_def demo_owned on_jobs_def demo_row_sel
        mem_leased_ops(7) [OF demo_held] audit_def)
  from svc_release_settles [OF demo_leased_mem_ok s'] s' show ?thesis
    by (auto simp: demo_leased_def demo_row_sel)
qed

theorem svc_revoked_locked_out_witness:
  "\<exists>e. svc_lease demo_config demo_readings demo_identity [''test.v1''] None
      (demo_pool demo_leased W_REVOKED) = (Inl e, demo_pool demo_leased W_REVOKED)"
  using svc_revoked_locked_out [of "demo_pool demo_leased W_REVOKED" demo_identity "demo_worker W_REVOKED"]
  by (simp add: demo_pool_def demo_identity_def demo_worker_def)

definition demo_queued :: "string list \<Rightarrow> job_table" where
  "demo_queued inputs = [(''a'', new_record ((demo_submission ''a'' ''ka'' 1)\<lparr>s_input_keys := inputs\<rparr>) 0
      (digest_of ((demo_submission ''a'' ''ka'' 1)\<lparr>s_input_keys := inputs\<rparr>)))]"

lemma demo_queued_ok:
  "distinct inputs \<Longrightarrow> length inputs \<le> 16 \<Longrightarrow> list_all (\<lambda>k. k \<noteq> [] \<and> length k \<le> 1024) inputs \<Longrightarrow>
     mem_ok (ps_jobs (demo_pool (demo_queued inputs) st))"
  using demo_submission_ok [of "''a''" "''ka''" 1]
  unfolding mem_ok_def demo_queued_def
  by (simp add: stored_ok_new submission_ok_def MAX_JOB_INPUT_KEYS_def MAX_ASSET_KEY_LENGTH_def
      del: enc.simps json_depth.simps finite_json.simps) (simp add: demo_submission_def)

definition demo_open :: "string list \<Rightarrow> job_record" where
  "demo_open inputs = new_record ((demo_submission ''a'' ''ka'' 1)\<lparr>s_input_keys := inputs\<rparr>) 0
      (digest_of ((demo_submission ''a'' ''ka'' 1)\<lparr>s_input_keys := inputs\<rparr>))"

lemma demo_open_sel:
  "j_status (demo_open inputs) = QUEUED" "j_capability_id (demo_open inputs) = ''test.v1''"
  "j_attempts (demo_open inputs) = 0" "j_attempt_budget (demo_open inputs) = 1"
  "j_tenant_id (demo_open inputs) = None" "j_requirements (demo_open inputs) = no_requirements"
  "j_job_id (demo_open inputs) = ''a''" "j_input_keys (demo_open inputs) = inputs"
  "j_output_key (demo_open inputs) = ''outputs/o''"
  by (simp_all add: demo_open_def new_record_def demo_submission_def)

lemma demo_queued_alt: "demo_queued inputs = [(''a'', demo_open inputs)]"
  by (simp add: demo_queued_def demo_open_def)

lemma demo_claimable:
  "claimable (worker_query (demo_worker W_ACTIVE) demo_identity [''test.v1''] 30) 5 (demo_open inputs)"
  by (simp add: claimable_def worker_query_def demo_open_sel demo_worker_def demo_identity_def
      satisfies_requirements_def no_requirements_def is_leasable_def)

lemma demo_mem_lease:
  "mem_lease (worker_query (demo_worker W_ACTIVE) demo_identity [''test.v1''] 30) 5 ''t2''
     (demo_queued inputs) =
   (Some (leased_record (demo_open inputs)
       (worker_query (demo_worker W_ACTIVE) demo_identity [''test.v1''] 30) 5 ''t2''),
    [(''a'', leased_record (demo_open inputs)
       (worker_query (demo_worker W_ACTIVE) demo_identity [''test.v1''] 30) 5 ''t2'')])"
  by (simp add: mem_lease_def mem_candidates_def demo_queued_alt demo_claimable demo_open_sel Let_def)

lemma demo_lease_run:
  "svc_lease demo_config demo_readings demo_identity [''test.v1''] None
     (demo_pool (demo_queued inputs) W_ACTIVE) =
   grant_job demo_config demo_readings demo_identity 30
     (leased_record (demo_open inputs)
       (worker_query (demo_worker W_ACTIVE) demo_identity [''test.v1''] 30) 5 ''t2'')
     (demo_pool [(''a'', leased_record (demo_open inputs)
       (worker_query (demo_worker W_ACTIVE) demo_identity [''test.v1''] 30) 5 ''t2'')] W_ACTIVE)"
proof -
  have "reg_get (id_worker_id demo_identity) (ps_workers (demo_pool jobs W_ACTIVE)) =
      Some (demo_worker W_ACTIVE)" for jobs
    by (simp add: reg_get_def demo_identity_def demo_pool_def)
  moreover have "effective_capabilities demo_config (demo_worker W_ACTIVE) [''test.v1''] = [''test.v1'']"
    using demo_qualified
    by (simp add: effective_capabilities_def capability_ids_def demo_worker_def unqualified_reason_def
        split: if_splits)
  moreover have "mem_expire_exhausted n l (demo_queued inputs) = (0, demo_queued inputs)" for n l
    by (simp add: mem_expire_exhausted_def demo_queued_alt demo_open_sel)
  moreover have "unqualified_reason [] (w_runtime_versions (demo_worker W_ACTIVE)) rf = None" for rf
    by (simp add: unqualified_reason_def demo_worker_def)
  moreover have "w_status (demo_worker W_ACTIVE) = W_ACTIVE" "rd_store demo_readings = 5"
      "rd_token demo_readings = ''t2''" "pc_default_lease_seconds demo_config = 30"
    by (simp_all add: demo_worker_def demo_readings_def demo_config_def)
  moreover have "demo_pool jobs W_ACTIVE\<lparr>ps_jobs := jobs'\<rparr> = demo_pool jobs' W_ACTIVE" for jobs jobs'
    by (simp add: demo_pool_def)
  ultimately show ?thesis
    by (simp add: svc_lease_def sbind_def demo_enrollment sread_def on_jobs_def demo_mem_lease Let_def)
qed

lemma demo_output_grant: "\<exists>g. output_grant_of x (ps_assets (demo_pool jobs st)) ''outputs/o'' = Inr g"
  by (simp add: output_grant_of_def create_output_upload_url_def require_prefix_def
      starts_with_any_def starts_with_def demo_defs)

lemma demo_input_grant:
  "input_grant x (ps_assets (demo_pool jobs st)) ''inputs/x'' = Inl (AssetNotFound ''inputs/x'')"
  by (simp add: input_grant_def create_read_url_def require_prefix_def
      starts_with_any_def starts_with_def demo_defs)

lemma leased_sel:
  "j_claim_token (leased_record r q n t) = Some t" "j_input_keys (leased_record r q n t) = j_input_keys r"
  "j_output_key (leased_record r q n t) = j_output_key r"
  by (simp_all add: leased_record_def)

lemma grant_without_inputs:
  assumes "j_claim_token job = Some t" "j_input_keys job = []"
    "\<exists>a. output_grant_of (rd_clock rd + usec (pc_grant_ttl_seconds cfg)) (ps_assets s)
       (j_output_key job) = Inr a"
  shows "\<exists>g s'. grant_job cfg rd i n job s = (Inr (Some g), s')"
  using assms by (auto simp: grant_job_def sbind_def slift_def audit_def sreturn_def Let_def)

theorem svc_lease_sound_witness:
  "\<exists>g s'. svc_lease demo_config demo_readings demo_identity [''test.v1''] None
      (demo_pool (demo_queued []) W_ACTIVE) = (Inr (Some g), s') \<and>
    lg_claim_token g = ''t2'' \<and> lg_tenant_id g = None"
proof -
  obtain g s' where g: "svc_lease demo_config demo_readings demo_identity [''test.v1''] None
      (demo_pool (demo_queued []) W_ACTIVE) = (Inr (Some g), s')"
    unfolding demo_lease_run
    using grant_without_inputs [OF leased_sel(1)] demo_output_grant
    by (metis leased_sel(2,3) demo_open_sel(8,9))
  have ok: "mem_ok (ps_jobs (demo_pool (demo_queued []) W_ACTIVE))"
    by (rule demo_queued_ok) simp_all
  from svc_lease_sound [OF ok g] g show ?thesis
    by (auto simp: demo_pool_def demo_identity_def demo_worker_def demo_readings_def)
qed

theorem svc_lease_missing_asset_witness:
  "\<exists>s' r. svc_lease demo_config demo_readings demo_identity [''test.v1''] None
      (demo_pool (demo_queued [''inputs/x'']) W_ACTIVE) = (Inl (AssetNotFound ''inputs/x''), s') \<and>
    map_of (ps_jobs s') (j_job_id r) = Some r \<and> j_status r = PROCESSING \<and> 1 \<le> j_attempts r"
proof -
  obtain s' where g: "svc_lease demo_config demo_readings demo_identity [''test.v1''] None
      (demo_pool (demo_queued [''inputs/x'']) W_ACTIVE) = (Inl (AssetNotFound ''inputs/x''), s')"
    unfolding demo_lease_run
    by (simp add: grant_job_def sbind_def slift_def leased_sel demo_open_sel demo_input_grant Let_def)
  have ok: "mem_ok (ps_jobs (demo_pool (demo_queued [''inputs/x'']) W_ACTIVE))"
    by (rule demo_queued_ok) simp_all
  from svc_lease_missing_asset [OF ok g] g show ?thesis by blast
qed

definition demo_authenticator :: "string \<Rightarrow> worker_table \<Rightarrow> exn + worker_identity" where
  "demo_authenticator a ws = (if a = ''Bearer x'' then Inr demo_identity else Inl (WorkerAuthError ''no''))"

theorem svc_authenticate_sound_witness:
  "\<exists>s'. svc_authenticate demo_config demo_readings demo_authenticator (Some ''Bearer x'') ''src''
      (demo_pool [] W_ACTIVE) = (Inr demo_identity, s') \<and> ps_active_auth s' = 0 \<and>
    approved demo_config (demo_pool [] W_ACTIVE) demo_identity"
proof -
  obtain s' where s': "svc_authenticate demo_config demo_readings demo_authenticator (Some ''Bearer x'')
      ''src'' (demo_pool [] W_ACTIVE) = (Inr demo_identity, s')"
    by (simp add: svc_authenticate_def sbind_def auth_begin_def auth_end_def auth_try_def
        demo_authenticator_def allow_def refill_def total_seconds_def demo_defs Let_def
        approved_enrollment_def slift_def reg_get_def mk_enrollment_def bounded_stripped_def
        strip_def is_space_def)
  from svc_authenticate_sound [OF s'] s' show ?thesis by (auto simp: demo_pool_def)
qed

end
