(* ===== verification/Routes.thy ===== *)
theory Routes
  imports ServiceProps
begin

text \<open>
  The HTTP surface of routes.py: the closed, bounded request bodies, the mapping of the service's
  exceptions to statuses, and the handlers of the worker router and of the administrator's status
  router. FastAPI calls the identity dependency before the handler and answers 422 to a body the
  request model refuses. The conversions pydantic makes of a JSON value to an integer or a boolean
  are the argument \<open>pd\<close>; its regular expressions are anchored at the very end of the text.
\<close>

section \<open>Fields\<close>

definition MAX_CLAIM_TOKEN_LENGTH :: nat where "MAX_CLAIM_TOKEN_LENGTH = 64"
definition MAX_PLUGIN_ID_LENGTH :: nat where "MAX_PLUGIN_ID_LENGTH = 64"
definition MAX_PLUGIN_VERSION_LENGTH :: nat where "MAX_PLUGIN_VERSION_LENGTH = 32"
definition MAX_MODEL_ID_LENGTH :: nat where "MAX_MODEL_ID_LENGTH = 128"
definition MAX_MODEL_VERSION_LENGTH :: nat where "MAX_MODEL_VERSION_LENGTH = 64"
definition MAX_RUNTIME_VERSIONS :: nat where "MAX_RUNTIME_VERSIONS = 32"
definition MAX_RUNTIME_VERSION_KEY_LENGTH :: nat where "MAX_RUNTIME_VERSION_KEY_LENGTH = 96"
definition MAX_LABELS :: nat where "MAX_LABELS = 16"
definition MAX_CAPABILITIES :: nat where "MAX_CAPABILITIES = 32"

lemmas route_bounds = MAX_CLAIM_TOKEN_LENGTH_def MAX_PLUGIN_ID_LENGTH_def
  MAX_PLUGIN_VERSION_LENGTH_def MAX_MODEL_ID_LENGTH_def MAX_MODEL_VERSION_LENGTH_def
  MAX_RUNTIME_VERSIONS_def MAX_RUNTIME_VERSION_KEY_LENGTH_def MAX_LABELS_def MAX_CAPABILITIES_def

definition hex_char :: "char \<Rightarrow> bool" where
  "hex_char c \<longleftrightarrow> is_digit_ascii c \<or> (CHR ''a'' \<le> c \<and> c \<le> CHR ''f'')"

definition SHA256_PATTERN :: "string \<Rightarrow> bool" where
  "SHA256_PATTERN s \<longleftrightarrow> length s = 64 \<and> list_all hex_char s"

record pydantic =
  pd_int :: "json \<Rightarrow> int option"
  pd_bool :: "json \<Rightarrow> bool option"

text \<open>Parsers of one value; \<open>None\<close> is a validation error.\<close>

type_synonym 'a reader = "json \<Rightarrow> 'a option"

definition str_in :: "nat \<Rightarrow> nat \<Rightarrow> string reader" where
  "str_in lo hi v =
     (case v of JStr s \<Rightarrow> if lo \<le> length s \<and> length s \<le> hi then Some s else None | _ \<Rightarrow> None)"

definition str_like :: "nat \<Rightarrow> nat \<Rightarrow> (string \<Rightarrow> bool) \<Rightarrow> string reader" where
  "str_like lo hi pat v = (case str_in lo hi v of None \<Rightarrow> None | Some s \<Rightarrow> if pat s then Some s else None)"

definition int_from :: "pydantic \<Rightarrow> int \<Rightarrow> int reader" where
  "int_from pd lo v = (case pd_int pd v of None \<Rightarrow> None | Some n \<Rightarrow> if lo \<le> n then Some n else None)"

definition int_in :: "pydantic \<Rightarrow> int \<Rightarrow> int \<Rightarrow> int reader" where
  "int_in pd lo hi v = (case int_from pd lo v of None \<Rightarrow> None | Some n \<Rightarrow> if n \<le> hi then Some n else None)"

definition or_null :: "'a reader \<Rightarrow> 'a option reader" where
  "or_null p v = (if v = JNull then Some None else map_option Some (p v))"

definition list_in :: "nat \<Rightarrow> nat \<Rightarrow> 'a reader \<Rightarrow> 'a list reader" where
  "list_in lo hi p v =
     (case v of
        JArr vs \<Rightarrow> if lo \<le> length vs \<and> length vs \<le> hi then those (map p vs) else None
      | _ \<Rightarrow> None)"

definition dict_in :: "nat \<Rightarrow> nat \<Rightarrow> string reader \<Rightarrow> (string, string) dict reader" where
  "dict_in key_len hi p v =
     (case v of
        JObj kvs \<Rightarrow>
          if length kvs \<le> hi \<and> list_all (\<lambda>k. 1 \<le> length k \<and> length k \<le> key_len) (keys kvs)
          then those (map (\<lambda>(k, v). map_option (Pair k) (p v)) kvs) else None
      | _ \<Rightarrow> None)"

text \<open>A required field, a field with a default, and \<open>extra="forbid"\<close>.\<close>

definition required :: "payload \<Rightarrow> string \<Rightarrow> 'a reader \<Rightarrow> 'a option" where
  "required d k p = Option.bind (map_of d k) p"

definition optional :: "payload \<Rightarrow> string \<Rightarrow> 'a \<Rightarrow> 'a reader \<Rightarrow> 'a option" where
  "optional d k a p = (case map_of d k of None \<Rightarrow> Some a | Some v \<Rightarrow> p v)"

definition closed_model :: "string list \<Rightarrow> (payload \<Rightarrow> 'a option) \<Rightarrow> 'a reader" where
  "closed_model names p v =
     (case v of JObj d \<Rightarrow> if set (keys d) \<subseteq> set names then p d else None | _ \<Rightarrow> None)"

definition capability_id_field :: "string reader" where
  "capability_id_field = str_like 0 MAX_CAPABILITY_ID_LENGTH (full_match CAPABILITY_ID_PATTERN)"

fun cost_class_of :: "json \<Rightarrow> cost_class option" where
  "cost_class_of (JStr s) =
     (if s = ''local'' then Some LOCAL else if s = ''hosted'' then Some HOSTED
      else if s = ''premium'' then Some PREMIUM else None)"
| "cost_class_of _ = None"

fun failure_code_of :: "json \<Rightarrow> job_failure_code option" where
  "failure_code_of (JStr s) =
     (if s = ''invalid_input'' then Some INVALID_INPUT
      else if s = ''unsupported_operation'' then Some UNSUPPORTED_OPERATION
      else if s = ''provider_unavailable'' then Some PROVIDER_UNAVAILABLE
      else if s = ''temporary_failure'' then Some TEMPORARY_FAILURE else None)"
| "failure_code_of _ = None"

section \<open>Request models\<close>

text \<open>The models have the fields of the contract classes their \<open>to_...\<close> methods build, so the
  readers give those.\<close>

abbreviation obind :: "'a option \<Rightarrow> ('a \<Rightarrow> 'b option) \<Rightarrow> 'b option" where
  "obind \<equiv> Option.bind"

definition WorkerCapabilityDto :: "pydantic \<Rightarrow> worker_capability reader" where
  "WorkerCapabilityDto pd =
     closed_model [''capability_id'', ''plugin_id'', ''plugin_version'', ''concurrency''] (\<lambda>d.
       obind (required d ''capability_id'' capability_id_field) (\<lambda>c.
       obind (required d ''plugin_id'' (str_in 1 MAX_PLUGIN_ID_LENGTH)) (\<lambda>p.
       obind (required d ''plugin_version'' (str_in 1 MAX_PLUGIN_VERSION_LENGTH)) (\<lambda>pv.
       obind (optional d ''concurrency'' 1 (int_in pd 1 64)) (\<lambda>n.
       Some \<lparr>wc_capability_id = c, wc_plugin_id = p, wc_plugin_version = pv, wc_concurrency = n\<rparr>)))))"

definition GpuTelemetryDto :: "pydantic \<Rightarrow> gpu_telemetry reader" where
  "GpuTelemetryDto pd =
     closed_model [''index'', ''name'', ''utilization_pct'', ''memory_used_mb'', ''memory_total_mb''] (\<lambda>d.
       obind (required d ''index'' (int_in pd 0 63)) (\<lambda>i.
       obind (required d ''name'' (str_in 1 MAX_GPU_NAME_LENGTH)) (\<lambda>n.
       obind (optional d ''utilization_pct'' None (or_null (int_in pd 0 100))) (\<lambda>u.
       obind (optional d ''memory_used_mb'' None (or_null (int_in pd 0 1000000))) (\<lambda>m.
       obind (optional d ''memory_total_mb'' None (or_null (int_in pd 0 1000000))) (\<lambda>t.
       Some \<lparr>gt_index = i, gt_name = n, gt_utilization_pct = u, gt_memory_used_mb = m,
             gt_memory_total_mb = t\<rparr>))))))"

definition WorkerHeartbeatRequest :: "pydantic \<Rightarrow> worker_registration reader" where
  "WorkerHeartbeatRequest pd =
     closed_model [''worker_id'', ''capabilities'', ''tenant_id'', ''gpu_model'', ''vram_mb'',
       ''runtime_versions'', ''cost_class'', ''labels'', ''active_leases'', ''draining'', ''gpus'',
       ''busy_job_id''] (\<lambda>d.
       obind (required d ''worker_id''
                (str_like 1 MAX_WORKER_ID_LENGTH (full_match WORKER_ID_PATTERN))) (\<lambda>w.
       obind (required d ''capabilities'' (list_in 1 MAX_CAPABILITIES (WorkerCapabilityDto pd))) (\<lambda>caps.
       obind (optional d ''tenant_id'' None (or_null (str_in 1 MAX_TENANT_ID_LENGTH))) (\<lambda>tenant.
       obind (optional d ''gpu_model'' None (or_null (str_in 0 64))) (\<lambda>gpu.
       obind (optional d ''vram_mb'' None (or_null (int_in pd 0 1000000))) (\<lambda>vram.
       obind (optional d ''runtime_versions'' []
                (dict_in MAX_RUNTIME_VERSION_KEY_LENGTH MAX_RUNTIME_VERSIONS (str_in 1 64))) (\<lambda>versions.
       obind (optional d ''cost_class'' LOCAL cost_class_of) (\<lambda>cost.
       obind (optional d ''labels'' [] (list_in 0 MAX_LABELS (str_in 1 32))) (\<lambda>lbls.
       obind (optional d ''active_leases'' 0 (int_in pd 0 64)) (\<lambda>leases.
       obind (optional d ''draining'' False (pd_bool pd)) (\<lambda>draining.
       obind (optional d ''gpus'' [] (list_in 0 MAX_WORKER_GPUS (GpuTelemetryDto pd))) (\<lambda>gpus.
       obind (optional d ''busy_job_id'' None (or_null (str_in 0 MAX_JOB_ID_LENGTH))) (\<lambda>busy.
       Some \<lparr>r_worker_id = w, r_capabilities = caps, r_tenant_id = tenant, r_gpu_model = gpu,
             r_vram_mb = vram, r_runtime_versions = versions, r_cost_class = cost,
             r_labels = lbls, r_active_leases = leases, r_draining = draining, r_gpus = gpus,
             r_busy_job_id = busy\<rparr>)))))))))))))"

definition LeaseRequest :: "pydantic \<Rightarrow> (string list \<times> int option) reader" where
  "LeaseRequest pd =
     closed_model [''capability_ids'', ''lease_seconds''] (\<lambda>d.
       obind (required d ''capability_ids'' (list_in 1 MAX_CAPABILITIES capability_id_field)) (\<lambda>caps.
       obind (optional d ''lease_seconds'' None (or_null (int_in pd 60 7200))) (\<lambda>seconds.
       Some (caps, seconds))))"

definition JobHeartbeatRequest :: "pydantic \<Rightarrow> (string \<times> int option) reader" where
  "JobHeartbeatRequest pd =
     closed_model [''claim_token'', ''progress_percent''] (\<lambda>d.
       obind (required d ''claim_token'' (str_in 1 MAX_CLAIM_TOKEN_LENGTH)) (\<lambda>token.
       obind (optional d ''progress_percent'' None (or_null (int_in pd 0 100))) (\<lambda>progress.
       Some (token, progress))))"

definition diagnostics_field :: "payload reader" where
  "diagnostics_field v =
     (case v of
        JObj d \<Rightarrow> (case validate_job_payload d of Inl _ \<Rightarrow> None | Inr _ \<Rightarrow> Some d)
      | _ \<Rightarrow> None)"

definition OutputManifestDto :: "pydantic \<Rightarrow> output_manifest reader" where
  "OutputManifestDto pd =
     closed_model [''output_key'', ''content_type'', ''byte_length'', ''sha256'', ''idempotency_key'',
       ''request_digest'', ''plugin_id'', ''plugin_version'', ''model_id'', ''model_version'',
       ''publication_mode'', ''seed'', ''diagnostics''] (\<lambda>d.
       obind (required d ''output_key'' (str_in 1 MAX_ASSET_KEY_LENGTH)) (\<lambda>key.
       obind (required d ''content_type'' (str_in 1 128)) (\<lambda>ct.
       obind (required d ''byte_length'' (int_from pd 0)) (\<lambda>len.
       obind (required d ''sha256'' (str_like 0 64 SHA256_PATTERN)) (\<lambda>sha.
       obind (required d ''idempotency_key'' (str_in 1 MAX_JOB_ID_LENGTH)) (\<lambda>ik.
       obind (required d ''request_digest'' (str_like 0 64 SHA256_PATTERN)) (\<lambda>dg.
       obind (required d ''plugin_id'' (str_in 1 MAX_PLUGIN_ID_LENGTH)) (\<lambda>p.
       obind (required d ''plugin_version'' (str_in 1 MAX_PLUGIN_VERSION_LENGTH)) (\<lambda>pv.
       obind (required d ''model_id'' (str_in 1 MAX_MODEL_ID_LENGTH)) (\<lambda>mi.
       obind (required d ''model_version'' (str_in 1 MAX_MODEL_VERSION_LENGTH)) (\<lambda>mv.
       obind (required d ''publication_mode'' (str_in 1 64)) (\<lambda>mode.
       obind (optional d ''seed'' None (or_null (int_from pd 0))) (\<lambda>seed.
       obind (optional d ''diagnostics'' [] diagnostics_field) (\<lambda>diag.
       Some \<lparr>m_output_key = key, m_content_type = ct, m_byte_length = len, m_sha256 = sha,
             m_idempotency_key = ik, m_request_digest = dg, m_plugin_id = p,
             m_plugin_version = pv, m_model_id = mi, m_model_version = mv,
             m_publication_mode = mode, m_seed = seed, m_diagnostics = diag\<rparr>))))))))))))))"

definition CompleteRequest :: "pydantic \<Rightarrow> (string \<times> output_manifest) reader" where
  "CompleteRequest pd =
     closed_model [''claim_token'', ''manifest''] (\<lambda>d.
       obind (required d ''claim_token'' (str_in 1 MAX_CLAIM_TOKEN_LENGTH)) (\<lambda>token.
       obind (required d ''manifest'' (OutputManifestDto pd)) (\<lambda>m.
       Some (token, m))))"

definition FailRequest :: "pydantic \<Rightarrow> (string \<times> string \<times> bool \<times> job_failure_code) reader" where
  "FailRequest pd =
     closed_model [''claim_token'', ''reason'', ''retryable'', ''failure_code''] (\<lambda>d.
       obind (required d ''claim_token'' (str_in 1 MAX_CLAIM_TOKEN_LENGTH)) (\<lambda>token.
       obind (required d ''reason'' (str_in 1 MAX_AUDIT_REASON_LENGTH)) (\<lambda>reason.
       obind (required d ''retryable'' (pd_bool pd)) (\<lambda>retryable.
       obind (required d ''failure_code'' failure_code_of) (\<lambda>code.
       Some (token, reason, retryable, code))))))"

definition ReleaseRequest :: "(string \<times> string) reader" where
  "ReleaseRequest =
     closed_model [''claim_token'', ''reason''] (\<lambda>d.
       obind (required d ''claim_token'' (str_in 1 MAX_CLAIM_TOKEN_LENGTH)) (\<lambda>token.
       obind (required d ''reason'' (str_in 1 MAX_AUDIT_REASON_LENGTH)) (\<lambda>reason.
       Some (token, reason))))"

section \<open>Responses\<close>

datatype detail = Detail string | Reason string

text \<open>\<open>SERVER_ERROR\<close> is an exception that reaches the server unmapped, a 500.\<close>

datatype 'b response =
    OK 'b
  | NO_CONTENT
  | HTTP_ERROR nat detail
  | INVALID_REQUEST
  | SERVER_ERROR exn

fun mapped_error :: "exn \<Rightarrow> 'b response" where
  "mapped_error (CompletionRejected reason) = HTTP_ERROR 422 (Reason reason)"
| "mapped_error (WorkerAuthError _) = HTTP_ERROR 401 (Detail ''worker credential rejected'')"
| "mapped_error (WorkerIdentityMismatch _) = HTTP_ERROR 401 (Detail ''worker credential rejected'')"
| "mapped_error (WorkerRevoked _) = HTTP_ERROR 403 (Detail ''worker is revoked'')"
| "mapped_error (RateLimited _) = HTTP_ERROR 429 (Detail ''worker rate limit'')"
| "mapped_error (WorkerTenantMismatch _) =
     HTTP_ERROR 409 (Detail ''worker tenant is fixed at enrollment'')"
| "mapped_error (WorkerMismatch _) = HTTP_ERROR 409 (Detail ''worker registration conflict'')"
| "mapped_error (WorkerNotRegistered _) = HTTP_ERROR 409 (Detail ''worker registration conflict'')"
| "mapped_error (JobNotFound _) = HTTP_ERROR 404 (Detail ''pool job not found'')"
| "mapped_error (StaleLease _) = HTTP_ERROR 409 (Detail ''job lease is stale'')"
| "mapped_error (ProfileNotQualified _) = HTTP_ERROR 422 (Reason ''profile_not_qualified'')"
| "mapped_error e = SERVER_ERROR e"

definition respond :: "'a operation \<Rightarrow> ('a \<Rightarrow> 'b response) \<Rightarrow> pool_state \<Rightarrow> 'b response \<times> pool_state" where
  "respond m f s = (case m s of (Inl e, s') \<Rightarrow> (mapped_error e, s') | (Inr a, s') \<Rightarrow> (f a, s'))"

record worker_response =
  wr_worker_id :: string
  wr_status :: worker_status
  wr_capability_ids :: "string list"
  wr_server_time :: time

definition WorkerRecordResponse :: "worker_record \<Rightarrow> worker_response" where
  "WorkerRecordResponse w =
     \<lparr>wr_worker_id = w_worker_id w, wr_status = w_status w, wr_capability_ids = capability_ids w,
      wr_server_time = w_updated_at w\<rparr>"

text \<open>The grant a worker sees: every field of the lease grant but the tenant.\<close>

record lease_response =
  lr_job_id :: string
  lr_claim_token :: string
  lr_lease_until :: time
  lr_execution_deadline_seconds :: int
  lr_capability_id :: string
  lr_contract_version :: int
  lr_request_digest :: string
  lr_idempotency_key :: string
  lr_input_keys :: "string list"
  lr_output_key :: string
  lr_payload :: payload
  lr_input_grants :: "asset_grant list"
  lr_output_grant :: asset_grant

definition LeaseResponse :: "lease_grant \<Rightarrow> lease_response" where
  "LeaseResponse g =
     \<lparr>lr_job_id = lg_job_id g, lr_claim_token = lg_claim_token g, lr_lease_until = lg_lease_until g,
      lr_execution_deadline_seconds = lg_execution_deadline_seconds g,
      lr_capability_id = lg_capability_id g, lr_contract_version = lg_contract_version g,
      lr_request_digest = lg_request_digest g, lr_idempotency_key = lg_idempotency_key g,
      lr_input_keys = lg_input_keys g, lr_output_key = lg_output_key g, lr_payload = lg_payload g,
      lr_input_grants = lg_input_grants g, lr_output_grant = lg_output_grant g\<rparr>"

section \<open>The worker router\<close>

text \<open>What a request brings besides its path and body, and the readings of the two service calls it
  makes.\<close>

record request =
  rq_authorization :: "string option"
  rq_client :: "string option"
  rq_auth_readings :: readings
  rq_readings :: readings

type_synonym authenticator = "string \<Rightarrow> worker_table \<Rightarrow> exn + worker_identity"

definition identity_dependency :: "pool_config \<Rightarrow> authenticator \<Rightarrow> request \<Rightarrow> pool_state \<Rightarrow>
    worker_identity response \<times> pool_state" where
  "identity_dependency cfg authenticator rq s =
     (if (case rq_authorization rq of None \<Rightarrow> False | Some a \<Rightarrow> 8192 < length a)
      then (INVALID_REQUEST, s)
      else respond (svc_authenticate cfg (rq_auth_readings rq) authenticator (rq_authorization rq)
                      (case rq_client rq of None \<Rightarrow> ''unknown-peer'' | Some host \<Rightarrow> host)) OK s)"

text \<open>A route: the identity, then the request model, then the handler.\<close>

definition route ::
  "pool_config \<Rightarrow> authenticator \<Rightarrow> request \<Rightarrow> 'r option \<Rightarrow>
     (worker_identity \<Rightarrow> 'r \<Rightarrow> pool_state \<Rightarrow> 'b response \<times> pool_state) \<Rightarrow> pool_state \<Rightarrow>
     'b response \<times> pool_state"
where
  "route cfg authenticator rq body handler s =
     (case identity_dependency cfg authenticator rq s of
        (OK i, s1) \<Rightarrow> (case body of None \<Rightarrow> (INVALID_REQUEST, s1) | Some b \<Rightarrow> handler i b s1)
      | (NO_CONTENT, s1) \<Rightarrow> (NO_CONTENT, s1)
      | (HTTP_ERROR n d, s1) \<Rightarrow> (HTTP_ERROR n d, s1)
      | (INVALID_REQUEST, s1) \<Rightarrow> (INVALID_REQUEST, s1)
      | (SERVER_ERROR e, s1) \<Rightarrow> (SERVER_ERROR e, s1))"

definition job_id_path :: "string \<Rightarrow> 'r option \<Rightarrow> 'r option" where
  "job_id_path job_id body = (if 1 \<le> length job_id \<and> length job_id \<le> MAX_JOB_ID_LENGTH then body else None)"

definition post_heartbeat ::
  "pydantic \<Rightarrow> pool_config \<Rightarrow> authenticator \<Rightarrow> request \<Rightarrow> json \<Rightarrow> pool_state \<Rightarrow>
     worker_response response \<times> pool_state"
where
  "post_heartbeat pd cfg authenticator rq body =
     route cfg authenticator rq (WorkerHeartbeatRequest pd body) (\<lambda>i reg.
       respond (svc_register_heartbeat cfg (rq_readings rq) i reg) (\<lambda>w. OK (WorkerRecordResponse w)))"

definition post_lease ::
  "pydantic \<Rightarrow> pool_config \<Rightarrow> authenticator \<Rightarrow> request \<Rightarrow> json \<Rightarrow> pool_state \<Rightarrow>
     lease_response response \<times> pool_state"
where
  "post_lease pd cfg authenticator rq body =
     route cfg authenticator rq (LeaseRequest pd body) (\<lambda>i (caps, seconds).
       respond (svc_lease cfg (rq_readings rq) i caps seconds) (\<lambda>grant.
         case grant of None \<Rightarrow> NO_CONTENT | Some g \<Rightarrow> OK (LeaseResponse g)))"

definition post_job_heartbeat ::
  "pydantic \<Rightarrow> pool_config \<Rightarrow> authenticator \<Rightarrow> request \<Rightarrow> string \<Rightarrow> json \<Rightarrow> pool_state \<Rightarrow>
     time response \<times> pool_state"
where
  "post_job_heartbeat pd cfg authenticator rq job_id body =
     route cfg authenticator rq (job_id_path job_id (JobHeartbeatRequest pd body)) (\<lambda>i (token, progress).
       respond (svc_job_heartbeat cfg (rq_readings rq) i job_id token progress) OK)"

text \<open>\<open>SettleResponse\<close>: the job id and what became of it.\<close>

definition post_complete ::
  "pydantic \<Rightarrow> pool_config \<Rightarrow> authenticator \<Rightarrow> request \<Rightarrow> string \<Rightarrow> json \<Rightarrow> pool_state \<Rightarrow>
     (string \<times> string) response \<times> pool_state"
where
  "post_complete pd cfg authenticator rq job_id body =
     route cfg authenticator rq (job_id_path job_id (CompleteRequest pd body)) (\<lambda>i (token, m).
       respond (svc_complete cfg (rq_readings rq) i job_id token m) (\<lambda>_. OK (job_id, ''completed'')))"

definition post_fail ::
  "pydantic \<Rightarrow> pool_config \<Rightarrow> authenticator \<Rightarrow> request \<Rightarrow> string \<Rightarrow> json \<Rightarrow> pool_state \<Rightarrow>
     (string \<times> string) response \<times> pool_state"
where
  "post_fail pd cfg authenticator rq job_id body =
     route cfg authenticator rq (job_id_path job_id (FailRequest pd body))
       (\<lambda>i (token, reason, retryable, code).
       respond (svc_fail cfg (rq_readings rq) i job_id token reason retryable code)
         (\<lambda>_. OK (job_id, ''failed'')))"

definition post_release ::
  "pool_config \<Rightarrow> authenticator \<Rightarrow> request \<Rightarrow> string \<Rightarrow> json \<Rightarrow> pool_state \<Rightarrow>
     (string \<times> string) response \<times> pool_state"
where
  "post_release cfg authenticator rq job_id body =
     route cfg authenticator rq (job_id_path job_id (ReleaseRequest body)) (\<lambda>i (token, reason).
       respond (svc_release cfg (rq_readings rq) i job_id token reason)
         (\<lambda>_. OK (job_id, ''released'')))"

definition get_capabilities_schema ::
  "pool_config \<Rightarrow> authenticator \<Rightarrow> request \<Rightarrow> pool_state \<Rightarrow> json response \<times> pool_state"
where
  "get_capabilities_schema cfg authenticator rq =
     route cfg authenticator rq (Some ()) (\<lambda>_ _ s. (OK (svc_capabilities_schema cfg), s))"

section \<open>The status router\<close>

record pool_worker_response =
  pr_gpu_model :: "string option"
  pr_vram_mb :: "int option"
  pr_runtime_versions :: "(string, string) dict"
  pr_worker_id :: string
  pr_status :: pool_worker_status
  pr_last_heartbeat_at :: "time option"
  pr_capabilities :: "string list"
  pr_gpus :: "gpu_telemetry list"
  pr_busy_job_id :: "string option"
  pr_draining :: bool
  pr_tenant_id :: "string option"

definition PoolWorkerResponse :: "pool_worker_view \<Rightarrow> pool_worker_response" where
  "PoolWorkerResponse v =
     \<lparr>pr_gpu_model = pv_gpu_model v, pr_vram_mb = pv_vram_mb v,
      pr_runtime_versions = pv_runtime_versions v, pr_worker_id = pv_worker_id v,
      pr_status = pv_status v, pr_last_heartbeat_at = pv_last_heartbeat_at v,
      pr_capabilities = pv_capability_ids v, pr_gpus = pv_gpus v,
      pr_busy_job_id = pv_busy_job_id v, pr_draining = pv_draining v, pr_tenant_id = pv_tenant_id v\<rparr>"

text \<open>\<open>GpuTelemetryDto.from_telemetry\<close> builds the request model again, bounds included; a sample
  outside them fails the whole listing.\<close>

definition gpu_dto_ok :: "gpu_telemetry \<Rightarrow> bool" where
  "gpu_dto_ok g \<longleftrightarrow>
     0 \<le> gt_index g \<and> gt_index g \<le> 63 \<and>
     1 \<le> length (gt_name g) \<and> length (gt_name g) \<le> MAX_GPU_NAME_LENGTH \<and>
     list_all (\<lambda>(x, hi). case x of None \<Rightarrow> True | Some n \<Rightarrow> 0 \<le> n \<and> n \<le> hi)
       [(gt_utilization_pct g, 100), (gt_memory_used_mb g, 1000000), (gt_memory_total_mb g, 1000000)]"

definition PoolWorkersResponse :: "pool_worker_view list \<Rightarrow> pool_worker_response list response" where
  "PoolWorkersResponse views =
     (if list_all (\<lambda>v. list_all gpu_dto_ok (pv_gpus v)) views
      then OK (map PoolWorkerResponse views)
      else SERVER_ERROR (ValueError ''GpuTelemetryDto''))"

text \<open>\<open>require_admin\<close>: what the host's dependency returned, as a JSON value, must be \<open>True\<close> itself;
  an HTTP error it raised is its answer.\<close>

definition admin_route ::
  "(nat \<times> detail) + json \<Rightarrow> (pool_state \<Rightarrow> 'b response \<times> pool_state) \<Rightarrow> pool_state \<Rightarrow>
     'b response \<times> pool_state"
where
  "admin_route authorized handler s =
     (case authorized of
        Inl (n, d) \<Rightarrow> (HTTP_ERROR n d, s)
      | Inr v \<Rightarrow>
          if v \<noteq> JBool True then (HTTP_ERROR 403 (Detail ''pool administrator required''), s)
          else handler s)"

definition get_pool_workers ::
  "(nat \<times> detail) + json \<Rightarrow> readings \<Rightarrow> string option \<Rightarrow> pool_state \<Rightarrow>
     pool_worker_response list response \<times> pool_state"
where
  "get_pool_workers authorized rd tenant_id =
     admin_route authorized (\<lambda>s.
       if (case tenant_id of None \<Rightarrow> True | Some t \<Rightarrow> 1 \<le> length t \<and> length t \<le> MAX_TENANT_ID_LENGTH)
       then respond (svc_worker_views rd tenant_id POOL_WORKER_ONLINE_WINDOW_SECONDS
                       POOL_WORKER_VISIBILITY_WINDOW_SECONDS) PoolWorkersResponse s
       else (INVALID_REQUEST, s))"

definition get_pool_queue ::
  "(nat \<times> detail) + json \<Rightarrow> readings \<Rightarrow> pool_state \<Rightarrow> queue_depth response \<times> pool_state"
where
  "get_pool_queue authorized rd = admin_route authorized (respond (svc_queue_depth rd) OK)"

end
