(* ===== verification/RoutesProps.thy ===== *)
theory RoutesProps
  imports Routes
begin

text \<open>
  Properties of the HTTP surface: what an accepted body guarantees, who can change a job through it,
  which statuses the job routes answer, what reaches the registry.
\<close>

section \<open>Accepted bodies are bounded\<close>

lemma str_in_Some [result_simps]: "str_in lo hi v = Some s \<longleftrightarrow> v = JStr s \<and> lo \<le> length s \<and> length s \<le> hi"
  by (auto simp: str_in_def split: json.splits)

lemma str_like_Some [result_simps]:
  "str_like lo hi pat v = Some s \<longleftrightarrow> v = JStr s \<and> lo \<le> length s \<and> length s \<le> hi \<and> pat s"
  by (auto simp: str_like_def str_in_def split: json.splits)

lemma int_from_Some [result_simps]: "int_from pd lo v = Some n \<longleftrightarrow> pd_int pd v = Some n \<and> lo \<le> n"
  by (auto simp: int_from_def split: option.splits)

lemma int_in_Some [result_simps]:
  "int_in pd lo hi v = Some n \<longleftrightarrow> pd_int pd v = Some n \<and> lo \<le> n \<and> n \<le> hi"
  by (auto simp: int_in_def int_from_def split: option.splits if_splits)

lemma or_null_Some [result_simps]:
  "or_null p v = Some x \<longleftrightarrow> (v = JNull \<and> x = None) \<or> (v \<noteq> JNull \<and> (\<exists>y. p v = Some y \<and> x = Some y))"
  by (auto simp: or_null_def)

lemma those_Some: "those xs = Some ys \<longleftrightarrow> xs = map Some ys"
  by (induction xs arbitrary: ys) (auto split: option.splits)

lemma list_in_Some [result_simps]:
  "list_in lo hi p v = Some ys \<longleftrightarrow>
     (\<exists>vs. v = JArr vs \<and> map p vs = map Some ys \<and> lo \<le> length ys \<and> length ys \<le> hi)"
  by (auto simp: list_in_def those_Some split: json.splits dest: map_eq_imp_length_eq)

lemma map_Some_mem:
  assumes "map p vs = map Some ys" "y \<in> set ys"
  shows "\<exists>v \<in> set vs. p v = Some y"
proof -
  have "Some y \<in> set (map p vs)" unfolding assms(1) using assms(2) by simp
  then show ?thesis by auto
qed

lemma dict_in_Some:
  assumes "dict_in key_len hi p v = Some d"
  shows "length d \<le> hi \<and> list_all (\<lambda>(k, x). 1 \<le> length k \<and> length k \<le> key_len \<and> (\<exists>w. p w = Some x)) d"
proof -
  obtain kvs where v: "v = JObj kvs" "length kvs \<le> hi"
      "list_all (\<lambda>k. 1 \<le> length k \<and> length k \<le> key_len) (keys kvs)"
      "map (\<lambda>(k, v). map_option (Pair k) (p v)) kvs = map Some d"
    using assms by (auto simp: dict_in_def those_Some split: json.splits if_splits)
  have "1 \<le> length k \<and> length k \<le> key_len \<and> (\<exists>w. p w = Some x)" if "(k, x) \<in> set d" for k x
  proof -
    from map_Some_mem [OF v(4) that] obtain kv
      where "kv \<in> set kvs" "(\<lambda>(k, v). map_option (Pair k) (p v)) kv = Some (k, x)" by blast
    moreover obtain k' w where "kv = (k', w)" by (cases kv)
    ultimately have "(k, w) \<in> set kvs \<and> p w = Some x" by auto
    with v(3) show ?thesis by (auto simp: list_all_iff)
  qed
  moreover have "length d = length kvs" using v(4) by (auto dest: map_eq_imp_length_eq)
  ultimately show ?thesis using v(2) by (auto simp: list_all_iff)
qed

lemma optional_Some:
  "optional d k a p = Some x \<Longrightarrow> x = a \<or> (\<exists>v. p v = Some x)"
  by (auto simp: optional_def split: option.splits)

lemma required_Some: "required d k p = Some x \<Longrightarrow> \<exists>v. p v = Some x"
  by (auto simp: required_def Option.bind_eq_Some_conv)

lemma closed_model_Some [result_simps]:
  "closed_model names p v = Some x \<longleftrightarrow> (\<exists>d. v = JObj d \<and> set (keys d) \<subseteq> set names \<and> p d = Some x)"
  by (auto simp: closed_model_def split: json.splits if_splits)

definition in_range :: "int option \<Rightarrow> int \<Rightarrow> int \<Rightarrow> bool" where
  "in_range x lo hi \<longleftrightarrow> (case x of None \<Rightarrow> True | Some n \<Rightarrow> lo \<le> n \<and> n \<le> hi)"

definition capability_ok :: "worker_capability \<Rightarrow> bool" where
  "capability_ok c \<longleftrightarrow>
     full_match CAPABILITY_ID_PATTERN (wc_capability_id c) \<and>
     length (wc_capability_id c) \<le> MAX_CAPABILITY_ID_LENGTH \<and>
     1 \<le> length (wc_plugin_id c) \<and> length (wc_plugin_id c) \<le> 64 \<and>
     1 \<le> length (wc_plugin_version c) \<and> length (wc_plugin_version c) \<le> 32 \<and>
     1 \<le> wc_concurrency c \<and> wc_concurrency c \<le> 64"

definition registration_ok :: "worker_registration \<Rightarrow> bool" where
  "registration_ok r \<longleftrightarrow>
     full_match WORKER_ID_PATTERN (r_worker_id r) \<and>
     1 \<le> length (r_worker_id r) \<and> length (r_worker_id r) \<le> MAX_WORKER_ID_LENGTH \<and>
     1 \<le> length (r_capabilities r) \<and> length (r_capabilities r) \<le> 32 \<and>
     list_all capability_ok (r_capabilities r) \<and>
     (case r_tenant_id r of None \<Rightarrow> True | Some t \<Rightarrow> 1 \<le> length t \<and> length t \<le> MAX_TENANT_ID_LENGTH) \<and>
     (case r_gpu_model r of None \<Rightarrow> True | Some g \<Rightarrow> length g \<le> 64) \<and>
     in_range (r_vram_mb r) 0 1000000 \<and>
     length (r_runtime_versions r) \<le> 32 \<and>
     list_all (\<lambda>(k, v). 1 \<le> length k \<and> length k \<le> 96 \<and> 1 \<le> length v \<and> length v \<le> 64)
       (r_runtime_versions r) \<and>
     length (r_labels r) \<le> 16 \<and> list_all (\<lambda>l. 1 \<le> length l \<and> length l \<le> 32) (r_labels r) \<and>
     0 \<le> r_active_leases r \<and> r_active_leases r \<le> 64 \<and>
     length (r_gpus r) \<le> MAX_WORKER_GPUS \<and> list_all gpu_dto_ok (r_gpus r) \<and>
     (case r_busy_job_id r of None \<Rightarrow> True | Some j \<Rightarrow> length j \<le> MAX_JOB_ID_LENGTH)"

lemma WorkerCapabilityDto_ok: "WorkerCapabilityDto pd v = Some c \<Longrightarrow> capability_ok c"
  by (auto simp: WorkerCapabilityDto_def capability_ok_def capability_id_field_def result_simps
      Option.bind_eq_Some_conv route_bounds dest!: required_Some optional_Some)

lemma optional_range:
  "optional d k None (or_null (int_in pd lo hi)) = Some x \<Longrightarrow> in_range x lo hi"
  by (auto simp: in_range_def result_simps dest!: optional_Some)

lemma GpuTelemetryDto_ok: "GpuTelemetryDto pd v = Some g \<Longrightarrow> gpu_dto_ok g"
  by (auto simp: GpuTelemetryDto_def gpu_dto_ok_def result_simps Option.bind_eq_Some_conv
      in_range_def dest!: required_Some optional_range)

lemma list_field_ok:
  assumes "list_in lo hi p v = Some ys" "\<And>v y. p v = Some y \<Longrightarrow> ok y"
  shows "lo \<le> length ys \<and> length ys \<le> hi \<and> list_all ok ys"
  using assms map_Some_mem by (fastforce simp: result_simps list_all_iff)

lemma versions_field:
  "optional d k [] (dict_in 96 32 (str_in 1 64)) = Some x \<Longrightarrow>
     length x \<le> 32 \<and> list_all (\<lambda>(k, v). 1 \<le> length k \<and> length k \<le> 96 \<and> 1 \<le> length v \<and> length v \<le> 64) x"
  by (auto simp: result_simps list_all_iff dest!: optional_Some dict_in_Some)

lemma labels_field:
  "optional d k [] (list_in 0 16 (str_in 1 32)) = Some x \<Longrightarrow>
     length x \<le> 16 \<and> list_all (\<lambda>l. 1 \<le> length l \<and> length l \<le> 32) x"
  using list_field_ok [of 0 16 "str_in 1 32" _ x "\<lambda>l. 1 \<le> length l \<and> length l \<le> 32"]
  by (auto simp: result_simps dest!: optional_Some)

lemma gpus_field:
  "optional d k [] (list_in 0 MAX_WORKER_GPUS (GpuTelemetryDto pd)) = Some x \<Longrightarrow>
     length x \<le> MAX_WORKER_GPUS \<and> list_all gpu_dto_ok x"
  using list_field_ok [of 0 MAX_WORKER_GPUS "GpuTelemetryDto pd" _ x gpu_dto_ok] GpuTelemetryDto_ok
  by (auto dest!: optional_Some)

lemma capabilities_field:
  "required d k (list_in 1 32 (WorkerCapabilityDto pd)) = Some x \<Longrightarrow>
     1 \<le> length x \<and> length x \<le> 32 \<and> list_all capability_ok x"
  using list_field_ok [of 1 32 "WorkerCapabilityDto pd" _ x capability_ok] WorkerCapabilityDto_ok
  by (auto dest!: required_Some)

lemma text_field:
  "optional d k None (or_null (str_in lo hi)) = Some x \<Longrightarrow>
     (case x of None \<Rightarrow> True | Some t \<Rightarrow> lo \<le> length t \<and> length t \<le> hi)"
  by (auto simp: result_simps dest!: optional_Some)

lemma registration_read:
  assumes "WorkerHeartbeatRequest pd body = Some reg"
  shows "registration_ok reg"
proof -
  obtain d w caps tenant gpu vram versions cost lbls leases draining gpus busy where
    f: "required d ''worker_id'' (str_like 1 MAX_WORKER_ID_LENGTH (full_match WORKER_ID_PATTERN)) = Some w"
      "required d ''capabilities'' (list_in 1 32 (WorkerCapabilityDto pd)) = Some caps"
      "optional d ''tenant_id'' None (or_null (str_in 1 MAX_TENANT_ID_LENGTH)) = Some tenant"
      "optional d ''gpu_model'' None (or_null (str_in 0 64)) = Some gpu"
      "optional d ''vram_mb'' None (or_null (int_in pd 0 1000000)) = Some vram"
      "optional d ''runtime_versions'' [] (dict_in 96 32 (str_in 1 64)) = Some versions"
      "optional d ''labels'' [] (list_in 0 16 (str_in 1 32)) = Some lbls"
      "optional d ''active_leases'' 0 (int_in pd 0 64) = Some leases"
      "optional d ''gpus'' [] (list_in 0 MAX_WORKER_GPUS (GpuTelemetryDto pd)) = Some gpus"
      "optional d ''busy_job_id'' None (or_null (str_in 0 MAX_JOB_ID_LENGTH)) = Some busy"
    and reg: "reg = \<lparr>r_worker_id = w, r_capabilities = caps, r_tenant_id = tenant, r_gpu_model = gpu,
             r_vram_mb = vram, r_runtime_versions = versions, r_cost_class = cost,
             r_labels = lbls, r_active_leases = leases, r_draining = draining, r_gpus = gpus,
             r_busy_job_id = busy\<rparr>"
    using assms
    by (auto simp: WorkerHeartbeatRequest_def closed_model_Some Option.bind_eq_Some_conv route_bounds)
  have "full_match WORKER_ID_PATTERN w" "1 \<le> length w" "length w \<le> MAX_WORKER_ID_LENGTH" "0 \<le> leases" "leases \<le> 64"
    using f(1,8) by (auto simp: result_simps dest!: required_Some optional_Some)
  with capabilities_field [OF f(2)] text_field [OF f(3)] text_field [OF f(4)] optional_range [OF f(5)]
    versions_field [OF f(6)] labels_field [OF f(7)] gpus_field [OF f(9)] text_field [OF f(10)]
  show ?thesis by (simp add: registration_ok_def reg split: option.splits)
qed

text \<open>Claim C8: a heartbeat body the request model accepts is a JSON object with no field but the
  twelve declared ones, and gives a registration within every declared bound: id shapes, number and
  length of capabilities, versions, labels and GPU samples, ranges of every number.\<close>

theorem heartbeat_body_bounded:
  assumes "WorkerHeartbeatRequest pd body = Some reg"
  shows "registration_ok reg \<and>
    (\<exists>d. body = JObj d \<and> set (keys d) \<subseteq> {''worker_id'', ''capabilities'', ''tenant_id'', ''gpu_model'',
       ''vram_mb'', ''runtime_versions'', ''cost_class'', ''labels'', ''active_leases'', ''draining'',
       ''gpus'', ''busy_job_id''})"
  using registration_read [OF assms] assms by (auto simp: WorkerHeartbeatRequest_def result_simps)

section \<open>Through the identity dependency\<close>

fun status :: "'b response \<Rightarrow> nat" where
  "status (OK _) = 200"
| "status NO_CONTENT = 204"
| "status (HTTP_ERROR n _) = n"
| "status INVALID_REQUEST = 422"
| "status (SERVER_ERROR _) = 500"

lemma mapped_error_not_200: "status (mapped_error e) \<noteq> 200"
  by (cases e) simp_all

lemma mapped_error_not_OK: "mapped_error e \<noteq> OK x" "mapped_error e \<noteq> NO_CONTENT"
  by (cases e; simp)+

lemma approved_enrollment_workers:
  "ps_workers s' = ps_workers s \<Longrightarrow> fst (approved_enrollment cfg i s') = fst (approved_enrollment cfg i s)"
  by (simp add: approved_enrollment_def slift_def)

definition admits :: "pool_config \<Rightarrow> worker_identity \<Rightarrow> pool_state \<Rightarrow> bool" where
  "admits cfg i s \<longleftrightarrow> (\<exists>e. approved_enrollment cfg i s = (Inr e, s))"

lemma admits_iff: "admits cfg i s \<longleftrightarrow> (\<exists>e. fst (approved_enrollment cfg i s) = Inr e)"
proof (cases "approved_enrollment cfg i s")
  case (Pair a s')
  have "s' = s" using approved_enrollment_state [of cfg i s] by (simp only: Pair snd_conv)
  show ?thesis unfolding admits_def Pair \<open>s' = s\<close> by (cases a) simp_all
qed

lemma admits_workers: "ps_workers s' = ps_workers s \<Longrightarrow> admits cfg i s' \<longleftrightarrow> admits cfg i s"
  using approved_enrollment_workers [of s' s cfg i] by (simp add: admits_iff)

lemma auth_try_admits:
  assumes "auth_try cfg rd result s = (Inr i, s')"
  shows "admits cfg i s"
  using assms auth_try_state [OF assms] by (auto simp: auth_try_def sbind_Inr admits_iff)

lemma auth_begin_workers: "auth_begin cfg rd authorization source s = (Inr a, s1) \<Longrightarrow> ps_workers s1 = ps_workers s"
  by (auto simp: auth_begin_def sbind_def sraise_def Let_def
      split: prod.splits if_splits option.splits sum.splits)

lemma auth_end_try:
  "auth_end cfg rd result s = (Inr i, s') \<Longrightarrow> \<exists>s2. auth_try cfg rd result s = (Inr i, s2)"
  by (auto simp: auth_end_def sbind_def sraise_def split: prod.splits if_splits sum.splits)

lemma authenticate_admits:
  assumes "svc_authenticate cfg rd authenticator authorization source s = (Inr i, s')"
  shows "admits cfg i s'"
proof -
  obtain a s1 where s1: "auth_begin cfg rd authorization source s = (Inr a, s1)"
      "auth_end cfg rd (authenticator a (ps_workers s1)) s1 = (Inr i, s')"
    using assms by (auto simp: svc_authenticate_def op_simps)
  then have "admits cfg i s1" using auth_end_try auth_try_admits by blast
  moreover have "ps_workers s' = ps_workers s1"
    using authenticate_facts [OF assms] auth_begin_workers [OF s1(1)] by simp
  ultimately show ?thesis using admits_workers by blast
qed

lemma identity_dependency_facts:
  assumes "identity_dependency cfg authenticator rq s = (r, s1)"
  shows "ps_jobs s1 = ps_jobs s" "ps_workers s1 = ps_workers s" "ps_active_auth s1 = ps_active_auth s"
    "r = OK i \<Longrightarrow> (\<exists>a. rq_authorization rq = Some a \<and> authenticator a (ps_workers s) = Inr i) \<and>
                 approved cfg s i \<and> admits cfg i s1"
  using assms
  by (auto simp: identity_dependency_def respond_def mapped_error_not_OK
      dest: authenticate_facts authenticate_admits
      split: if_splits prod.splits sum.splits)

lemma route_cases:
  assumes "route cfg authenticator rq body handler s = (r, s')"
  obtains (refused) w where "identity_dependency cfg authenticator rq s = (w, s')" "\<nexists>i. w = OK i"
      "status r = status w" "\<nexists>b. r = OK b"
  | (invalid) i where "identity_dependency cfg authenticator rq s = (OK i, s')" "body = None"
      "r = INVALID_REQUEST"
  | (handled) i s1 b where "identity_dependency cfg authenticator rq s = (OK i, s1)" "body = Some b"
      "handler i b s1 = (r, s')"
  using assms by (auto simp: route_def split: prod.splits response.splits option.splits)

section \<open>A heartbeat\<close>

lemma svc_upsert_stored:
  assumes "svc_upsert rd reg subject s = (Inr w, s')"
  shows "ps_jobs s' = ps_jobs s \<and> map_of (ps_workers s') (r_worker_id reg) = Some w \<and>
    w_worker_id w = r_worker_id reg \<and> w_identity_subject w = subject \<and> w_tenant_id w = r_tenant_id reg \<and>
    w_labels w = r_labels reg \<and> w_capabilities w = r_capabilities reg \<and> w_gpus w = r_gpus reg \<and>
    ps_workers s' = AList.update (r_worker_id reg) w (ps_workers s)"
proof (cases rule: reg_upsert_cases [of reg subject "rd_registry rd" "ps_workers s"])
  case (stored st)
  from assms stored(3) have "w = upsert_record reg subject st (map_of (ps_workers s) (r_worker_id reg)) (rd_registry rd)"
      "s' = s\<lparr>ps_workers := AList.update (r_worker_id reg) w (ps_workers s)\<rparr>"
    by (auto simp: svc_upsert_def)
  then show ?thesis by (simp add: upsert_record_def)
qed (use assms in \<open>simp add: svc_upsert_def\<close>)

lemma register_heartbeat_facts:
  assumes "svc_register_heartbeat cfg rd i reg s = (Inr w, s')"
  shows "r_worker_id reg = id_worker_id i \<and> ps_jobs s' = ps_jobs s \<and>
    (\<exists>e. approved_enrollment cfg i s = (Inr e, s) \<and> r_tenant_id reg = we_tenant_id e) \<and>
    map_of (ps_workers s') (id_worker_id i) = Some w \<and> w_worker_id w = id_worker_id i \<and>
    w_identity_subject w = id_subject i \<and>
    w_tenant_id w = r_tenant_id reg \<and> w_labels w = r_labels reg \<and> w_capabilities w = r_capabilities reg \<and>
    w_gpus w = r_gpus reg \<and> ps_workers s' = AList.update (r_worker_id reg) w (ps_workers s) \<and>
    unqualified_reason (map wc_capability_id (r_capabilities reg)) (r_runtime_versions reg)
      (svc_unqualified cfg) = None"
proof -
  have id: "r_worker_id reg = id_worker_id i"
    using assms by (auto simp: svc_register_heartbeat_def sraise_def split: if_splits)
  then obtain e s1 where e: "approved_enrollment cfg i s = (Inr e, s1)"
    using assms by (auto simp: svc_register_heartbeat_def op_simps)
  then have e1: "approved_enrollment cfg i s = (Inr e, s)"
    using approved_enrollment_approved by blast
  have t: "r_tenant_id reg = we_tenant_id e"
    using assms id e1 by (auto simp: svc_register_heartbeat_def sbind_def sraise_def split: if_splits)
  then have reg: "reg\<lparr>r_tenant_id := we_tenant_id e\<rparr> = reg" by simp
  have q: "unqualified_reason (map wc_capability_id (r_capabilities reg)) (r_runtime_versions reg)
      (svc_unqualified cfg) = None"
    using assms id e1 t
    by (auto simp: svc_register_heartbeat_def reg Let_def sbind_def slift_def sraise_def
        split: sum.splits option.splits)
  obtain r s2 where r: "svc_upsert rd reg (id_subject i) s = (r, s2)" by force
  have "r = Inr w \<and> ps_jobs s' = ps_jobs s2 \<and> ps_workers s' = ps_workers s2"
    using assms id e1 q r
    by (cases r, simp_all add: svc_register_heartbeat_def t reg reg [unfolded t] Let_def sbind_def
        slift_def sreturn_def audit_def split: sum.splits exn.splits, auto)
  then have u: "svc_upsert rd reg (id_subject i) s = (Inr w, s2)"
      "ps_jobs s' = ps_jobs s2" "ps_workers s' = ps_workers s2" using r by simp_all
  from svc_upsert_stored [OF u(1)] u(2,3) e1 t q id show ?thesis by auto
qed

lemma route_heartbeat_facts:
  assumes "post_heartbeat pd cfg authenticator rq body s = (OK resp, s')"
  shows "\<exists>i reg w a.
      rq_authorization rq = Some a \<and> authenticator a (ps_workers s) = Inr i \<and> approved cfg s i \<and>
      WorkerHeartbeatRequest pd body = Some reg \<and> registration_ok reg \<and>
      r_worker_id reg = id_worker_id i \<and> ps_jobs s' = ps_jobs s \<and>
      map_of (ps_workers s') (id_worker_id i) = Some w \<and> resp = WorkerRecordResponse w \<and>
      w_worker_id w = id_worker_id i \<and> w_identity_subject w = id_subject i \<and>
      w_tenant_id w = r_tenant_id reg \<and> w_labels w = r_labels reg \<and>
      unqualified_reason (map wc_capability_id (r_capabilities reg)) (r_runtime_versions reg)
        (svc_unqualified cfg) = None"
  using assms unfolding post_heartbeat_def
proof (cases rule: route_cases)
  case (handled i s1 reg)
  then obtain w where w: "svc_register_heartbeat cfg (rq_readings rq) i reg s1 = (Inr w, s')"
      "resp = WorkerRecordResponse w"
    by (auto simp: respond_def mapped_error_not_OK split: prod.splits sum.splits)
  from identity_dependency_facts [OF handled(1)] register_heartbeat_facts [OF w(1)] w(2)
    registration_read [OF handled(2)] handled(2)
  show ?thesis by auto
qed simp_all

text \<open>An accepted heartbeat registers nobody but the caller, within bounds: the
  authenticator accepted the credential presented, the identity is approved, the body is well formed
  and about that worker, the stored row carries the identity's subject, the enrollment's tenant and
  the offered labels, no unqualified profile is offered, and no job changes.\<close>

theorem route_heartbeat_sound:
  assumes "post_heartbeat pd cfg authenticator rq body s = (OK resp, s')"
  shows "\<exists>i reg w a.
      rq_authorization rq = Some a \<and> authenticator a (ps_workers s) = Inr i \<and> approved cfg s i \<and>
      WorkerHeartbeatRequest pd body = Some reg \<and> registration_ok reg \<and>
      r_worker_id reg = id_worker_id i \<and> ps_jobs s' = ps_jobs s \<and>
      map_of (ps_workers s') (id_worker_id i) = Some w \<and> resp = WorkerRecordResponse w \<and>
      w_worker_id w = id_worker_id i \<and> w_identity_subject w = id_subject i \<and>
      w_tenant_id w = r_tenant_id reg \<and> w_labels w = r_labels reg \<and>
      unqualified_reason (map wc_capability_id (r_capabilities reg)) (r_runtime_versions reg)
        (svc_unqualified cfg) = None"
  using assms by (rule route_heartbeat_facts)

section \<open>The calls on a job\<close>

datatype job_post = HeartbeatPost | CompletePost | FailPost | ReleasePost

fun post_job ::
  "job_post \<Rightarrow> pydantic \<Rightarrow> pool_config \<Rightarrow> authenticator \<Rightarrow> request \<Rightarrow> string \<Rightarrow> json \<Rightarrow> pool_state \<Rightarrow>
     nat \<times> pool_state"
where
  "post_job HeartbeatPost pd cfg a rq k body s = map_prod status id (post_job_heartbeat pd cfg a rq k body s)"
| "post_job CompletePost pd cfg a rq k body s = map_prod status id (post_complete pd cfg a rq k body s)"
| "post_job FailPost pd cfg a rq k body s = map_prod status id (post_fail pd cfg a rq k body s)"
| "post_job ReleasePost pd cfg a rq k body s = map_prod status id (post_release cfg a rq k body s)"

text \<open>What a body asks for: the token it presents and the call it makes.\<close>

fun job_body :: "job_post \<Rightarrow> pydantic \<Rightarrow> json \<Rightarrow> (string \<times> job_call) option" where
  "job_body HeartbeatPost pd body = map_option (\<lambda>(t, p). (t, Beat p)) (JobHeartbeatRequest pd body)"
| "job_body CompletePost pd body = map_option (\<lambda>(t, m). (t, Finish m)) (CompleteRequest pd body)"
| "job_body FailPost pd body =
     map_option (\<lambda>(t, reason, retryable, code). (t, GiveUp reason retryable code)) (FailRequest pd body)"
| "job_body ReleasePost pd body = map_option (\<lambda>(t, reason). (t, GiveBack reason)) (ReleaseRequest body)"

lemma job_id_path_Some [result_simps]:
  "job_id_path k body = Some b \<longleftrightarrow> body = Some b \<and> 1 \<le> length k \<and> length k \<le> MAX_JOB_ID_LENGTH"
  by (auto simp: job_id_path_def)

definition call_status :: "exn + unit \<Rightarrow> nat" where
  "call_status res = (case res of Inr _ \<Rightarrow> 200 | Inl e \<Rightarrow> status (mapped_error e :: unit response))"

lemma status_mapped_error: "status (mapped_error e :: 'a response) = status (mapped_error e :: 'b response)"
  by (cases e) simp_all

lemma job_route_cases:
  assumes "map_prod status id (route cfg a rq (job_id_path k body) handler s) = (n, s')"
    and "\<And>i b s1 r. handler i b s1 = (r, s') \<Longrightarrow>
           \<exists>res. svc_call cfg (rq_readings rq) i k (fst (parse b)) (snd (parse b)) s1 = (res, s') \<and>
                 status r = call_status res"
  shows "(n \<noteq> 200 \<and> ps_jobs s' = ps_jobs s \<and> (\<forall>i s1. identity_dependency cfg a rq s = (OK i, s1) \<longrightarrow> n = 422)) \<or>
    (\<exists>i s1 t call res. identity_dependency cfg a rq s = (OK i, s1) \<and> map_option parse body = Some (t, call) \<and>
       svc_call cfg (rq_readings rq) i k t call s1 = (res, s') \<and> n = call_status res)"
proof -
  obtain r where r: "route cfg a rq (job_id_path k body) handler s = (r, s')" "n = status r"
    using assms(1) by (auto simp: map_prod_def split: prod.splits)
  from r(1) show ?thesis
  proof (cases rule: route_cases)
    case (refused w)
    have "status w \<noteq> 200" using refused(1,2)
      by (auto simp: identity_dependency_def respond_def mapped_error_not_200
          split: if_splits prod.splits sum.splits)
    with refused identity_dependency_facts(1) [OF refused(1)] r(2) show ?thesis by auto
  next
    case (invalid i)
    with identity_dependency_facts(1) [OF invalid(1)] r(2) show ?thesis by auto
  next
    case (handled i s1 b)
    then have "body = Some b" by (simp add: result_simps)
    with handled(1) assms(2) [OF handled(3)] r(2) show ?thesis
      by (cases "parse b") auto
  qed
qed

lemma respond_status:
  "respond m (\<lambda>x. OK (f x)) s = (r, s') \<Longrightarrow>
     \<exists>res. sbind m (\<lambda>_. sreturn ()) s = (res, s') \<and> status r = call_status res"
  by (auto simp: respond_def sbind_def sreturn_def call_status_def status_mapped_error
      split: prod.splits sum.splits)

lemma sbind_sreturn: "sbind m sreturn = m"
  by (rule ext) (auto simp: sbind_def sreturn_def split: prod.splits sum.splits)

lemma post_job_cases:
  assumes "post_job kind pd cfg a rq k body s = (n, s')"
  shows "(n \<noteq> 200 \<and> ps_jobs s' = ps_jobs s \<and> (\<forall>i s1. identity_dependency cfg a rq s = (OK i, s1) \<longrightarrow> n = 422)) \<or>
    (\<exists>i s1 t call res. identity_dependency cfg a rq s = (OK i, s1) \<and> job_body kind pd body = Some (t, call) \<and>
       svc_call cfg (rq_readings rq) i k t call s1 = (res, s') \<and> n = call_status res)"
proof (cases kind)
  case HeartbeatPost
  show ?thesis
    using assms unfolding HeartbeatPost post_job.simps job_body.simps post_job_heartbeat_def
    by (rule job_route_cases) (auto dest: respond_status)
next
  case CompletePost
  show ?thesis
    using assms unfolding CompletePost post_job.simps job_body.simps post_complete_def
    by (rule job_route_cases) (auto dest!: respond_status simp: sbind_sreturn)
next
  case FailPost
  show ?thesis
    using assms unfolding FailPost post_job.simps job_body.simps post_fail_def
    by (rule job_route_cases) (auto dest!: respond_status simp: sbind_sreturn)
next
  case ReleasePost
  show ?thesis
    using assms unfolding ReleasePost post_job.simps job_body.simps post_release_def
    by (rule job_route_cases) (auto dest!: respond_status simp: sbind_sreturn)
qed

text \<open>Claim C7: over HTTP too, no job changes without ownership: if a job route answers 200 or
  changes any job, then the authenticator accepted the credential, the identity is approved, the
  body is well formed, the job is processing under that worker's lease and the token in the body is
  the current claim; and only the job in the path changes.\<close>

theorem job_route_needs_ownership:
  assumes "mem_ok (ps_jobs s)" "post_job kind pd cfg authenticator rq k body s = (n, s')"
    "n = 200 \<or> ps_jobs s' \<noteq> ps_jobs s"
  shows "\<exists>i a t call r.
      rq_authorization rq = Some a \<and> authenticator a (ps_workers s) = Inr i \<and> approved cfg s i \<and>
      job_body kind pd body = Some (t, call) \<and>
      map_of (ps_jobs s) k = Some r \<and> j_leased_by r = Some (id_worker_id i) \<and> holds_claim r t \<and>
      (\<forall>k'. k' \<noteq> k \<longrightarrow> map_of (ps_jobs s') k' = map_of (ps_jobs s) k')"
proof -
  obtain i s1 t call res where c: "identity_dependency cfg authenticator rq s = (OK i, s1)"
      "job_body kind pd body = Some (t, call)"
      "svc_call cfg (rq_readings rq) i k t call s1 = (res, s')" "n = call_status res"
    using post_job_cases [OF assms(2)] assms(3) by auto
  have s1: "ps_jobs s1 = ps_jobs s" using identity_dependency_facts(1) [OF c(1)] .
  have "ps_jobs s' \<noteq> ps_jobs s1 \<or> (\<exists>u. res = Inr u)"
    using assms(3) c(4) s1 mapped_error_not_200 by (cases res) (auto simp: call_status_def)
  with svc_call_owner [OF _ c(3)] assms(1) s1
  have "\<exists>r. map_of (ps_jobs s) k = Some r \<and> j_leased_by r = Some (id_worker_id i) \<and> holds_claim r t \<and>
      same_but k (ps_jobs s) (ps_jobs s')" by auto
  with identity_dependency_facts(4) [OF c(1) refl] c(2) show ?thesis unfolding same_but_def by blast
qed

lemma owned_job_error:
  "admits cfg i s \<Longrightarrow> owned_job cfg i k s = (Inl e, s') \<Longrightarrow> e = JobNotFound k \<or> e = StaleLease k"
  by (auto simp: owned_job_def op_simps admits_def split: option.splits if_splits)

lemma svc_complete_error:
  assumes "svc_complete cfg rd i k t m s = (Inl e, s')"
  shows "(\<exists>s1. owned_job cfg i k s = (Inl e, s1)) \<or> e = StaleLease k \<or>
    (\<exists>reason. e = CompletionRejected reason)"
proof (cases "owned_job cfg i k s")
  case (Pair own s1)
  show ?thesis
  proof (cases own)
    case (Inr r)
    show ?thesis
    proof (cases "verify_output cfg (ps_assets s1) r m")
      case (Inl e')
      then obtain reason where "e' = CompletionRejected reason" using verify_output_Inl by blast
      with assms Pair Inr Inl show ?thesis
        by (auto simp: svc_complete_def sbind_def on_jobs_def audit_def sraise_def split: prod.splits)
    qed (use assms Pair Inr in \<open>auto simp: svc_complete_def sbind_def on_jobs_def audit_def sraise_def
          split: prod.splits if_splits\<close>)
  qed (use assms Pair in \<open>simp add: svc_complete_def sbind_def\<close>)
qed

lemma svc_call_error:
  assumes "admits cfg i s" "svc_call cfg rd i k t call s = (Inl e, s')"
  shows "e = JobNotFound k \<or> e = StaleLease k \<or> (\<exists>reason. e = CompletionRejected reason)"
proof (cases "\<exists>s1. owned_job cfg i k s = (Inl e, s1)")
  case True
  with owned_job_error [OF assms(1)] show ?thesis by blast
next
  case False
  then show ?thesis
    using assms(2)
    by (cases call) (auto simp: svc_job_heartbeat_def svc_fail_def svc_release_def
        op_simps dest!: svc_complete_error split: if_splits)
qed


section \<open>Requirements no worker can meet\<close>

text \<open>A label a job may require but no worker can offer: a submission may ask for labels
  of up to 128 characters, a heartbeat offers labels of up to 32; so once a worker's row comes from
  an accepted heartbeat, it can never be leased a job that requires a longer label.\<close>

theorem long_label_never_leased:
  assumes "post_heartbeat pd cfg authenticator rq body s = (OK resp, s')"
    "l \<in> set (labels (j_requirements r))" "32 < length l"
  shows "\<exists>w. map_of (ps_workers s') (wr_worker_id resp) = Some w \<and>
    (\<forall>i caps seconds now. \<not> claimable (worker_query w i caps seconds) now r)"
proof -
  obtain i :: worker_identity and w and reg :: worker_registration where w: "map_of (ps_workers s') (id_worker_id i) = Some w" "w_labels w = r_labels reg"
      "registration_ok reg" "resp = WorkerRecordResponse w" "w_worker_id w = id_worker_id i"
    using route_heartbeat_facts [OF assms(1)] by blast
  from w(3) have "list_all (\<lambda>l. length l \<le> 32) (w_labels w)"
    unfolding w(2) by (simp add: registration_ok_def list_all_iff)
  with assms(2,3) have "\<not> set (labels (j_requirements r)) \<subseteq> set (w_labels w)"
    by (force simp: list_all_iff)
  then have "\<not> claimable (worker_query w i caps seconds) now r" for i caps seconds now
    by (auto simp: claimable_def satisfies_requirements_def worker_query_def Let_def)
  with w(1,4,5) show ?thesis by (simp add: WorkerRecordResponse_def)
qed

section \<open>The administrator's listing\<close>

definition samples_ok :: "worker_table \<Rightarrow> bool" where
  "samples_ok ws \<longleftrightarrow> list_all (\<lambda>(k, w). list_all gpu_dto_ok (w_gpus w)) ws"

lemma samples_ok_update:
  "samples_ok ws \<Longrightarrow> list_all gpu_dto_ok (w_gpus w) \<Longrightarrow> samples_ok (AList.update k w ws)"
  unfolding samples_ok_def by (induction ws) auto

lemma samples_ok_lookup: "samples_ok ws \<Longrightarrow> map_of ws k = Some w \<Longrightarrow> list_all gpu_dto_ok (w_gpus w)"
  by (auto simp: samples_ok_def list_all_iff dest!: map_of_SomeD)

lemma svc_upsert_refused:
  "svc_upsert rd reg subject s = (Inl e, s') \<Longrightarrow> ps_workers s' = ps_workers s"
  by (cases rule: reg_upsert_cases [of reg subject "rd_registry rd" "ps_workers s"])
    (auto simp: svc_upsert_def)

lemma register_heartbeat_refused:
  assumes "svc_register_heartbeat cfg rd i reg s = (Inl e, s')"
  shows "ps_workers s' = ps_workers s"
proof (cases "approved_enrollment cfg i s")
  case (Pair r s1)
  have s1: "s1 = s" using approved_enrollment_state [of cfg i s] by (simp add: Pair)
  show ?thesis
    using assms Pair s1
    by (auto simp: svc_register_heartbeat_def sbind_def sraise_def slift_def sreturn_def audit_def Let_def
        dest: svc_upsert_refused split: if_splits sum.splits option.splits prod.splits exn.splits)
qed

lemma post_heartbeat_samples:
  assumes "samples_ok (ps_workers s)" "post_heartbeat pd cfg authenticator rq body s = (r, s')"
  shows "samples_ok (ps_workers s')"
  using assms(2) unfolding post_heartbeat_def
proof (cases rule: route_cases)
  case (handled i s1 reg)
  have s1: "samples_ok (ps_workers s1)" using assms(1) identity_dependency_facts(2) [OF handled(1)] by simp
  obtain res where res: "svc_register_heartbeat cfg (rq_readings rq) i reg s1 = (res, s')"
    using handled(3) by (auto simp: respond_def split: prod.splits sum.splits)
  show ?thesis
  proof (cases res)
    case (Inl e)
    with res register_heartbeat_refused s1 show ?thesis by fastforce
  next
    case (Inr w)
    with register_heartbeat_facts [of cfg "rq_readings rq" i reg s1 w s'] res
    have "ps_workers s' = AList.update (r_worker_id reg) w (ps_workers s1)" "w_gpus w = r_gpus reg"
      by simp_all
    with registration_read [OF handled(2)] s1 show ?thesis
      by (simp add: samples_ok_update registration_ok_def)
  qed
qed (use assms(1) identity_dependency_facts(2) in auto)

lemma listed_samples:
  assumes "samples_ok ws" "v \<in> set (List.map_filter (worker_view now a b) (filter p (reg_list ws)))"
  shows "list_all gpu_dto_ok (pv_gpus v)"
proof -
  obtain k w where w: "k \<in> set (keys ws)" "w = the (map_of ws k)" "worker_view now a b w = Some v"
    using assms(2) by (fastforce simp: map_filter_def reg_list_def)
  then obtain w' where "map_of ws k = Some w'" by (metis map_of_eq_None_iff not_None_eq set_map)
  with w samples_ok_lookup [OF assms(1), of k] have "list_all gpu_dto_ok (w_gpus w)" by simp
  moreover have "pv_gpus v = w_gpus w" using w(3)
    by (auto simp: worker_view_def Let_def split: option.splits if_splits)
  ultimately show ?thesis by simp
qed

lemma worker_views_samples:
  assumes "samples_ok (ps_workers s)" "svc_worker_views rd t a b s = (Inr views, s')"
  shows "list_all (\<lambda>v. list_all gpu_dto_ok (pv_gpus v)) views"
proof -
  have "v \<in> set views \<Longrightarrow> list_all gpu_dto_ok (pv_gpus v)" for v
    using assms(2) listed_samples [OF assms(1), of v "rd_clock rd" a b "\<lambda>_. True"]
      listed_samples [OF assms(1), of v "rd_clock rd" a b "\<lambda>w. w_tenant_id w = t"]
    by (cases t) (auto simp: svc_worker_views_def sread_def reg_list_by_tenant_def)
  then show ?thesis by (simp add: list_all_iff)
qed

text \<open>The administrator's listing cannot be broken by a worker: heartbeats keep every stored
  GPU sample within the bounds of the listing's response model, so the listing answers 200 (422 for a
  tenant filter out of bounds); and anything but the value \<open>True\<close> from the host's check gets 403.\<close>

theorem pool_listing_safe:
  assumes "samples_ok (ps_workers s)"
  shows "samples_ok (ps_workers (snd (post_heartbeat pd cfg authenticator rq body s))) \<and>
    status (fst (get_pool_workers (Inr (JBool True)) rd t s)) \<in> {200, 422} \<and>
    (\<forall>v. v \<noteq> JBool True \<longrightarrow> get_pool_workers (Inr v) rd t s =
       (HTTP_ERROR 403 (Detail ''pool administrator required''), s))"
proof -
  have "samples_ok (ps_workers (snd (post_heartbeat pd cfg authenticator rq body s)))"
    using post_heartbeat_samples [OF assms] by (metis prod.collapse)
  moreover have "status (fst (get_pool_workers (Inr (JBool True)) rd t s)) \<in> {200, 422}"
    using worker_views_samples [OF assms]
    by (auto simp: get_pool_workers_def admin_route_def respond_def PoolWorkersResponse_def
        svc_worker_views_def sread_def split: prod.splits sum.splits)
  ultimately show ?thesis by (simp add: get_pool_workers_def admin_route_def)
qed

section \<open>Witnesses\<close>

definition demo_pydantic :: pydantic where
  "demo_pydantic =
     \<lparr>pd_int = (\<lambda>v. case v of JInt n \<Rightarrow> Some n | _ \<Rightarrow> None),
      pd_bool = (\<lambda>v. case v of JBool b \<Rightarrow> Some b | _ \<Rightarrow> None)\<rparr>"

definition demo_heartbeat :: json where
  "demo_heartbeat = JObj
     [(''worker_id'', JStr ''w''),
      (''capabilities'', JArr [JObj [(''capability_id'', JStr ''test.v1''), (''plugin_id'', JStr ''p''),
         (''plugin_version'', JStr ''1'')]]),
      (''labels'', JArr [JStr ''fast''])]"

definition demo_request :: request where
  "demo_request = \<lparr>rq_authorization = Some ''Bearer x'', rq_client = None,
     rq_auth_readings = demo_readings, rq_readings = demo_readings\<rparr>"

definition demo_read :: worker_registration where
  "demo_read = (demo_registration ''w'' None)\<lparr>r_capabilities :=
     [\<lparr>wc_capability_id = ''test.v1'', wc_plugin_id = ''p'', wc_plugin_version = ''1'', wc_concurrency = 1\<rparr>],
     r_labels := [''fast'']\<rparr>"

lemma demo_heartbeat_read: "WorkerHeartbeatRequest demo_pydantic demo_heartbeat = Some demo_read"
  by code_simp

lemma demo_route_heartbeat:
  "fst (post_heartbeat demo_pydantic demo_config demo_authenticator demo_request demo_heartbeat
     (demo_pool [] W_ACTIVE)) =
   OK \<lparr>wr_worker_id = ''w'', wr_status = W_ACTIVE, wr_capability_ids = [''test.v1''], wr_server_time = 5\<rparr>"
  by code_simp

lemma demo_admitted:
  "\<exists>s1. identity_dependency demo_config demo_authenticator demo_request (demo_pool jobs W_ACTIVE) =
     (OK demo_identity, s1)"
  by (simp add: identity_dependency_def respond_def demo_request_def svc_authenticate_def sbind_def
      auth_begin_def auth_end_def auth_try_def demo_authenticator_def allow_def refill_def
      total_seconds_def demo_defs Let_def approved_enrollment_def slift_def reg_get_def
      mk_enrollment_def bounded_stripped_def strip_def is_space_def)

definition demo_beat :: json where
  "demo_beat = JObj [(''claim_token'', JStr ''t'')]"

lemma demo_beat_read: "JobHeartbeatRequest demo_pydantic demo_beat = Some (''t'', None)"
  by code_simp

lemma demo_route_job:
  "\<exists>s'. post_job HeartbeatPost demo_pydantic demo_config demo_authenticator demo_request ''a''
     demo_beat (demo_pool demo_leased W_ACTIVE) = (200, s')"
proof -
  obtain s1 where s1: "identity_dependency demo_config demo_authenticator demo_request
      (demo_pool demo_leased W_ACTIVE) = (OK demo_identity, s1)"
    using demo_admitted by blast
  from identity_dependency_facts [OF this] have jobs: "ps_jobs s1 = demo_leased"
      and "admits demo_config demo_identity s1" by simp_all
  then have "owned_job demo_config demo_identity ''a'' s1 = (Inr demo_row, s1)"
    by (simp add: owned_job_iff admits_def demo_row_sel)
      (simp add: demo_leased_def demo_identity_def)
  then obtain t s' where "svc_job_heartbeat demo_config (rq_readings demo_request) demo_identity ''a'' ''t'' None s1 =
      (Inr t, s')"
    by (simp add: svc_job_heartbeat_def sbind_def on_jobs_def jobs demo_row_sel
        mem_leased_ops(5) [OF demo_held] audit_def sreturn_def)
  then show ?thesis
    by (simp add: post_job_heartbeat_def route_def s1 job_id_path_def demo_beat_read respond_def
        MAX_JOB_ID_LENGTH_def)
qed

theorem heartbeat_body_bounded_witness: "registration_ok demo_read"
  using heartbeat_body_bounded [OF demo_heartbeat_read] by simp

lemma demo_route_heartbeat_run:
  obtains s' where "post_heartbeat demo_pydantic demo_config demo_authenticator demo_request
      demo_heartbeat (demo_pool [] W_ACTIVE) =
    (OK \<lparr>wr_worker_id = ''w'', wr_status = W_ACTIVE, wr_capability_ids = [''test.v1''], wr_server_time = 5\<rparr>, s')"
  using demo_route_heartbeat by (metis prod.collapse)

theorem route_heartbeat_sound_witness:
  "\<exists>resp s'. post_heartbeat demo_pydantic demo_config demo_authenticator demo_request
      demo_heartbeat (demo_pool [] W_ACTIVE) = (OK resp, s') \<and> ps_jobs s' = []"
proof -
  obtain s' where s': "post_heartbeat demo_pydantic demo_config demo_authenticator demo_request
      demo_heartbeat (demo_pool [] W_ACTIVE) =
    (OK \<lparr>wr_worker_id = ''w'', wr_status = W_ACTIVE, wr_capability_ids = [''test.v1''], wr_server_time = 5\<rparr>, s')"
    by (rule demo_route_heartbeat_run)
  from route_heartbeat_sound [OF s'] s' show ?thesis by auto
qed

theorem job_route_needs_ownership_witness:
  "\<exists>s'. post_job HeartbeatPost demo_pydantic demo_config demo_authenticator demo_request ''a''
     demo_beat (demo_pool demo_leased W_ACTIVE) = (200, s') \<and>
     approved demo_config (demo_pool demo_leased W_ACTIVE) demo_identity"
proof -
  obtain s' where s': "post_job HeartbeatPost demo_pydantic demo_config demo_authenticator demo_request
      ''a'' demo_beat (demo_pool demo_leased W_ACTIVE) = (200, s')"
    using demo_route_job by blast
  from job_route_needs_ownership [OF demo_leased_mem_ok s'] s' show ?thesis
    by (auto simp: demo_authenticator_def demo_request_def)
qed


text \<open>A submission the store accepts that no HTTP worker can serve.\<close>

definition demo_wide :: job_submission where
  "demo_wide = (demo_submission ''a'' ''ka'' 1)\<lparr>s_requirements :=
     no_requirements\<lparr>labels := [replicate 33 (CHR ''l'')]\<rparr>\<rparr>"

theorem long_label_never_leased_witness:
  "validate_job_submission demo_wide = Inr () \<and>
   (\<exists>s' w. map_of (ps_workers s') ''w'' = Some w \<and>
     snd (post_heartbeat demo_pydantic demo_config demo_authenticator demo_request
       demo_heartbeat (demo_pool [] W_ACTIVE)) = s' \<and>
     \<not> claimable (worker_query w demo_identity [''test.v1''] 30) 5 (new_record demo_wide 0 []))"
proof -
  obtain s' where s': "post_heartbeat demo_pydantic demo_config demo_authenticator demo_request
      demo_heartbeat (demo_pool [] W_ACTIVE) =
    (OK \<lparr>wr_worker_id = ''w'', wr_status = W_ACTIVE, wr_capability_ids = [''test.v1''], wr_server_time = 5\<rparr>, s')"
    by (rule demo_route_heartbeat_run)
  have "replicate 33 (CHR ''l'') \<in> set (labels (j_requirements (new_record demo_wide 0 [])))"
    by (simp add: new_record_def demo_wide_def)
  from long_label_never_leased [OF s' this] s' have
    "\<exists>s' w. map_of (ps_workers s') ''w'' = Some w \<and>
     snd (post_heartbeat demo_pydantic demo_config demo_authenticator demo_request
       demo_heartbeat (demo_pool [] W_ACTIVE)) = s' \<and>
     \<not> claimable (worker_query w demo_identity [''test.v1''] 30) 5 (new_record demo_wide 0 [])"
    by auto
  moreover have "submission_ok demo_wide"
    using demo_submission_ok [of "''a''" "''ka''" 1] unfolding submission_ok_def demo_wide_def
    by (simp add: requirements_ok_def no_requirements_def contract_bounds
        del: enc.simps json_depth.simps finite_json.simps)
  then have "validate_job_submission demo_wide = Inr ()" by (simp add: submission_accepted_iff)
  with calculation show ?thesis by blast
qed

theorem pool_listing_safe_witness:
  "status (fst (get_pool_workers (Inr (JBool True)) demo_readings None (demo_pool [] W_ACTIVE))) \<in> {200, 422}"
  using pool_listing_safe [of "demo_pool [] W_ACTIVE" demo_pydantic demo_config demo_authenticator
      demo_request demo_heartbeat demo_readings None]
  by (simp add: samples_ok_def demo_pool_def demo_worker_def)

end
