(* ===== verification/AgentProps.thy ===== *)
theory AgentProps
  imports Agent RoutesProps
begin

text \<open>
  Properties of the worker agent: what it does for a lease and in which order, what it leaves
  behind, how its loop ends, and that its requests and the coordinator's answers are understood on
  the other side.
\<close>

section \<open>Reasoning about runs\<close>

text \<open>\<open>emits P m\<close>: running \<open>m\<close> only appends calls satisfying \<open>P\<close>.\<close>

named_theorems emit_intros \<open>calls a run makes\<close>

definition emits :: "(call \<Rightarrow> bool) \<Rightarrow> 'a act \<Rightarrow> bool" where
  "emits P m \<longleftrightarrow> (\<forall>s r s'. m s = (r, s') \<longrightarrow> (\<exists>L. ag_log s' = L @ ag_log s \<and> list_all P L))"

lemma emitsD: "emits P m \<Longrightarrow> m s = (r, s') \<Longrightarrow> \<exists>L. ag_log s' = L @ ag_log s \<and> list_all P L"
  by (auto simp: emits_def)

lemma emits_mono: "emits P m \<Longrightarrow> (\<And>c. P c \<Longrightarrow> Q c) \<Longrightarrow> emits Q m"
  unfolding emits_def list_all_iff by blast

lemma emits_areturn [emit_intros]: "emits P (areturn a)"
  by (auto simp: emits_def areturn_def)

lemma emits_araise [emit_intros]: "emits P (araise e)"
  by (auto simp: emits_def araise_def)

lemma emits_ask [emit_intros]: "P c \<Longrightarrow> emits P (ask c answer)"
  by (auto simp: emits_def ask_def)

lemma emits_abind [emit_intros]: "emits P m \<Longrightarrow> (\<And>a. emits P (f a)) \<Longrightarrow> emits P (abind m f)"
  unfolding emits_def abind_def
  by (fastforce split: prod.splits sum.splits)

lemma emits_acatch [emit_intros]: "emits P m \<Longrightarrow> (\<And>e. emits P (h e)) \<Longrightarrow> emits P (acatch m h)"
  unfolding emits_def acatch_def
  by (fastforce split: prod.splits sum.splits)

lemma emits_if: "emits P a \<Longrightarrow> emits P b \<Longrightarrow> emits P (if c then a else b)"
  by simp

lemma emits_eta: "(\<And>s. emits P (f s)) \<Longrightarrow> emits P (\<lambda>s. f s s)"
  unfolding emits_def by blast

section \<open>The calls of a heartbeat\<close>

definition heartbeat_call :: "agent \<Rightarrow> call \<Rightarrow> bool" where
  "heartbeat_call cfg c \<longleftrightarrow>
     c = Credential \<or> c = SampleGpus \<or> (\<exists>h b. c = Post (route_url cfg ''/worker/v1/heartbeat'') h b)"

definition beat_call :: "agent \<Rightarrow> lease_grant \<Rightarrow> call \<Rightarrow> bool" where
  "beat_call cfg lease c \<longleftrightarrow>
     heartbeat_call cfg c \<or> (\<exists>h b. c = Post (job_url cfg lease ''/heartbeat'') h b)"

lemma emits_raise_for_status [emit_intros]: "emits P (raise_for_status r)"
  by (simp add: raise_for_status_def emits_areturn emits_araise)

lemma emits_http_post [emit_intros]:
  assumes "P Credential" "\<And>h. P (Post url h b)"
  shows "emits P (http_post env url b)"
  unfolding http_post_def auth_header_def
  by (intro emit_intros) (simp_all add: assms)

lemma emits_sample_gpus [emit_intros]: "P SampleGpus \<Longrightarrow> emits P (sample_gpus env)"
  unfolding sample_gpus_def by (intro emit_intros)

lemma emits_heartbeat: "emits (heartbeat_call cfg) (heartbeat env cfg draining)"
  unfolding heartbeat_def
proof (rule emits_abind)
  show "emits (heartbeat_call cfg) (sample_gpus env)"
    by (rule emits_sample_gpus) (simp add: heartbeat_call_def)
  show "emits (heartbeat_call cfg) (\<lambda>s. abind (http_post env (route_url cfg ''/worker/v1/heartbeat'')
      (heartbeat_body cfg draining gpus (ag_busy_job_id s))) raise_for_status s)" for gpus
    by (rule emits_eta) (intro emit_intros, simp_all add: heartbeat_call_def)
qed

lemma emits_beat_exchange: "emits (beat_call cfg lease) (beat_exchange env cfg lease presence)"
  unfolding beat_exchange_def
proof (rule emits_acatch)
  have "emits (beat_call cfg lease) (heartbeat env cfg False)"
    by (rule emits_mono [OF emits_heartbeat]) (simp add: beat_call_def)
  moreover have "emits (beat_call cfg lease) (\<lambda>s. abind (http_post env (job_url cfg lease ''/heartbeat'')
      (beat_body lease (ev_progress env (ag_log s)))) (\<lambda>_. areturn ()) s)"
    by (rule emits_eta) (intro emit_intros, simp_all add: beat_call_def heartbeat_call_def)
  ultimately show "emits (beat_call cfg lease) (if presence then heartbeat env cfg False
      else (\<lambda>s. abind (http_post env (job_url cfg lease ''/heartbeat'')
        (beat_body lease (ev_progress env (ag_log s)))) (\<lambda>_. areturn ()) s))"
    by simp
  show "emits (beat_call cfg lease) (case e of HTTPError x \<Rightarrow> areturn () | _ \<Rightarrow> araise e)" for e
    by (cases e) (simp_all add: emits_areturn emits_araise)
qed

lemma beat_step_log: "\<exists>L. ag_log (beat_step env cfg lease s) = L @ ag_log s \<and> list_all (beat_call cfg lease) L"
  using emits_beat_exchange [of cfg lease env]
  by (auto simp: beat_step_def emits_def split: beat_task.split prod.split sum.split)

lemma beat_steps_log:
  "\<exists>L. ag_log ((beat_step env cfg lease ^^ n) s) = L @ ag_log s \<and> list_all (beat_call cfg lease) L"
proof (induction n)
  case (Suc n)
  then obtain L where "ag_log ((beat_step env cfg lease ^^ n) s) = L @ ag_log s" "list_all (beat_call cfg lease) L"
    by blast
  moreover obtain L' where "ag_log (beat_step env cfg lease ((beat_step env cfg lease ^^ n) s)) =
      L' @ ag_log ((beat_step env cfg lease ^^ n) s)" "list_all (beat_call cfg lease) L'"
    using beat_step_log by blast
  ultimately show ?case by (intro exI [of _ "L' @ L"]) simp
qed simp

lemma emits_beats [emit_intros]:
  assumes "\<And>c. beat_call cfg lease c \<Longrightarrow> P c"
  shows "emits P (beats env cfg lease)"
proof -
  have "emits (beat_call cfg lease) (beats env cfg lease)"
    using beat_steps_log by (fastforce simp: emits_def beats_def)
  then show ?thesis by (rule emits_mono) (rule assms)
qed

lemma emits_await [emit_intros]:
  assumes "\<And>c. beat_call cfg lease c \<Longrightarrow> P c" "emits P m"
  shows "emits P (await env cfg lease m)"
proof -
  have b: "emits P (beats env cfg lease)" using assms(1) by (rule emits_beats)
  show ?thesis
    unfolding emits_def
  proof (intro allI impI)
    fix s r s'
    assume "await env cfg lease m s = (r, s')"
    then obtain x s1 s2 y where "beats env cfg lease s = (x, s1)" "m s1 = (r, s2)"
        "beats env cfg lease s2 = (y, s')"
      by (auto simp: await_def Let_def split: prod.splits)
    with emitsD [OF b] emitsD [OF assms(2)]
    obtain L1 L2 L3 where "ag_log s1 = L1 @ ag_log s" "list_all P L1" "ag_log s2 = L2 @ ag_log s1"
        "list_all P L2" "ag_log s' = L3 @ ag_log s2" "list_all P L3" by metis
    then show "\<exists>L. ag_log s' = L @ ag_log s \<and> list_all P L"
      by (intro exI [of _ "L3 @ L2 @ L1"]) simp
  qed
qed

section \<open>The settling calls of a lease\<close>

definition settle_kind :: "agent \<Rightarrow> lease_grant \<Rightarrow> call \<Rightarrow> string option" where
  "settle_kind cfg lease c =
     (case c of
        Post url _ _ \<Rightarrow>
          find (\<lambda>k. url = job_url cfg lease k) [''/complete'', ''/fail'', ''/release'']
      | _ \<Rightarrow> None)"

text \<open>The settling calls in a log, newest first.\<close>

definition settles :: "agent \<Rightarrow> lease_grant \<Rightarrow> call list \<Rightarrow> string list" where
  "settles cfg lease calls = List.map_filter (settle_kind cfg lease) calls"

lemma settles_append [simp]: "settles cfg lease (xs @ ys) = settles cfg lease xs @ settles cfg lease ys"
  by (simp add: settles_def map_filter_def)

lemma settles_Nil [simp]: "settles cfg lease [] = []"
  by (simp add: settles_def map_filter_def)

lemma settles_Cons: "settles cfg lease (c # xs) =
    (case settle_kind cfg lease c of None \<Rightarrow> [] | Some k \<Rightarrow> [k]) @ settles cfg lease xs"
  by (simp add: settles_def map_filter_def split: option.split)

lemma job_url_inj [simp]: "job_url cfg lease k = job_url cfg lease k' \<longleftrightarrow> k = k'"
  by (simp add: job_url_def route_url_def)

lemma job_url_heartbeat [simp]: "route_url cfg ''/worker/v1/heartbeat'' \<noteq> job_url cfg lease k"
  "job_url cfg lease k \<noteq> route_url cfg ''/worker/v1/heartbeat''"
  by (simp_all add: job_url_def route_url_def)

definition quiet :: "agent \<Rightarrow> lease_grant \<Rightarrow> call \<Rightarrow> bool" where
  "quiet cfg lease c \<longleftrightarrow> settle_kind cfg lease c = None"

lemma quiet_settles: "list_all (quiet cfg lease) L \<Longrightarrow> settles cfg lease L = []"
  by (induction L) (auto simp: quiet_def settles_Cons)

lemma quiet_beat: "beat_call cfg lease c \<Longrightarrow> quiet cfg lease c"
  by (auto simp: beat_call_def heartbeat_call_def quiet_def settle_kind_def)

lemma quiet_calls [simp]:
  "quiet cfg lease Credential" "quiet cfg lease SampleGpus" "quiet cfg lease IsStopped"
  "quiet cfg lease (Mkdir p)" "quiet cfg lease (Rmtree p)" "quiet cfg lease (Download u p n)"
  "quiet cfg lease (ReadFile p)" "quiet cfg lease (Upload u p t)" "quiet cfg lease (Execute p ps rq n)"
  by (simp_all add: quiet_def settle_kind_def)

text \<open>A run's settling calls, as a condition on its outcome and them.\<close>

definition settling ::
  "agent \<Rightarrow> lease_grant \<Rightarrow> (agent_exn + 'a \<Rightarrow> string list \<Rightarrow> bool) \<Rightarrow> 'a act \<Rightarrow> bool"
where
  "settling cfg lease Q m \<longleftrightarrow>
     (\<forall>s r s'. m s = (r, s') \<longrightarrow> (\<exists>L. ag_log s' = L @ ag_log s \<and> Q r (settles cfg lease L)))"

lemma settlingD: "settling cfg lease Q m \<Longrightarrow> m s = (r, s') \<Longrightarrow>
    \<exists>L. ag_log s' = L @ ag_log s \<and> Q r (settles cfg lease L)"
  by (auto simp: settling_def)

lemma settling_quiet: "emits (quiet cfg lease) m \<Longrightarrow> settling cfg lease (\<lambda>r ks. ks = []) m"
  unfolding emits_def settling_def by (metis quiet_settles)

lemma settling_weaken: "settling cfg lease Q m \<Longrightarrow> (\<And>r ks. Q r ks \<Longrightarrow> Q' r ks) \<Longrightarrow> settling cfg lease Q' m"
  unfolding settling_def by blast

lemma settling_abind:
  assumes "settling cfg lease Q m" "\<And>a. settling cfg lease (R a) (f a)"
  shows "settling cfg lease
    (\<lambda>r ks. (\<exists>e. r = Inl e \<and> Q (Inl e) ks) \<or> (\<exists>a ks1 ks2. ks = ks2 @ ks1 \<and> Q (Inr a) ks1 \<and> R a r ks2))
    (abind m f)"
  unfolding settling_def
proof (intro allI impI)
  fix s r s'
  assume run: "abind m f s = (r, s')"
  obtain r1 s1 where m: "m s = (r1, s1)" by force
  from settlingD [OF assms(1) m] obtain L1 where L1: "ag_log s1 = L1 @ ag_log s" "Q r1 (settles cfg lease L1)"
    by blast
  show "\<exists>L. ag_log s' = L @ ag_log s \<and> ((\<exists>e. r = Inl e \<and> Q (Inl e) (settles cfg lease L)) \<or>
      (\<exists>a ks1 ks2. settles cfg lease L = ks2 @ ks1 \<and> Q (Inr a) ks1 \<and> R a r ks2))"
  proof (cases r1)
    case (Inl e)
    with run m L1 show ?thesis by (auto simp: abind_def)
  next
    case (Inr a)
    with run m have "f a s1 = (r, s')" by (simp add: abind_def)
    from settlingD [OF assms(2) this] obtain L2 where "ag_log s' = L2 @ ag_log s1" "R a r (settles cfg lease L2)"
      by blast
    with L1 Inr show ?thesis by (intro exI [of _ "L2 @ L1"]) auto
  qed
qed

lemma settling_acatch:
  assumes "settling cfg lease Q m" "\<And>e. settling cfg lease (R e) (h e)"
  shows "settling cfg lease
    (\<lambda>r ks. (\<exists>a. r = Inr a \<and> Q (Inr a) ks) \<or> (\<exists>e ks1 ks2. ks = ks2 @ ks1 \<and> Q (Inl e) ks1 \<and> R e r ks2))
    (acatch m h)"
  unfolding settling_def
proof (intro allI impI)
  fix s r s'
  assume run: "acatch m h s = (r, s')"
  obtain r1 s1 where m: "m s = (r1, s1)" by force
  from settlingD [OF assms(1) m] obtain L1 where L1: "ag_log s1 = L1 @ ag_log s" "Q r1 (settles cfg lease L1)"
    by blast
  show "\<exists>L. ag_log s' = L @ ag_log s \<and> ((\<exists>a. r = Inr a \<and> Q (Inr a) (settles cfg lease L)) \<or>
      (\<exists>e ks1 ks2. settles cfg lease L = ks2 @ ks1 \<and> Q (Inl e) ks1 \<and> R e r ks2))"
  proof (cases r1)
    case (Inr a)
    with run m L1 show ?thesis by (auto simp: acatch_def)
  next
    case (Inl e)
    with run m have "h e s1 = (r, s')" by (simp add: acatch_def)
    from settlingD [OF assms(2) this] obtain L2 where "ag_log s' = L2 @ ag_log s1" "R e r (settles cfg lease L2)"
      by blast
    with L1 Inl show ?thesis by (intro exI [of _ "L2 @ L1"]) auto
  qed
qed

lemma settling_await:
  assumes "settling cfg lease Q m"
  shows "settling cfg lease Q (await env cfg lease m)"
  unfolding settling_def
proof (intro allI impI)
  have b: "emits (quiet cfg lease) (beats env cfg lease)" by (rule emits_beats) (rule quiet_beat)
  fix s r s'
  assume "await env cfg lease m s = (r, s')"
  then obtain x s1 s2 y where run: "beats env cfg lease s = (x, s1)" "m s1 = (r, s2)"
      "beats env cfg lease s2 = (y, s')"
    by (auto simp: await_def Let_def split: prod.splits)
  from emitsD [OF b run(1)] obtain L1 where "ag_log s1 = L1 @ ag_log s" "settles cfg lease L1 = []"
    using quiet_settles by blast
  moreover from settlingD [OF assms run(2)] obtain L2 where "ag_log s2 = L2 @ ag_log s1"
      "Q r (settles cfg lease L2)" by blast
  moreover from emitsD [OF b run(3)] obtain L3 where "ag_log s' = L3 @ ag_log s2" "settles cfg lease L3 = []"
    using quiet_settles by blast
  ultimately show "\<exists>L. ag_log s' = L @ ag_log s \<and> Q r (settles cfg lease L)"
    by (intro exI [of _ "L3 @ L2 @ L1"]) simp
qed

text \<open>Only a plugin raises \<open>PluginRequestRejected\<close>.\<close>

fun is_rej :: "agent_exn \<Rightarrow> bool" where
  "is_rej (PluginRejected _) = True"
| "is_rej _ = False"

definition is_rejection :: "agent_exn + 'a \<Rightarrow> bool" where
  "is_rejection r = (case r of Inl e \<Rightarrow> is_rej e | Inr _ \<Rightarrow> False)"

lemma is_rejection_simps [simp]:
  "is_rejection (Inl e) = is_rej e" "\<not> is_rejection (Inr a)"
  by (simp_all add: is_rejection_def)

definition plain_env :: "agent_env \<Rightarrow> bool" where
  "plain_env env \<longleftrightarrow>
     (\<forall>calls. \<not> is_rejection (ev_credential env calls) \<and> \<not> is_rejection (ev_post env calls) \<and>
        \<not> is_rejection (ev_mkdir env calls) \<and> \<not> is_rejection (ev_download env calls) \<and>
        \<not> is_rejection (ev_read env calls) \<and> \<not> is_rejection (ev_upload env calls) \<and>
        (\<forall>r. ev_post env calls = Inr r \<longrightarrow> \<not> is_rejection (hr_json r)))"

lemma plain_envD:
  assumes "plain_env env"
  shows "ev_credential env calls = Inl e \<Longrightarrow> \<not> is_rej e" "\<not> is_rejection (ev_post env calls)"
    "ev_mkdir env calls = Inl e \<Longrightarrow> \<not> is_rej e" "ev_download env calls = Inl e \<Longrightarrow> \<not> is_rej e"
    "ev_read env calls = Inl e \<Longrightarrow> \<not> is_rej e" "ev_upload env calls = Inl e \<Longrightarrow> \<not> is_rej e"
    "ev_post env calls = Inr x \<Longrightarrow> \<not> is_rejection (hr_json x)"
  using assms unfolding plain_env_def is_rejection_def by (metis sum.simps(5))+

definition settle_routes :: "string list" where
  "settle_routes = [''/complete'', ''/fail'', ''/release'']"

lemma settle_kind_url: "k \<in> set settle_routes \<Longrightarrow> settle_kind cfg lease (Post (job_url cfg lease k) h b) = Some k"
  by (auto simp: settle_kind_def settle_routes_def)

text \<open>The post of a settling call: at most that call, and that call if it returned.\<close>

definition one_call :: "string \<Rightarrow> agent_exn + 'a \<Rightarrow> string list \<Rightarrow> bool" where
  "one_call k r ks \<longleftrightarrow> (ks = [k] \<or> (ks = [] \<and> (\<exists>e. r = Inl e)))"

lemma http_post_run:
  assumes "http_post env url b s = (r, s')"
  shows "(\<exists>e. r = Inl e \<and> ev_credential env (Credential # ag_log s) = Inl e \<and>
            ag_log s' = Credential # ag_log s) \<or>
    (\<exists>c. ev_credential env (Credential # ag_log s) = Inr c \<and>
       ag_log s' = Post url (''Bearer '' @ c) b # Credential # ag_log s \<and> r = ev_post env (ag_log s'))"
  using assms
  by (auto simp: http_post_def auth_header_def abind_def ask_def areturn_def split: sum.splits prod.splits)

lemma settling_post:
  assumes "plain_env env" "k \<in> set settle_routes"
  shows "settling cfg lease (\<lambda>r ks. one_call k r ks \<and> \<not> is_rejection r \<and>
      (\<forall>x. r = Inr x \<longrightarrow> \<not> is_rejection (hr_json x))) (http_post env (job_url cfg lease k) b)"
  unfolding settling_def
proof (intro allI impI)
  fix s r s'
  assume "http_post env (job_url cfg lease k) b s = (r, s')"
  from http_post_run [OF this] show "\<exists>L. ag_log s' = L @ ag_log s \<and> one_call k r (settles cfg lease L) \<and>
      \<not> is_rejection r \<and> (\<forall>x. r = Inr x \<longrightarrow> \<not> is_rejection (hr_json x))"
  proof (elim disjE exE conjE)
    fix e
    assume "r = Inl e" "ev_credential env (Credential # ag_log s) = Inl e" "ag_log s' = Credential # ag_log s"
    with assms(1) show ?thesis
      by (intro exI [of _ "[Credential]"])
        (use plain_envD(1) [OF assms(1)] in \<open>auto simp: one_call_def settles_Cons settle_kind_def\<close>)
  next
    fix c
    assume "ag_log s' = Post (job_url cfg lease k) (''Bearer '' @ c) b # Credential # ag_log s"
      "r = ev_post env (ag_log s')"
    with plain_envD(2,7) [OF assms(1)] settle_kind_url [OF assms(2)] show ?thesis
      by (intro exI [of _ "[Post (job_url cfg lease k) (''Bearer '' @ c) b, Credential]"])
        (auto simp: one_call_def settles_Cons settle_kind_def [of _ _ Credential])
  qed
qed

lemma settling_return: "settling cfg lease (\<lambda>r ks. ks = [] \<and> r = Inr a) (areturn a)"
  by (auto simp: settling_def areturn_def)

lemma settling_raise: "settling cfg lease (\<lambda>r ks. ks = [] \<and> r = Inl e) (araise e)"
  by (auto simp: settling_def araise_def)

lemma settling_ask:
  "quiet cfg lease c \<Longrightarrow> settling cfg lease (\<lambda>r ks. ks = [] \<and> (\<exists>calls. r = answer calls)) (ask c answer)"
  by (auto simp: settling_def ask_def settles_Cons quiet_def)

lemma settling_reject:
  assumes "plain_env env"
  shows "settling cfg lease (\<lambda>r ks. one_call ''/fail'' r ks \<and> (\<forall>x. r = Inr x \<longrightarrow> x = A_REJECTED))
    (agent_reject env cfg lease reason)"
proof -
  have "settling cfg lease (\<lambda>r ks. one_call ''/fail'' r ks) (agent_fail env cfg lease reason False UNSUPPORTED_OPERATION)"
    unfolding agent_fail_def
    by (rule settling_weaken [OF settling_abind [OF settling_await [OF settling_post [OF assms]] settling_return]])
      (auto simp: one_call_def settle_routes_def)
  then show ?thesis
    unfolding agent_reject_def
    by (rule settling_weaken [OF settling_abind [OF _ settling_return]]) (auto simp: one_call_def)
qed

lemma settling_release:
  assumes "plain_env env"
  shows "settling cfg lease (\<lambda>r ks. one_call ''/release'' r ks \<and> (\<forall>x. r = Inr x \<longrightarrow> x = A_RELEASED))
    (agent_release env cfg lease reason)"
  unfolding agent_release_def
  by (rule settling_weaken [OF settling_abind [OF settling_await [OF settling_post [OF assms]] settling_return]])
    (auto simp: one_call_def settle_routes_def)

definition published :: "agent_exn + agent_outcome \<Rightarrow> string list \<Rightarrow> bool" where
  "published r ks \<longleftrightarrow> one_call ''/complete'' r ks \<and> \<not> is_rejection r \<and>
     (\<forall>x. r = Inr x \<longrightarrow> x \<in> {A_COMPLETED, A_FAILED})"

lemma settling_answer:
  assumes "\<not> is_rejection (hr_json x)"
  shows "settling cfg lease (\<lambda>r ks. ks = [] \<and> \<not> is_rejection r \<and> (\<forall>y. r = Inr y \<longrightarrow> y \<in> {A_COMPLETED, A_FAILED}))
    (if hr_status x = 409 \<or> hr_status x = 422 then abind (completion_reason x) (\<lambda>_. areturn A_FAILED)
     else abind (raise_for_status x) (\<lambda>_. areturn A_COMPLETED))"
  using assms
  by (auto simp: settling_def completion_reason_def raise_for_status_def abind_def areturn_def araise_def
      split: sum.splits json.splits)

lemma settling_complete:
  assumes "plain_env env"
  shows "settling cfg lease published
    (abind (await env cfg lease (http_post env (job_url cfg lease ''/complete'') b)) (\<lambda>x.
       if hr_status x = 409 \<or> hr_status x = 422 then abind (completion_reason x) (\<lambda>_. areturn A_FAILED)
       else abind (raise_for_status x) (\<lambda>_. areturn A_COMPLETED)))"
proof -
  have p: "settling cfg lease (\<lambda>r ks. one_call ''/complete'' r ks \<and> \<not> is_rejection r \<and>
      (\<forall>x. r = Inr x \<longrightarrow> \<not> is_rejection (hr_json x)))
    (await env cfg lease (http_post env (job_url cfg lease ''/complete'') b))"
    by (rule settling_await [OF settling_post [OF assms]]) (simp add: settle_routes_def)
  have t: "settling cfg lease (\<lambda>r ks. \<not> is_rejection (hr_json x) \<longrightarrow>
        ks = [] \<and> \<not> is_rejection r \<and> (\<forall>y. r = Inr y \<longrightarrow> y \<in> {A_COMPLETED, A_FAILED}))
      (if hr_status x = 409 \<or> hr_status x = 422 then abind (completion_reason x) (\<lambda>_. areturn A_FAILED)
       else abind (raise_for_status x) (\<lambda>_. areturn A_COMPLETED))" for x
  proof (cases "is_rejection (hr_json x)")
    case True
    then show ?thesis
      by (auto simp: settling_def completion_reason_def raise_for_status_def abind_def areturn_def
          araise_def split: sum.splits json.splits)
  qed (use settling_answer in \<open>auto elim: settling_weaken\<close>)
  show ?thesis
    by (rule settling_weaken [OF settling_abind [OF p t]]) (auto simp: published_def one_call_def)
qed

lemma settling_publish:
  assumes "plain_env env"
  shows "settling cfg lease published (publish env cfg lease out)"
  unfolding publish_def
proof (rule settling_weaken [OF settling_abind [OF settling_ask]])
  show "settling cfg lease published (abind (await env cfg lease (ask
      (Upload (ag_url (lg_output_grant lease)) (po_path out)
         (case ag_content_type (lg_output_grant lease) of
            Some c \<Rightarrow> if c \<noteq> [] then c else po_content_type out | None \<Rightarrow> po_content_type out))
       (ev_upload env))) (\<lambda>_. case map_of (ac_capabilities cfg) (lg_capability_id lease) of
         None \<Rightarrow> araise (OtherError ''KeyError'')
       | Some capability \<Rightarrow>
         abind (await env cfg lease
           (http_post env (job_url cfg lease ''/complete'') (complete_body lease capability out content)))
           (\<lambda>r. if hr_status r = 409 \<or> hr_status r = 422
                then abind (completion_reason r) (\<lambda>_. areturn A_FAILED)
                else abind (raise_for_status r) (\<lambda>_. areturn A_COMPLETED))))" for content
  proof (rule settling_weaken [OF settling_abind [OF settling_await [OF settling_ask]]])
    show "settling cfg lease published (case map_of (ac_capabilities cfg) (lg_capability_id lease) of
         None \<Rightarrow> araise (OtherError ''KeyError'')
       | Some capability \<Rightarrow>
         abind (await env cfg lease
           (http_post env (job_url cfg lease ''/complete'') (complete_body lease capability out content)))
           (\<lambda>r. if hr_status r = 409 \<or> hr_status r = 422
                then abind (completion_reason r) (\<lambda>_. areturn A_FAILED)
                else abind (raise_for_status r) (\<lambda>_. areturn A_COMPLETED)))"
      by (cases "map_of (ac_capabilities cfg) (lg_capability_id lease)")
        (auto simp: settling_complete [OF assms] published_def one_call_def
          intro: settling_weaken [OF settling_raise])
  qed (use plain_envD(6) [OF assms] in \<open>force simp: published_def one_call_def\<close>)+
qed (use plain_envD(5) [OF assms] in \<open>force simp: published_def one_call_def\<close>)+

lemma emits_download: "emits (quiet cfg lease) (download_loop env cfg inputs gs paths)"
  by (induction gs arbitrary: paths) (auto simp: Let_def intro!: emit_intros)

lemma download_plain:
  assumes "plain_env env"
  shows "download_loop env cfg inputs gs paths s = (Inl e, s') \<Longrightarrow> \<not> is_rej e"
proof (induction gs arbitrary: paths s)
  case (Cons g gs)
  from Cons.prems show ?case
    using plain_envD(4) [OF assms] Cons.IH
    by (auto simp: Let_def abind_def ask_def araise_def split: sum.splits if_splits)
qed (simp add: areturn_def)

lemma settling_download:
  assumes "plain_env env"
  shows "settling cfg lease (\<lambda>r ks. ks = [] \<and> \<not> is_rejection r) (download_inputs env cfg lease workspace)"
  unfolding settling_def
proof (intro allI impI)
  fix s r s'
  assume run: "download_inputs env cfg lease workspace s = (r, s')"
  have "emits (quiet cfg lease) (download_inputs env cfg lease workspace)"
    unfolding download_inputs_def Let_def
    by (intro emit_intros emits_download) simp_all
  from emitsD [OF this run] quiet_settles obtain L where
    "ag_log s' = L @ ag_log s" "settles cfg lease L = []" by blast
  moreover have "\<not> is_rejection r"
    using run plain_envD(3) [OF assms] download_plain [OF assms]
    by (cases r) (auto simp: download_inputs_def Let_def abind_def ask_def split: sum.splits)
  ultimately show "\<exists>L. ag_log s' = L @ ag_log s \<and> settles cfg lease L = [] \<and> \<not> is_rejection r"
    by blast
qed

definition worked :: "agent_exn + agent_outcome \<Rightarrow> string list \<Rightarrow> bool" where
  "worked r ks \<longleftrightarrow> published r ks \<or> (ks = [] \<and> (\<exists>e. r = Inl e))"

lemma settling_task:
  "settling cfg lease Q m \<Longrightarrow> settling cfg lease Q (\<lambda>s. m (s\<lparr>ag_task := t\<rparr>))"
  by (fastforce simp: settling_def)

lemma settling_work:
  assumes "plain_env env"
  shows "settling cfg lease worked (work env cfg lease req workspace)"
  unfolding work_def
proof (rule settling_weaken [OF settling_abind [OF settling_download [OF assms]]])
  show "settling cfg lease worked (\<lambda>s. abind (await env cfg lease (ask
         (Execute workspace input_paths req (lg_execution_deadline_seconds lease)) (ev_execute env)))
       (publish env cfg lease) (s\<lparr>ag_task := Beating False\<rparr>))" for input_paths
    by (rule settling_task, rule settling_weaken [OF settling_abind [OF settling_await [OF settling_ask]
        settling_publish [OF assms]]]) (auto simp: worked_def published_def)
qed (auto simp: worked_def)

definition settles_once :: "agent_exn + agent_outcome \<Rightarrow> string list \<Rightarrow> bool" where
  "settles_once r ks \<longleftrightarrow>
     ks \<in> {[], [''/complete''], [''/fail''], [''/release''], [''/release'', ''/complete'']} \<and>
     (case r of
        Inl _ \<Rightarrow> True
      | Inr A_COMPLETED \<Rightarrow> ks = [''/complete'']
      | Inr A_FAILED \<Rightarrow> ks = [''/complete'']
      | Inr A_REJECTED \<Rightarrow> ks = [''/fail'']
      | Inr A_RELEASED \<Rightarrow> ks = [''/release''] \<or> ks = [''/release'', ''/complete'']
      | Inr A_IDLE \<Rightarrow> False)"

lemma settles_finished: "worked (Inr x) ks \<Longrightarrow> settles_once (Inr x) ks"
  by (cases x) (auto simp: settles_once_def worked_def published_def one_call_def)

lemma settles_after:
  assumes "worked (Inl e :: agent_exn + agent_outcome) ks1"
    "if is_rej e then one_call ''/fail'' r ks2 \<and> (\<forall>x. r = Inr x \<longrightarrow> x = A_REJECTED)
     else one_call ''/release'' r ks2 \<and> (\<forall>x. r = Inr x \<longrightarrow> x = A_RELEASED)"
  shows "settles_once r (ks2 @ ks1)"
proof -
  have "ks1 = [] \<or> ks1 = [''/complete''] \<and> \<not> is_rej e"
    using assms(1) by (auto simp: worked_def published_def one_call_def)
  with assms(2) show ?thesis
    by (cases r; cases "is_rej e") (auto simp: settles_once_def one_call_def)
qed

lemma settling_handled_work:
  assumes "plain_env env"
  shows "settling cfg lease settles_once (handled_work env cfg lease req workspace)"
  unfolding handled_work_def
proof (rule settling_weaken [OF settling_acatch [OF settling_work [OF assms]]])
  show "settling cfg lease (\<lambda>r ks. if is_rej e then one_call ''/fail'' r ks \<and> (\<forall>x. r = Inr x \<longrightarrow> x = A_REJECTED)
      else one_call ''/release'' r ks \<and> (\<forall>x. r = Inr x \<longrightarrow> x = A_RELEASED))
    (case e of PluginRejected m \<Rightarrow> agent_reject env cfg lease m | _ \<Rightarrow> agent_release env cfg lease (exn_name e))" for e
    by (cases e) (simp_all add: settling_reject [OF assms] settling_release [OF assms])
next
  fix r ks
  assume "(\<exists>a. r = Inr a \<and> worked (Inr a) ks) \<or>
    (\<exists>e ks1 ks2. ks = ks2 @ ks1 \<and> worked (Inl e) ks1 \<and>
       (if is_rej e then one_call ''/fail'' r ks2 \<and> (\<forall>x. r = Inr x \<longrightarrow> x = A_REJECTED)
        else one_call ''/release'' r ks2 \<and> (\<forall>x. r = Inr x \<longrightarrow> x = A_RELEASED)))"
  then show "settles_once r ks"
    by (elim disjE exE conjE) (simp_all add: settles_finished settles_after)
qed

lemma settling_cleanup:
  "settling cfg lease settles_once m \<Longrightarrow>
     settling cfg lease settles_once (\<lambda>s. cleanup workspace (m (s\<lparr>ag_busy_job_id := b\<rparr>)))"
  unfolding settling_def
proof (intro allI impI)
  assume m: "\<forall>s r s'. m s = (r, s') \<longrightarrow> (\<exists>L. ag_log s' = L @ ag_log s \<and> settles_once r (settles cfg lease L))"
  fix s r s'
  assume run: "cleanup workspace (m (s\<lparr>ag_busy_job_id := b\<rparr>)) = (r, s')"
  obtain r1 s1 where m1: "m (s\<lparr>ag_busy_job_id := b\<rparr>) = (r1, s1)" by force
  with m obtain L where L: "ag_log s1 = L @ ag_log s" "settles_once r1 (settles cfg lease L)" by fastforce
  then have e: "settles_once (Inl e) (settles cfg lease L)" for e by (auto simp: settles_once_def)
  show "\<exists>L. ag_log s' = L @ ag_log s \<and> settles_once r (settles cfg lease L)"
  proof (cases "\<exists>e. ag_task s1 = Broken e")
    case True
    with run m1 L(1) e show ?thesis by (auto simp: cleanup_def Let_def)
  next
    case False
    with run m1 L show ?thesis
      by (intro exI [of _ "Rmtree workspace # L"])
        (auto simp: cleanup_def Let_def settles_Cons settle_kind_def split: beat_task.splits)
  qed
qed

lemma settles_single:
  "one_call ''/fail'' r ks \<and> (\<forall>x. r = Inr x \<longrightarrow> x = A_REJECTED) \<Longrightarrow> settles_once r ks"
  "one_call ''/release'' r ks \<and> (\<forall>x. r = Inr x \<longrightarrow> x = A_RELEASED) \<Longrightarrow> settles_once r ks"
  by (cases r; simp add: settles_once_def one_call_def; blast?)+

lemma settling_serve:
  assumes "plain_env env"
  shows "settling cfg lease settles_once (serve env cfg lease)"
proof -
  have reject: "settling cfg lease settles_once (agent_reject env cfg lease m)" for m
    using settling_reject [OF assms] by (rule settling_weaken) (rule settles_single(1))
  have release: "settling cfg lease settles_once (agent_release env cfg lease m)" for m
    using settling_release [OF assms] by (rule settling_weaken) (rule settles_single(2))
  have "settling cfg lease settles_once
     (\<lambda>s. abind (if ag_stop s then ask IsStopped (\<lambda>log. Inr (ev_stopped env log)) else areturn False)
        (\<lambda>stopped s.
           if stopped then agent_release env cfg lease DRAIN_RELEASE_REASON s
           else let workspace = path_join (ac_workspace_root cfg) (lg_job_id lease) in
             cleanup workspace
               (handled_work env cfg lease req workspace (s\<lparr>ag_busy_job_id := Some (lg_job_id lease)\<rparr>))) s)"
    for req
    unfolding settling_def
  proof (intro allI impI)
    fix s r s'
    let ?k = "\<lambda>stopped s. if stopped then agent_release env cfg lease DRAIN_RELEASE_REASON s
           else let workspace = path_join (ac_workspace_root cfg) (lg_job_id lease) in
             cleanup workspace
               (handled_work env cfg lease req workspace (s\<lparr>ag_busy_job_id := Some (lg_job_id lease)\<rparr>))"
    assume run: "abind (if ag_stop s then ask IsStopped (\<lambda>log. Inr (ev_stopped env log)) else areturn False) ?k s = (r, s')"
    have k: "settling cfg lease settles_once (?k b)" for b
      using release settling_cleanup [OF settling_handled_work [OF assms]] by (cases b) (simp_all add: Let_def)
    show "\<exists>L. ag_log s' = L @ ag_log s \<and> settles_once r (settles cfg lease L)"
    proof (cases "ag_stop s")
      case True
      with run have "?k (ev_stopped env (IsStopped # ag_log s)) (s\<lparr>ag_log := IsStopped # ag_log s\<rparr>) = (r, s')"
        by (simp add: abind_def ask_def)
      from settlingD [OF k this] obtain L where
        "ag_log s' = L @ IsStopped # ag_log s" "settles_once r (settles cfg lease L)" by auto
      then show ?thesis
        by (intro exI [of _ "L @ [IsStopped]"]) (simp add: settles_Cons settle_kind_def)
    next
      case False
      with run have "?k False s = (r, s')" by (simp add: abind_def areturn_def)
      from settlingD [OF k this] show ?thesis .
    qed
  qed
  note work = this
  have "settling cfg lease settles_once (araise e)" for e
    by (rule settling_weaken [OF settling_raise]) (simp add: settles_once_def)
  then show ?thesis
    unfolding serve_def using reject work
    by (simp split: option.split sum.split agent_exn.split)
qed


section \<open>What a served lease leaves behind\<close>

text \<open>\<open>keeps I m\<close>: \<open>I\<close> of the state survives running \<open>m\<close>.\<close>

definition keeps :: "(agent_state \<Rightarrow> bool) \<Rightarrow> 'a act \<Rightarrow> bool" where
  "keeps I m \<longleftrightarrow> (\<forall>s r s'. m s = (r, s') \<longrightarrow> I s \<longrightarrow> I s')"

lemma keepsD: "keeps I m \<Longrightarrow> m s = (r, s') \<Longrightarrow> I s \<Longrightarrow> I s'"
  by (auto simp: keeps_def)

lemma keeps_basic:
  "keeps I (areturn a)" "keeps I (araise e)"
  "(\<And>s l. I s \<Longrightarrow> I (s\<lparr>ag_log := l\<rparr>)) \<Longrightarrow> keeps I (ask c answer)"
  by (auto simp: keeps_def areturn_def araise_def ask_def)

lemma keeps_abind: "keeps I m \<Longrightarrow> (\<And>a. keeps I (f a)) \<Longrightarrow> keeps I (abind m f)"
  unfolding keeps_def abind_def by (fastforce split: prod.splits sum.splits)

lemma keeps_acatch: "keeps I m \<Longrightarrow> (\<And>e. keeps I (h e)) \<Longrightarrow> keeps I (acatch m h)"
  unfolding keeps_def acatch_def by (fastforce split: prod.splits sum.splits)

lemma keeps_eta: "(\<And>s. keeps I (f s)) \<Longrightarrow> keeps I (\<lambda>s. f s s)"
  unfolding keeps_def by blast

text \<open>Conditions on the busy job and the task only.\<close>

definition local_cond :: "(agent_state \<Rightarrow> bool) \<Rightarrow> bool" where
  "local_cond I \<longleftrightarrow> (\<forall>s l. I s \<longrightarrow> I (s\<lparr>ag_log := l\<rparr>))"

lemma keeps_ask: "local_cond I \<Longrightarrow> keeps I (ask c answer)"
  by (rule keeps_basic(3)) (simp add: local_cond_def)

lemmas keep_intros = keeps_basic(1,2) keeps_ask keeps_abind keeps_acatch

lemma keeps_post: "local_cond I \<Longrightarrow> keeps I (http_post env url b)"
  unfolding http_post_def auth_header_def by (intro keep_intros)

lemma keeps_raise_for_status: "keeps I (raise_for_status r)"
  by (simp add: raise_for_status_def keeps_basic)

lemma keeps_heartbeat:
  assumes "local_cond I"
  shows "keeps I (heartbeat env cfg draining)"
  unfolding heartbeat_def sample_gpus_def
  by (rule keeps_abind, intro keep_intros assms, rule keeps_eta)
    (intro keeps_abind keeps_post keeps_raise_for_status assms)

lemma keeps_exchange:
  assumes "local_cond I"
  shows "keeps I (beat_exchange env cfg lease presence)"
  unfolding beat_exchange_def
proof (rule keeps_acatch)
  have "keeps I (\<lambda>s. abind (http_post env (job_url cfg lease ''/heartbeat'')
      (beat_body lease (ev_progress env (ag_log s)))) (\<lambda>_. areturn ()) s)"
    by (rule keeps_eta) (intro keeps_abind keeps_post keeps_basic(1) assms)
  then show "keeps I (if presence then heartbeat env cfg False
      else (\<lambda>s. abind (http_post env (job_url cfg lease ''/heartbeat'')
        (beat_body lease (ev_progress env (ag_log s)))) (\<lambda>_. areturn ()) s))"
    using keeps_heartbeat [OF assms] by simp
  show "keeps I (case e of HTTPError x \<Rightarrow> areturn () | _ \<Rightarrow> araise e)" for e
    by (cases e) (simp_all add: keeps_basic)
qed

text \<open>An environment in which the credential and the coordinator fail only with HTTP errors.\<close>

fun is_http :: "agent_exn \<Rightarrow> bool" where
  "is_http (HTTPError _) = True"
| "is_http _ = False"

definition steady_env :: "agent_env \<Rightarrow> bool" where
  "steady_env env \<longleftrightarrow>
     (\<forall>calls e. (ev_credential env calls = Inl e \<longrightarrow> is_http e) \<and> (ev_post env calls = Inl e \<longrightarrow> is_http e))"

lemma heartbeat_error:
  assumes "steady_env env" "heartbeat env cfg draining s = (Inl e, s')"
  shows "is_http e"
  using assms
  by (auto simp: heartbeat_def sample_gpus_def abind_def acatch_def areturn_def araise_def ask_def
      raise_for_status_def steady_env_def dest!: http_post_run split: sum.splits prod.splits if_splits)

lemma exchange_steady:
  assumes "steady_env env" "beat_exchange env cfg lease presence s = (r, s')"
  shows "r = Inr ()"
proof (cases presence)
  case True
  obtain r1 s1 where h: "heartbeat env cfg False s = (r1, s1)" by force
  show ?thesis
  proof (cases r1)
    case (Inl e)
    with heartbeat_error [OF assms(1)] h have "is_http e" by blast
    then obtain n where "e = HTTPError n" by (cases e) simp_all
    with assms(2) True h Inl show ?thesis by (simp add: beat_exchange_def acatch_def areturn_def)
  qed (use assms(2) True h in \<open>simp add: beat_exchange_def acatch_def\<close>)
next
  case False
  obtain r1 s1 where h: "http_post env (job_url cfg lease ''/heartbeat'')
      (beat_body lease (ev_progress env (ag_log s))) s = (r1, s1)" by force
  show ?thesis
  proof (cases r1)
    case (Inl e)
    with http_post_run [OF h] assms(1) have "is_http e" by (auto simp: steady_env_def)
    then obtain n where "e = HTTPError n" by (cases e) simp_all
    with assms(2) False h Inl show ?thesis
      by (simp add: beat_exchange_def acatch_def abind_def areturn_def)
  qed (use assms(2) False h in \<open>simp add: beat_exchange_def acatch_def abind_def areturn_def\<close>)
qed

definition unbroken :: "agent_state \<Rightarrow> bool" where
  "unbroken s \<longleftrightarrow> (\<forall>e. ag_task s \<noteq> Broken e)"

definition idle_task :: "agent_state \<Rightarrow> bool" where
  "idle_task s \<longleftrightarrow> ag_busy_job_id s = None \<and> ag_task s = No_task"

lemma local_conds: "local_cond unbroken" "local_cond idle_task"
  by (auto simp: local_cond_def unbroken_def idle_task_def)

lemma beats_unbroken:
  assumes "steady_env env"
  shows "keeps unbroken (beats env cfg lease)"
proof -
  have "unbroken s \<Longrightarrow> unbroken (beat_step env cfg lease s)" for s
    by (auto simp: beat_step_def unbroken_def dest: exchange_steady [OF assms] split: beat_task.splits
        prod.splits sum.splits)
  then have "unbroken s \<Longrightarrow> unbroken ((beat_step env cfg lease ^^ n) s)" for s n
    by (induction n) auto
  then show ?thesis by (auto simp: keeps_def beats_def)
qed

lemma beats_idle: "keeps idle_task (beats env cfg lease)"
proof -
  have "idle_task s \<Longrightarrow> (beat_step env cfg lease ^^ n) s = s" for s n
    by (induction n) (auto simp: beat_step_def idle_task_def)
  then show ?thesis by (auto simp: keeps_def beats_def)
qed

lemma keeps_await:
  assumes "keeps I (beats env cfg lease)" "keeps I m"
  shows "keeps I (await env cfg lease m)"
  unfolding keeps_def
proof (intro allI impI)
  fix s r s'
  assume "await env cfg lease m s = (r, s')" "I s"
  then obtain x s1 s2 y where "beats env cfg lease s = (x, s1)" "m s1 = (r, s2)"
      "beats env cfg lease s2 = (y, s')"
    by (auto simp: await_def Let_def split: prod.splits)
  with \<open>I s\<close> keepsD [OF assms(1)] keepsD [OF assms(2)] show "I s'" by metis
qed

lemma keeps_settle:
  assumes "keeps I (beats env cfg lease)" "local_cond I"
  shows "keeps I (agent_reject env cfg lease m)" "keeps I (agent_release env cfg lease m)"
  unfolding agent_reject_def agent_fail_def agent_release_def
  by (intro keeps_abind keeps_await keeps_post keeps_basic(1) assms)+

lemma download_keeps: "local_cond I \<Longrightarrow> keeps I (download_loop env cfg inputs gs paths)"
  by (induction gs arbitrary: paths) (simp_all add: Let_def keeps_basic keeps_abind keeps_ask)

lemma publish_keeps:
  assumes "keeps I (beats env cfg lease)" "local_cond I"
  shows "keeps I (publish env cfg lease out)"
  unfolding publish_def
proof (intro keeps_abind keeps_ask keeps_await assms)
  show "keeps I (case map_of (ac_capabilities cfg) (lg_capability_id lease) of
         None \<Rightarrow> araise (OtherError ''KeyError'')
       | Some capability \<Rightarrow>
         abind (await env cfg lease
           (http_post env (job_url cfg lease ''/complete'') (complete_body lease capability out content)))
           (\<lambda>r. if hr_status r = 409 \<or> hr_status r = 422
                then abind (completion_reason r) (\<lambda>_. areturn A_FAILED)
                else abind (raise_for_status r) (\<lambda>_. areturn A_COMPLETED)))" for content
  proof (cases "map_of (ac_capabilities cfg) (lg_capability_id lease)")
    case (Some c)
    have "keeps I (completion_reason r)" for r
      by (auto simp: completion_reason_def keeps_basic split: sum.split json.split)
    then have "keeps I (if hr_status r = 409 \<or> hr_status r = 422
                then abind (completion_reason r) (\<lambda>_. areturn A_FAILED)
                else abind (raise_for_status r) (\<lambda>_. areturn A_COMPLETED))" for r
      by (simp add: keeps_abind keeps_basic keeps_raise_for_status)
    with Some show ?thesis
      by (simp add: keeps_abind keeps_await keeps_post assms)
  qed (simp add: keeps_basic)
qed

lemma work_keeps_unbroken:
  assumes "steady_env env"
  shows "keeps unbroken (handled_work env cfg lease req workspace)"
proof -
  note b = beats_unbroken [OF assms]
  have ex: "keeps unbroken (abind (await env cfg lease (ask c (ev_execute env))) (publish env cfg lease))" for c
    by (intro keeps_abind keeps_await keeps_ask publish_keeps b local_conds)
  have "keeps unbroken (work env cfg lease req workspace)"
    unfolding work_def download_inputs_def Let_def
  proof (intro keeps_abind keeps_ask download_keeps local_conds)
    show "keeps unbroken (\<lambda>s. abind (await env cfg lease (ask
        (Execute workspace paths req (lg_execution_deadline_seconds lease)) (ev_execute env)))
        (publish env cfg lease) (s\<lparr>ag_task := Beating False\<rparr>))" for paths
      using ex by (fastforce simp: keeps_def unbroken_def)
  qed
  moreover have "keeps unbroken (case e of PluginRejected m \<Rightarrow> agent_reject env cfg lease m
      | _ \<Rightarrow> agent_release env cfg lease (exn_name e))" for e
    by (cases e) (simp_all add: keeps_settle [OF b local_conds(1)])
  ultimately show ?thesis unfolding handled_work_def by (rule keeps_acatch)
qed

text \<open>Calls that touch the disk, the assets or the plugin.\<close>

fun costly :: "call \<Rightarrow> bool" where
  "costly (Mkdir _) = True"
| "costly (Rmtree _) = True"
| "costly (Download _ _ _) = True"
| "costly (ReadFile _) = True"
| "costly (Upload _ _ _) = True"
| "costly (Execute _ _ _ _) = True"
| "costly _ = False"

lemma beat_not_costly: "beat_call cfg lease c \<Longrightarrow> \<not> costly c"
  by (auto simp: beat_call_def heartbeat_call_def)

lemma cheap_settle:
  "emits (\<lambda>c. \<not> costly c) (agent_reject env cfg lease m)"
  "emits (\<lambda>c. \<not> costly c) (agent_release env cfg lease m)"
  unfolding agent_reject_def agent_fail_def agent_release_def
  by (intro emit_intros; simp add: beat_not_costly)+

definition workspace_of :: "agent \<Rightarrow> lease_grant \<Rightarrow> path" where
  "workspace_of cfg lease = path_join (ac_workspace_root cfg) (lg_job_id lease)"

lemma serve_cases:
  assumes "serve env cfg lease s = (r, s')"
  obtains (rejected) m where "agent_reject env cfg lease m s = (r, s')"
      "map_of (ac_plugins cfg) (lg_capability_id lease) = None \<or>
       (\<exists>p. map_of (ac_plugins cfg) (lg_capability_id lease) = Some p \<and>
          ac_validate cfg p lease = Inl (PluginRejected m))"
  | (failed) e where "r = Inl e" "s' = s"
  | (drained) s1 where "agent_release env cfg lease DRAIN_RELEASE_REASON s1 = (r, s')"
      "s1 = s\<lparr>ag_log := IsStopped # ag_log s\<rparr>" "ag_stop s"
  | (worked) p req s1 r2 s2 where "map_of (ac_plugins cfg) (lg_capability_id lease) = Some p"
      "ac_validate cfg p lease = Inr req"
      "handled_work env cfg lease req (workspace_of cfg lease) (s1\<lparr>ag_busy_job_id := Some (lg_job_id lease)\<rparr>) = (r2, s2)"
      "cleanup (workspace_of cfg lease) (r2, s2) = (r, s')" "s1 = s \<or> s1 = s\<lparr>ag_log := IsStopped # ag_log s\<rparr>"
proof (cases "map_of (ac_plugins cfg) (lg_capability_id lease)")
  case None
  with assms show ?thesis by (intro rejected) (simp_all add: serve_def)
next
  case (Some p)
  show ?thesis
  proof (cases "ac_validate cfg p lease")
    case (Inl e)
    with Some assms show ?thesis
      by (cases e) (auto simp: serve_def araise_def intro: rejected failed)
  next
    case (Inr req)
    define s1 where "s1 = (if ag_stop s then s\<lparr>ag_log := IsStopped # ag_log s\<rparr> else s)"
    define stopped where "stopped = (ag_stop s \<and> ev_stopped env (IsStopped # ag_log s))"
    have run: "(if stopped then agent_release env cfg lease DRAIN_RELEASE_REASON s1
        else cleanup (workspace_of cfg lease) (handled_work env cfg lease req (workspace_of cfg lease)
               (s1\<lparr>ag_busy_job_id := Some (lg_job_id lease)\<rparr>))) = (r, s')"
      using assms Some Inr
      by (auto simp: serve_def abind_def ask_def areturn_def Let_def workspace_of_def s1_def stopped_def
          split: if_splits)
    show ?thesis
    proof (cases stopped)
      case True
      with run show ?thesis by (intro drained [of s1]) (simp_all add: s1_def stopped_def)
    next
      case False
      obtain r2 s2 where "handled_work env cfg lease req (workspace_of cfg lease)
          (s1\<lparr>ag_busy_job_id := Some (lg_job_id lease)\<rparr>) = (r2, s2)" by force
      with run False Some Inr show ?thesis
        by (intro worked [of p req s1 r2 s2]) (simp_all add: s1_def)
    qed
  qed
qed

lemma emits_work: 
  assumes "\<And>c. beat_call cfg lease c \<Longrightarrow> P c" "\<And>c. costly c \<Longrightarrow> P c"
    "\<And>k h b. k \<in> set settle_routes \<Longrightarrow> P (Post (job_url cfg lease k) h b)"
  shows "emits P (handled_work env cfg lease req workspace)" "emits P (agent_reject env cfg lease m)"
    "emits P (agent_release env cfg lease m)"
proof -
  have cred: "P Credential" by (rule assms(1)) (simp add: beat_call_def heartbeat_call_def)
  have ex: "emits P (await env cfg lease (ask c answer))" if "costly c"
    for c and answer :: "call list \<Rightarrow> agent_exn + 'b"
    by (intro emits_await emits_ask assms(1) assms(2) that)
  have post: "emits P (await env cfg lease (http_post env (job_url cfg lease k) b))"
    if "k \<in> set settle_routes" for k b
    by (intro emit_intros assms(1) assms(3) cred that)
  show reject: "emits P (agent_reject env cfg lease m)" for m
    unfolding agent_reject_def agent_fail_def
    by (intro emits_abind post emits_areturn) (simp add: settle_routes_def)
  show release: "emits P (agent_release env cfg lease m)" for m
    unfolding agent_release_def by (intro emits_abind post emits_areturn) (simp add: settle_routes_def)
  have answer: "emits P (if hr_status r = 409 \<or> hr_status r = 422
      then abind (completion_reason r) (\<lambda>_. areturn A_FAILED)
      else abind (raise_for_status r) (\<lambda>_. areturn A_COMPLETED))" for r
  proof -
    have "emits P (completion_reason r)"
      by (auto simp: completion_reason_def emits_areturn emits_araise split: sum.split json.split)
    then show ?thesis by (simp add: emits_abind emits_areturn emits_raise_for_status)
  qed
  have "emits P (abind (await env cfg lease
      (http_post env (job_url cfg lease ''/complete'') (complete_body lease c out content)))
        (\<lambda>r. if hr_status r = 409 \<or> hr_status r = 422
             then abind (completion_reason r) (\<lambda>_. areturn A_FAILED)
             else abind (raise_for_status r) (\<lambda>_. areturn A_COMPLETED)))" for c out content
    by (intro emits_abind post answer) (simp add: settle_routes_def)
  then have "emits P (case map_of (ac_capabilities cfg) (lg_capability_id lease) of
         None \<Rightarrow> araise (OtherError ''KeyError'')
       | Some capability \<Rightarrow>
         abind (await env cfg lease
           (http_post env (job_url cfg lease ''/complete'') (complete_body lease capability out content)))
           (\<lambda>r. if hr_status r = 409 \<or> hr_status r = 422
                then abind (completion_reason r) (\<lambda>_. areturn A_FAILED)
                else abind (raise_for_status r) (\<lambda>_. areturn A_COMPLETED)))" for out content
    by (simp add: emits_araise split: option.split)
  then have publish: "emits P (publish env cfg lease out)" for out
    unfolding publish_def by (intro emits_abind emits_ask ex) (simp_all add: assms(2))
  have download: "emits P (download_loop env cfg inputs gs paths)" for inputs gs paths
    by (induction gs arbitrary: paths)
      (simp_all add: Let_def emits_areturn emits_araise emits_abind emits_ask assms(2))
  have "emits P (work env cfg lease req workspace)"
    unfolding work_def download_inputs_def Let_def
  proof (intro emits_abind emits_ask download)
    have "emits P (abind (await env cfg lease (ask (Execute workspace paths req
        (lg_execution_deadline_seconds lease)) (ev_execute env))) (publish env cfg lease))" for paths
      by (intro emits_abind ex publish) simp
    then show "emits P (\<lambda>s. abind (await env cfg lease (ask
        (Execute workspace paths req (lg_execution_deadline_seconds lease)) (ev_execute env)))
        (publish env cfg lease) (s\<lparr>ag_task := Beating False\<rparr>))" for paths
      by (fastforce simp: emits_def)
  qed (simp_all add: assms(2))
  moreover have "emits P (case e of PluginRejected m \<Rightarrow> agent_reject env cfg lease m
      | _ \<Rightarrow> agent_release env cfg lease (exn_name e))" for e
    by (cases e) (simp_all add: reject release)
  ultimately show "emits P (handled_work env cfg lease req workspace)"
    unfolding handled_work_def by (rule emits_acatch)
qed



section \<open>The loop\<close>

definition sleepless :: "call \<Rightarrow> bool" where
  "sleepless c \<longleftrightarrow> (\<forall>x. c \<noteq> Sleep x)"

lemma sleepless_calls [simp]: "costly c \<Longrightarrow> sleepless c" "beat_call cfg lease c \<Longrightarrow> sleepless c"
  "sleepless (Post u h b)" "sleepless Credential" "sleepless SampleGpus" "sleepless IsStopped"
  by (auto simp: sleepless_def beat_call_def heartbeat_call_def)

lemma sleepless_serve: "emits sleepless (serve env cfg lease)"
  unfolding emits_def
proof (intro allI impI)
  fix s r s'
  assume "serve env cfg lease s = (r, s')"
  then show "\<exists>L. ag_log s' = L @ ag_log s \<and> list_all sleepless L"
  proof (cases rule: serve_cases)
    case (rejected m)
    from emitsD [OF emits_work(2) rejected(1), of sleepless] show ?thesis by simp
  next
    case (drained s1)
    from emitsD [OF emits_work(3) drained(1), of sleepless] drained(2)
    obtain L where "ag_log s' = L @ IsStopped # ag_log s" "list_all sleepless L" by auto
    then show ?thesis by (intro exI [of _ "L @ [IsStopped]"]) simp
  next
    case (worked p req s1 r2 s2)
    from emitsD [OF emits_work(1) worked(3), of sleepless]
    obtain L where "ag_log s2 = L @ ag_log s1" "list_all sleepless L" by auto
    moreover have "\<exists>L. ag_log s1 = L @ ag_log s \<and> list_all sleepless L" using worked(5) by auto
    moreover have "\<exists>L. ag_log s' = L @ ag_log s2 \<and> list_all sleepless L"
      using worked(4) by (auto simp: cleanup_def Let_def split: beat_task.splits)
    ultimately show ?thesis by (metis append.assoc list_all_append)
  qed simp
qed

lemma sleepless_run_once: "emits sleepless (run_once env cfg)"
proof -
  have h: "emits sleepless (heartbeat env cfg d)" for d
    by (rule emits_mono [OF emits_heartbeat]) (auto simp: heartbeat_call_def)
  have "emits sleepless (case hr_json r of Inl e \<Rightarrow> araise e
      | Inr j \<Rightarrow> (case lease_grant_from (ev_fromiso env) j of Inl e \<Rightarrow> araise e
                  | Inr lease \<Rightarrow> serve env cfg lease))" for r
    by (simp add: emits_araise sleepless_serve split: sum.split)
  then have "emits sleepless (if hr_status r = 204 then areturn A_IDLE
      else abind (raise_for_status r) (\<lambda>_. case hr_json r of Inl e \<Rightarrow> araise e
        | Inr j \<Rightarrow> (case lease_grant_from (ev_fromiso env) j of Inl e \<Rightarrow> araise e
                    | Inr lease \<Rightarrow> serve env cfg lease)))" for r
    by (rule emits_if [OF emits_areturn emits_abind [OF emits_raise_for_status]])
  then show ?thesis
    unfolding run_once_def by (intro emits_abind h emits_http_post) simp_all
qed

definition fair_sleep :: "agent \<Rightarrow> call \<Rightarrow> bool" where
  "fair_sleep cfg c \<longleftrightarrow> (\<forall>x. c = Sleep x \<longrightarrow> 0 \<le> x \<and> x \<le> ac_max_poll_seconds cfg)"

definition fair_random :: "agent_env \<Rightarrow> bool" where
  "fair_random env \<longleftrightarrow> (\<forall>calls. 0 \<le> ev_random env calls \<and> ev_random env calls \<le> 1)"

definition fair_poll :: "agent \<Rightarrow> bool" where
  "fair_poll cfg \<longleftrightarrow> 0 \<le> ac_min_poll_seconds cfg \<and> ac_min_poll_seconds cfg \<le> ac_max_poll_seconds cfg"

lemma fair_turn:
  assumes "fair_random env" "fair_poll cfg" "ac_min_poll_seconds cfg \<le> b" "b \<le> ac_max_poll_seconds cfg"
    "run_turn env cfg b s = (r, s')"
  shows "(\<exists>L. ag_log s' = L @ ag_log s \<and> list_all (fair_sleep cfg) L) \<and>
    (\<forall>b'. r = Inr b' \<longrightarrow> ac_min_poll_seconds cfg \<le> b' \<and> b' \<le> ac_max_poll_seconds cfg)"
proof -
  let ?m = "acatch (run_once env cfg) (\<lambda>e. case e of HTTPError _ \<Rightarrow> areturn A_IDLE | _ \<Rightarrow> araise e)"
  have "emits sleepless ?m"
    by (intro emits_acatch sleepless_run_once)
      (simp add: emits_areturn emits_araise split: agent_exn.split)
  then have m: "emits (fair_sleep cfg) ?m"
    by (rule emits_mono) (simp add: sleepless_def fair_sleep_def)
  obtain r1 s1 where run: "?m s = (r1, s1)" by force
  from emitsD [OF m run] obtain L where L: "ag_log s1 = L @ ag_log s" "list_all (fair_sleep cfg) L" by blast
  show ?thesis
  proof (cases "r1 = Inr A_IDLE")
    case True
    let ?x = "ev_random env (Random # ag_log s1)"
    have s': "ag_log s' = Sleep (min (ac_max_poll_seconds cfg) b * ?x) # Random # ag_log s1"
        "r = Inr (min (ac_max_poll_seconds cfg) (b * 2))"
      using assms(5) run True by (auto simp: run_turn_def abind_def [of ?m] abind_def ask_def areturn_def)
    have x: "0 \<le> ?x" "?x \<le> 1" using assms(1) by (auto simp: fair_random_def)
    have b: "0 \<le> b" using assms(2,3) by (simp add: fair_poll_def)
    have "0 \<le> b * ?x" "b * ?x \<le> b * 1" using x b by (intro mult_nonneg_nonneg mult_left_mono; simp)+
    with assms(4) have "fair_sleep cfg (Sleep (min (ac_max_poll_seconds cfg) b * ?x))"
      by (simp add: fair_sleep_def min_def)
    with L s' have "\<exists>L. ag_log s' = L @ ag_log s \<and> list_all (fair_sleep cfg) L"
      by (intro exI [of _ "Sleep (min (ac_max_poll_seconds cfg) b * ?x) # Random # L"])
        (simp add: fair_sleep_def [of _ Random])
    with s'(2) b assms(2-4) show ?thesis by (auto simp: fair_poll_def min_def)
  next
    case False
    with assms(5) run have "s' = s1" "\<And>b'. r = Inr b' \<Longrightarrow> b' = ac_min_poll_seconds cfg"
      by (auto simp: run_turn_def abind_def [of ?m] areturn_def split: sum.splits if_splits)
    with L assms(2) show ?thesis by (auto simp: fair_poll_def)
  qed
qed

lemma final_heartbeat:
  assumes "acatch (heartbeat env cfg True) (\<lambda>e. case e of HTTPError _ \<Rightarrow> areturn () | _ \<Rightarrow> araise e)
      (t\<lparr>ag_log := IsStopped # ag_log t\<rparr>) = (q, t')"
  shows "\<exists>L. ag_log t' = L @ ag_log t \<and> list_all (fair_sleep cfg) L"
proof -
  have "emits (fair_sleep cfg) (heartbeat env cfg True)"
    by (rule emits_mono [OF emits_heartbeat]) (auto simp: heartbeat_call_def fair_sleep_def)
  then have "emits (fair_sleep cfg) (acatch (heartbeat env cfg True)
      (\<lambda>e. case e of HTTPError _ \<Rightarrow> areturn () | _ \<Rightarrow> araise e))"
    by (intro emits_acatch) (simp_all add: emits_areturn emits_araise split: agent_exn.split)
  from emitsD [OF this assms] obtain L where "ag_log t' = L @ IsStopped # ag_log t" "list_all (fair_sleep cfg) L"
    by auto
  then show ?thesis by (intro exI [of _ "L @ [IsStopped]"]) (simp add: fair_sleep_def)
qed

text \<open>Polling is bounded: whatever the coordinator answers, every pause of the agent's loop
  lasts between zero and the configured maximum.\<close>

theorem run_forever_sleeps_bounded:
  assumes "fair_random env" "fair_poll cfg" "run_forever n env cfg s = Some (r, s')"
  shows "\<exists>L. ag_log s' = L @ ag_log s \<and>
    (\<forall>x. Sleep x \<in> set L \<longrightarrow> 0 \<le> x \<and> x \<le> ac_max_poll_seconds cfg)"
proof -
  have loop: "\<exists>L. ag_log t' = L @ ag_log t \<and> list_all (fair_sleep cfg) L"
    if "run_loop n env cfg b t = Some (q, t')" "ac_min_poll_seconds cfg \<le> b" "b \<le> ac_max_poll_seconds cfg"
    for b t q t'
    using that
  proof (induction n arbitrary: b t)
    case 0
    then have "acatch (heartbeat env cfg True) (\<lambda>e. case e of HTTPError _ \<Rightarrow> areturn () | _ \<Rightarrow> araise e)
        (t\<lparr>ag_log := IsStopped # ag_log t\<rparr>) = (q, t')"
      by (simp add: run_loop.simps Let_def split: if_splits)
    then show ?case by (rule final_heartbeat)
  next
    case (Suc n)
    show ?case
    proof (cases "ev_stopped env (IsStopped # ag_log t)")
      case True
      with Suc.prems(1) have "acatch (heartbeat env cfg True)
          (\<lambda>e. case e of HTTPError _ \<Rightarrow> areturn () | _ \<Rightarrow> araise e) (t\<lparr>ag_log := IsStopped # ag_log t\<rparr>) = (q, t')"
        by (simp add: run_loop.simps [of "Suc n"] Let_def)
      then show ?thesis by (rule final_heartbeat)
    next
      case False
      obtain r1 s1 where turn: "run_turn env cfg b (t\<lparr>ag_log := IsStopped # ag_log t\<rparr>) = (r1, s1)" by force
      from fair_turn [OF assms(1,2) Suc.prems(2,3) turn] obtain L where
        L: "ag_log s1 = L @ IsStopped # ag_log t" "list_all (fair_sleep cfg) L"
        and b': "\<And>b'. r1 = Inr b' \<Longrightarrow> ac_min_poll_seconds cfg \<le> b' \<and> b' \<le> ac_max_poll_seconds cfg" by auto
      have L1: "list_all (fair_sleep cfg) (L @ [IsStopped])" using L(2) by (simp add: fair_sleep_def)
      show ?thesis
      proof (cases r1)
        case (Inl e)
        with Suc.prems(1) False turn L L1 show ?thesis
          by (intro exI [of _ "L @ [IsStopped]"]) (simp add: run_loop.simps [of "Suc n"] Let_def)
      next
        case (Inr b1)
        with Suc.prems(1) False turn have "run_loop n env cfg b1 s1 = Some (q, t')"
          by (simp add: run_loop.simps [of "Suc n"] Let_def)
        from Suc.IH [OF this] b' [OF Inr] obtain L2 where "ag_log t' = L2 @ ag_log s1"
          "list_all (fair_sleep cfg) L2" by blast
        with L L1 show ?thesis by (intro exI [of _ "L2 @ L @ [IsStopped]"]) simp
      qed
    qed
  qed
  obtain t' where "run_loop n env cfg (ac_min_poll_seconds cfg) (s\<lparr>ag_stop := True\<rparr>) = Some (r, t')"
      "ag_log s' = ag_log t'"
    using assms(3) by (auto simp: run_forever_def)
  with loop [of "ac_min_poll_seconds cfg" "s\<lparr>ag_stop := True\<rparr>" r t'] assms(2)
  obtain L where "ag_log s' = L @ ag_log s" "list_all (fair_sleep cfg) L" by (auto simp: fair_poll_def)
  then show ?thesis by (auto simp: list_all_iff fair_sleep_def)
qed

lemma emits_any_turn: "emits (\<lambda>_. True) (run_turn env cfg b)"
proof -
  have "emits (\<lambda>_. True) (run_once env cfg)"
    by (rule emits_mono [OF sleepless_run_once]) simp
  then have "emits (\<lambda>_. True) (acatch (run_once env cfg)
      (\<lambda>e. case e of HTTPError _ \<Rightarrow> areturn A_IDLE | _ \<Rightarrow> araise e))"
    by (intro emits_acatch) (simp_all add: emits_areturn emits_araise split: agent_exn.split)
  moreover have "emits (\<lambda>_. True) (if outcome \<noteq> A_IDLE then areturn (ac_min_poll_seconds cfg)
     else abind (ask Random (\<lambda>log. Inr (ev_random env log))) (\<lambda>x.
       abind (ask (Sleep (min (ac_max_poll_seconds cfg) b * x)) (\<lambda>_. Inr ())) (\<lambda>_.
       areturn (min (ac_max_poll_seconds cfg) (b * 2)))))" for outcome
    by (simp add: emits_areturn emits_abind emits_ask)
  ultimately show ?thesis unfolding run_turn_def by (rule emits_abind)
qed

text \<open>Claim C22: the loop ends: once the stop event is seen set after some number of calls, \<open>run_forever\<close>
  returns (or an exception other than an HTTP error ends it) within that number of turns, whatever the
  coordinator, the plugins and the transfers do.\<close>

theorem run_forever_returns:
  assumes "\<And>calls. N \<le> length calls \<Longrightarrow> ev_stopped env calls"
  shows "\<exists>res. run_forever N env cfg s = Some res"
proof -
  have "\<exists>res. run_loop n env cfg b t = Some res" if "N \<le> n + length (ag_log t)" for n b t
    using that
  proof (induction n arbitrary: b t)
    case 0
    then have "ev_stopped env (IsStopped # ag_log t)" by (intro assms) simp
    then show ?case by (simp add: run_loop.simps Let_def)
  next
    case (Suc n)
    show ?case
    proof (cases "ev_stopped env (IsStopped # ag_log t)")
      case False
      obtain r1 s1 where turn: "run_turn env cfg b (t\<lparr>ag_log := IsStopped # ag_log t\<rparr>) = (r1, s1)" by force
      from emitsD [OF emits_any_turn turn] have "N \<le> n + length (ag_log s1)" using Suc.prems by auto
      with Suc.IH turn False show ?thesis
        by (cases r1) (simp_all add: run_loop.simps [of "Suc n"] Let_def)
    qed (simp add: run_loop.simps [of "Suc n"] Let_def)
  qed
  then show ?thesis by (simp add: run_forever_def)
qed

section \<open>Workspaces\<close>

text \<open>Inputs are kept apart inside the job's workspace: if the granted keys are distinct and
  end in distinct names, none of them empty or \<open>..\<close>, the plugin gets exactly the granted keys, each
  with a file of its own directly in the \<open>inputs\<close> directory.\<close>

theorem inputs_kept_apart:
  assumes "distinct (map (\<lambda>g. path_name (path_of (ag_key g))) gs)"
    "list_all (\<lambda>g. path_name (path_of (ag_key g)) \<notin> {[], ''..''}) gs"
    "download_loop env cfg inputs gs [] s = (Inr paths, s')"
  shows "paths = map (\<lambda>g. (ag_key g, (fst inputs, snd inputs @ [path_name (path_of (ag_key g))]))) gs \<and>
    distinct (dvalues paths)"
proof -
  let ?d = "\<lambda>g. (ag_key g, (fst inputs, snd inputs @ [path_name (path_of (ag_key g))]))"
  have loop: "qs = ps @ map ?d gs"
    if "download_loop env cfg inputs gs ps t = (Inr qs, t')"
      "distinct (keys ps @ map ag_key gs)" "list_all (\<lambda>g. path_name (path_of (ag_key g)) \<noteq> []) gs"
    for gs ps t qs t'
    using that
  proof (induction gs arbitrary: ps t)
    case (Cons g gs)
    have j: "path_join inputs (path_name (path_of (ag_key g))) =
        (fst inputs, snd inputs @ [path_name (path_of (ag_key g))])"
      using path_name_plain [of "ag_key g"] Cons.prems(3) by (simp add: path_join_plain)
    have u: "AList.update (ag_key g) v ps = ps @ [(ag_key g, v)]" for v
      using Cons.prems(2) by (simp add: update_fresh)
    obtain t1 where "download_loop env cfg inputs gs (ps @ [?d g]) t1 = (Inr qs, t')"
      using Cons.prems(1) by (auto simp: Let_def abind_def ask_def araise_def j u split: sum.splits if_splits)
    from Cons.IH [OF this] Cons.prems(2,3) show ?case by simp
  qed (simp add: areturn_def)
  have "distinct (map ag_key gs)"
    using distinct_map [of "\<lambda>g. path_name (path_of (ag_key g))" gs] assms(1)
    by (auto simp: distinct_map inj_on_def)
  moreover have "list_all (\<lambda>g. path_name (path_of (ag_key g)) \<noteq> []) gs"
    using assms(2) by (simp add: list_all_iff)
  ultimately have "paths = map ?d gs" using loop [OF assms(3)] by simp
  moreover have "distinct (map (snd \<circ> ?d) gs)"
    using assms(1) by (auto simp: distinct_map inj_on_def comp_def)
  ultimately show ?thesis by simp
qed

text \<open>Two keys that end in the same name share one file: the second download replaces the first, and the
  plugin reads the second input under both keys.\<close>

lemma inputs_collide:
  assumes "path_name (path_of (ag_key g)) = path_name (path_of (ag_key g'))"
    "download_loop env cfg inputs [g, g'] [] s = (Inr paths, s')"
  shows "map_of paths (ag_key g) = map_of paths (ag_key g')"
  using assms by (auto simp: Let_def abind_def ask_def araise_def areturn_def split: sum.splits if_splits)

text \<open>A job stays in its workspace only if its id is a plain name: then the directory the agent
  clears and fills lies directly under the workspace root; but the ids \<open>/\<close> and \<open>..\<close>, which submission
  accepts, name the root of the file system and the parent of the workspace root.\<close>

theorem workspace_confined:
  assumes "CHR ''/'' \<notin> set (lg_job_id lease)" "lg_job_id lease \<notin> {[], ''.'', ''..''}"
  shows "workspace_of cfg lease =
      (fst (ac_workspace_root cfg), snd (ac_workspace_root cfg) @ [lg_job_id lease]) \<and>
    workspace_of cfg (lease\<lparr>lg_job_id := ''/''\<rparr>) = (''/'', []) \<and>
    snd (workspace_of cfg (lease\<lparr>lg_job_id := ''..''\<rparr>)) = snd (ac_workspace_root cfg) @ [''..''] \<and>
    submission_ok (demo_submission ''/'' ''ka'' 1) \<and> submission_ok (demo_submission ''..'' ''ka'' 1)"
proof -
  have "path_of ''/'' = (''/'', [])" "path_of ''..'' = ([], [''..''])" by code_simp+
  then show ?thesis
    using assms by (simp add: workspace_of_def path_join_plain demo_submission_ok)
      (simp add: path_join_def)
qed

section \<open>Witnesses\<close>

text \<open>An agent with the reference plugin, and a coordinator that leases it one job and accepts
  everything.\<close>

definition as_agent_exn :: "exn + 'a \<Rightarrow> agent_exn + 'a" where
  "as_agent_exn r = (case r of
     Inl (PluginRequestRejected m) \<Rightarrow> Inl (PluginRejected m)
   | Inl _ \<Rightarrow> Inl (OtherError ''Exception'')
   | Inr a \<Rightarrow> Inr a)"

definition demo_agent :: agent where
  "demo_agent =
     \<lparr>ac_coordinator_url = ''https://pool'', ac_worker_id = ''w'',
      ac_plugins = [(DETERMINISTIC_ECHO_CAPABILITY, 0)],
      ac_capabilities = [(DETERMINISTIC_ECHO_CAPABILITY, hd (cm_capabilities echo_capabilities))],
      ac_validate = (\<lambda>_ lease. as_agent_exn (echo_validate lease)),
      ac_workspace_root = path_of ''/work'', ac_max_input_bytes = 100, ac_min_poll_seconds = 2,
      ac_max_poll_seconds = 60, ac_lease_seconds = 1200, ac_tenant_id = None, ac_gpu_model = None,
      ac_vram_mb = None, ac_runtime_versions = []\<rparr>"

definition demo_lease :: lease_grant where
  "demo_lease =
     \<lparr>lg_job_id = ''a'', lg_claim_token = ''t'', lg_lease_until = 60, lg_execution_deadline_seconds = 60,
      lg_capability_id = DETERMINISTIC_ECHO_CAPABILITY, lg_contract_version = 1,
      lg_request_digest = ''d'', lg_idempotency_key = ''k'', lg_input_keys = [],
      lg_output_key = ''outputs/o'', lg_payload = [],
      lg_input_grants = [], lg_output_grant = \<lparr>ag_key = ''outputs/o'', ag_url = ''u'', ag_method = ''PUT'',
        ag_expires_at = 60, ag_content_type = None\<rparr>, lg_tenant_id = None\<rparr>"

definition demo_env :: agent_env where
  "demo_env =
     \<lparr>ev_credential = (\<lambda>_. Inr ''c''), ev_sample = (\<lambda>_. Inr []),
      ev_stopped = (\<lambda>calls. 6 \<le> length calls), ev_random = (\<lambda>_. 1 / 2),
      ev_post = (\<lambda>calls. Inr \<lparr>hr_status = (if (case calls of Post url _ _ # _ \<Rightarrow> url = ''https://pool/worker/v1/lease'' | _ \<Rightarrow> False) then 204 else 200),
                            hr_json = Inr (JObj [])\<rparr>),
      ev_mkdir = (\<lambda>_. Inr ()), ev_download = (\<lambda>_. Inr 1), ev_read = (\<lambda>_. Inr [1]),
      ev_upload = (\<lambda>_. Inr ()),
      ev_execute = (\<lambda>_. Inr \<lparr>po_path = path_of ''/work/a/output.txt'', po_content_type = ''text/plain'',
        po_model_id = ''m'', po_model_version = ''1'', po_seed = None, po_diagnostics = []\<rparr>),
      ev_beats = (\<lambda>calls. case calls of Execute _ _ _ _ # _ \<Rightarrow> 2 | _ \<Rightarrow> 0), ev_progress = (\<lambda>_. 50),
      ev_fromiso = (\<lambda>_. None)\<rparr>"

definition demo_state :: agent_state where
  "demo_state = \<lparr>ag_busy_job_id = None, ag_task = No_task, ag_stop = False, ag_log = []\<rparr>"

lemma demo_env_plain: "plain_env demo_env"
  by (simp add: plain_env_def demo_env_def)

lemma demo_steady: "steady_env demo_env"
  by (simp add: steady_env_def demo_env_def)

lemmas agent_defs = serve_def abind_def acatch_def ask_def areturn_def araise_def handled_work_def work_def
  download_inputs_def publish_def await_def beats_def beat_step_def beat_exchange_def http_post_def
  auth_header_def heartbeat_def sample_gpus_def raise_for_status_def cleanup_def Let_def
  job_url_def route_url_def echo_validate_def payload_get_def as_agent_exn_def
  DETERMINISTIC_ECHO_CONTRACT_VERSION_def DEFAULT_ECHO_LABEL_def MAX_ECHO_LABEL_LENGTH_def

lemmas demo_agent_defs = demo_env_def demo_agent_def demo_lease_def demo_state_def

lemma demo_served: "fst (serve demo_env demo_agent demo_lease demo_state) = Inr A_COMPLETED"
  by (simp add: agent_defs demo_agent_defs numeral_2_eq_2)

lemma demo_serve_run: obtains s' where "serve demo_env demo_agent demo_lease demo_state = (Inr A_COMPLETED, s')"
  using demo_served by (metis prod.collapse)




theorem run_forever_returns_witness: "\<exists>res. run_forever 6 demo_env demo_agent demo_state = Some res"
  by (rule run_forever_returns) (simp add: demo_env_def)

theorem run_forever_sleeps_bounded_witness:
  "\<exists>r s'. run_forever 6 demo_env demo_agent demo_state = Some (r, s') \<and>
    (\<forall>x. Sleep x \<in> set (ag_log s') \<longrightarrow> 0 \<le> x \<and> x \<le> 60)"
proof -
  obtain r s' where run: "run_forever 6 demo_env demo_agent demo_state = Some (r, s')"
    using run_forever_returns [of 6 demo_env demo_agent demo_state] by (auto simp: demo_env_def)
  have "fair_random demo_env" "fair_poll demo_agent"
    by (simp_all add: fair_random_def demo_env_def fair_poll_def demo_agent_def)
  from run_forever_sleeps_bounded [OF this run] run show ?thesis
    by (auto simp: demo_state_def demo_agent_def)
qed

definition demo_grant :: "string \<Rightarrow> asset_grant" where
  "demo_grant key = \<lparr>ag_key = key, ag_url = ''u'', ag_method = ''GET'', ag_expires_at = 60, ag_content_type = None\<rparr>"

theorem inputs_kept_apart_witness:
  "\<exists>paths s'. download_loop demo_env demo_agent ([], [''i'']) [demo_grant ''inputs/x'', demo_grant ''inputs/y''] []
      demo_state = (Inr paths, s') \<and> distinct (dvalues paths)"
proof -
  let ?gs = "[demo_grant ''inputs/x'', demo_grant ''inputs/y'']"
  have n: "map (\<lambda>g. path_name (path_of (ag_key g))) ?gs = [''x'', ''y'']" by code_simp
  obtain paths s' where r: "download_loop demo_env demo_agent ([], [''i'']) ?gs [] demo_state = (Inr paths, s')"
    by (simp add: Let_def abind_def ask_def areturn_def demo_env_def demo_agent_def)
  have "distinct (map (\<lambda>g. path_name (path_of (ag_key g))) ?gs)"
      "list_all (\<lambda>g. path_name (path_of (ag_key g)) \<notin> {[], ''..''}) ?gs"
    using n by simp_all
  from inputs_kept_apart [OF this r] r show ?thesis by blast
qed

theorem workspace_confined_witness:
  "workspace_of demo_agent demo_lease = (''/'', [''work'', ''a''])"
  using workspace_confined [of demo_lease demo_agent]
  by (simp add: demo_lease_def demo_agent_def path_of_def path_root_def)

text \<open>A credential source that fails while a heartbeat of the job is due ends the heartbeat task; the
  coordinator accepts the completion, but the agent raises that exception, keeps the workspace, and
  its loop ends.\<close>

definition leaky_env :: agent_env where
  "leaky_env = demo_env\<lparr>ev_credential := (\<lambda>calls.
     if list_ex (\<lambda>c. case c of Execute _ _ _ _ \<Rightarrow> True | _ \<Rightarrow> False) calls \<and>
        \<not> list_ex (\<lambda>c. case c of Upload _ _ _ \<Rightarrow> True | _ \<Rightarrow> False) calls
     then Inl (OtherError ''RefreshError'') else Inr ''c'')\<rparr>"

lemma heartbeat_failure_leaks:
  "let (r, s') = serve leaky_env demo_agent demo_lease demo_state in
     r = Inl (OtherError ''RefreshError'') \<and>
     settles demo_agent demo_lease (ag_log s') = [''/complete''] \<and>
     (case ag_log s' of Post url _ _ # _ \<Rightarrow> url = job_url demo_agent demo_lease ''/complete'' | _ \<Rightarrow> False)"
  by (simp add: agent_defs demo_agent_defs leaky_env_def numeral_2_eq_2 settles_Cons settle_kind_def)

end
