(* ===== verification/AgentPool.thy ===== *)
theory AgentPool
  imports AgentProps
begin

text \<open>
  The agent and the coordinator together: what the agent sends is what the request models read, what
  the lease route answers is what the agent reads, and a completion whose bytes reached the store is
  accepted. The conversions of the JSON libraries between the two sides are arguments with the
  round-trip law as hypothesis.
\<close>

section \<open>The lease\<close>

text \<open>The JSON the response model is serialised to; \<open>isofmt\<close> writes a time.\<close>

definition asset_grant_json :: "(time \<Rightarrow> string) \<Rightarrow> asset_grant \<Rightarrow> json" where
  "asset_grant_json isofmt g = JObj
     [(''key'', JStr (ag_key g)), (''url'', JStr (ag_url g)), (''method'', JStr (ag_method g)),
      (''expires_at'', JStr (isofmt (ag_expires_at g))), (''content_type'', jstr_opt (ag_content_type g))]"

definition lease_response_json :: "(time \<Rightarrow> string) \<Rightarrow> lease_response \<Rightarrow> json" where
  "lease_response_json isofmt r = JObj
     [(''job_id'', JStr (lr_job_id r)), (''claim_token'', JStr (lr_claim_token r)),
      (''lease_until'', JStr (isofmt (lr_lease_until r))),
      (''execution_deadline_seconds'', JInt (lr_execution_deadline_seconds r)),
      (''capability_id'', JStr (lr_capability_id r)),
      (''contract_version'', JInt (lr_contract_version r)),
      (''request_digest'', JStr (lr_request_digest r)),
      (''idempotency_key'', JStr (lr_idempotency_key r)),
      (''input_keys'', JArr (map JStr (lr_input_keys r))), (''output_key'', JStr (lr_output_key r)),
      (''payload'', JObj (lr_payload r)),
      (''input_grants'', JArr (map (asset_grant_json isofmt) (lr_input_grants r))),
      (''output_grant'', asset_grant_json isofmt (lr_output_grant r))]"

lemma asset_grant_read:
  assumes "\<And>t. fromiso (isofmt t) = Some t"
  shows "asset_grant_of fromiso (asset_grant_json isofmt g) = Inr g"
  by (cases "ag_content_type g")
    (simp_all add: asset_grant_json_def asset_grant_of_def field_of_def time_field_def assms jstr_opt_def)

lemma those_map_Some: "(\<And>x. f (g x) = Some x) \<Longrightarrow> those (map f (map g xs)) = Some xs"
  by (induction xs) auto

lemma map_result_read: "(\<And>x. f (g x) = Inr x) \<Longrightarrow> map_result f (map g xs) = Inr xs"
  by (induction xs) auto

text \<open>Claim C23: the agent reads exactly the lease the coordinator granted: decoding the JSON of the lease
  response gives every field of the grant back, except the tenant, which is never sent.\<close>

theorem lease_roundtrip:
  assumes "\<And>t. fromiso (isofmt t) = Some t"
  shows "lease_grant_from fromiso (lease_response_json isofmt (LeaseResponse g)) =
    Inr (g\<lparr>lg_tenant_id := None\<rparr>)"
proof -
  have "those (map as_str (map JStr (lg_input_keys g))) = Some (lg_input_keys g)"
    by (rule those_map_Some) simp
  then show ?thesis
    using asset_grant_read [OF assms] map_result_read [of "asset_grant_of fromiso" "asset_grant_json isofmt"]
    by (simp add: lease_grant_from_def lease_response_json_def LeaseResponse_def field_of_def
        time_field_def assms del: map_map)
qed

section \<open>The requests\<close>

text \<open>Pydantic reads JSON integers and booleans as what they are.\<close>

definition faithful :: "pydantic \<Rightarrow> bool" where
  "faithful pd \<longleftrightarrow> (\<forall>n. pd_int pd (JInt n) = Some n) \<and> (\<forall>b. pd_bool pd (JBool b) = Some b)"

lemma int_in_JInt: "faithful pd \<Longrightarrow> lo \<le> n \<Longrightarrow> n \<le> hi \<Longrightarrow> int_in pd lo hi (JInt n) = Some n"
  by (simp add: int_in_def int_from_def faithful_def)

lemma int_in_opt:
  "faithful pd \<Longrightarrow> in_range x lo hi \<Longrightarrow> or_null (int_in pd lo hi) (jint_opt x) = Some x"
  by (cases x) (simp_all add: or_null_def jint_opt_def in_range_def int_in_JInt)

lemma str_in_opt:
  "(case x of None \<Rightarrow> True | Some t \<Rightarrow> lo \<le> length t \<and> length t \<le> hi) \<Longrightarrow>
     or_null (str_in lo hi) (jstr_opt x) = Some x"
  by (cases x) (simp_all add: or_null_def jstr_opt_def str_in_def)

lemma list_in_map:
  assumes "lo \<le> length xs" "length xs \<le> hi" "\<And>x. x \<in> set xs \<Longrightarrow> p (f x) = Some x"
  shows "list_in lo hi p (JArr (map f xs)) = Some xs"
proof -
  have "those (map p (map f xs)) = Some xs" using assms(3) by (induction xs) auto
  with assms(1,2) show ?thesis by (simp add: list_in_def)
qed

lemma capability_read:
  assumes "faithful pd" "capability_ok c"
  shows "WorkerCapabilityDto pd (capability_body c) = Some c"
  using assms int_in_JInt [OF assms(1)]
  by (simp add: WorkerCapabilityDto_def capability_body_def closed_model_def required_def optional_def
      capability_id_field_def str_like_def str_in_def capability_ok_def route_bounds)

lemma gpu_read:
  assumes "faithful pd" "gpu_dto_ok g"
  shows "GpuTelemetryDto pd (gpu_telemetry_json g) = Some g"
  using assms int_in_JInt [OF assms(1)] int_in_opt [OF assms(1)]
  by (simp add: GpuTelemetryDto_def gpu_telemetry_json_def closed_model_def required_def optional_def
      str_in_def gpu_dto_ok_def in_range_def)

lemma versions_read:
  assumes "length vs \<le> hi"
    "list_all (\<lambda>(k, v). 1 \<le> length k \<and> length k \<le> kl \<and> 1 \<le> length v \<and> length v \<le> vl) vs"
  shows "dict_in kl hi (str_in 1 vl) (JObj (map (\<lambda>(k, v). (k, JStr v)) vs)) = Some vs"
proof -
  have "those (map (\<lambda>(k, v). map_option (Pair k) (str_in 1 vl v)) (map (\<lambda>(k, v). (k, JStr v)) vs)) = Some vs"
    using assms(2) by (induction vs) (auto simp: str_in_def)
  moreover have "list_all (\<lambda>k. 1 \<le> length k \<and> length k \<le> kl) (keys (map (\<lambda>(k, v). (k, JStr v)) vs))"
    using assms(2) by (auto simp: list_all_iff)
  ultimately show ?thesis using assms(1) by (simp add: dict_in_def del: map_map)
qed

text \<open>What the agent's heartbeat says of it.\<close>

definition agent_registration :: "agent \<Rightarrow> bool \<Rightarrow> gpu_telemetry list \<Rightarrow> string option \<Rightarrow> worker_registration" where
  "agent_registration cfg draining gpus busy =
     \<lparr>r_worker_id = ac_worker_id cfg, r_capabilities = dvalues (ac_capabilities cfg),
      r_tenant_id = ac_tenant_id cfg, r_gpu_model = ac_gpu_model cfg, r_vram_mb = ac_vram_mb cfg,
      r_runtime_versions = ac_runtime_versions cfg, r_cost_class = LOCAL, r_labels = [],
      r_active_leases = 0, r_draining = draining, r_gpus = gpus, r_busy_job_id = busy\<rparr>"

lemma heartbeat_read:
  assumes "faithful pd" "registration_ok (agent_registration cfg draining gpus busy)"
  shows "WorkerHeartbeatRequest pd (heartbeat_body cfg draining gpus busy) =
    Some (agent_registration cfg draining gpus busy)"
proof -
  have c: "list_in 1 32 (WorkerCapabilityDto pd) (JArr (map capability_body (dvalues (ac_capabilities cfg)))) =
      Some (dvalues (ac_capabilities cfg))"
    using assms capability_read [OF assms(1)]
    by (intro list_in_map) (auto simp: registration_ok_def agent_registration_def list_all_iff)
  have g: "list_in 0 MAX_WORKER_GPUS (GpuTelemetryDto pd) (JArr (map gpu_telemetry_json gpus)) = Some gpus"
    using assms gpu_read [OF assms(1)]
    by (intro list_in_map) (auto simp: registration_ok_def agent_registration_def list_all_iff)
  have v: "dict_in 96 32 (str_in 1 64) (JObj (map (\<lambda>(k, v). (k, JStr v)) (ac_runtime_versions cfg))) =
      Some (ac_runtime_versions cfg)"
    using assms(2) by (intro versions_read) (simp_all add: registration_ok_def agent_registration_def)
  have s: "str_like 1 MAX_WORKER_ID_LENGTH (full_match WORKER_ID_PATTERN) (JStr (ac_worker_id cfg)) =
      Some (ac_worker_id cfg)"
    using assms(2)
    by (simp add: str_like_def str_in_def registration_ok_def agent_registration_def)
  have t: "or_null (str_in 1 MAX_TENANT_ID_LENGTH) (jstr_opt (ac_tenant_id cfg)) = Some (ac_tenant_id cfg)"
      "or_null (str_in 0 64) (jstr_opt (ac_gpu_model cfg)) = Some (ac_gpu_model cfg)"
      "or_null (str_in 0 MAX_JOB_ID_LENGTH) (jstr_opt busy) = Some busy"
    using assms(2) by (simp_all add: str_in_opt registration_ok_def agent_registration_def split: option.splits)
  show ?thesis
    using assms c g v s t
    by (simp add: int_in_opt WorkerHeartbeatRequest_def heartbeat_body_def closed_model_def required_def
        optional_def agent_registration_def registration_ok_def route_bounds faithful_def)
qed

text \<open>The coordinator reads exactly what the agent reports: if what the agent would register is
  within the declared bounds, the heartbeat body it sends is accepted and gives that registration; it
  never offers a label, so a worker registered by this agent is never leased a job that requires one.\<close>

theorem heartbeat_roundtrip:
  assumes "faithful pd" "registration_ok (agent_registration cfg draining gpus busy)"
  shows "WorkerHeartbeatRequest pd (heartbeat_body cfg draining gpus busy) =
      Some (agent_registration cfg draining gpus busy) \<and>
    (\<forall>acfg authenticator rq s resp s' i caps seconds now. \<forall>r :: job_record.
       post_heartbeat pd acfg authenticator rq (heartbeat_body cfg draining gpus busy) s = (OK resp, s') \<and>
       labels (j_requirements r) \<noteq> [] \<longrightarrow>
       (\<exists>w. map_of (ps_workers s') (wr_worker_id resp) = Some w \<and>
          \<not> claimable (worker_query w i caps seconds) now r))"
proof (intro conjI allI impI)
  show read: "WorkerHeartbeatRequest pd (heartbeat_body cfg draining gpus busy) =
      Some (agent_registration cfg draining gpus busy)"
    using assms by (rule heartbeat_read)
  fix acfg authenticator rq s resp s' i caps seconds now and r :: job_record
  assume a: "post_heartbeat pd acfg authenticator rq (heartbeat_body cfg draining gpus busy) s = (OK resp, s') \<and>
       labels (j_requirements r) \<noteq> []"
  obtain j :: worker_identity and w and reg :: worker_registration where
    w: "WorkerHeartbeatRequest pd (heartbeat_body cfg draining gpus busy) = Some reg"
      "map_of (ps_workers s') (id_worker_id j) = Some w" "resp = WorkerRecordResponse w"
      "w_worker_id w = id_worker_id j" "w_labels w = r_labels reg"
    using route_heartbeat_facts [OF a [THEN conjunct1]] by blast
  have "reg = agent_registration cfg draining gpus busy" using w(1) read by simp
  then have "w_labels w = []" using w(5) by (simp add: agent_registration_def)
  with a have "\<not> claimable (worker_query w i caps seconds) now r"
    by (simp add: claimable_def satisfies_requirements_def worker_query_def Let_def)
  with w(2,3,4) show "\<exists>w. map_of (ps_workers s') (wr_worker_id resp) = Some w \<and>
      \<not> claimable (worker_query w i caps seconds) now r"
    by (simp add: WorkerRecordResponse_def)
qed

section \<open>A completion\<close>

definition agent_manifest ::
  "lease_grant \<Rightarrow> worker_capability \<Rightarrow> path plugin_output \<Rightarrow> bytes \<Rightarrow> output_manifest"
where
  "agent_manifest lease capability out content =
     \<lparr>m_output_key = lg_output_key lease, m_content_type = po_content_type out,
      m_byte_length = int (length content), m_sha256 = sha256_hex content,
      m_idempotency_key = lg_idempotency_key lease, m_request_digest = lg_request_digest lease,
      m_plugin_id = wc_plugin_id capability, m_plugin_version = wc_plugin_version capability,
      m_model_id = po_model_id out, m_model_version = po_model_version out,
      m_publication_mode = PUBLICATION_MODE_IMMUTABLE_CREATE_ONCE, m_seed = po_seed out,
      m_diagnostics = po_diagnostics out\<rparr>"

definition len_in :: "nat \<Rightarrow> nat \<Rightarrow> string \<Rightarrow> bool" where
  "len_in lo hi s \<longleftrightarrow> lo \<le> length s \<and> length s \<le> hi"

definition completion_bounds :: "lease_grant \<Rightarrow> worker_capability \<Rightarrow> path plugin_output \<Rightarrow> bool" where
  "completion_bounds lease capability out \<longleftrightarrow>
     len_in 1 64 (lg_claim_token lease) \<and> len_in 1 MAX_ASSET_KEY_LENGTH (lg_output_key lease) \<and>
     len_in 1 128 (po_content_type out) \<and> len_in 1 MAX_JOB_ID_LENGTH (lg_idempotency_key lease) \<and>
     SHA256_PATTERN (lg_request_digest lease) \<and>
     len_in 1 64 (wc_plugin_id capability) \<and> len_in 1 32 (wc_plugin_version capability) \<and>
     len_in 1 128 (po_model_id out) \<and> len_in 1 64 (po_model_version out) \<and>
     (case po_seed out of None \<Rightarrow> True | Some n \<Rightarrow> 0 \<le> n) \<and>
     validate_job_payload (po_diagnostics out) = Inr ()"

lemma sha256_hex_pattern: "SHA256_PATTERN (sha256_hex content)"
proof -
  have "is_hex c \<longleftrightarrow> hex_char c" for c by (simp add: is_hex_def hex_char_def)
  then show ?thesis using sha256_hex_length [of content] sha256_hex_chars [of content]
    by (simp add: SHA256_PATTERN_def list_all_iff)
qed

lemma seed_read:
  "faithful pd \<Longrightarrow> (case x of None \<Rightarrow> True | Some n \<Rightarrow> 0 \<le> n) \<Longrightarrow>
     or_null (int_from pd 0) (jint_opt x) = Some x"
  by (cases x) (simp_all add: or_null_def jint_opt_def int_from_def faithful_def)

lemma digest_read: "SHA256_PATTERN s \<Longrightarrow> str_like 0 64 SHA256_PATTERN (JStr s) = Some s"
  by (simp add: str_like_def str_in_def) (simp add: SHA256_PATTERN_def)

lemma manifest_read:
  assumes "faithful pd" "completion_bounds lease capability out"
  shows "CompleteRequest pd (complete_body lease capability out content) =
    Some (lg_claim_token lease, agent_manifest lease capability out content)"
proof -
  have "len_in 1 64 PUBLICATION_MODE_IMMUTABLE_CREATE_ONCE"
    by (simp add: len_in_def PUBLICATION_MODE_IMMUTABLE_CREATE_ONCE_def)
  moreover have "int_from pd 0 (JInt (int (length content))) = Some (int (length content))"
    using assms(1) by (simp add: int_from_def faithful_def)
  moreover have "diagnostics_field (JObj (po_diagnostics out)) = Some (po_diagnostics out)"
    using assms(2) by (simp add: diagnostics_field_def completion_bounds_def)
  moreover have "len_in lo hi x \<Longrightarrow> str_in lo hi (JStr x) = Some x" for lo hi x
    by (simp add: len_in_def str_in_def)
  moreover have "or_null (int_from pd 0) (jint_opt (po_seed out)) = Some (po_seed out)"
    using assms by (intro seed_read) (simp_all add: completion_bounds_def)
  moreover note digest_read [OF sha256_hex_pattern, of content]
  ultimately show ?thesis
    using assms digest_read [of "lg_request_digest lease"]
    by (simp add: CompleteRequest_def OutputManifestDto_def complete_body_def agent_manifest_def
        closed_model_def required_def optional_def completion_bounds_def route_bounds)
qed

text \<open>Authentication leaves the assets alone.\<close>

lemma audit_auth_assets: "audit_auth rd ty w s = (r, s') \<Longrightarrow> ps_assets s' = ps_assets s"
  by (auto simp: audit_auth_def audit_def Let_def split: prod.splits if_splits)

lemma auth_begin_assets: "auth_begin cfg rd authorization source s = (r, s') \<Longrightarrow> ps_assets s' = ps_assets s"
  by (auto simp: auth_begin_def sbind_def sraise_def Let_def dest!: audit_auth_assets
      split: prod.splits if_splits option.splits sum.splits)

lemma auth_try_assets:
  assumes "auth_try cfg rd result s = (r, s')"
  shows "ps_assets s' = ps_assets s"
proof (cases result)
  case (Inr i)
  show ?thesis
  proof (cases "approved_enrollment cfg i s")
    case (Pair x s1)
    then have "s1 = s" using approved_enrollment_state [of cfg i s] by simp
    with assms Inr Pair show ?thesis
      by (cases x) (auto simp: auth_try_def sbind_def sraise_def Let_def
          dest!: audit_auth_assets split: prod.splits if_splits sum.splits)
  qed
qed (use assms in \<open>auto simp: auth_try_def sraise_def\<close>)

lemma auth_end_assets:
  assumes "auth_end cfg rd result s = (r, s')"
  shows "ps_assets s' = ps_assets s"
proof -
  obtain r1 s1 where t: "auth_try cfg rd result s = (r1, s1)" by force
  with assms have "ps_assets s' = ps_assets s1"
    by (auto simp: auth_end_def sbind_def sraise_def dest!: audit_auth_assets
        split: prod.splits if_splits sum.splits)
  with auth_try_assets [OF t] show ?thesis by simp
qed

lemma identity_assets:
  assumes "identity_dependency cfg authenticator rq s = (r, s1)"
  shows "ps_assets s1 = ps_assets s"
proof -
  have "svc_authenticate cfg rd a h src s = (r, s') \<Longrightarrow> ps_assets s' = ps_assets s" for rd a h src r s'
    by (auto simp: svc_authenticate_def sbind_def dest!: auth_begin_assets auth_end_assets
        split: prod.splits sum.splits)
  with assms show ?thesis
    by (auto simp: identity_dependency_def respond_def split: if_splits prod.splits sum.splits)
qed


section \<open>The transfer\<close>

text \<open>A download never fills the disk: with a bound, the file never holds more bytes than the
  bound, whatever the server sends; a transfer that returns wrote exactly the body and says its
  length; and an upload refused because the object exists already is not an error.\<close>

theorem transfer_bounded:
  assumes "0 \<le> m"
  shows "(case snd (http_download (Some m) code chunks) of None \<Rightarrow> True | Some b \<Rightarrow> int (length b) \<le> m) \<and>
    (\<forall>n. fst (http_download bound code chunks) = Inr n \<longrightarrow>
       snd (http_download bound code chunks) = Some (concat chunks) \<and> n = int (length (concat chunks))) \<and>
    http_upload CREATE_ONCE_CONFLICT_STATUS = Inr ()"
proof -
  have b: "int (length (snd (write_chunks (Some m) cs h))) \<le> m" if "int (length h) \<le> m" for cs h
    using that by (induction cs arbitrary: h) auto
  have w: "fst (write_chunks bound cs h) = Inr n \<Longrightarrow>
      snd (write_chunks bound cs h) = h @ concat cs \<and> n = int (length (h @ concat cs))" for cs h n
  proof (induction cs arbitrary: h)
    case (Cons a cs)
    then show ?case
      using Cons.IH [of "h @ a"] by (simp split: if_splits)
  qed simp
  show ?thesis
    using b [of "[]" chunks] w [of chunks "[]"] assms
    by (auto simp: http_download_def http_upload_def split: prod.splits)
qed

section \<open>Witnesses\<close>

lemma demo_faithful: "faithful demo_pydantic"
  by (simp add: faithful_def demo_pydantic_def)

text \<open>Times written in unary.\<close>

definition unary :: "time \<Rightarrow> string" where
  "unary t = (if t < 0 then CHR ''-'' # replicate (nat (- t)) (CHR ''i'') else replicate (nat t) (CHR ''i''))"

definition of_unary :: "string \<Rightarrow> time option" where
  "of_unary s = Some (if s \<noteq> [] \<and> hd s = CHR ''-'' then - int (length (tl s)) else int (length s))"

lemma of_unary: "of_unary (unary t) = Some t"
  by (cases "nat t") (auto simp: of_unary_def unary_def)

theorem lease_roundtrip_witness:
  "lease_grant_from of_unary (lease_response_json unary (LeaseResponse demo_lease)) = Inr demo_lease"
  using lease_roundtrip [of of_unary unary demo_lease, OF of_unary]
  by (simp add: demo_lease_def)

lemma demo_registration_bounds:
  "registration_ok (agent_registration demo_agent False [] None)"
proof -
  have "full_match WORKER_ID_PATTERN ''w''" "full_match CAPABILITY_ID_PATTERN DETERMINISTIC_ECHO_CAPABILITY"
    by code_simp+
  then show ?thesis
    by (simp add: registration_ok_def agent_registration_def demo_agent_def echo_capabilities_def
        capability_ok_def in_range_def contract_bounds DETERMINISTIC_ECHO_CAPABILITY_def
        DETERMINISTIC_ECHO_PLUGIN_ID_def DETERMINISTIC_ECHO_PLUGIN_VERSION_def)
qed

theorem heartbeat_roundtrip_witness:
  "WorkerHeartbeatRequest demo_pydantic (heartbeat_body demo_agent False [] None) =
     Some (agent_registration demo_agent False [] None)"
  using heartbeat_roundtrip [OF demo_faithful demo_registration_bounds] by blast

definition demo_held_lease :: lease_grant where
  "demo_held_lease = demo_lease\<lparr>lg_idempotency_key := ''ka'', lg_request_digest := j_request_digest demo_row\<rparr>"

definition demo_output :: "path plugin_output" where
  "demo_output = \<lparr>po_path = path_of ''/work/a/output.txt'', po_content_type = ''text/plain'',
     po_model_id = ''m'', po_model_version = ''1'', po_seed = Some 7, po_diagnostics = []\<rparr>"

lemma validate_empty: "validate_job_payload [] = Inr ()"
  by (simp add: validate_job_payload_iff contract_bounds enc_members_def encode_def utf8_char_def)


theorem transfer_bounded_witness:
  "http_download (Some 2) 200 [[1], [2, 3]] = (Inl (OtherError ''TransferError''), Some [1]) \<and>
   (case snd (http_download (Some 2) 200 [[1], [2, 3]]) of None \<Rightarrow> True | Some b \<Rightarrow> int (length b) \<le> 2)"
  using transfer_bounded [of 2 200 "[[1], [2, 3]]" None] by (simp add: http_download_def)

end
