(* ===== verification/PostgresStore.thy ===== *)
theory PostgresStore
  imports MemoryProps "HOL-Library.Multiset"
begin

text \<open>
  \<open>PostgresJobStore\<close> of postgres.py: every SQL statement as a function on the rows of
  \<open>pool_jobs\<close>, with the columns, defaults, constraints and unique indexes of migrations/001 to 004.
  A statement is one atomic step and \<open>now()\<close> its one clock reading; the rows other transactions
  hold locked, which \<open>FOR UPDATE SKIP LOCKED\<close> passes over, are an argument of the lease.

  What belongs to PostgreSQL and its driver is the record \<open>pg_env\<close>: the text form of a uuid, the
  order in which \<open>jsonb\<close> keeps the members of an object, the JSON number a float comes back as and
  the number \<open>numeric\<close> reads in its text, SQL \<open>lower\<close>, and Python's \<open>str\<close> for \<open>from_payload\<close>.
  Columns a CHECK constraint or the migrations confine to an enumeration are held as that
  enumeration, jsonb columns as the JSON value \<open>json.loads\<close> gives for them.
\<close>

record pg_env =
  pe_uuid :: "string \<Rightarrow> string option"
  pe_order :: "(string \<times> json) list \<Rightarrow> (string \<times> json) list"
  pe_float :: "string \<Rightarrow> json"
  pe_numeric :: "string \<Rightarrow> rat"
  pe_lower :: "string \<Rightarrow> string"
  pe_py_str :: "json \<Rightarrow> string"

section \<open>jsonb\<close>

text \<open>What \<open>json.dumps(v)\<close> cast to \<open>jsonb\<close> reads back as; \<open>None\<close> when the cast is refused
  (\<open>NaN\<close>, \<open>Infinity\<close>, the character NUL).\<close>

definition no_nul :: "string \<Rightarrow> bool" where
  "no_nul s \<longleftrightarrow> CHR 0x00 \<notin> set s"

fun to_jsonb :: "pg_env \<Rightarrow> json \<Rightarrow> json option" where
  "to_jsonb env (JFloat t n) = (case n of Fin _ \<Rightarrow> Some (pe_float env t) | _ \<Rightarrow> None)"
| "to_jsonb env (JStr s) = (if no_nul s then Some (JStr s) else None)"
| "to_jsonb env (JArr vs) = map_option JArr (those (map (to_jsonb env) vs))"
| "to_jsonb env (JObj kvs) =
     map_option (\<lambda>kvs'. JObj (pe_order env kvs'))
       (those (map (\<lambda>p. if no_nul (fst p) then map_option (Pair (fst p)) (to_jsonb env (snd p))
                        else None) kvs))"
| "to_jsonb env v = Some v"

text \<open>\<open>=\<close> on jsonb: numbers by value, a boolean is not a number, objects by member.\<close>

fun jsonb_num :: "pg_env \<Rightarrow> json \<Rightarrow> rat option" where
  "jsonb_num env (JInt i) = Some (of_int i)"
| "jsonb_num env (JFloat t _) = Some (pe_numeric env t)"
| "jsonb_num env _ = None"

fun jsonb_eq :: "pg_env \<Rightarrow> json \<Rightarrow> json \<Rightarrow> bool" where
  "jsonb_eq env (JStr s) b = (b = JStr s)"
| "jsonb_eq env JNull b = (b = JNull)"
| "jsonb_eq env (JBool x) b = (b = JBool x)"
| "jsonb_eq env (JArr xs) b = (case b of JArr ys \<Rightarrow> list_all2 (jsonb_eq env) xs ys | _ \<Rightarrow> False)"
| "jsonb_eq env (JObj xs) b =
     (case b of
        JObj ys \<Rightarrow> length xs = length ys \<and>
          list_all (\<lambda>p. case map_of ys (fst p) of None \<Rightarrow> False | Some w \<Rightarrow> jsonb_eq env (snd p) w) xs
      | _ \<Rightarrow> False)"
| "jsonb_eq env a b = (jsonb_num env a = jsonb_num env b)"

text \<open>\<open>a <@ b\<close>: an object is contained when each of its members is, an array when each of its
  elements is contained in one of the other's, a scalar when it is equal.\<close>

fun jsonb_contained :: "pg_env \<Rightarrow> json \<Rightarrow> json \<Rightarrow> bool" where
  "jsonb_contained env (JArr xs) b =
     (case b of JArr ys \<Rightarrow> list_all (\<lambda>x. list_ex (jsonb_contained env x) ys) xs | _ \<Rightarrow> False)"
| "jsonb_contained env (JObj xs) b =
     (case b of
        JObj ys \<Rightarrow>
          list_all (\<lambda>p. case map_of ys (fst p) of
                          None \<Rightarrow> False | Some w \<Rightarrow> jsonb_contained env (snd p) w) xs
      | _ \<Rightarrow> False)"
| "jsonb_contained env a b = jsonb_eq env a b"

text \<open>\<open>COALESCE(o->'k', d)\<close>\<close>

definition coalesce_member :: "payload \<Rightarrow> string \<Rightarrow> json \<Rightarrow> json" where
  "coalesce_member o' k d = (case map_of o' k of None \<Rightarrow> d | Some v \<Rightarrow> v)"

fun jsonb_elements :: "json \<Rightarrow> json list" where
  "jsonb_elements (JArr vs) = vs"
| "jsonb_elements _ = []"

section \<open>Rows\<close>

record pg_row =
  p_job_id :: string
  p_idempotency_key :: string
  p_capability_id :: string
  p_contract_version :: int
  p_status :: job_status
  p_input_keys :: "json list"
  p_output_key :: string
  p_payload :: payload
  p_tenant_id :: "string option"
  p_attempts :: int
  p_attempt_budget :: int
  p_priority :: int
  p_execution_deadline_seconds :: int
  p_request_digest :: string
  p_claim_token :: "string option"
  p_leased_by :: "string option"
  p_lease_until :: "time option"
  p_output_content_type :: "string option"
  p_output_sha256 :: "string option"
  p_output_byte_length :: "int option"
  p_error :: "string option"
  p_failure_code :: "job_failure_code option"
  p_failure_message :: "string option"
  p_retryable :: bool
  p_progress_percent :: "int option"
  p_created_at :: time
  p_updated_at :: time
  p_cancelled_at :: "time option"
  p_requirements :: payload
  p_executed_by :: "string option"
  p_execution_metadata :: payload

definition record_of_row :: "pg_env \<Rightarrow> pg_row \<Rightarrow> exn + job_record" where
  "record_of_row env p =
     ebind (from_payload (pe_py_str env) (p_requirements p)) (\<lambda>req.
     Inr \<lparr>j_job_id = p_job_id p, j_idempotency_key = p_idempotency_key p,
          j_capability_id = p_capability_id p, j_status = p_status p,
          j_input_keys = map the_str (p_input_keys p), j_output_key = p_output_key p,
          j_attempts = p_attempts p, j_created_at = p_created_at p,
          j_updated_at = p_updated_at p, j_contract_version = p_contract_version p,
          j_payload = p_payload p, j_tenant_id = p_tenant_id p, j_requirements = req,
          j_priority = p_priority p, j_attempt_budget = p_attempt_budget p,
          j_execution_deadline_seconds = p_execution_deadline_seconds p,
          j_request_digest = p_request_digest p, j_claim_token = p_claim_token p,
          j_leased_by = p_leased_by p, j_executed_by = p_executed_by p,
          j_execution_metadata = p_execution_metadata p, j_lease_until = p_lease_until p,
          j_output_content_type = p_output_content_type p, j_output_sha256 = p_output_sha256 p,
          j_output_byte_length = p_output_byte_length p, j_error = p_error p,
          j_failure_code = p_failure_code p, j_failure_message = p_failure_message p,
          j_retryable = p_retryable p, j_progress_percent = p_progress_percent p,
          j_cancelled_at = p_cancelled_at p\<rparr>)"

type_synonym pg_jobs = "pg_row list"

section \<open>Query arguments\<close>

text \<open>The driver refuses an integer outside its column's width and the server a text with NUL.\<close>

definition text_args :: "string list \<Rightarrow> exn + unit" where
  "text_args = for_each (\<lambda>t. ensure (no_nul t) (DataError t))"

definition int_arg :: "nat \<Rightarrow> int \<Rightarrow> exn + unit" where
  "int_arg w n = ensure (- (2 ^ (w - 1)) \<le> n \<and> n < 2 ^ (w - 1)) (DataError (int_str n))"

definition opt_list :: "'a option \<Rightarrow> 'a list" where
  "opt_list x = (case x of None \<Rightarrow> [] | Some y \<Rightarrow> [y])"

definition uuid_arg :: "pg_env \<Rightarrow> string \<Rightarrow> exn + string" where
  "uuid_arg env k = (case pe_uuid env k of None \<Rightarrow> Inl (DataError k) | Some u \<Rightarrow> Inr u)"

definition jsonb_arg :: "pg_env \<Rightarrow> json \<Rightarrow> exn + json" where
  "jsonb_arg env v = (case to_jsonb env v of None \<Rightarrow> Inl (DataError ''jsonb'') | Some w \<Rightarrow> Inr w)"

fun members :: "json \<Rightarrow> payload" where
  "members (JObj kvs) = kvs"
| "members _ = []"

text \<open>\<open>UPDATE ... SET f WHERE c\<close> and the number in its command tag.\<close>

definition update_where :: "('r \<Rightarrow> bool) \<Rightarrow> ('r \<Rightarrow> 'r) \<Rightarrow> 'r list \<Rightarrow> nat \<times> 'r list" where
  "update_where c f rows = (length (filter c rows), map (\<lambda>p. if c p then f p else p) rows)"

text \<open>\<open>_execute\<close>: the statement's arguments are checked, then it runs; \<open>True\<close> means \<open>UPDATE 1\<close>.\<close>

definition execute ::
  "exn + 'k \<Rightarrow> ('k \<Rightarrow> 'r \<Rightarrow> bool) \<Rightarrow> ('k \<Rightarrow> 'r \<Rightarrow> 'r) \<Rightarrow> 'r list \<Rightarrow> (exn + bool) \<times> 'r list"
where
  "execute args c f rows =
     (case args of
        Inl e \<Rightarrow> (Inl e, rows)
      | Inr k \<Rightarrow> (case update_where (c k) (f k) rows of (n, rows') \<Rightarrow> (Inr (n = 1), rows')))"

section \<open>Operations\<close>

text \<open>The values \<open>submit\<close> passes: the uuid, input keys, payload and requirements as stored.\<close>

definition submit_args ::
  "pg_env \<Rightarrow> job_submission \<Rightarrow> exn + string \<times> json list \<times> payload \<times> payload"
where
  "submit_args env sub =
     ebind (uuid_arg env (s_job_id sub)) (\<lambda>u.
     ebind (int_arg 32 (s_contract_version sub)) (\<lambda>_.
     ebind (text_args ([s_idempotency_key sub, s_capability_id sub, s_output_key sub] @
              opt_list (s_tenant_id sub))) (\<lambda>_.
     ebind (jsonb_arg env (JArr (map JStr (s_input_keys sub)))) (\<lambda>inputs.
     ebind (jsonb_arg env (JObj (s_payload sub))) (\<lambda>payload.
     ebind (jsonb_arg env (JObj (as_payload (s_requirements sub)))) (\<lambda>req.
     Inr (u, jsonb_elements inputs, members payload, members req)))))))"

definition inserted_row ::
  "job_submission \<Rightarrow> string \<times> json list \<times> payload \<times> payload \<Rightarrow> string \<Rightarrow> time \<Rightarrow> pg_row"
where
  "inserted_row sub args digest now =
     (case args of (u, inputs, payload, req) \<Rightarrow>
     \<lparr>p_job_id = u, p_idempotency_key = s_idempotency_key sub,
      p_capability_id = s_capability_id sub, p_contract_version = s_contract_version sub,
      p_status = QUEUED, p_input_keys = inputs, p_output_key = s_output_key sub,
      p_payload = payload, p_tenant_id = s_tenant_id sub, p_attempts = 0,
      p_attempt_budget = s_attempt_budget sub, p_priority = s_priority sub,
      p_execution_deadline_seconds = s_execution_deadline_seconds sub,
      p_request_digest = digest, p_claim_token = None, p_leased_by = None, p_lease_until = None,
      p_output_content_type = None, p_output_sha256 = None, p_output_byte_length = None,
      p_error = None, p_failure_code = None, p_failure_message = None, p_retryable = False,
      p_progress_percent = None, p_created_at = now, p_updated_at = now, p_cancelled_at = None,
      p_requirements = req, p_executed_by = None, p_execution_metadata = []\<rparr>)"

text \<open>The WHERE of \<open>ON CONFLICT (idempotency_key) DO UPDATE\<close>.\<close>

definition same_request :: "pg_env \<Rightarrow> pg_row \<Rightarrow> pg_row \<Rightarrow> bool" where
  "same_request env p e \<longleftrightarrow>
     p_capability_id p = p_capability_id e \<and> p_contract_version p = p_contract_version e \<and>
     jsonb_eq env (JArr (p_input_keys p)) (JArr (p_input_keys e)) \<and>
     p_output_key p = p_output_key e \<and>
     jsonb_eq env (JObj (p_payload p)) (JObj (p_payload e)) \<and>
     p_tenant_id p = p_tenant_id e \<and>
     jsonb_eq env (JObj (p_requirements p)) (JObj (p_requirements e)) \<and>
     p_priority p = p_priority e \<and> p_attempt_budget p = p_attempt_budget e \<and>
     p_execution_deadline_seconds p = p_execution_deadline_seconds e"

definition submit_result :: "pg_env \<Rightarrow> bool \<Rightarrow> pg_row \<Rightarrow> exn + submission_result" where
  "submit_result env created p =
     ebind (record_of_row env p) (\<lambda>r. Inr \<lparr>sr_record = r, sr_created = created\<rparr>)"

definition pg_submit ::
  "pg_env \<Rightarrow> job_submission \<Rightarrow> time \<Rightarrow> pg_jobs \<Rightarrow> (exn + submission_result) \<times> pg_jobs"
where
  "pg_submit env sub now s =
     (case ebind (validate_job_submission sub) (\<lambda>_.
           ebind (job_request_digest sub) (\<lambda>digest.
           ebind (submit_args env sub) (\<lambda>args. Inr (inserted_row sub args digest now)))) of
        Inl e \<Rightarrow> (Inl e, s)
      | Inr e \<Rightarrow>
        (case find (\<lambda>p. p_idempotency_key p = p_idempotency_key e) s of
           Some p \<Rightarrow>
             if same_request env p e then (submit_result env False p, s)
             else (Inl (IdempotencyConflict (s_idempotency_key sub)), s)
         | None \<Rightarrow>
             if list_ex (\<lambda>p. p_job_id p = p_job_id e) s
             then (Inl (UniqueViolation (p_job_id e)), s)
             else (submit_result env True e, s @ [e])))"

definition pg_get :: "pg_env \<Rightarrow> string \<Rightarrow> pg_jobs \<Rightarrow> exn + job_record option" where
  "pg_get env job_id s =
     ebind (uuid_arg env job_id) (\<lambda>u.
       case find (\<lambda>p. p_job_id p = u) s of
         None \<Rightarrow> Inr None
       | Some p \<Rightarrow> ebind (record_of_row env p) (\<lambda>r. Inr (Some r)))"

definition pg_list_for_tenant :: "pg_env \<Rightarrow> string \<Rightarrow> pg_jobs \<Rightarrow> exn + job_record list" where
  "pg_list_for_tenant env tenant s =
     ebind (text_args [tenant]) (\<lambda>_.
     map_result (record_of_row env)
       (sort_key (\<lambda>p. (p_created_at p, p_job_id p))
          (filter (\<lambda>p. p_tenant_id p = Some tenant) s)))"

definition cancelled_row :: "pg_row \<Rightarrow> time \<Rightarrow> pg_row" where
  "cancelled_row p now =
     p\<lparr>p_status := CANCELLED, p_cancelled_at := Some now, p_claim_token := None,
       p_leased_by := None, p_lease_until := None, p_updated_at := now\<rparr>"

definition pg_cancel :: "pg_env \<Rightarrow> string \<Rightarrow> time \<Rightarrow> pg_jobs \<Rightarrow> (exn + bool) \<times> pg_jobs" where
  "pg_cancel env job_id now =
     execute (uuid_arg env job_id)
       (\<lambda>u p. p_job_id p = u \<and> p_status p \<in> {QUEUED, PROCESSING})
       (\<lambda>u p. cancelled_row p now)"

text \<open>\<open>(requirements->>'min_vram_mb')::int\<close>; the rows hold an integer there or nothing.\<close>

definition min_vram_of :: "payload \<Rightarrow> int option" where
  "min_vram_of req = (case map_of req ''min_vram_mb'' of Some (JInt i) \<Rightarrow> Some i | _ \<Rightarrow> None)"

text \<open>The WHERE of the lease's candidate query.\<close>

definition pg_claimable :: "pg_env \<Rightarrow> lease_query \<Rightarrow> time \<Rightarrow> pg_row \<Rightarrow> bool" where
  "pg_claimable env q now p \<longleftrightarrow>
     (let req = p_requirements p in
     p_capability_id p \<in> set (q_capability_ids q) \<and>
     p_attempts p < p_attempt_budget p \<and>
     (p_status p = QUEUED \<or>
      (p_status p = PROCESSING \<and> (case p_lease_until p of None \<Rightarrow> False | Some t \<Rightarrow> t < now))) \<and>
     p_tenant_id p = q_tenant_id q \<and>
     or_zero (min_vram_of req) \<le> or_zero (q_vram_mb q) \<and>
     (length (jsonb_elements (coalesce_member req ''gpu_models'' (JArr []))) = 0 \<or>
      (case q_gpu_model q of
         None \<Rightarrow> False
       | Some g \<Rightarrow> pe_lower env g \<in> set (map (pe_lower env \<circ> the_str)
                      (jsonb_elements (coalesce_member req ''gpu_models'' JNull))))) \<and>
     jsonb_contained env (coalesce_member req ''labels'' (JArr [])) (JArr (map JStr (q_labels q))) \<and>
     (jsonb_eq env (coalesce_member req ''worker_ids'' (JArr [])) (JArr []) \<or>
      JStr (q_worker_id q) \<in> set (jsonb_elements (coalesce_member req ''worker_ids'' JNull))) \<and>
     jsonb_contained env (coalesce_member req ''runtime_versions'' (JObj []))
       (JObj (map (\<lambda>(k, v). (k, JStr v)) (q_runtime_versions q))))"

definition pg_lease_key :: "pg_row \<Rightarrow> int \<times> time \<times> string" where
  "pg_lease_key p = (p_priority p, p_created_at p, p_job_id p)"

definition lease_args :: "pg_env \<Rightarrow> lease_query \<Rightarrow> exn + unit" where
  "lease_args env q =
     ebind (text_args (q_worker_id q # q_capability_ids q @ opt_list (q_tenant_id q) @
              opt_list (q_gpu_model q))) (\<lambda>_.
     ebind (for_each (int_arg 32) (q_lease_seconds q # opt_list (q_vram_mb q))) (\<lambda>_.
     ebind (jsonb_arg env (JArr (map JStr (q_labels q)))) (\<lambda>_.
     ebind (jsonb_arg env (JObj (map (\<lambda>(k, v). (k, JStr v)) (q_runtime_versions q)))) (\<lambda>_.
     Inr ()))))"

definition leased_row :: "pg_row \<Rightarrow> lease_query \<Rightarrow> time \<Rightarrow> string \<Rightarrow> pg_row" where
  "leased_row p q now token =
     p\<lparr>p_status := PROCESSING, p_attempts := p_attempts p + 1, p_claim_token := Some token,
       p_leased_by := Some (q_worker_id q),
       p_lease_until := Some (now + usec (q_lease_seconds q)), p_updated_at := now\<rparr>"

definition pg_candidates ::
  "pg_env \<Rightarrow> (string \<Rightarrow> bool) \<Rightarrow> lease_query \<Rightarrow> time \<Rightarrow> pg_jobs \<Rightarrow> pg_row list"
where
  "pg_candidates env locked q now s =
     filter (\<lambda>p. pg_claimable env q now p \<and> \<not> locked (p_job_id p)) s"

definition pg_lease ::
  "pg_env \<Rightarrow> (string \<Rightarrow> bool) \<Rightarrow> lease_query \<Rightarrow> time \<Rightarrow> string \<Rightarrow> pg_jobs \<Rightarrow>
     (exn + job_record option) \<times> pg_jobs"
where
  "pg_lease env locked q now token s =
     (case lease_args env q of
        Inl e \<Rightarrow> (Inl e, s)
      | Inr _ \<Rightarrow>
        (case pg_candidates env locked q now s of
           [] \<Rightarrow> (Inr None, s)
         | c # cs \<Rightarrow>
           let p = arg_min_list pg_lease_key (c # cs)
           in (ebind (record_of_row env (leased_row p q now token)) (\<lambda>r. Inr (Some r)),
               snd (update_where (\<lambda>j. p_job_id j = p_job_id p)
                      (\<lambda>j. leased_row j q now token) s))))"

text \<open>\<open>WHERE job_id = ... AND status = 'processing' AND claim_token = ...\<close>\<close>

definition row_claimed :: "string \<Rightarrow> string \<Rightarrow> pg_row \<Rightarrow> bool" where
  "row_claimed u token p \<longleftrightarrow>
     p_job_id p = u \<and> p_status p = PROCESSING \<and> p_claim_token p = Some token"

definition row_unclaimed :: "pg_row \<Rightarrow> time \<Rightarrow> pg_row" where
  "row_unclaimed p now =
     p\<lparr>p_claim_token := None, p_leased_by := None, p_lease_until := None, p_updated_at := now\<rparr>"

definition claim_args :: "pg_env \<Rightarrow> string \<Rightarrow> string list \<Rightarrow> exn + string" where
  "claim_args env job_id texts =
     ebind (uuid_arg env job_id) (\<lambda>u. ebind (text_args texts) (\<lambda>_. Inr u))"

definition beaten_row :: "pg_row \<Rightarrow> int \<Rightarrow> int option \<Rightarrow> time \<Rightarrow> pg_row" where
  "beaten_row p lease_seconds progress now =
     p\<lparr>p_lease_until := Some (now + usec lease_seconds),
       p_progress_percent := (case progress of None \<Rightarrow> p_progress_percent p | Some n \<Rightarrow> Some n),
       p_updated_at := now\<rparr>"

text \<open>\<open>pool_jobs_progress_percent_range\<close>\<close>

definition progress_ok :: "int option \<Rightarrow> bool" where
  "progress_ok n = (case n of None \<Rightarrow> True | Some n \<Rightarrow> 0 \<le> n \<and> n \<le> 100)"

definition pg_heartbeat ::
  "pg_env \<Rightarrow> string \<Rightarrow> string \<Rightarrow> int \<Rightarrow> int option \<Rightarrow> time \<Rightarrow> pg_jobs \<Rightarrow> (exn + bool) \<times> pg_jobs"
where
  "pg_heartbeat env job_id token lease_seconds progress now s =
     (case ebind (claim_args env job_id [token]) (\<lambda>u.
           ebind (for_each (int_arg 32) (lease_seconds # opt_list progress)) (\<lambda>_. Inr u)) of
        Inr u \<Rightarrow>
          if list_ex (row_claimed u token) s \<and> \<not> progress_ok progress
          then (Inl (CheckViolation ''pool_jobs_progress_percent_range''), s)
          else execute (Inr u) (\<lambda>u. row_claimed u token)
                 (\<lambda>u p. beaten_row p lease_seconds progress now) s
      | Inl e \<Rightarrow> (Inl e, s))"

definition completed_row :: "pg_row \<Rightarrow> completion \<Rightarrow> payload \<Rightarrow> time \<Rightarrow> pg_row" where
  "completed_row p c metadata now =
     (row_unclaimed p now)\<lparr>p_status := COMPLETED, p_executed_by := p_leased_by p,
       p_execution_metadata := metadata, p_output_content_type := Some (c_content_type c),
       p_output_sha256 := Some (c_sha256 c), p_output_byte_length := Some (c_byte_length c),
       p_error := None\<rparr>"

definition pg_complete ::
  "pg_env \<Rightarrow> string \<Rightarrow> string \<Rightarrow> completion \<Rightarrow> time \<Rightarrow> pg_jobs \<Rightarrow> (exn + bool) \<times> pg_jobs"
where
  "pg_complete env job_id token c now =
     execute
       (ebind (claim_args env job_id [token, c_content_type c, c_sha256 c]) (\<lambda>u.
        ebind (int_arg 64 (c_byte_length c)) (\<lambda>_.
        ebind (jsonb_arg env (JObj (c_execution_metadata c))) (\<lambda>m. Inr (u, members m)))))
       (\<lambda>(u, m). row_claimed u token)
       (\<lambda>(u, m) p. completed_row p c m now)"

definition failed_row :: "pg_row \<Rightarrow> failure \<Rightarrow> time \<Rightarrow> pg_row" where
  "failed_row p f now =
     (row_unclaimed p now)\<lparr>p_status := FAILED, p_error := Some (f_reason f),
       p_failure_code := Some (f_failure_code f), p_failure_message := f_failure_message f,
       p_retryable := f_retryable f\<rparr>"

definition pg_fail ::
  "pg_env \<Rightarrow> string \<Rightarrow> string \<Rightarrow> failure \<Rightarrow> time \<Rightarrow> pg_jobs \<Rightarrow> (exn + bool) \<times> pg_jobs"
where
  "pg_fail env job_id token f now =
     execute (claim_args env job_id ([token, f_reason f] @ opt_list (f_failure_message f)))
       (\<lambda>u. row_claimed u token)
       (\<lambda>u p. failed_row p f now)"

definition released_row :: "pg_row \<Rightarrow> string \<Rightarrow> time \<Rightarrow> pg_row" where
  "released_row p reason now =
     (row_unclaimed p now)\<lparr>p_status := QUEUED, p_error := Some reason\<rparr>"

definition pg_release ::
  "pg_env \<Rightarrow> string \<Rightarrow> string \<Rightarrow> string \<Rightarrow> time \<Rightarrow> pg_jobs \<Rightarrow> (exn + bool) \<times> pg_jobs"
where
  "pg_release env job_id token reason now =
     execute (claim_args env job_id [token, reason])
       (\<lambda>u. row_claimed u token)
       (\<lambda>u p. released_row p reason now)"

definition row_exhausted :: "time \<Rightarrow> pg_row \<Rightarrow> bool" where
  "row_exhausted now p \<longleftrightarrow>
     p_status p = PROCESSING \<and> (case p_lease_until p of None \<Rightarrow> False | Some t \<Rightarrow> t < now) \<and>
     p_attempt_budget p \<le> p_attempts p"

definition expired_row :: "pg_row \<Rightarrow> time \<Rightarrow> pg_row" where
  "expired_row p now =
     (row_unclaimed p now)\<lparr>p_status := FAILED, p_error := Some ATTEMPT_BUDGET_EXHAUSTED,
       p_failure_code := Some TEMPORARY_FAILURE, p_retryable := True\<rparr>"

definition pg_expire_exhausted :: "time \<Rightarrow> pg_jobs \<Rightarrow> nat \<times> pg_jobs" where
  "pg_expire_exhausted now =
     update_where (row_exhausted now) (\<lambda>p. expired_row p now)"

text \<open>\<open>GROUP BY capability_id, status\<close> and the loop over its rows, in whatever order \<open>groups\<close> the
  server returns them.\<close>

definition depth_row :: "pg_jobs \<Rightarrow> string \<times> job_status \<Rightarrow> nat" where
  "depth_row s g = length (filter (\<lambda>p. (p_capability_id p, p_status p) = g) s)"

definition depth_groups :: "pg_jobs \<Rightarrow> (string \<times> job_status) set" where
  "depth_groups s =
     set (map (\<lambda>p. (p_capability_id p, p_status p)) (filter (\<lambda>p. p_status p \<in> {QUEUED, PROCESSING}) s))"

definition add_group :: "pg_jobs \<Rightarrow> string \<times> job_status \<Rightarrow> depth_counts \<Rightarrow> depth_counts" where
  "add_group s = (\<lambda>(capability, status) (queued, processing, by_capability).
     let n = depth_row s (capability, status);
         c = (case map_of by_capability capability of
                None \<Rightarrow> \<lparr>cq_queued = 0, cq_processing = 0\<rparr> | Some c \<Rightarrow> c)
     in if status = QUEUED
        then (queued + n, processing, AList.update capability (c\<lparr>cq_queued := n\<rparr>) by_capability)
        else (queued, processing + n, AList.update capability (c\<lparr>cq_processing := n\<rparr>) by_capability))"

definition pg_queue_depth :: "(string \<times> job_status) list \<Rightarrow> pg_jobs \<Rightarrow> queue_depth" where
  "pg_queue_depth groups s =
     (let (queued, processing, by_capability) = fold (add_group s) groups (0, 0, [])
      in \<lparr>qd_queued = queued, qd_processing = processing, qd_by_capability = by_capability,
          qd_online_workers_by_capability = []\<rparr>)"

section \<open>What a row says\<close>

text \<open>Documented of jsonb: the order of an object's members is not kept, the members are.\<close>

definition jsonb_keeps :: "pg_env \<Rightarrow> bool" where
  "jsonb_keeps env \<longleftrightarrow> (\<forall>kvs. mset (pe_order env kvs) = mset kvs)"

definition jstr_members :: "(string, string) dict \<Rightarrow> payload" where
  "jstr_members vs = map (\<lambda>(k, v). (k, JStr v)) vs"

lemma those_strings: "those (map (to_jsonb env) (map JStr xs)) =
  (if list_all no_nul xs then Some (map JStr xs) else None)"
  by (induction xs) auto

lemma those_versions:
  "those (map (\<lambda>p. if no_nul (fst p) then map_option (Pair (fst p)) (to_jsonb env (snd p)) else None)
     (jstr_members vs)) = Some w \<Longrightarrow> w = jstr_members vs"
  by (induction vs arbitrary: w) (auto simp: jstr_members_def split: if_splits option.splits)

lemma order_versions:
  assumes "jsonb_keeps env"
  obtains vs' where "pe_order env (jstr_members vs) = jstr_members vs'" "mset vs' = mset vs"
proof -
  let ?kvs = "pe_order env (jstr_members vs)"
  have m: "mset ?kvs = mset (jstr_members vs)" using assms by (simp add: jsonb_keeps_def)
  let ?f = "\<lambda>p. (fst p, the_str (snd p))"
  have "snd p = JStr (the_str (snd p))" if "p \<in> set ?kvs" for p
    using that mset_eq_setD [OF m] by (auto simp: jstr_members_def)
  then have "jstr_members (map ?f ?kvs) = ?kvs"
    by (auto simp: jstr_members_def intro!: map_idI prod_eqI)
  moreover have "mset (map ?f ?kvs) = mset vs"
    using arg_cong [OF m, of "image_mset ?f"]
    by (simp add: jstr_members_def multiset.map_comp o_def case_prod_unfold)
  ultimately show ?thesis using that by metis
qed

lemma as_payload_jstr:
  "as_payload r =
     (case min_vram_mb r of None \<Rightarrow> [] | Some n \<Rightarrow> [(''min_vram_mb'', JInt n)]) @
     (if gpu_models r \<noteq> [] then [(''gpu_models'', JArr (map JStr (gpu_models r)))] else []) @
     (if labels r \<noteq> [] then [(''labels'', JArr (map JStr (labels r)))] else []) @
     (if worker_ids r \<noteq> [] then [(''worker_ids'', JArr (map JStr (worker_ids r)))] else []) @
     (if runtime_versions r \<noteq> [] then [(''runtime_versions'', JObj (jstr_members (runtime_versions r)))]
      else [])"
  by (simp add: as_payload_def jstr_members_def)

lemma distinct_as_payload: "distinct (keys (as_payload r))"
  by (simp add: as_payload_def split: option.split)

lemma map_of_as_payload:
  "map_of (as_payload r) ''min_vram_mb'' = map_option JInt (min_vram_mb r)"
  "map_of (as_payload r) ''gpu_models'' =
     (if gpu_models r = [] then None else Some (JArr (map JStr (gpu_models r))))"
  "map_of (as_payload r) ''labels'' =
     (if labels r = [] then None else Some (JArr (map JStr (labels r))))"
  "map_of (as_payload r) ''worker_ids'' =
     (if worker_ids r = [] then None else Some (JArr (map JStr (worker_ids r))))"
  "map_of (as_payload r) ''runtime_versions'' =
     (if runtime_versions r = [] then None else Some (JObj (jstr_members (runtime_versions r))))"
  by (simp_all add: as_payload_jstr split: option.split)

lemma from_payload_cong:
  assumes "map_of a = map_of b"
  shows "from_payload f a = from_payload f b"
proof -
  have "pget a = pget b" by (rule ext) (simp add: pget_def assms)
  then have "get_or a = get_or b" by (intro ext) (simp add: get_or_def)
  with \<open>pget a = pget b\<close> show ?thesis by (simp only: from_payload_def)
qed

lemma mset_map_of: "mset a = mset b \<Longrightarrow> distinct (keys b) \<Longrightarrow> map_of a = map_of b"
proof -
  assume m: "mset a = mset b" and d: "distinct (keys b)"
  have "mset (keys a) = mset (keys b)"
    using arg_cong [OF m, of "image_mset fst"] by simp
  with d have "distinct (keys a)"
    by (metis mset_eq_imp_distinct_iff)
  with d mset_eq_setD [OF m] show ?thesis by (simp add: map_of_inject_set)
qed

definition stored_member :: "pg_env \<Rightarrow> string \<times> json \<Rightarrow> (string \<times> json) option" where
  "stored_member env p =
     (if no_nul (fst p) then map_option (Pair (fst p)) (to_jsonb env (snd p)) else None)"

lemma stored_members:
  "those (map (stored_member env) kvs) = Some kvs' \<Longrightarrow>
     keys kvs' = keys kvs \<and>
     (\<forall>k. map_of kvs' k = (case map_of kvs k of None \<Rightarrow> None | Some v \<Rightarrow> to_jsonb env v)) \<and>
     (\<forall>k v. map_of kvs k = Some v \<longrightarrow> to_jsonb env v \<noteq> None)"
proof (induction kvs arbitrary: kvs')
  case (Cons p kvs)
  then show ?case
    by (cases p) (auto simp: stored_member_def split: if_splits option.splits)
qed simp

lemma requirements_stored:
  assumes "jsonb_keeps env" "to_jsonb env (JObj (as_payload r)) = Some w"
  obtains vs where "mset vs = mset (runtime_versions r)"
    "map_of (members w) = map_of (as_payload (r\<lparr>runtime_versions := vs\<rparr>))"
proof -
  obtain kvs where kvs: "those (map (stored_member env) (as_payload r)) = Some kvs"
      "w = JObj (pe_order env kvs)"
    using assms(2) by (auto simp: stored_member_def [abs_def])
  obtain vs where vs: "pe_order env (jstr_members (runtime_versions r)) = jstr_members vs"
    "mset vs = mset (runtime_versions r)"
    by (rule order_versions [OF assms(1)])
  have ne: "vs = [] \<longleftrightarrow> runtime_versions r = []"
    using vs(2) by (metis mset_zero_iff)
  note st = stored_members [OF kvs(1)]
  have strs: "to_jsonb env (JArr (map JStr xs)) = Some (JArr (map JStr xs))"
    if "map_of (as_payload r) k = Some (JArr (map JStr xs))" for k xs
  proof -
    have "to_jsonb env (JArr (map JStr xs)) \<noteq> None" using st that by blast
    then show ?thesis by (simp add: those_strings del: map_map split: if_splits)
  qed
  have vers: "to_jsonb env (JObj (jstr_members (runtime_versions r))) = Some (JObj (jstr_members vs))"
    if "map_of (as_payload r) k = Some (JObj (jstr_members (runtime_versions r)))" for k
    using st that vs(1) those_versions [of env "runtime_versions r"] by fastforce
  note m = map_of_as_payload [of r] map_of_as_payload [of "r\<lparr>runtime_versions := vs\<rparr>"]
  have "map_of kvs k = map_of (as_payload (r\<lparr>runtime_versions := vs\<rparr>)) k" for k
  proof (cases "k \<in> {''min_vram_mb'', ''gpu_models'', ''labels'', ''worker_ids'', ''runtime_versions''}")
    case True
    then show ?thesis
      using st strs [of k] vers [of k] ne
      by (elim insertE) (simp_all add: m split: option.splits)
  next
    case False
    then have "map_of (as_payload x) k = None" for x
      by (simp add: as_payload_def split: option.split)
    with st show ?thesis by simp
  qed
  then have "map_of kvs = map_of (as_payload (r\<lparr>runtime_versions := vs\<rparr>))" by (rule ext)
  moreover have "distinct (keys kvs)" using st distinct_as_payload [of r] by simp
  ultimately have "map_of (members w) = map_of (as_payload (r\<lparr>runtime_versions := vs\<rparr>))"
    using kvs(2) mset_map_of [of "pe_order env kvs" kvs] assms(1) by (simp add: jsonb_keeps_def)
  with vs(2) that show ?thesis by blast
qed

text \<open>A row as \<open>submit\<close> and the updates leave it: it reads as a well-formed record and its
  requirements column holds what \<open>as_payload\<close> writes.\<close>

definition row_ok :: "pg_env \<Rightarrow> pg_row \<Rightarrow> bool" where
  "row_ok env p \<longleftrightarrow>
     (\<exists>r. record_of_row env p = Inr r \<and> record_ok r \<and>
          map_of (p_requirements p) = map_of (as_payload (j_requirements r)))"

text \<open>The laws of the environment: the members of an object are kept, and SQL \<open>lower\<close> (in a
  database whose character classification knows the texts) is Python's.\<close>

definition pg_env_ok :: "pg_env \<Rightarrow> bool" where
  "pg_env_ok env \<longleftrightarrow> jsonb_keeps env \<and> pe_lower env = lower"

definition pg_ok :: "pg_env \<Rightarrow> pg_jobs \<Rightarrow> bool" where
  "pg_ok env s \<longleftrightarrow> pg_env_ok env \<and> distinct (map p_job_id s) \<and>
     distinct (map p_idempotency_key s) \<and> list_all (row_ok env) s"

definition row_record :: "pg_env \<Rightarrow> pg_row \<Rightarrow> job_record" where
  "row_record env p = (case record_of_row env p of Inl e \<Rightarrow> undefined | Inr r \<Rightarrow> r)"

definition pg_table :: "pg_env \<Rightarrow> pg_jobs \<Rightarrow> job_table" where
  "pg_table env s = map (\<lambda>p. (p_job_id p, row_record env p)) s"

lemma record_of_row_sel:
  assumes "record_of_row env p = Inr r"
  shows "j_job_id r = p_job_id p" "j_idempotency_key r = p_idempotency_key p"
    "j_capability_id r = p_capability_id p" "j_status r = p_status p"
    "j_attempts r = p_attempts p" "j_attempt_budget r = p_attempt_budget p"
    "j_tenant_id r = p_tenant_id p" "j_claim_token r = p_claim_token p"
    "j_lease_until r = p_lease_until p" "j_priority r = p_priority p"
    "j_created_at r = p_created_at p"
    "from_payload (pe_py_str env) (p_requirements p) = Inr (j_requirements r)"
  using assms by (auto simp: record_of_row_def result_simps)

lemma jstr_members_lookup: "map_of (jstr_members vs) k = map_option JStr (map_of vs k)"
  by (induction vs) (auto simp: jstr_members_def)

lemma contained_labels:
  "jsonb_contained env (JArr (map JStr xs)) (JArr (map JStr ys)) \<longleftrightarrow> set xs \<subseteq> set ys"
  by (auto simp: list_all_iff list_ex_iff)

lemma contained_versions:
  "jsonb_contained env (JObj (jstr_members vs)) (JObj (jstr_members ws)) \<longleftrightarrow>
     \<not> list_ex (\<lambda>(k, v). map_of ws k \<noteq> Some v) vs"
  by (simp add: jstr_members_lookup) (auto simp: jstr_members_def list_all_iff list_ex_iff
      split: option.splits)

lemma row_claimable_iff:
  assumes "row_ok env p" "record_of_row env p = Inr r" "pe_lower env = lower"
  shows "pg_claimable env q now p \<longleftrightarrow> claimable q now r"
proof -
  have req: "map_of (p_requirements p) = map_of (as_payload (j_requirements r))"
    using assms(1,2) by (auto simp: row_ok_def)
  note m = map_of_as_payload [of "j_requirements r"]
  note sel = record_of_row_sel [OF assms(2)]
  have vram: "min_vram_of (p_requirements p) = min_vram_mb (j_requirements r)"
    by (cases "min_vram_mb (j_requirements r)") (simp_all add: min_vram_of_def req m)
  have gpu: "jsonb_elements (coalesce_member (p_requirements p) ''gpu_models'' d) =
      map JStr (gpu_models (j_requirements r))" if "jsonb_elements d = []" for d
    using that by (simp add: coalesce_member_def req m)
  have ids: "jsonb_elements (coalesce_member (p_requirements p) ''worker_ids'' JNull) =
      map JStr (worker_ids (j_requirements r))"
    "jsonb_eq env (coalesce_member (p_requirements p) ''worker_ids'' (JArr [])) (JArr []) \<longleftrightarrow>
      worker_ids (j_requirements r) = []"
    by (simp_all add: coalesce_member_def req m)
  have lab: "jsonb_contained env (coalesce_member (p_requirements p) ''labels'' (JArr []))
      (JArr (map JStr (q_labels q))) \<longleftrightarrow> set (labels (j_requirements r)) \<subseteq> set (q_labels q)"
    using contained_labels [of env "labels (j_requirements r)" "q_labels q"]
    by (simp add: coalesce_member_def req m del: jsonb_contained.simps) simp
  have ver: "jsonb_contained env (coalesce_member (p_requirements p) ''runtime_versions'' (JObj []))
      (JObj (map (\<lambda>(k, v). (k, JStr v)) (q_runtime_versions q))) \<longleftrightarrow>
      \<not> list_ex (\<lambda>(k, v). map_of (q_runtime_versions q) k \<noteq> Some v) (runtime_versions (j_requirements r))"
    using contained_versions [of env "runtime_versions (j_requirements r)" "q_runtime_versions q"]
    by (simp add: coalesce_member_def req m jstr_members_def [symmetric] del: jsonb_contained.simps) simp
  have g: "pe_lower env g \<in> set (map (pe_lower env \<circ> the_str) (map JStr xs)) \<longleftrightarrow>
      lower g \<in> set (map lower xs)" for g xs
    by (auto simp: assms(3))
  show ?thesis
    by (auto simp: pg_claimable_def claimable_def satisfies_requirements_def is_leasable_def Let_def
        vram gpu ids lab ver g sel assms(3) simp del: jsonb_contained.simps jsonb_eq.simps
        split: option.splits)
qed

section \<open>The store as a provider of \<open>job_store\<close>\<close>

fun pg_step :: "pg_env \<Rightarrow> (string \<Rightarrow> string \<Rightarrow> bool) \<Rightarrow> store_op \<Rightarrow> pg_jobs \<Rightarrow> pg_jobs" where
  "pg_step env locked (Submit sub now) s = snd (pg_submit env sub now s)"
| "pg_step env locked (Cancel k now) s = snd (pg_cancel env k now s)"
| "pg_step env locked (Lease q now t) s = snd (pg_lease env (locked t) q now t s)"
| "pg_step env locked (Heartbeat k t secs p now) s = snd (pg_heartbeat env k t secs p now s)"
| "pg_step env locked (Complete k t c now) s = snd (pg_complete env k t c now s)"
| "pg_step env locked (Fail k t f now) s = snd (pg_fail env k t f now s)"
| "pg_step env locked (Release k t reason now) s = snd (pg_release env k t reason now s)"
| "pg_step env locked (Expire now later) s = snd (pg_expire_exhausted now s)"

fun pg_reply :: "pg_env \<Rightarrow> store_op \<Rightarrow> pg_jobs \<Rightarrow> bool" where
  "pg_reply env (Cancel k now) s = (fst (pg_cancel env k now s) = Inr True)"
| "pg_reply env (Heartbeat k t secs p now) s = (fst (pg_heartbeat env k t secs p now s) = Inr True)"
| "pg_reply env (Complete k t c now) s = (fst (pg_complete env k t c now s) = Inr True)"
| "pg_reply env (Fail k t f now) s = (fst (pg_fail env k t f now s) = Inr True)"
| "pg_reply env (Release k t reason now) s = (fst (pg_release env k t reason now s) = Inr True)"
| "pg_reply env _ s = False"

text \<open>Operations whose arguments the database takes as they are: job ids in canonical form, values
  within their columns, a payload that jsonb gives back unchanged (its members in jsonb's order) and
  versions in that order, a new job under a new id, and one clock reading for an expiry.\<close>

definition plain_submission :: "pg_env \<Rightarrow> job_submission \<Rightarrow> bool" where
  "plain_submission env sub \<longleftrightarrow>
     (case submit_args env sub of
        Inl _ \<Rightarrow> False
      | Inr (u, inputs, payload, req) \<Rightarrow>
          u = s_job_id sub \<and> payload = s_payload sub \<and>
          from_payload (pe_py_str env) req = Inr (s_requirements sub))"

fun pg_proper :: "pg_env \<Rightarrow> store_op \<Rightarrow> pg_jobs \<Rightarrow> bool" where
  "pg_proper env (Submit sub now) s =
     (plain_submission env sub \<and>
      list_all (\<lambda>p. p_job_id p = s_job_id sub \<longrightarrow> p_idempotency_key p = s_idempotency_key sub) s)"
| "pg_proper env (Cancel k now) s = (claim_args env k [] = Inr k)"
| "pg_proper env (Lease q now t) s = (lease_args env q = Inr ())"
| "pg_proper env (Heartbeat k t secs p now) s =
     (claim_args env k [t] = Inr k \<and> for_each (int_arg 32) (secs # opt_list p) = Inr () \<and>
      progress_ok p)"
| "pg_proper env (Complete k t c now) s =
     (claim_args env k [t, c_content_type c, c_sha256 c] = Inr k \<and>
      int_arg 64 (c_byte_length c) = Inr () \<and>
      jsonb_arg env (JObj (c_execution_metadata c)) = Inr (JObj (c_execution_metadata c)))"
| "pg_proper env (Fail k t f now) s =
     (claim_args env k ([t, f_reason f] @ opt_list (f_failure_message f)) = Inr k)"
| "pg_proper env (Release k t reason now) s = (claim_args env k [t, reason] = Inr k)"
| "pg_proper env (Expire now later) s = list_all (\<lambda>p. later (p_job_id p) = now) s"

named_theorems row_effects \<open>the SET lists of the updates\<close>

declare leased_row_def [row_effects] row_unclaimed_def [row_effects] beaten_row_def [row_effects]
  cancelled_row_def [row_effects] completed_row_def [row_effects] failed_row_def [row_effects]
  released_row_def [row_effects] expired_row_def [row_effects]

lemma row_records:
  assumes "record_of_row env p = Inr r"
  shows "record_of_row env (leased_row p q now t) = Inr (leased_record r q now t)"
    and "record_of_row env (beaten_row p secs n now) = Inr (beaten_record r secs n now)"
    and "record_of_row env (cancelled_row p now) = Inr (cancelled_record r now)"
    and "record_of_row env (completed_row p c m now) =
           Inr (completed_record r (c\<lparr>c_execution_metadata := m\<rparr>) now)"
    and "record_of_row env (failed_row p f now) = Inr (failed_record r f now)"
    and "record_of_row env (released_row p reason now) = Inr (released_record r reason now)"
    and "record_of_row env (expired_row p now) = Inr (expired_record r now)"
  using assms by (auto simp: record_of_row_def result_simps row_effects record_effects
      split: option.split)

lemma row_keeps:
  "p_job_id (leased_row p q now t) = p_job_id p" "p_job_id (beaten_row p secs n now) = p_job_id p"
  "p_job_id (cancelled_row p now) = p_job_id p" "p_job_id (completed_row p c m now) = p_job_id p"
  "p_job_id (failed_row p f now) = p_job_id p" "p_job_id (released_row p reason now) = p_job_id p"
  "p_job_id (expired_row p now) = p_job_id p"
  "p_idempotency_key (leased_row p q now t) = p_idempotency_key p"
  "p_idempotency_key (beaten_row p secs n now) = p_idempotency_key p"
  "p_idempotency_key (cancelled_row p now) = p_idempotency_key p"
  "p_idempotency_key (completed_row p c m now) = p_idempotency_key p"
  "p_idempotency_key (failed_row p f now) = p_idempotency_key p"
  "p_idempotency_key (released_row p reason now) = p_idempotency_key p"
  "p_idempotency_key (expired_row p now) = p_idempotency_key p"
  "p_requirements (leased_row p q now t) = p_requirements p"
  "p_requirements (beaten_row p secs n now) = p_requirements p"
  "p_requirements (cancelled_row p now) = p_requirements p"
  "p_requirements (completed_row p c m now) = p_requirements p"
  "p_requirements (failed_row p f now) = p_requirements p"
  "p_requirements (released_row p reason now) = p_requirements p"
  "p_requirements (expired_row p now) = p_requirements p"
  by (simp_all add: row_effects)

lemma row_guards:
  assumes "record_of_row env p = Inr r"
  shows "p_status p \<in> {QUEUED, PROCESSING} \<longleftrightarrow> is_live r"
    and "row_claimed u t p \<longleftrightarrow> p_job_id p = u \<and> holds_claim r t"
    and "row_exhausted now p \<longleftrightarrow> exhausted now r"
    and "pg_claimable env q now p \<Longrightarrow> is_leasable r now \<and> j_attempts r < j_attempt_budget r"
  using record_of_row_sel [OF assms]
  by (auto simp: is_live_def row_claimed_def holds_claim_def row_exhausted_def exhausted_def
      pg_claimable_def is_leasable_def Let_def split: option.splits)

lemma record_ok_leased:
  "record_ok r \<Longrightarrow> is_leasable r now \<Longrightarrow> j_attempts r < j_attempt_budget r \<Longrightarrow>
     record_ok (leased_record r q now t)"
  by (auto simp: record_ok_def record_effects is_leasable_def split: if_splits)

lemma row_ok_I:
  "record_of_row env p = Inr r \<Longrightarrow> record_of_row env p' = Inr r' \<Longrightarrow> row_ok env p \<Longrightarrow> record_ok r' \<Longrightarrow>
     p_requirements p' = p_requirements p \<Longrightarrow> row_ok env p'"
  using record_of_row_sel(12) [of env p r] record_of_row_sel(12) [of env p' r']
  by (auto simp: row_ok_def)

lemma row_ok_E:
  assumes "row_ok env p"
  obtains r where "record_of_row env p = Inr r" "record_ok r" "row_record env p = r"
  using assms by (auto simp: row_ok_def row_record_def)

lemma row_ok_effects:
  assumes "row_ok env p"
  shows "pg_claimable env q now p \<Longrightarrow> row_ok env (leased_row p q now t)"
    and "row_claimed u t p \<Longrightarrow> row_ok env (beaten_row p secs n now)"
    and "p_status p \<in> {QUEUED, PROCESSING} \<Longrightarrow> row_ok env (cancelled_row p now)"
    and "row_claimed u t p \<Longrightarrow> row_ok env (completed_row p c m now)"
    and "row_claimed u t p \<Longrightarrow> row_ok env (failed_row p f now)"
    and "row_claimed u t p \<Longrightarrow> row_ok env (released_row p reason now)"
    and "row_exhausted now p \<Longrightarrow> row_ok env (expired_row p now)"
proof -
  obtain r where r: "record_of_row env p = Inr r" "record_ok r"
    using assms by (rule row_ok_E)
  note I = row_ok_I [OF r(1) _ assms]
  show "pg_claimable env q now p \<Longrightarrow> row_ok env (leased_row p q now t)"
    by (rule I [OF row_records(1) [OF r(1)]])
      (use row_guards(4) [OF r(1)] in \<open>auto simp: row_keeps intro: record_ok_leased [OF r(2)]\<close>)
  show "row_claimed u t p \<Longrightarrow> row_ok env (beaten_row p secs n now)"
    by (rule I [OF row_records(2) [OF r(1)]])
      (auto simp: row_keeps row_guards(2) [OF r(1)] intro: record_ok_effects [OF r(2)])
  show "p_status p \<in> {QUEUED, PROCESSING} \<Longrightarrow> row_ok env (cancelled_row p now)"
    by (rule I [OF row_records(3) [OF r(1)]])
      (use row_guards(1) [OF r(1)] in \<open>auto simp: row_keeps intro: record_ok_effects [OF r(2)]\<close>)
  show "row_claimed u t p \<Longrightarrow> row_ok env (completed_row p c m now)"
    by (rule I [OF row_records(4) [OF r(1)]])
      (auto simp: row_keeps row_guards(2) [OF r(1)] intro: record_ok_effects [OF r(2)])
  show "row_claimed u t p \<Longrightarrow> row_ok env (failed_row p f now)"
    by (rule I [OF row_records(5) [OF r(1)]])
      (auto simp: row_keeps row_guards(2) [OF r(1)] intro: record_ok_effects [OF r(2)])
  show "row_claimed u t p \<Longrightarrow> row_ok env (released_row p reason now)"
    by (rule I [OF row_records(6) [OF r(1)]])
      (auto simp: row_keeps row_guards(2) [OF r(1)] intro: record_ok_effects [OF r(2)])
  show "row_exhausted now p \<Longrightarrow> row_ok env (expired_row p now)"
    by (rule I [OF row_records(7) [OF r(1)]])
      (auto simp: row_keeps row_guards(3) [OF r(1)] intro: record_ok_effects [OF r(2)])
qed

lemma pg_ok_update:
  assumes "pg_ok env s"
    "\<And>p. p \<in> set s \<Longrightarrow> row_ok env p \<Longrightarrow> c p \<Longrightarrow> row_ok env (f p)"
    "\<And>p. p_job_id (f p) = p_job_id p" "\<And>p. p_idempotency_key (f p) = p_idempotency_key p"
  shows "pg_ok env (snd (update_where c f s))"
proof -
  have "map p_job_id (map (\<lambda>p. if c p then f p else p) s) = map p_job_id s"
    "map p_idempotency_key (map (\<lambda>p. if c p then f p else p) s) = map p_idempotency_key s"
    using assms(3,4) by simp_all
  with assms(1,2) show ?thesis
    by (auto simp: pg_ok_def update_where_def list_all_iff simp del: map_map)
qed

lemma pg_ok_execute:
  assumes "pg_ok env s"
    "\<And>k p. args = Inr k \<Longrightarrow> p \<in> set s \<Longrightarrow> row_ok env p \<Longrightarrow> c k p \<Longrightarrow> row_ok env (f k p)"
    "\<And>k p. p_job_id (f k p) = p_job_id p" "\<And>k p. p_idempotency_key (f k p) = p_idempotency_key p"
  shows "pg_ok env (snd (execute args c f s))"
proof (cases args)
  case (Inr k)
  with pg_ok_update [OF assms(1), of "c k" "f k"] assms show ?thesis
    by (simp add: execute_def case_prod_unfold)
qed (simp add: execute_def assms(1))

lemma submit_args_Inr:
  assumes "submit_args env sub = Inr (u, inputs, payload, req)"
  shows "pe_uuid env (s_job_id sub) = Some u" "inputs = map JStr (s_input_keys sub)"
    and "to_jsonb env (JObj (as_payload (s_requirements sub))) = Some (JObj req)"
proof -
  from assms show "pe_uuid env (s_job_id sub) = Some u" "inputs = map JStr (s_input_keys sub)"
    by (auto simp: submit_args_def result_simps uuid_arg_def jsonb_arg_def those_strings
        simp del: map_map split: option.splits if_splits)
  from assms obtain w where "to_jsonb env (JObj (as_payload (s_requirements sub))) = Some w" "req = members w"
    by (auto simp: submit_args_def result_simps jsonb_arg_def simp del: to_jsonb.simps
        split: option.splits)
  then show "to_jsonb env (JObj (as_payload (s_requirements sub))) = Some (JObj req)"
    by auto
qed

lemma inserted_record:
  assumes "jsonb_keeps env" "submission_ok sub" "submit_args env sub = Inr (u, inputs, payload, req)"
  obtains vs where "mset vs = mset (runtime_versions (s_requirements sub))"
    "record_of_row env (inserted_row sub (u, inputs, payload, req) digest now) =
       Inr (new_record (sub\<lparr>s_job_id := u, s_payload := payload,
              s_requirements := (s_requirements sub)\<lparr>runtime_versions := vs\<rparr>\<rparr>) now digest)"
    "row_ok env (inserted_row sub (u, inputs, payload, req) digest now)"
proof -
  note a = submit_args_Inr [OF assms(3)]
  obtain vs where vs: "mset vs = mset (runtime_versions (s_requirements sub))"
    "map_of req = map_of (as_payload ((s_requirements sub)\<lparr>runtime_versions := vs\<rparr>))"
    using requirements_stored [OF assms(1) a(3)] by auto
  have rec: "record_of_row env (inserted_row sub (u, inputs, payload, req) digest now) =
       Inr (new_record (sub\<lparr>s_job_id := u, s_payload := payload,
              s_requirements := (s_requirements sub)\<lparr>runtime_versions := vs\<rparr>\<rparr>) now digest)"
    using from_payload_cong [OF vs(2), of "pe_py_str env"]
    by (simp add: record_of_row_def inserted_row_def new_record_def a(2) from_payload_as_payload
        the_str_JStr del: map_map)
  have "record_ok (new_record (sub\<lparr>s_job_id := u, s_payload := payload,
              s_requirements := (s_requirements sub)\<lparr>runtime_versions := vs\<rparr>\<rparr>) now digest)"
    using assms(2) by (simp add: record_ok_def new_record_def submission_ok_def contract_bounds)
  with rec vs have "row_ok env (inserted_row sub (u, inputs, payload, req) digest now)"
    by (simp add: row_ok_def) (simp add: inserted_row_def new_record_def)
  with that vs(1) rec show ?thesis by blast
qed

lemma pg_submit_cases:
  assumes "jsonb_keeps env"
  obtains (refused) e where "pg_submit env sub now s = (Inl e, s)"
  | (replay) x where "pg_submit env sub now s = (x, s)"
      "\<exists>p \<in> set s. p_idempotency_key p = s_idempotency_key sub"
  | (created) u payload req where "submission_ok sub"
      "submit_args env sub = Inr (u, map JStr (s_input_keys sub), payload, req)"
      "s_idempotency_key sub \<notin> set (map p_idempotency_key s)" "u \<notin> set (map p_job_id s)"
      "pg_submit env sub now s =
         (submit_result env True
            (inserted_row sub (u, map JStr (s_input_keys sub), payload, req) (digest_of sub) now),
          s @ [inserted_row sub (u, map JStr (s_input_keys sub), payload, req) (digest_of sub) now])"
proof (cases "ebind (validate_job_submission sub) (\<lambda>_.
           ebind (job_request_digest sub) (\<lambda>digest.
           ebind (submit_args env sub) (\<lambda>args. Inr (inserted_row sub args digest now))))")
  case (Inl e)
  then show ?thesis by (intro refused) (simp add: pg_submit_def)
next
  case (Inr e)
  then obtain args where ok: "submission_ok sub" and args: "submit_args env sub = Inr args"
    and e: "e = inserted_row sub args (digest_of sub) now"
    by (auto simp: result_simps submission_accepted_iff request_digest_ok)
  obtain u inputs payload req where a: "args = (u, inputs, payload, req)"
    by (cases args)
  then have inputs: "inputs = map JStr (s_input_keys sub)" and
    key: "p_idempotency_key e = s_idempotency_key sub" "p_job_id e = u"
    using submit_args_Inr(2) args e by (auto simp: inserted_row_def)
  show ?thesis
  proof (cases "find (\<lambda>p. p_idempotency_key p = p_idempotency_key e) s")
    case (Some p)
    with find_SomeD [OF Some] Inr key show ?thesis
      by (cases "same_request env p e") (rule replay refused, auto simp: pg_submit_def)+
  next
    case None
    then have new: "s_idempotency_key sub \<notin> set (map p_idempotency_key s)"
      using key by (auto simp: find_None_iff)
    show ?thesis
    proof (cases "list_ex (\<lambda>p. p_job_id p = p_job_id e) s")
      case True
      with None Inr show ?thesis by (intro refused) (simp add: pg_submit_def)
    next
      case False
      then have "u \<notin> set (map p_job_id s)" using key by (auto simp: list_ex_iff)
      with None Inr False e a inputs args new ok show ?thesis
        by (intro created [of u payload req]) (simp_all add: pg_submit_def)
    qed
  qed
qed

lemma arg_min_list_least:
  fixes f :: "'a \<Rightarrow> 'b :: linorder"
  shows "x \<in> set xs \<Longrightarrow> f (arg_min_list f xs) \<le> f x"
  using f_arg_min_list_f [of xs f] by (metis List.finite_set Min_le empty_iff empty_set finite_imageI imageI)

lemma pg_lease_cases:
  obtains (refused) e where "pg_lease env locked q now t s = (Inl e, s)" "lease_args env q = Inl e"
  | (none) "pg_candidates env locked q now s = []" "pg_lease env locked q now t s = (Inr None, s)"
      "lease_args env q = Inr ()"
  | (some) p where "p \<in> set s" "pg_claimable env q now p" "\<not> locked (p_job_id p)"
      "lease_args env q = Inr ()"
      "\<And>p'. p' \<in> set (pg_candidates env locked q now s) \<Longrightarrow> pg_lease_key p \<le> pg_lease_key p'"
      "pg_lease env locked q now t s =
         (ebind (record_of_row env (leased_row p q now t)) (\<lambda>r. Inr (Some r)),
          snd (update_where (\<lambda>j. p_job_id j = p_job_id p) (\<lambda>j. leased_row j q now t) s))"
proof (cases "lease_args env q")
  case (Inl e)
  then show ?thesis by (intro refused) (simp_all add: pg_lease_def)
next
  case (Inr u)
  show ?thesis
  proof (cases "pg_candidates env locked q now s")
    case Nil
    with Inr show ?thesis by (intro none) (simp_all add: pg_lease_def)
  next
    case (Cons c cs)
    let ?p = "arg_min_list pg_lease_key (c # cs)"
    have mem: "?p \<in> set (pg_candidates env locked q now s)"
      using arg_min_list_mem [of "c # cs" pg_lease_key] Cons by simp
    then have p: "?p \<in> set s \<and> pg_claimable env q now ?p \<and> \<not> locked (p_job_id ?p)"
      by (simp add: pg_candidates_def)
    have least: "pg_lease_key ?p \<le> pg_lease_key p'"
      if "p' \<in> set (pg_candidates env locked q now s)" for p'
      using arg_min_list_least [of p' "c # cs" pg_lease_key] that Cons by simp
    show ?thesis
    proof (rule some [of ?p])
      show "pg_lease_key ?p \<le> pg_lease_key p'"
        if "p' \<in> set (pg_candidates env locked q now s)" for p'
        using that by (rule least)
    qed (use Inr Cons p in \<open>simp_all add: pg_lease_def Let_def\<close>)
  qed
qed

lemma distinct_row: "distinct (map p_job_id s) \<Longrightarrow> p \<in> set s \<Longrightarrow> p' \<in> set s \<Longrightarrow>
    p_job_id p = p_job_id p' \<Longrightarrow> p = p'"
  by (meson distinct_map inj_onD)

lemma pg_ok_step: "pg_ok env s \<Longrightarrow> pg_ok env (pg_step env locked op s)"
proof (cases op)
  case (Submit sub now)
  assume ok: "pg_ok env s"
  then have "jsonb_keeps env" by (simp add: pg_ok_def pg_env_ok_def)
  then show ?thesis
  proof (cases rule: pg_submit_cases [of env sub now s])
    case (created u payload req)
    obtain vs where "row_ok env (inserted_row sub (u, map JStr (s_input_keys sub), payload, req)
        (digest_of sub) now)"
      by (rule inserted_record [OF \<open>jsonb_keeps env\<close> created(1,2)])
    with created ok show ?thesis
      by (simp add: Submit pg_ok_def) (auto simp: inserted_row_def)
  qed (simp_all add: Submit ok)
next
  case (Lease q now t)
  assume ok: "pg_ok env s"
  show ?thesis
  proof (cases rule: pg_lease_cases [of env "locked t" q now t s])
    case (some p)
    have "pg_ok env (snd (update_where (\<lambda>j. p_job_id j = p_job_id p) (\<lambda>j. leased_row j q now t) s))"
      by (rule pg_ok_update [OF ok])
        (use some ok distinct_row [of s _ p] in \<open>auto simp: row_keeps pg_ok_def intro!: row_ok_effects\<close>)
    with some show ?thesis by (simp add: Lease)
  qed (simp_all add: Lease ok)
next
  case (Heartbeat k t secs n now)
  assume ok: "pg_ok env s"
  then show ?thesis
    by (auto simp: Heartbeat pg_heartbeat_def row_keeps split: sum.splits
        intro!: pg_ok_execute row_ok_effects)
next
  case (Expire now later)
  assume ok: "pg_ok env s"
  then show ?thesis
    by (simp add: Expire pg_expire_exhausted_def)
      (rule pg_ok_update, auto simp: row_keeps intro: row_ok_effects)
qed (auto simp: pg_cancel_def pg_complete_def pg_fail_def pg_release_def row_keeps
      intro!: pg_ok_execute row_ok_effects)

end
