(* ===== verification/PostgresProps.thy ===== *)
theory PostgresProps
  imports PostgresStore
begin

text \<open>
  The Postgres store against the in-memory one. \<open>pg_table\<close> reads the rows as the dictionary of
  \<open>MemoryJobStore\<close>; for arguments the database takes as they are, every statement is the in-memory
  operation on that dictionary, so the store is a second provider of \<open>job_store\<close>. The properties
  are the agreement of the two stores and the consequences of the contract for the rows.
\<close>

section \<open>Refinement of the in-memory store\<close>

text \<open>\<open>pg_table\<close> reads the rows as the dictionary the in-memory store keeps.\<close>

lemma pg_table_keys [simp]: "keys (pg_table env s) = map p_job_id s"
  by (simp add: pg_table_def)

lemma pg_ok_row: "pg_ok env s \<Longrightarrow> p \<in> set s \<Longrightarrow>
    record_of_row env p = Inr (row_record env p) \<and> record_ok (row_record env p)"
  by (auto simp: pg_ok_def list_all_iff elim!: row_ok_E)

lemma pg_table_ok: "pg_ok env s \<Longrightarrow> table_ok (pg_table env s)"
  by (auto simp: table_ok_def list_all_iff pg_table_def pg_ok_def o_def
      dest!: bspec elim!: row_ok_E simp: record_of_row_sel)

lemma pg_lookup_iff:
  assumes "pg_ok env s"
  shows "map_of (pg_table env s) k = Some r \<longleftrightarrow> (\<exists>p \<in> set s. p_job_id p = k \<and> row_record env p = r)"
proof -
  have "distinct (keys (pg_table env s))" using assms by (simp add: pg_ok_def)
  from map_of_eq_Some_iff [OF this, of k r] show ?thesis by (auto simp: pg_table_def)
qed

lemma update_map_absent: "k \<notin> set (map f s) \<Longrightarrow>
    AList.update k r (map (\<lambda>p. (f p, g p)) s) = map (\<lambda>p. (f p, g p)) s @ [(k, r)]"
  by (induction s) auto

lemma update_map:
  "distinct (map f s) \<Longrightarrow> p \<in> set s \<Longrightarrow>
     AList.update (f p) r (map (\<lambda>p. (f p, g p)) s) =
       map (\<lambda>p'. (f p', if f p' = f p then r else g p')) s"
proof (induction s)
  case (Cons p' s)
  show ?case
  proof (cases "f p' = f p")
    case True
    then have "p' = p" "f p \<notin> set (map f s)" using Cons.prems by force+
    then have "map (\<lambda>p'. (f p', if f p' = f p then r else g p')) s = map (\<lambda>p'. (f p', g p')) s"
      by (intro map_cong) (auto simp: image_iff)
    with True show ?thesis by simp
  qed (use Cons in auto)
qed simp

lemma update_table_absent: "k \<notin> set (map p_job_id s) \<Longrightarrow>
    AList.update k r (pg_table env s) = pg_table env s @ [(k, r)]"
  unfolding pg_table_def by (rule update_map_absent)

lemma update_table:
  "distinct (map p_job_id s) \<Longrightarrow> p \<in> set s \<Longrightarrow>
     AList.update (p_job_id p) r (pg_table env s) =
       map (\<lambda>p'. (p_job_id p', if p_job_id p' = p_job_id p then r else row_record env p')) s"
  unfolding pg_table_def by (rule update_map)

lemma unique_row:
  assumes "distinct (map p_job_id s)" "p \<in> set s" "c p"
    "\<And>p'. p' \<in> set s \<Longrightarrow> c p' \<Longrightarrow> p_job_id p' = p_job_id p"
  shows "length (filter c s) = 1"
proof -
  have "c p' \<longleftrightarrow> p' = p" if "p' \<in> set s" for p'
    using that assms(2-4) distinct_row [OF assms(1)] by blast
  then have "filter c s = filter (\<lambda>p'. p' = p) s" by (auto intro: filter_cong)
  moreover have "length (filter (\<lambda>p'. p' = p) s) = 1"
    using assms(1,2) by (induction s) (auto simp: filter_empty_conv)
  ultimately show ?thesis by simp
qed

lemma table_update_where:
  assumes "pg_ok env s" "p \<in> set s" "c p" "\<And>p'. p' \<in> set s \<Longrightarrow> c p' \<Longrightarrow> p_job_id p' = p_job_id p"
    "p_job_id (f p) = p_job_id p" "record_of_row env (f p) = Inr r"
  shows "fst (update_where c f s) = 1"
    and "pg_table env (snd (update_where c f s)) = AList.update (p_job_id p) r (pg_table env s)"
proof -
  have d: "distinct (map p_job_id s)" using assms(1) by (simp add: pg_ok_def)
  have c: "c p' \<longleftrightarrow> p' = p" if "p' \<in> set s" for p'
    using that assms(2-4) distinct_row [OF d] by blast
  show "fst (update_where c f s) = 1"
    using unique_row [of s p c, OF d assms(2,3)] assms(4) by (simp add: update_where_def)
  show "pg_table env (snd (update_where c f s)) = AList.update (p_job_id p) r (pg_table env s)"
    unfolding update_table [OF d assms(2)]
    using c assms(5,6) distinct_row [OF d _ assms(2)]
    by (auto simp: pg_table_def update_where_def row_record_def)
qed

lemma table_update_none:
  "(\<And>p. p \<in> set s \<Longrightarrow> \<not> c p) \<Longrightarrow> update_where c f s = (0, s)"
  by (simp add: update_where_def map_idI)

lemma mem_leased_row:
  assumes "pg_ok env s"
  shows "mem_leased k t (pg_table env s) =
    map_option (row_record env) (find (row_claimed k t) s)"
proof (cases "find (row_claimed k t) s")
  case None
  have "\<not> holds_claim r t" if "map_of (pg_table env s) k = Some r" for r
  proof -
    from that obtain p where "p \<in> set s" "p_job_id p = k" "row_record env p = r"
      by (auto simp: pg_lookup_iff [OF assms])
    with None pg_ok_row [OF assms, of p] show ?thesis
      by (auto simp: find_None_iff row_guards(2))
  qed
  with None show ?thesis by (simp add: mem_leased_None)
next
  case (Some p)
  with find_SomeD [OF Some] pg_ok_row [OF assms, of p] show ?thesis
    by (auto simp: mem_leased_iff pg_lookup_iff [OF assms] row_guards(2))
qed

text \<open>A fenced update is the in-memory operation on the table.\<close>

lemma claim_execute:
  assumes ok: "pg_ok env s" and c: "c a = row_claimed k t"
    and f: "\<And>p r. record_of_row env p = Inr r \<Longrightarrow> record_of_row env (f a p) = Inr (g r)"
    and f_id: "\<And>p. p_job_id (f a p) = p_job_id p"
  shows "(fst (execute (Inr a) c f s) = Inr True, pg_table env (snd (execute (Inr a) c f s))) =
    (case mem_leased k t (pg_table env s) of
       None \<Rightarrow> (False, pg_table env s)
     | Some r \<Rightarrow> (True, AList.update k (g r) (pg_table env s)))"
proof (cases "find (row_claimed k t) s")
  case None
  then have "update_where (c a) (f a) s = (0, s)"
    by (intro table_update_none) (simp add: c find_None_iff)
  with None show ?thesis by (simp add: execute_def mem_leased_row [OF ok])
next
  case (Some p)
  from find_SomeD [OF Some] have p: "p \<in> set s" "row_claimed k t p" by auto
  then have k: "p_job_id p = k" by (simp add: row_claimed_def)
  have "row_claimed k t p' \<Longrightarrow> p_job_id p' = p_job_id p" for p'
    by (simp add: row_claimed_def k)
  note u = table_update_where [OF ok p(1), of "c a" "f a" "g (row_record env p)"]
  have "fst (update_where (c a) (f a) s) = 1"
    "pg_table env (snd (update_where (c a) (f a) s)) =
       AList.update (p_job_id p) (g (row_record env p)) (pg_table env s)"
    using p(2) k f [OF conjunct1 [OF pg_ok_row [OF ok p(1)]]]
    by (intro u; simp add: c f_id row_claimed_def)+
  with Some k show ?thesis
    by (simp add: execute_def mem_leased_row [OF ok] case_prod_unfold prod_eq_iff)
qed

lemma cancel_refines:
  assumes ok: "pg_ok env s" and k: "uuid_arg env k = Inr k"
  shows "(fst (pg_cancel env k now s) = Inr True, pg_table env (snd (pg_cancel env k now s))) =
    mem_cancel k now (pg_table env s)"
proof (cases "find (\<lambda>p. p_job_id p = k) s")
  case None
  then have "update_where (\<lambda>p. p_job_id p = k \<and> p_status p \<in> {QUEUED, PROCESSING})
      (\<lambda>p. cancelled_row p now) s = (0, s)"
    by (intro table_update_none) (auto simp: find_None_iff)
  moreover have "map_of (pg_table env s) k = None"
    using None by (auto simp: map_of_eq_None_iff find_None_iff pg_table_def)
  ultimately show ?thesis by (simp add: pg_cancel_def execute_def k mem_cancel_def)
next
  case (Some p)
  from find_SomeD [OF Some] have p: "p \<in> set s" "p_job_id p = k" by auto
  then have look: "map_of (pg_table env s) k = Some (row_record env p)"
    by (auto simp: pg_lookup_iff [OF ok])
  note r = conjunct1 [OF pg_ok_row [OF ok p(1)]]
  note live = row_guards(1) [OF r] is_live_def
  show ?thesis
  proof (cases "p_status p \<in> {QUEUED, PROCESSING}")
    case True
    let ?c = "\<lambda>p. p_job_id p = k \<and> p_status p \<in> {QUEUED, PROCESSING}"
    note u = table_update_where [OF ok p(1), of ?c "\<lambda>p. cancelled_row p now",
        OF _ _ row_keeps(3) row_records(3) [OF r]]
    have "?c p" "\<And>p'. ?c p' \<Longrightarrow> p_job_id p' = p_job_id p"
      using p(2) True by simp_all
    note cu = u [OF this]
    have "j_status (row_record env p) \<in> {QUEUED, PROCESSING}"
      using True live by simp
    with cu p(2) show ?thesis
      by (simp add: pg_cancel_def execute_def k mem_cancel_def look case_prod_unfold)
  next
    case False
    have d: "distinct (map p_job_id s)" using ok by (simp add: pg_ok_def)
    have "update_where (\<lambda>p. p_job_id p = k \<and> p_status p \<in> {QUEUED, PROCESSING})
        (\<lambda>p. cancelled_row p now) s = (0, s)"
    proof (rule table_update_none, rule notI)
      fix p' assume "p' \<in> set s" "p_job_id p' = k \<and> p_status p' \<in> {QUEUED, PROCESSING}"
      moreover from this have "p' = p" using distinct_row [OF d _ p(1)] p(2) by simp
      ultimately show False using False by simp
    qed
    moreover have "j_status (row_record env p) \<notin> {QUEUED, PROCESSING}"
      using False live by simp
    ultimately show ?thesis by (simp add: pg_cancel_def execute_def k mem_cancel_def look)
  qed
qed

lemma pg_table_map:
  assumes "pg_ok env s" "\<And>p. p \<in> set s \<Longrightarrow> p_job_id (f p) = p_job_id p"
    "\<And>p. p \<in> set s \<Longrightarrow> record_of_row env (f p) = Inr (g (p_job_id p) (row_record env p))"
  shows "pg_table env (map f s) = map (\<lambda>(k, r). (k, g k r)) (pg_table env s)"
  using assms by (auto simp: pg_table_def row_record_def)

lemma expire_refines:
  assumes ok: "pg_ok env s" and later: "list_all (\<lambda>p. later (p_job_id p) = now) s"
  shows "pg_table env (snd (pg_expire_exhausted now s)) =
    snd (mem_expire_exhausted now later (pg_table env s))"
proof -
  have "distinct (keys (pg_table env s))" using ok by (simp add: pg_ok_def)
  moreover have "pg_table env (snd (pg_expire_exhausted now s)) =
      map (\<lambda>(k, r). (k, if exhausted now r then expired_record r (later k) else r)) (pg_table env s)"
    unfolding pg_expire_exhausted_def update_where_def snd_conv
  proof (rule pg_table_map [OF ok])
    fix p assume p: "p \<in> set s"
    note r = conjunct1 [OF pg_ok_row [OF ok p]]
    show "record_of_row env (if row_exhausted now p then expired_row p now else p) =
        Inr (if exhausted now (row_record env p)
             then expired_record (row_record env p) (later (p_job_id p)) else row_record env p)"
      using later p row_records(7) [OF r] r by (simp add: row_guards(3) [OF r] list_all_iff)
  qed (simp add: row_keeps)
  ultimately show ?thesis
    by (simp add: mem_expire_spec expire_entry_def [abs_def])
qed

lemma plain_inserted:
  assumes "plain_submission env sub"
  obtains req where
    "submit_args env sub = Inr (s_job_id sub, map JStr (s_input_keys sub), s_payload sub, req)"
    "\<And>digest now. record_of_row env
       (inserted_row sub (s_job_id sub, map JStr (s_input_keys sub), s_payload sub, req) digest now) =
       Inr (new_record sub now digest)"
proof -
  obtain inputs req where args: "submit_args env sub = Inr (s_job_id sub, inputs, s_payload sub, req)"
    and "from_payload (pe_py_str env) req = Inr (s_requirements sub)"
    using assms by (auto simp: plain_submission_def split: sum.splits)
  moreover have "inputs = map JStr (s_input_keys sub)"
    using submit_args_Inr(2) [OF args] .
  ultimately show ?thesis
    by (intro that [of req])
      (simp_all add: record_of_row_def inserted_row_def new_record_def del: map_map)
qed

lemma mem_submit_state:
  "snd (mem_submit sub now t) =
     (if submission_ok sub \<and> s_idempotency_key sub \<notin> set (map j_idempotency_key (dvalues t))
      then AList.update (s_job_id sub) (new_record sub now (digest_of sub)) t else t)"
proof (cases "submission_ok sub \<and> s_idempotency_key sub \<notin> set (map j_idempotency_key (dvalues t))")
  case True
  then show ?thesis by (simp add: mem_submit_new del: map_map)
next
  case False
  then show ?thesis
    by (cases rule: mem_submit_cases [of sub now t]) (auto simp del: map_map)
qed

lemma submit_refines:
  assumes ok: "pg_ok env s" and proper: "pg_proper env (Submit sub now) s"
  shows "pg_table env (snd (pg_submit env sub now s)) = snd (mem_submit sub now (pg_table env s))"
proof -
  have plain: "plain_submission env sub" using proper by simp
  obtain req where args:
      "submit_args env sub = Inr (s_job_id sub, map JStr (s_input_keys sub), s_payload sub, req)"
    and rec: "\<And>digest now. record_of_row env
       (inserted_row sub (s_job_id sub, map JStr (s_input_keys sub), s_payload sub, req) digest now) =
       Inr (new_record sub now digest)"
    by (rule plain_inserted [OF plain]) (rule that)
  let ?e = "inserted_row sub (s_job_id sub, map JStr (s_input_keys sub), s_payload sub, req)
      (digest_of sub) now"
  have keeps: "jsonb_keeps env" using ok by (simp add: pg_ok_def pg_env_ok_def)
  have keys: "map j_idempotency_key (dvalues (pg_table env s)) = map p_idempotency_key s"
    using record_of_row_sel(2) [OF conjunct1 [OF pg_ok_row [OF ok]]] by (simp add: pg_table_def)
  show ?thesis
  proof (cases "submission_ok sub \<and> s_idempotency_key sub \<notin> set (map p_idempotency_key s)")
    case True
    have fresh: "s_job_id sub \<notin> set (map p_job_id s)"
      using proper True by (force simp: list_all_iff)
    have "find (\<lambda>p. p_idempotency_key p = s_idempotency_key sub) s = None"
      using True by (force simp: find_None_iff)
    moreover have "p_idempotency_key ?e = s_idempotency_key sub" "p_job_id ?e = s_job_id sub"
      by (simp_all add: inserted_row_def)
    ultimately have "snd (pg_submit env sub now s) = s @ [?e]"
      using True fresh
      by (force simp: pg_submit_def submission_accepted_iff [THEN iffD2] request_digest_ok
          args list_ex_iff)
    moreover have "row_record env ?e = new_record sub now (digest_of sub)"
      using rec by (simp add: row_record_def)
    ultimately show ?thesis
      using True fresh
      by (simp add: mem_submit_state keys update_table_absent del: map_map)
        (simp add: pg_table_def inserted_row_def)
  next
    case False
    have "snd (pg_submit env sub now s) = s"
      using keeps
    proof (cases rule: pg_submit_cases [of env sub now s])
      case (replay x)
      then show ?thesis by simp
    next
      case created
      with False show ?thesis by simp
    qed simp
    with False show ?thesis by (auto simp: mem_submit_state keys simp del: map_map)
  qed
qed

lemma lease_moves:
  assumes ok: "pg_ok env s"
  shows "(lease_args env q \<noteq> Inr () \<or> (\<forall>p \<in> set s. locked (p_job_id p) \<or> \<not> pg_claimable env q now p)) \<and>
      pg_table env (snd (pg_lease env locked q now t s)) = pg_table env s \<or>
    (\<exists>p \<in> set s. pg_claimable env q now p \<and> \<not> locked (p_job_id p) \<and>
      (\<forall>p' \<in> set s. pg_claimable env q now p' \<and> \<not> locked (p_job_id p') \<longrightarrow>
         pg_lease_key p \<le> pg_lease_key p') \<and>
      pg_table env (snd (pg_lease env locked q now t s)) =
        AList.update (p_job_id p) (leased_record (row_record env p) q now t) (pg_table env s))"
proof (cases rule: pg_lease_cases [of env locked q now t s])
  case (some p)
  have d: "distinct (map p_job_id s)" using ok by (simp add: pg_ok_def)
  have "pg_table env (snd (update_where (\<lambda>j. p_job_id j = p_job_id p) (\<lambda>j. leased_row j q now t) s)) =
      AList.update (p_job_id p) (leased_record (row_record env p) q now t) (pg_table env s)"
    using row_records(1) [OF conjunct1 [OF pg_ok_row [OF ok some(1)]]]
    by (intro table_update_where(2) [OF ok some(1)]) (simp_all add: row_keeps)
  moreover have "pg_lease_key p \<le> pg_lease_key p'"
    if "p' \<in> set s" "pg_claimable env q now p'" "\<not> locked (p_job_id p')" for p'
    using some(5) that by (simp add: pg_candidates_def)
  ultimately show ?thesis using some(1-3,6) by auto
qed (auto simp: pg_candidates_def filter_empty_conv)

lemma other_refines:
  assumes ok: "pg_ok env s" and proper: "pg_proper env op s" and op: "\<And>q now t. op \<noteq> Lease q now t"
  shows "pg_table env (pg_step env locked op s) = mem_step op (pg_table env s) \<and>
    pg_reply env op s = mem_reply op (pg_table env s)"
proof (cases op)
  case (Submit sub now)
  with submit_refines [OF ok] proper show ?thesis by simp
next
  case (Cancel k now)
  then have "uuid_arg env k = Inr k"
    using proper by (auto simp: claim_args_def text_args_def result_simps)
  from cancel_refines [OF ok this, of now] show ?thesis
    by (simp add: Cancel prod_eq_iff)
next
  case (Lease q now t)
  then show ?thesis using op [of q now t] by simp
next
  case (Heartbeat k t secs n now)
  have "pg_heartbeat env k t secs n now s =
      execute (Inr k) (\<lambda>u. row_claimed u t) (\<lambda>u p. beaten_row p secs n now) s"
    using proper by (simp add: Heartbeat pg_heartbeat_def del: for_each.simps)
  with claim_execute [OF ok, of "\<lambda>u. row_claimed u t" k k t "\<lambda>u p. beaten_row p secs n now"
      "\<lambda>r. beaten_record r secs n now", OF refl row_records(2) row_keeps(2)]
  show ?thesis
    by (simp add: Heartbeat mem_heartbeat_def prod_eq_iff split: option.splits)
next
  case (Complete k t c now)
  let ?m = "c_execution_metadata c"
  have "pg_complete env k t c now s =
      execute (Inr (k, ?m)) (\<lambda>(u, m). row_claimed u t) (\<lambda>(u, m) p. completed_row p c m now) s"
    using proper by (simp add: Complete pg_complete_def)
  moreover have "completed_record r (c\<lparr>c_execution_metadata := ?m\<rparr>) now = completed_record r c now" for r
    by simp
  ultimately show ?thesis
    using claim_execute [OF ok, of "\<lambda>(u, m). row_claimed u t" "(k, ?m)" k t
        "\<lambda>(u, m) p. completed_row p c m now" "\<lambda>r. completed_record r c now"]
      row_records(4) [of env _ _ c ?m now] row_keeps(4)
    by (simp add: Complete mem_complete_def prod_eq_iff split: option.splits)
next
  case (Fail k t f now)
  have "pg_fail env k t f now s =
      execute (Inr k) (\<lambda>u. row_claimed u t) (\<lambda>u p. failed_row p f now) s"
    using proper by (simp add: Fail pg_fail_def)
  with claim_execute [OF ok, of "\<lambda>u. row_claimed u t" k k t "\<lambda>u p. failed_row p f now"
      "\<lambda>r. failed_record r f now", OF refl row_records(5) row_keeps(5)]
  show ?thesis
    by (simp add: Fail mem_fail_def prod_eq_iff split: option.splits)
next
  case (Release k t reason now)
  have "pg_release env k t reason now s =
      execute (Inr k) (\<lambda>u. row_claimed u t) (\<lambda>u p. released_row p reason now) s"
    using proper by (simp add: Release pg_release_def)
  with claim_execute [OF ok, of "\<lambda>u. row_claimed u t" k k t "\<lambda>u p. released_row p reason now"
      "\<lambda>r. released_record r reason now", OF refl row_records(6) row_keeps(6)]
  show ?thesis
    by (simp add: Release mem_release_def prod_eq_iff split: option.splits)
next
  case (Expire now later)
  with expire_refines [OF ok, of later now] proper show ?thesis by simp
qed

lemma execute_refused:
  assumes ok: "pg_ok env s" and c: "\<And>a p. args = Inr a \<Longrightarrow> c a p \<Longrightarrow> p_job_id p = k a"
    and no: "fst (execute args c f s) \<noteq> Inr True"
  shows "snd (execute args c f s) = s"
proof (cases args)
  case (Inr a)
  have "\<not> c a p" if "p \<in> set s" for p
    using unique_row [OF _ that, of "c a"] c [OF Inr] no ok
    by (auto simp: execute_def Inr update_where_def pg_ok_def)
  then show ?thesis by (simp add: execute_def Inr table_update_none)
qed (simp add: execute_def)

lemma pg_refused:
  assumes ok: "pg_ok env s" and op: "claim_of op = Some (k, t)" and no: "\<not> pg_reply env op s"
  shows "pg_step env locked op s = s"
proof (cases op)
  case (Heartbeat k t secs n now)
  with no show ?thesis
    by (auto simp: pg_heartbeat_def row_claimed_def split: sum.splits if_splits
        intro!: execute_refused [OF ok])
next
  case (Complete k t c now)
  have "snd (pg_complete env k t c now s) = s"
    unfolding pg_complete_def
    by (rule execute_refused [OF ok, where k = fst])
      (use no Complete in \<open>auto simp: row_claimed_def pg_complete_def\<close>)
  with Complete show ?thesis by simp
next
  case (Fail k t f now)
  have "snd (pg_fail env k t f now s) = s"
    unfolding pg_fail_def
    by (rule execute_refused [OF ok, where k = "\<lambda>u. u"])
      (use no Fail in \<open>auto simp: row_claimed_def pg_fail_def\<close>)
  with Fail show ?thesis by simp
next
  case (Release k t reason now)
  have "snd (pg_release env k t reason now s) = s"
    unfolding pg_release_def
    by (rule execute_refused [OF ok, where k = "\<lambda>u. u"])
      (use no Release in \<open>auto simp: row_claimed_def pg_release_def\<close>)
  with Release show ?thesis by simp
qed (use op in simp_all)

lemma pg_fresh:
  assumes ok: "pg_ok env s" and proper: "pg_proper env op s"
  shows "fresh_submit op (pg_table env s)"
proof (cases op)
  case (Submit sub now)
  have "j_idempotency_key r = s_idempotency_key sub"
    if "map_of (pg_table env s) (s_job_id sub) = Some r" for r
  proof -
    from that obtain p where p: "p \<in> set s" "p_job_id p = s_job_id sub" "row_record env p = r"
      by (auto simp: pg_lookup_iff [OF ok])
    with proper have "p_idempotency_key p = s_idempotency_key sub"
      by (simp add: Submit list_all_iff)
    with p record_of_row_sel(2) [OF conjunct1 [OF pg_ok_row [OF ok p(1)]]] show ?thesis by simp
  qed
  then show ?thesis by (simp add: Submit split: option.split)
qed simp_all

lemma pg_moves:
  assumes ok: "pg_ok env s" and proper: "pg_proper env op s"
  shows "job_step op (map_of (pg_table env s) k) (map_of (pg_table env (pg_step env locked op s)) k)"
proof (cases "\<exists>q now t. op = Lease q now t")
  case False
  then have "pg_table env (pg_step env locked op s) = mem_step op (pg_table env s)"
    using other_refines [OF ok proper] by blast
  with mem_moves [OF pg_table_ok [OF ok] pg_fresh [OF ok proper], of k] show ?thesis by simp
next
  case True
  then obtain q now t where op: "op = Lease q now t" by blast
  have lower: "pe_lower env = lower" using ok by (simp add: pg_ok_def pg_env_ok_def)
  from lease_moves [OF ok, of q "locked t" now t] show ?thesis
  proof (elim disjE bexE conjE)
    fix p assume p: "p \<in> set s" "pg_claimable env q now p" and t:
      "pg_table env (snd (pg_lease env (locked t) q now t s)) =
        AList.update (p_job_id p) (leased_record (row_record env p) q now t) (pg_table env s)"
    have "row_ok env p" using ok p(1) by (simp add: pg_ok_def list_all_iff)
    then have "claimable q now (row_record env p)"
      using row_claimable_iff [OF _ conjunct1 [OF pg_ok_row [OF ok p(1)]] lower] p(2) by simp
    moreover have "map_of (pg_table env s) (p_job_id p) = Some (row_record env p)"
      using p(1) by (auto simp: pg_lookup_iff [OF ok])
    ultimately show ?thesis by (simp add: op t job_step.idle job_step.leased)
  qed (simp_all add: op job_step.idle)
qed

interpretation pg: job_store "pg_ok env" "\<lambda>s k. map_of (pg_table env s) k"
  "pg_step env locked" "pg_reply env" "pg_proper env" for env locked
proof (unfold_locales, goal_cases)
  case (1 s op) then show ?case by (rule pg_ok_step)
next
  case (2 s k r) then show ?case using table_ok_lookup [OF pg_table_ok] by blast
next
  case (3 s k r) then show ?case by (auto simp: pg_lookup_iff dest: pg_ok_row)
next
  case (4 s op k) then show ?case by (rule pg_moves)
next
  case (5 s op k t)
  then have "pg_reply env op s = mem_reply op (pg_table env s)"
    using other_refines [of env s op] by (cases op) simp_all
  with 5 show ?case
    by (cases op) (auto simp: mem_heartbeat_def mem_complete_def mem_fail_def mem_release_def
        mem_leased_iff mem_leased_None split: option.splits)
next
  case (6 s op k t r)
  then have "pg_table env (pg_step env locked op s) = mem_step op (pg_table env s)"
    using other_refines [of env s op] by (cases op) simp_all
  with 6 show ?case
    by (cases op) (auto simp: mem_heartbeat_def mem_complete_def mem_fail_def mem_release_def
        mem_leased_iff mem_leased_None split: option.splits)
next
  case (7 s op k t) then show ?case by (intro pg_refused)
qed

section \<open>Properties\<close>

text \<open>Claim C11: eligibility is the same test in SQL and in Python: on every row the store can hold,
  the WHERE clause of the lease (capability, attempts left, leasable, tenant, and the jsonb
  operators on the requirements column) selects it exactly when \<open>_satisfies_requirements\<close> and the
  other guards of the in-memory lease accept the record the row reads as, provided SQL \<open>lower\<close> is
  Python's.\<close>

theorem pg_claimable_iff:
  assumes "row_ok env p" "record_of_row env p = Inr r" "pe_lower env = lower"
  shows "pg_claimable env q now p \<longleftrightarrow> claimable q now r"
  using assms by (rule row_claimable_iff)

lemma pg_candidates_table:
  assumes ok: "pg_ok env s" and free: "\<And>k. \<not> locked k"
  shows "mem_candidates q now (pg_table env s) = map (row_record env) (pg_candidates env locked q now s)"
proof -
  have "pg_claimable env q now p = claimable q now (row_record env p)" if "p \<in> set s" for p
    using that ok row_claimable_iff [OF _ conjunct1 [OF pg_ok_row [OF ok that]]]
    by (simp add: pg_ok_def pg_env_ok_def list_all_iff)
  then show ?thesis
    by (simp add: mem_candidates_def pg_candidates_def pg_table_def free filter_map o_def
        cong: filter_cong)
qed

lemma lease_refines:
  assumes ok: "pg_ok env s" and args: "lease_args env q = Inr ()" and free: "\<And>k. \<not> locked k"
    and no_tie: "distinct (map lease_key (mem_candidates q now (pg_table env s)))"
  shows "pg_table env (snd (pg_lease env locked q now t s)) = snd (mem_lease q now t (pg_table env s))
    \<and> fst (pg_lease env locked q now t s) = Inr (fst (mem_lease q now t (pg_table env s)))"
proof (cases rule: pg_lease_cases [of env locked q now t s])
  case refused
  with args show ?thesis by simp
next
  case none
  with pg_candidates_table [where locked = locked, OF ok free, of q now] show ?thesis by (simp add: mem_lease_def)
next
  case (some p)
  let ?T = "pg_table env s" and ?r = "row_record env p"
  note cand = pg_candidates_table [where locked = locked, OF ok free, of q now]
  have p: "p \<in> set (pg_candidates env locked q now s)"
    using some(1-3) by (simp add: pg_candidates_def)
  note rp = conjunct1 [OF pg_ok_row [OF ok some(1)]]
  show ?thesis
  proof (cases rule: mem_lease_cases [of q now ?T t])
    case none
    with p cand show ?thesis by simp
  next
    case (some r)
    then obtain p' where p': "p' \<in> set (pg_candidates env locked q now s)" "r = row_record env p'"
      using cand by auto
    then have "p' \<in> set s" by (simp add: pg_candidates_def)
    note rp' = conjunct1 [OF pg_ok_row [OF ok this]]
    have "lease_key r \<le> lease_key ?r"
      using some(2) p cand arg_min_list_least [of ?r "mem_candidates q now ?T" lease_key] by simp
    moreover have "pg_lease_key p \<le> pg_lease_key p'"
      by (rule \<open>\<And>p'. p' \<in> set (pg_candidates env locked q now s) \<Longrightarrow> pg_lease_key p \<le> pg_lease_key p'\<close> [OF p'(1)])
    then have "lease_key ?r \<le> lease_key r"
      using p'(2) record_of_row_sel [OF rp] record_of_row_sel [OF rp']
      by (auto simp: lease_key_def pg_lease_key_def)
    ultimately have "lease_key ?r = lease_key r" by simp
    moreover have "?r \<in> set (mem_candidates q now ?T)" using p cand by simp
    ultimately have r: "?r = r"
      using no_tie some(1) by (metis distinct_map inj_onD)
    have d: "distinct (map p_job_id s)" using ok by (simp add: pg_ok_def)
    have "pg_table env (snd (update_where (\<lambda>j. p_job_id j = p_job_id p) (\<lambda>j. leased_row j q now t) s)) =
        AList.update (p_job_id p) (leased_record ?r q now t) ?T"
      using row_records(1) [OF rp] by (intro table_update_where(2) [OF ok \<open>p \<in> set s\<close>])
        (simp_all add: row_keeps)
    moreover have "p_job_id p = j_job_id r"
      using record_of_row_sel(1) [OF rp] r by simp
    ultimately show ?thesis
      using \<open>pg_lease env locked q now t s = _\<close> some(3) row_records(1) [OF rp, of q now t] r by simp
  qed
qed

lemma pg_ok_Nil: "pg_env_ok env \<Longrightarrow> pg_ok env []"
  by (simp add: pg_ok_def)


text \<open>Every table of rows reachable from the empty table, whatever the arguments and the
  locks, has unique job ids and idempotency keys and only rows that read back as well-formed
  records whose requirements column is what \<open>as_payload\<close> writes.\<close>

theorem pg_reachable_ok:
  assumes "pg_env_ok env"
  shows "pg_ok env (run_ops (pg_step env locked) ops [])"
  using assms by (intro pg.good_run pg_ok_Nil)

text \<open>Fencing in Postgres. Once a token is not the current claim of a job, and no later
  lease draws the same token, every heartbeat, completion, failure or release presenting it returns
  \<open>False\<close> and changes no row, however the job moved in between and whatever rows were locked.\<close>

theorem pg_stale_token_refused:
  assumes "pg_ok env s" "proper_run (pg_proper env) (pg_step env locked) ops s"
    "list_all (\<lambda>op. \<not> leases_with t op) ops"
    "\<And>r. map_of (pg_table env s) k = Some r \<Longrightarrow> \<not> holds_claim r t" "claim_of op = Some (k, t)"
    "pg_proper env op (run_ops (pg_step env locked) ops s)"
  shows "\<not> pg_reply env op (run_ops (pg_step env locked) ops s) \<and>
    pg_step env locked op (run_ops (pg_step env locked) ops s) = run_ops (pg_step env locked) ops s"
  using pg.stale_refused [OF assms] by blast

text \<open>A submission under a new idempotency key that takes the id of a stored job is
  refused by the primary key and changes nothing, where the in-memory store overwrites that job.\<close>

theorem pg_duplicate_id_refused:
  assumes "submission_ok sub" "submit_args env sub = Inr (u, inputs, payload, req)"
    "s_idempotency_key sub \<notin> set (map p_idempotency_key s)" "u \<in> set (map p_job_id s)"
  shows "pg_submit env sub now s = (Inl (UniqueViolation u), s)"
proof -
  have "find (\<lambda>p. p_idempotency_key p = s_idempotency_key sub) s = None"
    using assms(3) by (force simp: find_None_iff)
  moreover have "list_ex (\<lambda>p. p_job_id p = u) s"
    using assms(4) by (auto simp: list_ex_iff)
  ultimately show ?thesis
    using assms(1,2)
    by (simp add: pg_submit_def submission_accepted_iff [THEN iffD2] request_digest_ok
        inserted_row_def)
qed

section \<open>Queue depth\<close>

lemma sum_filter_groups:
  "finite G \<Longrightarrow> (\<Sum>g\<in>G. length (filter (\<lambda>p. f p = g) s)) = length (filter (\<lambda>p. f p \<in> G) s)"
proof (induction s)
  case (Cons p s)
  have "(\<Sum>g\<in>G. length (filter (\<lambda>p. f p = g) (p # s))) =
      (\<Sum>g\<in>G. (if f p = g then 1 else 0) + length (filter (\<lambda>p. f p = g) s))"
    by (intro sum.cong) auto
  with Cons show ?case by (simp add: sum.distrib)
qed simp

definition group_entry ::
  "pg_jobs \<Rightarrow> (string \<times> job_status) set \<Rightarrow> string \<Rightarrow> capability_queue_depth option"
where
  "group_entry s G c =
     (if c \<in> fst ` G
      then Some \<lparr>cq_queued = (if (c, QUEUED) \<in> G then depth_row s (c, QUEUED) else 0),
                 cq_processing = (if (c, PROCESSING) \<in> G then depth_row s (c, PROCESSING) else 0)\<rparr>
      else None)"

definition group_total :: "pg_jobs \<Rightarrow> (string \<times> job_status) set \<Rightarrow> job_status \<Rightarrow> nat" where
  "group_total s G st = (\<Sum>g\<in>{g \<in> G. snd g = st}. depth_row s g)"

lemma group_entry_insert:
  assumes "G \<subseteq> UNIV \<times> {QUEUED, PROCESSING}"
  shows "group_entry s (insert (c, QUEUED) G) = (group_entry s G)(c \<mapsto>
      (case group_entry s G c of None \<Rightarrow> \<lparr>cq_queued = 0, cq_processing = 0\<rparr> | Some e \<Rightarrow> e)
        \<lparr>cq_queued := depth_row s (c, QUEUED)\<rparr>)"
    and "group_entry s (insert (c, PROCESSING) G) = (group_entry s G)(c \<mapsto>
      (case group_entry s G c of None \<Rightarrow> \<lparr>cq_queued = 0, cq_processing = 0\<rparr> | Some e \<Rightarrow> e)
        \<lparr>cq_processing := depth_row s (c, PROCESSING)\<rparr>)"
  by (rule ext, force simp: group_entry_def image_iff)+

lemma group_total_insert:
  assumes "finite G" "(c, st) \<notin> G"
  shows "group_total s (insert (c, st) G) st' =
    (if st = st' then depth_row s (c, st) else 0) + group_total s G st'"
proof -
  have "{g \<in> insert (c, st) G. snd g = st'} =
      (if st = st' then insert (c, st) {g \<in> G. snd g = st'} else {g \<in> G. snd g = st'})" by auto
  with assms show ?thesis by (cases "st = st'") (simp_all add: group_total_def)
qed

lemma fold_groups:
  "distinct gs \<Longrightarrow> set gs \<subseteq> UNIV \<times> {QUEUED, PROCESSING} \<Longrightarrow>
     fold (add_group s) gs (0, 0, []) = (q, p, d) \<Longrightarrow>
     q = group_total s (set gs) QUEUED \<and> p = group_total s (set gs) PROCESSING \<and>
     map_of d = group_entry s (set gs)"
proof (induction gs arbitrary: q p d rule: rev_induct)
  case Nil
  then show ?case by (auto simp: group_total_def group_entry_def)
next
  case (snoc g gs)
  obtain q0 p0 d0 where f: "fold (add_group s) gs (0, 0, []) = (q0, p0, d0)"
    by (metis prod_cases3)
  obtain c st where g: "g = (c, st)" by force
  have new: "(c, st) \<notin> set gs" and st: "st = QUEUED \<or> st = PROCESSING" and
    sub: "set gs \<subseteq> UNIV \<times> {QUEUED, PROCESSING}"
    using snoc.prems g by auto
  have IH: "q0 = group_total s (set gs) QUEUED" "p0 = group_total s (set gs) PROCESSING"
    "map_of d0 = group_entry s (set gs)"
    using snoc.IH [OF _ sub f] snoc.prems(1) by simp_all
  have step: "(q, p, d) = add_group s (c, st) (q0, p0, d0)"
    using snoc.prems(3) f g by simp
  have insert: "set (gs @ [g]) = insert (c, st) (set gs)" by (simp add: g)
  from st show ?case
    unfolding insert using step IH new
    by (elim disjE) (simp_all add: group_total_insert add_group_def Let_def group_entry_insert [OF sub])
qed

lemma depth_group_total:
  assumes "G = depth_groups s" "st \<in> {QUEUED, PROCESSING}"
  shows "group_total s G st = length (filter (\<lambda>p. p_status p = st) s)"
proof -
  have "group_total s G st =
      length (filter (\<lambda>p. (p_capability_id p, p_status p) \<in> {g \<in> G. snd g = st}) s)"
    unfolding group_total_def depth_row_def
    by (rule sum_filter_groups) (simp add: assms(1) depth_groups_def)
  also have "filter (\<lambda>p. (p_capability_id p, p_status p) \<in> {g \<in> G. snd g = st}) s =
      filter (\<lambda>p. p_status p = st) s"
    using assms by (intro filter_cong) (auto simp: depth_groups_def)
  finally show ?thesis .
qed

lemma depth_row_empty: "(c, st) \<notin> depth_groups s \<Longrightarrow> st \<in> {QUEUED, PROCESSING} \<Longrightarrow> depth_row s (c, st) = 0"
  by (auto simp: depth_row_def depth_groups_def filter_empty_conv image_iff)

lemma row_count_table:
  assumes "\<And>p. p \<in> set s \<Longrightarrow> P (row_record env p) = Q p"
  shows "row_count P (dvalues (pg_table env s)) = length (filter Q s)"
  using assms by (simp add: row_count_def pg_table_def filter_map o_def cong: filter_cong)

text \<open>\<open>queue_depth\<close> over the groups SQL returns, in whatever order, is that of the in-memory
  store: the same two totals and, for every capability, the same entry.\<close>

theorem pg_queue_depth_agrees:
  assumes "pg_ok env s" "distinct groups" "set groups = depth_groups s"
  shows "qd_queued (pg_queue_depth groups s) = qd_queued (mem_queue_depth (pg_table env s)) \<and>
    qd_processing (pg_queue_depth groups s) = qd_processing (mem_queue_depth (pg_table env s)) \<and>
    map_of (qd_by_capability (pg_queue_depth groups s)) =
      map_of (qd_by_capability (mem_queue_depth (pg_table env s)))"
proof -
  obtain q p d where f: "fold (add_group s) groups (0, 0, []) = (q, p, d)"
    by (metis prod_cases3)
  have "set groups \<subseteq> UNIV \<times> {QUEUED, PROCESSING}"
    using assms(3) by (auto simp: depth_groups_def)
  from fold_groups [OF assms(2) this f] have qpd:
    "q = length (filter (\<lambda>p. p_status p = QUEUED) s)"
    "p = length (filter (\<lambda>p. p_status p = PROCESSING) s)"
    "map_of d = group_entry s (depth_groups s)"
    using assms(3) by (simp_all add: depth_group_total)
  note sel = record_of_row_sel [OF conjunct1 [OF pg_ok_row [OF assms(1)]]]
  have tot: "row_count (\<lambda>r. j_status r = st) (dvalues (pg_table env s)) =
      length (filter (\<lambda>p. p_status p = st) s)" for st
    by (rule row_count_table) (simp add: sel)
  have cap: "row_count (in_capability c st) (dvalues (pg_table env s)) = depth_row s (c, st)" for c st
    unfolding depth_row_def by (rule row_count_table) (simp add: sel in_capability_def)
  have live: "row_count (\<lambda>r. j_capability_id r = c \<and> is_live r) (dvalues (pg_table env s)) = 0 \<longleftrightarrow>
      c \<notin> fst ` depth_groups s" for c
    by (subst row_count_table [where Q = "\<lambda>p. p_capability_id p = c \<and> p_status p \<in> {QUEUED, PROCESSING}"])
      (auto simp: sel is_live_def depth_groups_def filter_empty_conv image_iff)
  note mem = mem_depth_exact [of "pg_table env s"]
  have "map_of d c = map_of (qd_by_capability (mem_queue_depth (pg_table env s))) c" for c
    using mem [of c] by (auto simp: qpd(3) live cap group_entry_def depth_row_empty)
  then have "map_of d = map_of (qd_by_capability (mem_queue_depth (pg_table env s)))" by (rule ext)
  with mem qpd(1,2) show ?thesis
    by (simp add: pg_queue_depth_def f tot)
qed

section \<open>Witnesses\<close>

text \<open>An environment that meets the laws: any text is its own uuid, members are kept by length and
  then alphabetically, as PostgreSQL keeps them.\<close>

definition demo_env :: pg_env where
  "demo_env = \<lparr>pe_uuid = Some, pe_order = sort_key (\<lambda>p. (length (fst p), fst p)), pe_float = (\<lambda>t. JFloat t (Fin 0)),
               pe_numeric = (\<lambda>_. 0), pe_lower = lower, pe_py_str = enc\<rparr>"

definition demo_rows :: pg_jobs where
  "demo_rows = pg_step demo_env (\<lambda>_ _. False) (Submit (demo_submission ''a'' ''ka'' 1) 0) []"

lemma demo_env_ok: "pg_env_ok demo_env"
  by (simp add: pg_env_ok_def jsonb_keeps_def demo_env_def)

lemma demo_plain: "plain_submission demo_env (demo_submission ''a'' ''ka'' 1)"
  by (simp add: plain_submission_def submit_args_def demo_env_def demo_submission_def uuid_arg_def
      int_arg_def text_args_def opt_list_def no_nul_def jsonb_arg_def no_requirements_def
      as_payload_def from_payload_def get_or_def pget_def)

lemma demo_rows_ok: "pg_ok demo_env demo_rows"
  unfolding demo_rows_def by (intro pg_ok_step pg_ok_Nil demo_env_ok)

lemma demo_rows_table: "pg_table demo_env demo_rows = [(''a'', demo_record ''a'' ''ka'' 1 0)]"
  using submit_refines [OF pg_ok_Nil [OF demo_env_ok], of "demo_submission ''a'' ''ka'' 1" 0]
    demo_plain demo_submit
  by (simp add: demo_rows_def pg_table_def)

lemma demo_lease_args: "lease_args demo_env (demo_query ''w'') = Inr ()"
  by (simp add: lease_args_def demo_query_def demo_env_def text_args_def int_arg_def opt_list_def
      no_nul_def jsonb_arg_def)


theorem pg_reachable_ok_witness:
  "pg_ok demo_env (run_ops (pg_step demo_env (\<lambda>_ _. False))
     [Submit (demo_submission ''a'' ''ka'' 1) 0, Lease (demo_query ''w'') 3 ''t''] [])"
  by (rule pg_reachable_ok [OF demo_env_ok])

theorem pg_claimable_iff_witness:
  "pg_claimable demo_env (demo_query ''w'') 3 (hd demo_rows) =
     claimable (demo_query ''w'') 3 (demo_record ''a'' ''ka'' 1 0)"
proof (rule pg_claimable_iff)
  obtain p where p: "demo_rows = [p]"
    using arg_cong [OF demo_rows_table, of length] by (auto simp: pg_table_def length_Suc_conv)
  then show "row_ok demo_env (hd demo_rows)"
    using demo_rows_ok unfolding pg_ok_def p by simp
  show "record_of_row demo_env (hd demo_rows) = Inr (demo_record ''a'' ''ka'' 1 0)"
    using pg_ok_row [OF demo_rows_ok, of p] demo_rows_table unfolding p by (simp add: pg_table_def)
qed (simp add: demo_env_def)

theorem pg_stale_token_refused_witness:
  "\<not> pg_reply demo_env (Complete ''a'' ''old'' demo_completion 9)
     (run_ops (pg_step demo_env (\<lambda>_ _. False)) [Lease (demo_query ''w'') 3 ''new''] demo_rows)"
proof (rule conjunct1 [OF pg_stale_token_refused [OF demo_rows_ok, of _ _ "''old''" "''a''"]])
  show "\<not> holds_claim r ''old''" if "map_of (pg_table demo_env demo_rows) ''a'' = Some r" for r
    using that by (auto simp: demo_rows_table holds_claim_def demo_record_def)
qed (use demo_lease_args in \<open>simp_all add: claim_args_def demo_env_def demo_completion_def uuid_arg_def
      text_args_def int_arg_def jsonb_arg_def no_nul_def\<close>)

theorem pg_duplicate_id_refused_witness:
  "pg_submit demo_env (demo_submission ''a'' ''kb'' 2) 5 demo_rows = (Inl (UniqueViolation ''a''), demo_rows)"
proof (rule pg_duplicate_id_refused)
  show "submission_ok (demo_submission ''a'' ''kb'' 2)" by (simp add: demo_submission_ok)
  show "submit_args demo_env (demo_submission ''a'' ''kb'' 2) = Inr (''a'', [], [(''n'', JInt 1)], [])"
    by (simp add: submit_args_def demo_env_def demo_submission_def uuid_arg_def
      int_arg_def text_args_def opt_list_def no_nul_def jsonb_arg_def no_requirements_def as_payload_def)
  obtain p where p: "demo_rows = [p]" "row_record demo_env p = demo_record ''a'' ''ka'' 1 0"
      "p_job_id p = ''a''"
    using demo_rows_table by (auto simp: pg_table_def)
  have "record_of_row demo_env p = Inr (demo_record ''a'' ''ka'' 1 0)"
    using pg_ok_row [OF demo_rows_ok, of p] p(2) unfolding p(1) by simp
  from record_of_row_sel(2) [OF this] have "p_idempotency_key p = ''ka''"
    by (simp add: demo_record_def) (simp add: demo_submission_def)
  with p(3) show "s_idempotency_key (demo_submission ''a'' ''kb'' 2) \<notin> set (map p_idempotency_key demo_rows)"
    "''a'' \<in> set (map p_job_id demo_rows)"
    unfolding p(1) by (simp_all add: demo_submission_def)
qed

theorem pg_queue_depth_agrees_witness:
  "qd_queued (pg_queue_depth [(''test.v1'', QUEUED)] demo_rows) =
     qd_queued (mem_queue_depth [(''a'', demo_record ''a'' ''ka'' 1 0)])"
proof -
  obtain p where p: "demo_rows = [p]" "row_record demo_env p = demo_record ''a'' ''ka'' 1 0"
    using demo_rows_table by (auto simp: pg_table_def)
  have "record_of_row demo_env p = Inr (demo_record ''a'' ''ka'' 1 0)"
    using pg_ok_row [OF demo_rows_ok, of p] p(2) unfolding p(1) by simp
  from record_of_row_sel(3,4) [OF this] have "p_capability_id p = ''test.v1''" "p_status p = QUEUED"
    by (simp_all add: demo_record_def) (simp add: new_record_def demo_submission_def)
  then have "set [(''test.v1'', QUEUED)] = depth_groups demo_rows"
    unfolding p(1) by (simp add: depth_groups_def)
  from pg_queue_depth_agrees [OF demo_rows_ok _ this] show ?thesis
    by (simp add: demo_rows_table)
qed

end
