(* ===== verification/PostgresRegistry.thy ===== *)
theory PostgresRegistry
  imports PostgresProps Registry
begin

text \<open>
  \<open>PostgresWorkerRegistry\<close> and \<open>PostgresAuditLog\<close> of postgres.py on the rows of \<open>pool_workers\<close> and
  \<open>pool_audit_events\<close>: the upsert with its conflict predicate and the unique index on the identity
  subject, the status update, the conversions between dataclasses and jsonb columns. The registry is
  the second provider of \<open>worker_registry\<close> and agrees with the in-memory one.
\<close>

section \<open>Columns\<close>

text \<open>\<open>asdict\<close> of a capability and of a GPU sample, and the constructor calls that read them back.\<close>

definition capability_json :: "worker_capability \<Rightarrow> json" where
  "capability_json c = JObj [
     (''capability_id'', JStr (wc_capability_id c)), (''plugin_id'', JStr (wc_plugin_id c)),
     (''plugin_version'', JStr (wc_plugin_version c)), (''concurrency'', JInt (wc_concurrency c))]"

definition opt_int_json :: "int option \<Rightarrow> json" where
  "opt_int_json x = (case x of None \<Rightarrow> JNull | Some n \<Rightarrow> JInt n)"

definition gpu_json :: "gpu_telemetry \<Rightarrow> json" where
  "gpu_json g = JObj [
     (''index'', JInt (gt_index g)), (''name'', JStr (gt_name g)),
     (''utilization_pct'', opt_int_json (gt_utilization_pct g)),
     (''memory_used_mb'', opt_int_json (gt_memory_used_mb g)),
     (''memory_total_mb'', opt_int_json (gt_memory_total_mb g))]"

text \<open>A missing or unknown field is the \<open>TypeError\<close> of the keyword call; so is here a field of
  another type, which no row written by \<open>upsert\<close> holds.\<close>

definition capability_of_json :: "json \<Rightarrow> exn + worker_capability" where
  "capability_of_json v =
     (let d = members v in
      if set (keys d) \<subseteq> {''capability_id'', ''plugin_id'', ''plugin_version'', ''concurrency''}
      then (case (map_of d ''capability_id'', map_of d ''plugin_id'', map_of d ''plugin_version'',
                  (case map_of d ''concurrency'' of None \<Rightarrow> JInt 1 | Some n \<Rightarrow> n)) of
              (Some (JStr c), Some (JStr p), Some (JStr pv), JInt n) \<Rightarrow>
                Inr \<lparr>wc_capability_id = c, wc_plugin_id = p, wc_plugin_version = pv,
                     wc_concurrency = n\<rparr>
            | _ \<Rightarrow> Inl (TypeError ''WorkerCapability''))
      else Inl (TypeError ''WorkerCapability''))"

definition opt_int_of :: "json option \<Rightarrow> exn + int option" where
  "opt_int_of v =
     (case v of
        Some JNull \<Rightarrow> Inr None
      | Some (JInt n) \<Rightarrow> Inr (Some n)
      | _ \<Rightarrow> Inl (TypeError ''GpuTelemetry''))"

definition gpu_of_json :: "json \<Rightarrow> exn + gpu_telemetry" where
  "gpu_of_json v =
     (let d = members v in
      if set (keys d) \<subseteq> {''index'', ''name'', ''utilization_pct'', ''memory_used_mb'', ''memory_total_mb''}
      then (case (map_of d ''index'', map_of d ''name'') of
              (Some (JInt i), Some (JStr n)) \<Rightarrow>
                ebind (opt_int_of (map_of d ''utilization_pct'')) (\<lambda>u.
                ebind (opt_int_of (map_of d ''memory_used_mb'')) (\<lambda>m.
                ebind (opt_int_of (map_of d ''memory_total_mb'')) (\<lambda>t.
                Inr \<lparr>gt_index = i, gt_name = n, gt_utilization_pct = u, gt_memory_used_mb = m,
                     gt_memory_total_mb = t\<rparr>)))
            | _ \<Rightarrow> Inl (TypeError ''GpuTelemetry''))
      else Inl (TypeError ''GpuTelemetry''))"

record pg_worker_row =
  wp_worker_id :: string
  wp_identity_subject :: string
  wp_status :: worker_status
  wp_capabilities :: "json list"
  wp_gpu_model :: "string option"
  wp_vram_mb :: "int option"
  wp_runtime_versions :: payload
  wp_cost_class :: cost_class
  wp_labels :: "json list"
  wp_active_leases :: int
  wp_last_heartbeat_at :: "time option"
  wp_created_at :: time
  wp_updated_at :: time
  wp_revoked_at :: "time option"
  wp_gpus :: "json list"
  wp_busy_job_id :: "string option"
  wp_tenant_id :: "string option"

type_synonym pg_workers = "pg_worker_row list"

definition worker_of_row :: "pg_worker_row \<Rightarrow> exn + worker_record" where
  "worker_of_row w =
     ebind (map_result capability_of_json (wp_capabilities w)) (\<lambda>caps.
     ebind (map_result gpu_of_json (wp_gpus w)) (\<lambda>gpus.
     Inr \<lparr>w_worker_id = wp_worker_id w, w_identity_subject = wp_identity_subject w,
          w_status = wp_status w, w_capabilities = caps, w_gpu_model = wp_gpu_model w,
          w_vram_mb = wp_vram_mb w,
          w_runtime_versions = map (\<lambda>p. (fst p, the_str (snd p))) (wp_runtime_versions w),
          w_cost_class = wp_cost_class w, w_labels = map the_str (wp_labels w),
          w_active_leases = wp_active_leases w, w_last_heartbeat_at = wp_last_heartbeat_at w,
          w_created_at = wp_created_at w, w_updated_at = wp_updated_at w,
          w_revoked_at = wp_revoked_at w, w_gpus = gpus, w_busy_job_id = wp_busy_job_id w,
          w_tenant_id = wp_tenant_id w\<rparr>))"

section \<open>Operations\<close>

text \<open>The converted columns of a registration: capabilities, versions, labels, gpus, busy job.\<close>

type_synonym worker_columns =
  "json list \<times> payload \<times> json list \<times> json list \<times> string option"

definition upsert_args :: "pg_env \<Rightarrow> worker_registration \<Rightarrow> string \<Rightarrow> exn + worker_columns" where
  "upsert_args env reg subject =
     ebind (text_args ([r_worker_id reg, subject] @ opt_list (r_gpu_model reg) @
              opt_list (r_tenant_id reg))) (\<lambda>_.
     ebind (for_each (int_arg 32) (r_active_leases reg # opt_list (r_vram_mb reg))) (\<lambda>_.
     ebind (jsonb_arg env (JArr (map capability_json (r_capabilities reg)))) (\<lambda>caps.
     ebind (jsonb_arg env (JObj (jstr_members (r_runtime_versions reg)))) (\<lambda>versions.
     ebind (jsonb_arg env (JArr (map JStr (r_labels reg)))) (\<lambda>lbls.
     ebind (jsonb_arg env (JArr (map gpu_json (r_gpus reg)))) (\<lambda>gpus.
     ebind (case r_busy_job_id reg of
              None \<Rightarrow> Inr None | Some j \<Rightarrow> ebind (uuid_arg env j) (\<lambda>u. Inr (Some u))) (\<lambda>busy.
     Inr (jsonb_elements caps, members versions, jsonb_elements lbls, jsonb_elements gpus, busy))))))))"

text \<open>The inserted row and the row of the conflict update, which differ in status, identity, tenant,
  creation and revocation times.\<close>

definition worker_row ::
  "worker_registration \<Rightarrow> worker_columns \<Rightarrow> string \<Rightarrow> worker_status \<Rightarrow> string option \<Rightarrow> time \<Rightarrow>
     time option \<Rightarrow> time \<Rightarrow> pg_worker_row"
where
  "worker_row reg cols subject status tenant created revoked now =
     (case cols of (caps, versions, lbls, gpus, busy) \<Rightarrow>
     \<lparr>wp_worker_id = r_worker_id reg, wp_identity_subject = subject, wp_status = status,
      wp_capabilities = caps, wp_gpu_model = r_gpu_model reg, wp_vram_mb = r_vram_mb reg,
      wp_runtime_versions = versions, wp_cost_class = r_cost_class reg, wp_labels = lbls,
      wp_active_leases = r_active_leases reg, wp_last_heartbeat_at = Some now,
      wp_created_at = created, wp_updated_at = now, wp_revoked_at = revoked, wp_gpus = gpus,
      wp_busy_job_id = busy, wp_tenant_id = tenant\<rparr>)"

definition pgr_get :: "pg_env \<Rightarrow> string \<Rightarrow> pg_workers \<Rightarrow> exn + worker_record option" where
  "pgr_get env worker_id s =
     ebind (text_args [worker_id]) (\<lambda>_.
       case find (\<lambda>w. wp_worker_id w = worker_id) s of
         None \<Rightarrow> Inr None
       | Some w \<Rightarrow> ebind (worker_of_row w) (\<lambda>r. Inr (Some r)))"

definition pgr_upsert ::
  "pg_env \<Rightarrow> worker_registration \<Rightarrow> string \<Rightarrow> time \<Rightarrow> pg_workers \<Rightarrow> (exn + worker_record) \<times> pg_workers"
where
  "pgr_upsert env reg subject now s =
     (case upsert_args env reg subject of
        Inl e \<Rightarrow> (Inl e, s)
      | Inr cols \<Rightarrow>
        let status = (if r_draining reg then W_DRAINING else W_ACTIVE) in
        (case find (\<lambda>w. wp_worker_id w = r_worker_id reg) s of
           None \<Rightarrow>
             if list_ex (\<lambda>w. wp_identity_subject w = subject) s
             then (Inl (IdentitySubjectTaken subject), s)
             else
               let row = worker_row reg cols subject status (r_tenant_id reg) now None now
               in (worker_of_row row, s @ [row])
         | Some w \<Rightarrow>
             if wp_tenant_id w = r_tenant_id reg \<and> wp_identity_subject w = subject
             then
               let row = worker_row reg cols (wp_identity_subject w)
                           (if wp_status w = W_REVOKED then W_REVOKED else status)
                           (wp_tenant_id w) (wp_created_at w) (wp_revoked_at w) now
               in (worker_of_row row,
                   map (\<lambda>w'. if wp_worker_id w' = r_worker_id reg then row else w') s)
             else
               (ebind (pgr_get env (r_worker_id reg) s) (\<lambda>existing.
                  case existing of
                    None \<Rightarrow> Inl (WorkerIdentityMismatch (r_worker_id reg))
                  | Some e \<Rightarrow>
                      if w_identity_subject e \<noteq> subject
                      then Inl (WorkerIdentityMismatch (r_worker_id reg))
                      else Inl (WorkerTenantMismatch (r_worker_id reg))), s)))"

definition pgr_find_by_identity_subject :: "string \<Rightarrow> pg_workers \<Rightarrow> exn + worker_record option" where
  "pgr_find_by_identity_subject subject s =
     ebind (text_args [subject]) (\<lambda>_.
       case find (\<lambda>w. wp_identity_subject w = subject) s of
         None \<Rightarrow> Inr None
       | Some w \<Rightarrow> ebind (worker_of_row w) (\<lambda>r. Inr (Some r)))"

definition pgr_list :: "pg_workers \<Rightarrow> exn + worker_record list" where
  "pgr_list s = map_result worker_of_row (sort_key wp_worker_id s)"

definition pgr_list_by_tenant :: "string option \<Rightarrow> pg_workers \<Rightarrow> exn + worker_record list" where
  "pgr_list_by_tenant tenant s =
     ebind (text_args (opt_list tenant)) (\<lambda>_.
     map_result worker_of_row (sort_key wp_worker_id (filter (\<lambda>w. wp_tenant_id w = tenant) s)))"

definition status_row :: "worker_status \<Rightarrow> time \<Rightarrow> pg_worker_row \<Rightarrow> pg_worker_row" where
  "status_row status now w =
     w\<lparr>wp_status := status,
       wp_revoked_at := (if status = W_REVOKED then Some now else wp_revoked_at w),
       wp_updated_at := now\<rparr>"

definition pgr_set_status ::
  "string \<Rightarrow> worker_status \<Rightarrow> time \<Rightarrow> pg_workers \<Rightarrow> (exn + bool) \<times> pg_workers"
where
  "pgr_set_status worker_id status now =
     execute (ebind (text_args [worker_id]) (\<lambda>_. Inr worker_id))
       (\<lambda>u w. wp_worker_id w = u) (\<lambda>u w. status_row status now w)"

section \<open>Audit log\<close>

definition pg_audit_record ::
  "pg_env \<Rightarrow> audit_event_type \<Rightarrow> string option \<Rightarrow> string option \<Rightarrow> payload \<Rightarrow> time \<Rightarrow>
     audit_event list \<Rightarrow> (exn + unit) \<times> audit_event list"
where
  "pg_audit_record env ty worker_id job_id detail now rows =
     (case ebind (text_args (opt_list worker_id)) (\<lambda>_.
           ebind (case job_id of
                    None \<Rightarrow> Inr None | Some j \<Rightarrow> ebind (uuid_arg env j) (\<lambda>u. Inr (Some u))) (\<lambda>job.
           ebind (jsonb_arg env (JObj detail)) (\<lambda>d.
           Inr \<lparr>ae_event_type = ty, ae_worker_id = worker_id, ae_job_id = job,
                ae_detail = members d, ae_created_at = now\<rparr>))) of
        Inl e \<Rightarrow> (Inl e, rows)
      | Inr row \<Rightarrow> (Inr (), rows @ [row]))"

definition pg_audit_list_for_job :: "pg_env \<Rightarrow> string \<Rightarrow> audit_event list \<Rightarrow> exn + audit_event list" where
  "pg_audit_list_for_job env job_id rows =
     ebind (uuid_arg env job_id) (\<lambda>u. Inr (filter (\<lambda>e. ae_job_id e = Some u) rows))"

section \<open>What the columns read back as\<close>

lemma object_stored:
  assumes "jsonb_keeps env" "to_jsonb env (JObj kvs) = Some w" "distinct (keys kvs)"
  shows "set (keys (members w)) = set (keys kvs)"
    and "map_of kvs k = Some v \<Longrightarrow> \<exists>u. to_jsonb env v = Some u \<and> map_of (members w) k = Some u"
    and "map_of kvs k = None \<Longrightarrow> map_of (members w) k = None"
proof -
  obtain kvs' where k: "those (map (stored_member env) kvs) = Some kvs'" "w = JObj (pe_order env kvs')"
    using assms(2) by (auto simp: stored_member_def [abs_def])
  note st = stored_members [OF k(1)]
  have m: "mset (pe_order env kvs') = mset kvs'" using assms(1) by (simp add: jsonb_keeps_def)
  have d: "distinct (keys kvs')" using st assms(3) by simp
  have lookup: "map_of (members w) = map_of kvs'"
    using mset_map_of [OF m d] k(2) by simp
  have "set (keys (members w)) = set (keys kvs')"
    using mset_eq_setD [OF m] k(2) by simp
  with st show "set (keys (members w)) = set (keys kvs)" by simp
  show "map_of kvs k = Some v \<Longrightarrow> \<exists>u. to_jsonb env v = Some u \<and> map_of (members w) k = Some u"
    using st lookup by fastforce
  show "map_of kvs k = None \<Longrightarrow> map_of (members w) k = None"
    using st lookup by simp
qed

lemma string_stored: "to_jsonb env (JStr s) = Some u \<Longrightarrow> u = JStr s"
  by (simp split: if_splits)

lemma capability_stored:
  assumes "jsonb_keeps env" "to_jsonb env (capability_json c) = Some w"
  shows "capability_of_json w = Inr c"
proof -
  let ?kvs = "[(''capability_id'', JStr (wc_capability_id c)), (''plugin_id'', JStr (wc_plugin_id c)),
     (''plugin_version'', JStr (wc_plugin_version c)), (''concurrency'', JInt (wc_concurrency c))]"
  have w: "to_jsonb env (JObj ?kvs) = Some w" using assms(2) by (simp only: capability_json_def)
  have d: "distinct (keys ?kvs)" by simp
  note o' = object_stored [OF assms(1) w d]
  have "map_of (members w) ''capability_id'' = Some (JStr (wc_capability_id c))"
    "map_of (members w) ''plugin_id'' = Some (JStr (wc_plugin_id c))"
    "map_of (members w) ''plugin_version'' = Some (JStr (wc_plugin_version c))"
    "map_of (members w) ''concurrency'' = Some (JInt (wc_concurrency c))"
    using o'(2) [of "''capability_id''" "JStr (wc_capability_id c)"]
      o'(2) [of "''plugin_id''" "JStr (wc_plugin_id c)"]
      o'(2) [of "''plugin_version''" "JStr (wc_plugin_version c)"]
      o'(2) [of "''concurrency''" "JInt (wc_concurrency c)"]
    by (auto dest: string_stored simp del: to_jsonb.simps(2))
  with o'(1) show ?thesis by (simp add: capability_of_json_def Let_def)
qed

lemma opt_int_stored: "to_jsonb env (opt_int_json x) = Some u \<Longrightarrow> opt_int_of (Some u) = Inr x"
  by (cases x) (auto simp: opt_int_json_def opt_int_of_def)

lemma gpu_stored:
  assumes "jsonb_keeps env" "to_jsonb env (gpu_json g) = Some w"
  shows "gpu_of_json w = Inr g"
proof -
  let ?kvs = "[(''index'', JInt (gt_index g)), (''name'', JStr (gt_name g)),
     (''utilization_pct'', opt_int_json (gt_utilization_pct g)),
     (''memory_used_mb'', opt_int_json (gt_memory_used_mb g)),
     (''memory_total_mb'', opt_int_json (gt_memory_total_mb g))]"
  have w: "to_jsonb env (JObj ?kvs) = Some w" using assms(2) by (simp only: gpu_json_def)
  have d: "distinct (keys ?kvs)" by simp
  note o' = object_stored [OF assms(1) w d]
  have "map_of (members w) ''index'' = Some (JInt (gt_index g))"
    "map_of (members w) ''name'' = Some (JStr (gt_name g))"
    using o'(2) [of "''index''" "JInt (gt_index g)"] o'(2) [of "''name''" "JStr (gt_name g)"]
    by (auto dest: string_stored simp del: to_jsonb.simps(2))
  moreover have "opt_int_of (map_of (members w) ''utilization_pct'') = Inr (gt_utilization_pct g)"
    "opt_int_of (map_of (members w) ''memory_used_mb'') = Inr (gt_memory_used_mb g)"
    "opt_int_of (map_of (members w) ''memory_total_mb'') = Inr (gt_memory_total_mb g)"
    using o'(2) [of "''utilization_pct''" "opt_int_json (gt_utilization_pct g)"]
      o'(2) [of "''memory_used_mb''" "opt_int_json (gt_memory_used_mb g)"]
      o'(2) [of "''memory_total_mb''" "opt_int_json (gt_memory_total_mb g)"] opt_int_stored
    by fastforce+
  ultimately show ?thesis using o'(1) by (simp add: gpu_of_json_def Let_def)
qed

lemma array_stored:
  assumes "\<And>x w. x \<in> set xs \<Longrightarrow> to_jsonb env (to x) = Some w \<Longrightarrow> dec w = Inr x"
    "to_jsonb env (JArr (map to xs)) = Some w"
  shows "map_result dec (jsonb_elements w) = Inr xs"
  using assms
proof (induction xs arbitrary: w)
  case (Cons x xs)
  from Cons.prems(2) obtain v vs where v: "to_jsonb env (to x) = Some v"
      "those (map (to_jsonb env) (map to xs)) = Some vs" "w = JArr (v # vs)"
    by (auto split: option.splits)
  then have "to_jsonb env (JArr (map to xs)) = Some (JArr vs)" by simp
  then have "map_result dec vs = Inr xs"
    using Cons.IH [of "JArr vs"] Cons.prems(1) by simp
  moreover have "dec v = Inr x" using Cons.prems(1) v(1) by simp
  ultimately show ?case by (simp add: v(3))
qed simp

lemma upsert_args_Inr:
  assumes "upsert_args env reg subject = Inr (caps, versions, lbls, gpus, busy)"
  obtains w1 w2 where "to_jsonb env (JArr (map capability_json (r_capabilities reg))) = Some w1"
      "caps = jsonb_elements w1"
    "to_jsonb env (JArr (map gpu_json (r_gpus reg))) = Some w2" "gpus = jsonb_elements w2"
    "lbls = map JStr (r_labels reg)"
proof -
  from assms obtain w1 w2 w3 where
    w: "to_jsonb env (JArr (map capability_json (r_capabilities reg))) = Some w1"
      "caps = jsonb_elements w1"
    "to_jsonb env (JArr (map gpu_json (r_gpus reg))) = Some w2" "gpus = jsonb_elements w2"
    "to_jsonb env (JArr (map JStr (r_labels reg))) = Some w3" "lbls = jsonb_elements w3"
    by (auto simp: upsert_args_def result_simps jsonb_arg_def simp del: to_jsonb.simps
        split: option.splits)
  from w(5,6) have "lbls = map JStr (r_labels reg)"
    by (auto simp: those_strings simp del: map_map split: if_splits)
  with that w(1-4) show ?thesis by blast
qed

text \<open>The record a stored registration reads back as.\<close>

definition stored_worker ::
  "worker_registration \<Rightarrow> (string, string) dict \<Rightarrow> string option \<Rightarrow> string \<Rightarrow> worker_status \<Rightarrow>
     string option \<Rightarrow> time \<Rightarrow> time option \<Rightarrow> time \<Rightarrow> worker_record"
where
  "stored_worker reg versions busy subject status tenant created revoked now =
     \<lparr>w_worker_id = r_worker_id reg, w_identity_subject = subject, w_status = status,
      w_capabilities = r_capabilities reg, w_gpu_model = r_gpu_model reg,
      w_vram_mb = r_vram_mb reg, w_runtime_versions = versions,
      w_cost_class = r_cost_class reg, w_labels = r_labels reg,
      w_active_leases = r_active_leases reg, w_last_heartbeat_at = Some now,
      w_created_at = created, w_updated_at = now, w_revoked_at = revoked,
      w_gpus = r_gpus reg, w_busy_job_id = busy, w_tenant_id = tenant\<rparr>"

lemma worker_row_record:
  assumes "jsonb_keeps env" "upsert_args env reg subject = Inr (caps, versions, lbls, gpus, busy)"
  shows "worker_of_row (worker_row reg (caps, versions, lbls, gpus, busy) subject' status tenant created
      revoked now) = Inr (stored_worker reg (map (\<lambda>p. (fst p, the_str (snd p))) versions) busy subject'
        status tenant created revoked now)"
proof -
  obtain w1 w2 where w: "to_jsonb env (JArr (map capability_json (r_capabilities reg))) = Some w1"
      "caps = jsonb_elements w1"
    "to_jsonb env (JArr (map gpu_json (r_gpus reg))) = Some w2" "gpus = jsonb_elements w2"
    "lbls = map JStr (r_labels reg)"
    by (rule upsert_args_Inr [OF assms(2)])
  have "map_result capability_of_json caps = Inr (r_capabilities reg)"
    unfolding w(2) by (rule array_stored [OF _ w(1)]) (rule capability_stored [OF assms(1)])
  moreover have "map_result gpu_of_json gpus = Inr (r_gpus reg)"
    unfolding w(4) by (rule array_stored [OF _ w(3)]) (rule gpu_stored [OF assms(1)])
  ultimately show ?thesis
    by (simp add: worker_of_row_def worker_row_def stored_worker_def w(5) del: map_map)
qed

section \<open>The registry as a provider of \<open>worker_registry\<close>\<close>

definition row_worker :: "pg_worker_row \<Rightarrow> worker_record" where
  "row_worker w = (case worker_of_row w of Inl e \<Rightarrow> undefined | Inr r \<Rightarrow> r)"

definition pgr_table :: "pg_workers \<Rightarrow> worker_table" where
  "pgr_table s = map (\<lambda>w. (wp_worker_id w, row_worker w)) s"

definition readable :: "pg_worker_row \<Rightarrow> bool" where
  "readable w \<longleftrightarrow> (\<exists>r. worker_of_row w = Inr r)"

definition pgr_ok :: "pg_env \<Rightarrow> pg_workers \<Rightarrow> bool" where
  "pgr_ok env s \<longleftrightarrow> jsonb_keeps env \<and> distinct (map wp_worker_id s) \<and>
     distinct (map wp_identity_subject s) \<and> list_all readable s"

lemma worker_of_row_sel:
  assumes "worker_of_row w = Inr r"
  shows "w_worker_id r = wp_worker_id w" "w_identity_subject r = wp_identity_subject w"
    "w_status r = wp_status w" "w_tenant_id r = wp_tenant_id w" "w_created_at r = wp_created_at w"
    "w_revoked_at r = wp_revoked_at w"
  using assms by (auto simp: worker_of_row_def result_simps)

lemma readable_worker: "readable w \<Longrightarrow> worker_of_row w = Inr (row_worker w)"
  by (auto simp: readable_def row_worker_def)

lemma pgr_row:
  assumes "pgr_ok env s" "w \<in> set s"
  shows "worker_of_row w = Inr (row_worker w)"
  using assms by (simp add: pgr_ok_def list_all_iff readable_worker)

lemma status_row_record:
  assumes "worker_of_row w = Inr r"
  shows "worker_of_row (status_row status now w) =
    Inr (r\<lparr>w_status := status, w_updated_at := now,
           w_revoked_at := (if status = W_REVOKED then Some now else w_revoked_at r)\<rparr>)"
  using assms by (auto simp: worker_of_row_def status_row_def result_simps)

lemma status_row_sel [simp]:
  "wp_worker_id (status_row status now w) = wp_worker_id w"
  "wp_identity_subject (status_row status now w) = wp_identity_subject w"
  by (simp_all add: status_row_def)

lemma worker_row_sel [simp]:
  "wp_worker_id (worker_row reg cols subject status tenant created revoked now) = r_worker_id reg"
  "wp_identity_subject (worker_row reg cols subject status tenant created revoked now) = subject"
  by (simp_all add: worker_row_def split: prod.split)

lemma pgr_upsert_cases:
  assumes "jsonb_keeps env"
  obtains (refused) e where "pgr_upsert env reg subject now s = (e, s)"
  | (inserted) row caps versions lbls gpus busy where
      "upsert_args env reg subject = Inr (caps, versions, lbls, gpus, busy)"
      "r_worker_id reg \<notin> set (map wp_worker_id s)" "subject \<notin> set (map wp_identity_subject s)"
      "row = worker_row reg (caps, versions, lbls, gpus, busy) subject
               (if r_draining reg then W_DRAINING else W_ACTIVE) (r_tenant_id reg) now None now"
      "pgr_upsert env reg subject now s = (worker_of_row row, s @ [row])"
  | (updated) row w caps versions lbls gpus busy where
      "upsert_args env reg subject = Inr (caps, versions, lbls, gpus, busy)"
      "w \<in> set s" "wp_worker_id w = r_worker_id reg" "wp_identity_subject w = subject"
      "wp_tenant_id w = r_tenant_id reg"
      "row = worker_row reg (caps, versions, lbls, gpus, busy) subject
               (if wp_status w = W_REVOKED then W_REVOKED
                else if r_draining reg then W_DRAINING else W_ACTIVE)
               (r_tenant_id reg) (wp_created_at w) (wp_revoked_at w) now"
      "pgr_upsert env reg subject now s =
        (worker_of_row row, map (\<lambda>w'. if wp_worker_id w' = r_worker_id reg then row else w') s)"
proof (cases "upsert_args env reg subject")
  case (Inl e)
  then show ?thesis by (intro refused) (simp add: pgr_upsert_def)
next
  case (Inr cols)
  obtain caps versions lbls gpus busy where c: "cols = (caps, versions, lbls, gpus, busy)"
    by (cases cols)
  show ?thesis
  proof (cases "find (\<lambda>w. wp_worker_id w = r_worker_id reg) s")
    case None
    then have new: "r_worker_id reg \<notin> set (map wp_worker_id s)" by (auto simp: find_None_iff)
    show ?thesis
    proof (cases "list_ex (\<lambda>w. wp_identity_subject w = subject) s")
      case True
      with Inr None show ?thesis by (intro refused) (simp add: pgr_upsert_def)
    next
      case False
      then have "subject \<notin> set (map wp_identity_subject s)" by (auto simp: list_ex_iff)
      with Inr None False new c show ?thesis
        by (intro inserted [OF _ _ _ refl]) (simp_all add: pgr_upsert_def Let_def)
    qed
  next
    case (Some w)
    from find_SomeD [OF Some] have w: "w \<in> set s" "wp_worker_id w = r_worker_id reg" by auto
    show ?thesis
    proof (cases "wp_tenant_id w = r_tenant_id reg \<and> wp_identity_subject w = subject")
      case True
      with Inr Some c w show ?thesis
        by (intro updated [OF _ _ _ _ _ refl, of caps versions lbls gpus busy w])
          (simp_all add: pgr_upsert_def Let_def)
    next
      case False
      with Inr Some show ?thesis
        by (intro refused [of "fst (pgr_upsert env reg subject now s)"])
          (auto simp: pgr_upsert_def Let_def)
    qed
  qed
qed

fun pgr_step :: "pg_env \<Rightarrow> registry_op \<Rightarrow> pg_workers \<Rightarrow> pg_workers" where
  "pgr_step env (Upsert reg subject now) s = snd (pgr_upsert env reg subject now s)"
| "pgr_step env (SetStatus k status now) s = snd (pgr_set_status k status now s)"

lemma pgr_set_status_state:
  "snd (pgr_set_status k status now s) =
     (if no_nul k then map (\<lambda>w. if wp_worker_id w = k then status_row status now w else w) s else s)"
  by (simp add: pgr_set_status_def execute_def text_args_def update_where_def ensure_def)

lemma distinct_worker: "distinct (map wp_worker_id s) \<Longrightarrow> w \<in> set s \<Longrightarrow> w' \<in> set s \<Longrightarrow>
    wp_worker_id w = wp_worker_id w' \<Longrightarrow> w = w'"
  by (meson distinct_map inj_onD)

lemma pgr_ok_map:
  assumes "pgr_ok env s" "\<And>w. w \<in> set s \<Longrightarrow> readable (f w)"
    "\<And>w. w \<in> set s \<Longrightarrow> wp_worker_id (f w) = wp_worker_id w"
    "\<And>w. w \<in> set s \<Longrightarrow> wp_identity_subject (f w) = wp_identity_subject w"
  shows "pgr_ok env (map f s)"
proof -
  have "map wp_worker_id (map f s) = map wp_worker_id s"
    "map wp_identity_subject (map f s) = map wp_identity_subject s"
    using assms(3,4) by simp_all
  with assms(1,2) show ?thesis by (simp add: pgr_ok_def list_all_iff del: map_map)
qed

lemma pgr_ok_step: "pgr_ok env s \<Longrightarrow> pgr_ok env (pgr_step env op s)"
proof (cases op)
  case (Upsert reg subject now)
  assume ok: "pgr_ok env s"
  then have keeps: "jsonb_keeps env" and d: "distinct (map wp_worker_id s)" by (simp_all add: pgr_ok_def)
  from keeps show ?thesis
  proof (cases rule: pgr_upsert_cases [of env reg subject now s])
    case refused
    with ok Upsert show ?thesis by simp
  next
    case inserted
    with ok Upsert worker_row_record [OF keeps inserted(1)] show ?thesis
      by (auto simp: pgr_ok_def Let_def readable_def)
  next
    case (updated row w caps versions lbls gpus busy)
    have "readable row"
      using worker_row_record [OF keeps updated(1)] by (simp add: updated(6) readable_def)
    moreover have "wp_worker_id row = r_worker_id reg" "wp_identity_subject row = subject"
      by (simp_all add: updated(6))
    moreover have "w' = w" if "w' \<in> set s" "wp_worker_id w' = r_worker_id reg" for w'
      using distinct_worker [OF d that(1) updated(2)] that(2) updated(3) by simp
    ultimately have "pgr_ok env (map (\<lambda>w'. if wp_worker_id w' = r_worker_id reg then row else w') s)"
      using ok updated(3,4) by (intro pgr_ok_map [OF ok]) (auto simp: pgr_ok_def list_all_iff)
    with updated Upsert show ?thesis by simp
  qed
next
  case (SetStatus k status now)
  assume ok: "pgr_ok env s"
  have "pgr_ok env (map (\<lambda>w. if wp_worker_id w = k then status_row status now w else w) s)"
    using pgr_row [OF ok] status_row_record
    by (intro pgr_ok_map [OF ok]) (auto simp: readable_def)
  with ok SetStatus show ?thesis by (simp add: pgr_set_status_state)
qed

lemma pgr_lookup:
  "map_of (pgr_table s) k = map_option row_worker (find (\<lambda>w. wp_worker_id w = k) s)"
  by (induction s) (auto simp: pgr_table_def)

lemma pgr_lookup_Some:
  "map_of (pgr_table s) k = Some r \<Longrightarrow> \<exists>w \<in> set s. wp_worker_id w = k \<and> row_worker w = r"
  by (auto simp: pgr_lookup dest: find_SomeD)

lemma find_map: "find P (map f xs) = map_option f (find (P \<circ> f) xs)"
  by (induction xs) simp_all

lemma find_worker: "distinct (map wp_worker_id s) \<Longrightarrow> w \<in> set s \<Longrightarrow>
    find (\<lambda>w'. wp_worker_id w' = wp_worker_id w) s = Some w"
  by (induction s) auto

text \<open>A registration whose versions are in jsonb's order and whose busy job id is canonical.\<close>

definition plain_registration :: "pg_env \<Rightarrow> worker_registration \<Rightarrow> string \<Rightarrow> bool" where
  "plain_registration env reg subject \<longleftrightarrow>
     (case upsert_args env reg subject of
        Inl _ \<Rightarrow> False
      | Inr (caps, versions, lbls, gpus, busy) \<Rightarrow>
          map (\<lambda>p. (fst p, the_str (snd p))) versions = r_runtime_versions reg \<and>
          busy = r_busy_job_id reg)"

lemma upsert_refines:
  assumes ok: "pgr_ok env s" and plain: "plain_registration env reg subject"
  shows "reg_upsert reg subject now (pgr_table s) =
    (fst (pgr_upsert env reg subject now s), pgr_table (snd (pgr_upsert env reg subject now s)))"
proof -
  have keeps: "jsonb_keeps env" and d: "distinct (map wp_worker_id s)"
    using ok by (simp_all add: pgr_ok_def)
  obtain caps versions lbls gpus where
    args: "upsert_args env reg subject = Inr (caps, versions, lbls, gpus, r_busy_job_id reg)"
    and pl: "map (\<lambda>p. (fst p, the_str (snd p))) versions = r_runtime_versions reg"
    using plain by (auto simp: plain_registration_def split: sum.splits)
  have wid_ok: "text_args [r_worker_id reg] = Inr ()"
    using args by (auto simp: upsert_args_def text_args_def result_simps)
  note rec = worker_row_record [OF keeps args, where now = now, unfolded pl]
  have subj: "w_identity_subject (row_worker w) = wp_identity_subject w"
    "w_worker_id (row_worker w) = wp_worker_id w" if "w \<in> set s" for w
    using worker_of_row_sel [OF pgr_row [OF ok that]] by simp_all
  have taken: "list_ex (\<lambda>other. w_identity_subject other = subject \<and> w_worker_id other \<noteq> r_worker_id reg)
      (dvalues (pgr_table s)) \<longleftrightarrow>
      list_ex (\<lambda>w. wp_identity_subject w = subject \<and> wp_worker_id w \<noteq> r_worker_id reg) s"
    using subj by (auto simp: list_ex_iff pgr_table_def)
  show ?thesis
  proof (cases "find (\<lambda>w. wp_worker_id w = r_worker_id reg) s")
    case None
    then have new: "r_worker_id reg \<notin> set (map wp_worker_id s)" by (auto simp: find_None_iff)
    then have "list_ex (\<lambda>w. wp_identity_subject w = subject \<and> wp_worker_id w \<noteq> r_worker_id reg) s \<longleftrightarrow>
        list_ex (\<lambda>w. wp_identity_subject w = subject) s"
      by (auto simp: list_ex_iff) (metis image_eqI)
    moreover have "AList.update (r_worker_id reg) r (pgr_table s) = pgr_table s @ [(r_worker_id reg, r)]" for r
      unfolding pgr_table_def by (rule update_map_absent [OF new])
    ultimately show ?thesis
      by (simp add: reg_upsert_def pgr_upsert_def pgr_lookup None args taken Let_def rec)
        (simp add: pgr_table_def row_worker_def rec upsert_record_def stored_worker_def)
  next
    case (Some w)
    from find_SomeD [OF Some] have w: "w \<in> set s" "wp_worker_id w = r_worker_id reg" by auto
    note r = pgr_row [OF ok w(1)] and sel = worker_of_row_sel [OF pgr_row [OF ok w(1)]]
    show ?thesis
    proof (cases "wp_tenant_id w = r_tenant_id reg \<and> wp_identity_subject w = subject")
      case False
      with Some r wid_ok sel show ?thesis
        by (auto simp: reg_upsert_def pgr_upsert_def pgr_lookup args Let_def pgr_get_def)
    next
      case True
      have same: "w' = w" if "w' \<in> set s" "wp_identity_subject w' = subject" for w'
        using that True w(1) ok by (auto simp: pgr_ok_def distinct_map dest: inj_onD)
      then have free: "\<not> list_ex (\<lambda>w. wp_identity_subject w = subject \<and> wp_worker_id w \<noteq> r_worker_id reg) s"
        using w(2) by (auto simp: list_ex_iff)
      have upd: "AList.update (r_worker_id reg) x (pgr_table s) =
          pgr_table (map (\<lambda>w'. if wp_worker_id w' = r_worker_id reg then row else w') s)"
        if "row_worker row = x" "wp_worker_id row = r_worker_id reg" for x row
        using update_map [OF d w(1), of x row_worker] that w(2) by (auto simp: pgr_table_def)
      show ?thesis
        using True sel w(2)
        by (simp add: reg_upsert_def pgr_upsert_def pgr_lookup Some args taken free Let_def rec)
          (auto simp: row_worker_def rec upsert_record_def stored_worker_def intro!: upd)
    qed
  qed
qed

text \<open>What a step does to the worker of one id.\<close>

lemma pgr_step_worker:
  assumes ok: "pgr_ok env s" and look: "map_of (pgr_table s) k = Some w"
  obtains w' where "map_of (pgr_table (pgr_step env op s)) k = Some w'" "binding w' = binding w"
    "w_status w = W_REVOKED \<Longrightarrow> is_upsert op \<Longrightarrow>
       w_status w' = W_REVOKED \<and> w_revoked_at w' = w_revoked_at w"
proof -
  have keeps: "jsonb_keeps env" and d: "distinct (map wp_worker_id s)"
    using ok by (simp_all add: pgr_ok_def)
  obtain p where p: "p \<in> set s" "wp_worker_id p = k" "row_worker p = w"
    using pgr_lookup_Some [OF look] by blast
  note sel = worker_of_row_sel [OF pgr_row [OF ok p(1)], unfolded p(3)]
  have at: "map_of (pgr_table (map f s)) k = Some (row_worker (f p))"
    if "\<And>x. wp_worker_id (f x) = wp_worker_id x" for f
    using find_worker [OF d p(1)] p(2) that by (simp add: pgr_lookup find_map o_def)
  show ?thesis
  proof (cases op)
    case (Upsert reg subject now)
    from keeps show ?thesis
    proof (cases rule: pgr_upsert_cases [of env reg subject now s])
      case refused
      with look Upsert show ?thesis by (intro that [of w]) simp_all
    next
      case (inserted row)
      then have "map_of (pgr_table (pgr_step env op s)) k = Some w"
        using look Upsert by (simp add: pgr_table_def)
      then show ?thesis by (intro that [of w]) simp_all
    next
      case (updated row p' caps versions lbls gpus busy)
      let ?f = "\<lambda>w'. if wp_worker_id w' = r_worker_id reg then row else w'"
      have "wp_worker_id row = r_worker_id reg" by (simp add: updated(6))
      then have look': "map_of (pgr_table (pgr_step env op s)) k = Some (row_worker (?f p))"
        using at [of ?f] updated(7) Upsert by simp
      show ?thesis
      proof (cases "k = r_worker_id reg")
        case False
        with look' p show ?thesis by (intro that [of w]) simp_all
      next
        case True
        then have "p' = p" using distinct_worker [OF d updated(2) p(1)] updated(3) p(2) by simp
        with worker_row_record [OF keeps updated(1)] True look' p(2) sel updated(3-5)
        show ?thesis
          by (intro that [of "row_worker row"])
            (simp_all add: updated(6) row_worker_def stored_worker_def binding_def)
      qed
    qed
  next
    case (SetStatus j status now)
    let ?f = "\<lambda>w. if wp_worker_id w = j then status_row status now w else w"
    show ?thesis
    proof (cases "no_nul j")
      case False
      with look SetStatus show ?thesis
        by (intro that [of w]) (simp_all add: pgr_set_status_state)
    next
      case True
      have "map_of (pgr_table (pgr_step env op s)) k = Some (row_worker (?f p))"
        using at [of ?f] SetStatus True by (simp add: pgr_set_status_state)
      moreover have "binding (row_worker (?f p)) = binding w"
        using status_row_record [OF pgr_row [OF ok p(1)], of status now] p(3)
        by (simp add: row_worker_def binding_def)
      ultimately show ?thesis using that SetStatus by simp
    qed
  qed
qed

interpretation pgreg: worker_registry "pgr_ok env" "\<lambda>s k. map_of (pgr_table s) k" "pgr_step env" for env
proof (unfold_locales, goal_cases)
  case (1 s op) then show ?case by (rule pgr_ok_step)
next
  case (2 s k w)
  then show ?case
    using pgr_lookup_Some [OF 2(2)] worker_of_row_sel(1) [OF pgr_row [OF 2(1)]] by auto
next
  case (3 s k w k' w')
  obtain p p' where p: "p \<in> set s" "wp_worker_id p = k" "row_worker p = w"
      "p' \<in> set s" "wp_worker_id p' = k'" "row_worker p' = w'"
    using pgr_lookup_Some [OF 3(2)] pgr_lookup_Some [OF 3(3)] by blast
  have "wp_identity_subject p = wp_identity_subject p'"
    using 3(4) p worker_of_row_sel(2) [OF pgr_row [OF 3(1)]] by auto
  then have "p = p'"
    using 3(1) p(1,4) by (auto simp: pgr_ok_def distinct_map dest: inj_onD)
  with p show ?case by simp
next
  case (4 s k w op)
  then show ?case
    by (rule pgr_step_worker [of env s k w op]) (intro exI conjI)
next
  case (5 s k w op w')
  from 5(1,2) show ?case
    by (rule pgr_step_worker [of env s k w op]) (use 5(3-5) in simp)
qed

section \<open>Properties\<close>


text \<open>In Postgres too, through any heartbeats and status changes a worker keeps its identity
  subject, tenant and creation time; while only heartbeats run, a revoked worker stays revoked at the
  time it was revoked; and no two workers ever share an identity subject.\<close>

theorem pg_registry_safe:
  assumes "pgr_ok env s" "map_of (pgr_table s) k = Some w"
  shows "(\<exists>w'. map_of (pgr_table (foldl (\<lambda>s op. pgr_step env op s) s ops)) k = Some w' \<and>
            binding w' = binding w \<and>
            (w_status w = W_REVOKED \<and> list_all is_upsert ops \<longrightarrow>
               w_status w' = W_REVOKED \<and> w_revoked_at w' = w_revoked_at w)) \<and>
         (\<forall>j x y. map_of (pgr_table (foldl (\<lambda>s op. pgr_step env op s) s ops)) j = Some x \<and>
            map_of (pgr_table (foldl (\<lambda>s op. pgr_step env op s) s ops)) k = Some y \<and>
            w_identity_subject x = w_identity_subject y \<longrightarrow> j = k)"
proof -
  obtain w' where w': "map_of (pgr_table (foldl (\<lambda>s op. pgr_step env op s) s ops)) k = Some w'"
      "binding w' = binding w"
    using pgreg.binding_run [OF assms] by blast
  moreover have "w_status w' = W_REVOKED \<and> w_revoked_at w' = w_revoked_at w"
    if "w_status w = W_REVOKED" "list_all is_upsert ops"
    using pgreg.revoked_run [OF assms that] w' by auto
  ultimately show ?thesis
    using pgreg.subject_owner_run [OF assms(1)] by blast
qed

section \<open>Witnesses\<close>

lemma pgr_ok_Nil: "pgr_ok demo_env []"
  using demo_env_ok by (simp add: pgr_ok_def pg_env_ok_def)

lemma demo_plain_registration: "plain_registration demo_env (demo_registration ''w'' (Some ''t1'')) ''sub''"
  by code_simp


theorem pg_registry_safe_witness:
  "\<exists>w. map_of (pgr_table (pgr_step demo_env (Upsert (demo_registration ''w'' (Some ''t1'')) ''sub'' 9)
         (pgr_step demo_env (SetStatus ''w'' W_REVOKED 5)
           (pgr_step demo_env (Upsert (demo_registration ''w'' (Some ''t1'')) ''sub'' 3) [])))) ''w'' = Some w \<and>
       w_status w = W_REVOKED"
proof -
  let ?s = "pgr_step demo_env (SetStatus ''w'' W_REVOKED 5)
           (pgr_step demo_env (Upsert (demo_registration ''w'' (Some ''t1'')) ''sub'' 3) [])"
  have ok: "pgr_ok demo_env ?s" by (intro pgr_ok_step pgr_ok_Nil)
  have "map_option w_status (map_of (pgr_table ?s) ''w'') = Some W_REVOKED" by code_simp
  then obtain w where w: "map_of (pgr_table ?s) ''w'' = Some w" "w_status w = W_REVOKED" by blast
  from pg_registry_safe [OF ok w(1), of "[Upsert (demo_registration ''w'' (Some ''t1'')) ''sub'' 9]"] w(2)
  show ?thesis by auto
qed

end
