(* ===== verification/Comfy.thy ===== *)
theory Comfy
  imports Agent
begin

text \<open>
  \<open>comfy.py\<close>: the approved-workflow plugin. A template is the operator's JSON document; its graph maps
  node ids to nodes. Loading a document that has a field of another JSON type than the dataclass
  declares is a TypeError here; the bounds and the default of an input keep whatever JSON they were
  given, as in the code. The runtime, the clock and the job's cancel flag are the record \<open>comfy_env\<close>.
\<close>

section \<open>Templates\<close>

definition COMFY_WORKFLOW_PLUGIN_ID :: string where "COMFY_WORKFLOW_PLUGIN_ID = ''comfy-workflow''"
definition COMFY_WORKFLOW_PLUGIN_VERSION :: string where "COMFY_WORKFLOW_PLUGIN_VERSION = ''1''"
definition LOAD_IMAGE_CLASS_TYPE :: string where "LOAD_IMAGE_CLASS_TYPE = ''LoadImage''"
definition IMAGES_INPUT_NAME :: string where "IMAGES_INPUT_NAME = ''images''"
definition IMAGE_NODE_INPUT_NAME :: string where "IMAGE_NODE_INPUT_NAME = ''image''"
definition LOAD_AUDIO_CLASS_TYPE :: string where "LOAD_AUDIO_CLASS_TYPE = ''LoadAudio''"
definition AUDIOS_INPUT_NAME :: string where "AUDIOS_INPUT_NAME = ''audios''"
definition AUDIO_NODE_INPUT_NAME :: string where "AUDIO_NODE_INPUT_NAME = ''audio''"
definition SEED_INPUT_NAME :: string where "SEED_INPUT_NAME = ''seed''"
definition FILENAME_PREFIX_INPUT_NAME :: string where "FILENAME_PREFIX_INPUT_NAME = ''filename_prefix''"
definition OUTPUT_DIRECTORY :: string where "OUTPUT_DIRECTORY = ''output''"
definition OUTPUT_PREFIX_ROOT :: string where "OUTPUT_PREFIX_ROOT = ''ogwp''"
definition OUTPUT_COLLECTION_NAMES :: "string list" where
  "OUTPUT_COLLECTION_NAMES = [''animated'', ''videos'', ''gifs'', ''images'']"
definition INPUT_KINDS :: "string list" where
  "INPUT_KINDS = [''string'', ''integer'', ''number'', ''boolean'']"
definition PROGRESS_SUBMITTED :: int where "PROGRESS_SUBMITTED = 0"
definition PROGRESS_RUNNING :: int where "PROGRESS_RUNNING = 50"
definition PROGRESS_COMPLETE :: int where "PROGRESS_COMPLETE = 100"

record template_input =
  ti_name :: string
  ti_node_id :: string
  ti_input_name :: string
  ti_kind :: string
  ti_minimum :: json
  ti_maximum :: json
  ti_max_length :: json
  ti_default :: json
  ti_required :: bool

record image_slot =
  is_name :: string
  is_node_id :: string
  is_required :: bool
  is_dependent_node_ids :: "string list"

record comfy_template =
  ct_capability_id :: string
  ct_contract_version :: int
  ct_template_version :: string
  ct_graph :: payload
  ct_inputs :: "template_input list"
  ct_image_slots :: "image_slot list"
  ct_output_node_id :: string
  ct_output_content_type :: string
  ct_model_id :: string
  ct_model_version :: string
  ct_audio_slots :: "image_slot list"

section \<open>Checking a template\<close>

definition is_node :: "payload \<Rightarrow> string \<Rightarrow> bool" where
  "is_node graph i = (case map_of graph i of Some (JObj _) \<Rightarrow> True | _ \<Rightarrow> False)"

text \<open>The first loop: the names seen so far, then each entry's name and node.\<close>

fun check_names :: "payload \<Rightarrow> string list \<Rightarrow> (string \<times> string) list \<Rightarrow> exn + unit" where
  "check_names graph names [] = Inr ()"
| "check_names graph names ((name, node_id) # rest) =
     (if name \<in> set names
      then Inl (ValueError (''two allowlist entries share the name '' @ name))
      else if \<not> is_node graph node_id
      then Inl (ValueError (name @ '' names a node the graph does not declare: '' @ node_id))
      else check_names graph (name # names) rest)"

definition check_dependent :: "comfy_template \<Rightarrow> image_slot \<Rightarrow> string \<Rightarrow> exn + unit" where
  "check_dependent t slot i =
     (if \<not> is_node (ct_graph t) i
      then Inl (ValueError (''image slot '' @ is_name slot @ '' names a dependent node the graph ''
                            @ ''does not declare: '' @ i))
      else ensure (i \<notin> set (map is_node_id (ct_image_slots t @ ct_audio_slots t)))
             (ValueError (''image slot '' @ is_name slot @ '' names another slot's node as a ''
                          @ ''dependent: '' @ i)))"

definition check_slot :: "comfy_template \<Rightarrow> image_slot \<times> string \<times> string \<Rightarrow> exn + unit" where
  "check_slot t = (\<lambda>(slot, class_type, kind).
     case map_of (ct_graph t) (is_node_id slot) of
       Some (JObj node) \<Rightarrow>
         ebind (ensure (pget node ''class_type'' = JStr class_type)
           (ValueError (kind @ '' slot '' @ is_name slot @ '' must bind a '' @ class_type @ '' node'')))
           (\<lambda>_. for_each (check_dependent t slot) (is_dependent_node_ids slot))
     | _ \<Rightarrow> Inl (KeyError (is_node_id slot)))"

definition slots_of :: "comfy_template \<Rightarrow> (image_slot \<times> string \<times> string) list" where
  "slots_of t = map (\<lambda>s. (s, LOAD_IMAGE_CLASS_TYPE, ''image'')) (ct_image_slots t) @
                map (\<lambda>s. (s, LOAD_AUDIO_CLASS_TYPE, ''audio'')) (ct_audio_slots t)"

definition validate_template :: "comfy_template \<Rightarrow> exn + unit" where
  "validate_template t =
     ebind (check_names (ct_graph t) [IMAGES_INPUT_NAME, AUDIOS_INPUT_NAME]
       (map (\<lambda>e. (ti_name e, ti_node_id e)) (ct_inputs t) @
        map (\<lambda>s. (is_name s, is_node_id s)) (ct_image_slots t @ ct_audio_slots t))) (\<lambda>_.
     ebind (for_each (\<lambda>e. ensure (ti_kind e \<in> set INPUT_KINDS)
       (ValueError (''input '' @ ti_name e @ '' declares an unknown kind: '' @ ti_kind e))) (ct_inputs t))
       (\<lambda>_.
     ebind (for_each (check_slot t) (slots_of t)) (\<lambda>_.
     ensure (is_node (ct_graph t) (ct_output_node_id t))
       (ValueError (''output_node_id names a node the graph does not declare: '' @ ct_output_node_id t)))))"

section \<open>Reading a document\<close>

text \<open>\<open>d[k]\<close>, and \<open>d[k]\<close> as a string or an integer.\<close>

definition item :: "payload \<Rightarrow> string \<Rightarrow> exn + json" where
  "item d k = (case map_of d k of None \<Rightarrow> Inl (KeyError k) | Some v \<Rightarrow> Inr v)"

definition str_item :: "payload \<Rightarrow> string \<Rightarrow> exn + string" where
  "str_item d k = ebind (item d k) (\<lambda>v. case v of JStr s \<Rightarrow> Inr s | _ \<Rightarrow> Inl (TypeError k))"

definition int_item :: "payload \<Rightarrow> string \<Rightarrow> exn + int" where
  "int_item d k = ebind (item d k) (\<lambda>v. case v of JInt n \<Rightarrow> Inr n | _ \<Rightarrow> Inl (TypeError k))"

text \<open>Iterating over a JSON value.\<close>

fun iterate :: "json \<Rightarrow> exn + json list" where
  "iterate (JArr vs) = Inr vs"
| "iterate (JObj kvs) = Inr (map (\<lambda>(k, _). JStr k) kvs)"
| "iterate (JStr s) = Inr (map (\<lambda>c. JStr [c]) s)"
| "iterate _ = Inl (TypeError ''object is not iterable'')"

definition template_input_of :: "json \<Rightarrow> exn + template_input" where
  "template_input_of v =
     (case v of
        JObj e \<Rightarrow>
          ebind (str_item e ''name'') (\<lambda>name.
          ebind (str_item e ''node_id'') (\<lambda>node_id.
          ebind (str_item e ''input_name'') (\<lambda>input_name.
          ebind (str_item e ''kind'') (\<lambda>kind.
          Inr \<lparr>ti_name = name, ti_node_id = node_id, ti_input_name = input_name, ti_kind = kind,
                ti_minimum = pget e ''minimum'', ti_maximum = pget e ''maximum'',
                ti_max_length = pget e ''max_length'', ti_default = pget e ''default'',
                ti_required = truthy (payload_get e ''required'' (JBool False))\<rparr>))))
      | _ \<Rightarrow> Inl (TypeError ''indices must be integers''))"

definition image_slot_of :: "json \<Rightarrow> exn + image_slot" where
  "image_slot_of v =
     (case v of
        JObj e \<Rightarrow>
          ebind (str_item e ''name'') (\<lambda>name.
          ebind (str_item e ''node_id'') (\<lambda>node_id.
          ebind (iterate (payload_get e ''dependent_node_ids'' (JArr []))) (\<lambda>ds.
          ebind (map_result (\<lambda>d. case d of JStr s \<Rightarrow> Inr s | _ \<Rightarrow> Inl (TypeError ''dependent_node_ids'')) ds)
            (\<lambda>dependents.
          Inr \<lparr>is_name = name, is_node_id = node_id,
                is_required = truthy (payload_get e ''required'' (JBool False)),
                is_dependent_node_ids = dependents\<rparr>))))
      | _ \<Rightarrow> Inl (TypeError ''indices must be integers''))"

definition template_from_document :: "json \<Rightarrow> exn + comfy_template" where
  "template_from_document document =
     (case document of
        JObj d \<Rightarrow>
          ebind (item d ''graph'') (\<lambda>g.
          (case g of
             JObj graph \<Rightarrow>
               ebind (str_item d ''capability_id'') (\<lambda>c.
               ebind (validate_capability_id c) (\<lambda>capability_id.
               ebind (int_item d ''contract_version'') (\<lambda>version.
               ebind (str_item d ''template_version'') (\<lambda>template_version.
               ebind (item d ''inputs'') (\<lambda>is. ebind (iterate is) (\<lambda>es.
               ebind (map_result template_input_of es) (\<lambda>inputs.
               ebind (item d ''image_slots'') (\<lambda>ss. ebind (iterate ss) (\<lambda>vs.
               ebind (map_result image_slot_of vs) (\<lambda>image_slots.
               ebind (str_item d ''output_node_id'') (\<lambda>output_node_id.
               ebind (str_item d ''output_content_type'') (\<lambda>content_type.
               ebind (str_item d ''model_id'') (\<lambda>model_id.
               ebind (str_item d ''model_version'') (\<lambda>model_version.
               ebind (iterate (payload_get d ''audio_slots'' (JArr []))) (\<lambda>ws.
               ebind (map_result image_slot_of ws) (\<lambda>audio_slots.
               let t = \<lparr>ct_capability_id = capability_id, ct_contract_version = version,
                  ct_template_version = template_version, ct_graph = graph, ct_inputs = inputs,
                  ct_image_slots = image_slots, ct_output_node_id = output_node_id,
                  ct_output_content_type = content_type, ct_model_id = model_id,
                  ct_model_version = model_version, ct_audio_slots = audio_slots\<rparr>
               in ebind (validate_template t) (\<lambda>_. Inr t)))))))))))))))))
           | _ \<Rightarrow> Inl (ValueError ''graph must be an object of node id to node'')))
      | _ \<Rightarrow> Inl (TypeError ''indices must be integers''))"

type_synonym template_registry = "(string, comfy_template) dict"

text \<open>\<open>str(exc)\<close> of the errors \<open>from_directory\<close> handles; \<open>None\<close> for the others.\<close>

fun template_error :: "exn \<Rightarrow> string option" where
  "template_error (ValueError m) = Some m"
| "template_error (TypeError m) = Some m"
| "template_error (KeyError k) = Some (CHR 0x27 # k @ [CHR 0x27])"
| "template_error _ = None"

text \<open>\<open>TemplateRegistry.from_directory\<close>: the files with the template suffix, in order of their paths,
  each with what \<open>json.loads\<close> makes of its text.\<close>

fun load_templates :: "(string \<times> (exn + json)) list \<Rightarrow> template_registry \<Rightarrow> exn + template_registry"
where
  "load_templates [] templates = Inr templates"
| "load_templates ((name, doc) # files) templates =
     (case ebind doc template_from_document of
        Inl e \<Rightarrow>
          (case template_error e of
             None \<Rightarrow> Inl e
           | Some m \<Rightarrow> Inl (ValueError (name @ '' is not a usable template: '' @ m)))
      | Inr t \<Rightarrow>
          if ct_capability_id t \<in> set (keys templates)
          then Inl (ValueError (name @ '' claims a capability another template already serves: ''
                                @ ct_capability_id t))
          else load_templates files (AList.update (ct_capability_id t) t templates))"

definition from_directory :: "(string \<times> (exn + json)) list \<Rightarrow> exn + template_registry" where
  "from_directory files = load_templates files []"

section \<open>What is published\<close>

definition bound_member :: "string \<Rightarrow> json \<Rightarrow> payload" where
  "bound_member k v = (if v = JNull then [] else [(k, v)])"

definition input_entry_schema :: "template_input \<Rightarrow> json" where
  "input_entry_schema e = JObj ((''type'', JStr (ti_kind e)) #
     (if ti_kind e = ''string''
      then bound_member ''minLength'' (ti_minimum e) @ bound_member ''maxLength'' (ti_max_length e)
      else bound_member ''minimum'' (ti_minimum e) @ bound_member ''maximum'' (ti_maximum e)))"

definition slots_schema :: "image_slot list \<Rightarrow> json" where
  "slots_schema slots = JObj
     [(''type'', JStr ''object''), (''additionalProperties'', JBool False),
      (''properties'', JObj (fold (\<lambda>s. AList.update (is_name s) (JObj [(''type'', JStr ''string'')])) slots [])),
      (''required'', JArr (map (\<lambda>s. JStr (is_name s)) (filter is_required slots)))]"

definition comfy_input_schema :: "comfy_template \<Rightarrow> payload" where
  "comfy_input_schema t =
     (let properties = fold (\<lambda>e. AList.update (ti_name e) (input_entry_schema e)) (ct_inputs t) [];
          required = map ti_name (filter ti_required (ct_inputs t));
          properties1 = AList.update IMAGES_INPUT_NAME (slots_schema (ct_image_slots t)) properties;
          required1 = required @ (if list_ex is_required (ct_image_slots t) then [IMAGES_INPUT_NAME] else []);
          properties2 = (if ct_audio_slots t \<noteq> []
                         then AList.update AUDIOS_INPUT_NAME (slots_schema (ct_audio_slots t)) properties1
                         else properties1);
          required2 = required1 @ (if list_ex is_required (ct_audio_slots t) then [AUDIOS_INPUT_NAME] else [])
      in [(''type'', JStr ''object''), (''additionalProperties'', JBool False),
          (''properties'', JObj properties2), (''required'', JArr (map JStr required2))])"

definition capability_schemas :: "template_registry \<Rightarrow> (string, capability_schema) dict" where
  "capability_schemas registry =
     fold (\<lambda>t. AList.update (ct_capability_id t)
       \<lparr>cs_capability_id = ct_capability_id t, cs_contract_version = ct_contract_version t,
        cs_input_schema = comfy_input_schema t\<rparr>) (dvalues registry) []"

definition comfy_capabilities :: "template_registry \<Rightarrow> capability_manifest" where
  "comfy_capabilities registry =
     (let schemas = capability_schemas registry in
      \<lparr>cm_plugin_id = COMFY_WORKFLOW_PLUGIN_ID, cm_plugin_version = COMFY_WORKFLOW_PLUGIN_VERSION,
       cm_capabilities = map (\<lambda>c. \<lparr>wc_capability_id = c, wc_plugin_id = COMFY_WORKFLOW_PLUGIN_ID,
         wc_plugin_version = COMFY_WORKFLOW_PLUGIN_VERSION, wc_concurrency = 1\<rparr>) (keys schemas),
       cm_schemas = dvalues schemas\<rparr>)"

section \<open>Validating a lease\<close>

text \<open>\<open>value < bound\<close> and \<open>value > bound\<close> where the bound may be absent; comparing a number with anything
  but a number is a TypeError.\<close>

definition beyond :: "(num \<Rightarrow> num \<Rightarrow> bool) \<Rightarrow> num \<Rightarrow> json \<Rightarrow> exn + bool" where
  "beyond rel x b =
     (if b = JNull then Inr False
      else case num_val b of
        None \<Rightarrow> Inl (TypeError ''comparison not supported'') | Some y \<Rightarrow> Inr (rel x y))"

definition outside :: "num \<Rightarrow> json \<Rightarrow> json \<Rightarrow> exn + bool" where
  "outside x lo hi =
     ebind (beyond num_less x lo) (\<lambda>low.
     if low then Inr True else beyond (\<lambda>x y. num_less y x) x hi)"

definition in_declared_range :: "template_input \<Rightarrow> json \<Rightarrow> num \<Rightarrow> json \<Rightarrow> string \<Rightarrow> exn + json" where
  "in_declared_range e v x hi what =
     ebind (outside x (ti_minimum e) hi) (\<lambda>out.
     if out then Inl (PluginRequestRejected (ti_name e @ '' is outside its declared '' @ what))
     else Inr v)"

definition checked_value :: "template_input \<Rightarrow> json \<Rightarrow> exn + json" where
  "checked_value e v =
     (if ti_kind e = ''boolean''
      then (case v of JBool _ \<Rightarrow> Inr v
            | _ \<Rightarrow> Inl (PluginRequestRejected (ti_name e @ '' must be a boolean'')))
      else if ti_kind e = ''string''
      then (case v of
              JStr s \<Rightarrow> in_declared_range e v (Fin (of_nat (length s))) (ti_max_length e) ''length''
            | _ \<Rightarrow> Inl (PluginRequestRejected (ti_name e @ '' must be a string'')))
      else case v of
        JInt n \<Rightarrow> in_declared_range e v (Fin (of_int n)) (ti_maximum e) ''range''
      | JFloat _ x \<Rightarrow>
          if ti_kind e = ''integer''
          then Inl (PluginRequestRejected (ti_name e @ '' must be an integer''))
          else in_declared_range e v x (ti_maximum e) ''range''
      | _ \<Rightarrow> Inl (PluginRequestRejected (ti_name e @
               (if ti_kind e = ''integer'' then '' must be an integer'' else '' must be a number''))))"

definition bound_key :: "string \<Rightarrow> lease_grant \<Rightarrow> string \<times> json \<Rightarrow> exn + string \<times> json" where
  "bound_key kind lease = (\<lambda>(name, key).
     case key of
       JStr k \<Rightarrow>
         if k \<in> set (lg_input_keys lease) then Inr (name, JStr k)
         else Inl (PluginRequestRejected (kind @ '' slot '' @ name @ '' must bind a granted input''))
     | _ \<Rightarrow> Inl (PluginRequestRejected (kind @ '' slot '' @ name @ '' must bind a granted input'')))"

definition bound_slots :: "string \<Rightarrow> image_slot list \<Rightarrow> string \<Rightarrow> lease_grant \<Rightarrow> exn + payload" where
  "bound_slots kind slots payload_name lease =
     (case payload_get (lg_payload lease) payload_name (JObj []) of
        JObj requested \<Rightarrow>
          if \<not> set (keys requested) \<subseteq> set (map is_name slots)
          then Inl (PluginRequestRejected (payload_name @ '' names a slot the template does not declare''))
          else
            ebind (for_each (\<lambda>s. ensure (is_required s \<longrightarrow> is_name s \<in> set (keys requested))
              (PluginRequestRejected (kind @ '' slot '' @ is_name s @ '' is required''))) slots) (\<lambda>_.
            map_result (bound_key kind lease) requested)
      | _ \<Rightarrow> Inl (PluginRequestRejected (payload_name @ '' must map a declared slot to a granted key'')))"

text \<open>The loop over the declared inputs.\<close>

fun declared_inputs ::
  "payload \<Rightarrow> (string, template_input) dict \<Rightarrow> payload \<Rightarrow> exn + payload"
where
  "declared_inputs p [] inputs = Inr inputs"
| "declared_inputs p ((name, e) # rest) inputs =
     (case map_of p name of
        Some v \<Rightarrow>
          ebind (checked_value e v) (\<lambda>w. declared_inputs p rest (AList.update name w inputs))
      | None \<Rightarrow>
          if ti_required e then Inl (PluginRequestRejected (name @ '' is required''))
          else if ti_default e \<noteq> JNull
          then declared_inputs p rest (AList.update name (ti_default e) inputs)
          else declared_inputs p rest inputs)"

definition comfy_validate :: "template_registry \<Rightarrow> lease_grant \<Rightarrow> exn + validated_request" where
  "comfy_validate registry lease =
     (case map_of registry (lg_capability_id lease) of
        None \<Rightarrow> Inl (PluginRequestRejected ''unsupported capability'')
      | Some t \<Rightarrow>
          if lg_contract_version lease \<noteq> ct_contract_version t
          then Inl (PluginRequestRejected ''unsupported contract version'')
          else
            let declared = fold (\<lambda>e. AList.update (ti_name e) e) (ct_inputs t) [];
                media = IMAGES_INPUT_NAME # (if ct_audio_slots t \<noteq> [] then [AUDIOS_INPUT_NAME] else [])
            in
            if \<not> set (keys (lg_payload lease)) \<subseteq> set (keys declared) \<union> set media
            then Inl (PluginRequestRejected ''payload carries unsupported keys'')
            else
              ebind (declared_inputs (lg_payload lease) declared []) (\<lambda>inputs.
              ebind (bound_slots ''image'' (ct_image_slots t) IMAGES_INPUT_NAME lease) (\<lambda>images.
              ebind (if ct_audio_slots t \<noteq> []
                     then bound_slots ''audio'' (ct_audio_slots t) AUDIOS_INPUT_NAME lease else Inr [])
                (\<lambda>audios.
              let inputs1 = AList.update IMAGES_INPUT_NAME (JObj images) inputs;
                  inputs2 = (if ct_audio_slots t \<noteq> []
                             then AList.update AUDIOS_INPUT_NAME (JObj audios) inputs1 else inputs1)
              in
              if \<not> (JStr ` set (lg_input_keys lease) \<subseteq> set (dvalues (images @ audios)))
              then Inl (PluginRequestRejected ''the lease granted an input no slot binds'')
              else
                Inr \<lparr>vr_capability_id = lg_capability_id lease,
                     vr_contract_version = lg_contract_version lease, vr_inputs = inputs2,
                     vr_seed = int_instance (pget inputs2 SEED_INPUT_NAME)\<rparr>))))"

section \<open>The graph\<close>

text \<open>\<open>_node_inputs\<close>: a missing key, or a value that is no object.\<close>

definition inputs_of :: "json \<Rightarrow> agent_exn + payload" where
  "inputs_of node =
     (case node of
        JObj nd \<Rightarrow>
          (case map_of nd ''inputs'' of
             None \<Rightarrow> Inl (OtherError ''KeyError'')
           | Some (JObj ins) \<Rightarrow> Inr ins
           | Some _ \<Rightarrow> Inl (OtherError ''AssertionError''))
      | _ \<Rightarrow> Inl (OtherError ''AssertionError''))"

definition node_inputs :: "payload \<Rightarrow> string \<Rightarrow> agent_exn + payload" where
  "node_inputs graph node_id =
     (case map_of graph node_id of None \<Rightarrow> Inl (OtherError ''KeyError'') | Some node \<Rightarrow> inputs_of node)"

fun with_inputs :: "json \<Rightarrow> payload \<Rightarrow> json" where
  "with_inputs (JObj nd) ins = JObj (AList.update ''inputs'' (JObj ins) nd)"
| "with_inputs v ins = v"

text \<open>\<open>_node_inputs(graph, node_id)[name] = value\<close>\<close>

definition set_input :: "payload \<Rightarrow> string \<Rightarrow> string \<Rightarrow> json \<Rightarrow> agent_exn + payload" where
  "set_input graph node_id name v =
     ebind (node_inputs graph node_id) (\<lambda>ins.
     Inr (AList.update node_id
       (with_inputs (the (map_of graph node_id)) (AList.update name v ins)) graph))"

fun links_to :: "json \<Rightarrow> string \<Rightarrow> bool" where
  "links_to (JArr (v # _)) node_id = (v = JStr node_id)"
| "links_to _ node_id = False"

definition removed_nodes :: "image_slot \<Rightarrow> string list" where
  "removed_nodes slot = is_node_id slot # is_dependent_node_ids slot"

definition unlink :: "string list \<Rightarrow> string \<times> json \<Rightarrow> agent_exn + string \<times> json" where
  "unlink removed = (\<lambda>(i, node).
     ebind (inputs_of node) (\<lambda>ins.
     Inr (i, with_inputs node (filter (\<lambda>(_, v). \<not> list_ex (links_to v) removed) ins))))"

definition drop_slot :: "image_slot \<Rightarrow> payload \<Rightarrow> agent_exn + payload" where
  "drop_slot slot graph =
     map_result (unlink (removed_nodes slot)) (filter (\<lambda>(i, _). i \<notin> set (removed_nodes slot)) graph)"

text \<open>The loop over the declared inputs.\<close>

fun fill_inputs :: "template_input list \<Rightarrow> payload \<Rightarrow> payload \<Rightarrow> agent_exn + payload" where
  "fill_inputs [] inputs graph = Inr graph"
| "fill_inputs (e # es) inputs graph =
     (case map_of inputs (ti_name e) of
        None \<Rightarrow> fill_inputs es inputs graph
      | Some v \<Rightarrow> ebind (set_input graph (ti_node_id e) (ti_input_name e) v) (fill_inputs es inputs))"

section \<open>The runtime\<close>

datatype comfy_call =
    Probe
  | Start_command
  | Monotonic
  | Pause rat
  | Read_source path
  | Up_image string bytes
  | Prompt payload
  | Progress int
  | Cancel_set
  | Clock
  | History string
  | Interrupt
  | View string string path
  | System_stats
  | Object_info

record comfy_env =
  cv_probe :: "comfy_call list \<Rightarrow> agent_exn + int"
  cv_start :: "comfy_call list \<Rightarrow> agent_exn + unit"
  cv_monotonic :: "comfy_call list \<Rightarrow> rat"
  cv_read :: "comfy_call list \<Rightarrow> agent_exn + bytes"
  cv_http :: "comfy_call list \<Rightarrow> agent_exn + http_response"
  cv_cancelled :: "comfy_call list \<Rightarrow> bool"
  cv_clock :: "comfy_call list \<Rightarrow> time"
  cv_view :: "comfy_call list \<Rightarrow> agent_exn + int"

type_synonym 'a comfy_run = "(comfy_call, agent_exn, 'a) run"

record comfy_plugin =
  cp_registry :: template_registry
  cp_poll_interval_seconds :: rat
  cp_start_command :: bool
  cp_startup_timeout_seconds :: rat
  cp_startup_poll_interval_seconds :: rat

text \<open>\<open>httpx.TransportError\<close> among the subclasses of \<open>httpx.HTTPError\<close>.\<close>

definition transport_error :: "agent_exn \<Rightarrow> bool" where
  "transport_error e =
     (case e of
        HTTPError n \<Rightarrow> n \<notin> {''HTTPStatusError'', ''DecodingError'', ''TooManyRedirects''}
      | _ \<Rightarrow> False)"

definition probe_up :: "comfy_env \<Rightarrow> bool comfy_run" where
  "probe_up env =
     mcatch (mbind (mcall Probe (cv_probe env)) (\<lambda>code. mreturn (code = 200)))
       (\<lambda>e. if transport_error e then mreturn False else mraise e)"

text \<open>The \<open>while\<close> loop of \<open>ensure_running\<close>; its turns are bounded by the first argument, and \<open>None\<close>
  is returned when they are used up.\<close>

fun startup_loop :: "nat \<Rightarrow> comfy_env \<Rightarrow> comfy_plugin \<Rightarrow> rat \<Rightarrow> unit option comfy_run" where
  "startup_loop n env cp deadline =
     mbind (mobserve Monotonic (cv_monotonic env)) (\<lambda>now.
     if \<not> now < deadline then mraise (OtherError ''ComfyRuntimeUnavailable'')
     else
       (case n of
          0 \<Rightarrow> mreturn None
        | Suc m \<Rightarrow>
            mbind (probe_up env) (\<lambda>up.
            if up then mreturn (Some ())
            else mbind (mcall (Pause (cp_startup_poll_interval_seconds cp)) (\<lambda>_. Inr ())) (\<lambda>_.
                 startup_loop m env cp deadline))))"

declare startup_loop.simps [simp del]

definition ensure_running :: "nat \<Rightarrow> comfy_env \<Rightarrow> comfy_plugin \<Rightarrow> unit option comfy_run" where
  "ensure_running n env cp =
     mbind (probe_up env) (\<lambda>up.
     if up then mreturn (Some ())
     else if \<not> cp_start_command cp then mraise (OtherError ''ComfyRuntimeUnavailable'')
     else
       mbind (mobserve Monotonic (cv_monotonic env)) (\<lambda>start.
       mbind (mcall Start_command (cv_start env)) (\<lambda>_.
       startup_loop n env cp (start + cp_startup_timeout_seconds cp))))"

definition comfy_raise_for_status :: "int \<Rightarrow> unit comfy_run" where
  "comfy_raise_for_status code = (if code div 100 \<noteq> 2 then mraise (OtherError ''RuntimeError'') else mreturn ())"

text \<open>\<open>response.json().get(k)\<close>\<close>

definition json_get :: "http_response \<Rightarrow> string \<Rightarrow> agent_exn + json" where
  "json_get r k =
     ebind (hr_json r) (\<lambda>j. case j of JObj d \<Rightarrow> Inr (pget d k) | _ \<Rightarrow> Inl (OtherError ''AttributeError''))"

definition nonempty_str :: "json \<Rightarrow> agent_exn + string" where
  "nonempty_str v = (case v of JStr s \<Rightarrow> if s \<noteq> [] then Inr s else Inl (OtherError ''RuntimeError'')
                     | _ \<Rightarrow> Inl (OtherError ''RuntimeError''))"

definition comfy_upload :: "comfy_env \<Rightarrow> string \<Rightarrow> string \<Rightarrow> path \<Rightarrow> string comfy_run" where
  "comfy_upload env job_id slot_name source =
     mbind (mcall (Read_source source) (cv_read env)) (\<lambda>content.
     mbind (mcall (Up_image (job_id @ ''-'' @ slot_name @ path_suffix source) content) (cv_http env)) (\<lambda>r.
     mbind (comfy_raise_for_status (hr_status r)) (\<lambda>_.
     mlift (ebind (json_get r ''name'') nonempty_str))))"

definition comfy_submit :: "comfy_env \<Rightarrow> payload \<Rightarrow> string comfy_run" where
  "comfy_submit env graph =
     mbind (mcall (Prompt graph) (cv_http env)) (\<lambda>r.
     mbind (comfy_raise_for_status (hr_status r)) (\<lambda>_.
     mlift (ebind (json_get r ''prompt_id'') nonempty_str)))"

text \<open>The loops over the image and audio slots; \<open>node_input\<close> is the name the uploaded file takes in the
  node's inputs.\<close>

fun bind_media ::
  "comfy_env \<Rightarrow> string \<Rightarrow> (string, path) dict \<Rightarrow> string \<Rightarrow> payload \<Rightarrow> image_slot list \<Rightarrow> payload \<Rightarrow>
     payload comfy_run"
where
  "bind_media env job_id input_paths node_input media [] graph = mreturn graph"
| "bind_media env job_id input_paths node_input media (slot # slots) graph =
     mbind
       (case map_of media (is_name slot) of
          Some (JStr k) \<Rightarrow>
            mbind (mlift (case map_of input_paths k of
              None \<Rightarrow> Inl (OtherError ''KeyError'') | Some p \<Rightarrow> Inr p)) (\<lambda>p.
            mbind (comfy_upload env job_id (is_name slot) p) (\<lambda>name.
            mlift (set_input graph (is_node_id slot) node_input (JStr name))))
        | _ \<Rightarrow> mlift (drop_slot slot graph))
       (bind_media env job_id input_paths node_input media slots)"

fun first_object :: "json list \<Rightarrow> payload option" where
  "first_object [] = None"
| "first_object (JObj d # _) = Some d"
| "first_object (_ # vs) = first_object vs"

fun first_collected :: "payload \<Rightarrow> string list \<Rightarrow> payload option" where
  "first_collected node [] = None"
| "first_collected node (name # names) =
     (case pget node name of
        JArr vs \<Rightarrow> (case first_object vs of Some d \<Rightarrow> Some d | None \<Rightarrow> first_collected node names)
      | _ \<Rightarrow> first_collected node names)"

definition first_artifact :: "payload \<Rightarrow> string \<Rightarrow> payload option" where
  "first_artifact entry node_id =
     (case (case payload_get entry ''outputs'' (JObj []) of
              JObj outputs \<Rightarrow> payload_get outputs node_id (JObj []) | _ \<Rightarrow> JObj []) of
        JObj node \<Rightarrow> first_collected node OUTPUT_COLLECTION_NAMES
      | _ \<Rightarrow> None)"

definition interrupt :: "comfy_env \<Rightarrow> unit comfy_run" where
  "interrupt env = mbind (mcall Interrupt (cv_http env)) (\<lambda>_. mreturn ())"

text \<open>One reading of the history: the artifact, if the prompt has completed.\<close>

definition history_artifact :: "comfy_template \<Rightarrow> json \<Rightarrow> agent_exn + payload option" where
  "history_artifact t v =
     (case v of
        JObj entry \<Rightarrow>
          (case payload_get entry ''status'' (JObj []) of
             JObj st \<Rightarrow>
               if pget st ''status_str'' = JStr ''error'' then Inl (OtherError ''RuntimeError'')
               else if truthy (pget st ''completed'')
               then (case first_artifact entry (ct_output_node_id t) of
                       None \<Rightarrow> Inl (OtherError ''RuntimeError'') | Some a \<Rightarrow> Inr (Some a))
               else Inr None
           | _ \<Rightarrow> Inl (OtherError ''AttributeError''))
      | _ \<Rightarrow> Inr None)"

fun await_artifact ::
  "nat \<Rightarrow> comfy_env \<Rightarrow> comfy_plugin \<Rightarrow> comfy_template \<Rightarrow> time \<Rightarrow> string \<Rightarrow> payload option comfy_run"
where
  "await_artifact n env cp t deadline prompt_id =
     mbind (mobserve Cancel_set (cv_cancelled env)) (\<lambda>cancelled.
     if cancelled then mbind (interrupt env) (\<lambda>_. mraise (OtherError ''CancelledError''))
     else
       mbind (mobserve Clock (cv_clock env)) (\<lambda>now.
       if deadline \<le> now then mbind (interrupt env) (\<lambda>_. mraise (OtherError ''TimeoutError''))
       else
         (case n of
            0 \<Rightarrow> mreturn None
          | Suc m \<Rightarrow>
              mbind (mcall (History prompt_id) (cv_http env)) (\<lambda>r.
              mbind (comfy_raise_for_status (hr_status r)) (\<lambda>_.
              mbind (mlift (ebind (json_get r prompt_id) (history_artifact t))) (\<lambda>a.
              if a \<noteq> None then mreturn a
              else
                mbind (mcall (Progress PROGRESS_RUNNING) (\<lambda>_. Inr ())) (\<lambda>_.
                mbind (mcall (Pause (cp_poll_interval_seconds cp)) (\<lambda>_. Inr ())) (\<lambda>_.
                await_artifact m env cp t deadline prompt_id))))))))"

declare await_artifact.simps [simp del]

definition comfy_collect ::
  "comfy_env \<Rightarrow> path \<Rightarrow> comfy_template \<Rightarrow> payload \<Rightarrow> string \<Rightarrow> validated_request \<Rightarrow>
     path plugin_output comfy_run"
where
  "comfy_collect env workspace t artifact prompt_id req =
     (case pget artifact ''filename'' of
        JStr filename \<Rightarrow>
          if path_name (path_of filename) = [] then mraise (OtherError ''RuntimeError'')
          else
            let destination = path_join (path_join workspace OUTPUT_DIRECTORY) (path_name (path_of filename));
                subfolder = the_str (payload_get artifact ''subfolder'' (JStr []))
            in
            mbind (mcall (View filename subfolder destination) (cv_view env)) (\<lambda>code.
            mbind (comfy_raise_for_status code) (\<lambda>_.
            mreturn \<lparr>po_path = destination, po_content_type = ct_output_content_type t,
                     po_model_id = ct_model_id t, po_model_version = ct_model_version t,
                     po_seed = vr_seed req,
                     po_diagnostics = [(''prompt_id'', JStr prompt_id),
                                       (''template_version'', JStr (ct_template_version t))]\<rparr>))
      | _ \<Rightarrow> mraise (OtherError ''RuntimeError''))"

section \<open>Executing\<close>

definition obj_or_assert :: "json \<Rightarrow> agent_exn + payload" where
  "obj_or_assert v = (case v of JObj d \<Rightarrow> Inr d | _ \<Rightarrow> Inl (OtherError ''AssertionError''))"

definition prefixed :: "comfy_template \<Rightarrow> string \<Rightarrow> payload \<Rightarrow> agent_exn + payload" where
  "prefixed t job_id graph =
     ebind (node_inputs graph (ct_output_node_id t)) (\<lambda>ins.
     if FILENAME_PREFIX_INPUT_NAME \<in> set (keys ins)
     then set_input graph (ct_output_node_id t) FILENAME_PREFIX_INPUT_NAME
            (JStr (OUTPUT_PREFIX_ROOT @ ''/'' @ job_id))
     else Inr graph)"

text \<open>The graph \<open>execute\<close> builds: the template's, filled, with the slots bound or dropped.\<close>

definition build_graph ::
  "comfy_env \<Rightarrow> comfy_template \<Rightarrow> string \<Rightarrow> (string, path) dict \<Rightarrow> validated_request \<Rightarrow> payload comfy_run"
where
  "build_graph env t job_id input_paths req =
     mbind (mlift (fill_inputs (ct_inputs t) (vr_inputs req) (ct_graph t))) (\<lambda>g1.
     mbind (mlift (case map_of (vr_inputs req) IMAGES_INPUT_NAME of
       None \<Rightarrow> Inl (OtherError ''KeyError'') | Some v \<Rightarrow> obj_or_assert v)) (\<lambda>images.
     mbind (bind_media env job_id input_paths IMAGE_NODE_INPUT_NAME images (ct_image_slots t) g1) (\<lambda>g2.
     mbind (mlift (obj_or_assert (payload_get (vr_inputs req) AUDIOS_INPUT_NAME (JObj [])))) (\<lambda>audios.
     mbind (bind_media env job_id input_paths AUDIO_NODE_INPUT_NAME audios (ct_audio_slots t) g2) (\<lambda>g3.
     mlift (prefixed t job_id g3))))))"

definition comfy_execute ::
  "nat \<Rightarrow> comfy_env \<Rightarrow> comfy_plugin \<Rightarrow> string \<Rightarrow> path \<Rightarrow> (string, path) dict \<Rightarrow> time \<Rightarrow> validated_request \<Rightarrow>
     path plugin_output option comfy_run"
where
  "comfy_execute n env cp job_id workspace input_paths deadline req =
     mbind (ensure_running n env cp) (\<lambda>up.
     if up = None then mreturn None
     else
       case map_of (cp_registry cp) (vr_capability_id req) of
         None \<Rightarrow> mraise (PluginRejected ''unsupported capability'')
       | Some t \<Rightarrow>
           mbind (build_graph env t job_id input_paths req) (\<lambda>graph.
           mbind (comfy_submit env graph) (\<lambda>prompt_id.
           mbind (mcall (Progress PROGRESS_SUBMITTED) (\<lambda>_. Inr ())) (\<lambda>_.
           mbind (await_artifact n env cp t deadline prompt_id) (\<lambda>a.
           case a of
             None \<Rightarrow> mreturn None
           | Some artifact \<Rightarrow>
               mbind (comfy_collect env workspace t artifact prompt_id req) (\<lambda>out.
               mbind (mcall (Progress PROGRESS_COMPLETE) (\<lambda>_. Inr ())) (\<lambda>_.
               mreturn (Some out))))))))"

text \<open>\<open>cancel\<close>, with whether the job has a prompt running, and \<open>health\<close>.\<close>

definition comfy_cancel :: "comfy_env \<Rightarrow> bool \<Rightarrow> bool comfy_run" where
  "comfy_cancel env running = (if \<not> running then mreturn False else mbind (interrupt env) (\<lambda>_. mreturn True))"

definition comfy_health :: "comfy_env \<Rightarrow> (bool \<times> string) comfy_run" where
  "comfy_health env =
     mbind (mcall Probe (cv_probe env)) (\<lambda>code.
     mreturn (if code = 200 then (True, [])
              else (False, ''the local runtime answered with status '' @ int_str code)))"

section \<open>Where the runtime may be\<close>

text \<open>\<open>_require_private_runtime\<close>: what \<open>urlsplit\<close> says is the host, and how \<open>ipaddress\<close> reads it: \<open>None\<close>
  when it is no address, else whether it is loopback or private, and its 32 bits if it is IPv4.\<close>

definition LOOPBACK_HOSTS :: "string list" where
  "LOOPBACK_HOSTS = [''127.0.0.1'', ''localhost'', ''::1'']"

text \<open>100.64.0.0/10\<close>

definition in_shared_space :: "32 word option \<Rightarrow> bool" where
  "in_shared_space a = (case a of None \<Rightarrow> False | Some w \<Rightarrow> drop_bit 22 w = drop_bit 22 0x64400000)"

definition require_private_runtime ::
  "(string \<Rightarrow> string option) \<Rightarrow> (string \<Rightarrow> (bool \<times> bool \<times> 32 word option) option) \<Rightarrow> string \<Rightarrow> exn + unit"
where
  "require_private_runtime hostname address url =
     (case hostname url of
        Some h \<Rightarrow>
          if h \<in> set LOOPBACK_HOSTS then Inr ()
          else (case address h of
                  None \<Rightarrow> Inl (ValueError ''base_url must address a loopback or private local runtime'')
                | Some (loopback, private, v4) \<Rightarrow>
                    ensure (loopback \<or> private \<or> in_shared_space v4)
                      (ValueError ''base_url must address a loopback or private local runtime''))
      | None \<Rightarrow>
          (case address [] of
             None \<Rightarrow> Inl (ValueError ''base_url must address a loopback or private local runtime'')
           | Some (loopback, private, v4) \<Rightarrow>
               ensure (loopback \<or> private \<or> in_shared_space v4)
                 (ValueError ''base_url must address a loopback or private local runtime'')))"

end
