(* ===== verification/ComfyProps.thy ===== *)
theory ComfyProps
  imports Comfy AgentProps
begin

text \<open>
  Properties of the approved-workflow plugin: what a loaded template satisfies, what an accepted
  request is, that the graph which reaches the runtime is the template's but for the declared places,
  that an unbound slot leaves no trace, and that an execution ends.
\<close>

section \<open>Templates that load\<close>

definition slot_ok :: "comfy_template \<Rightarrow> string \<Rightarrow> image_slot \<Rightarrow> bool" where
  "slot_ok t class_type s \<longleftrightarrow>
     (\<exists>node. map_of (ct_graph t) (is_node_id s) = Some (JObj node) \<and> pget node ''class_type'' = JStr class_type) \<and>
     (\<forall>d \<in> set (is_dependent_node_ids s).
        is_node (ct_graph t) d \<and> d \<notin> is_node_id ` set (ct_image_slots t @ ct_audio_slots t))"

definition template_ok :: "comfy_template \<Rightarrow> bool" where
  "template_ok t \<longleftrightarrow>
     distinct (map ti_name (ct_inputs t) @ map is_name (ct_image_slots t @ ct_audio_slots t)) \<and>
     set (map ti_name (ct_inputs t) @ map is_name (ct_image_slots t @ ct_audio_slots t)) \<inter>
       {IMAGES_INPUT_NAME, AUDIOS_INPUT_NAME} = {} \<and>
     (\<forall>e \<in> set (ct_inputs t). is_node (ct_graph t) (ti_node_id e) \<and> ti_kind e \<in> set INPUT_KINDS) \<and>
     (\<forall>s \<in> set (ct_image_slots t). slot_ok t LOAD_IMAGE_CLASS_TYPE s) \<and>
     (\<forall>s \<in> set (ct_audio_slots t). slot_ok t LOAD_AUDIO_CLASS_TYPE s) \<and>
     is_node (ct_graph t) (ct_output_node_id t)"

lemma is_node_iff: "is_node g i \<longleftrightarrow> (\<exists>node. map_of g i = Some (JObj node))"
  by (auto simp: is_node_def split: option.splits json.splits)

lemma check_names_iff:
  "check_names g names es = Inr () \<longleftrightarrow>
     distinct (map fst es) \<and> fst ` set es \<inter> set names = {} \<and> (\<forall>e \<in> set es. is_node g (snd e))"
  by (induction g names es rule: check_names.induct) auto

lemma check_dependent_iff:
  "check_dependent t s d = Inr () \<longleftrightarrow>
     is_node (ct_graph t) d \<and> d \<notin> is_node_id ` set (ct_image_slots t @ ct_audio_slots t)"
  by (auto simp: check_dependent_def)

lemma check_slot_iff: "check_slot t (s, class_type, kind) = Inr () \<longleftrightarrow> slot_ok t class_type s"
  by (auto simp: check_slot_def slot_ok_def result_simps check_dependent_iff split: option.splits json.splits)

lemma slot_ok_node: "slot_ok t c s \<Longrightarrow> is_node (ct_graph t) (is_node_id s)"
  by (auto simp: slot_ok_def is_node_iff)

lemma check_slots_iff:
  "for_each (check_slot t) (slots_of t) = Inr () \<longleftrightarrow>
     (\<forall>s \<in> set (ct_image_slots t). slot_ok t LOAD_IMAGE_CLASS_TYPE s) \<and>
     (\<forall>s \<in> set (ct_audio_slots t). slot_ok t LOAD_AUDIO_CLASS_TYPE s)"
  by (simp add: for_each_Inr_iff slots_of_def check_slot_iff ball_Un)

lemma template_accepted_iff: "validate_template t = Inr () \<longleftrightarrow> template_ok t"
proof -
  let ?es = "map (\<lambda>e. (ti_name e, ti_node_id e)) (ct_inputs t) @
    map (\<lambda>s. (is_name s, is_node_id s)) (ct_image_slots t @ ct_audio_slots t)"
  have "map fst ?es = map ti_name (ct_inputs t) @ map is_name (ct_image_slots t @ ct_audio_slots t)"
    by (simp add: o_def)
  then have "check_names (ct_graph t) [IMAGES_INPUT_NAME, AUDIOS_INPUT_NAME] ?es = Inr () \<longleftrightarrow>
      distinct (map ti_name (ct_inputs t) @ map is_name (ct_image_slots t @ ct_audio_slots t)) \<and>
      set (map ti_name (ct_inputs t) @ map is_name (ct_image_slots t @ ct_audio_slots t)) \<inter>
        {IMAGES_INPUT_NAME, AUDIOS_INPUT_NAME} = {} \<and> (\<forall>e \<in> set ?es. is_node (ct_graph t) (snd e))"
    unfolding check_names_iff set_map [symmetric] by (simp only: list.set)
  moreover have "(\<forall>e \<in> set ?es. is_node (ct_graph t) (snd e)) \<longleftrightarrow>
      (\<forall>e \<in> set (ct_inputs t). is_node (ct_graph t) (ti_node_id e)) \<and>
      (\<forall>s \<in> set (ct_image_slots t). is_node (ct_graph t) (is_node_id s)) \<and>
      (\<forall>s \<in> set (ct_audio_slots t). is_node (ct_graph t) (is_node_id s))"
    by (simp add: ball_Un)
  moreover have "\<forall>s \<in> set (ct_image_slots t). slot_ok t LOAD_IMAGE_CLASS_TYPE s \<Longrightarrow>
      \<forall>s \<in> set (ct_image_slots t). is_node (ct_graph t) (is_node_id s)"
    "\<forall>s \<in> set (ct_audio_slots t). slot_ok t LOAD_AUDIO_CLASS_TYPE s \<Longrightarrow>
      \<forall>s \<in> set (ct_audio_slots t). is_node (ct_graph t) (is_node_id s)"
    using slot_ok_node by blast+
  moreover have "validate_template t = Inr () \<longleftrightarrow>
      check_names (ct_graph t) [IMAGES_INPUT_NAME, AUDIOS_INPUT_NAME] ?es = Inr () \<and>
      (\<forall>e \<in> set (ct_inputs t). ti_kind e \<in> set INPUT_KINDS) \<and>
      for_each (check_slot t) (slots_of t) = Inr () \<and> is_node (ct_graph t) (ct_output_node_id t)"
    by (simp add: validate_template_def ebind_Inr_iff for_each_Inr_iff)
  ultimately show ?thesis
    unfolding template_ok_def check_slots_iff ball_conj_distrib by argo
qed

lemma template_from_document_ok:
  "template_from_document d = Inr t \<Longrightarrow> validate_template t = Inr ()"
  unfolding template_from_document_def Let_def by (cases d) (auto elim!: ebind_InrE split: json.splits)

lemma load_templates_ok:
  assumes "load_templates files ts = Inr registry" "distinct (keys ts)"
    "\<forall>(c, t) \<in> set ts. ct_capability_id t = c \<and> template_ok t"
  shows "distinct (keys registry) \<and> (\<forall>(c, t) \<in> set registry. ct_capability_id t = c \<and> template_ok t) \<and>
    length registry = length files + length ts"
  using assms
proof (induction files ts rule: load_templates.induct)
  case (2 name doc files ts)
  then obtain t where t: "ebind doc template_from_document = Inr t" "ct_capability_id t \<notin> set (keys ts)"
    "load_templates files (AList.update (ct_capability_id t) t ts) = Inr registry"
    by (auto split: sum.splits option.splits if_splits)
  have "template_ok t"
    using t(1) by (auto simp: result_simps template_accepted_iff [symmetric] dest: template_from_document_ok)
  moreover have "AList.update (ct_capability_id t) t ts = ts @ [(ct_capability_id t, t)]"
    using t(2) by (induction ts) auto
  ultimately show ?case
    using 2(1) [OF t(1,2)] 2(3,4) t by auto
qed simp

text \<open>A directory of templates is served only if every file is usable: then each capability
  has one template, as many as there are files, and every template is well formed: its names are
  distinct and not reserved, its inputs have a known kind, every node it names is in its graph, and a
  slot binds a node of the right class and depends on no other slot's node.\<close>

theorem from_directory_ok:
  assumes "from_directory files = Inr registry"
  shows "distinct (keys registry) \<and> length registry = length files \<and>
    (\<forall>(c, t) \<in> set registry. ct_capability_id t = c \<and> template_ok t)"
  using load_templates_ok [of files "[]" registry] assms by (simp add: from_directory_def)

section \<open>Accepted requests\<close>

text \<open>The value is of the declared kind and within the declared bounds.\<close>

definition within_bounds :: "num \<Rightarrow> json \<Rightarrow> json \<Rightarrow> bool" where
  "within_bounds x lo hi \<longleftrightarrow>
     (lo = JNull \<or> (\<exists>y. num_val lo = Some y \<and> \<not> num_less x y)) \<and>
     (hi = JNull \<or> (\<exists>y. num_val hi = Some y \<and> \<not> num_less y x))"

fun value_ok :: "template_input \<Rightarrow> json \<Rightarrow> bool" where
  "value_ok e (JBool b) = (ti_kind e = ''boolean'')"
| "value_ok e (JStr s) = (ti_kind e = ''string'' \<and>
     within_bounds (Fin (of_nat (length s))) (ti_minimum e) (ti_max_length e))"
| "value_ok e (JInt n) = (ti_kind e \<notin> {''boolean'', ''string''} \<and>
     within_bounds (Fin (of_int n)) (ti_minimum e) (ti_maximum e))"
| "value_ok e (JFloat _ x) = (ti_kind e \<notin> {''boolean'', ''string'', ''integer''} \<and>
     within_bounds x (ti_minimum e) (ti_maximum e))"
| "value_ok e _ = False"

lemma outside_Inr_False: "outside x lo hi = Inr False \<longleftrightarrow> within_bounds x lo hi"
  by (auto simp: outside_def beyond_def within_bounds_def result_simps split: option.splits if_splits)

lemma in_declared_range_iff:
  "in_declared_range e v x hi what = Inr w \<longleftrightarrow> w = v \<and> within_bounds x (ti_minimum e) hi"
  by (auto simp: in_declared_range_def result_simps outside_Inr_False [symmetric] split: if_splits)

lemma checked_value_iff: "checked_value e v = Inr w \<longleftrightarrow> w = v \<and> value_ok e v"
  by (cases v) (auto simp: checked_value_def in_declared_range_iff)

lemma declared_inputs_value:
  assumes "declared_inputs p ds inputs = Inr out" "distinct (keys ds)" "set (keys ds) \<inter> set (keys inputs) = {}"
  shows "map_of out k =
    (case map_of ds k of
       None \<Rightarrow> map_of inputs k
     | Some e \<Rightarrow>
         (case map_of p k of Some v \<Rightarrow> Some v
          | None \<Rightarrow> if ti_default e \<noteq> JNull then Some (ti_default e) else None)) \<and>
    (\<forall>(n, e) \<in> set ds. (case map_of p n of Some v \<Rightarrow> value_ok e v | None \<Rightarrow> \<not> ti_required e))"
  using assms
proof (induction p ds inputs rule: declared_inputs.induct)
  case (2 p name e rest inputs)
  note run = 2(4) and dist = 2(5) and disj = 2(6)
  have fresh: "map_of inputs name = None" "name \<notin> set (keys rest)" "map_of rest name = None"
    using dist disj by (auto simp: map_of_eq_None_iff)
  have dis: "set (keys rest) \<inter> set (keys (AList.update name v inputs)) = {}" for v
    using disj fresh(2) unfolding keys_update by auto
  have rest: "distinct (keys rest)" "set (keys rest) \<inter> set (keys inputs) = {}"
    using dist disj by auto
  show ?case
  proof (cases "map_of p name")
    case None
    then have req: "\<not> ti_required e" using run by auto
    show ?thesis
    proof (cases "ti_default e = JNull")
      case True
      then have "declared_inputs p rest inputs = Inr out" using run None req by simp
      from 2(2) [OF None req _ this rest] True None req fresh show ?thesis
        by (auto split: option.splits)
    next
      case False
      then have "declared_inputs p rest (AList.update name (ti_default e) inputs) = Inr out"
        using run None req by simp
      from 2(1) [OF None req False this rest(1) dis] False None req fresh show ?thesis
        by (auto split: option.splits)
    qed
  next
    case (Some v)
    then have v: "checked_value e v = Inr v" "value_ok e v"
        "declared_inputs p rest (AList.update name v inputs) = Inr out"
      using run by (auto simp: result_simps checked_value_iff)
    from 2(3) [OF Some v(3) rest(1) dis] Some v(2) fresh show ?thesis
      by (auto split: option.splits)
  qed
qed simp

lemma bound_key_iff:
  "bound_key kind lease (n, v) = Inr q \<longleftrightarrow> (\<exists>k. v = JStr k \<and> k \<in> set (lg_input_keys lease) \<and> q = (n, v))"
  by (auto simp: bound_key_def split: json.splits)

lemma bound_keys_Inr:
  "map_result (bound_key kind lease) vs = Inr bound \<longleftrightarrow>
     bound = vs \<and> (\<forall>(n, v) \<in> set vs. \<exists>k. v = JStr k \<and> k \<in> set (lg_input_keys lease))"
proof (induction vs arbitrary: bound)
  case (Cons x xs)
  then show ?case by (cases x) (auto simp: ebind_Inr_iff bound_key_iff)
qed auto

text \<open>The map from slots to granted keys a payload asks for.\<close>

definition requested :: "lease_grant \<Rightarrow> string \<Rightarrow> payload" where
  "requested lease name = (case payload_get (lg_payload lease) name (JObj []) of JObj d \<Rightarrow> d | _ \<Rightarrow> [])"

definition slots_bound :: "image_slot list \<Rightarrow> lease_grant \<Rightarrow> payload \<Rightarrow> bool" where
  "slots_bound slots lease d \<longleftrightarrow>
     set (keys d) \<subseteq> is_name ` set slots \<and>
     (\<forall>s \<in> set slots. is_required s \<longrightarrow> is_name s \<in> set (keys d)) \<and>
     (\<forall>(n, v) \<in> set d. \<exists>k. v = JStr k \<and> k \<in> set (lg_input_keys lease))"

lemma bound_slots_Inr:
  "bound_slots kind slots name lease = Inr d \<Longrightarrow> d = requested lease name \<and> slots_bound slots lease d"
  by (auto simp: bound_slots_def requested_def slots_bound_def result_simps bound_keys_Inr
      split: json.splits if_splits)

lemma fold_declared:
  assumes "distinct (map ti_name es)"
  shows "fold (\<lambda>e. AList.update (ti_name e) e) es [] = map (\<lambda>e. (ti_name e, e)) es"
proof -
  have "fold (\<lambda>e. AList.update (ti_name e) e) es d = d @ map (\<lambda>e. (ti_name e, e)) es"
    if "distinct (map ti_name es)" "set (keys d) \<inter> set (map ti_name es) = {}" for d
    using that by (induction es arbitrary: d) (auto simp: update_fresh)
  from this [of "[]"] assms show ?thesis by simp
qed

text \<open>What an accepted request holds for one declared input: the payload's value, or the default.\<close>

definition entry_ok :: "payload \<Rightarrow> payload \<Rightarrow> template_input \<Rightarrow> bool" where
  "entry_ok p inputs e \<longleftrightarrow>
     (case map_of p (ti_name e) of
        Some v \<Rightarrow> value_ok e v \<and> map_of inputs (ti_name e) = Some v
      | None \<Rightarrow> \<not> ti_required e \<and>
          map_of inputs (ti_name e) = (if ti_default e = JNull then None else Some (ti_default e)))"

definition media_names :: "comfy_template \<Rightarrow> string set" where
  "media_names t = {IMAGES_INPUT_NAME} \<union> (if ct_audio_slots t = [] then {} else {AUDIOS_INPUT_NAME})"

definition request_ok :: "comfy_template \<Rightarrow> lease_grant \<Rightarrow> validated_request \<Rightarrow> bool" where
  "request_ok t lease req \<longleftrightarrow>
     vr_capability_id req = lg_capability_id lease \<and> lg_contract_version lease = ct_contract_version t \<and>
     set (keys (lg_payload lease)) \<subseteq> ti_name ` set (ct_inputs t) \<union> media_names t \<and>
     (\<forall>e \<in> set (ct_inputs t). entry_ok (lg_payload lease) (vr_inputs req) e) \<and>
     map_of (vr_inputs req) IMAGES_INPUT_NAME = Some (JObj (requested lease IMAGES_INPUT_NAME)) \<and>
     slots_bound (ct_image_slots t) lease (requested lease IMAGES_INPUT_NAME) \<and>
     (if ct_audio_slots t = [] then map_of (vr_inputs req) AUDIOS_INPUT_NAME = None
      else map_of (vr_inputs req) AUDIOS_INPUT_NAME = Some (JObj (requested lease AUDIOS_INPUT_NAME)) \<and>
           slots_bound (ct_audio_slots t) lease (requested lease AUDIOS_INPUT_NAME)) \<and>
     (\<forall>k \<in> set (lg_input_keys lease). \<exists>m \<in> media_names t. JStr k \<in> set (dvalues (requested lease m)))"

lemma validated_request_ok:
  assumes "map_of registry (lg_capability_id lease) = Some t" "template_ok t"
    "comfy_validate registry lease = Inr req"
  shows "request_ok t lease req"
proof -
  let ?ds = "map (\<lambda>e. (ti_name e, e)) (ct_inputs t)"
  let ?media = "IMAGES_INPUT_NAME # (if ct_audio_slots t \<noteq> [] then [AUDIOS_INPUT_NAME] else [])"
  have names: "distinct (map ti_name (ct_inputs t))"
    "IMAGES_INPUT_NAME \<notin> ti_name ` set (ct_inputs t)" "AUDIOS_INPUT_NAME \<notin> ti_name ` set (ct_inputs t)"
    using assms(2) by (auto simp: template_ok_def)
  obtain inputs images audios where
    ver: "lg_contract_version lease = ct_contract_version t"
    and keys: "set (keys (lg_payload lease)) \<subseteq> set (keys ?ds) \<union> set ?media"
    and d: "declared_inputs (lg_payload lease) ?ds [] = Inr inputs"
    and im: "bound_slots ''image'' (ct_image_slots t) IMAGES_INPUT_NAME lease = Inr images"
    and au: "(if ct_audio_slots t \<noteq> []
         then bound_slots ''audio'' (ct_audio_slots t) AUDIOS_INPUT_NAME lease else Inr []) = Inr audios"
    and granted: "JStr ` set (lg_input_keys lease) \<subseteq> set (dvalues (images @ audios))"
    and req: "vr_capability_id req = lg_capability_id lease" "vr_inputs req =
       (if ct_audio_slots t \<noteq> [] then AList.update AUDIOS_INPUT_NAME (JObj audios)
          (AList.update IMAGES_INPUT_NAME (JObj images) inputs)
        else AList.update IMAGES_INPUT_NAME (JObj images) inputs)"
    using assms(1,3)
    by (simp add: comfy_validate_def Let_def fold_declared [OF names(1)] split: if_splits)
      (auto simp: image_image elim!: ebind_InrE split: if_splits)
  have media: "IMAGES_INPUT_NAME \<noteq> AUDIOS_INPUT_NAME" by (simp add: IMAGES_INPUT_NAME_def AUDIOS_INPUT_NAME_def)
  have lookup: "map_of ?ds (ti_name e) = Some e" if "e \<in> set (ct_inputs t)" for e
    using names(1) that by (simp add: map_of_eq_Some_iff o_def image_iff)
  have none: "map_of ?ds n = None" if "n \<notin> ti_name ` set (ct_inputs t)" for n
    using that by (auto simp: map_of_eq_None_iff)
  have val: "map_of inputs k = (case map_of ?ds k of None \<Rightarrow> None
       | Some e \<Rightarrow> (case map_of (lg_payload lease) k of Some v \<Rightarrow> Some v
                    | None \<Rightarrow> if ti_default e \<noteq> JNull then Some (ti_default e) else None))"
    "\<forall>(n, e) \<in> set ?ds. (case map_of (lg_payload lease) n of Some v \<Rightarrow> value_ok e v | None \<Rightarrow> \<not> ti_required e)"
    for k
    using declared_inputs_value [OF d, of k] names(1)
    by (auto simp: o_def cong: option.case_cong split: option.split)
  have im': "images = requested lease IMAGES_INPUT_NAME" "slots_bound (ct_image_slots t) lease images"
    using bound_slots_Inr [OF im] by blast+
  have au': "ct_audio_slots t \<noteq> [] \<Longrightarrow>
      audios = requested lease AUDIOS_INPUT_NAME \<and> slots_bound (ct_audio_slots t) lease audios"
    "ct_audio_slots t = [] \<Longrightarrow> audios = []"
    using au bound_slots_Inr by (auto split: if_splits)
  have "entry_ok (lg_payload lease) (vr_inputs req) e" if e: "e \<in> set (ct_inputs t)" for e
  proof -
    have "ti_name e \<noteq> IMAGES_INPUT_NAME" "ti_name e \<noteq> AUDIOS_INPUT_NAME"
      using names(2,3) e by (metis imageI)+
    then have "map_of (vr_inputs req) (ti_name e) = map_of inputs (ti_name e)" by (simp add: req(2))
    moreover have "case map_of (lg_payload lease) (ti_name e) of Some v \<Rightarrow> value_ok e v | None \<Rightarrow> \<not> ti_required e"
      using val(2) e by fastforce
    ultimately show ?thesis
      using val(1) [of "ti_name e"] lookup [OF e] by (simp add: entry_ok_def split: option.splits)
  qed
  moreover have "\<forall>k \<in> set (lg_input_keys lease).
      \<exists>m \<in> media_names t. JStr k \<in> set (dvalues (requested lease m))"
  proof
    fix k assume "k \<in> set (lg_input_keys lease)"
    with granted have "JStr k \<in> set (dvalues images) \<or> JStr k \<in> set (dvalues audios)" by auto
    then show "\<exists>m \<in> media_names t. JStr k \<in> set (dvalues (requested lease m))"
      using im' au' by (cases "ct_audio_slots t = []") (auto simp: media_names_def)
  qed
  moreover have "set (keys (lg_payload lease)) \<subseteq> ti_name ` set (ct_inputs t) \<union> media_names t"
    using keys by (auto simp: media_names_def image_image split: if_splits)
  moreover have "map_of (vr_inputs req) AUDIOS_INPUT_NAME = None" if "ct_audio_slots t = []"
    using that val(1) [of AUDIOS_INPUT_NAME] none [OF names(3)] media by (simp add: req(2))
  ultimately show ?thesis
    using req(1) ver im' au' media by (cases "ct_audio_slots t = []") (auto simp: request_ok_def req(2))
qed

text \<open>A job may fill the template's typed allowlist and nothing else: an accepted payload has
  only declared names, each value is of the declared kind and within the declared bounds, what is
  missing takes its default and was not required, every slot is bound to an asset the lease granted,
  and every granted asset is bound.\<close>

theorem comfy_validate_sound:
  assumes "from_directory files = Inr registry" "comfy_validate registry lease = Inr req"
  shows "\<exists>t. map_of registry (lg_capability_id lease) = Some t \<and> request_ok t lease req"
proof -
  obtain t where t: "map_of registry (lg_capability_id lease) = Some t"
    using assms(2) by (auto simp: comfy_validate_def split: option.splits)
  moreover have "template_ok t"
    using load_templates_ok [of files "[]" registry] assms(1) map_of_SomeD [OF t]
    by (auto simp: from_directory_def)
  ultimately show ?thesis using validated_request_ok assms(2) by blast
qed

section \<open>The graph that reaches the runtime\<close>

text \<open>A node that may differ from the template's only in its inputs, and there only where \<open>ok\<close> says so.\<close>

definition node_from :: "(string \<times> json \<Rightarrow> bool) \<Rightarrow> json \<Rightarrow> json \<Rightarrow> bool" where
  "node_from ok node0 node \<longleftrightarrow> node = node0 \<or>
     (\<exists>ins0 ins. inputs_of node0 = Inr ins0 \<and> node = with_inputs node0 ins \<and>
        (\<forall>p \<in> set ins. p \<in> set ins0 \<or> ok p))"

definition graph_from :: "(string \<Rightarrow> string \<times> json \<Rightarrow> bool) \<Rightarrow> payload \<Rightarrow> payload \<Rightarrow> bool" where
  "graph_from ok g0 g \<longleftrightarrow>
     (\<forall>(i, node) \<in> set g. \<exists>node0. (i, node0) \<in> set g0 \<and> node_from (ok i) node0 node)"

lemma update_update: "AList.update k w (AList.update k v d) = AList.update k w d"
  by (induction d) auto

lemma with_inputs_twice [simp]: "with_inputs (with_inputs node a) b = with_inputs node b"
  by (cases node) (simp_all add: update_update)

lemma inputs_of_with [simp]: "inputs_of node = Inr a \<Longrightarrow> inputs_of (with_inputs node ins) = Inr ins"
  by (cases node) (auto simp: inputs_of_def)

lemma set_update_sub: "set (AList.update k v d) \<subseteq> insert (k, v) (set d)"
  by (induction d) auto

lemma node_from_with:
  assumes "node_from ok node0 node" "inputs_of node = Inr ins1" "\<forall>p \<in> set ins. p \<in> set ins1 \<or> ok p"
  shows "node_from ok node0 (with_inputs node ins)"
proof (cases "node = node0")
  case True
  then show ?thesis using assms(2,3) unfolding node_from_def by blast
next
  case False
  then obtain ins0 ins2 where n: "inputs_of node0 = Inr ins0" "node = with_inputs node0 ins2"
    "\<forall>p \<in> set ins2. p \<in> set ins0 \<or> ok p"
    using assms(1) unfolding node_from_def by blast
  then have "ins1 = ins2" using assms(2) by simp
  with n assms(3) have "with_inputs node ins = with_inputs node0 ins" "\<forall>p \<in> set ins. p \<in> set ins0 \<or> ok p"
    by auto
  with n(1) show ?thesis unfolding node_from_def by blast
qed

lemma graph_from_set:
  assumes "graph_from ok g0 g" "set_input g i n v = Inr g'" "ok i (n, v)"
  shows "graph_from ok g0 g'"
proof -
  obtain node ins where node: "map_of g i = Some node" "inputs_of node = Inr ins"
    "g' = AList.update i (with_inputs node (AList.update n v ins)) g"
    using assms(2) by (auto simp: set_input_def node_inputs_def ebind_Inr_iff split: option.splits)
  obtain node0 where "(i, node0) \<in> set g0" "node_from (ok i) node0 node"
    using assms(1) map_of_SomeD [OF node(1)] unfolding graph_from_def by blast
  moreover have "\<forall>p \<in> set (AList.update n v ins). p \<in> set ins \<or> ok i p"
    using set_update_sub [of n v ins] assms(3) by auto
  ultimately have "\<exists>node0. (i, node0) \<in> set g0 \<and>
      node_from (ok i) node0 (with_inputs node (AList.update n v ins))"
    using node_from_with [OF _ node(2)] by blast
  with assms(1) show ?thesis
    using set_update_sub [of i "with_inputs node (AList.update n v ins)" g]
    unfolding graph_from_def node(3) by blast
qed

lemma map_result_member:
  "map_result f xs = Inr ys \<Longrightarrow> y \<in> set ys \<Longrightarrow> \<exists>x \<in> set xs. f x = Inr y"
  by (induction xs arbitrary: ys) (auto simp: ebind_Inr_iff)

lemma drop_slot_member:
  assumes "drop_slot slot g = Inr g'" "(i, node') \<in> set g'"
  obtains node ins where "(i, node) \<in> set g" "i \<notin> set (removed_nodes slot)" "inputs_of node = Inr ins"
    "node' = with_inputs node (filter (\<lambda>(_, v). \<not> list_ex (links_to v) (removed_nodes slot)) ins)"
proof -
  obtain j node where "(j, node) \<in> set g" "j \<notin> set (removed_nodes slot)"
    "unlink (removed_nodes slot) (j, node) = Inr (i, node')"
    using map_result_member [OF assms(1) [unfolded drop_slot_def] assms(2)] by auto
  then show thesis
    using that by (auto simp: unlink_def ebind_Inr_iff)
qed

lemma graph_from_drop:
  assumes "graph_from ok g0 g" "drop_slot slot g = Inr g'"
  shows "graph_from ok g0 g'"
  unfolding graph_from_def
proof (clarify)
  fix i node' assume "(i, node') \<in> set g'"
  then obtain node ins where n: "(i, node) \<in> set g" "inputs_of node = Inr ins"
    "node' = with_inputs node (filter (\<lambda>(_, v). \<not> list_ex (links_to v) (removed_nodes slot)) ins)"
    using drop_slot_member [OF assms(2)] by metis
  then show "\<exists>node0. (i, node0) \<in> set g0 \<and> node_from (ok i) node0 node'"
    using assms(1) node_from_with [OF _ n(2)] unfolding graph_from_def n(3) by fastforce
qed

text \<open>The nodes \<open>rs\<close> are absent, and nothing links to them.\<close>

definition gone :: "string list \<Rightarrow> payload \<Rightarrow> bool" where
  "gone rs g \<longleftrightarrow>
     (\<forall>(i, node) \<in> set g. i \<notin> set rs \<and>
        (\<forall>ins. inputs_of node = Inr ins \<longrightarrow> (\<forall>(_, v) \<in> set ins. \<not> list_ex (links_to v) rs)))"

lemma gone_drop: "drop_slot slot g = Inr g' \<Longrightarrow> gone (removed_nodes slot) g'"
  unfolding gone_def by (auto elim!: drop_slot_member)

lemma gone_drop_keeps:
  assumes "gone rs g" "drop_slot slot g = Inr g'"
  shows "gone rs g'"
  unfolding gone_def
proof (clarify)
  fix i node' assume "(i, node') \<in> set g'"
  then obtain node ins where "(i, node) \<in> set g" "inputs_of node = Inr ins"
    "node' = with_inputs node (filter (\<lambda>(_, v). \<not> list_ex (links_to v) (removed_nodes slot)) ins)"
    using drop_slot_member [OF assms(2)] by metis
  with assms(1) show "i \<notin> set rs \<and>
      (\<forall>ins. inputs_of node' = Inr ins \<longrightarrow> (\<forall>(_, v) \<in> set ins. \<not> list_ex (links_to v) rs))"
    unfolding gone_def by fastforce
qed

lemma set_input_Inr:
  assumes "set_input g i n v = Inr g'"
  obtains node ins where "map_of g i = Some node" "inputs_of node = Inr ins"
    "g' = AList.update i (with_inputs node (AList.update n v ins)) g"
  using assms by (auto simp: set_input_def node_inputs_def ebind_Inr_iff split: option.splits)

lemma gone_set:
  assumes "gone rs g" "set_input g i n v = Inr g'" "\<not> list_ex (links_to v) rs"
  shows "gone rs g'"
proof -
  obtain node ins where node: "map_of g i = Some node" "inputs_of node = Inr ins"
    "g' = AList.update i (with_inputs node (AList.update n v ins)) g"
    using assms(2) by (rule set_input_Inr)
  have "i \<notin> set rs \<and> (\<forall>(_, v) \<in> set ins. \<not> list_ex (links_to v) rs)"
    using assms(1) map_of_SomeD [OF node(1)] node(2) unfolding gone_def by fastforce
  with assms(3) have new: "i \<notin> set rs \<and> (\<forall>(_, v) \<in> set (AList.update n v ins). \<not> list_ex (links_to v) rs)"
    using set_update_sub [of n v ins] by fastforce
  show ?thesis
    unfolding gone_def
  proof (clarify)
    fix j node' assume "(j, node') \<in> set g'"
    then consider "j = i" "node' = with_inputs node (AList.update n v ins)" | "(j, node') \<in> set g"
      using set_update_sub [of i "with_inputs node (AList.update n v ins)" g] node(3) by auto
    then show "j \<notin> set rs \<and>
        (\<forall>ins. inputs_of node' = Inr ins \<longrightarrow> (\<forall>(_, v) \<in> set ins. \<not> list_ex (links_to v) rs))"
    proof cases
      case 1
      then show ?thesis using new node(2) by simp
    next
      case 2
      then show ?thesis using assms(1) unfolding gone_def by fastforce
    qed
  qed
qed

lemma no_link_str [simp]: "\<not> list_ex (links_to (JStr s)) rs"
  by (induction rs) auto

definition unbound :: "payload \<Rightarrow> image_slot \<Rightarrow> bool" where
  "unbound media s \<longleftrightarrow> (\<forall>k. map_of media (is_name s) \<noteq> Some (JStr k))"

lemma bind_media_run:
  assumes "bind_media env job_id paths node_input media slots g w = (Inr g', w')"
    "graph_from ok g0 g" "\<forall>s \<in> set slots. \<forall>x. ok (is_node_id s) (node_input, JStr x)"
  shows "graph_from ok g0 g' \<and> (\<forall>s \<in> set slots. unbound media s \<longrightarrow> gone (removed_nodes s) g') \<and>
    (\<forall>rs. gone rs g \<longrightarrow> gone rs g')"
  using assms
proof (induction slots arbitrary: g w)
  case (Cons s slots)
  let ?bound = "\<lambda>k. map_of media (is_name s) = Some (JStr k)"
  from Cons.prems(1) obtain g1 w1 where step:
    "(\<exists>k x. ?bound k \<and> set_input g (is_node_id s) node_input (JStr x) = Inr g1) \<or>
       (unbound media s \<and> drop_slot s g = Inr g1)"
    and rest: "bind_media env job_id paths node_input media slots g1 w1 = (Inr g', w')"
    by (auto simp: run_simps unbound_def split: option.splits json.splits)
  have "graph_from ok g0 g1"
    using step Cons.prems(2,3) graph_from_set [OF Cons.prems(2)] graph_from_drop [OF Cons.prems(2)] by auto
  from Cons.IH [OF rest this] Cons.prems(3) have IH: "graph_from ok g0 g'"
    "\<forall>s \<in> set slots. unbound media s \<longrightarrow> gone (removed_nodes s) g'" "\<forall>rs. gone rs g1 \<longrightarrow> gone rs g'"
    by auto
  have "gone rs g1" if "gone rs g" for rs
    using step that by (auto intro: gone_set gone_drop_keeps)
  moreover have "gone (removed_nodes s) g1" if "unbound media s"
    using step that gone_drop by (auto simp: unbound_def)
  ultimately show ?case using IH by auto
qed (simp add: run_simps)

lemma graph_from_refl: "graph_from ok g g"
  unfolding graph_from_def node_from_def by blast

lemma graph_from_mono: "graph_from ok g0 g \<Longrightarrow> (\<And>i p. ok i p \<Longrightarrow> ok' i p) \<Longrightarrow> graph_from ok' g0 g"
  unfolding graph_from_def node_from_def by fast

lemma graph_from_fill:
  "fill_inputs es inputs g = Inr g' \<Longrightarrow> graph_from ok g0 g \<Longrightarrow>
   (\<forall>e \<in> set es. \<forall>v. map_of inputs (ti_name e) = Some v \<longrightarrow> ok (ti_node_id e) (ti_input_name e, v)) \<Longrightarrow>
   graph_from ok g0 g'"
proof (induction es arbitrary: g)
  case (Cons e es)
  show ?case
  proof (cases "map_of inputs (ti_name e)")
    case (Some v)
    then obtain g1 where "set_input g (ti_node_id e) (ti_input_name e) v = Inr g1"
      "fill_inputs es inputs g1 = Inr g'"
      using Cons.prems(1) by (auto simp: ebind_Inr_iff)
    with Cons.IH graph_from_set [OF Cons.prems(2)] Cons.prems(3) Some show ?thesis by simp
  qed (use Cons in simp)
qed simp

text \<open>The values a graph may hold that the template's graph does not: an accepted input at its declared
  place, the name of an uploaded file in a slot's node, and the job's prefix at the output node.\<close>

definition place_ok :: "comfy_template \<Rightarrow> string \<Rightarrow> payload \<Rightarrow> string \<Rightarrow> string \<times> json \<Rightarrow> bool" where
  "place_ok t job_id inputs i = (\<lambda>(n, v).
     (\<exists>e \<in> set (ct_inputs t). ti_node_id e = i \<and> ti_input_name e = n \<and> map_of inputs (ti_name e) = Some v) \<or>
     (\<exists>s \<in> set (ct_image_slots t). is_node_id s = i \<and> n = IMAGE_NODE_INPUT_NAME \<and> is_str v) \<or>
     (\<exists>s \<in> set (ct_audio_slots t). is_node_id s = i \<and> n = AUDIO_NODE_INPUT_NAME \<and> is_str v) \<or>
     (i = ct_output_node_id t \<and> n = FILENAME_PREFIX_INPUT_NAME \<and>
      v = JStr (OUTPUT_PREFIX_ROOT @ ''/'' @ job_id)))"

definition slots_gone :: "image_slot list \<Rightarrow> payload \<Rightarrow> payload \<Rightarrow> bool" where
  "slots_gone slots media g \<longleftrightarrow> (\<forall>s \<in> set slots. unbound media s \<longrightarrow> gone (removed_nodes s) g)"

lemma build_graph_run:
  assumes "build_graph env t job_id paths req w = (Inr g, w')"
    "map_of (vr_inputs req) IMAGES_INPUT_NAME = Some (JObj images)"
    "payload_get (vr_inputs req) AUDIOS_INPUT_NAME (JObj []) = JObj audios"
  shows "graph_from (place_ok t job_id (vr_inputs req)) (ct_graph t) g \<and>
    slots_gone (ct_image_slots t) images g \<and> slots_gone (ct_audio_slots t) audios g"
proof -
  let ?ok = "place_ok t job_id (vr_inputs req)"
  obtain g1 g2 g3 w2 w3 where
    fill: "fill_inputs (ct_inputs t) (vr_inputs req) (ct_graph t) = Inr g1"
    and im: "bind_media env job_id paths IMAGE_NODE_INPUT_NAME images (ct_image_slots t) g1 w = (Inr g2, w2)"
    and au: "bind_media env job_id paths AUDIO_NODE_INPUT_NAME audios (ct_audio_slots t) g2 w2 = (Inr g3, w3)"
    and pre: "prefixed t job_id g3 = Inr g"
    using assms by (auto simp: build_graph_def run_simps obj_or_assert_def)
  have "graph_from ?ok (ct_graph t) g1"
    by (rule graph_from_fill [OF fill graph_from_refl]) (auto simp: place_ok_def)
  from bind_media_run [OF im this] have 2: "graph_from ?ok (ct_graph t) g2" "slots_gone (ct_image_slots t) images g2"
    by (auto simp: place_ok_def slots_gone_def)
  from bind_media_run [OF au 2(1)] have 3: "graph_from ?ok (ct_graph t) g3" "slots_gone (ct_audio_slots t) audios g3"
      "\<forall>rs. gone rs g2 \<longrightarrow> gone rs g3"
    by (auto simp: place_ok_def slots_gone_def)
  consider "g = g3" | "set_input g3 (ct_output_node_id t) FILENAME_PREFIX_INPUT_NAME
      (JStr (OUTPUT_PREFIX_ROOT @ ''/'' @ job_id)) = Inr g"
    using pre by (auto simp: prefixed_def ebind_Inr_iff split: if_splits)
  then show ?thesis
  proof cases
    case 1
    with 2 3 show ?thesis by (auto simp: slots_gone_def)
  next
    case set: 2
    have "graph_from ?ok (ct_graph t) g"
      by (rule graph_from_set [OF 3(1) set]) (auto simp: place_ok_def)
    moreover have "gone rs g" if "gone rs g3" for rs by (rule gone_set [OF that set no_link_str])
    ultimately show ?thesis using 2(2) 3 by (auto simp: slots_gone_def)
  qed
qed

subsection \<open>What is submitted\<close>

lemma only_calls_after:
  "only_calls P m \<Longrightarrow> (\<And>a w w'. m w = (Inr a, w') \<Longrightarrow> only_calls P (f a)) \<Longrightarrow> only_calls P (mbind m f)"
  unfolding only_calls_def mbind_def by (fastforce split: prod.splits sum.splits)

definition submits :: "(payload \<Rightarrow> bool) \<Rightarrow> comfy_call \<Rightarrow> bool" where
  "submits P c \<longleftrightarrow> (\<forall>g. c = Prompt g \<longrightarrow> P g)"

lemma submits_other [simp]:
  "submits P Probe" "submits P Start_command" "submits P Monotonic" "submits P (Pause x)"
  "submits P (Read_source p)" "submits P (Up_image n b)" "submits P (Progress k)" "submits P Cancel_set"
  "submits P Clock" "submits P (History i)" "submits P Interrupt" "submits P (View f d p)"
  "submits P (Prompt g) = P g"
  by (simp_all add: submits_def)

lemma calls_status [call_intros]: "only_calls P (comfy_raise_for_status code)"
  by (simp add: comfy_raise_for_status_def only_calls_pure)

lemma calls_probe: "only_calls (submits P) (probe_up env)"
  unfolding probe_up_def by (intro call_intros) (auto intro: call_intros)

lemma calls_startup: "only_calls (submits P) (startup_loop n env cp deadline)"
proof (induction n)
  case 0
  show ?case by (subst startup_loop.simps) (auto intro!: call_intros)
next
  case (Suc n)
  then show ?case
    by (subst startup_loop.simps) (auto intro!: call_intros calls_probe split: nat.split)
qed

lemma calls_ensure: "only_calls (submits P) (ensure_running n env cp)"
  unfolding ensure_running_def by (auto intro!: call_intros calls_probe calls_startup)

lemma calls_interrupt: "only_calls (submits P) (interrupt env)"
  unfolding interrupt_def by (auto intro!: call_intros)

lemma calls_media: "only_calls (submits P) (bind_media env job_id paths node_input media slots g)"
  by (induction slots arbitrary: g)
    (auto intro!: call_intros simp: comfy_upload_def split: option.split json.split)

lemma calls_build: "only_calls (submits P) (build_graph env t job_id paths req)"
  unfolding build_graph_def by (intro call_intros calls_media)

lemma calls_await: "only_calls (submits P) (await_artifact n env cp t deadline i)"
proof (induction n)
  case 0
  show ?case by (subst await_artifact.simps) (auto intro!: call_intros calls_interrupt)
next
  case (Suc n)
  then show ?case
    by (subst await_artifact.simps) (auto intro!: call_intros calls_interrupt split: nat.split)
qed

lemma calls_submit: "P g \<Longrightarrow> only_calls (submits P) (comfy_submit env g)"
  unfolding comfy_submit_def by (auto intro!: call_intros)

lemma calls_collect: "only_calls (submits P) (comfy_collect env ws t a i req)"
  unfolding comfy_collect_def Let_def by (auto intro!: call_intros split: json.split)

lemma calls_execute:
  assumes "map_of (cp_registry cp) (vr_capability_id req) = Some t"
    "\<And>g w w'. build_graph env t job_id paths req w = (Inr g, w') \<Longrightarrow> P g"
  shows "only_calls (submits P) (comfy_execute n env cp job_id ws paths deadline req)"
  unfolding comfy_execute_def
  by (intro only_calls_mbind calls_ensure)
    (auto simp: assms(1) intro!: call_intros only_calls_after [OF calls_build] calls_submit assms(2)
      calls_await calls_collect split: option.split)

text \<open>The declared inputs' values as the payload and the defaults give them.\<close>

definition input_place :: "comfy_template \<Rightarrow> payload \<Rightarrow> string \<Rightarrow> string \<times> json \<Rightarrow> bool" where
  "input_place t p i = (\<lambda>(n, v).
     \<exists>e \<in> set (ct_inputs t). ti_node_id e = i \<and> ti_input_name e = n \<and>
       (map_of p (ti_name e) = Some v \<and> value_ok e v \<or> map_of p (ti_name e) = None \<and> v = ti_default e))"

definition approved_place :: "comfy_template \<Rightarrow> string \<Rightarrow> payload \<Rightarrow> string \<Rightarrow> string \<times> json \<Rightarrow> bool" where
  "approved_place t job_id p i = (\<lambda>(n, v).
     input_place t p i (n, v) \<or>
     (\<exists>s \<in> set (ct_image_slots t). is_node_id s = i \<and> n = IMAGE_NODE_INPUT_NAME \<and> is_str v) \<or>
     (\<exists>s \<in> set (ct_audio_slots t). is_node_id s = i \<and> n = AUDIO_NODE_INPUT_NAME \<and> is_str v) \<or>
     (i = ct_output_node_id t \<and> n = FILENAME_PREFIX_INPUT_NAME \<and>
      v = JStr (OUTPUT_PREFIX_ROOT @ ''/'' @ job_id)))"

lemma place_ok_approved:
  assumes "request_ok t lease req" "place_ok t job_id (vr_inputs req) i p"
  shows "approved_place t job_id (lg_payload lease) i p"
proof -
  have "map_of (lg_payload lease) (ti_name e) = Some v \<and> value_ok e v \<or>
      map_of (lg_payload lease) (ti_name e) = None \<and> v = ti_default e"
    if "e \<in> set (ct_inputs t)" "map_of (vr_inputs req) (ti_name e) = Some v" for e v
    using assms(1) that by (auto simp: request_ok_def entry_ok_def split: option.splits if_splits)
  with assms(2) show ?thesis
    by (cases p) (auto simp: place_ok_def approved_place_def input_place_def)
qed

definition approved_graph :: "comfy_template \<Rightarrow> string \<Rightarrow> lease_grant \<Rightarrow> payload \<Rightarrow> bool" where
  "approved_graph t job_id lease g \<longleftrightarrow>
     graph_from (approved_place t job_id (lg_payload lease)) (ct_graph t) g \<and>
     slots_gone (ct_image_slots t) (requested lease IMAGES_INPUT_NAME) g \<and>
     (ct_audio_slots t \<noteq> [] \<longrightarrow> slots_gone (ct_audio_slots t) (requested lease AUDIOS_INPUT_NAME) g)"


section \<open>An execution ends\<close>

lemma calls_length: "only_calls P m \<Longrightarrow> m w = (r, w') \<Longrightarrow> length w \<le> length w'"
  by (auto dest: only_callsD)

lemma startup_turn:
  assumes "startup_loop (Suc n) env cp deadline w = (Inr None, w')"
  shows "\<exists>u. length w < length u \<and> startup_loop n env cp deadline u = (Inr None, w')"
proof -
  obtain u where "probe_up env (Monotonic # w) = (Inr False, u)"
    "startup_loop n env cp deadline (Pause (cp_startup_poll_interval_seconds cp) # u) = (Inr None, w')"
    using assms by (subst (asm) startup_loop.simps) (auto simp: run_simps split: if_splits)
  moreover from this have "length w < length u"
    using calls_length [OF calls_probe] by fastforce
  ultimately show ?thesis by (intro exI [of _ "Pause (cp_startup_poll_interval_seconds cp) # u"]) simp
qed

lemma startup_ends:
  assumes "\<And>u. K \<le> length u \<Longrightarrow> deadline \<le> cv_monotonic env u"
  shows "K \<le> n + length w \<Longrightarrow> startup_loop n env cp deadline w \<noteq> (Inr None, w')"
proof (induction n arbitrary: w)
  case 0
  then show ?case
    using assms [of "Monotonic # w"] by (subst startup_loop.simps) (auto simp: run_simps)
next
  case (Suc n)
  then show ?case using startup_turn [of n env cp deadline w w'] by fastforce
qed

lemma await_turn:
  assumes "await_artifact (Suc n) env cp t deadline i w = (Inr None, w')"
  shows "\<exists>u. length w < length u \<and> await_artifact n env cp t deadline i u = (Inr None, w')"
proof -
  obtain u where "u = Pause (cp_poll_interval_seconds cp) # Progress PROGRESS_RUNNING # History i #
      Clock # Cancel_set # w" "await_artifact n env cp t deadline i u = (Inr None, w')"
    using assms [unfolded await_artifact.simps [of "Suc n"]]
    by (auto simp: run_simps comfy_raise_for_status_def interrupt_def split: if_splits)
  then show ?thesis by (intro exI [of _ u]) simp
qed

lemma await_ends:
  assumes "\<And>u. K \<le> length u \<Longrightarrow> deadline \<le> cv_clock env u"
  shows "K \<le> n + length w \<Longrightarrow> await_artifact n env cp t deadline i w \<noteq> (Inr None, w')"
proof (induction n arbitrary: w)
  case 0
  then show ?case
    using assms [of "Clock # Cancel_set # w"]
    by (auto simp: await_artifact.simps [of 0] run_simps interrupt_def split: if_splits)
next
  case (Suc n)
  then show ?case using await_turn [of n env cp t deadline i w w'] by fastforce
qed

lemma ensure_ends:
  assumes "\<And>u v. length u + N \<le> length v \<Longrightarrow>
      cv_monotonic env u + cp_startup_timeout_seconds cp \<le> cv_monotonic env v"
  shows "ensure_running N env cp w \<noteq> (Inr None, w')"
proof
  assume "ensure_running N env cp w = (Inr None, w')"
  then obtain u where u: "startup_loop N env cp (cv_monotonic env (Monotonic # u) + cp_startup_timeout_seconds cp)
      (Start_command # Monotonic # u) = (Inr None, w')"
    by (auto simp: ensure_running_def run_simps split: if_splits)
  show False
    by (rule startup_ends [where K = "Suc (length u) + N", THEN notE, OF _ _ u]) (auto intro: assms)
qed

text \<open>Claim C26: an execution ends: if within \<open>N\<close> calls the monotonic clock advances by the startup timeout
  and the wall clock reaches the job's deadline, then neither waiting for the runtime to start nor
  waiting for the artifact takes more than \<open>N\<close> turns: the execution returns an output or raises,
  whatever the runtime answers.\<close>

theorem comfy_execute_ends:
  assumes "\<And>u v. length u + N \<le> length v \<Longrightarrow>
      cv_monotonic env u + cp_startup_timeout_seconds cp \<le> cv_monotonic env v"
    "\<And>u. length w + N \<le> length u \<Longrightarrow> deadline \<le> cv_clock env u"
  shows "fst (comfy_execute N env cp job_id workspace input_paths deadline req w) \<noteq> Inr None"
proof
  assume "fst (comfy_execute N env cp job_id workspace input_paths deadline req w) = Inr None"
  then obtain w' where run: "comfy_execute N env cp job_id workspace input_paths deadline req w = (Inr None, w')"
    by (metis prod.collapse)
  have up: "a = Some ()" if "ensure_running N env cp w = (Inr a, v)" for a v
    using ensure_ends [of N env cp w v, OF assms(1)] that by (cases a) auto
  obtain w1 t graph w2 prompt_id w3 where steps: "ensure_running N env cp w = (Inr (Some ()), w1)"
    "build_graph env t job_id input_paths req w1 = (Inr graph, w2)"
    "comfy_submit env graph w2 = (Inr prompt_id, w3)"
    "await_artifact N env cp t deadline prompt_id (Progress PROGRESS_SUBMITTED # w3) = (Inr None, w')"
    using run up by (auto simp: comfy_execute_def run_simps split: option.splits if_splits)
  have "length w \<le> length w3"
    using calls_length [OF calls_ensure steps(1)] calls_length [OF calls_build steps(2)]
      calls_length [OF calls_submit [of "\<lambda>_. True"] steps(3)] by simp
  then show False
    using await_ends [where K = "length w + N" and n = N, OF assms(2)] steps(4) by fastforce
qed

section \<open>Witnesses\<close>

text \<open>A template with one text input and one optional image, a request that fills the text, and a
  runtime that is up and finishes at once.\<close>

definition demo_graph :: payload where
  "demo_graph =
     [(''1'', JObj [(''class_type'', JStr ''LoadImage''), (''inputs'', JObj [(''image'', JStr [])])]),
      (''2'', JObj [(''class_type'', JStr ''Save''),
         (''inputs'', JObj [(''text'', JStr []), (''ref'', JArr [JStr ''1'', JInt 0]),
                            (''filename_prefix'', JStr ''x'')])])]"

definition demo_document :: json where
  "demo_document = JObj
     [(''capability_id'', JStr ''a.v1''), (''contract_version'', JInt 1), (''template_version'', JStr ''1''),
      (''graph'', JObj demo_graph),
      (''inputs'', JArr [JObj [(''name'', JStr ''prompt''), (''node_id'', JStr ''2''),
         (''input_name'', JStr ''text''), (''kind'', JStr ''string''), (''minimum'', JInt 1)]]),
      (''image_slots'', JArr [JObj [(''name'', JStr ''subject''), (''node_id'', JStr ''1'')]]),
      (''output_node_id'', JStr ''2''), (''output_content_type'', JStr ''image/png''),
      (''model_id'', JStr ''m''), (''model_version'', JStr ''1'')]"

definition demo_template :: comfy_template where
  "demo_template =
     \<lparr>ct_capability_id = ''a.v1'', ct_contract_version = 1, ct_template_version = ''1'',
      ct_graph = demo_graph,
      ct_inputs = [\<lparr>ti_name = ''prompt'', ti_node_id = ''2'', ti_input_name = ''text'', ti_kind = ''string'',
        ti_minimum = JInt 1, ti_maximum = JNull, ti_max_length = JNull, ti_default = JNull,
        ti_required = False\<rparr>],
      ct_image_slots = [\<lparr>is_name = ''subject'', is_node_id = ''1'', is_required = False,
        is_dependent_node_ids = []\<rparr>],
      ct_output_node_id = ''2'', ct_output_content_type = ''image/png'', ct_model_id = ''m'',
      ct_model_version = ''1'', ct_audio_slots = []\<rparr>"

definition demo_comfy_lease :: lease_grant where
  "demo_comfy_lease = demo_lease\<lparr>lg_capability_id := ''a.v1'', lg_contract_version := 1,
     lg_input_keys := [], lg_payload := [(''prompt'', JStr ''hi'')]\<rparr>"

definition demo_comfy_env :: comfy_env where
  "demo_comfy_env =
     \<lparr>cv_probe = \<lambda>_. Inr 200, cv_start = \<lambda>_. Inr (), cv_monotonic = \<lambda>u. of_nat (length u),
      cv_read = \<lambda>_. Inr [],
      cv_http = \<lambda>u. Inr \<lparr>hr_status = 200, hr_json = Inr (JObj [(''prompt_id'', JStr ''p''), (''p'', JNull)])\<rparr>,
      cv_cancelled = \<lambda>_. False, cv_clock = \<lambda>u. int (length u), cv_view = \<lambda>_. Inr 200\<rparr>"

definition demo_comfy :: comfy_plugin where
  "demo_comfy = \<lparr>cp_registry = [(''a.v1'', demo_template)], cp_poll_interval_seconds = 5,
     cp_start_command = False, cp_startup_timeout_seconds = 2, cp_startup_poll_interval_seconds = 2\<rparr>"

definition demo_comfy_request :: validated_request where
  "demo_comfy_request = \<lparr>vr_capability_id = ''a.v1'', vr_contract_version = 1,
     vr_inputs = [(''prompt'', JStr ''hi''), (''images'', JObj [])], vr_seed = None\<rparr>"

definition demo_submitted :: payload where
  "demo_submitted =
     [(''2'', JObj [(''class_type'', JStr ''Save''),
         (''inputs'', JObj [(''text'', JStr ''hi''), (''filename_prefix'', JStr ''ogwp/j'')])])]"

lemma demo_directory: "from_directory [(''t'', Inr demo_document)] = Inr [(''a.v1'', demo_template)]"
  by code_simp

lemma demo_accepted: "comfy_validate [(''a.v1'', demo_template)] demo_comfy_lease = Inr demo_comfy_request"
  by code_simp

lemma demo_run: "Prompt demo_submitted \<in> set (snd (comfy_execute 1 demo_comfy_env demo_comfy ''j'' ([], []) [] 9 demo_comfy_request []))"
  by code_simp

theorem from_directory_ok_witness:
  "distinct (keys [(''a.v1'', demo_template)]) \<and> length [(''a.v1'', demo_template)] = length [(''t'', Inr demo_document)] \<and>
    template_ok demo_template"
  using from_directory_ok [OF demo_directory] by simp

theorem comfy_validate_sound_witness: "request_ok demo_template demo_comfy_lease demo_comfy_request"
  using comfy_validate_sound [OF demo_directory demo_accepted] by (simp add: demo_comfy_lease_def)


theorem comfy_execute_ends_witness:
  "fst (comfy_execute 2 demo_comfy_env demo_comfy ''j'' ([], []) [] 2 demo_comfy_request []) \<noteq> Inr None"
  by (rule comfy_execute_ends) (auto simp: demo_comfy_env_def demo_comfy_def)

section \<open>What loading a template does not check\<close>

text \<open>A bound that is no number: the template loads, and every job that sets the input makes \<open>validate\<close>
  raise a TypeError, which is not the rejection the agent handles.\<close>

definition text_bound_document :: json where
  "text_bound_document = JObj
     [(''capability_id'', JStr ''a.v1''), (''contract_version'', JInt 1), (''template_version'', JStr ''1''),
      (''graph'', JObj demo_graph),
      (''inputs'', JArr [JObj [(''name'', JStr ''prompt''), (''node_id'', JStr ''2''),
         (''input_name'', JStr ''text''), (''kind'', JStr ''string''), (''minimum'', JStr ''1'')]]),
      (''image_slots'', JArr []), (''output_node_id'', JStr ''2''),
      (''output_content_type'', JStr ''image/png''), (''model_id'', JStr ''m''), (''model_version'', JStr ''1'')]"

lemma text_bound_raises:
  "ebind (from_directory [(''t'', Inr text_bound_document)]) (\<lambda>registry. comfy_validate registry demo_comfy_lease) =
     Inl (TypeError ''comparison not supported'')"
  by code_simp

text \<open>A node without inputs: the template loads, and dropping an unbound slot raises a KeyError in every
  execution.\<close>

lemma no_inputs_raises:
  "validate_template (demo_template\<lparr>ct_graph := demo_graph @ [(''3'', JObj [])]\<rparr>) = Inr ()"
  "drop_slot (hd (ct_image_slots demo_template)) (demo_graph @ [(''3'', JObj [])]) =
     Inl (OtherError ''KeyError'')"
  by code_simp+

text \<open>Two slots on one node: the template loads, and binding only the second raises a KeyError, because
  dropping the first removes the node.\<close>

lemma shared_node_raises:
  "validate_template (demo_template\<lparr>ct_image_slots :=
     [\<lparr>is_name = ''a'', is_node_id = ''1'', is_required = False, is_dependent_node_ids = []\<rparr>,
      \<lparr>is_name = ''b'', is_node_id = ''1'', is_required = False, is_dependent_node_ids = []\<rparr>]\<rparr>) = Inr ()"
  "ebind (drop_slot (hd (ct_image_slots demo_template)) demo_graph)
     (\<lambda>g. set_input g ''1'' IMAGE_NODE_INPUT_NAME (JStr ''f'')) = Inl (OtherError ''KeyError'')"
  by code_simp+

end
