(* ===== verification/Engine.thy ===== *)
theory Engine
  imports Comfy
begin

text \<open>
  \<open>engine.py\<close>: the plugin that runs an engine profile's stages, by the local command or by a sidecar
  over HTTP. The engine, the sidecar, the disk and the clocks are the record \<open>engine_env\<close>; \<open>str\<close>, \<open>repr\<close>
  and the format of seconds are the record \<open>py_text\<close>.
\<close>

section \<open>Errors\<close>

text \<open>The plugin's exceptions with their messages, \<open>PluginRequestRejected\<close>, \<open>OSError\<close>, and any other by class name.
  \<open>EngineTimedOut\<close> and \<open>EngineCancelled\<close> are subclasses of \<open>EngineFailed\<close>, \<open>InspectTimedOut\<close> of \<open>EngineDrift\<close>.\<close>

datatype engine_exn =
    EngineFailed string
  | EngineTimedOut string
  | EngineCancelled string
  | EngineDrift string
  | InspectTimedOut string
  | EngineRejected string
  | EngineOSError string
  | EngineOther string

fun is_engine_failed :: "engine_exn \<Rightarrow> bool" where
  "is_engine_failed (EngineFailed _) = True"
| "is_engine_failed (EngineTimedOut _) = True"
| "is_engine_failed (EngineCancelled _) = True"
| "is_engine_failed _ = False"

record py_text =
  pt_str :: "json \<Rightarrow> string"
  pt_repr :: "json \<Rightarrow> string"
  pt_secs :: "rat \<Rightarrow> string"

definition ENGINE_PLUGIN_ID :: string where "ENGINE_PLUGIN_ID = ''aismith-engine''"
definition ENGINE_PLUGIN_VERSION :: string where "ENGINE_PLUGIN_VERSION = ''1''"
definition ENGINE_CONTRACT_VERSION :: int where "ENGINE_CONTRACT_VERSION = 1"
definition ENGINE_SPEC_SCHEMA_VERSION :: int where "ENGINE_SPEC_SCHEMA_VERSION = 1"
definition INPUTS_PAYLOAD_KEY :: string where "INPUTS_PAYLOAD_KEY = ''inputs''"
definition INSPECT_TIMEOUT_SECONDS :: rat where "INSPECT_TIMEOUT_SECONDS = 600"
definition RUNNER_REQUEST_SECONDS :: rat where "RUNNER_REQUEST_SECONDS = 120"
definition MAX_RUNNER_DEADLINE_SECONDS :: int where "MAX_RUNNER_DEADLINE_SECONDS = 86400"
definition OPTIONAL_DIAGNOSTICS :: "string list" where
  "OPTIONAL_DIAGNOSTICS = [''measured'', ''gate'', ''engine_effective_inputs'', ''timings_s'', ''weights'']"

definition exit_status :: "int \<Rightarrow> string option" where
  "exit_status code =
     (if code = 0 then Some ''ok'' else if code = 1 then Some ''failed''
      else if code = 2 then Some ''rejected'' else None)"

definition RESULT_STATUSES :: "string list" where "RESULT_STATUSES = [''ok'', ''failed'', ''rejected'']"

definition job_id_char :: "char \<Rightarrow> bool" where
  "job_id_char c =
     (is_lower_ascii c \<or> (CHR ''A'' \<le> c \<and> c \<le> CHR ''Z'') \<or> is_digit_ascii c \<or> c = CHR ''_'' \<or> c = CHR ''-'')"

definition RUNNER_JOB_ID :: re where
  "RUNNER_JOB_ID = Seq (Cls job_id_char) (upto_times 63 (Cls job_id_char))"

section \<open>The recipe and the inspection report\<close>

text \<open>\<open>_recipe\<close>, with the profile it belongs to.\<close>

definition engine_profile :: "string \<Rightarrow> engine_exn + machine_profile \<times> engine_recipe" where
  "engine_profile profile =
     (case map_of PROFILES profile of
        None \<Rightarrow> Inl (EngineOther ''ValueError'')
      | Some spec \<Rightarrow>
          (case mp_engine spec of
             None \<Rightarrow> Inl (EngineOther ''ValueError'') | Some r \<Rightarrow> Inr (spec, r)))"

definition list_at :: "payload \<Rightarrow> string \<Rightarrow> json list" where
  "list_at d k = (case pget d k of JArr vs \<Rightarrow> vs | _ \<Rightarrow> [])"

definition obj_at :: "payload \<Rightarrow> string \<Rightarrow> payload" where
  "obj_at d k = (case pget d k of JObj e \<Rightarrow> e | _ \<Rightarrow> [])"

fun objects :: "json list \<Rightarrow> payload list" where
  "objects [] = []"
| "objects (JObj d # vs) = d # objects vs"
| "objects (_ # vs) = objects vs"

definition memory_mb :: "payload \<Rightarrow> int" where
  "memory_mb g = (case int_instance (pget g ''memory_mb'') of Some n \<Rightarrow> n | None \<Rightarrow> 0)"

definition qualifying_gpus :: "py_text \<Rightarrow> engine_recipe \<Rightarrow> payload \<Rightarrow> payload list" where
  "qualifying_gpus pt recipe report =
     filter (\<lambda>g. str_of (pt_str pt) (pget g ''compute_capability'') = er_cuda_architecture recipe \<and>
                 int_instance (pget g ''memory_mb'') \<noteq> None \<and> er_min_vram_mb recipe \<le> memory_mb g)
       (objects (list_at report ''gpus''))"

definition section_of :: "payload \<Rightarrow> string list \<Rightarrow> payload" where
  "section_of report path =
     (case foldl (\<lambda>v k. case v of JObj d \<Rightarrow> pget d k | _ \<Rightarrow> JNull) (JObj report) path of
        JObj d \<Rightarrow> d | _ \<Rightarrow> [])"

definition weight_set_problems :: "py_text \<Rightarrow> payload list \<Rightarrow> string \<Rightarrow> string list" where
  "weight_set_problems pt files weight_id =
     (let own = filter (\<lambda>f. pget f ''weight_id'' = JStr weight_id) files;
          bad = sort (remdups (map (\<lambda>f. str_of (pt_str pt) (pget f ''status''))
                  (filter (\<lambda>f. pget f ''status'' \<noteq> JStr ''ok'') own)))
      in (if own = [] then [''weight set '' @ weight_id @ '' is not reported''] else []) @
         (if bad \<noteq> [] then [''weight set '' @ weight_id @ '' is not verified ('' @ join_with '', '' bad @ '')'']
          else []))"

definition weight_problems :: "py_text \<Rightarrow> engine_recipe \<Rightarrow> payload \<Rightarrow> string list" where
  "weight_problems pt recipe weights =
     concat (map (weight_set_problems pt (objects (list_at weights ''files''))) (recipe_weight_ids recipe))"

text \<open>\<open>json.dumps(v, sort_keys=True)\<close>: the separators have a space, and a float that is not finite is
  written by name.\<close>

fun py_dumps :: "json \<Rightarrow> string" where
  "py_dumps (JArr vs) = ''['' @ join_with '', '' (map py_dumps vs) @ '']''"
| "py_dumps (JObj kvs) = ''{'' @ join_with '', '' (map (\<lambda>(k, x). enc_str k @ '': '' @ x)
     (sort_key fst (map (\<lambda>(k, v). (k, py_dumps v)) kvs))) @ ''}''"
| "py_dumps (JFloat r n) =
     (case n of Fin _ \<Rightarrow> r | PInf \<Rightarrow> ''Infinity'' | NInf \<Rightarrow> ''-Infinity'' | NaN \<Rightarrow> ''NaN'')"
| "py_dumps v = enc v"

definition blender_pattern :: "string \<Rightarrow> re" where
  "blender_pattern series =
     Seq (Lit (''Blender '' @ series @ ''.'')) (Seq (Plus (Cls is_digit_ascii)) (Alt Eps (Lit '' LTS'')))"

text \<open>\<open>str(report_section.get('version') or '')\<close>\<close>

definition blender_version :: "py_text \<Rightarrow> payload \<Rightarrow> string" where
  "blender_version pt report =
     (let v = pget (section_of report [''runtimes'', ''blender'']) ''version'' in
      if truthy v then str_of (pt_str pt) v else [])"

definition pin_problem :: "py_text \<Rightarrow> string \<times> json \<times> json \<Rightarrow> string list" where
  "pin_problem pt = (\<lambda>(label, actual, expected).
     if actual = JNull \<or> actual \<noteq> expected
     then [label @ '' is '' @ pt_repr pt actual @ '', the recipe pins '' @ pt_repr pt expected]
     else [])"

definition pins :: "engine_recipe \<Rightarrow> payload \<Rightarrow> (string \<times> json \<times> json) list" where
  "pins recipe report =
     (let engine = section_of report [''engine''];
          native = obj_at (section_of report [''runtimes'', ''trellis'']) ''native_contract''
      in [(''engine commit'', pget engine ''commit'', jopt (er_engine_commit recipe)),
          (''sources lock'', pget engine ''sources_lock_sha256'', jopt (er_sources_lock_sha256 recipe)),
          (''weights lock'', pget engine ''weights_lock_sha256'', jopt (er_weights_lock_sha256 recipe)),
          (''TRELLIS native architecture'', pget native ''cuda_architecture'',
           JStr (er_cuda_architecture recipe))])"

definition report_problems :: "py_text \<Rightarrow> engine_recipe \<Rightarrow> payload \<Rightarrow> string list" where
  "report_problems pt recipe report =
     (let blender = blender_version pt report in
      concat (map (pin_problem pt) (pins recipe report)) @
      weight_problems pt recipe (section_of report [''weights'']) @
      (if pget report ''offline'' = JBool True then [] else [''the engine is not offline'']) @
      (if full_match (blender_pattern (er_blender_series recipe)) blender then []
       else [''Blender is '' @ (if blender \<noteq> [] then blender else ''missing'') @ '', the recipe needs '' @
             er_blender_series recipe @ ''.x LTS'']) @
      (if qualifying_gpus pt recipe report \<noteq> [] then []
       else [''no GPU of compute capability '' @ er_cuda_architecture recipe @ '' with '' @
             int_str (er_min_vram_mb recipe) @ '' MB'']))"

text \<open>\<open>max(gpus, key=...)\<close>: the first of the largest.\<close>

definition largest_gpu :: "payload list \<Rightarrow> payload" where
  "largest_gpu gpus = foldl (\<lambda>b g. if memory_mb b < memory_mb g then g else b) (hd gpus) (tl gpus)"

definition profile_recipe_version :: "string \<Rightarrow> machine_profile \<Rightarrow> string" where
  "profile_recipe_version profile spec = recipe_version (\<lambda>_. []) profile spec"

text \<open>\<open>engine_versions\<close>; for an engine profile the recipe's version depends on no template.\<close>

definition engine_versions :: "py_text \<Rightarrow> string \<Rightarrow> payload \<Rightarrow> engine_exn + versions" where
  "engine_versions pt profile report =
     ebind (engine_profile profile) (\<lambda>(spec, recipe).
     let problems = report_problems pt recipe report in
     if problems \<noteq> [] then Inl (EngineDrift (join_with ''; '' problems))
     else
       let engine = section_of report [''engine''];
           trellis = section_of report [''runtimes'', ''trellis''];
           text = (\<lambda>d k. str_of (pt_str pt) (pget d k));
           vs = [(RECIPE_KEY, profile_recipe_version profile spec),
                 (''magic_profile'', profile),
                 (''aismith_engine_version'', text engine ''version''),
                 (''aismith_engine_commit'', text engine ''commit''),
                 (''aismith_sources_lock'', text engine ''sources_lock_sha256''),
                 (''aismith_weights_lock'', text engine ''weights_lock_sha256''),
                 (''gpu_compute_capability'', er_cuda_architecture recipe),
                 (''blender'', blender_version pt report),
                 (''trellis_torch'', text trellis ''torch'')];
           config = JObj [(''versions'', JObj (map (\<lambda>(k, v). (k, JStr v)) vs)),
                 (''gpu'', pget (largest_gpu (qualifying_gpus pt recipe report)) ''name''),
                 (''trellis_cuda'', pget trellis ''cuda''),
                 (''native_contract'', JObj (obj_at trellis ''native_contract'')),
                 (''comfyui_version'', pget trellis ''comfyui_version'')]
       in Inr (vs @ [(CONFIG_KEY, sha256_hex (encode (py_dumps config)))]))"

section \<open>Inspecting\<close>

datatype inspect_run = Inspect_timeout | Inspect_oserror string | Inspect_exit int string

definition run_inspect :: "py_text \<Rightarrow> (string \<Rightarrow> json option) \<Rightarrow> rat \<Rightarrow> inspect_run \<Rightarrow> engine_exn + payload" where
  "run_inspect pt loads timeout r =
     (case r of
        Inspect_timeout \<Rightarrow> Inl (InspectTimedOut (''engine inspect did not finish in '' @ pt_secs pt timeout @ '' s''))
      | Inspect_oserror m \<Rightarrow> Inl (EngineOSError m)
      | Inspect_exit code stdout \<Rightarrow>
          if code \<noteq> 0 then Inl (EngineDrift (''engine inspect exited '' @ int_str code))
          else case loads stdout of
            Some (JObj report) \<Rightarrow> Inr report
          | _ \<Rightarrow> Inl (EngineDrift ''engine inspect printed no JSON report''))"

text \<open>The answer to an HTTP request: a timeout, another \<open>httpx.HTTPError\<close> by class, or a status and the
  JSON of the body if it has one.\<close>

datatype runner_answer = Runner_timeout | Runner_error string | Runner_status int "json option"

definition http_inspect :: "py_text \<Rightarrow> rat \<Rightarrow> runner_answer \<Rightarrow> engine_exn + payload" where
  "http_inspect pt timeout r =
     (case r of
        Runner_timeout \<Rightarrow> Inl (InspectTimedOut (''engine inspect did not finish in '' @ pt_secs pt timeout @ '' s''))
      | Runner_error n \<Rightarrow> Inl (EngineDrift (''the engine runner is unreachable ('' @ n @ '')''))
      | Runner_status code body \<Rightarrow>
          if code \<noteq> 200 then Inl (EngineDrift (''engine inspect answered '' @ int_str code))
          else case body of
            Some (JObj report) \<Rightarrow> Inr report
          | _ \<Rightarrow> Inl (EngineDrift ''engine inspect returned no JSON report''))"

section \<open>The plugin\<close>

record engine_plugin =
  ep_profile :: string
  ep_recipe :: engine_recipe
  ep_versions :: versions
  ep_command :: "string list"
  ep_namespaced :: bool
  ep_inspect_timeout_seconds :: rat
  ep_url :: "string option"

text \<open>\<open>runner_url\<close>, with what \<open>urlsplit\<close> says is the scheme and \<open>_require_private_runtime\<close>.\<close>

definition runner_url :: "(string \<Rightarrow> string) \<Rightarrow> (string \<Rightarrow> exn + unit) \<Rightarrow> string \<Rightarrow> exn + string option" where
  "runner_url scheme private val =
     (let raw = strip val in
      if raw = [] then Inr None
      else if scheme raw \<notin> {''http'', ''https''}
      then Inl (ValueError ''OGWP_ENGINE_URL must be an http(s) URL'')
      else case private raw of
        Inl _ \<Rightarrow> Inl (ValueError ''OGWP_ENGINE_URL must address a loopback or private engine runner'')
      | Inr _ \<Rightarrow> Inr (Some (rstrip_char (CHR ''/'') raw)))"

text \<open>\<open>AISmithEnginePlugin.__init__\<close>; \<open>url\<close> is what \<open>runner_url\<close> made of the URL it was given.\<close>

definition new_engine_plugin ::
  "string \<Rightarrow> versions \<Rightarrow> string list \<Rightarrow> bool \<Rightarrow> rat \<Rightarrow> string option \<Rightarrow> exn + engine_plugin"
where
  "new_engine_plugin profile v command namespaced inspect_timeout url =
     ebind (require_qualified PROFILES profile) (\<lambda>_.
     case engine_profile profile of
       Inl _ \<Rightarrow> Inl (ValueError (profile @ '' is not an engine profile''))
     | Inr (spec, recipe) \<Rightarrow>
         if map_of v RECIPE_KEY \<noteq> Some (profile_recipe_version profile spec)
         then Inl (ValueError (''the registered versions are not the '' @ profile @ '' recipe''))
         else Inr \<lparr>ep_profile = profile, ep_recipe = recipe, ep_versions = v, ep_command = command,
                   ep_namespaced = namespaced, ep_inspect_timeout_seconds = inspect_timeout, ep_url = url\<rparr>)"

fun setting_schema :: "setting_spec \<Rightarrow> json" where
  "setting_schema (Choices vs) = JObj [(''enum'', JArr vs)]"
| "setting_schema (Range lo hi) =
     JObj [(''type'', JStr ''integer''), (''minimum'', JInt lo), (''maximum'', JInt hi)]"

definition engine_input_schema :: "engine_stage \<Rightarrow> payload" where
  "engine_input_schema stage =
     (let properties = fold (\<lambda>(n, sp). AList.update n (setting_schema sp)) (es_settings stage)
        [(INPUTS_PAYLOAD_KEY, JObj
           [(''type'', JStr ''object''), (''additionalProperties'', JBool False),
            (''properties'', JObj (fold (\<lambda>n. AList.update n (JObj [(''type'', JStr ''string'')])) (es_inputs stage) [])),
            (''required'', jstrs (es_required_inputs stage))])]
      in [(''type'', JStr ''object''), (''additionalProperties'', JBool False),
          (''properties'', JObj properties),
          (''required'', jstrs (INPUTS_PAYLOAD_KEY # es_required_settings stage))] @
         (if es_one_of_settings stage \<noteq> []
          then [(''oneOf'', JArr (map (\<lambda>n. JObj [(''required'', jstrs [n])]) (es_one_of_settings stage)))]
          else []))"

definition engine_capabilities :: "engine_recipe \<Rightarrow> capability_manifest" where
  "engine_capabilities recipe =
     \<lparr>cm_plugin_id = ENGINE_PLUGIN_ID, cm_plugin_version = ENGINE_PLUGIN_VERSION,
      cm_capabilities = map (\<lambda>s. \<lparr>wc_capability_id = es_capability_id s, wc_plugin_id = ENGINE_PLUGIN_ID,
        wc_plugin_version = ENGINE_PLUGIN_VERSION, wc_concurrency = 1\<rparr>) (er_stages recipe),
      cm_schemas = map (\<lambda>s. \<lparr>cs_capability_id = es_capability_id s,
        cs_contract_version = ENGINE_CONTRACT_VERSION, cs_input_schema = engine_input_schema s\<rparr>)
        (er_stages recipe)\<rparr>"

section \<open>Validating a lease\<close>

fun checked_setting :: "string \<Rightarrow> setting_spec \<Rightarrow> json \<Rightarrow> exn + json" where
  "checked_setting name (Choices vs) v =
     (if (\<exists>b. v = JBool b) \<or> \<not> list_ex (py_eq v) vs
      then Inl (PluginRequestRejected (name @ '' must be one of '' @ join_with '', '' (map json_text vs)))
      else Inr v)"
| "checked_setting name (Range lo hi) v =
     (case v of
        JInt n \<Rightarrow>
          if lo \<le> n \<and> n \<le> hi then Inr v
          else Inl (PluginRequestRejected (name @ '' must be an integer from '' @ int_str lo @ '' to '' @ int_str hi))
      | _ \<Rightarrow> Inl (PluginRequestRejected (name @ '' must be an integer from '' @ int_str lo @ '' to '' @ int_str hi)))"

fun checked_settings :: "payload \<Rightarrow> (string, setting_spec) dict \<Rightarrow> payload \<Rightarrow> exn + payload" where
  "checked_settings p [] inputs = Inr inputs"
| "checked_settings p ((name, sp) # rest) inputs =
     (case map_of p name of
        None \<Rightarrow> checked_settings p rest inputs
      | Some v \<Rightarrow>
          ebind (checked_setting name sp v) (\<lambda>w. checked_settings p rest (AList.update name w inputs)))"

definition bound_input :: "lease_grant \<Rightarrow> string \<times> json \<Rightarrow> exn + unit" where
  "bound_input lease = (\<lambda>(name, key).
     ensure (case key of JStr k \<Rightarrow> k \<in> set (lg_input_keys lease) | _ \<Rightarrow> False)
       (PluginRequestRejected (''input '' @ name @ '' must bind a granted input'')))"

definition engine_validate :: "engine_recipe \<Rightarrow> lease_grant \<Rightarrow> exn + validated_request" where
  "engine_validate recipe lease =
     (case stage_for recipe (lg_capability_id lease) of
        None \<Rightarrow> Inl (PluginRequestRejected ''unsupported capability'')
      | Some stage \<Rightarrow>
          if lg_contract_version lease \<noteq> ENGINE_CONTRACT_VERSION
          then Inl (PluginRequestRejected ''unsupported contract version'')
          else if \<not> set (keys (lg_payload lease)) \<subseteq> set (keys (es_settings stage)) \<union> {INPUTS_PAYLOAD_KEY}
          then Inl (PluginRequestRejected ''payload carries unsupported keys'')
          else case payload_get (lg_payload lease) INPUTS_PAYLOAD_KEY (JObj []) of
            JObj bound \<Rightarrow>
              if \<not> set (keys bound) \<subseteq> set (es_inputs stage)
              then Inl (PluginRequestRejected (INPUTS_PAYLOAD_KEY @ '' names an input the stage does not take''))
              else
                ebind (for_each (\<lambda>n. ensure (n \<in> set (keys bound))
                  (PluginRequestRejected (''input '' @ n @ '' is required''))) (es_required_inputs stage)) (\<lambda>_.
                ebind (for_each (bound_input lease) bound) (\<lambda>_.
                if \<not> JStr ` set (lg_input_keys lease) \<subseteq> set (dvalues bound)
                then Inl (PluginRequestRejected ''every granted input must be bound to a stage input'')
                else
                  ebind (checked_settings (lg_payload lease) (es_settings stage) []) (\<lambda>inputs.
                  ebind (for_each (\<lambda>n. ensure (n \<in> set (keys inputs))
                    (PluginRequestRejected (n @ '' is required''))) (es_required_settings stage)) (\<lambda>_.
                  if es_one_of_settings stage \<noteq> [] \<and>
                     length (filter (\<lambda>n. n \<in> set (keys inputs)) (es_one_of_settings stage)) \<noteq> 1
                  then Inl (PluginRequestRejected (''exactly one of '' @
                         join_with '', '' (es_one_of_settings stage) @ '' is required''))
                  else
                    Inr \<lparr>vr_capability_id = lg_capability_id lease,
                         vr_contract_version = lg_contract_version lease,
                         vr_inputs = AList.update INPUTS_PAYLOAD_KEY (JObj bound) inputs,
                         vr_seed = int_instance (pget inputs ''seed'')\<rparr>))))
          | _ \<Rightarrow> Inl (PluginRequestRejected (INPUTS_PAYLOAD_KEY @ '' must map a stage input to a granted key'')))"

section \<open>Results\<close>

text \<open>\<open>_bounded\<close>: the optional sections give way, in order, until the payload check accepts.\<close>

definition omitted :: "json \<Rightarrow> json" where
  "omitted v = JObj [(''omitted'', JStr ''exceeds the diagnostics bound''),
                     (''sha256'', JStr (sha256_hex (encode (py_dumps v))))]"

fun bounded_after :: "payload \<Rightarrow> string list \<Rightarrow> engine_exn + payload" where
  "bounded_after d [] = Inl (EngineFailed ''engine diagnostics exceed the pool payload bound'')"
| "bounded_after d (name # names) =
     (let d1 = (case map_of d name of None \<Rightarrow> d | Some v \<Rightarrow> AList.update name (omitted v) d) in
      case validate_job_payload d1 of Inr _ \<Rightarrow> Inr d1 | Inl _ \<Rightarrow> bounded_after d1 names)"

definition bounded :: "payload \<Rightarrow> engine_exn + payload" where
  "bounded d =
     (case validate_job_payload d of Inr _ \<Rightarrow> Inr d | Inl _ \<Rightarrow> bounded_after d OPTIONAL_DIAGNOSTICS)"

text \<open>\<open>versions[k]\<close> of the registered versions.\<close>

definition registered :: "engine_plugin \<Rightarrow> string \<Rightarrow> engine_exn + string" where
  "registered ep k =
     (case map_of (ep_versions ep) k of None \<Rightarrow> Inl (EngineOther ''KeyError'') | Some v \<Rightarrow> Inr v)"

definition checked_result :: "py_text \<Rightarrow> engine_plugin \<Rightarrow> engine_stage \<Rightarrow> payload \<Rightarrow> engine_exn + unit" where
  "checked_result pt ep stage result =
     (let status = pget result ''status'' in
      if pget result ''stage'' \<noteq> JStr (es_stage stage) \<or>
         \<not> py_eq (pget result ''schema_version'') (JInt ENGINE_SPEC_SCHEMA_VERSION)
      then Inl (EngineFailed ''the engine result is for another stage or schema'')
      else
        let error = take MAX_AUDIT_REASON_LENGTH (str_of (pt_str pt) (get_or result ''error'' status)) in
        if status = JStr ''rejected'' then Inl (EngineRejected error)
        else if status = JStr ''failed'' then Inl (EngineFailed error)
        else if status \<noteq> JStr ''ok''
        then Inl (EngineFailed (''the engine returned status '' @ pt_repr pt status))
        else
          let engine = obj_at result ''engine'' in
          ebind (registered ep ''aismith_engine_commit'') (\<lambda>commit.
          ebind (registered ep ''aismith_sources_lock'') (\<lambda>sources.
          ebind (registered ep ''aismith_weights_lock'') (\<lambda>weights.
          ensure (pget engine ''commit'' = JStr commit \<and> pget engine ''sources_lock_sha256'' = JStr sources \<and>
                  pget engine ''weights_lock_sha256'' = JStr weights)
            (EngineDrift ''the engine that ran the stage is not the registered one'')))))"

text \<open>\<open>_checked_output\<close> on the bytes of the file.\<close>

definition checked_output :: "py_text \<Rightarrow> payload \<Rightarrow> bytes \<Rightarrow> engine_exn + unit" where
  "checked_output pt out content =
     (if pget out ''content_type'' \<noteq> JStr GLB_CONTENT_TYPE
      then Inl (EngineFailed (''the engine output is '' @ pt_repr pt (pget out ''content_type'') @ '', not a GLB''))
      else if take 4 content \<noteq> encode ''glTF''
      then Inl (EngineFailed ''the engine output is not a binary glTF'')
      else ensure (py_eq (JInt (int (length content))) (pget out ''bytes'') \<and>
                   pget out ''sha256'' = JStr (sha256_hex content))
        (EngineFailed ''the engine output does not match its reported size and sha256''))"

section \<open>The world of an execution\<close>

datatype runner_body = No_body | Raw_body bytes | Json_body json

datatype engine_call =
    Now
  | Inspect rat
  | Make_dir path
  | Read_bytes path
  | Write_json path json
  | Request string string runner_body rat
  | Wait_run rat
  | Fetch string path rat
  | Run_process "string list" rat
  | Engine_progress int

text \<open>\<open>asyncio.wait\<close> on the running request and the two cancel events, and on the local process.\<close>

datatype run_outcome = Run_done runner_answer | Run_cancelled | Run_timed_out
datatype stage_outcome = Stage_exit int | Stage_cancelled | Stage_timed_out

text \<open>A streamed answer: the status, two headers, the chunks, and the \<open>httpx\<close> error that ends them.\<close>

datatype fetch_error = Fetch_timeout | Fetch_broken string
datatype fetch_answer =
    Fetch_failed fetch_error
  | Fetched int "string option" "string option" "bytes list" "fetch_error option"

record engine_env =
  en_now :: "engine_call list \<Rightarrow> rat"
  en_inspect :: "engine_call list \<Rightarrow> inspect_run"
  en_http_inspect :: "engine_call list \<Rightarrow> runner_answer"
  en_loads :: "string \<Rightarrow> json option"
  en_mkdir :: "engine_call list \<Rightarrow> engine_exn + unit"
  en_read :: "engine_call list \<Rightarrow> engine_exn + bytes"
  en_write :: "engine_call list \<Rightarrow> engine_exn + unit"
  en_request :: "engine_call list \<Rightarrow> runner_answer"
  en_wait :: "engine_call list \<Rightarrow> run_outcome"
  en_fetch :: "engine_call list \<Rightarrow> fetch_answer"
  en_run :: "engine_call list \<Rightarrow> engine_exn + stage_outcome"
  en_result :: "engine_call list \<Rightarrow> json option"
  en_symlink :: "path \<Rightarrow> bool"
  en_inside :: "path \<Rightarrow> path \<Rightarrow> bool"
  en_is_file :: "path \<Rightarrow> bool"

type_synonym 'a engine_run = "(engine_call, engine_exn, 'a) run"

definition runner_result :: "string \<Rightarrow> string \<Rightarrow> runner_answer \<Rightarrow> engine_exn + int \<times> json option" where
  "runner_result method path a =
     (case a of
        Runner_timeout \<Rightarrow>
          Inl (EngineTimedOut (''the engine runner did not answer '' @ method @ '' '' @ path @ '' in time''))
      | Runner_error n \<Rightarrow>
          Inl (EngineFailed (''the engine runner failed '' @ method @ '' '' @ path @ '' ('' @ n @ '')''))
      | Runner_status code body \<Rightarrow> Inr (code, body))"

definition runner :: "engine_env \<Rightarrow> string \<Rightarrow> string \<Rightarrow> runner_body \<Rightarrow> rat \<Rightarrow> (int \<times> json option) engine_run" where
  "runner env method path body timeout =
     mcall (Request method path body timeout) (\<lambda>w. runner_result method path (en_request env w))"

definition job_path :: "string \<Rightarrow> string \<Rightarrow> string" where
  "job_path job what = ''/jobs/'' @ job @ what"

text \<open>\<open>with suppress(EngineFailed)\<close>\<close>

definition suppress_failed :: "'a engine_run \<Rightarrow> unit engine_run" where
  "suppress_failed m =
     mcatch (mbind m (\<lambda>_. mreturn ())) (\<lambda>e. if is_engine_failed e then mreturn () else mraise e)"

text \<open>The seconds left of \<open>timeout\<close>.\<close>

definition left_of :: "engine_env \<Rightarrow> rat \<Rightarrow> rat \<Rightarrow> rat engine_run" where
  "left_of env started timeout = mobserve Now (\<lambda>w. timeout - (en_now env w - started))"

section \<open>The sidecar\<close>

definition stage_result :: "py_text \<Rightarrow> int \<times> json option \<Rightarrow> engine_exn + payload" where
  "stage_result pt = (\<lambda>(code, body).
     if code \<noteq> 200 then Inl (EngineFailed (''the engine runner answered '' @ int_str code @ '' to run''))
     else case body of
       None \<Rightarrow> Inl (EngineFailed ''the engine runner returned no result JSON'')
     | Some (JObj result) \<Rightarrow>
         if pget result ''status'' \<notin> JStr ` set RESULT_STATUSES
         then Inl (EngineFailed (''the engine runner returned status '' @ pt_repr pt (pget result ''status'')))
         else Inr result
     | Some _ \<Rightarrow> Inl (EngineFailed ''the engine result is not a JSON object''))"

definition http_stage ::
  "engine_env \<Rightarrow> py_text \<Rightarrow> string \<Rightarrow> engine_stage \<Rightarrow> string list \<Rightarrow> payload \<Rightarrow> rat \<Rightarrow> payload engine_run"
where
  "http_stage env pt job stage names settings timeout =
     (if timeout \<le> 0 then mraise (EngineTimedOut ''the stage deadline passed before the stage started'')
      else
        let run_path = job_path job ''/run'';
            spec = JObj [(''schema_version'', JInt ENGINE_SPEC_SCHEMA_VERSION), (''stage'', JStr (es_stage stage)),
              (''inputs'', jstrs (sort names)), (''settings'', JObj settings),
              (''deadline_seconds'', JInt (max 1 (min MAX_RUNNER_DEADLINE_SECONDS \<lfloor>timeout\<rfloor>)))];
            stop = suppress_failed (runner env ''POST'' (job_path job ''/cancel'') No_body RUNNER_REQUEST_SECONDS)
        in
        mbind (mobserve (Request ''POST'' run_path (Json_body spec) (timeout + 30)) (\<lambda>_. ())) (\<lambda>_.
        mbind (mobserve (Wait_run timeout) (en_wait env)) (\<lambda>outcome.
        mbind
          (case outcome of
             Run_cancelled \<Rightarrow> mbind stop (\<lambda>_.
               mraise (EngineCancelled ''the job was cancelled; the engine runner cancelled it''))
           | Run_timed_out \<Rightarrow> mbind stop (\<lambda>_.
               mraise (EngineTimedOut (''the engine exceeded its '' @ pt_secs pt timeout @
                 '' s deadline; the engine runner cancelled it'')))
           | Run_done a \<Rightarrow> mlift (runner_result ''POST'' run_path a))
          (\<lambda>answer. mlift (stage_result pt answer)))))"

fun fetch_exn :: "fetch_error \<Rightarrow> engine_exn" where
  "fetch_exn Fetch_timeout = EngineTimedOut ''the engine output did not arrive before the deadline''"
| "fetch_exn (Fetch_broken n) = EngineFailed (''the engine output could not be fetched ('' @ n @ '')'')"

fun collect_chunks :: "int \<Rightarrow> bytes list \<Rightarrow> bytes \<Rightarrow> engine_exn + bytes" where
  "collect_chunks expected [] handle = Inr handle"
| "collect_chunks expected (chunk # chunks) handle =
     (if int (length handle) + int (length chunk) > expected
      then Inl (EngineFailed ''the engine output is larger than the result says'')
      else collect_chunks expected chunks (handle @ chunk))"

definition fetched :: "payload \<Rightarrow> int \<Rightarrow> fetch_answer \<Rightarrow> engine_exn + bytes" where
  "fetched out expected a =
     (case a of
        Fetch_failed e \<Rightarrow> Inl (fetch_exn e)
      | Fetched code sha len chunks broken \<Rightarrow>
          if code \<noteq> 200
          then Inl (EngineFailed (''the engine runner answered '' @ int_str code @ '' for the output''))
          else if jopt sha \<noteq> pget out ''sha256''
          then Inl (EngineFailed ''the engine output X-Sha256 does not match the result'')
          else if len \<noteq> Some (int_str expected)
          then Inl (EngineFailed ''the engine output Content-Length does not match the result'')
          else ebind (collect_chunks expected chunks []) (\<lambda>content.
               case broken of None \<Rightarrow> Inr content | Some e \<Rightarrow> Inl (fetch_exn e)))"

definition fetch_output :: "engine_env \<Rightarrow> string \<Rightarrow> payload \<Rightarrow> path \<Rightarrow> rat \<Rightarrow> bytes engine_run" where
  "fetch_output env job out destination timeout =
     (case pget out ''bytes'' of
        JInt expected \<Rightarrow>
          if expected < 0 then mraise (EngineFailed ''the engine result carries no output size'')
          else mcall (Fetch (job_path job ''/output'') destination timeout)
                 (\<lambda>w. fetched out expected (en_fetch env w))
      | _ \<Rightarrow> mraise (EngineFailed ''the engine result carries no output size''))"

definition upload_input ::
  "engine_env \<Rightarrow> string \<Rightarrow> rat \<Rightarrow> rat \<Rightarrow> string \<times> path \<Rightarrow> unit engine_run"
where
  "upload_input env job started timeout = (\<lambda>(name, p).
     mbind (left_of env started timeout) (\<lambda>l.
     if l \<le> 0 then mraise (EngineTimedOut ''the stage deadline passed while uploading inputs'')
     else
       mbind (mcall (Read_bytes p) (en_read env)) (\<lambda>content.
       mbind (left_of env started timeout) (\<lambda>l.
       mbind (runner env ''PUT'' (job_path job (''/inputs/'' @ name)) (Raw_body content) l) (\<lambda>(code, _).
       if code \<noteq> 204
       then mraise (EngineFailed (''the engine runner refused input '' @ name @ '' ('' @ int_str code @ '')''))
       else mreturn ())))))"

text \<open>The result, the path of the output and its bytes.\<close>

definition http_job ::
  "engine_env \<Rightarrow> py_text \<Rightarrow> engine_plugin \<Rightarrow> string \<Rightarrow> engine_stage \<Rightarrow> (string, path) dict \<Rightarrow> payload \<Rightarrow>
     rat \<Rightarrow> rat \<Rightarrow> path \<Rightarrow> (payload \<times> path \<times> bytes) engine_run"
where
  "http_job env pt ep job stage inputs settings started timeout workdir =
     mbind (mfor (upload_input env job started timeout) inputs) (\<lambda>_.
     mbind (left_of env started timeout) (\<lambda>l.
     mbind (http_stage env pt job stage (keys inputs) settings l) (\<lambda>result.
     mbind (mlift (checked_result pt ep stage result)) (\<lambda>_.
     case pget result ''output'' of
       JObj out \<Rightarrow>
         if pget out ''url'' \<noteq> JStr (job_path job ''/output'')
         then mraise (EngineFailed ''the engine runner reported ok without its output URL'')
         else
           mbind (left_of env started timeout) (\<lambda>l.
           if l \<le> 0 then mraise (EngineTimedOut ''the stage deadline passed before the output was fetched'')
           else
             let destination = path_join workdir (es_stage stage @ ''.glb'') in
             mbind (left_of env started timeout) (\<lambda>l.
             mbind (fetch_output env job out destination l) (\<lambda>content.
             mbind (mlift (checked_output pt out content)) (\<lambda>_.
             mreturn (result, destination, content)))))
     | _ \<Rightarrow> mraise (EngineFailed ''the engine runner reported ok without its output URL'')))))"

definition run_http ::
  "engine_env \<Rightarrow> py_text \<Rightarrow> engine_plugin \<Rightarrow> string \<Rightarrow> engine_stage \<Rightarrow> (string, path) dict \<Rightarrow> payload \<Rightarrow>
     rat \<Rightarrow> path \<Rightarrow> (payload \<times> path \<times> bytes) engine_run"
where
  "run_http env pt ep job stage inputs settings timeout workdir =
     (if \<not> full_match RUNNER_JOB_ID job
      then mraise (EngineFailed ''the job id is not a valid engine runner job id'')
      else
        mbind (mobserve Now (en_now env)) (\<lambda>started.
        mfinally (http_job env pt ep job stage inputs settings started timeout workdir)
          (suppress_failed (runner env ''DELETE'' (job_path job []) No_body RUNNER_REQUEST_SECONDS))))"

section \<open>The local command\<close>

definition run_local ::
  "engine_env \<Rightarrow> py_text \<Rightarrow> engine_plugin \<Rightarrow> path \<Rightarrow> engine_stage \<Rightarrow> (string, path) dict \<Rightarrow> payload \<Rightarrow>
     rat \<Rightarrow> path \<Rightarrow> (payload \<times> path \<times> bytes) engine_run"
where
  "run_local env pt ep workspace stage inputs settings timeout workdir =
     (let spec_path = path_join workspace ''spec.json'';
          spec = JObj [(''schema_version'', JInt ENGINE_SPEC_SCHEMA_VERSION), (''stage'', JStr (es_stage stage)),
            (''inputs'', JObj (map (\<lambda>(n, p). (n, JStr (path_str p))) inputs)), (''settings'', JObj settings)];
          argv = ep_command ep @ [''run'', es_stage stage, ''--spec'', path_str spec_path,
                                  ''--workdir'', path_str workdir]
      in
      mbind (mcall (Write_json spec_path spec) (en_write env)) (\<lambda>_.
      mbind (mcall (Run_process argv timeout) (en_run env)) (\<lambda>outcome.
      case outcome of
        Stage_cancelled \<Rightarrow> mraise (EngineCancelled ''the job was cancelled; the engine process group was killed'')
      | Stage_timed_out \<Rightarrow> mraise (EngineTimedOut (''the engine exceeded its '' @ pt_secs pt timeout @
            '' s deadline; its process group was killed''))
      | Stage_exit code \<Rightarrow>
          (case exit_status code of
             None \<Rightarrow> mraise (EngineFailed (''the engine exited '' @ int_str code @
                       '', which is not an engine status code''))
           | Some expected \<Rightarrow>
               mbind (mobserve (Read_bytes (path_join workdir ''result.json'')) (en_result env)) (\<lambda>text.
               case text of
                 None \<Rightarrow> mraise (EngineFailed (''the engine exited '' @ int_str code @
                           '' without a readable result.json''))
               | Some (JObj result) \<Rightarrow>
                   if pget result ''status'' \<noteq> JStr expected
                   then mraise (EngineFailed (''the engine exited '' @ int_str code @ '' with status '' @
                          pt_repr pt (pget result ''status'')))
                   else
                     mbind (mlift (checked_result pt ep stage result)) (\<lambda>_.
                     case pget result ''output'' of
                       JObj out \<Rightarrow>
                         (case pget out ''path'' of
                            JStr s \<Rightarrow>
                              let p = path_join workdir s in
                              if en_symlink env p \<or> \<not> en_inside env p workdir \<or> \<not> en_is_file env p
                              then mraise (EngineFailed ''the engine output is not a file inside its workdir'')
                              else
                                mbind (mcall (Read_bytes p) (en_read env)) (\<lambda>content.
                                mbind (mlift (checked_output pt out content)) (\<lambda>_.
                                mreturn (result, p, content)))
                          | _ \<Rightarrow> mraise (EngineFailed ''the engine reported ok without an output''))
                     | _ \<Rightarrow> mraise (EngineFailed ''the engine reported ok without an output''))
               | Some _ \<Rightarrow> mraise (EngineFailed ''the engine result is not a JSON object''))))))"

section \<open>Executing\<close>

definition inspect_engine :: "engine_env \<Rightarrow> py_text \<Rightarrow> engine_plugin \<Rightarrow> rat \<Rightarrow> payload engine_run" where
  "inspect_engine env pt ep timeout =
     mcall (Inspect timeout) (\<lambda>w.
       case ep_url ep of
         Some _ \<Rightarrow> http_inspect pt timeout (en_http_inspect env w)
       | None \<Rightarrow> run_inspect pt (en_loads env) timeout (en_inspect env w))"

text \<open>The inspection before a job: it spends the job's own time.\<close>

definition inspect_for_job :: "engine_env \<Rightarrow> py_text \<Rightarrow> engine_plugin \<Rightarrow> rat \<Rightarrow> payload engine_run" where
  "inspect_for_job env pt ep deadline =
     mbind (mobserve Now (en_now env)) (\<lambda>now.
     let remaining = deadline - now in
     if remaining \<le> 0
     then mraise (EngineTimedOut ''the lease deadline passed before the engine was inspected'')
     else
       let inspect_timeout = min remaining (ep_inspect_timeout_seconds ep) in
       mcatch (inspect_engine env pt ep inspect_timeout) (\<lambda>e.
         case e of
           InspectTimedOut _ \<Rightarrow>
             if inspect_timeout < ep_inspect_timeout_seconds ep
             then mraise (EngineTimedOut ''the lease deadline passed while the engine was inspected'')
             else mraise e
         | _ \<Rightarrow> mraise e))"

text \<open>The files the stage's inputs are bound to.\<close>

definition bound_paths :: "(string, path) dict \<Rightarrow> payload \<Rightarrow> engine_exn + (string, path) dict" where
  "bound_paths input_paths bound =
     map_result (\<lambda>(name, key).
       case map_of input_paths (the_str key) of
         None \<Rightarrow> Inl (EngineOther ''KeyError'') | Some p \<Rightarrow> Inr (name, p)) bound"

definition engine_diagnostics ::
  "engine_plugin \<Rightarrow> engine_stage \<Rightarrow> validated_request \<Rightarrow> versions \<Rightarrow> payload \<Rightarrow> payload"
where
  "engine_diagnostics ep stage req attested result =
     (let effective = obj_at result ''effective_inputs'' in
      [(''runtime_versions'', JObj (map (\<lambda>(k, v). (k, JStr v)) attested)),
       (''effective_inputs'', JObj (map (\<lambda>n. (n, pget effective n))
          (filter (\<lambda>n. n \<in> set (keys (vr_inputs req))) (es_attested_inputs stage)))),
       (''engine_effective_inputs'', JObj effective),
       (''stage'', JStr (es_stage stage)),
       (''engine'', pget result ''engine''),
       (''gate'', pget result ''gate''),
       (''measured'', pget result ''measured''),
       (''weights'', case pget result ''weights'' of
          JObj w \<Rightarrow> JObj [(''ok'', pget w ''ok''), (''pinned'', pget w ''pinned'')] | _ \<Rightarrow> JNull),
       (''timings_s'', pget result ''timings_s'')])"

definition engine_attested :: "engine_plugin \<Rightarrow> versions \<Rightarrow> engine_exn + versions" where
  "engine_attested ep actual =
     (if ep_namespaced ep
      then (case attested_versions (ep_profile ep) actual of
              Inl _ \<Rightarrow> Inl (EngineOther ''KeyError'') | Inr v \<Rightarrow> Inr v)
      else Inr actual)"

text \<open>The output, with the bytes behind its path.\<close>

definition engine_execute ::
  "engine_env \<Rightarrow> py_text \<Rightarrow> engine_plugin \<Rightarrow> string \<Rightarrow> path \<Rightarrow> (string, path) dict \<Rightarrow> rat \<Rightarrow> validated_request \<Rightarrow>
     (path plugin_output \<times> bytes) engine_run"
where
  "engine_execute env pt ep job_id workspace input_paths deadline req =
     (case stage_for (ep_recipe ep) (vr_capability_id req) of
        None \<Rightarrow> mraise (EngineRejected ''unsupported capability'')
      | Some stage \<Rightarrow>
          mbind (inspect_for_job env pt ep deadline) (\<lambda>report.
          mbind (mlift (engine_versions pt (ep_profile ep) report)) (\<lambda>actual.
          if \<not> dict_eq actual (ep_versions ep)
          then mraise (EngineDrift ''the engine runtime changed; restart the worker and resolve a new recipe'')
          else
            let workdir = path_join workspace ''engine'' in
            mbind (mcall (Make_dir workdir) (en_mkdir env)) (\<lambda>_.
            mbind (mlift (case map_of (vr_inputs req) INPUTS_PAYLOAD_KEY of
                None \<Rightarrow> Inl (EngineOther ''KeyError'')
              | Some (JObj bound) \<Rightarrow> bound_paths input_paths bound
              | Some _ \<Rightarrow> Inl (EngineOther ''AssertionError''))) (\<lambda>inputs.
            let settings = concat (map (\<lambda>(n, _). case map_of (vr_inputs req) n of
                  None \<Rightarrow> [] | Some v \<Rightarrow> [(n, v)]) (es_settings stage)) in
            mbind (mobserve Now (en_now env)) (\<lambda>now.
            let timeout = min (of_int (es_deadline_seconds stage)) (deadline - now) in
            if timeout \<le> 0
            then mraise (EngineTimedOut ''the lease deadline passed before the stage started'')
            else
              mbind
                (if ep_url ep \<noteq> None
                 then run_http env pt ep job_id stage inputs settings timeout workdir
                 else run_local env pt ep workspace stage inputs settings timeout workdir)
                (\<lambda>(result, out, content).
              mbind (mcall (Engine_progress 100) (\<lambda>_. Inr ())) (\<lambda>_.
              mlift
                (ebind (engine_attested ep actual) (\<lambda>attested.
                 ebind (registered ep ''aismith_engine_commit'') (\<lambda>commit.
                 ebind (bounded (engine_diagnostics ep stage req attested result)) (\<lambda>diagnostics.
                 Inr (\<lparr>po_path = out, po_content_type = GLB_CONTENT_TYPE,
                       po_model_id = AISMITH_ENGINE @ ''/'' @ es_stage stage, po_model_version = commit,
                       po_seed = vr_seed req, po_diagnostics = diagnostics\<rparr>, content)))))))))))))"

text \<open>\<open>cancel\<close>: whether the job's process group is killed, its cancel event set, or neither; the result.\<close>

datatype cancel_effect = Kill_group | Set_event | No_effect

definition engine_cancel :: "string list \<Rightarrow> string list \<Rightarrow> string \<Rightarrow> cancel_effect \<times> bool" where
  "engine_cancel running cancels job_id =
     (if job_id \<in> set running then (Kill_group, True)
      else if job_id \<in> set cancels then (Set_event, True) else (No_effect, False))"

definition engine_health :: "engine_env \<Rightarrow> py_text \<Rightarrow> engine_plugin \<Rightarrow> (bool \<times> string) engine_run" where
  "engine_health env pt ep =
     mcatch
       (mbind (inspect_engine env pt ep (ep_inspect_timeout_seconds ep)) (\<lambda>report.
        mbind (mlift (engine_versions pt (ep_profile ep) report)) (\<lambda>actual.
        mreturn (if dict_eq actual (ep_versions ep) then (True, [])
                 else (False, ''the engine runtime changed since registration'')))))
       (\<lambda>e. case e of
          EngineDrift m \<Rightarrow> mreturn (False, take MAX_AUDIT_REASON_LENGTH m)
        | InspectTimedOut m \<Rightarrow> mreturn (False, take MAX_AUDIT_REASON_LENGTH m)
        | EngineOSError m \<Rightarrow> mreturn (False, take MAX_AUDIT_REASON_LENGTH m)
        | _ \<Rightarrow> mraise e)"

section \<open>Enrolment\<close>

text \<open>\<open>prepare_engine_environment\<close>: the report of the full inspection, and the transport's own entry. The
  registered versions are written in their order.\<close>

definition versions_text :: "versions \<Rightarrow> string" where
  "versions_text vs = ''{'' @ enc_members (map (\<lambda>(k, v). (k, enc_str v)) vs) @ ''}''"

definition prepare_engine_environment ::
  "py_text \<Rightarrow> string \<Rightarrow> engine_exn + payload \<Rightarrow> (string, string) dict \<Rightarrow> engine_exn + (string, string) dict"
where
  "prepare_engine_environment pt profile inspected transport =
     ebind (case require_qualified PROFILES profile of
       Inl _ \<Rightarrow> Inl (EngineOther ''ProfileNotQualified'') | Inr _ \<Rightarrow> Inr ()) (\<lambda>_.
     ebind inspected (\<lambda>report.
     ebind (engine_versions pt profile report) (\<lambda>vs.
     ebind (engine_profile profile) (\<lambda>(_, recipe).
     let gpu = largest_gpu (qualifying_gpus pt recipe report) in
     Inr ([(''MVS_WORKER_PROFILE'', profile)] @ transport @
          [(''OGWP_WORKER_VRAM_MB'', int_str (memory_mb gpu)),
           (''OGWP_WORKER_GPU_MODEL'', str_of (pt_str pt) (pget gpu ''name'')),
           (''OGWP_WORKER_RUNTIME_VERSIONS'', versions_text vs),
           (''OGWP_WORKER_CONCURRENCY'', ''1'')])))))"

end
