(* ===== verification/EngineProps.thy ===== *)
theory EngineProps
  imports Engine AgentProps "HOL-Library.Multiset"
begin

text \<open>
  Properties of the engine plugin: which reports it accepts, which requests, what it has checked of an
  output it returns, what it attests, and that the sidecar's job is always removed.
\<close>

section \<open>Inspection\<close>

lemma concat_map_Nil: "concat (map f xs) = [] \<longleftrightarrow> (\<forall>x \<in> set xs. f x = [])"
  by auto

text \<open>A weight set is verified: the report has a file of it, and all its files are \<open>ok\<close>.\<close>

definition weight_set_ok :: "payload list \<Rightarrow> string \<Rightarrow> bool" where
  "weight_set_ok files w \<longleftrightarrow>
     (\<exists>f \<in> set files. pget f ''weight_id'' = JStr w) \<and>
     (\<forall>f \<in> set files. pget f ''weight_id'' = JStr w \<longrightarrow> pget f ''status'' = JStr ''ok'')"

lemma weight_set_problems_Nil: "weight_set_problems pt files w = [] \<longleftrightarrow> weight_set_ok files w"
proof -
  have "sort (remdups xs) = [] \<longleftrightarrow> xs = []" for xs :: "string list"
    by (metis remdups_eq_nil_iff set_empty set_sort)
  then show ?thesis
    by (auto simp: weight_set_problems_def weight_set_ok_def Let_def filter_empty_conv)
qed

text \<open>A report matches the recipe.\<close>

definition report_ok :: "py_text \<Rightarrow> engine_recipe \<Rightarrow> payload \<Rightarrow> bool" where
  "report_ok pt recipe report \<longleftrightarrow>
     (\<forall>(_, actual, expected) \<in> set (pins recipe report). actual \<noteq> JNull \<and> actual = expected) \<and>
     (\<forall>w \<in> set (recipe_weight_ids recipe).
        weight_set_ok (objects (list_at (section_of report [''weights'']) ''files'')) w) \<and>
     pget report ''offline'' = JBool True \<and>
     full_match (blender_pattern (er_blender_series recipe)) (blender_version pt report) \<and>
     qualifying_gpus pt recipe report \<noteq> []"

lemma report_problems_Nil: "report_problems pt recipe report = [] \<longleftrightarrow> report_ok pt recipe report"
  unfolding report_problems_def report_ok_def Let_def append_is_Nil_conv weight_problems_def
    concat_map_Nil weight_set_problems_Nil
  by (auto simp: pin_problem_def split: if_splits)

lemma engine_versions_Inr:
  assumes "engine_versions pt profile report = Inr vs"
  obtains spec recipe config where "engine_profile profile = Inr (spec, recipe)" "report_ok pt recipe report"
    "vs = [(RECIPE_KEY, profile_recipe_version profile spec), (''magic_profile'', profile),
           (''aismith_engine_version'', str_of (pt_str pt) (pget (section_of report [''engine'']) ''version'')),
           (''aismith_engine_commit'', str_of (pt_str pt) (pget (section_of report [''engine'']) ''commit'')),
           (''aismith_sources_lock'', str_of (pt_str pt) (pget (section_of report [''engine'']) ''sources_lock_sha256'')),
           (''aismith_weights_lock'', str_of (pt_str pt) (pget (section_of report [''engine'']) ''weights_lock_sha256'')),
           (''gpu_compute_capability'', er_cuda_architecture recipe), (''blender'', blender_version pt report),
           (''trellis_torch'', str_of (pt_str pt) (pget (section_of report [''runtimes'', ''trellis'']) ''torch''))]
          @ [(CONFIG_KEY, config)]" "length config = 64"
  using assms report_problems_Nil
  by (auto simp: engine_versions_def Let_def ebind_Inr_iff sha256_hex_length split: if_splits)

lemma engine_versions_distinct: "engine_versions pt profile report = Inr vs \<Longrightarrow> distinct (keys vs)"
  by (erule engine_versions_Inr) (simp add: RECIPE_KEY_def CONFIG_KEY_def)

text \<open>Claim C29: the inspection fails closed: a worker gets versions to register, or to run a job under,
  only from a report in which the engine commit, both lock digests and the native architecture are
  the recipe's pins, every weight set the stages load is reported and all its files verified, the
  engine is offline, the Blender series is the pinned one and a GPU qualifies; and the versions name
  exactly the recipe's pins.\<close>

theorem engine_versions_pinned:
  assumes "engine_versions pt MESH3D report = Inr vs"
  shows "report_ok pt MESH3D_RECIPE report \<and>
    map_of vs ''aismith_engine_commit'' = er_engine_commit MESH3D_RECIPE \<and>
    map_of vs ''aismith_sources_lock'' = er_sources_lock_sha256 MESH3D_RECIPE \<and>
    map_of vs ''aismith_weights_lock'' = er_weights_lock_sha256 MESH3D_RECIPE \<and>
    map_of vs ''magic_profile'' = Some MESH3D"
proof -
  obtain spec recipe where r: "engine_profile MESH3D = Inr (spec, recipe)" "report_ok pt recipe report"
    using assms by (rule engine_versions_Inr)
  have "engine_profile MESH3D = Inr (the (map_of PROFILES MESH3D), MESH3D_RECIPE)"
    by (simp add: engine_profile_def PROFILES_def STANDARD_def LIGHTX8_def SUBJECT12_def MESH3D_def)
  with r have "recipe = MESH3D_RECIPE" by simp
  moreover from this r(2) have "pget (section_of report [''engine'']) ''commit'' = jopt (er_engine_commit MESH3D_RECIPE)"
    "pget (section_of report [''engine'']) ''sources_lock_sha256'' = jopt (er_sources_lock_sha256 MESH3D_RECIPE)"
    "pget (section_of report [''engine'']) ''weights_lock_sha256'' = jopt (er_weights_lock_sha256 MESH3D_RECIPE)"
    by (auto simp: report_ok_def pins_def Let_def)
  ultimately show ?thesis
    using r(2) assms
    by (elim engine_versions_Inr)
      (simp add: MESH3D_RECIPE_def jopt_def str_of_def RECIPE_KEY_def CONFIG_KEY_def)
qed

section \<open>Requests\<close>

fun setting_ok :: "setting_spec \<Rightarrow> json \<Rightarrow> bool" where
  "setting_ok (Choices vs) v = ((\<nexists>b. v = JBool b) \<and> (\<exists>w \<in> set vs. py_eq v w))"
| "setting_ok (Range lo hi) v = (\<exists>n. v = JInt n \<and> lo \<le> n \<and> n \<le> hi)"

lemma checked_setting_iff: "checked_setting n sp v = Inr w \<longleftrightarrow> w = v \<and> setting_ok sp v"
  by (cases sp; cases v) (auto simp: list_ex_iff)

lemma checked_settings_run:
  assumes "checked_settings p ss inputs = Inr out" "distinct (keys ss)" "set (keys ss) \<inter> set (keys inputs) = {}"
  shows "map_of out k = (if k \<in> set (keys ss) then map_of p k else map_of inputs k) \<and>
    (\<forall>(n, sp) \<in> set ss. \<forall>v. map_of p n = Some v \<longrightarrow> setting_ok sp v)"
  using assms
proof (induction p ss inputs rule: checked_settings.induct)
  case (2 p name sp rest inputs)
  have fresh: "name \<notin> set (keys rest)" "map_of inputs name = None"
    using 2(4,5) by (auto simp: map_of_eq_None_iff)
  have dis: "set (keys rest) \<inter> set (keys (AList.update name v inputs)) = {}" for v
    using 2(5) fresh(1) unfolding keys_update by auto
  show ?case
  proof (cases "map_of p name")
    case None
    with 2 fresh show ?thesis by auto
  next
    case (Some v)
    with 2(3) have v: "checked_setting name sp v = Inr v" "setting_ok sp v"
      "checked_settings p rest (AList.update name v inputs) = Inr out"
      by (auto simp: ebind_Inr_iff checked_setting_iff)
    have "distinct (keys rest)" using 2(4) by simp
    from 2(2) [OF Some v(3) this dis] Some v(2) fresh show ?thesis by auto
  qed
qed simp

definition bound_of :: "lease_grant \<Rightarrow> payload" where
  "bound_of lease = (case payload_get (lg_payload lease) INPUTS_PAYLOAD_KEY (JObj []) of JObj d \<Rightarrow> d | _ \<Rightarrow> [])"

text \<open>What an accepted request is, for the stage that serves it.\<close>

definition engine_request_ok :: "engine_stage \<Rightarrow> lease_grant \<Rightarrow> validated_request \<Rightarrow> bool" where
  "engine_request_ok stage lease req \<longleftrightarrow>
     vr_capability_id req = lg_capability_id lease \<and> lg_contract_version lease = ENGINE_CONTRACT_VERSION \<and>
     set (keys (lg_payload lease)) \<subseteq> set (keys (es_settings stage)) \<union> {INPUTS_PAYLOAD_KEY} \<and>
     set (es_required_inputs stage) \<subseteq> set (keys (bound_of lease)) \<and>
     set (keys (bound_of lease)) \<subseteq> set (es_inputs stage) \<and>
     set (dvalues (bound_of lease)) = JStr ` set (lg_input_keys lease) \<and>
     (\<forall>(n, sp) \<in> set (es_settings stage). \<forall>v. map_of (lg_payload lease) n = Some v \<longrightarrow> setting_ok sp v) \<and>
     set (es_required_settings stage) \<subseteq> set (keys (lg_payload lease)) \<and>
     (es_one_of_settings stage = [] \<or>
      length (filter (\<lambda>n. n \<in> set (keys (lg_payload lease))) (es_one_of_settings stage)) = 1) \<and>
     map_of (vr_inputs req) INPUTS_PAYLOAD_KEY = Some (JObj (bound_of lease)) \<and>
     (\<forall>n \<in> set (keys (es_settings stage)). map_of (vr_inputs req) n = map_of (lg_payload lease) n)"

text \<open>A stage as the recipes declare it.\<close>

definition stage_wf :: "engine_stage \<Rightarrow> bool" where
  "stage_wf stage \<longleftrightarrow> distinct (keys (es_settings stage)) \<and> INPUTS_PAYLOAD_KEY \<notin> set (keys (es_settings stage)) \<and>
     set (es_required_settings stage @ es_one_of_settings stage @ es_attested_inputs stage)
       \<subseteq> set (keys (es_settings stage))"

lemma mesh3d_stages_wf: "stage_for MESH3D_RECIPE c = Some stage \<Longrightarrow> stage_wf stage"
  by (auto simp: stage_for_def MESH3D_RECIPE_def MESH3D_MESH_STAGE_def MESH3D_CLEAN_STAGE_def stage_wf_def
      INPUTS_PAYLOAD_KEY_def split: if_splits)

lemma bound_input_iff:
  "bound_input lease (n, v) = Inr () \<longleftrightarrow> v \<in> JStr ` set (lg_input_keys lease)"
  by (cases v) (auto simp: bound_input_def)

lemma in_keys_iff: "k \<in> set (keys d) \<longleftrightarrow> map_of d k \<noteq> None"
  by (simp add: map_of_eq_None_iff)

lemma engine_request_accepted:
  assumes "stage_for recipe (lg_capability_id lease) = Some stage" "stage_wf stage"
    "engine_validate recipe lease = Inr req"
  shows "engine_request_ok stage lease req"
proof -
  obtain bound inputs where
    ver: "lg_contract_version lease = ENGINE_CONTRACT_VERSION"
    and keys: "set (keys (lg_payload lease)) \<subseteq> set (keys (es_settings stage)) \<union> {INPUTS_PAYLOAD_KEY}"
    and bound: "payload_get (lg_payload lease) INPUTS_PAYLOAD_KEY (JObj []) = JObj bound"
      "set (keys bound) \<subseteq> set (es_inputs stage)"
      "\<forall>n \<in> set (es_required_inputs stage). n \<in> set (keys bound)" "\<forall>p \<in> set bound. bound_input lease p = Inr ()"
      "JStr ` set (lg_input_keys lease) \<subseteq> set (dvalues bound)"
    and run: "checked_settings (lg_payload lease) (es_settings stage) [] = Inr inputs"
      "\<forall>n \<in> set (es_required_settings stage). n \<in> set (keys inputs)"
      "es_one_of_settings stage = [] \<or>
       length (filter (\<lambda>n. n \<in> set (keys inputs)) (es_one_of_settings stage)) = 1"
    and req: "vr_capability_id req = lg_capability_id lease"
      "vr_inputs req = AList.update INPUTS_PAYLOAD_KEY (JObj bound) inputs"
    using assms(1,3) unfolding engine_validate_def
    by (auto simp: for_each_Inr_iff elim!: ebind_InrE split: json.splits if_splits)
  have wf: "distinct (keys (es_settings stage))" "INPUTS_PAYLOAD_KEY \<notin> set (keys (es_settings stage))"
    "set (es_required_settings stage) \<subseteq> set (keys (es_settings stage))"
    "set (es_one_of_settings stage) \<subseteq> set (keys (es_settings stage))"
    using assms(2) by (auto simp: stage_wf_def)
  have look: "map_of inputs k = (if k \<in> set (keys (es_settings stage)) then map_of (lg_payload lease) k else None)"
    and settings: "\<forall>(n, sp) \<in> set (es_settings stage). \<forall>v. map_of (lg_payload lease) n = Some v \<longrightarrow> setting_ok sp v" for k
    using checked_settings_run [OF run(1) wf(1), of k] by auto
  have mem: "n \<in> set (keys inputs) \<longleftrightarrow> n \<in> set (keys (lg_payload lease))" if "n \<in> set (keys (es_settings stage))" for n
    using look [of n] that unfolding in_keys_iff by simp
  have "filter (\<lambda>n. n \<in> set (keys inputs)) (es_one_of_settings stage) =
      filter (\<lambda>n. n \<in> set (keys (lg_payload lease))) (es_one_of_settings stage)"
    using mem wf(4) by (intro filter_cong) blast+
  moreover have "set (es_required_settings stage) \<subseteq> set (keys (lg_payload lease))"
    using mem wf(3) run(2) by blast
  moreover have "set (dvalues bound) = JStr ` set (lg_input_keys lease)"
    using bound(4,5) bound_input_iff [of lease] by fastforce
  moreover have "bound_of lease = bound" using bound(1) by (simp add: bound_of_def)
  moreover have "map_of (vr_inputs req) n = map_of (lg_payload lease) n" if "n \<in> set (keys (es_settings stage))" for n
    using look [of n] wf(2) that by (cases "n = INPUTS_PAYLOAD_KEY") (simp_all add: req(2))
  ultimately show ?thesis
    using ver keys bound(2,3) settings run(3) req unfolding engine_request_ok_def by (simp add: subset_iff)
qed

text \<open>An accepted engine request is exactly typed: the payload has only the stage's settings and
  the input map; each setting lies in its domain, the required ones are present and exactly one of
  the alternatives; the inputs the stage requires are bound, and the bound keys are precisely the
  assets the lease granted.\<close>

theorem engine_validate_sound:
  assumes "engine_validate MESH3D_RECIPE lease = Inr req"
  shows "\<exists>stage. stage_for MESH3D_RECIPE (lg_capability_id lease) = Some stage \<and>
    engine_request_ok stage lease req"
proof -
  obtain stage where "stage_for MESH3D_RECIPE (lg_capability_id lease) = Some stage"
    using assms by (auto simp: engine_validate_def split: option.splits)
  then show ?thesis using engine_request_accepted mesh3d_stages_wf assms by blast
qed

text \<open>The domain of a choice is compared with \<open>==\<close>: the float 1024.0 is accepted as a resolution.\<close>

lemma choice_accepts_float:
  "checked_setting ''resolution'' (Choices (map JInt MESH_RESOLUTIONS)) (JFloat ''1024.0'' (Fin 1024)) =
     Inr (JFloat ''1024.0'' (Fin 1024))"
  by (simp add: MESH_RESOLUTIONS_def num_eq_def)

section \<open>Diagnostics\<close>

lemma bounded_after_ok:
  "bounded_after d names = Inr d' \<Longrightarrow> validate_job_payload d' = Inr () \<and> keys d' = keys d \<and>
     (\<forall>k. k \<notin> set names \<longrightarrow> map_of d' k = map_of d k)"
proof (induction d names rule: bounded_after.induct)
  case (2 d name names)
  let ?d1 = "case map_of d name of None \<Rightarrow> d | Some v \<Rightarrow> AList.update name (omitted v) d"
  have k: "keys ?d1 = keys d"
    by (auto simp: keys_update map_of_eq_None_iff dest: map_of_SomeD split: option.split)
  have m: "map_of ?d1 k = map_of d k" if "k \<noteq> name" for k
    using that by (simp split: option.split)
  show ?case
  proof (cases "validate_job_payload ?d1")
    case (Inr u)
    with 2(2) k m show ?thesis by (auto simp: Let_def)
  next
    case (Inl e)
    with 2(2) have "bounded_after ?d1 names = Inr d'" by (simp add: Let_def)
    from 2(1) [OF refl Inl this] k m show ?thesis by auto
  qed
qed simp

lemma bounded_ok:
  "bounded d = Inr d' \<Longrightarrow> validate_job_payload d' = Inr () \<and> keys d' = keys d \<and>
     (\<forall>k. k \<notin> set OPTIONAL_DIAGNOSTICS \<longrightarrow> map_of d' k = map_of d k)"
  using bounded_after_ok by (auto simp: bounded_def split: sum.splits)

section \<open>What an output has been checked for\<close>

definition glb_ok :: "payload \<Rightarrow> bytes \<Rightarrow> bool" where
  "glb_ok out content \<longleftrightarrow>
     pget out ''content_type'' = JStr GLB_CONTENT_TYPE \<and> take 4 content = encode ''glTF'' \<and>
     py_eq (JInt (int (length content))) (pget out ''bytes'') \<and> pget out ''sha256'' = JStr (sha256_hex content)"

lemma checked_output_iff: "checked_output pt out content = Inr () \<longleftrightarrow> glb_ok out content"
  by (auto simp: checked_output_def glb_ok_def)

definition result_ok :: "engine_plugin \<Rightarrow> engine_stage \<Rightarrow> payload \<Rightarrow> bool" where
  "result_ok ep stage result \<longleftrightarrow>
     pget result ''status'' = JStr ''ok'' \<and> pget result ''stage'' = JStr (es_stage stage) \<and>
     (\<exists>commit sources weights.
        map_of (ep_versions ep) ''aismith_engine_commit'' = Some commit \<and>
        map_of (ep_versions ep) ''aismith_sources_lock'' = Some sources \<and>
        map_of (ep_versions ep) ''aismith_weights_lock'' = Some weights \<and>
        pget (obj_at result ''engine'') ''commit'' = JStr commit \<and>
        pget (obj_at result ''engine'') ''sources_lock_sha256'' = JStr sources \<and>
        pget (obj_at result ''engine'') ''weights_lock_sha256'' = JStr weights)"

lemma registered_iff: "registered ep k = Inr v \<longleftrightarrow> map_of (ep_versions ep) k = Some v"
  by (auto simp: registered_def split: option.splits)

lemma checked_result_ok: "checked_result pt ep stage result = Inr () \<Longrightarrow> result_ok ep stage result"
  by (auto simp: checked_result_def result_ok_def Let_def registered_iff elim!: ebind_InrE split: if_splits)

definition verified :: "engine_plugin \<Rightarrow> engine_stage \<Rightarrow> payload \<Rightarrow> bytes \<Rightarrow> bool" where
  "verified ep stage result content \<longleftrightarrow>
     result_ok ep stage result \<and> (\<exists>out. pget result ''output'' = JObj out \<and> glb_ok out content)"

lemmas run_ends = mlift_iff mreturn_iff mraise_iff mcall_iff

lemma http_job_verified:
  "http_job env pt ep job stage inputs settings started timeout workdir w = (Inr (result, p, content), w') \<Longrightarrow>
   verified ep stage result content"
  unfolding http_job_def Let_def verified_def
  by (auto simp: run_ends checked_output_iff elim!: mbind_InrE split: json.splits if_splits)
    (erule checked_result_ok)+

lemma run_http_verified:
  "run_http env pt ep job stage inputs settings timeout workdir w = (Inr (result, p, content), w') \<Longrightarrow>
   verified ep stage result content"
  by (auto simp: run_http_def run_simps dest: http_job_verified split: if_splits)

lemma run_local_verified:
  "run_local env pt ep workspace stage inputs settings timeout workdir w = (Inr (result, p, content), w') \<Longrightarrow>
   verified ep stage result content"
  unfolding run_local_def Let_def verified_def
  by (auto simp: run_ends checked_output_iff elim!: mbind_InrE
      split: json.splits if_splits option.splits stage_outcome.splits) (erule checked_result_ok)+

lemma engine_execute_run:
  assumes "engine_execute env pt ep job_id workspace input_paths deadline req w = (Inr (out, content), w')"
  obtains stage report actual result attested where
    "stage_for (ep_recipe ep) (vr_capability_id req) = Some stage"
    "engine_versions pt (ep_profile ep) report = Inr actual" "dict_eq actual (ep_versions ep)"
    "verified ep stage result content" "engine_attested ep actual = Inr attested"
    "map_of (ep_versions ep) ''aismith_engine_commit'' = Some (po_model_version out)"
    "bounded (engine_diagnostics ep stage req attested result) = Inr (po_diagnostics out)"
    "po_content_type out = GLB_CONTENT_TYPE"
  using assms unfolding engine_execute_def Let_def
  by (auto simp: run_ends registered_iff elim!: mbind_InrE ebind_InrE
      dest!: run_http_verified run_local_verified split: option.splits if_splits)


lemma dict_eq_lookup:
  assumes "dict_eq d1 d2" "distinct (keys d1)" "distinct (keys d2)"
  shows "map_of d1 k = map_of d2 k"
  using dict_eq_map_of [OF assms(2,3,1)] by simp

lemma matches_jstr:
  assumes "\<forall>(k, v) \<in> set rv. map_of vs k = Some v"
  shows "matches (JObj (map (\<lambda>(k, v). (k, JStr v)) vs)) (map (\<lambda>(k, v). (k, JStr v)) rv)"
proof -
  have "map_of (map (\<lambda>(k, v). (k, JStr v)) vs) k = map_option JStr (map_of vs k)" for k
    by (induction vs) auto
  with assms show ?thesis by (auto simp: matches_def list_all_iff pget_def)
qed

text \<open>The coordinator accepts the engine's attestation: the diagnostics of every output fit the
  pool's payload bound, the versions a job pins are matched whenever the worker registered them, and
  the effective inputs carry an entry for exactly the attested inputs the job set.\<close>

theorem engine_attestation_accepted:
  assumes "engine_execute env pt ep job_id workspace input_paths deadline req w = (Inr (out, content), w')"
    "\<not> ep_namespaced ep" "distinct (keys (ep_versions ep))"
    "\<forall>(k, v) \<in> set rv. map_of (ep_versions ep) k = Some v"
  shows "validate_job_payload (po_diagnostics out) = Inr () \<and>
    matches (pget (po_diagnostics out) ''runtime_versions'') (map (\<lambda>(k, v). (k, JStr v)) rv) \<and>
    (\<exists>stage effective. stage_for (ep_recipe ep) (vr_capability_id req) = Some stage \<and>
       pget (po_diagnostics out) ''effective_inputs'' = JObj effective \<and>
       keys effective = filter (\<lambda>n. n \<in> set (keys (vr_inputs req))) (es_attested_inputs stage))"
proof -
  obtain stage report actual result attested where
    st: "stage_for (ep_recipe ep) (vr_capability_id req) = Some stage"
    and v: "engine_versions pt (ep_profile ep) report = Inr actual" "dict_eq actual (ep_versions ep)"
      "engine_attested ep actual = Inr attested"
    and b: "bounded (engine_diagnostics ep stage req attested result) = Inr (po_diagnostics out)"
    using assms(1) by (rule engine_execute_run)
  have att: "attested = actual" using v(3) assms(2) by (simp add: engine_attested_def)
  have "\<forall>(k, v) \<in> set rv. map_of actual k = Some v"
    using assms(4) dict_eq_lookup [OF v(2) engine_versions_distinct [OF v(1)] assms(3)] by simp
  then have m: "matches (JObj (map (\<lambda>(k, v). (k, JStr v)) actual)) (map (\<lambda>(k, v). (k, JStr v)) rv)"
    by (rule matches_jstr)
  have d: "map_of (po_diagnostics out) k = map_of (engine_diagnostics ep stage req attested result) k"
    if "k \<notin> set OPTIONAL_DIAGNOSTICS" for k
    using bounded_ok [OF b] that by blast
  have "pget (po_diagnostics out) ''runtime_versions'' = JObj (map (\<lambda>(k, v). (k, JStr v)) attested)"
    "\<exists>effective. pget (po_diagnostics out) ''effective_inputs'' = JObj effective \<and>
       keys effective = filter (\<lambda>n. n \<in> set (keys (vr_inputs req))) (es_attested_inputs stage)"
    by (simp_all add: pget_def d OPTIONAL_DIAGNOSTICS_def engine_diagnostics_def Let_def o_def)
  with m st bounded_ok [OF b] show ?thesis by (simp add: att)
qed

section \<open>The sidecar's job is always removed\<close>

definition upload_call :: "string \<Rightarrow> engine_call \<Rightarrow> bool" where
  "upload_call job c \<longleftrightarrow>
     c = Now \<or> (\<exists>p. c = Read_bytes p) \<or>
     (\<exists>n b t. c = Request ''PUT'' (job_path job (''/inputs/'' @ n)) (Raw_body b) t)"

definition fetch_call :: "string \<Rightarrow> engine_call \<Rightarrow> bool" where
  "fetch_call job c \<longleftrightarrow> c = Now \<or> (\<exists>p t. c = Fetch (job_path job ''/output'') p t)"

text \<open>The calls around the stage: none; the run and its wait, which saw it done; or the run, a wait that
  did not, and the cancel.\<close>

definition stage_log :: "engine_env \<Rightarrow> string \<Rightarrow> engine_call list \<Rightarrow> engine_call list \<Rightarrow> bool" where
  "stage_log env job w S \<longleftrightarrow> S = [] \<or>
     (\<exists>b x t a. S = [Wait_run t, Request ''POST'' (job_path job ''/run'') b x] \<and>
        en_wait env (S @ w) = Run_done a) \<or>
     (\<exists>b x t. S = [Request ''POST'' (job_path job ''/cancel'') No_body RUNNER_REQUEST_SECONDS, Wait_run t,
                  Request ''POST'' (job_path job ''/run'') b x] \<and>
        en_wait env (tl S @ w) \<in> {Run_cancelled, Run_timed_out})"

lemma mbind_split:
  "mbind m f w = (r, w') \<longleftrightarrow>
     (\<exists>e. m w = (Inl e, w') \<and> r = Inl e) \<or> (\<exists>a l. m w = (Inr a, l) \<and> f a l = (r, w'))"
  by (auto simp: mbind_def split: prod.splits sum.splits)

lemma suppress_runner:
  "suppress_failed (runner env method path body timeout) w = (Inr (), Request method path body timeout # w)"
  by (auto simp: suppress_failed_def runner_def runner_result_def mcatch_def mbind_def mcall_def mreturn_def
      split: runner_answer.split)

lemma stage_log_run:
  assumes "http_stage env pt job stage names settings timeout w = (r, w')"
  shows "\<exists>S. w' = S @ w \<and> stage_log env job w S"
proof (cases "timeout \<le> 0")
  case True
  then show ?thesis using assms by (auto simp: http_stage_def mraise_def stage_log_def)
next
  case False
  define b where "b = Json_body (JObj [(''schema_version'', JInt ENGINE_SPEC_SCHEMA_VERSION),
    (''stage'', JStr (es_stage stage)), (''inputs'', jstrs (sort names)), (''settings'', JObj settings),
    (''deadline_seconds'', JInt (max 1 (min MAX_RUNNER_DEADLINE_SECONDS \<lfloor>timeout\<rfloor>)))])"
  let ?S = "[Wait_run timeout, Request ''POST'' (job_path job ''/run'') b (timeout + 30)]"
  let ?cancel = "Request ''POST'' (job_path job ''/cancel'') No_body RUNNER_REQUEST_SECONDS"
  note run = assms [unfolded http_stage_def Let_def, folded b_def]
  show ?thesis
  proof (cases "\<exists>a. en_wait env (?S @ w) = Run_done a")
    case True
    then have "w' = ?S @ w" "stage_log env job w ?S"
      using run False by (auto simp: mbind_split run_ends stage_log_def split: json.splits option.splits if_splits)
    then show ?thesis by blast
  next
    case not_done: False
    then have out: "en_wait env (?S @ w) \<in> {Run_cancelled, Run_timed_out}"
      by (cases "en_wait env (?S @ w)") auto
    then have "w' = (?cancel # ?S) @ w"
      using run False by (auto simp: mbind_split run_ends suppress_runner)
    moreover have "stage_log env job w (?cancel # ?S)"
      using out by (auto simp: stage_log_def)
    ultimately show ?thesis by blast
  qed
qed

lemma upload_calls: "only_calls (upload_call job) (mfor (upload_input env job started timeout) inputs)"
proof (rule only_calls_mfor)
  fix x
  show "only_calls (upload_call job) (upload_input env job started timeout x)"
    unfolding upload_input_def left_of_def runner_def
    by (cases x) (auto intro!: call_intros simp: upload_call_def job_path_def split: prod.split)
qed

lemma http_job_log:
  assumes "http_job env pt ep job stage inputs settings started timeout workdir w = (r, w')"
  shows "\<exists>U S T. w' = T @ S @ U @ w \<and> list_all (upload_call job) U \<and> stage_log env job (U @ w) S \<and>
    list_all (fetch_call job) T"
proof -
  let ?rest = "\<lambda>result. mbind (mlift (checked_result pt ep stage result)) (\<lambda>_.
     case pget result ''output'' of
       JObj out \<Rightarrow>
         if pget out ''url'' \<noteq> JStr (job_path job ''/output'')
         then mraise (EngineFailed ''the engine runner reported ok without its output URL'')
         else
           mbind (left_of env started timeout) (\<lambda>l.
           if l \<le> 0 then mraise (EngineTimedOut ''the stage deadline passed before the output was fetched'')
           else
             mbind (left_of env started timeout) (\<lambda>l.
             mbind (fetch_output env job out (path_join workdir (es_stage stage @ ''.glb'')) l) (\<lambda>content.
             mbind (mlift (checked_output pt out content)) (\<lambda>_.
             mreturn (result, path_join workdir (es_stage stage @ ''.glb''), content)))))
     | _ \<Rightarrow> mraise (EngineFailed ''the engine runner reported ok without its output URL''))"
  have rest: "only_calls (fetch_call job) (?rest result)" for result
    unfolding left_of_def fetch_output_def
    by (auto intro!: call_intros simp: fetch_call_def split: json.split)
  consider e where "mfor (upload_input env job started timeout) inputs w = (Inl e, w')"
    | l x q v where "mfor (upload_input env job started timeout) inputs w = (Inr (), l)"
        "http_stage env pt job stage (keys inputs) settings x (Now # l) = (q, v)"
        "(\<exists>e. q = Inl e \<and> w' = v) \<or> (\<exists>result. q = Inr result \<and> ?rest result v = (r, w'))"
    using assms unfolding http_job_def Let_def by (auto simp: mbind_split left_of_def mcall_iff)
  then show ?thesis
  proof cases
    case 1
    then obtain U where "w' = U @ w" "list_all (upload_call job) U"
      using only_callsD [OF upload_calls] by blast
    then show ?thesis by (intro exI [of _ U] exI [of _ "[]"]) (simp add: stage_log_def)
  next
    case (2 l x q v)
    obtain U where U: "l = U @ w" "list_all (upload_call job) U"
      using only_callsD [OF upload_calls 2(1)] by blast
    obtain S where S: "v = S @ Now # l" "stage_log env job (Now # l) S"
      using stage_log_run [OF 2(2)] by blast
    obtain T where "w' = T @ v" "list_all (fetch_call job) T"
      using 2(3)
    proof (elim disjE exE conjE)
      fix e assume "w' = v"
      then show thesis using that [of "[]"] by simp
    next
      fix result assume "?rest result v = (r, w')"
      then show thesis using only_callsD [OF rest] that by blast
    qed
    with U S show ?thesis
      by (intro exI [of _ "Now # U"] exI [of _ S] exI [of _ T]) (simp add: upload_call_def)
  qed
qed

text \<open>Claim C28: nothing is left on the engine runner: whatever the runner answers and however the stage
  ends, the job's calls are the uploads, at most one run, and the fetching of the output, in this
  order; a run that was not seen done is cancelled; and the last call always deletes the job.\<close>

theorem runner_job_deleted:
  assumes "full_match RUNNER_JOB_ID job"
    "run_http env pt ep job stage inputs settings timeout workdir w = (r, w')"
  shows "\<exists>U S T. w' = Request ''DELETE'' (job_path job []) No_body RUNNER_REQUEST_SECONDS # T @ S @ U @ Now # w \<and>
    list_all (upload_call job) U \<and> stage_log env job (U @ Now # w) S \<and> list_all (fetch_call job) T"
proof -
  obtain started q l where "http_job env pt ep job stage inputs settings started timeout workdir (Now # w) = (q, l)"
    "w' = Request ''DELETE'' (job_path job []) No_body RUNNER_REQUEST_SECONDS # l"
    using assms by (auto simp: run_http_def mbind_split mcall_iff mfinally_iff suppress_runner)
  moreover from http_job_log [OF this(1)] obtain U S T where "l = T @ S @ U @ Now # w"
    "list_all (upload_call job) U" "stage_log env job (U @ Now # w) S" "list_all (fetch_call job) T"
    by blast
  ultimately show ?thesis by (intro exI [of _ U] exI [of _ S] exI [of _ T]) simp
qed

section \<open>Witnesses\<close>

text \<open>A report of a machine that matches the recipe, the plugin registered with it, and an engine that
  produces a file of four bytes.\<close>

definition demo_pt :: py_text where
  "demo_pt = \<lparr>pt_str = \<lambda>_. ''v'', pt_repr = \<lambda>_. ''v'', pt_secs = \<lambda>_. ''0''\<rparr>"

definition demo_pins :: payload where
  "demo_pins = [(''commit'', jopt (er_engine_commit MESH3D_RECIPE)),
     (''sources_lock_sha256'', jopt (er_sources_lock_sha256 MESH3D_RECIPE)),
     (''weights_lock_sha256'', jopt (er_weights_lock_sha256 MESH3D_RECIPE))]"

definition demo_report :: payload where
  "demo_report =
     [(''engine'', JObj ((''version'', JStr ''1'') # demo_pins)),
      (''runtimes'', JObj [(''trellis'', JObj [(''native_contract'', JObj [(''cuda_architecture'', JStr ''8.9'')]),
                                               (''torch'', JStr ''2'')]),
                           (''blender'', JObj [(''version'', JStr ''Blender 4.2.23 LTS'')])]),
      (''weights'', JObj [(''files'', JArr (map (\<lambda>w. JObj [(''weight_id'', JStr w), (''status'', JStr ''ok'')])
         (recipe_weight_ids MESH3D_RECIPE)))]),
      (''offline'', JBool True),
      (''gpus'', JArr [JObj [(''compute_capability'', JStr ''8.9''), (''memory_mb'', JInt 24564),
                             (''name'', JStr ''RTX 4090'')]])]"

definition demo_registered :: versions where
  "demo_registered = (case engine_versions demo_pt MESH3D demo_report of Inr v \<Rightarrow> v | Inl _ \<Rightarrow> [])"

lemma demo_no_problems: "report_problems demo_pt MESH3D_RECIPE demo_report = []"
  by code_simp

lemma mesh3d_profile: "\<exists>spec. engine_profile MESH3D = Inr (spec, MESH3D_RECIPE)"
  by (simp add: engine_profile_def PROFILES_def STANDARD_def LIGHTX8_def SUBJECT12_def MESH3D_def)

lemma demo_versions: "engine_versions demo_pt MESH3D demo_report = Inr demo_registered"
  using mesh3d_profile by (auto simp: demo_registered_def engine_versions_def Let_def demo_no_problems)

theorem engine_versions_pinned_witness:
  "report_ok demo_pt MESH3D_RECIPE demo_report \<and>
   map_of demo_registered ''aismith_engine_commit'' = er_engine_commit MESH3D_RECIPE"
  using engine_versions_pinned [OF demo_versions] by simp

definition demo_engine_lease :: lease_grant where
  "demo_engine_lease = demo_lease\<lparr>lg_capability_id := MESH3D_CLEAN_CAPABILITY, lg_contract_version := 1,
     lg_input_keys := [''m''],
     lg_payload := [(''inputs'', JObj [(''mesh'', JStr ''m'')]), (''quality_tier'', JStr ''draft'')]\<rparr>"

definition demo_engine_request :: validated_request where
  "demo_engine_request = \<lparr>vr_capability_id = MESH3D_CLEAN_CAPABILITY, vr_contract_version = 1,
     vr_inputs = [(''quality_tier'', JStr ''draft''), (''inputs'', JObj [(''mesh'', JStr ''m'')])],
     vr_seed = None\<rparr>"

lemma demo_engine_accepted: "engine_validate MESH3D_RECIPE demo_engine_lease = Inr demo_engine_request"
  by code_simp

theorem engine_validate_sound_witness:
  "engine_request_ok MESH3D_CLEAN_STAGE demo_engine_lease demo_engine_request"
proof -
  have "stage_for MESH3D_RECIPE (lg_capability_id demo_engine_lease) = Some MESH3D_CLEAN_STAGE" by code_simp
  then show ?thesis using engine_validate_sound [OF demo_engine_accepted] by simp
qed

definition demo_glb :: bytes where "demo_glb = encode ''glTF''"

definition demo_result :: payload where
  "demo_result =
     [(''status'', JStr ''ok''), (''stage'', JStr ''clean''), (''schema_version'', JInt 1),
      (''engine'', JObj demo_pins),
      (''output'', JObj [(''path'', JStr ''o.glb''), (''content_type'', JStr GLB_CONTENT_TYPE), (''bytes'', JInt 4),
         (''sha256'', JStr (sha256_hex demo_glb))]),
      (''effective_inputs'', JObj [(''quality_tier'', JStr ''draft'')])]"

definition demo_engine_env :: engine_env where
  "demo_engine_env =
     \<lparr>en_now = \<lambda>_. 0, en_inspect = \<lambda>_. Inspect_exit 0 [], en_http_inspect = \<lambda>_. Runner_timeout,
      en_loads = \<lambda>_. Some (JObj demo_report), en_mkdir = \<lambda>_. Inr (), en_read = \<lambda>_. Inr demo_glb,
      en_write = \<lambda>_. Inr (), en_request = \<lambda>_. Runner_status 204 None, en_wait = \<lambda>_. Run_cancelled,
      en_fetch = \<lambda>_. Fetch_failed Fetch_timeout, en_run = \<lambda>_. Inr (Stage_exit 0),
      en_result = \<lambda>_. Some (JObj demo_result), en_symlink = \<lambda>_. False, en_inside = \<lambda>_ _. True,
      en_is_file = \<lambda>_. True\<rparr>"

definition demo_engine :: engine_plugin where
  "demo_engine = \<lparr>ep_profile = MESH3D, ep_recipe = MESH3D_RECIPE, ep_versions = demo_registered,
     ep_command = [AISMITH_ENGINE], ep_namespaced = False, ep_inspect_timeout_seconds = 600, ep_url = None\<rparr>"

theorem runner_job_deleted_witness:
  "hd (snd (run_http demo_engine_env demo_pt demo_engine ''j'' MESH3D_CLEAN_STAGE [] [] 60 ([], []) [])) =
     Request ''DELETE'' ''/jobs/j'' No_body RUNNER_REQUEST_SECONDS"
proof -
  have id: "full_match RUNNER_JOB_ID ''j''" by code_simp
  obtain r w' where run: "run_http demo_engine_env demo_pt demo_engine ''j'' MESH3D_CLEAN_STAGE [] [] 60 ([], []) [] =
      (r, w')" by fastforce
  show ?thesis using runner_job_deleted [OF id run] run by (auto simp: job_path_def)
qed

text \<open>A bound on the length of the canonical text.\<close>

fun enc_size :: "json \<Rightarrow> nat" where
  "enc_size (JBool b) = 5"
| "enc_size (JInt i) = length (int_str i)"
| "enc_size (JFloat r _) = length r"
| "enc_size (JStr s) = 6 * length s + 2"
| "enc_size (JArr vs) = 2 + sum_list (map (\<lambda>v. enc_size v + 1) vs)"
| "enc_size (JObj kvs) = 2 + sum_list (map (\<lambda>p. 6 * length (fst p) + 4 + enc_size (snd p)) kvs)"
| "enc_size JNull = 4"

lemma length_join: "length (join_with [c] xs) \<le> sum_list (map (\<lambda>x. length x + 1) xs)"
  by (induction "[c]" xs rule: join_with.induct) auto

lemma length_enc_str: "length (enc_str s) \<le> 6 * length s + 2"
proof -
  have "length (esc_char c) \<le> 6" for c by (simp add: esc_char_def Let_def)
  then have "length (concat (map esc_char s)) \<le> 6 * length s"
    by (induction s) (auto simp: le_trans add_le_mono intro: order_trans [OF add_mono])
  then show ?thesis by (simp add: enc_str_def)
qed

lemma sum_list_sort_key: "sum_list (map f (sort_key g xs)) = (sum_list (map f xs) :: nat)"
  by (metis mset_map mset_sort sum_mset_sum_list)

lemma length_enc: "length (enc j) \<le> enc_size j"
proof (induction j)
  case (JStr s)
  then show ?case using length_enc_str by simp
next
  case (JArr vs)
  have "sum_list (map (\<lambda>x. length x + 1) (map enc vs)) \<le> sum_list (map (\<lambda>v. enc_size v + 1) vs)"
    using JArr by (simp only: map_map o_def, intro sum_list_mono) (simp add: JArr)
  then show ?case using length_join [of "CHR '',''" "map enc vs"] by simp
next
  case (JObj kvs)
  let ?t = "\<lambda>p. enc_str (fst p) @ '':'' @ snd p"
  let ?ps = "map (\<lambda>(k, v). (k, enc v)) kvs"
  have "length (enc_members (sort_key fst ?ps)) \<le> sum_list (map (\<lambda>x. length x + 1) (map ?t (sort_key fst ?ps)))"
    unfolding enc_members_def case_prod_beta by (rule length_join)
  also have "\<dots> = sum_list (map (\<lambda>p. length (?t p) + 1) ?ps)"
    by (simp only: map_map o_def sum_list_sort_key)
  also have "\<dots> \<le> sum_list (map (\<lambda>p. 6 * length (fst p) + 4 + enc_size (snd p)) kvs)"
  proof -
    have "length (?t (k, enc v)) + 1 \<le> 6 * length k + 4 + enc_size v" if "(k, v) \<in> set kvs" for k v
      using JObj [OF that] length_enc_str [of k] by simp
    then show ?thesis by (simp only: map_map o_def, intro sum_list_mono) (auto simp: case_prod_beta)
  qed
  finally show ?case by simp
qed auto

lemma length_encode: "length (encode s) \<le> 2 * length s"
proof -
  have "length (utf8_char c) \<le> 2" for c by (simp add: utf8_char_def Let_def)
  then show ?thesis by (induction s) (auto simp: encode_def intro: order_trans [OF add_mono])
qed

lemma small_payload:
  assumes "2 * enc_size (JObj d) \<le> MAX_JOB_PAYLOAD_BYTES" "json_depth (JObj d) \<le> MAX_JOB_PAYLOAD_DEPTH"
    "finite_json (JObj d)"
  shows "validate_job_payload d = Inr ()"
  using assms length_enc [of "JObj d"] length_encode [of "enc (JObj d)"]
  unfolding validate_job_payload_iff by linarith

definition demo_diagnostics :: payload where
  "demo_diagnostics = engine_diagnostics demo_engine MESH3D_CLEAN_STAGE demo_engine_request demo_registered demo_result"

lemma demo_facts:
  "section_of demo_report [''engine''] = (''version'', JStr ''1'') # demo_pins"
  "section_of demo_report [''runtimes'', ''trellis''] =
     [(''native_contract'', JObj [(''cuda_architecture'', JStr ''8.9'')]), (''torch'', JStr ''2'')]"
  "blender_version demo_pt demo_report = ''Blender 4.2.23 LTS''"
  by code_simp+

lemma demo_registered_shape:
  obtains spec config where "length config = 64" "length (profile_recipe_version MESH3D spec) = 64"
    "demo_registered =
    [(RECIPE_KEY, profile_recipe_version MESH3D spec), (''magic_profile'', MESH3D),
     (''aismith_engine_version'', ''1''), (''aismith_engine_commit'', the (er_engine_commit MESH3D_RECIPE)),
     (''aismith_sources_lock'', the (er_sources_lock_sha256 MESH3D_RECIPE)),
     (''aismith_weights_lock'', the (er_weights_lock_sha256 MESH3D_RECIPE)),
     (''gpu_compute_capability'', ''8.9''), (''blender'', ''Blender 4.2.23 LTS''), (''trellis_torch'', ''2''),
     (CONFIG_KEY, config)]"
proof -
  obtain spec where p: "engine_profile MESH3D = Inr (spec, MESH3D_RECIPE)" using mesh3d_profile by blast
  then have "mp_engine spec \<noteq> None" by (auto simp: engine_profile_def split: option.splits)
  then have len: "length (profile_recipe_version MESH3D spec) = 64"
    by (auto simp: profile_recipe_version_def recipe_version_def engine_recipe_version_def sha256_hex_length)
  obtain spec' recipe' config where v: "engine_profile MESH3D = Inr (spec', recipe')" "length config = 64"
    "demo_registered = [(RECIPE_KEY, profile_recipe_version MESH3D spec'), (''magic_profile'', MESH3D),
       (''aismith_engine_version'', str_of (pt_str demo_pt) (pget (section_of demo_report [''engine'']) ''version'')),
       (''aismith_engine_commit'', str_of (pt_str demo_pt) (pget (section_of demo_report [''engine'']) ''commit'')),
       (''aismith_sources_lock'', str_of (pt_str demo_pt) (pget (section_of demo_report [''engine'']) ''sources_lock_sha256'')),
       (''aismith_weights_lock'', str_of (pt_str demo_pt) (pget (section_of demo_report [''engine'']) ''weights_lock_sha256'')),
       (''gpu_compute_capability'', er_cuda_architecture recipe'), (''blender'', blender_version demo_pt demo_report),
       (''trellis_torch'', str_of (pt_str demo_pt) (pget (section_of demo_report [''runtimes'', ''trellis'']) ''torch''))]
      @ [(CONFIG_KEY, config)]"
    using demo_versions by (rule engine_versions_Inr)
  with p have "spec' = spec" "recipe' = MESH3D_RECIPE" by auto
  then show thesis
    using that [OF v(2) len] v(3)
    by (simp add: demo_facts demo_pins_def MESH3D_RECIPE_def jopt_def str_of_def pget_def)
qed

lemma demo_diagnostics_fit: "validate_job_payload demo_diagnostics = Inr ()"
proof -
  obtain spec config where len: "length config = 64" "length (profile_recipe_version MESH3D spec) = 64"
    and v: "demo_registered =
      [(RECIPE_KEY, profile_recipe_version MESH3D spec), (''magic_profile'', MESH3D),
       (''aismith_engine_version'', ''1''), (''aismith_engine_commit'', the (er_engine_commit MESH3D_RECIPE)),
       (''aismith_sources_lock'', the (er_sources_lock_sha256 MESH3D_RECIPE)),
       (''aismith_weights_lock'', the (er_weights_lock_sha256 MESH3D_RECIPE)),
       (''gpu_compute_capability'', ''8.9''), (''blender'', ''Blender 4.2.23 LTS''), (''trellis_torch'', ''2''),
       (CONFIG_KEY, config)]"
    by (rule demo_registered_shape)
  have d: "demo_diagnostics =
     [(''runtime_versions'', JObj (map (\<lambda>(k, v). (k, JStr v)) demo_registered)),
      (''effective_inputs'', JObj [(''quality_tier'', JStr ''draft'')]),
      (''engine_effective_inputs'', JObj [(''quality_tier'', JStr ''draft'')]),
      (''stage'', JStr ''clean''), (''engine'', JObj demo_pins), (''gate'', JNull), (''measured'', JNull),
      (''weights'', JNull), (''timings_s'', JNull)]"
    by (simp add: demo_diagnostics_def engine_diagnostics_def demo_result_def obj_at_def pget_def
        MESH3D_CLEAN_STAGE_def demo_engine_request_def Let_def)
  show ?thesis
    unfolding d
    by (intro small_payload)
      (simp_all add: v len [unfolded MESH3D_def] demo_pins_def MESH3D_RECIPE_def jopt_def RECIPE_KEY_def CONFIG_KEY_def MESH3D_def
        MAX_JOB_PAYLOAD_BYTES_def MAX_JOB_PAYLOAD_DEPTH_def)
qed

definition demo_engine_output :: "path plugin_output" where
  "demo_engine_output = \<lparr>po_path = ([], [''engine'', ''o.glb'']), po_content_type = GLB_CONTENT_TYPE,
     po_model_id = AISMITH_ENGINE @ ''/clean'', po_model_version = the (er_engine_commit MESH3D_RECIPE),
     po_seed = None, po_diagnostics = demo_diagnostics\<rparr>"

lemma demo_lookup:
  "map_of demo_registered ''aismith_engine_commit'' = er_engine_commit MESH3D_RECIPE"
  "map_of demo_registered ''aismith_sources_lock'' = er_sources_lock_sha256 MESH3D_RECIPE"
  "map_of demo_registered ''aismith_weights_lock'' = er_weights_lock_sha256 MESH3D_RECIPE"
  "map_of demo_registered ''blender'' = Some ''Blender 4.2.23 LTS''"
proof -
  obtain spec config where v: "demo_registered =
      [(RECIPE_KEY, profile_recipe_version MESH3D spec), (''magic_profile'', MESH3D),
       (''aismith_engine_version'', ''1''), (''aismith_engine_commit'', the (er_engine_commit MESH3D_RECIPE)),
       (''aismith_sources_lock'', the (er_sources_lock_sha256 MESH3D_RECIPE)),
       (''aismith_weights_lock'', the (er_weights_lock_sha256 MESH3D_RECIPE)),
       (''gpu_compute_capability'', ''8.9''), (''blender'', ''Blender 4.2.23 LTS''), (''trellis_torch'', ''2''),
       (CONFIG_KEY, config)]"
    by (rule demo_registered_shape)
  show "map_of demo_registered ''aismith_engine_commit'' = er_engine_commit MESH3D_RECIPE"
    "map_of demo_registered ''aismith_sources_lock'' = er_sources_lock_sha256 MESH3D_RECIPE"
    "map_of demo_registered ''aismith_weights_lock'' = er_weights_lock_sha256 MESH3D_RECIPE"
    "map_of demo_registered ''blender'' = Some ''Blender 4.2.23 LTS''"
    unfolding v by (simp_all add: RECIPE_KEY_def MESH3D_RECIPE_def)
qed

lemma demo_result_checked: "checked_result demo_pt demo_engine MESH3D_CLEAN_STAGE demo_result = Inr ()"
  by (simp add: checked_result_def demo_result_def demo_engine_def registered_def demo_lookup Let_def pget_def
      obj_at_def demo_pins_def MESH3D_CLEAN_STAGE_def ENGINE_SPEC_SCHEMA_VERSION_def num_eq_def MESH3D_RECIPE_def jopt_def)

lemma demo_output_checked:
  "checked_output demo_pt [(''path'', JStr ''o.glb''), (''content_type'', JStr GLB_CONTENT_TYPE), (''bytes'', JInt 4),
     (''sha256'', JStr (sha256_hex demo_glb))] demo_glb = Inr ()"
proof -
  have "demo_glb = encode ''glTF''" "length demo_glb = 4" "take 4 demo_glb = encode ''glTF''" by code_simp+
  then show ?thesis by (simp add: checked_output_def pget_def num_eq_def)
qed

lemma demo_local_run:
  "\<exists>w'. run_local demo_engine_env demo_pt demo_engine ([], []) MESH3D_CLEAN_STAGE [(''mesh'', ([], [''m'']))]
     [(''quality_tier'', JStr ''draft'')] t ([], [''engine'']) w =
     (Inr (demo_result, ([], [''engine'', ''o.glb'']), demo_glb), w')"
proof -
  have p: "path_join ([], [''engine'']) ''o.glb'' = ([], [''engine'', ''o.glb''])" by code_simp
  have o: "pget demo_result ''output'' = JObj [(''path'', JStr ''o.glb''), (''content_type'', JStr GLB_CONTENT_TYPE),
     (''bytes'', JInt 4), (''sha256'', JStr (sha256_hex demo_glb))]" "pget demo_result ''status'' = JStr ''ok''"
    by (simp_all add: demo_result_def pget_def)
  have s: "pget [(''path'', JStr ''o.glb''), (''content_type'', JStr GLB_CONTENT_TYPE),
     (''bytes'', JInt 4), (''sha256'', JStr (sha256_hex demo_glb))] ''path'' = JStr ''o.glb''"
    by (simp add: pget_def)
  show ?thesis
    unfolding run_local_def Let_def
    by (simp add: mbind_def mcall_def mlift_def mreturn_def demo_engine_env_def exit_status_def o s p
        demo_result_checked demo_output_checked)
qed

lemma demo_stage:
  "stage_for (ep_recipe demo_engine) (vr_capability_id demo_engine_request) = Some MESH3D_CLEAN_STAGE"
  by (simp add: demo_engine_def demo_engine_request_def stage_for_def MESH3D_RECIPE_def
      MESH3D_MESH_STAGE_def MESH3D_CLEAN_STAGE_def MESH3D_MESH_CAPABILITY_def MESH3D_CLEAN_CAPABILITY_def)

lemma demo_engine_run:
  "\<exists>w'. engine_execute demo_engine_env demo_pt demo_engine ''j'' ([], []) [(''m'', ([], [''m'']))] 1000
     demo_engine_request [] = (Inr (demo_engine_output, demo_glb), w')"
proof -
  note st = demo_stage
  have eq: "dict_eq demo_registered demo_registered"
    using engine_versions_distinct [OF demo_versions] by (rule dict_eq_refl)
  have wd: "path_join ([], []) ''engine'' = ([], [''engine''])" by code_simp
  have insp: "inspect_for_job demo_engine_env demo_pt demo_engine 1000 w = (Inr demo_report, Inspect 600 # Now # w)" for w
    by (simp add: inspect_for_job_def inspect_engine_def run_inspect_def demo_engine_env_def demo_engine_def
        mbind_def mcall_def mcatch_def Let_def)
  obtain w' where run: "run_local demo_engine_env demo_pt demo_engine ([], []) MESH3D_CLEAN_STAGE
     [(''mesh'', ([], [''m'']))] [(''quality_tier'', JStr ''draft'')] 600 ([], [''engine''])
     [Now, Make_dir ([], [''engine'']), Inspect 600, Now] =
     (Inr (demo_result, ([], [''engine'', ''o.glb'']), demo_glb), w')"
    using demo_local_run by blast
  have ep: "ep_profile demo_engine = MESH3D" "ep_versions demo_engine = demo_registered" "ep_url demo_engine = None"
    "engine_attested demo_engine v = Inr v" for v
    by (simp_all add: demo_engine_def engine_attested_def)
  have env: "en_now demo_engine_env l = 0" "en_mkdir demo_engine_env l = Inr ()" for l
    by (simp_all add: demo_engine_env_def)
  have req: "map_of (vr_inputs demo_engine_request) INPUTS_PAYLOAD_KEY = Some (JObj [(''mesh'', JStr ''m'')])"
    "concat (map (\<lambda>(n, _). case map_of (vr_inputs demo_engine_request) n of None \<Rightarrow> [] | Some v \<Rightarrow> [(n, v)])
       (es_settings MESH3D_CLEAN_STAGE)) = [(''quality_tier'', JStr ''draft'')]"
    "bound_paths [(''m'', ([], [''m'']))] [(''mesh'', JStr ''m'')] = Inr [(''mesh'', ([], [''m'']))]"
    "es_deadline_seconds MESH3D_CLEAN_STAGE = 600" "es_stage MESH3D_CLEAN_STAGE = ''clean''"
    "vr_seed demo_engine_request = None"
    by code_simp+
  have fit: "bounded (engine_diagnostics demo_engine MESH3D_CLEAN_STAGE demo_engine_request demo_registered demo_result)
      = Inr demo_diagnostics"
    using demo_diagnostics_fit by (simp add: bounded_def demo_diagnostics_def)
  have reg: "registered demo_engine ''aismith_engine_commit'' = Inr (the (er_engine_commit MESH3D_RECIPE))"
    by (simp add: registered_def ep demo_lookup MESH3D_RECIPE_def)
  show ?thesis
    unfolding engine_execute_def st option.case Let_def wd
    by (simp add: mbind_def mcall_def mlift_def insp ep env demo_versions eq req run fit reg demo_engine_output_def
        del: concat.simps)
qed


theorem engine_attestation_accepted_witness:
  "matches (pget (po_diagnostics demo_engine_output) ''runtime_versions'') [(''blender'', JStr ''Blender 4.2.23 LTS'')]"
proof -
  obtain w' where "engine_execute demo_engine_env demo_pt demo_engine ''j'' ([], []) [(''m'', ([], [''m'']))] 1000
     demo_engine_request [] = (Inr (demo_engine_output, demo_glb), w')"
    using demo_engine_run by blast
  moreover have "\<not> ep_namespaced demo_engine" "distinct (keys (ep_versions demo_engine))"
    using engine_versions_distinct [OF demo_versions] by (simp_all add: demo_engine_def)
  moreover have "\<forall>(k, v) \<in> set [(''blender'', ''Blender 4.2.23 LTS'')]. map_of (ep_versions demo_engine) k = Some v"
    using demo_lookup(4) by (simp add: demo_engine_def)
  ultimately show ?thesis using engine_attestation_accepted by fastforce
qed

end
