(* ===== verification/Gcs.thy ===== *)
theory Gcs
  imports Effects AssetStore
begin

text \<open>
  \<open>assets/gcs.py\<close>: the Google Cloud Storage asset store. The cloud libraries are the record
  \<open>gcs_env\<close>: what each call of a client, a blob or the credentials answers, as a function of the
  calls made so far. The fields of the store are \<open>gcs_store\<close>; \<open>start\<close>, \<open>stop\<close> and the signing of a
  URL change them, also when they raise. \<open>bucket_env\<close> is the documented behaviour of a bucket whose
  only writer is the store: an upload with \<open>ifGenerationMatch=0\<close> succeeds exactly when the object does
  not exist.
\<close>

section \<open>The cloud\<close>

text \<open>Expiration in seconds, and the keyword arguments of the call.\<close>

record signing =
  sg_method :: string
  sg_expiration :: int
  sg_account :: string
  sg_token :: string
  sg_content_type :: "string option"
  sg_query :: "(string, string) dict"

text \<open>A call names the bucket and the object; a download has the inclusive range and the generation.\<close>

datatype gcs_call =
    Auth_default
  | Refresh_credentials
  | New_client
  | List_blobs string
  | Reload string string
  | Download string string int int "int option"
  | Upload_blob string string bytes string int
  | Sign_url string string signing

text \<open>Exceptions: \<open>FileNotFoundError\<close> and \<open>NotFound\<close>, the configured precondition exception,
  \<open>RuntimeError\<close>, those of contracts.py, and any other.\<close>

datatype gcs_exn =
    Missing_object
  | Precondition_failed
  | Runtime_error string
  | Raised exn
  | Cloud_error string

record blob_facts =
  bf_size :: "int option"
  bf_generation :: "int option"
  bf_content_type :: "string option"

record gcs_env =
  ge_default :: "gcs_call list \<Rightarrow> gcs_exn + unit"
  ge_refresh :: "gcs_call list \<Rightarrow> gcs_exn + string option"
  ge_client :: "gcs_call list \<Rightarrow> gcs_exn + unit"
  ge_list :: "gcs_call list \<Rightarrow> gcs_exn + unit"
  ge_reload :: "gcs_call list \<Rightarrow> gcs_exn + blob_facts"
  ge_download :: "gcs_call list \<Rightarrow> gcs_exn + bytes"
  ge_upload :: "gcs_call list \<Rightarrow> gcs_exn + unit"
  ge_sign :: "gcs_call list \<Rightarrow> gcs_exn + string"

type_synonym 'a gcs_run = "(gcs_call, gcs_exn, 'a) run"

section \<open>The store\<close>

definition READ_URL_LIFETIME :: int where "READ_URL_LIFETIME = 5 * 60"
definition OUTPUT_UPLOAD_URL_LIFETIME :: int where "OUTPUT_UPLOAD_URL_LIFETIME = 15 * 60"
definition CREATE_ONCE_QUERY_PARAMETERS :: "(string, string) dict" where
  "CREATE_ONCE_QUERY_PARAMETERS = [(''ifGenerationMatch'', ''0'')]"

text \<open>\<open>gs_client\<close> and \<open>gs_ambient\<close>: whether \<open>_client\<close> and \<open>_ambient_credentials\<close> are set.\<close>

record gcs_store =
  gs_bucket :: string
  gs_client :: bool
  gs_account :: "string option"
  gs_token :: "string option"
  gs_read_prefixes :: "string list"
  gs_output_prefixes :: "string list"
  gs_ambient :: bool

definition new_gcs_store :: "string \<Rightarrow> string option \<Rightarrow> string list \<Rightarrow> string list \<Rightarrow> gcs_store" where
  "new_gcs_store bucket account read_prefixes output_prefixes =
     \<lparr>gs_bucket = bucket, gs_client = False, gs_account = account, gs_token = None,
      gs_read_prefixes = read_prefixes, gs_output_prefixes = output_prefixes, gs_ambient = False\<rparr>"

text \<open>The first half of \<open>start\<close>: the ambient credentials and a client, unless one was given.\<close>

definition gcs_connect :: "gcs_env \<Rightarrow> gcs_store \<Rightarrow> gcs_call list \<Rightarrow> (gcs_exn + unit) \<times> gcs_store \<times> gcs_call list"
where
  "gcs_connect env s w =
     (if gs_client s then (Inr (), s, w)
      else case mbind (mcall Auth_default (ge_default env))
                  (\<lambda>_. mcall Refresh_credentials (ge_refresh env)) w of
        (Inl e, w1) \<Rightarrow> (Inl e, s, w1)
      | (Inr token, w1) \<Rightarrow>
          (case mcall New_client (ge_client env) w1 of
             (Inl e, w2) \<Rightarrow> (Inl e, s\<lparr>gs_ambient := True, gs_token := token\<rparr>, w2)
           | (Inr _, w2) \<Rightarrow> (Inr (), s\<lparr>gs_ambient := True, gs_token := token, gs_client := True\<rparr>, w2)))"

definition gcs_start :: "gcs_env \<Rightarrow> gcs_store \<Rightarrow> gcs_call list \<Rightarrow> (gcs_exn + unit) \<times> gcs_store \<times> gcs_call list"
where
  "gcs_start env s w =
     (case gcs_connect env s w of
        (Inl e, s1, w1) \<Rightarrow> (Inl e, s1, w1)
      | (Inr _, s1, w1) \<Rightarrow>
          (case mcatch (mcall (List_blobs (gs_bucket s1)) (ge_list env))
                  (\<lambda>_. mraise (Runtime_error (''asset bucket is unavailable: '' @ gs_bucket s1))) w1 of
             (r, w2) \<Rightarrow> (r, s1, w2)))"

definition gcs_stop :: "gcs_store \<Rightarrow> gcs_store" where
  "gcs_stop s =
     (if gs_ambient s then s\<lparr>gs_client := False, gs_ambient := False, gs_token := None\<rparr> else s)"

section \<open>Keys\<close>

definition validate_object_key :: "string \<Rightarrow> gcs_exn + string" where
  "validate_object_key key =
     (if key = [] \<or> starts_with_any key [''/'', ''gs://''] \<or> path_str (path_of key) \<noteq> key
         \<or> ''..'' \<in> set (snd (path_of key))
      then Inl (Raised (ValueError ''GCS object key must be a normalized relative path''))
      else Inr key)"

definition gcs_require_prefix :: "string \<Rightarrow> string list \<Rightarrow> string \<Rightarrow> gcs_exn + unit" where
  "gcs_require_prefix key allowed grant =
     ensure (starts_with_any key allowed)
       (Raised (ValueError (''signed '' @ grant @ '' key must be in one of: '' @ join_with '', '' allowed)))"

text \<open>\<open>_blob\<close>: it only needs the client.\<close>

definition gcs_blob :: "gcs_store \<Rightarrow> gcs_exn + unit" where
  "gcs_blob s = ensure (gs_client s) (Runtime_error ''GCS asset store has not started'')"

definition unavailable :: "'e \<Rightarrow> 'a gcs_run" where
  "unavailable _ = mraise (Raised AssetStorageUnavailable)"

section \<open>Grants\<close>

text \<open>\<open>_signed_url\<close>: the refresh of the ambient token, which the store keeps, then the signature.\<close>

definition refresh_token :: "gcs_env \<Rightarrow> gcs_store \<Rightarrow> gcs_store gcs_run" where
  "refresh_token env s =
     (if gs_ambient s
      then mbind (mcatch (mcall Refresh_credentials (ge_refresh env)) unavailable)
             (\<lambda>token. mreturn (s\<lparr>gs_token := token\<rparr>))
      else mreturn s)"

text \<open>The truth value of an optional string.\<close>

definition given :: "string option \<Rightarrow> bool" where
  "given v \<longleftrightarrow> v \<noteq> None \<and> v \<noteq> Some []"

definition sign_with ::
  "gcs_env \<Rightarrow> gcs_store \<Rightarrow> string \<Rightarrow> string \<Rightarrow> int \<Rightarrow> string option \<Rightarrow> (string, string) dict \<Rightarrow> string gcs_run"
where
  "sign_with env s key http_method expiration content_type query =
     (if \<not> given (gs_account s) \<or> \<not> given (gs_token s)
      then mraise (Runtime_error ''IAM signing credentials are not configured'')
      else mbind (mlift (gcs_blob s)) (\<lambda>_.
        mcatch (mcall (Sign_url (gs_bucket s) key
            \<lparr>sg_method = http_method, sg_expiration = expiration, sg_account = the (gs_account s),
             sg_token = the (gs_token s), sg_content_type = content_type, sg_query = query\<rparr>) (ge_sign env))
          unavailable))"

definition signed_url ::
  "gcs_env \<Rightarrow> string \<Rightarrow> string \<Rightarrow> int \<Rightarrow> string option \<Rightarrow> (string, string) dict \<Rightarrow> gcs_store \<Rightarrow>
     gcs_call list \<Rightarrow> (gcs_exn + string) \<times> gcs_store \<times> gcs_call list"
where
  "signed_url env key http_method expiration content_type query s w =
     (case refresh_token env s w of
        (Inl e, w1) \<Rightarrow> (Inl e, s, w1)
      | (Inr s1, w1) \<Rightarrow>
          (case sign_with env s1 key http_method expiration content_type query w1 of (r, w2) \<Rightarrow> (r, s1, w2)))"

definition gcs_create_read_url ::
  "gcs_env \<Rightarrow> string \<Rightarrow> gcs_store \<Rightarrow> gcs_call list \<Rightarrow> (gcs_exn + string) \<times> gcs_store \<times> gcs_call list"
where
  "gcs_create_read_url env key s w =
     (case ebind (validate_object_key key) (\<lambda>k. gcs_require_prefix k (gs_read_prefixes s) ''read'') of
        Inl e \<Rightarrow> (Inl e, s, w)
      | Inr _ \<Rightarrow> signed_url env key ''GET'' READ_URL_LIFETIME None [] s w)"

definition gcs_create_output_upload_url ::
  "gcs_env \<Rightarrow> string \<Rightarrow> string \<Rightarrow> gcs_store \<Rightarrow> gcs_call list \<Rightarrow> (gcs_exn + string) \<times> gcs_store \<times> gcs_call list"
where
  "gcs_create_output_upload_url env key content_type s w =
     (case ebind (validate_object_key key) (\<lambda>k. gcs_require_prefix k (gs_output_prefixes s) ''output upload'') of
        Inl e \<Rightarrow> (Inl e, s, w)
      | Inr _ \<Rightarrow>
          signed_url env key ''PUT'' OUTPUT_UPLOAD_URL_LIFETIME (Some content_type) CREATE_ONCE_QUERY_PARAMETERS s w)"

section \<open>Objects\<close>

definition gcs_describe :: "gcs_env \<Rightarrow> gcs_store \<Rightarrow> string \<Rightarrow> asset_descriptor option gcs_run" where
  "gcs_describe env s key =
     mbind (mlift (validate_object_key key)) (\<lambda>k.
     mbind (mlift (gcs_blob s)) (\<lambda>_.
     mcatch
       (mbind (mcall (Reload (gs_bucket s) k) (ge_reload env)) (\<lambda>b.
        mreturn (Some \<lparr>ad_key = k, ad_size = (case bf_size b of None \<Rightarrow> 0 | Some n \<Rightarrow> n),
                       ad_content_type = bf_content_type b\<rparr>)))
       (\<lambda>e. if e = Missing_object then mreturn None else unavailable e)))"

text \<open>The handlers of \<open>read_limited\<close>, in their order.\<close>

definition read_error :: "string \<Rightarrow> gcs_exn \<Rightarrow> gcs_exn" where
  "read_error k e =
     (case e of
        Missing_object \<Rightarrow> Raised (AssetNotFound k)
      | Raised (AssetTooLarge a m n) \<Rightarrow> e
      | _ \<Rightarrow> Raised AssetStorageUnavailable)"

definition gcs_read_limited :: "gcs_env \<Rightarrow> gcs_store \<Rightarrow> string \<Rightarrow> int \<Rightarrow> bytes gcs_run" where
  "gcs_read_limited env s key max_bytes =
     mbind (mlift (validate_object_key key)) (\<lambda>k.
     mbind (mlift (gcs_blob s)) (\<lambda>_.
     mbind
       (mcatch
         (mbind (mcall (Reload (gs_bucket s) k) (ge_reload env)) (\<lambda>b.
          case bf_size b of
            Some n \<Rightarrow>
              if n > max_bytes then mraise (Raised (AssetTooLarge k max_bytes (Some n)))
              else mcall (Download (gs_bucket s) k 0 max_bytes (bf_generation b)) (ge_download env)
          | None \<Rightarrow> mcall (Download (gs_bucket s) k 0 max_bytes (bf_generation b)) (ge_download env)))
         (\<lambda>e. mraise (read_error k e)))
       (\<lambda>content.
        if int (length content) > max_bytes
        then mraise (Raised (AssetTooLarge k max_bytes (Some (int (length content)))))
        else mreturn content)))"

definition gcs_write_once :: "gcs_env \<Rightarrow> gcs_store \<Rightarrow> string \<Rightarrow> bytes \<Rightarrow> string \<Rightarrow> bool gcs_run" where
  "gcs_write_once env s key content content_type =
     mbind (mlift (validate_object_key key)) (\<lambda>k.
     mbind (mlift (gcs_blob s)) (\<lambda>_.
     mcatch
       (mbind (mcall (Upload_blob (gs_bucket s) k content content_type 0) (ge_upload env)) (\<lambda>_. mreturn True))
       (\<lambda>e. if e = Precondition_failed then mreturn False else unavailable e)))"

section \<open>A bucket\<close>

text \<open>The object of a key after a list of calls, newest first: what the first create-once upload of it
  wrote.\<close>

fun bucket_object :: "string \<Rightarrow> gcs_call list \<Rightarrow> string \<Rightarrow> (bytes \<times> string) option" where
  "bucket_object b [] k = None"
| "bucket_object b (c # w) k =
     (case bucket_object b w k of
        Some x \<Rightarrow> Some x
      | None \<Rightarrow>
          (case c of
             Upload_blob b' k' content ty generation \<Rightarrow>
               if b' = b \<and> k' = k \<and> generation = 0 then Some (content, ty) else None
           | _ \<Rightarrow> None))"

text \<open>The documented answers of a bucket that is reachable.\<close>

definition bucket_env :: "gcs_env \<Rightarrow> string \<Rightarrow> bool" where
  "bucket_env env b \<longleftrightarrow>
     (\<forall>w k c ty. ge_upload env (Upload_blob b k c ty 0 # w) =
        (if bucket_object b w k = None then Inr () else Inl Precondition_failed)) \<and>
     (\<forall>w k. case bucket_object b w k of
        None \<Rightarrow> ge_reload env (Reload b k # w) = Inl Missing_object
      | Some (c, ty) \<Rightarrow> \<exists>g. ge_reload env (Reload b k # w) =
          Inr \<lparr>bf_size = Some (int (length c)), bf_generation = g, bf_content_type = Some ty\<rparr>) \<and>
     (\<forall>w k i j g c ty. bucket_object b w k = Some (c, ty) \<longrightarrow>
        ge_download env (Download b k i j g # w) = Inr (take (nat (j - i + 1)) (drop (nat i) c)))"

definition bucket_cloud :: gcs_env where
  "bucket_cloud =
     \<lparr>ge_default = (\<lambda>_. Inr ()), ge_refresh = (\<lambda>_. Inr (Some ''token'')), ge_client = (\<lambda>_. Inr ()),
      ge_list = (\<lambda>_. Inr ()),
      ge_reload = (\<lambda>w. case w of
          Reload b k # v \<Rightarrow>
            (case bucket_object b v k of
               None \<Rightarrow> Inl Missing_object
             | Some (c, ty) \<Rightarrow> Inr \<lparr>bf_size = Some (int (length c)), bf_generation = Some 1,
                 bf_content_type = Some ty\<rparr>)
        | _ \<Rightarrow> Inl (Cloud_error [])),
      ge_download = (\<lambda>w. case w of
          Download b k i j g # v \<Rightarrow>
            (case bucket_object b v k of
               None \<Rightarrow> Inl Missing_object | Some (c, ty) \<Rightarrow> Inr (take (nat (j - i + 1)) (drop (nat i) c)))
        | _ \<Rightarrow> Inl (Cloud_error [])),
      ge_upload = (\<lambda>w. case w of
          Upload_blob b k c ty g # v \<Rightarrow>
            if bucket_object b v k = None then Inr () else Inl Precondition_failed
        | _ \<Rightarrow> Inl (Cloud_error [])),
      ge_sign = (\<lambda>w. case w of Sign_url b k _ # _ \<Rightarrow> Inr (''https://signed/'' @ b @ ''/'' @ k)
                     | _ \<Rightarrow> Inl (Cloud_error []))\<rparr>"

lemma bucket_cloud_env: "bucket_env bucket_cloud b"
  by (auto simp: bucket_env_def bucket_cloud_def split: option.split)

section \<open>Operations in sequence\<close>

datatype asset_op =
    Put_asset string bytes string
  | Describe_asset string
  | Read_asset string int

datatype asset_answer =
    Wrote bool
  | Described "asset_descriptor option"
  | Content bytes

fun op_key :: "asset_op \<Rightarrow> string" where
  "op_key (Put_asset k _ _) = k"
| "op_key (Describe_asset k) = k"
| "op_key (Read_asset k _) = k"

definition mmap :: "('a \<Rightarrow> 'b) \<Rightarrow> ('c, 'e, 'a) run \<Rightarrow> ('c, 'e, 'b) run" where
  "mmap f m = mbind m (\<lambda>a. mreturn (f a))"

fun gcs_op :: "gcs_env \<Rightarrow> gcs_store \<Rightarrow> asset_op \<Rightarrow> asset_answer gcs_run" where
  "gcs_op env s (Put_asset k c ty) = mmap Wrote (gcs_write_once env s k c ty)"
| "gcs_op env s (Describe_asset k) = mmap Described (gcs_describe env s k)"
| "gcs_op env s (Read_asset k n) = mmap Content (gcs_read_limited env s k n)"

fun memory_op :: "asset_op \<Rightarrow> asset_store \<Rightarrow> (exn + asset_answer) \<times> asset_store" where
  "memory_op (Put_asset k c ty) m = (case write_once k c ty m of (b, m') \<Rightarrow> (Inr (Wrote b), m'))"
| "memory_op (Describe_asset k) m = (Inr (Described (describe k m)), m)"
| "memory_op (Read_asset k n) m = (ebind (read_limited k n m) (\<lambda>c. Inr (Content c)), m)"

fun gcs_ops :: "gcs_env \<Rightarrow> gcs_store \<Rightarrow> asset_op list \<Rightarrow> gcs_call list \<Rightarrow> (gcs_exn + asset_answer) list"
where
  "gcs_ops env s [] w = []"
| "gcs_ops env s (x # xs) w = (case gcs_op env s x w of (r, w') \<Rightarrow> r # gcs_ops env s xs w')"

fun memory_ops :: "asset_op list \<Rightarrow> asset_store \<Rightarrow> (exn + asset_answer) list" where
  "memory_ops [] m = []"
| "memory_ops (x # xs) m = (case memory_op x m of (r, m') \<Rightarrow> r # memory_ops xs m')"

text \<open>The memory store that holds the objects of the bucket.\<close>

definition represents :: "string \<Rightarrow> gcs_call list \<Rightarrow> asset_store \<Rightarrow> bool" where
  "represents b w m \<longleftrightarrow>
     map_of (as_assets m) = map_option fst \<circ> bucket_object b w \<and>
     map_of (as_content_types m) = map_option snd \<circ> bucket_object b w"

lemma no_upload_object: "(\<And>b k c ty g. x \<noteq> Upload_blob b k c ty g) \<Longrightarrow> bucket_object b (x # w) = bucket_object b w"
  by (cases x) (auto simp: fun_eq_iff split: option.split)

lemma upload_object:
  "bucket_object b (Upload_blob b k c ty 0 # w) =
     (if bucket_object b w k = None then (bucket_object b w)(k \<mapsto> (c, ty)) else bucket_object b w)"
  by (auto simp: fun_eq_iff split: option.split)

lemma bucket_env_download:
  "bucket_env env b \<Longrightarrow> bucket_object b w k = Some (c, ty) \<Longrightarrow>
     ge_download env (Download b k i j g # w) = Inr (take (nat (j - i + 1)) (drop (nat i) c))"
  by (auto simp: bucket_env_def)

lemma represents_lookup:
  assumes "represents b w m"
  shows "map_of (as_assets m) k = map_option fst (bucket_object b w k)"
    "map_of (as_content_types m) k = map_option snd (bucket_object b w k)"
    "k \<in> set (keys (as_assets m)) \<longleftrightarrow> bucket_object b w k \<noteq> None"
  using assms map_of_eq_None_iff [of "as_assets m" k] by (auto simp: represents_def)

lemma represents_call:
  "(\<And>b k c ty g. x \<noteq> Upload_blob b k c ty g) \<Longrightarrow> represents b (x # w) m = represents b w m"
  by (simp add: represents_def no_upload_object)

lemma put_step:
  assumes "bucket_env env (gs_bucket s)" "gs_client s" "validate_object_key k = Inr k"
    "represents (gs_bucket s) w m"
    "gcs_write_once env s k c ty w = (r, w')" "write_once k c ty m = (q, m')"
  shows "r = Inr q \<and> represents (gs_bucket s) w' m'"
proof -
  have up: "ge_upload env (Upload_blob (gs_bucket s) k c ty 0 # w) =
      (if bucket_object (gs_bucket s) w k = None then Inr () else Inl Precondition_failed)"
    using assms(1) by (simp add: bucket_env_def)
  show ?thesis
  proof (cases "bucket_object (gs_bucket s) w k")
    case None
    then show ?thesis
      using assms(2-6) up represents_lookup [OF assms(4), of k]
      by (auto simp: gcs_write_once_def write_once_def gcs_blob_def mbind_def mlift_def mcatch_def mcall_def
          mreturn_def represents_def fun_eq_iff upload_object simp del: bucket_object.simps)
  next
    case (Some p)
    have "represents (gs_bucket s) (Upload_blob (gs_bucket s) k c ty 0 # w) m"
      using assms(4) Some by (simp only: represents_def upload_object) simp
    then show ?thesis
      using assms(2-6) up represents_lookup [OF assms(4), of k] Some
      by (auto simp del: bucket_object.simps simp: gcs_write_once_def write_once_def gcs_blob_def mbind_def
          mlift_def mcatch_def mcall_def mreturn_def)
  qed
qed

lemma describe_step:
  assumes "bucket_env env (gs_bucket s)" "gs_client s" "validate_object_key k = Inr k"
    "represents (gs_bucket s) w m" "gcs_describe env s k w = (r, w')"
  shows "r = Inr (describe k m) \<and> represents (gs_bucket s) w' m"
proof -
  have re: "case bucket_object (gs_bucket s) w k of
        None \<Rightarrow> ge_reload env (Reload (gs_bucket s) k # w) = Inl Missing_object
      | Some (c, ty) \<Rightarrow> \<exists>g. ge_reload env (Reload (gs_bucket s) k # w) =
          Inr \<lparr>bf_size = Some (int (length c)), bf_generation = g, bf_content_type = Some ty\<rparr>"
    using assms(1) by (simp add: bucket_env_def)
  show ?thesis
  proof (cases "bucket_object (gs_bucket s) w k")
    case None
    then show ?thesis
      using assms(2-5) re represents_lookup [OF assms(4), of k]
      by (auto simp: gcs_describe_def describe_def gcs_blob_def mbind_def mlift_def mcatch_def mcall_def
          mreturn_def represents_call)
  next
    case (Some p)
    then obtain c ty where p: "bucket_object (gs_bucket s) w k = Some (c, ty)" by (cases p) auto
    then show ?thesis
      using assms(2-5) re represents_lookup [OF assms(4), of k]
      by (auto simp: gcs_describe_def describe_def gcs_blob_def mbind_def mlift_def mcatch_def mcall_def
          mreturn_def represents_call)
  qed
qed

lemma read_step:
  assumes "bucket_env env (gs_bucket s)" "gs_client s" "validate_object_key k = Inr k"
    "represents (gs_bucket s) w m" "gcs_read_limited env s k n w = (r, w')"
  shows "r = map_sum Raised (\<lambda>a. a) (read_limited k n m) \<and> represents (gs_bucket s) w' m"
proof -
  have re: "case bucket_object (gs_bucket s) w k of
        None \<Rightarrow> ge_reload env (Reload (gs_bucket s) k # w) = Inl Missing_object
      | Some (c, ty) \<Rightarrow> \<exists>g. ge_reload env (Reload (gs_bucket s) k # w) =
          Inr \<lparr>bf_size = Some (int (length c)), bf_generation = g, bf_content_type = Some ty\<rparr>"
    using assms(1) by (simp add: bucket_env_def)
  show ?thesis
  proof (cases "bucket_object (gs_bucket s) w k")
    case None
    then show ?thesis
      using assms(2-5) re represents_lookup [OF assms(4), of k]
      by (auto simp: gcs_read_limited_def read_limited_def asset_read_def gcs_blob_def mbind_def mlift_def
          mcatch_def mcall_def mraise_def represents_call read_error_def)
  next
    case (Some p)
    then obtain c ty where p: "bucket_object (gs_bucket s) w k = Some (c, ty)" by (cases p) auto
    with re obtain g where g: "ge_reload env (Reload (gs_bucket s) k # w) =
        Inr \<lparr>bf_size = Some (int (length c)), bf_generation = g, bf_content_type = Some ty\<rparr>" by auto
    have "bucket_object (gs_bucket s) (Reload (gs_bucket s) k # w) k = Some (c, ty)"
      using p by (simp add: no_upload_object)
    then have down: "ge_download env (Download (gs_bucket s) k 0 n g # Reload (gs_bucket s) k # w) =
        Inr (take (nat (n + 1)) c)"
      by (simp add: bucket_env_download [OF assms(1)])
    show ?thesis
    proof (cases "int (length c) > n")
      case True
      then show ?thesis
        using assms(2-5) g p represents_lookup [OF assms(4), of k]
        by (auto simp: gcs_read_limited_def read_limited_def asset_read_def gcs_blob_def mbind_def mlift_def
            mcatch_def mcall_def mraise_def represents_call read_error_def)
    next
      case False
      then have "take (nat (n + 1)) c = c" by simp
      then show ?thesis
        using False assms(2-5) g p down represents_lookup [OF assms(4), of k]
        by (auto simp: gcs_read_limited_def read_limited_def asset_read_def gcs_blob_def mbind_def mlift_def
            mcatch_def mcall_def mraise_def mreturn_def represents_call)
    qed
  qed
qed

lemma mmap_iff: "mmap f m w = (r, w') \<longleftrightarrow> (\<exists>q. m w = (q, w') \<and> r = map_sum (\<lambda>e. e) f q)"
  by (auto simp: mmap_def mbind_def mreturn_def split: prod.splits sum.splits)

lemma represents_step:
  assumes env: "bucket_env env (gs_bucket s)" "gs_client s"
    and key: "validate_object_key (op_key x) = Inr (op_key x)"
    and rep: "represents (gs_bucket s) w m"
    and run: "gcs_op env s x w = (r, w')" "memory_op x m = (q, m')"
  shows "r = map_sum Raised (\<lambda>a. a) q \<and> represents (gs_bucket s) w' m'"
proof (cases x)
  case (Put_asset k c ty)
  obtain b m1 where b: "write_once k c ty m = (b, m1)" by fastforce
  obtain p where p: "gcs_write_once env s k c ty w = (p, w')" "r = map_sum (\<lambda>e. e) Wrote p"
    using run(1) by (auto simp: Put_asset mmap_iff)
  have "p = Inr b \<and> represents (gs_bucket s) w' m1"
    using put_step [OF env _ rep p(1) b] key by (simp add: Put_asset)
  then show ?thesis using p(2) run(2) b by (auto simp: Put_asset)
next
  case (Describe_asset k)
  then show ?thesis
    using describe_step [OF env _ rep, of k] key run by (auto simp: mmap_iff)
next
  case (Read_asset k n)
  then show ?thesis
    using read_step [OF env _ rep, of k n] key run by (cases "read_limited k n m") (auto simp: mmap_iff)
qed

lemma gcs_ops_refine:
  assumes "bucket_env env (gs_bucket s)" "gs_client s" "represents (gs_bucket s) w m"
    "list_all (\<lambda>x. validate_object_key (op_key x) = Inr (op_key x)) xs"
  shows "gcs_ops env s xs w = map (map_sum Raised (\<lambda>a. a)) (memory_ops xs m)"
  using assms(3,4)
proof (induction xs arbitrary: w m)
  case (Cons x xs)
  obtain r w' q m' where runs: "gcs_op env s x w = (r, w')" "memory_op x m = (q, m')" by fastforce
  with represents_step [OF assms(1,2) _ Cons.prems(1) runs] Cons
  show ?case by auto
qed simp

section \<open>Normalized keys\<close>

definition plain_part :: "string \<Rightarrow> bool" where
  "plain_part p \<longleftrightarrow> p \<noteq> [] \<and> p \<noteq> ''.''"

lemma join_split: "join_with [c] (split_on c s) = s"
proof (induction s)
  case (Cons x s)
  have cons: "join_with [c] ((x # w) # ws) = x # join_with [c] (w # ws)" for w ws
    by (cases ws) simp_all
  obtain w ws where w: "split_on c s = w # ws" by (cases "split_on c s") auto
  with Cons show ?case by (simp add: cons)
qed simp

lemma join_length_parts: "xs \<noteq> [] \<Longrightarrow> length (join_with [c] xs) + 1 = sum_list (map (\<lambda>x. length x + 1) xs)"
  by (induction "[c]" xs rule: join_with.induct) auto

lemma sum_filter_less:
  "\<not> list_all P xs \<Longrightarrow>
     sum_list (map (\<lambda>x. length x + 1) (filter P xs)) < sum_list (map (\<lambda>x. length x + 1) (xs :: 'a list list))"
proof (induction xs)
  case (Cons x xs)
  have "sum_list (map (\<lambda>x. length x + 1) (filter P ys)) \<le> sum_list (map (\<lambda>x. length x + 1) ys)"
    for ys :: "'a list list"
    by (induction ys) auto
  with Cons show ?case by (cases "P x") (auto simp: le_imp_less_Suc trans_le_add2)
qed simp

lemma filtered_join:
  assumes "filter P (split_on c s) \<noteq> []"
  shows "join_with [c] (filter P (split_on c s)) = s \<longleftrightarrow> list_all P (split_on c s)"
proof
  assume "list_all P (split_on c s)"
  then have "filter P (split_on c s) = split_on c s" by (simp add: list_all_iff)
  then show "join_with [c] (filter P (split_on c s)) = s" by (simp add: join_split)
next
  assume eq: "join_with [c] (filter P (split_on c s)) = s"
  show "list_all P (split_on c s)"
  proof (rule ccontr)
    assume "\<not> list_all P (split_on c s)"
    from sum_filter_less [OF this] show False
      using join_length_parts [OF assms, of c] join_length_parts [OF split_on_not_Nil, of c c s] eq
      by (simp add: join_split)
  qed
qed

lemma validate_object_key_iff:
  "validate_object_key k = Inr k' \<longleftrightarrow>
     k' = k \<and> (k = ''.'' \<or> list_all (\<lambda>p. plain_part p \<and> p \<noteq> ''..'') (split_on (CHR ''/'') k))"
proof (cases "k = [] \<or> starts_with k ''/''")
  case True
  then have "[] \<in> set (split_on (CHR ''/'') k)" by (auto simp: starts_with_def elim: prefixE)
  then show ?thesis
    using True by (auto simp: validate_object_key_def starts_with_any_def list_all_iff plain_part_def starts_with_def)
next
  case False
  then have root: "path_root k = []"
    by (cases k) (auto simp: path_root_def Let_def starts_with_def)
  let ?ps = "split_on (CHR ''/'') k"
  have path: "path_of k = ([], filter plain_part ?ps)"
    by (simp add: path_of_def root plain_part_def [abs_def])
  have gs: "\<not> list_all plain_part ?ps" if "starts_with k ''gs://''"
    using that by (auto simp: starts_with_def plain_part_def elim!: prefixE split: list.splits)
  show ?thesis
  proof (cases "filter plain_part ?ps = []")
    case True
    then have "\<not> list_all plain_part ?ps" using split_on_not_Nil [of "CHR ''/''" k] 
      by (cases ?ps) (auto simp: filter_empty_conv)
    moreover have "\<not> starts_with ''.'' ''/''" "\<not> starts_with ''.'' ''gs://''" by (simp_all add: starts_with_def)
    ultimately show ?thesis
      using True path False
      by (auto simp: validate_object_key_def path_str_def starts_with_any_def list_all_iff)
  next
    case nonempty: False
    have "k \<noteq> ''.''" using nonempty by (auto simp: plain_part_def)
    moreover have "path_str (path_of k) = k \<longleftrightarrow> list_all plain_part ?ps"
      using filtered_join [OF nonempty] nonempty by (simp add: path path_str_def)
    ultimately show ?thesis
      using path False gs
      by (auto simp: validate_object_key_def starts_with_any_def list_all_iff)
  qed
qed

section \<open>Properties\<close>

text \<open>The object keys the store accepts: the key that it returns is the given one, and its parts
  between slashes are neither empty nor a dot nor two dots; the only other accepted key is the dot.
  So no accepted key is absolute, is a gs:// URL, or leaves the prefix it starts with.\<close>

theorem gcs_keys_normalized:
  "validate_object_key k = Inr k' \<longleftrightarrow>
     k' = k \<and> (k = ''.'' \<or> list_all (\<lambda>p. p \<notin> {[], ''.'', ''..''}) (split_on (CHR ''/'') k))"
  by (auto simp: validate_object_key_iff plain_part_def list_all_iff)


definition started_store :: gcs_store where
  "started_store = fst (snd (gcs_start bucket_cloud
     (new_gcs_store ''assets'' (Some ''signer'') [''inputs/''] [''outputs/'']) []))"


text \<open>A signed URL, and the token the store keeps.\<close>

definition signed_with ::
  "gcs_env \<Rightarrow> gcs_store \<Rightarrow> gcs_store \<Rightarrow> gcs_call list \<Rightarrow> gcs_call list \<Rightarrow> string \<Rightarrow> string \<Rightarrow>
     (string \<Rightarrow> string \<Rightarrow> signing) \<Rightarrow> bool"
where
  "signed_with env s s' w w' key url grant \<longleftrightarrow>
     (\<exists>account token before.
        gs_client s \<and> gs_account s = Some account \<and> gs_token s' = Some token \<and>
        s' = s\<lparr>gs_token := Some token\<rparr> \<and>
        before = (if gs_ambient s then [Refresh_credentials] else []) \<and>
        (gs_ambient s \<longrightarrow> ge_refresh env (Refresh_credentials # w) = Inr (Some token)) \<and>
        w' = Sign_url (gs_bucket s) key (grant account token) # before @ w \<and> ge_sign env w' = Inr url)"

lemma signed_url_ok:
  assumes "signed_url env key http_method expiration ty query s w = (Inr url, s', w')"
  shows "signed_with env s s' w w' key url
    (\<lambda>account token. \<lparr>sg_method = http_method, sg_expiration = expiration, sg_account = account,
       sg_token = token, sg_content_type = ty, sg_query = query\<rparr>)"
proof -
  obtain s1 w1 where refresh: "refresh_token env s w = (Inr s1, w1)"
    and sign: "sign_with env s1 key http_method expiration ty query w1 = (Inr url, w')" and s': "s' = s1"
    using assms by (auto simp: signed_url_def split: prod.splits sum.splits)
  obtain account token where "gs_account s1 = Some account" "gs_token s1 = Some token" "gs_client s1"
      "w' = Sign_url (gs_bucket s1) key
        \<lparr>sg_method = http_method, sg_expiration = expiration, sg_account = account,
         sg_token = token, sg_content_type = ty, sg_query = query\<rparr> # w1" "ge_sign env w' = Inr url"
    using sign by (auto simp: sign_with_def given_def gcs_blob_def ensure_def run_simps unavailable_def
        split: if_splits)
  with refresh s' show ?thesis
    by (cases "gs_ambient s")
      (auto simp: signed_with_def refresh_token_def run_simps unavailable_def)
qed

text \<open>Claim C31: A grant is exact. A read URL is signed only for an accepted key under a readable prefix, as
  a GET of that object for 300 seconds; an upload URL only for an accepted key under an output prefix, as a
  PUT of that object for 900 seconds with the given content type and \<open>ifGenerationMatch=0\<close>. The only other
  call is the refresh of the ambient token, and the URL is signed with the refreshed token.\<close>

theorem gcs_grants_exact:
  assumes read: "gcs_create_read_url env k s w = (Inr url, s1, w1)"
    and upload: "gcs_create_output_upload_url env k' ty s' w' = (Inr url', s2, w2)"
  shows "(validate_object_key k = Inr k \<and> starts_with_any k (gs_read_prefixes s) \<and>
      signed_with env s s1 w w1 k url (\<lambda>account token.
        \<lparr>sg_method = ''GET'', sg_expiration = 300, sg_account = account, sg_token = token,
         sg_content_type = None, sg_query = []\<rparr>)) \<and>
    (validate_object_key k' = Inr k' \<and> starts_with_any k' (gs_output_prefixes s') \<and>
      signed_with env s' s2 w' w2 k' url' (\<lambda>account token.
        \<lparr>sg_method = ''PUT'', sg_expiration = 900, sg_account = account, sg_token = token,
         sg_content_type = Some ty, sg_query = [(''ifGenerationMatch'', ''0'')]\<rparr>))"
    (is "?R \<and> ?U")
proof
  show ?R
    using read signed_url_ok [of env k "''GET''" 300 None "[]" s w url s1 w1]
    by (auto simp: gcs_create_read_url_def gcs_require_prefix_def READ_URL_LIFETIME_def result_simps
        validate_object_key_iff split: sum.splits)
  show ?U
    using upload signed_url_ok [of env k' "''PUT''" 900 "Some ty" "[(''ifGenerationMatch'', ''0'')]" s' w' url' s2 w2]
    by (auto simp: gcs_create_output_upload_url_def gcs_require_prefix_def OUTPUT_UPLOAD_URL_LIFETIME_def
        CREATE_ONCE_QUERY_PARAMETERS_def result_simps validate_object_key_iff split: sum.splits)
qed

lemma started_store_eq:
  "started_store = \<lparr>gs_bucket = ''assets'', gs_client = True, gs_account = Some ''signer'',
     gs_token = Some ''token'', gs_read_prefixes = [''inputs/''], gs_output_prefixes = [''outputs/''],
     gs_ambient = True\<rparr>"
  by (simp add: started_store_def gcs_start_def gcs_connect_def new_gcs_store_def bucket_cloud_def
      mbind_def mcall_def mcatch_def)

theorem gcs_grants_exact_witness:
  "signed_with bucket_cloud started_store started_store []
     [Sign_url ''assets'' ''inputs/a''
        \<lparr>sg_method = ''GET'', sg_expiration = 300, sg_account = ''signer'', sg_token = ''token'',
         sg_content_type = None, sg_query = []\<rparr>, Refresh_credentials]
     ''inputs/a'' ''https://signed/assets/inputs/a'' (\<lambda>account token.
        \<lparr>sg_method = ''GET'', sg_expiration = 300, sg_account = account, sg_token = token,
         sg_content_type = None, sg_query = []\<rparr>)"
proof -
  have v: "validate_object_key ''inputs/a'' = Inr ''inputs/a''" "validate_object_key ''outputs/b'' = Inr ''outputs/b''"
    by (simp_all add: validate_object_key_iff plain_part_def)
  note run = signed_url_def refresh_token_def sign_with_def given_def gcs_blob_def
    gcs_require_prefix_def starts_with_any_def starts_with_def mbind_def mcall_def mcatch_def mlift_def
    mreturn_def started_store_eq bucket_cloud_def
  have r: "gcs_create_read_url bucket_cloud ''inputs/a'' started_store [] =
      (Inr ''https://signed/assets/inputs/a'', started_store,
       [Sign_url ''assets'' ''inputs/a''
          \<lparr>sg_method = ''GET'', sg_expiration = 300, sg_account = ''signer'', sg_token = ''token'',
           sg_content_type = None, sg_query = []\<rparr>, Refresh_credentials])"
    using v by (simp add: gcs_create_read_url_def READ_URL_LIFETIME_def run)
  obtain w2 where u: "gcs_create_output_upload_url bucket_cloud ''outputs/b'' ''image/png'' started_store [] =
      (Inr ''https://signed/assets/outputs/b'', started_store, w2)"
    using v by (simp add: gcs_create_output_upload_url_def run)
  from gcs_grants_exact [OF r u] show ?thesis by simp
qed

lemma read_error_cases:
  "(\<exists>a m n. read_error k e = e \<and> e = Raised (AssetTooLarge a m n)) \<or>
     read_error k e \<in> {Raised (AssetNotFound k), Raised AssetStorageUnavailable}"
  by (auto simp: read_error_def split: gcs_exn.split exn.split)

lemma gcs_read_run:
  assumes "validate_object_key key = Inr key \<and> gs_client s"
  shows "gcs_read_limited env s key max_bytes =
      (\<lambda>w. mbind
       (mcatch
         (mbind (mcall (Reload (gs_bucket s) key) (ge_reload env)) (\<lambda>b.
          case bf_size b of
            Some n \<Rightarrow>
              if n > max_bytes then mraise (Raised (AssetTooLarge key max_bytes (Some n)))
              else mcall (Download (gs_bucket s) key 0 max_bytes (bf_generation b)) (ge_download env)
          | None \<Rightarrow> mcall (Download (gs_bucket s) key 0 max_bytes (bf_generation b)) (ge_download env)))
         (\<lambda>e. mraise (read_error key e)))
       (\<lambda>content.
        if int (length content) > max_bytes
        then mraise (Raised (AssetTooLarge key max_bytes (Some (int (length content)))))
        else mreturn content) w)"
  using assms by (simp add: gcs_read_limited_def gcs_blob_def mbind_def mlift_def fun_eq_iff)

text \<open>Claim C32: A bounded read, whatever the cloud answers: contents are never longer than the bound; the
  only calls are the metadata of the object and, at most once, a download of the first \<open>max_bytes + 1\<close> bytes
  of the generation the metadata named; and the only exceptions are an invalid key, a store that has not
  started, a missing object, an object that is too large, and storage being unavailable.\<close>

theorem gcs_read_bounded:
  "case gcs_read_limited env s key max_bytes w of (r, w') \<Rightarrow>
     (case r of
        Inr content \<Rightarrow> int (length content) \<le> max_bytes
      | Inl e \<Rightarrow> (\<exists>n. e = Raised (AssetTooLarge key max_bytes (Some n)) \<and> n > max_bytes) \<or>
          e \<in> {Raised (ValueError ''GCS object key must be a normalized relative path''),
               Runtime_error ''GCS asset store has not started'', Raised (AssetNotFound key),
               Raised AssetStorageUnavailable} \<or>
          (\<exists>a m n. e = Raised (AssetTooLarge a m n) \<and> 
             (ge_reload env (Reload (gs_bucket s) key # w) = Inl e \<or> ge_download env w' = Inl e))) \<and>
     (w' = w \<or> w' = Reload (gs_bucket s) key # w \<or>
      (\<exists>b. ge_reload env (Reload (gs_bucket s) key # w) = Inr b \<and>
         w' = Download (gs_bucket s) key 0 max_bytes (bf_generation b) # Reload (gs_bucket s) key # w))"
proof (cases "validate_object_key key = Inr key \<and> gs_client s")
  case False
  then show ?thesis
    by (auto simp: gcs_read_limited_def mbind_def mlift_def gcs_blob_def validate_object_key_def ensure_def)
next
  case True
  note run = gcs_read_run [OF True]
  let ?rw = "Reload (gs_bucket s) key # w"
  show ?thesis
  proof (cases "ge_reload env ?rw")
    case (Inl e)
    then show ?thesis
      using read_error_cases [of key e] by (auto simp: run mbind_def mcatch_def mcall_def mraise_def)
  next
    case (Inr b)
    let ?dw = "Download (gs_bucket s) key 0 max_bytes (bf_generation b) # ?rw"
    have big: "bf_size b = Some n \<Longrightarrow> n > max_bytes \<Longrightarrow> ?thesis" for n
      using Inr by (simp add: run mbind_def mcatch_def mcall_def mraise_def read_error_def)
    have small: "?thesis" if "bf_size b = None \<or> (\<exists>n. bf_size b = Some n \<and> n \<le> max_bytes)"
    proof (cases "ge_download env ?dw")
      case failed: (Inl e)
      have "gcs_read_limited env s key max_bytes w = (Inl (read_error key e), ?dw)"
        using that Inr failed by (elim disjE exE) (simp_all add: run mbind_def mcatch_def mcall_def mraise_def)
      then show ?thesis using read_error_cases [of key e] Inr failed by auto
    next
      case content: (Inr content)
      have "gcs_read_limited env s key max_bytes w =
          (if int (length content) > max_bytes
           then (Inl (Raised (AssetTooLarge key max_bytes (Some (int (length content))))), ?dw)
           else (Inr content, ?dw))"
        using that Inr content
        by (elim disjE exE) (simp_all add: run mbind_def mcatch_def mcall_def mraise_def mreturn_def)
      then show ?thesis using Inr by simp
    qed
    show ?thesis using big small by (cases "bf_size b") force+
  qed
qed

end
