(* ===== verification/Coordinator.thy ===== *)
theory Coordinator
  imports Gcs Comfy
begin

text \<open>
  \<open>coordinator_main.py\<close> and \<open>coordinator.py\<close>: what the standalone coordinator builds from its
  environment, the life of its stores, and the health answer. The environment is a dictionary; the
  result \<open>coordinator\<close> names the stores that are started with the application and holds the service.
  With Postgres or GCS the corresponding part of the service's state is that store's (PostgresStore,
  PostgresRegistry, Gcs); the field of the in-memory one is then unused.
\<close>

section \<open>Environment variables\<close>

type_synonym environment = "(string, string) dict"

definition env_get :: "environment \<Rightarrow> string \<Rightarrow> string \<Rightarrow> string" where
  "env_get environment name fallback =
     (case map_of environment name of None \<Rightarrow> fallback | Some v \<Rightarrow> v)"

definition env_required :: "environment \<Rightarrow> string \<Rightarrow> exn + string" where
  "env_required environment name =
     (case map_of environment name of
        None \<Rightarrow> Inl (ValueError (name @ '' is required''))
      | Some v \<Rightarrow> if v = [] then Inl (ValueError (name @ '' is required'')) else Inr v)"

definition POSTGRES_BACKEND :: string where "POSTGRES_BACKEND = ''postgres''"
definition MEMORY_BACKEND :: string where "MEMORY_BACKEND = ''memory''"
definition GCS_BACKEND :: string where "GCS_BACKEND = ''gcs''"
definition DEFAULT_PORT :: int where "DEFAULT_PORT = 8080"

text \<open>The non-empty entries between commas, without surrounding white space.\<close>

definition comma_entries :: "string \<Rightarrow> string list" where
  "comma_entries v = filter (\<lambda>e. e \<noteq> []) (map strip (split_on (CHR '','') v))"

definition env_prefixes :: "string option \<Rightarrow> string list \<Rightarrow> string list" where
  "env_prefixes v fallback =
     (let entries = comma_entries (case v of None \<Rightarrow> [] | Some s \<Rightarrow> s)
      in if entries \<noteq> [] then entries else fallback)"

definition env_int :: "environment \<Rightarrow> string \<Rightarrow> string \<Rightarrow> exn + int" where
  "env_int environment name fallback = int_of_text (env_get environment name fallback)"

section \<open>Published schemas\<close>

type_synonym schemas = "(string, capability_schema) dict"

text \<open>The packaged template files, as in \<open>from_directory\<close>.\<close>

type_synonym template_files = "(string \<times> (exn + json)) list"

definition comfy_workflow_schemas :: "template_files \<Rightarrow> exn + schemas" where
  "comfy_workflow_schemas packaged =
     ebind (from_directory packaged) (\<lambda>registry. Inr (capability_schemas registry))"

definition KNOWN_CAPABILITY_SCHEMAS :: "template_files \<Rightarrow> (string, exn + schemas) dict" where
  "KNOWN_CAPABILITY_SCHEMAS packaged =
     [(DETERMINISTIC_ECHO_PLUGIN_ID, Inr (capability_schemas_from_plugins [echo_capabilities])),
      (COMFY_WORKFLOW_PLUGIN_ID, comfy_workflow_schemas packaged)]"

fun merge_known :: "(string, exn + schemas) dict \<Rightarrow> string list \<Rightarrow> schemas \<Rightarrow> exn + schemas" where
  "merge_known known [] schemas = Inr schemas"
| "merge_known known (name # names) schemas =
     (let plugin_id = strip name in
      if plugin_id = [] then merge_known known names schemas
      else case map_of known plugin_id of
          None \<Rightarrow> Inl (ValueError (''unknown capability plugin: '' @ plugin_id))
        | Some k \<Rightarrow> ebind k (\<lambda>s. merge_known known names (dict_merge schemas s)))"

definition published_schemas :: "template_files \<Rightarrow> string \<Rightarrow> exn + schemas" where
  "published_schemas packaged names =
     ebind (merge_known (KNOWN_CAPABILITY_SCHEMAS packaged) (split_on (CHR '','') names) []) (\<lambda>schemas.
     if schemas = [] then Inl (ValueError ''OGWP_CAPABILITY_PLUGINS must name at least one plugin'')
     else Inr schemas)"

section \<open>Building the coordinator\<close>

text \<open>A component that starts and stops with the application; the Postgres stores with their URL.\<close>

datatype component =
    Postgres_jobs string
  | Postgres_registry string
  | Postgres_audit string
  | Gcs_assets gcs_store

datatype coordinator_auth = Static_tokens tokens | Google_tokens google_auth

record coordinator =
  co_lifecycle :: "component list"
  co_authenticator :: coordinator_auth
  co_auth_method :: string
  co_config :: pool_config
  co_state :: pool_state

definition job_components :: "environment \<Rightarrow> string \<Rightarrow> exn + component list" where
  "job_components environment backend =
     (if backend = POSTGRES_BACKEND
      then ebind (env_required environment ''OGWP_DATABASE_URL'') (\<lambda>url.
             Inr [Postgres_jobs url, Postgres_registry url, Postgres_audit url])
      else Inr [])"

definition asset_components ::
  "environment \<Rightarrow> string \<Rightarrow> string list \<Rightarrow> string list \<Rightarrow> exn + component list"
where
  "asset_components environment backend read_prefixes output_prefixes =
     (if backend = GCS_BACKEND
      then ebind (env_required environment ''OGWP_ASSET_BUCKET'') (\<lambda>bucket.
             Inr [Gcs_assets (new_gcs_store bucket (map_of environment ''OGWP_SIGNING_SERVICE_ACCOUNT'')
                    read_prefixes output_prefixes)])
      else Inr [])"

definition coordinator_authenticator :: "environment \<Rightarrow> string \<Rightarrow> enrollments \<Rightarrow> exn + coordinator_auth"
where
  "coordinator_authenticator environment worker_auth enrolled =
     (if worker_auth = STATIC_AUTH_METHOD
      then ebind (env_required environment ''OGWP_WORKER_TOKENS'') (\<lambda>v.
             ebind (tokens_from_env_value v) (\<lambda>tokens. Inr (Static_tokens tokens)))
      else ebind (env_required environment ''OGWP_WORKER_AUDIENCE'') (\<lambda>audience.
             ebind (new_google_auth audience
                 (lower (env_get environment ''OGWP_WORKER_AUTO_ENROLL'' ''false'') = ''true'')
                 DEFAULT_WORKER_ACCOUNT_PREFIX (Some enrolled) 8) (\<lambda>g. Inr (Google_tokens g))))"

text \<open>The defaults of \<open>WorkerPoolService\<close>'s constructor that the entry point leaves alone: 120 and 1200
  calls a minute, leases of 1200 s, 256 MiB to verify, grants of 900 s.\<close>

definition coordinator_service ::
  "((string \<Rightarrow> string) \<times> (string \<Rightarrow> payload)) option \<Rightarrow> environment \<Rightarrow> string list \<Rightarrow> string list \<Rightarrow>
     enrollments \<Rightarrow> schemas \<Rightarrow> exn + pool_config \<times> pool_state"
where
  "coordinator_service profile_module environment read_prefixes output_prefixes enrolled schemas =
     ebind (env_int environment ''OGWP_PRE_AUTH_LIMIT_PER_MINUTE'' ''1200'') (\<lambda>pre_auth.
     ebind (env_int environment ''OGWP_PER_SOURCE_LIMIT_PER_MINUTE'' ''120'') (\<lambda>per_source.
     ebind (env_int environment ''OGWP_AUTH_AUDIT_LIMIT_PER_MINUTE'' ''30'') (\<lambda>auth_audit.
     ebind (env_int environment ''OGWP_MAX_AUTH_CONCURRENCY'' ''16'') (\<lambda>concurrency.
     new_service []
       (new_asset_store\<lparr>as_read_prefixes := read_prefixes, as_output_prefixes := output_prefixes\<rparr>)
       [] [] schemas profile_module 120 1200 1200 (256 * 1024 * 1024) 900 (Some enrolled)
       pre_auth per_source auth_audit concurrency))))"

definition build_from_env ::
  "(string \<Rightarrow> json option) \<Rightarrow> template_files \<Rightarrow> ((string \<Rightarrow> string) \<times> (string \<Rightarrow> payload)) option \<Rightarrow>
     environment \<Rightarrow> exn + coordinator"
where
  "build_from_env loads packaged profile_module environment =
     (let job_backend = env_get environment ''OGWP_JOB_BACKEND'' POSTGRES_BACKEND;
          asset_backend = env_get environment ''OGWP_ASSET_BACKEND'' GCS_BACKEND;
          worker_auth = env_get environment ''OGWP_WORKER_AUTH'' STATIC_AUTH_METHOD;
          read_prefixes = env_prefixes (map_of environment ''OGWP_ALLOWED_READ_PREFIXES'') DEFAULT_READ_PREFIXES;
          output_prefixes = env_prefixes (map_of environment ''OGWP_ALLOWED_OUTPUT_PREFIXES'') DEFAULT_OUTPUT_PREFIXES
      in
      ebind (ensure (job_backend \<in> {POSTGRES_BACKEND, MEMORY_BACKEND})
        (ValueError (''unsupported job backend: '' @ job_backend))) (\<lambda>_.
      ebind (ensure (asset_backend \<in> {GCS_BACKEND, MEMORY_BACKEND})
        (ValueError (''unsupported asset backend: '' @ asset_backend))) (\<lambda>_.
      ebind (ensure (worker_auth \<in> {STATIC_AUTH_METHOD, GOOGLE_OIDC_AUTH_METHOD})
        (ValueError (''unsupported worker auth mode: '' @ worker_auth))) (\<lambda>_.
      ebind (job_components environment job_backend) (\<lambda>jobs.
      ebind (asset_components environment asset_backend read_prefixes output_prefixes) (\<lambda>assets.
      ebind (enrollments_from_json loads (map_of environment ''OGWP_WORKER_ENROLLMENTS'')) (\<lambda>enrolled.
      ebind (coordinator_authenticator environment worker_auth enrolled) (\<lambda>authenticator.
      ebind (published_schemas packaged
        (env_get environment ''OGWP_CAPABILITY_PLUGINS'' DETERMINISTIC_ECHO_PLUGIN_ID)) (\<lambda>schemas.
      ebind (coordinator_service profile_module environment read_prefixes output_prefixes enrolled schemas)
        (\<lambda>(cfg, state).
      Inr \<lparr>co_lifecycle = jobs @ assets, co_authenticator = authenticator, co_auth_method = worker_auth,
           co_config = cfg, co_state = state\<rparr>))))))))))"

text \<open>\<open>main\<close>: the application that the server runs, and its port.\<close>

definition coordinator_main ::
  "(string \<Rightarrow> json option) \<Rightarrow> template_files \<Rightarrow> ((string \<Rightarrow> string) \<times> (string \<Rightarrow> payload)) option \<Rightarrow>
     environment \<Rightarrow> exn + coordinator \<times> int"
where
  "coordinator_main loads packaged profile_module environment =
     ebind (build_from_env loads packaged profile_module environment) (\<lambda>c.
     ebind (env_int environment ''OGWP_PORT'' (int_str DEFAULT_PORT)) (\<lambda>port. Inr (c, port)))"

section \<open>The application\<close>

definition health :: "coordinator \<Rightarrow> json" where
  "health c = JObj
     [(''status'', JStr ''healthy''),
      (''worker_pool'', JObj
         [(''auth'', JStr (co_auth_method c)),
          (''capabilities'', JArr (map JStr (sort (keys (pc_capability_schemas (co_config c))))))])]"

text \<open>\<open>lifespan\<close>: \<open>serve\<close> is what the application does between its start and its end. An exception while
  stopping a component leaves the others unstopped.\<close>

datatype 'c life_call = Started 'c | Stopped 'c | Served

fun start_each ::
  "('c life_call list \<Rightarrow> 'e + unit) \<Rightarrow> 'c list \<Rightarrow> 'c list \<Rightarrow> 'c life_call list \<Rightarrow>
     (('e + unit) \<times> 'c list) \<times> 'c life_call list"
where
  "start_each answer [] started w = ((Inr (), started), w)"
| "start_each answer (c # cs) started w =
     (case mcall (Started c) answer w of
        (Inl e, w') \<Rightarrow> ((Inl e, started), w')
      | (Inr _, w') \<Rightarrow> start_each answer cs (started @ [c]) w')"

definition lifespan ::
  "('c life_call list \<Rightarrow> 'e + unit) \<Rightarrow> 'c list \<Rightarrow> ('c life_call, 'e, unit) run"
where
  "lifespan answer lifecycle w =
     (case start_each answer lifecycle [] w of
        ((r, started), w1) \<Rightarrow>
          mfinally (\<lambda>w. case r of Inl e \<Rightarrow> (Inl e, w) | Inr _ \<Rightarrow> mcall Served answer w)
            (mfor (\<lambda>c. mcall (Stopped c) answer) (rev started)) w1)"

section \<open>Properties\<close>

subsection \<open>The life of the stores\<close>

text \<open>Whether stopping ever raises.\<close>

definition stops :: "('c life_call list \<Rightarrow> 'e + unit) \<Rightarrow> bool" where
  "stops answer \<longleftrightarrow> (\<forall>c w. answer (Stopped c # w) = Inr ())"

lemma start_each_calls:
  assumes "start_each answer cs started w = ((r, started'), w')"
  shows "\<exists>k \<le> length cs. started' = started @ take k cs \<and>
    (case r of Inr _ \<Rightarrow> k = length cs \<and> w' = map Started (rev cs) @ w
     | Inl e \<Rightarrow> k < length cs \<and> w' = map Started (rev (take (Suc k) cs)) @ w)"
  using assms
proof (induction cs arbitrary: started w)
  case (Cons c cs)
  show ?case
  proof (cases "answer (Started c # w)")
    case (Inl e)
    show ?thesis using Cons.prems by (intro exI [of _ 0]) (auto simp: mcall_def Inl)
  next
    case (Inr u)
    then have "start_each answer cs (started @ [c]) (Started c # w) = ((r, started'), w')"
      using Cons.prems by (simp add: mcall_def)
    from Cons.IH [OF this] obtain k where "k \<le> length cs" "started' = (started @ [c]) @ take k cs"
      "case r of Inr _ \<Rightarrow> k = length cs \<and> w' = map Started (rev cs) @ Started c # w
       | Inl e \<Rightarrow> k < length cs \<and> w' = map Started (rev (take (Suc k) cs)) @ Started c # w" by blast
    then show ?thesis by (intro exI [of _ "Suc k"]) (auto split: sum.splits)
  qed
qed auto

lemma stop_each_calls:
  "stops answer \<Longrightarrow> mfor (\<lambda>c. mcall (Stopped c) answer) cs w = (Inr (), map Stopped (rev cs) @ w)"
  by (induction cs arbitrary: w) (auto simp: mreturn_def mbind_def mcall_def stops_def)

text \<open>Claim C33: The stores are started in order and stopped in the opposite order, and exactly those that
  were started are stopped: if starting one raises, the application does not serve, the ones before it are
  stopped, and the exception is the result; if all start, the application serves, and all are stopped also
  when serving raises. (The calls in chronological order; stopping does not raise.)\<close>

theorem lifespan_balanced:
  assumes "stops answer" "lifespan answer cs [] = (r, w)"
  shows "\<exists>k. (k < length cs \<and> (\<exists>e. r = Inl e) \<and>
        rev w = map Started (take (Suc k) cs) @ map Stopped (rev (take k cs))) \<or>
    (k = length cs \<and> rev w = map Started cs @ Served # map Stopped (rev cs) \<and>
        r = answer (Served # map Started (rev cs)))"
proof -
  obtain q started w1 where s: "start_each answer cs [] [] = ((q, started), w1)"
    by (metis surj_pair)
  from start_each_calls [OF s] obtain k where k: "k \<le> length cs" "started = take k cs"
    "case q of Inr _ \<Rightarrow> k = length cs \<and> w1 = map Started (rev cs)
     | Inl e \<Rightarrow> k < length cs \<and> w1 = map Started (rev (take (Suc k) cs))"
    unfolding append_Nil append_Nil2 by blast
  show ?thesis
  proof (cases q)
    case (Inl e)
    then show ?thesis
      using k s assms stop_each_calls [OF assms(1)]
      by (intro exI [of _ k]) (auto simp: lifespan_def mfinally_def rev_map)
  next
    case (Inr u)
    then show ?thesis
      using k s assms stop_each_calls [OF assms(1)]
      by (intro exI [of _ k]) (auto simp: lifespan_def mfinally_def mcall_def rev_map)
  qed
qed

definition demo_lifecycle :: "string life_call list \<Rightarrow> string + unit" where
  "demo_lifecycle w = (if hd w = Started ''assets'' then Inl ''unavailable'' else Inr ())"

theorem lifespan_balanced_witness:
  "\<exists>k < length [''jobs'', ''registry'', ''assets'']. rev (snd (lifespan demo_lifecycle [''jobs'', ''registry'', ''assets''] [])) =
     map Started (take (Suc k) [''jobs'', ''registry'', ''assets'']) @
     map Stopped (rev (take k [''jobs'', ''registry'', ''assets'']))"
proof -
  have s: "stops demo_lifecycle" by (simp add: stops_def demo_lifecycle_def)
  have run: "lifespan demo_lifecycle [''jobs'', ''registry'', ''assets''] [] =
     (Inl ''unavailable'', [Stopped ''jobs'', Stopped ''registry'', Started ''assets'', Started ''registry'',
        Started ''jobs''])"
    by (simp add: lifespan_def mfinally_def mcall_def mbind_def mreturn_def demo_lifecycle_def)
  from lifespan_balanced [OF s run] show ?thesis
    by (elim exE disjE conjE) (auto simp: run demo_lifecycle_def)
qed

subsection \<open>What is built\<close>

lemma lookup_dict_merge_SomeD:
  "map_of (dict_merge d1 d2) k = Some v \<Longrightarrow> map_of d1 k = Some v \<or> (k, v) \<in> set d2"
  by (auto simp: map_of_dict_merge map_add_def split: option.splits dest: map_of_SomeD)

lemma keys_dict_merge: "set (keys (dict_merge d1 d2)) = set (keys d1) \<union> set (keys d2)"
proof -
  have "dom (map_of (dict_merge d1 d2)) = dom (map_of d1) \<union> dom (map_of (rev d2))"
    by (auto simp: map_of_dict_merge)
  then show ?thesis by (simp add: dom_map_of_conv_image_fst)
qed

lemma merge_known_Cons:
  assumes "merge_known known (name # names) schemas = Inr schemas'" "strip name \<noteq> []"
  obtains s where "map_of known (strip name) = Some (Inr s)"
    "merge_known known names (dict_merge schemas s) = Inr schemas'"
  using assms by (auto simp: Let_def result_simps split: option.splits)

lemma merge_known_keys:
  assumes "merge_known known names schemas = Inr schemas'"
  shows "set (keys schemas) \<subseteq> set (keys schemas')"
    and "p \<in> set (map strip names) \<Longrightarrow> p \<noteq> [] \<Longrightarrow>
      \<exists>s. map_of known p = Some (Inr s) \<and> set (keys s) \<subseteq> set (keys schemas')"
proof -
  have "set (keys schemas) \<subseteq> set (keys schemas') \<and>
    (\<forall>p \<in> set (map strip names). p \<noteq> [] \<longrightarrow>
      (\<exists>s. map_of known p = Some (Inr s) \<and> set (keys s) \<subseteq> set (keys schemas')))"
    using assms
  proof (induction names arbitrary: schemas)
    case (Cons name names)
    show ?case
    proof (cases "strip name = []")
      case False
      with Cons.prems obtain s where s: "map_of known (strip name) = Some (Inr s)"
          "merge_known known names (dict_merge schemas s) = Inr schemas'"
        by (rule merge_known_Cons)
      have "set (keys s) \<subseteq> set (keys schemas')" "set (keys schemas) \<subseteq> set (keys schemas')"
        using Cons.IH [OF s(2)] by (auto simp only: keys_dict_merge)
      then show ?thesis using s(1) Cons.IH [OF s(2)] by simp
    qed (use Cons in simp)
  qed simp
  then show "set (keys schemas) \<subseteq> set (keys schemas')"
    "p \<in> set (map strip names) \<Longrightarrow> p \<noteq> [] \<Longrightarrow>
      \<exists>s. map_of known p = Some (Inr s) \<and> set (keys s) \<subseteq> set (keys schemas')" by blast+
qed

lemma merge_known_lookup:
  assumes "merge_known known names schemas = Inr schemas'" "map_of schemas' k = Some v"
  shows "map_of schemas k = Some v \<or>
    (\<exists>p \<in> set (map strip names). p \<noteq> [] \<and> (\<exists>s. map_of known p = Some (Inr s) \<and> (k, v) \<in> set s))"
  using assms
proof (induction names arbitrary: schemas)
  case (Cons name names)
  show ?case
  proof (cases "strip name = []")
    case False
    with Cons.prems(1) obtain s where s: "map_of known (strip name) = Some (Inr s)"
        "merge_known known names (dict_merge schemas s) = Inr schemas'"
      by (rule merge_known_Cons)
    from Cons.IH [OF s(2) Cons.prems(2)] show ?thesis
    proof
      assume "map_of (dict_merge schemas s) k = Some v"
      from lookup_dict_merge_SomeD [OF this] show ?thesis using s(1) False by auto
    qed auto
  qed (use Cons in auto)
qed simp

lemma published_schemas_declared:
  assumes "published_schemas packaged names = Inr schemas"
  shows "schemas \<noteq> []"
    and "p \<in> set (comma_entries names) \<Longrightarrow>
      \<exists>s. map_of (KNOWN_CAPABILITY_SCHEMAS packaged) p = Some (Inr s) \<and> set (keys s) \<subseteq> set (keys schemas)"
    and "map_of schemas k = Some v \<Longrightarrow>
      \<exists>p \<in> set (comma_entries names). \<exists>s. map_of (KNOWN_CAPABILITY_SCHEMAS packaged) p = Some (Inr s) \<and> (k, v) \<in> set s"
  using assms merge_known_keys [of "KNOWN_CAPABILITY_SCHEMAS packaged" "split_on (CHR '','') names" "[]" schemas]
    merge_known_lookup [of "KNOWN_CAPABILITY_SCHEMAS packaged" "split_on (CHR '','') names" "[]" schemas k v]
  by (auto simp: published_schemas_def comma_entries_def result_simps split: if_splits)

text \<open>What the service starts with.\<close>

definition fresh_state :: "string list \<Rightarrow> string list \<Rightarrow> pool_state \<Rightarrow> bool" where
  "fresh_state read_prefixes output_prefixes s \<longleftrightarrow>
     ps_jobs s = [] \<and> ps_workers s = [] \<and> ps_audit s = [] \<and> ps_active_auth s = 0 \<and>
     ps_assets s = new_asset_store\<lparr>as_read_prefixes := read_prefixes, as_output_prefixes := output_prefixes\<rparr> \<and>
     list_all limiter_ok [ps_worker_limiter s, ps_global_limiter s, ps_pre_auth_limiter s,
       ps_source_limiter s, ps_auth_audit_limiter s]"

lemma new_limiter_ok: "new_limiter n m = Inr l \<Longrightarrow> limiter_ok l"
  by (auto simp: new_limiter_def limiter_ok_def split: if_splits)

lemma coordinator_service_fresh:
  assumes "coordinator_service pm environment rp op enrolled schemas = Inr (cfg, s)"
  shows "fresh_state rp op s \<and> pc_enrollments cfg = enrolled \<and> pc_capability_schemas cfg = schemas \<and>
    1 \<le> pc_max_auth_concurrency cfg"
  using assms
  by (auto simp: coordinator_service_def new_service_def result_simps fresh_state_def validate_enrollments_iff
      dest: new_limiter_ok)

text \<open>An authenticator that admits nobody who is not enrolled.\<close>

definition authenticator_ok :: "coordinator \<Rightarrow> bool" where
  "authenticator_ok c \<longleftrightarrow>
     (case co_authenticator c of
        Static_tokens t \<Rightarrow>
          co_auth_method c = STATIC_AUTH_METHOD \<and> t \<noteq> [] \<and>
          list_all (\<lambda>(w, d). w \<noteq> [] \<and> match_dollar SHA256_HEX_PATTERN d) t
      | Google_tokens g \<Rightarrow>
          co_auth_method c = GOOGLE_OIDC_AUTH_METHOD \<and> ga_audience g \<noteq> [] \<and>
          ga_enrollments g = pc_enrollments (co_config c) \<and>
          (ga_auto_enroll g \<longrightarrow> ga_enrollments g \<noteq> []) \<and> ga_free_slots g = 8)"

lemma env_required_iff: "env_required e n = Inr v \<longleftrightarrow> map_of e n = Some v \<and> v \<noteq> []"
  by (auto simp: env_required_def split: option.split)

lemma coordinator_authenticator_ok:
  assumes "coordinator_authenticator environment worker_auth enrolled = Inr a"
    "worker_auth \<in> {STATIC_AUTH_METHOD, GOOGLE_OIDC_AUTH_METHOD}"
  shows "authenticator_ok \<lparr>co_lifecycle = l, co_authenticator = a, co_auth_method = worker_auth,
    co_config = cfg\<lparr>pc_enrollments := enrolled\<rparr>, co_state = s\<rparr>"
proof (cases "worker_auth = STATIC_AUTH_METHOD")
  case True
  then obtain v t where t: "tokens_from_env_value v = Inr t" "a = Static_tokens t"
    using assms(1) by (auto simp: coordinator_authenticator_def result_simps)
  moreover have "t \<noteq> [] \<and> list_all (\<lambda>(w, d). w \<noteq> [] \<and> match_dollar SHA256_HEX_PATTERN d) t"
    using t(1) tokens_loop_ok [of "split_on (CHR '','') v" "[]" t]
    by (auto simp: tokens_from_env_value_def result_simps split: if_splits)
  ultimately show ?thesis using True by (simp add: authenticator_ok_def)
next
  case False
  then show ?thesis
    using assms
    by (auto simp: coordinator_authenticator_def result_simps env_required_iff new_google_auth_def
        validate_enrollments_iff authenticator_ok_def split: if_splits)
qed

lemma build_from_env_Inr:
  assumes "build_from_env loads packaged pm environment = Inr c"
  obtains jobs assets enrolled authenticator schemas rp op where
    "env_get environment ''OGWP_JOB_BACKEND'' POSTGRES_BACKEND \<in> {POSTGRES_BACKEND, MEMORY_BACKEND}"
    "env_get environment ''OGWP_ASSET_BACKEND'' GCS_BACKEND \<in> {GCS_BACKEND, MEMORY_BACKEND}"
    "co_auth_method c \<in> {STATIC_AUTH_METHOD, GOOGLE_OIDC_AUTH_METHOD}"
    "job_components environment (env_get environment ''OGWP_JOB_BACKEND'' POSTGRES_BACKEND) = Inr jobs"
    "rp = env_prefixes (map_of environment ''OGWP_ALLOWED_READ_PREFIXES'') DEFAULT_READ_PREFIXES"
    "op = env_prefixes (map_of environment ''OGWP_ALLOWED_OUTPUT_PREFIXES'') DEFAULT_OUTPUT_PREFIXES"
    "asset_components environment (env_get environment ''OGWP_ASSET_BACKEND'' GCS_BACKEND) rp op = Inr assets"
    "enrollments_from_json loads (map_of environment ''OGWP_WORKER_ENROLLMENTS'') = Inr enrolled"
    "coordinator_authenticator environment (co_auth_method c) enrolled = Inr authenticator"
    "published_schemas packaged (env_get environment ''OGWP_CAPABILITY_PLUGINS'' DETERMINISTIC_ECHO_PLUGIN_ID)
       = Inr schemas"
    "coordinator_service pm environment rp op enrolled schemas = Inr (co_config c, co_state c)"
    "co_lifecycle c = jobs @ assets" "co_authenticator c = authenticator"
  using assms
  unfolding build_from_env_def Let_def
  by (auto elim!: ebind_InrE)

text \<open>Whatever the environment, a coordinator that is built authenticates workers: with static
  tokens, at least one worker is enrolled, each by the SHA-256 of its token; with Google tokens, the
  audience is set, the authenticator and the service share the allowlist, and a worker may enrol itself
  only if that list is not empty. The capabilities it publishes are those the enabled plugins declare, with
  their schemas, and there is at least one. Its service starts with empty stores, the configured prefixes
  and full rate limiters, and the stores started with the application are the configured ones.\<close>

theorem coordinator_built_sound:
  assumes "build_from_env loads packaged pm environment = Inr c"
  shows "authenticator_ok c \<and>
    (let schemas = pc_capability_schemas (co_config c);
         known = KNOWN_CAPABILITY_SCHEMAS packaged;
         enabled = comma_entries (env_get environment ''OGWP_CAPABILITY_PLUGINS'' DETERMINISTIC_ECHO_PLUGIN_ID)
     in schemas \<noteq> [] \<and>
        list_all (\<lambda>p. \<exists>s. map_of known p = Some (Inr s) \<and> set (keys s) \<subseteq> set (keys schemas)) enabled \<and>
        (\<forall>k v. map_of schemas k = Some v \<longrightarrow>
           (\<exists>p \<in> set enabled. \<exists>s. map_of known p = Some (Inr s) \<and> (k, v) \<in> set s))) \<and>
    fresh_state (env_prefixes (map_of environment ''OGWP_ALLOWED_READ_PREFIXES'') DEFAULT_READ_PREFIXES)
      (env_prefixes (map_of environment ''OGWP_ALLOWED_OUTPUT_PREFIXES'') DEFAULT_OUTPUT_PREFIXES) (co_state c) \<and>
    1 \<le> pc_max_auth_concurrency (co_config c) \<and>
    (\<exists>url bucket. co_lifecycle c =
      (if env_get environment ''OGWP_JOB_BACKEND'' POSTGRES_BACKEND = POSTGRES_BACKEND
       then [Postgres_jobs url, Postgres_registry url, Postgres_audit url] else []) @
      (if env_get environment ''OGWP_ASSET_BACKEND'' GCS_BACKEND = GCS_BACKEND
       then [Gcs_assets (new_gcs_store bucket (map_of environment ''OGWP_SIGNING_SERVICE_ACCOUNT'')
          (env_prefixes (map_of environment ''OGWP_ALLOWED_READ_PREFIXES'') DEFAULT_READ_PREFIXES)
          (env_prefixes (map_of environment ''OGWP_ALLOWED_OUTPUT_PREFIXES'') DEFAULT_OUTPUT_PREFIXES))] else []))"
  using assms
proof (rule build_from_env_Inr)
  fix jobs assets enrolled authenticator schemas rp op
  assume m: "co_auth_method c \<in> {STATIC_AUTH_METHOD, GOOGLE_OIDC_AUTH_METHOD}"
    and j: "job_components environment (env_get environment ''OGWP_JOB_BACKEND'' POSTGRES_BACKEND) = Inr jobs"
    and rp: "rp = env_prefixes (map_of environment ''OGWP_ALLOWED_READ_PREFIXES'') DEFAULT_READ_PREFIXES"
    and op: "op = env_prefixes (map_of environment ''OGWP_ALLOWED_OUTPUT_PREFIXES'') DEFAULT_OUTPUT_PREFIXES"
    and g: "asset_components environment (env_get environment ''OGWP_ASSET_BACKEND'' GCS_BACKEND) rp op = Inr assets"
    and a: "coordinator_authenticator environment (co_auth_method c) enrolled = Inr authenticator"
    and s: "published_schemas packaged
       (env_get environment ''OGWP_CAPABILITY_PLUGINS'' DETERMINISTIC_ECHO_PLUGIN_ID) = Inr schemas"
    and v: "coordinator_service pm environment rp op enrolled schemas = Inr (co_config c, co_state c)"
    and l: "co_lifecycle c = jobs @ assets" "co_authenticator c = authenticator"
  note fresh = coordinator_service_fresh [OF v]
  have "authenticator_ok c"
    using coordinator_authenticator_ok [OF a m, of "[]" "co_config c" "co_state c"] fresh l(2)
    by (cases authenticator) (auto simp: authenticator_ok_def)
  moreover obtain url where "jobs = (if env_get environment ''OGWP_JOB_BACKEND'' POSTGRES_BACKEND = POSTGRES_BACKEND
       then [Postgres_jobs url, Postgres_registry url, Postgres_audit url] else [])"
    using j by (auto simp: job_components_def result_simps split: if_splits)
  moreover obtain bucket where "assets = (if env_get environment ''OGWP_ASSET_BACKEND'' GCS_BACKEND = GCS_BACKEND
       then [Gcs_assets (new_gcs_store bucket (map_of environment ''OGWP_SIGNING_SERVICE_ACCOUNT'') rp op)] else [])"
    using g by (auto simp: asset_components_def result_simps split: if_splits)
  ultimately show ?thesis
    using fresh published_schemas_declared [OF s]
    unfolding Let_def list_all_iff rp [symmetric] op [symmetric] l(1)
    by (intro conjI exI [of _ url] exI [of _ bucket]) simp_all
qed

definition demo_environment :: environment where
  "demo_environment =
     [(''OGWP_JOB_BACKEND'', ''memory''), (''OGWP_ASSET_BACKEND'', ''memory''),
      (''OGWP_WORKER_TOKENS'', demo_tokens_env), (''OGWP_ALLOWED_READ_PREFIXES'', '' a/ , ,b/'')]"

lemma demo_tokens_nonempty: "demo_tokens_env \<noteq> []"
  by (simp add: demo_tokens_env_def)

lemma demo_schemas:
  "published_schemas [] DETERMINISTIC_ECHO_PLUGIN_ID =
     Inr [(DETERMINISTIC_ECHO_CAPABILITY, DETERMINISTIC_ECHO_SCHEMA)]"
  by code_simp

lemma demo_ints:
  "int_of_text ''1200'' = Inr 1200" "int_of_text ''120'' = Inr 120" "int_of_text ''30'' = Inr 30"
  "int_of_text ''16'' = Inr 16"
  by code_simp+

lemma no_enrollments: "validate_enrollments (Some []) = Inr []"
  by (simp add: validate_enrollments_iff)

lemma demo_built:
  "\<exists>c. build_from_env (\<lambda>_. None) [] None demo_environment = Inr c \<and> co_lifecycle c = []"
  by (simp add: build_from_env_def demo_environment_def env_get_def POSTGRES_BACKEND_def MEMORY_BACKEND_def
      GCS_BACKEND_def job_components_def asset_components_def coordinator_authenticator_def env_required_def
      enrollments_from_json_def demo_schemas demo_tokens Let_def coordinator_service_def env_int_def
      new_service_def new_limiter_def no_enrollments demo_ints STATIC_AUTH_METHOD_def demo_tokens_nonempty)

theorem coordinator_built_sound_witness:
  "\<exists>c. build_from_env (\<lambda>_. None) [] None demo_environment = Inr c \<and> authenticator_ok c \<and>
     fresh_state [''a/'', ''b/''] DEFAULT_OUTPUT_PREFIXES (co_state c) \<and> co_lifecycle c = []"
proof -
  obtain c where c: "build_from_env (\<lambda>_. None) [] None demo_environment = Inr c" "co_lifecycle c = []"
    using demo_built by blast
  have "env_prefixes (map_of demo_environment ''OGWP_ALLOWED_READ_PREFIXES'') DEFAULT_READ_PREFIXES = [''a/'', ''b/'']"
    by code_simp
  moreover have "map_of demo_environment ''OGWP_ALLOWED_OUTPUT_PREFIXES'' = None"
    by (simp add: demo_environment_def)
  ultimately show ?thesis
    using coordinator_built_sound [OF c(1)] c by (auto simp: env_prefixes_def comma_entries_def)
qed

text \<open>The health answer names the configured authentication and exactly the published capabilities,
  sorted, whatever the state of the stores.\<close>

theorem health_capabilities:
  "\<exists>caps. health c = JObj [(''status'', JStr ''healthy''), (''worker_pool'', JObj
      [(''auth'', JStr (co_auth_method c)), (''capabilities'', JArr (map JStr caps))])] \<and>
    sorted caps \<and> set caps = set (keys (pc_capability_schemas (co_config c))) \<and>
    length caps = length (pc_capability_schemas (co_config c))"
  by (rule exI [of _ "sort (keys (pc_capability_schemas (co_config c)))"]) (simp add: health_def)

end
