(* ===== verification/ProfileRuntime.thy ===== *)
theory ProfileRuntime
  imports Coordinator Engine
begin

text \<open>
  The rest of \<open>machine_profiles.py\<close>: the description of a ComfyUI profile from its template file and the
  recipe version it is fingerprinted to, the inspection of a runtime, the profile plugin, and the
  preparation of a worker's environment. The runtime is the record \<open>comfy_env\<close> of Comfy: its HTTP answers
  are those of \<open>cv_http\<close>. Exceptions are \<open>agent_exn\<close>, by class name. A launch that is no list of strings,
  and a memory size that is no integer, are TypeError here.
\<close>

section \<open>Exceptions\<close>

text \<open>The class names of the exceptions of contracts.py, and of the engine's.\<close>

fun class_of :: "exn \<Rightarrow> agent_exn" where
  "class_of (ValueError _) = OtherError ''ValueError''"
| "class_of (TypeError _) = OtherError ''TypeError''"
| "class_of (KeyError _) = OtherError ''KeyError''"
| "class_of (ProfileNotQualified _) = OtherError ''ProfileNotQualified''"
| "class_of (PluginRequestRejected m) = PluginRejected m"
| "class_of _ = OtherError ''RuntimeError''"

fun engine_class_of :: "engine_exn \<Rightarrow> agent_exn" where
  "engine_class_of (EngineFailed _) = OtherError ''EngineFailed''"
| "engine_class_of (EngineTimedOut _) = OtherError ''EngineTimedOut''"
| "engine_class_of (EngineCancelled _) = OtherError ''EngineCancelled''"
| "engine_class_of (EngineDrift _) = OtherError ''EngineDrift''"
| "engine_class_of (InspectTimedOut _) = OtherError ''InspectTimedOut''"
| "engine_class_of (EngineRejected m) = PluginRejected m"
| "engine_class_of (EngineOSError _) = OtherError ''OSError''"
| "engine_class_of (EngineOther n) = OtherError n"

abbreviation classed :: "exn + 'a \<Rightarrow> agent_exn + 'a" where
  "classed \<equiv> map_sum class_of (\<lambda>a. a)"

abbreviation value_error :: agent_exn where
  "value_error \<equiv> OtherError ''ValueError''"

section \<open>Templates of the profiles\<close>

text \<open>The files of the packaged directory and of its machine_profiles directory.\<close>

record template_dirs =
  td_packaged :: template_files
  td_profiles :: template_files

definition profile_template :: "template_dirs \<Rightarrow> string \<Rightarrow> agent_exn + comfy_template" where
  "profile_template dirs profile =
     ebind (classed (get_profile PROFILES profile)) (\<lambda>spec.
     if mp_kind spec \<noteq> profile_kind.Comfy then Inl value_error
     else
       ebind (classed (from_directory
         (if mp_template_directory spec = ''profile'' then td_profiles dirs else td_packaged dirs))) (\<lambda>registry.
       case map_of registry (mp_capability_id spec) of
         None \<Rightarrow> Inl (OtherError ''AttributeError'') | Some t \<Rightarrow> Inr t))"

text \<open>\<open>registry_for\<close>: the registry of that one template.\<close>

definition registry_for :: "template_dirs \<Rightarrow> string \<Rightarrow> agent_exn + template_registry" where
  "registry_for dirs profile = ebind (profile_template dirs profile) (\<lambda>t. Inr [(ct_capability_id t, t)])"

text \<open>\<open>node['inputs'].items()\<close>\<close>

definition raw_inputs :: "json \<Rightarrow> agent_exn + payload" where
  "raw_inputs node =
     (case node of
        JObj nd \<Rightarrow>
          (case map_of nd ''inputs'' of
             None \<Rightarrow> Inl (OtherError ''KeyError'')
           | Some (JObj ins) \<Rightarrow> Inr ins
           | Some _ \<Rightarrow> Inl (OtherError ''AttributeError''))
      | _ \<Rightarrow> Inl (OtherError ''TypeError''))"

definition MODEL_INPUTS :: "string list" where
  "MODEL_INPUTS = [''unet_name'', ''clip_name'', ''vae_name'', ''lora_name'']"

definition model_entries :: "payload \<Rightarrow> payload" where
  "model_entries ins = filter (\<lambda>(k, _). k \<in> set MODEL_INPUTS) ins"

definition graph_models :: "py_text \<Rightarrow> payload \<Rightarrow> agent_exn + string list" where
  "graph_models pt graph =
     ebind (map_result raw_inputs (dvalues graph)) (\<lambda>ins.
     Inr (sort (remdups (map (str_of (pt_str pt)) (concat (map (dvalues \<circ> model_entries) ins))))))"

section \<open>Descriptions\<close>

definition subject12_description :: "comfy_template \<Rightarrow> string list \<Rightarrow> payload" where
  "subject12_description t models =
     [(''profile'', JStr SUBJECT12), (''capability_id'', JStr SUBJECT12_CAPABILITY),
      (''template_version'', JStr (ct_template_version t)),
      (''models'', JArr (map JStr models)), (''steps'', JInt 20), (''min_vram_mb'', JInt 12000),
      (''sampler'', JStr ''euler''), (''scheduler'', JStr ''Flux2Scheduler''),
      (''diffusion_precision'', JStr ''FP8 (stored)''), (''text_encoder_precision'', JStr ''BF16''),
      (''bounds'', JObj [(''width'', JInt 1024), (''height'', JInt 1024),
                         (''references'', JInt (int (length (ct_image_slots t))))]),
      (''refused_flags'', JArr (map JStr SUBJECT12_REFUSED_FLAGS)),
      (''evidence'', JStr (''RTX 4090 with VRAM held to 11,914 MiB free (and 10,900 MiB): 0, 1 and 3 ''
        @ ''references at 1024x1024, 20 steps, byte-identical to the v2 graph, peak ''
        @ ''10,218 MiB, worst 23.4 s; 2 references and a physical 12GB card unmeasured''))]"

definition video_description :: "string \<Rightarrow> string \<Rightarrow> comfy_template \<Rightarrow> string list \<Rightarrow> payload" where
  "video_description profile capability t models =
     (let light = (profile = LIGHTX8) in
      [(''profile'', JStr profile), (''capability_id'', JStr capability),
       (''template_version'', JStr (ct_template_version t)),
       (''models'', JArr (map JStr models)), (''steps'', JInt (if light then 8 else 20)),
       (''min_vram_mb'', JInt (if light then 16000 else 24000)),
       (''sampler'', JStr ''res_multistep''), (''scheduler'', JStr ''simple''),
       (''diffusion_precision'', JStr (if light then ''W4A8 mixed'' else ''INT8 ConvRot'')),
       (''text_encoder_precision'', JStr ''NVFP4/AWQ''),
       (''video_vae_precision'', JStr (if light then ''INT8 ConvRot'' else ''FP16'')),
       (''adapter'', if light then JStr ''LightX2V FL2V 8-step v1.0 768p'' else JNull),
       (''adapter_strength'', if light then JFloat ''1.0'' (Fin 1) else JNull),
       (''reserve_vram_gb'', if light then JInt 0 else JNull),
       (''bounds'', JObj (if light
          then [(''width'', JInt 512), (''height'', JInt 512), (''duration_seconds'', JInt 4), (''fps'', JInt 24)]
          else [(''width'', JInt 1344), (''height'', JInt 1344), (''duration_seconds'', JInt 15)])),
       (''h3_attention'', JStr (if light then ''comfy kitchen attention'' else ''worker-configured'')),
       (''process_attention'', JStr (if light then ''sage'' else ''worker-configured'')),
       (''audio_decode'', JBool (\<not> light)),
       (''evidence'', JStr (if light then ''RTX 4080 walk comparison; user selected B''
                            else ''Existing standard template; no 24GB benchmark established''))])"

text \<open>\<open>spec.describe\<close> of the comfy profiles of PROFILES.\<close>

definition comfy_description :: "machine_profile \<Rightarrow> comfy_template \<Rightarrow> string list \<Rightarrow> payload" where
  "comfy_description spec t models =
     (if mp_name spec = SUBJECT12 then subject12_description t models
      else video_description (mp_name spec) (mp_capability_id spec) t models)"

definition recipe_fingerprint :: "payload \<Rightarrow> payload \<Rightarrow> string" where
  "recipe_fingerprint description graph =
     sha256_hex (encode (enc (JObj [(''description'', JObj description), (''graph'', JObj graph)])))"

definition describe_profile :: "py_text \<Rightarrow> template_dirs \<Rightarrow> string \<Rightarrow> agent_exn + payload" where
  "describe_profile pt dirs profile =
     ebind (classed (get_profile PROFILES profile)) (\<lambda>spec.
     case mp_engine spec of
       Some e \<Rightarrow>
         let description = AList.update ''qualified'' (JBool (mp_qualified spec)) (recipe_description e profile)
         in Inr (AList.update ''recipe_version'' (JStr (engine_recipe_version description)) description)
     | None \<Rightarrow>
         ebind (profile_template dirs profile) (\<lambda>t.
         ebind (graph_models pt (ct_graph t)) (\<lambda>models.
         let description = comfy_description spec t models
         in Inr (AList.update ''recipe_version''
                   (JStr (recipe_fingerprint description (ct_graph t))) description))))"

section \<open>Features\<close>

definition LAST_FRAME_FEATURE_KEY :: string where "LAST_FRAME_FEATURE_KEY = ''magic_feature_last_frame''"
definition LAST_FRAME_NODE :: string where "LAST_FRAME_NODE = ''MiniMaxH3ImageToVideo''"

text \<open>\<open>v.get(k, fallback)\<close>, \<open>v[k]\<close> and \<open>{**a, **b}\<close> of JSON values.\<close>

definition jget :: "json \<Rightarrow> string \<Rightarrow> json \<Rightarrow> agent_exn + json" where
  "jget v k fallback =
     (case v of JObj d \<Rightarrow> Inr (payload_get d k fallback) | _ \<Rightarrow> Inl (OtherError ''AttributeError''))"

definition jitem :: "json \<Rightarrow> string \<Rightarrow> agent_exn + json" where
  "jitem v k =
     (case v of
        JObj d \<Rightarrow> (case map_of d k of None \<Rightarrow> Inl (OtherError ''KeyError'') | Some x \<Rightarrow> Inr x)
      | _ \<Rightarrow> Inl (OtherError ''TypeError''))"

definition jmerge :: "json \<Rightarrow> json \<Rightarrow> agent_exn + payload" where
  "jmerge a b =
     (case (a, b) of (JObj x, JObj y) \<Rightarrow> Inr (dict_merge x y) | _ \<Rightarrow> Inl (OtherError ''TypeError''))"

text \<open>The declared inputs of a node of the runtime, required and optional.\<close>

definition live_inputs :: "json \<Rightarrow> agent_exn + payload" where
  "live_inputs node_info =
     ebind (jget node_info ''input'' (JObj [])) (\<lambda>i1.
     ebind (jget i1 ''required'' (JObj [])) (\<lambda>required.
     ebind (jget node_info ''input'' (JObj [])) (\<lambda>i2.
     ebind (jget i2 ''optional'' (JObj [])) (\<lambda>optional.
     jmerge required optional))))"

definition wires_last_frame :: "string \<Rightarrow> json \<Rightarrow> agent_exn + bool" where
  "wires_last_frame slot_node node =
     ebind (jitem node ''class_type'') (\<lambda>class_type.
     if class_type \<noteq> JStr LAST_FRAME_NODE then Inr False
     else
       ebind (jitem node ''inputs'') (\<lambda>ins.
       ebind (jget ins ''last_frame'' JNull) (\<lambda>v.
       Inr (py_eq v (JArr [JStr slot_node, JInt 0])))))"

fun any_result :: "('a \<Rightarrow> 'e + bool) \<Rightarrow> 'a list \<Rightarrow> 'e + bool" where
  "any_result f [] = Inr False"
| "any_result f (x # xs) = ebind (f x) (\<lambda>b. if b then Inr True else any_result f xs)"

definition standard_features :: "template_dirs \<Rightarrow> json \<Rightarrow> agent_exn + versions" where
  "standard_features dirs object_info =
     ebind (profile_template dirs STANDARD) (\<lambda>t.
     ebind (case find (\<lambda>s. is_name s = ''last_frame'') (ct_image_slots t) of
        None \<Rightarrow> Inr False
      | Some slot \<Rightarrow> any_result (wires_last_frame (is_node_id slot)) (dvalues (ct_graph t))) (\<lambda>wired.
     ebind (jget object_info LAST_FRAME_NODE (JObj [])) (\<lambda>node_info.
     ebind (live_inputs node_info) (\<lambda>live.
     Inr (if wired \<and> ''last_frame'' \<in> set (keys live) then [(LAST_FRAME_FEATURE_KEY, ''1'')] else [])))))"

definition profile_features :: "template_dirs \<Rightarrow> string \<Rightarrow> json \<Rightarrow> agent_exn + versions" where
  "profile_features dirs profile object_info =
     ebind (classed (get_profile PROFILES profile)) (\<lambda>spec.
     if mp_has_features spec then standard_features dirs object_info else Inr [])"

section \<open>Inspecting a runtime\<close>

text \<open>\<open>client.get(...)\<close>, \<open>raise_for_status()\<close>, \<open>json()\<close>\<close>

definition get_json :: "comfy_env \<Rightarrow> comfy_call \<Rightarrow> json comfy_run" where
  "get_json env c =
     mbind (mcall c (cv_http env)) (\<lambda>r.
     if hr_status r div 100 \<noteq> 2 then mraise (HTTPError ''HTTPStatusError'') else mlift (hr_json r))"

text \<open>\<open>value in choices\<close> and \<open>inputs.get(key, [[]])[0]\<close>\<close>

definition contains :: "json \<Rightarrow> json \<Rightarrow> agent_exn + bool" where
  "contains choices v =
     (case choices of
        JArr vs \<Rightarrow> Inr (list_ex (py_eq v) vs)
      | JObj d \<Rightarrow> (case v of JStr s \<Rightarrow> Inr (s \<in> set (keys d)) | JArr _ \<Rightarrow> Inl (OtherError ''TypeError'')
                   | JObj _ \<Rightarrow> Inl (OtherError ''TypeError'') | _ \<Rightarrow> Inr False)
      | JStr c \<Rightarrow> (case v of JStr s \<Rightarrow> Inr (sublist s c) | _ \<Rightarrow> Inl (OtherError ''TypeError''))
      | _ \<Rightarrow> Inl (OtherError ''TypeError''))"

definition choices_of :: "payload \<Rightarrow> string \<Rightarrow> agent_exn + json" where
  "choices_of inputs k =
     (case payload_get inputs k (JArr [JArr []]) of
        JArr (c # _) \<Rightarrow> Inr c
      | JArr [] \<Rightarrow> Inl (OtherError ''IndexError'')
      | JStr (c # _) \<Rightarrow> Inr (JStr [c])
      | JStr [] \<Rightarrow> Inl (OtherError ''IndexError'')
      | JObj _ \<Rightarrow> Inl (OtherError ''KeyError'')
      | _ \<Rightarrow> Inl (OtherError ''TypeError''))"

definition check_model :: "payload \<Rightarrow> string \<times> json \<Rightarrow> agent_exn + unit" where
  "check_model inputs = (\<lambda>(k, v).
     ebind (choices_of inputs k) (\<lambda>choices.
     ebind (contains choices v) (\<lambda>found. ensure found value_error)))"

definition check_node :: "json \<Rightarrow> json \<Rightarrow> agent_exn + unit" where
  "check_node info node =
     ebind (jitem node ''class_type'') (\<lambda>class_type.
     ebind (case class_type of
        JStr c \<Rightarrow> jget info c JNull
      | JArr _ \<Rightarrow> Inl (OtherError ''TypeError'') | JObj _ \<Rightarrow> Inl (OtherError ''TypeError'')
      | _ \<Rightarrow> ebind (jget info [] JNull) (\<lambda>_. Inr JNull)) (\<lambda>node_info.
     if node_info = JNull then Inl value_error
     else
       ebind (live_inputs node_info) (\<lambda>inputs.
       ebind (raw_inputs node) (\<lambda>ins.
       for_each (check_model inputs) (model_entries ins)))))"

text \<open>The largest memory of a CUDA device, 0 where it is not given.\<close>

definition is_cuda :: "json \<Rightarrow> agent_exn + bool" where
  "is_cuda d = ebind (jget d ''type'' JNull) (\<lambda>t. Inr (t = JStr ''cuda''))"

fun filter_result :: "('a \<Rightarrow> 'e + bool) \<Rightarrow> 'a list \<Rightarrow> 'e + 'a list" where
  "filter_result f [] = Inr []"
| "filter_result f (x # xs) =
     ebind (f x) (\<lambda>b. ebind (filter_result f xs) (\<lambda>ys. Inr (if b then x # ys else ys)))"

definition as_list :: "json \<Rightarrow> agent_exn + json list" where
  "as_list v = classed (iterate v)"

definition int_value :: "json \<Rightarrow> agent_exn + int" where
  "int_value v = (case v of JInt n \<Rightarrow> Inr n | _ \<Rightarrow> Inl (OtherError ''TypeError''))"

definition MIB :: int where "MIB = 1024 * 1024"

definition check_memory :: "json \<Rightarrow> int \<Rightarrow> agent_exn + unit" where
  "check_memory stats min_mb =
     ebind (jget stats ''devices'' (JArr [])) (\<lambda>ds.
     ebind (as_list ds) (\<lambda>devices.
     ebind (filter_result is_cuda devices) (\<lambda>cuda.
     if cuda = [] then Inl value_error
     else
       ebind (map_result (\<lambda>d. ebind (jget d ''vram_total'' (JInt 0)) int_value) cuda) (\<lambda>sizes.
       ensure (\<not> Max (set sizes) div MIB < min_mb) value_error))))"

definition as_strings :: "json \<Rightarrow> agent_exn + string list" where
  "as_strings v =
     (case v of
        JArr vs \<Rightarrow> map_result (\<lambda>x. case x of JStr s \<Rightarrow> Inr s | _ \<Rightarrow> Inl (OtherError ''TypeError'')) vs
      | _ \<Rightarrow> Inl (OtherError ''TypeError''))"

text \<open>The 16GB check with a version that passes its last test, which follows here.\<close>

definition check_launch :: "machine_profile \<Rightarrow> string list \<Rightarrow> json \<Rightarrow> agent_exn + unit" where
  "check_launch spec argv system =
     (case mp_check_launch spec of
        NoCheck \<Rightarrow> Inr ()
      | Subject12Check \<Rightarrow> classed (check_subject12_launch argv)
      | Lightx8Check \<Rightarrow>
          (case check_lightx8_launch argv ''+cu13'' of
             Inl (KeyError _) \<Rightarrow> Inl (OtherError ''IndexError'')
           | Inl e \<Rightarrow> Inl (class_of e)
           | Inr _ \<Rightarrow>
               ebind (jget system ''pytorch_version'' (JStr [])) (\<lambda>v.
               ebind (contains v (JStr ''+cu13'')) (\<lambda>found. ensure found value_error))))"

text \<open>\<open>json.dumps(v, sort_keys=True)\<close> with its default separators.\<close>

fun enc_spaced :: "json \<Rightarrow> string" where
  "enc_spaced (JArr vs) = ''['' @ join_with '', '' (map enc_spaced vs) @ '']''"
| "enc_spaced (JObj kvs) =
     ''{'' @ join_with '', '' (map (\<lambda>(k, t). enc_str k @ '': '' @ t)
        (sort_key fst (map (\<lambda>(k, v). (k, enc_spaced v)) kvs))) @ ''}''"
| "enc_spaced v = enc v"

definition flag_text :: "string \<Rightarrow> string list \<Rightarrow> string" where
  "flag_text flag argv = (if flag \<in> set argv then ''true'' else ''false'')"

text \<open>The versions before the configuration fingerprint, and with it.\<close>

definition launch_versions ::
  "py_text \<Rightarrow> string \<Rightarrow> string \<Rightarrow> json \<Rightarrow> string list \<Rightarrow> agent_exn + versions"
where
  "launch_versions pt profile recipe system argv =
     ebind (jget system ''comfyui_version'' (JStr ''unknown'')) (\<lambda>comfyui.
     ebind (jget system ''pytorch_version'' (JStr ''unknown'')) (\<lambda>pytorch.
     ebind (if ''--reserve-vram'' \<in> set argv
            then (case flag_argument ''--reserve-vram'' argv of
                    None \<Rightarrow> Inl (OtherError ''IndexError'') | Some v \<Rightarrow> Inr v)
            else Inr ''comfy-default'') (\<lambda>reserve.
     Inr [(RECIPE_KEY, recipe), (''comfyui'', str_of (pt_str pt) comfyui),
          (''pytorch'', str_of (pt_str pt) pytorch), (''magic_profile'', profile),
          (''process_attention'',
             if ''--use-sage-attention'' \<in> set argv then ''sage''
             else if ''--use-ck-attention'' \<in> set argv then ''kitchen'' else ''comfy-default''),
          (''dynamic_vram'', flag_text ''--enable-dynamic-vram'' argv),
          (''pinned_memory_disabled'', flag_text ''--disable-pinned-memory'' argv),
          (''reserve_vram'', reserve)])))"

definition config_fingerprint :: "versions \<Rightarrow> string list \<Rightarrow> json \<Rightarrow> string" where
  "config_fingerprint v argv models =
     sha256_hex (encode (enc_spaced (JObj
       [(''versions'', JObj (map (\<lambda>(k, x). (k, JStr x)) v)), (''argv'', JArr (map JStr argv)),
        (''models'', models)])))"

definition inspected_versions ::
  "py_text \<Rightarrow> template_dirs \<Rightarrow> string \<Rightarrow> json \<Rightarrow> json \<Rightarrow> agent_exn + versions"
where
  "inspected_versions pt dirs profile stats info =
     ebind (describe_profile pt dirs profile) (\<lambda>description.
     ebind (profile_template dirs profile) (\<lambda>t.
     ebind (for_each (check_node info) (dvalues (ct_graph t))) (\<lambda>_.
     ebind (int_value (pget description ''min_vram_mb'')) (\<lambda>min_mb.
     ebind (check_memory stats min_mb) (\<lambda>_.
     ebind (jitem stats ''system'') (\<lambda>system.
     ebind (jget system ''argv'' (JArr [])) (\<lambda>argv_json.
     ebind (as_strings argv_json) (\<lambda>argv.
     ebind (classed (get_profile PROFILES profile)) (\<lambda>spec.
     ebind (check_launch spec argv system) (\<lambda>_.
     ebind (launch_versions pt profile (the_str (pget description ''recipe_version'')) system argv) (\<lambda>v.
     ebind (profile_features dirs profile info) (\<lambda>features.
     Inr (dict_merge
       (AList.update CONFIG_KEY (config_fingerprint v argv (pget description ''models'')) v)
       features)))))))))))))"

definition inspect_runtime ::
  "comfy_env \<Rightarrow> py_text \<Rightarrow> template_dirs \<Rightarrow> string \<Rightarrow> versions comfy_run"
where
  "inspect_runtime env pt dirs profile =
     mbind (get_json env System_stats) (\<lambda>stats.
     mbind (get_json env Object_info) (\<lambda>info.
     mlift (inspected_versions pt dirs profile stats info)))"

section \<open>The profile plugin\<close>

record comfy_settings =
  st_base_url :: string
  st_start_command :: "string list option"
  st_startup_timeout_seconds :: rat

definition DEFAULT_POLL_INTERVAL_SECONDS :: rat where "DEFAULT_POLL_INTERVAL_SECONDS = 5"

text \<open>\<open>ComfyWorkflowPlugin.__init__\<close>; \<open>private\<close> is \<open>_require_private_runtime\<close>.\<close>

definition new_comfy_plugin ::
  "(string \<Rightarrow> exn + unit) \<Rightarrow> template_registry \<Rightarrow> comfy_settings \<Rightarrow> exn + comfy_plugin"
where
  "new_comfy_plugin private registry settings =
     ebind (private (st_base_url settings)) (\<lambda>_.
     Inr \<lparr>cp_registry = registry, cp_poll_interval_seconds = DEFAULT_POLL_INTERVAL_SECONDS,
          cp_start_command = (st_start_command settings \<noteq> None),
          cp_startup_timeout_seconds = st_startup_timeout_seconds settings,
          cp_startup_poll_interval_seconds = 2\<rparr>)"

record profile_plugin =
  pp_comfy :: comfy_plugin
  pp_profile :: string
  pp_versions :: versions
  pp_namespaced :: bool

definition new_profile_plugin ::
  "(string \<Rightarrow> exn + unit) \<Rightarrow> template_dirs \<Rightarrow> string \<Rightarrow> versions \<Rightarrow> bool \<Rightarrow> comfy_settings \<Rightarrow>
     agent_exn + profile_plugin"
where
  "new_profile_plugin private dirs profile v namespaced settings =
     ebind (classed (require_qualified PROFILES profile)) (\<lambda>_.
     ebind (registry_for dirs profile) (\<lambda>registry.
     ebind (classed (new_comfy_plugin private registry settings)) (\<lambda>cp.
     Inr \<lparr>pp_comfy = cp, pp_profile = profile, pp_versions = v, pp_namespaced = namespaced\<rparr>)))"

definition profile_attested :: "profile_plugin \<Rightarrow> versions \<Rightarrow> agent_exn + versions" where
  "profile_attested pp actual =
     (if pp_namespaced pp then classed (attested_versions (pp_profile pp) actual) else Inr actual)"

definition profile_execute ::
  "nat \<Rightarrow> comfy_env \<Rightarrow> py_text \<Rightarrow> template_dirs \<Rightarrow> profile_plugin \<Rightarrow> string \<Rightarrow> path \<Rightarrow> (string, path) dict \<Rightarrow>
     time \<Rightarrow> validated_request \<Rightarrow> path plugin_output option comfy_run"
where
  "profile_execute n env pt dirs pp job_id workspace input_paths deadline req =
     mbind (ensure_running n env (pp_comfy pp)) (\<lambda>up.
     if up = None then mreturn None
     else
       mbind (inspect_runtime env pt dirs (pp_profile pp)) (\<lambda>actual.
       if \<not> dict_eq actual (pp_versions pp) then mraise value_error
       else
         mbind (comfy_execute n env (pp_comfy pp) job_id workspace input_paths deadline req) (\<lambda>out.
         case out of
           None \<Rightarrow> mreturn None
         | Some r \<Rightarrow>
             mbind (mlift (profile_attested pp actual)) (\<lambda>attested.
             mreturn (Some (r\<lparr>po_diagnostics := dict_merge (po_diagnostics r)
               [(''runtime_versions'', JObj (map (\<lambda>(k, x). (k, JStr x)) attested)),
                (''effective_inputs'', JObj (vr_inputs req))]\<rparr>))))))"

section \<open>Preparing a worker\<close>

definition PROFILE_VARIABLE :: string where "PROFILE_VARIABLE = ''MVS_WORKER_PROFILE''"
definition DEFAULT_COMFY_BASE_URL :: string where "DEFAULT_COMFY_BASE_URL = ''http://127.0.0.1:8188''"

text \<open>The subclasses of \<open>OSError\<close> that a connection or a process raises.\<close>

definition os_error :: "agent_exn \<Rightarrow> bool" where
  "os_error e =
     (case e of
        OtherError n \<Rightarrow> n \<in> {''OSError'', ''ConnectionError'', ''ConnectionRefusedError'', ''ConnectionResetError'',
          ''BrokenPipeError'', ''TimeoutError'', ''FileNotFoundError'', ''PermissionError''}
      | _ \<Rightarrow> False)"

fun http_error :: "agent_exn \<Rightarrow> bool" where
  "http_error (HTTPError _) = True"
| "http_error _ = False"

text \<open>\<open>/system_stats\<close> with \<open>raise_for_status\<close>; \<open>True\<close>, or \<open>False\<close> when an exception that \<open>handled\<close> tells is
  caught.\<close>

definition stats_ready :: "comfy_env \<Rightarrow> (agent_exn \<Rightarrow> bool) \<Rightarrow> bool comfy_run" where
  "stats_ready env handled =
     mcatch
       (mbind (mcall System_stats (cv_http env)) (\<lambda>r.
        if hr_status r div 100 \<noteq> 2 then mraise (HTTPError ''HTTPStatusError'') else mreturn True))
       (\<lambda>e. if handled e then mreturn False else mraise e)"

text \<open>\<open>for attempt in range(120)\<close>, by the number of attempts left.\<close>

fun wait_ready :: "nat \<Rightarrow> comfy_env \<Rightarrow> unit comfy_run" where
  "wait_ready 0 env = mreturn ()"
| "wait_ready (Suc left) env =
     mbind (stats_ready env http_error) (\<lambda>ready.
     if ready then mreturn ()
     else if left = 0 then mraise value_error
     else mbind (mcall (Pause 2) (\<lambda>_. Inr ())) (\<lambda>_. wait_ready left env))"

declare wait_ready.simps [simp del]

definition READY_ATTEMPTS :: nat where "READY_ATTEMPTS = 120"

text \<open>A start command that cannot be run, does not end in time or exits with another code than 0 raises.\<close>

definition bring_up :: "comfy_env \<Rightarrow> environment \<Rightarrow> unit comfy_run" where
  "bring_up env environment =
     mbind (stats_ready env (\<lambda>e. http_error e \<or> os_error e)) (\<lambda>ready.
     if ready then mreturn ()
     else if env_get environment ''OGWP_COMFY_START_COMMAND'' [] = [] then mraise value_error
     else mbind (mcall Start_command (cv_start env)) (\<lambda>_. wait_ready READY_ATTEMPTS env))"

fun inspect_all ::
  "comfy_env \<Rightarrow> py_text \<Rightarrow> template_dirs \<Rightarrow> string list \<Rightarrow> (string, versions) dict comfy_run"
where
  "inspect_all env pt dirs [] = mreturn []"
| "inspect_all env pt dirs (profile # profiles) =
     mbind (inspect_runtime env pt dirs profile) (\<lambda>v.
     mbind (inspect_all env pt dirs profiles) (\<lambda>rest. mreturn ((profile, v) # rest)))"

fun merge_further :: "(string, versions) dict \<Rightarrow> versions \<Rightarrow> exn + versions" where
  "merge_further [] v = Inr v"
| "merge_further ((profile, own) # rest) v =
     ebind (namespaced_versions profile own) (\<lambda>further. merge_further rest (dict_merge v further))"

text \<open>The first CUDA device with the most memory.\<close>

fun largest_from :: "json \<Rightarrow> int \<Rightarrow> json list \<Rightarrow> agent_exn + json \<times> int" where
  "largest_from d n [] = Inr (d, n)"
| "largest_from d n (x # xs) =
     ebind (ebind (jitem x ''vram_total'') int_value) (\<lambda>m.
     if m > n then largest_from x m xs else largest_from d n xs)"

definition largest_device :: "json \<Rightarrow> agent_exn + json \<times> int" where
  "largest_device stats =
     ebind (jitem stats ''devices'') (\<lambda>ds.
     ebind (as_list ds) (\<lambda>devices.
     ebind (filter_result is_cuda devices) (\<lambda>cuda.
     case cuda of
       [] \<Rightarrow> Inl value_error
     | d # rest \<Rightarrow> ebind (ebind (jitem d ''vram_total'') int_value) (\<lambda>n. largest_from d n rest))))"

definition comfy_worker_settings ::
  "environment \<Rightarrow> string \<Rightarrow> (string, versions) dict \<Rightarrow> versions \<Rightarrow> json \<Rightarrow> agent_exn + environment"
where
  "comfy_worker_settings environment base_url per_profile v stats =
     ebind (largest_device stats) (\<lambda>(device, memory).
     ebind (jitem device ''name'') (\<lambda>name.
     case name of
       JStr gpu \<Rightarrow>
         Inr ([(PROFILE_VARIABLE, join_with '','' (keys per_profile)), (''OGWP_COMFY_URL'', base_url),
               (''OGWP_WORKER_VRAM_MB'', int_str (memory div MIB)), (''OGWP_WORKER_GPU_MODEL'', gpu),
               (''OGWP_WORKER_RUNTIME_VERSIONS'', versions_text v), (''OGWP_WORKER_CONCURRENCY'', ''1'')] @
              (if 1 < length per_profile
               then [(''MVS_WORKER_PROFILE_VERSIONS'',
                      ''{'' @ enc_members (map (\<lambda>(p, x). (p, versions_text x)) per_profile) @ ''}'')] else []) @
              (if env_get environment ''OGWP_COMFY_START_COMMAND'' [] \<noteq> []
               then [(''OGWP_COMFY_START_COMMAND'', env_get environment ''OGWP_COMFY_START_COMMAND'' [])] else []))
     | _ \<Rightarrow> Inl (OtherError ''TypeError'')))"

text \<open>\<open>engine_settings\<close> is \<open>prepare_engine_environment\<close> of engine.py.\<close>

definition prepare_environment ::
  "comfy_env \<Rightarrow> py_text \<Rightarrow> template_dirs \<Rightarrow> (string \<Rightarrow> engine_exn + environment) \<Rightarrow> environment \<Rightarrow>
     environment comfy_run"
where
  "prepare_environment env pt dirs engine_settings environment =
     mbind (mlift (classed (parse_profiles PROFILES (env_get environment PROFILE_VARIABLE [])))) (\<lambda>profiles.
     if profiles = [] then mreturn []
     else if map_option mp_kind (map_of PROFILES (hd profiles)) = Some profile_kind.Engine
     then mlift (map_sum engine_class_of (\<lambda>s. s) (engine_settings (hd profiles)))
     else
       mbind (bring_up env environment) (\<lambda>_.
       mbind (inspect_all env pt dirs profiles) (\<lambda>per_profile.
       mbind (mlift (classed (merge_further (tl per_profile) (snd (hd per_profile))))) (\<lambda>v.
       mbind (get_json env System_stats) (\<lambda>stats.
       mlift (comfy_worker_settings environment
         (env_get environment ''OGWP_COMFY_URL'' DEFAULT_COMFY_BASE_URL) per_profile v stats))))))"

end
