(* ===== verification/RuntimeProps.thy ===== *)
theory RuntimeProps
  imports ProfileRuntime ComfyProps
begin

text \<open>
  What the inspection of a ComfyUI runtime establishes, that the profile plugin runs a job only on the
  runtime it registered, and that the wait for a runtime is bounded.
\<close>

section \<open>Inspection\<close>

lemma classed_Inr [result_simps]: "map_sum f (\<lambda>a. a) r = Inr x \<longleftrightarrow> r = Inr x"
  by (cases r) auto

text \<open>A node of the template is known to the runtime, which offers each model the node loads.\<close>

definition node_supported :: "json \<Rightarrow> json \<Rightarrow> bool" where
  "node_supported info node \<longleftrightarrow>
     (\<exists>c node_info inputs ins. jitem node ''class_type'' = Inr (JStr c) \<and>
        jget info c JNull = Inr node_info \<and> node_info \<noteq> JNull \<and> live_inputs node_info = Inr inputs \<and>
        raw_inputs node = Inr ins \<and>
        (\<forall>(k, v) \<in> set (model_entries ins).
           \<exists>choices. choices_of inputs k = Inr choices \<and> contains choices v = Inr True))"

lemma check_model_found:
  "check_model inputs (k, v) = Inr () \<Longrightarrow>
     \<exists>choices. choices_of inputs k = Inr choices \<and> contains choices v = Inr True"
  by (auto simp: check_model_def result_simps)

lemma jget_null: "ebind (jget info k JNull) (\<lambda>_. Inr JNull) = Inr x \<Longrightarrow> x = JNull"
  by (auto simp: result_simps)

lemma check_node_supported:
  assumes "check_node info node = Inr ()"
  shows "node_supported info node"
proof -
  obtain class_type node_info where c: "jitem node ''class_type'' = Inr class_type"
    "(case class_type of JStr c \<Rightarrow> jget info c JNull
      | JArr _ \<Rightarrow> Inl (OtherError ''TypeError'') | JObj _ \<Rightarrow> Inl (OtherError ''TypeError'')
      | _ \<Rightarrow> ebind (jget info [] JNull) (\<lambda>_. Inr JNull)) = Inr node_info"
    "(if node_info = JNull then Inl value_error
      else ebind (live_inputs node_info) (\<lambda>inputs. ebind (raw_inputs node) (\<lambda>ins.
        for_each (check_model inputs) (model_entries ins)))) = Inr ()"
    using assms unfolding check_node_def by (elim ebind_InrE)
  have nn: "node_info \<noteq> JNull" using c(3) by auto
  obtain s where s: "class_type = JStr s" "jget info s JNull = Inr node_info"
    using c(2) nn by (cases class_type) (auto dest: jget_null)
  have "ebind (live_inputs node_info) (\<lambda>inputs. ebind (raw_inputs node) (\<lambda>ins.
        for_each (check_model inputs) (model_entries ins))) = Inr ()"
    using c(3) nn by simp
  then obtain inputs ins where i: "live_inputs node_info = Inr inputs" "raw_inputs node = Inr ins"
    "for_each (check_model inputs) (model_entries ins) = Inr ()" by (elim ebind_InrE)
  have "\<exists>choices. choices_of inputs k = Inr choices \<and> contains choices v = Inr True"
    if "(k, v) \<in> set (model_entries ins)" for k v
    using i(3) that by (intro check_model_found) (auto simp: for_each_Inr_iff)
  then show ?thesis using c(1) s nn i(1,2) unfolding node_supported_def by blast
qed

text \<open>Some CUDA device reports at least the memory.\<close>

definition has_memory :: "json \<Rightarrow> int \<Rightarrow> bool" where
  "has_memory stats min_mb \<longleftrightarrow>
     (\<exists>ds devices d n. jget stats ''devices'' (JArr []) = Inr ds \<and> as_list ds = Inr devices \<and>
        d \<in> set devices \<and> is_cuda d = Inr True \<and> jget d ''vram_total'' (JInt 0) = Inr (JInt n) \<and>
        min_mb \<le> n div MIB)"

lemma filter_result_in: "filter_result f xs = Inr ys \<Longrightarrow> y \<in> set ys \<Longrightarrow> y \<in> set xs \<and> f y = Inr True"
  by (induction xs arbitrary: ys) (auto simp: result_simps split: if_splits)

lemma list_all2_in_right: "list_all2 P xs ys \<Longrightarrow> y \<in> set ys \<Longrightarrow> \<exists>x \<in> set xs. P x y"
  by (induction rule: list_all2_induct) auto

lemma int_value_iff: "int_value v = Inr n \<longleftrightarrow> v = JInt n"
  by (cases v) (auto simp: int_value_def)

lemma check_memory_has:
  assumes "check_memory stats min_mb = Inr ()"
  shows "has_memory stats min_mb"
proof -
  obtain ds devices cuda sizes where d: "jget stats ''devices'' (JArr []) = Inr ds" "as_list ds = Inr devices"
    "filter_result is_cuda devices = Inr cuda" "cuda \<noteq> []"
    "map_result (\<lambda>d. ebind (jget d ''vram_total'' (JInt 0)) int_value) cuda = Inr sizes"
    "\<not> Max (set sizes) div MIB < min_mb"
    using assms by (auto simp: check_memory_def result_simps split: if_splits)
  have "sizes \<noteq> []" using d(4,5) map_result_length [OF d(5)] by auto
  then have "Max (set sizes) \<in> set sizes" by simp
  moreover have all: "list_all2 (\<lambda>d n. ebind (jget d ''vram_total'' (JInt 0)) int_value = Inr n) cuda sizes"
    using d(5) by (simp add: map_result_Inr_iff)
  ultimately obtain c where c: "c \<in> set cuda"
      "ebind (jget c ''vram_total'' (JInt 0)) int_value = Inr (Max (set sizes))"
    using list_all2_in_right [OF all] by blast
  obtain v where "jget c ''vram_total'' (JInt 0) = Inr v" "int_value v = Inr (Max (set sizes))"
    using c(2) by (rule ebind_InrE)
  then have "jget c ''vram_total'' (JInt 0) = Inr (JInt (Max (set sizes)))"
    by (simp add: int_value_iff)
  with c(1) show ?thesis
    using d(1,2,6) filter_result_in [OF d(3), of c] unfolding has_memory_def not_less by blast
qed

text \<open>What the reported versions say of the launch.\<close>

definition launch_facts :: "string \<Rightarrow> string list \<Rightarrow> versions \<Rightarrow> bool" where
  "launch_facts profile argv v \<longleftrightarrow>
     map_of v ''magic_profile'' = Some profile \<and>
     map_of v ''dynamic_vram'' = Some (flag_text ''--enable-dynamic-vram'' argv) \<and>
     map_of v ''pinned_memory_disabled'' = Some (flag_text ''--disable-pinned-memory'' argv)"

lemma launch_versions_lookup:
  assumes "launch_versions pt profile recipe system argv = Inr v"
  shows "map_of v RECIPE_KEY = Some recipe" "launch_facts profile argv v" "distinct (keys v)"
    "CONFIG_KEY \<notin> set (keys v)" "LAST_FRAME_FEATURE_KEY \<notin> set (keys v)"
  using assms
  by (auto simp: launch_versions_def result_simps launch_facts_def RECIPE_KEY_def CONFIG_KEY_def
      LAST_FRAME_FEATURE_KEY_def)

lemma profile_features_cases:
  "profile_features dirs profile info = Inr fs \<Longrightarrow> fs = [] \<or> fs = [(LAST_FRAME_FEATURE_KEY, ''1'')]"
  by (auto simp: profile_features_def standard_features_def result_simps split: if_splits)

lemma inspected_lookup:
  assumes "launch_versions pt profile recipe system argv = Inr v"
    "fs = [] \<or> fs = [(LAST_FRAME_FEATURE_KEY, ''1'')]"
  shows "let w = dict_merge (AList.update CONFIG_KEY c v) fs in
    map_of w RECIPE_KEY = Some recipe \<and> map_of w CONFIG_KEY = Some c \<and> launch_facts profile argv w \<and>
    (map_of w LAST_FRAME_FEATURE_KEY = Some ''1'' \<longleftrightarrow> fs \<noteq> [])"
  using launch_versions_lookup [OF assms(1)] assms(2)
  by (auto simp: dict_merge_def launch_facts_def RECIPE_KEY_def CONFIG_KEY_def LAST_FRAME_FEATURE_KEY_def
      map_of_eq_None_iff) force

text \<open>What an inspection that returned versions found.\<close>

definition inspection_ok :: "py_text \<Rightarrow> template_dirs \<Rightarrow> string \<Rightarrow> json \<Rightarrow> json \<Rightarrow> versions \<Rightarrow> bool" where
  "inspection_ok pt dirs profile stats info v \<longleftrightarrow>
     (\<exists>description t min_mb system argv spec features.
        describe_profile pt dirs profile = Inr description \<and> profile_template dirs profile = Inr t \<and>
        list_all (node_supported info) (dvalues (ct_graph t)) \<and>
        pget description ''min_vram_mb'' = JInt min_mb \<and> has_memory stats min_mb \<and>
        jitem stats ''system'' = Inr system \<and> ebind (jget system ''argv'' (JArr [])) as_strings = Inr argv \<and>
        map_of PROFILES profile = Some spec \<and> check_launch spec argv system = Inr () \<and>
        profile_features dirs profile info = Inr features \<and>
        (map_of v LAST_FRAME_FEATURE_KEY = Some ''1'' \<longleftrightarrow> features \<noteq> []) \<and>
        map_of v RECIPE_KEY = Some (the_str (pget description ''recipe_version'')) \<and>
        launch_facts profile argv v)"

lemma inspected_versions_ok:
  assumes "inspected_versions pt dirs profile stats info = Inr v"
  shows "inspection_ok pt dirs profile stats info v"
proof -
  obtain description t min_mb system argv_json argv spec w features where
    i: "describe_profile pt dirs profile = Inr description" "profile_template dirs profile = Inr t"
      "for_each (check_node info) (dvalues (ct_graph t)) = Inr ()"
      "int_value (pget description ''min_vram_mb'') = Inr min_mb" "check_memory stats min_mb = Inr ()"
      "jitem stats ''system'' = Inr system" "jget system ''argv'' (JArr []) = Inr argv_json"
      "as_strings argv_json = Inr argv" "classed (get_profile PROFILES profile) = Inr spec"
      "check_launch spec argv system = Inr ()"
      "launch_versions pt profile (the_str (pget description ''recipe_version'')) system argv = Inr w"
      "profile_features dirs profile info = Inr features"
      "v = dict_merge (AList.update CONFIG_KEY (config_fingerprint w argv (pget description ''models'')) w) features"
    using assms unfolding inspected_versions_def by (elim ebind_InrE) simp
  have "map_of PROFILES profile = Some spec"
    using i(9) by (auto simp: classed_Inr get_profile_def split: option.splits)
  moreover have "list_all (node_supported info) (dvalues (ct_graph t))"
    using i(3) check_node_supported by (auto simp: for_each_Inr_iff list_all_iff)
  moreover note inspected_lookup [OF i(11) profile_features_cases [OF i(12)],
      of "config_fingerprint w argv (pget description ''models'')", folded i(13), unfolded Let_def]
  ultimately show ?thesis
    using i(1,2,4,6-8,10,12) check_memory_has [OF i(5)]
    unfolding inspection_ok_def by (auto simp: int_value_iff)
qed

lemma get_json_Inr:
  "get_json env c w = (Inr v, w') \<longleftrightarrow>
     w' = c # w \<and> (\<exists>r. cv_http env (c # w) = Inr r \<and> hr_status r div 100 = 2 \<and> hr_json r = Inr v)"
  by (auto simp: get_json_def run_simps split: if_splits)

lemma inspect_runtime_Inr:
  assumes "inspect_runtime env pt dirs profile w = (Inr v, w')"
  obtains stats info where "w' = Object_info # System_stats # w"
    "inspected_versions pt dirs profile stats info = Inr v"
    "\<exists>r. cv_http env (System_stats # w) = Inr r \<and> hr_json r = Inr stats"
    "\<exists>r. cv_http env w' = Inr r \<and> hr_json r = Inr info"
  using assms unfolding inspect_runtime_def
  by (elim mbind_InrE) (auto simp: get_json_Inr mlift_iff)

text \<open>Claim C34: An inspection fails closed. It returns versions only for a runtime whose two answers show
  every node of the profile's template with every model it loads, a CUDA device with the recipe's memory
  and a launch the profile accepts; the versions carry the recipe that the description fingerprints to, and
  the last-frame feature exactly when the profile has it. Nothing but the two reads is sent.\<close>

theorem runtime_inspected_sound:
  assumes "inspect_runtime env pt dirs profile w = (Inr v, w')"
  shows "w' = Object_info # System_stats # w \<and>
    (\<exists>stats info. inspection_ok pt dirs profile stats info v \<and>
      (\<exists>r. cv_http env (System_stats # w) = Inr r \<and> hr_json r = Inr stats) \<and>
      (\<exists>r. cv_http env w' = Inr r \<and> hr_json r = Inr info))"
  using assms by (rule inspect_runtime_Inr) (blast dest: inspected_versions_ok)

section \<open>The profile plugin\<close>

definition prompted :: "comfy_call list \<Rightarrow> bool" where
  "prompted L \<longleftrightarrow> list_ex (\<lambda>c. case c of Prompt _ \<Rightarrow> True | _ \<Rightarrow> False) L"

text \<open>The diagnostics of an output attest the inspected versions and the request's inputs.\<close>

definition attests :: "profile_plugin \<Rightarrow> versions \<Rightarrow> validated_request \<Rightarrow> path plugin_output \<Rightarrow> bool" where
  "attests pp actual req x \<longleftrightarrow>
     (\<exists>attested. profile_attested pp actual = Inr attested \<and>
        pget (po_diagnostics x) ''runtime_versions'' = JObj (map (\<lambda>(k, x). (k, JStr x)) attested) \<and>
        pget (po_diagnostics x) ''effective_inputs'' = JObj (vr_inputs req))"

lemma not_Some_unit: "b \<noteq> Some () \<longleftrightarrow> b = None"
  by (cases b) auto

lemma no_prompts: "list_all (submits (\<lambda>_. False)) L \<Longrightarrow> \<not> prompted L"
  by (induction L) (auto simp: prompted_def submits_def split: comfy_call.splits)

lemma calls_inspect: "only_calls (submits P) (inspect_runtime env pt dirs profile)"
  by (auto simp: inspect_runtime_def get_json_def submits_def intro!: call_intros)

lemma calls_execute_any:
  "only_calls (submits (\<lambda>_. True)) (comfy_execute n env cp job_id ws paths deadline req)"
proof (cases "map_of (cp_registry cp) (vr_capability_id req)")
  case None
  then show ?thesis
    unfolding comfy_execute_def by (auto intro!: only_calls_mbind calls_ensure call_intros)
next
  case (Some t)
  then show ?thesis by (rule calls_execute) simp
qed

lemma profile_attests:
  "mbind (mlift (profile_attested pp actual)) (\<lambda>attested. mreturn (Some (r\<lparr>po_diagnostics :=
      dict_merge (po_diagnostics r)
        [(''runtime_versions'', JObj (map (\<lambda>(k, x). (k, JStr x)) attested)),
         (''effective_inputs'', JObj (vr_inputs req))]\<rparr>))) w = (Inr (Some x), w') \<Longrightarrow> attests pp actual req x"
  by (auto simp: run_simps attests_def dict_merge_def pget_def)

text \<open>\<open>profile_execute\<close> after its check.\<close>

definition profile_rest ::
  "nat \<Rightarrow> comfy_env \<Rightarrow> profile_plugin \<Rightarrow> string \<Rightarrow> path \<Rightarrow> (string, path) dict \<Rightarrow> time \<Rightarrow> validated_request \<Rightarrow>
     versions \<Rightarrow> path plugin_output option comfy_run"
where
  "profile_rest n env pp job_id workspace input_paths deadline req actual =
     mbind (comfy_execute n env (pp_comfy pp) job_id workspace input_paths deadline req) (\<lambda>out.
     case out of
       None \<Rightarrow> mreturn None
     | Some r \<Rightarrow>
         mbind (mlift (profile_attested pp actual)) (\<lambda>attested.
         mreturn (Some (r\<lparr>po_diagnostics := dict_merge (po_diagnostics r)
           [(''runtime_versions'', JObj (map (\<lambda>(k, x). (k, JStr x)) attested)),
            (''effective_inputs'', JObj (vr_inputs req))]\<rparr>))))"

lemma profile_rest_attests:
  assumes "profile_rest n env pp job_id workspace input_paths deadline req actual w = (r, w')"
  shows "\<exists>L. w' = L @ w \<and> (\<forall>x. r = Inr (Some x) \<longrightarrow> attests pp actual req x)"
proof -
  have "only_calls (submits (\<lambda>_. True)) (profile_rest n env pp job_id workspace input_paths deadline req actual)"
    unfolding profile_rest_def by (auto intro!: call_intros calls_execute_any split: option.split)
  from only_callsD [OF this assms] obtain L where "w' = L @ w" by blast
  moreover have "attests pp actual req x" if "r = Inr (Some x)" for x
    using assms unfolding that profile_rest_def
    by (elim mbind_InrE) (auto split: option.splits simp: mreturn_iff dest: profile_attests)
  ultimately show ?thesis by blast
qed

text \<open>Claim C35: The profile plugin runs a job only on the runtime it registered. Before a graph is submitted or
  an output returned, an inspection in the same execution has given exactly the registered versions, and no
  graph was submitted before it; an output attests those versions (under the profile's own keys for a
  further profile) and the inputs of the request.\<close>

theorem profile_job_rechecked:
  assumes "profile_execute n env pt dirs pp job_id workspace input_paths deadline req w = (r, w')"
  shows "\<exists>L. w' = L @ w \<and>
    (\<not> prompted L \<and> (\<forall>x. r \<noteq> Inr (Some x)) \<or>
     (\<exists>L1 L2 actual. L = L2 @ [Object_info, System_stats] @ L1 \<and> \<not> prompted L1 \<and>
        inspect_runtime env pt dirs (pp_profile pp) (L1 @ w) =
          (Inr actual, [Object_info, System_stats] @ L1 @ w) \<and>
        dict_eq actual (pp_versions pp) \<and> (\<forall>x. r = Inr (Some x) \<longrightarrow> attests pp actual req x)))"
proof -
  obtain u w1 where up: "ensure_running n env (pp_comfy pp) w = (u, w1)" by fastforce
  obtain L1 where L1: "w1 = L1 @ w" "\<not> prompted L1"
    using only_callsD [OF calls_ensure up, of "\<lambda>_. False"] no_prompts by blast
  show ?thesis
  proof (cases "u = Inr (Some ())")
    case False
    then have "w' = w1 \<and> (\<forall>x. r \<noteq> Inr (Some x))"
      using assms up by (cases u) (auto simp: profile_execute_def mbind_def mreturn_def not_Some_unit)
    then show ?thesis using L1 by blast
  next
    case True
    obtain q w2 where ins: "inspect_runtime env pt dirs (pp_profile pp) w1 = (q, w2)" by fastforce
    obtain L2 where L2: "w2 = L2 @ w1" "\<not> prompted L2"
      using only_callsD [OF calls_inspect ins, of "\<lambda>_. False"] no_prompts by blast
    show ?thesis
    proof (cases "\<exists>actual. q = Inr actual \<and> dict_eq actual (pp_versions pp)")
      case False
      then have "w' = w2 \<and> (\<forall>x. r \<noteq> Inr (Some x))"
        using assms up ins True by (cases q) (auto simp: profile_execute_def mbind_def mraise_def)
      then show ?thesis using L1 L2 by (intro exI [of _ "L2 @ L1"]) (auto simp: prompted_def)
    next
      case True
      then obtain actual where q: "q = Inr actual" "dict_eq actual (pp_versions pp)" by blast
      have w2: "w2 = [Object_info, System_stats] @ w1"
        using ins q by (auto elim!: inspect_runtime_Inr)
      have "profile_rest n env pp job_id workspace input_paths deadline req actual w2 = (r, w')"
        using assms up ins q \<open>u = Inr (Some ())\<close> by (auto simp: profile_execute_def profile_rest_def mbind_def)
      from profile_rest_attests [OF this] obtain L3 where L3: "w' = L3 @ w2"
        and "\<forall>x. r = Inr (Some x) \<longrightarrow> attests pp actual req x" by blast
      then show ?thesis
        using L1 L3 w2 q ins by (intro exI [of _ "L3 @ [Object_info, System_stats] @ L1"]) auto
    qed
  qed
qed

section \<open>Waiting for a runtime\<close>

definition probes :: "comfy_call list \<Rightarrow> nat" where
  "probes L = length (filter (\<lambda>c. c = System_stats) L)"

definition pauses :: "comfy_call list \<Rightarrow> nat" where
  "pauses L = length (filter (\<lambda>c. case c of Pause _ \<Rightarrow> True | _ \<Rightarrow> False) L)"

lemma stats_ready_calls: "stats_ready env handled w = (r, w') \<Longrightarrow> w' = System_stats # w"
  by (auto simp: stats_ready_def run_simps split: if_splits)

lemma stats_ready_True:
  "stats_ready env handled w = (Inr True, w') \<Longrightarrow>
     \<exists>a. cv_http env w' = Inr a \<and> hr_status a div 100 = 2"
  by (auto simp: stats_ready_def run_simps split: if_splits)

lemma wait_ready_calls:
  assumes "wait_ready left env w = (r, w')"
  shows "\<exists>L. w' = L @ w \<and> probes L \<le> left \<and> pauses L \<le> left - 1 \<and>
    list_all (\<lambda>c. c = System_stats \<or> c = Pause 2) L \<and>
    (r = Inr () \<longrightarrow> left = 0 \<or> (\<exists>a. cv_http env w' = Inr a \<and> hr_status a div 100 = 2))"
  using assms
proof (induction left arbitrary: w)
  case 0
  then show ?case by (simp add: wait_ready.simps mreturn_def probes_def pauses_def)
next
  case (Suc left)
  obtain q w1 where q: "stats_ready env http_error w = (q, w1)" by fastforce
  note w1 = stats_ready_calls [OF q]
  have one: "probes [System_stats] = 1" "pauses [System_stats] = 0"
    by (simp_all add: probes_def pauses_def)
  consider (failed) e where "q = Inl e" | (ready) "q = Inr True" | (last) "q = Inr False" "left = 0"
    | (again) "q = Inr False" "left \<noteq> 0" by (cases q) auto
  then show ?case
  proof cases
    case again
    then have "wait_ready left env (Pause 2 # w1) = (r, w')"
      using Suc.prems q by (simp add: wait_ready.simps(2) mbind_def mcall_def)
    from Suc.IH [OF this] obtain L where "w' = L @ Pause 2 # w1" "probes L \<le> left" "pauses L \<le> left - 1"
      "list_all (\<lambda>c. c = System_stats \<or> c = Pause 2) L"
      "r = Inr () \<longrightarrow> left = 0 \<or> (\<exists>a. cv_http env w' = Inr a \<and> hr_status a div 100 = 2)" by blast
    then show ?thesis
      using w1 again by (intro exI [of _ "L @ [Pause 2, System_stats]"]) (auto simp: probes_def pauses_def)
  qed (use Suc.prems q w1 one stats_ready_True in
      \<open>auto simp: wait_ready.simps(2) mbind_def mreturn_def mraise_def intro!: exI [of _ "[System_stats]"]\<close>)
qed

text \<open>The wait for a runtime that was just started ends: after at most 120 readings of its status and
  119 pauses of two seconds it has either seen an answer with a success status or raised, whatever the
  runtime answers.\<close>

theorem runtime_wait_bounded:
  "case wait_ready READY_ATTEMPTS env w of (r, w') \<Rightarrow>
     \<exists>L. w' = L @ w \<and> probes L \<le> 120 \<and> pauses L \<le> 119 \<and>
       list_all (\<lambda>c. c = System_stats \<or> c = Pause 2) L \<and>
       (case r of Inr _ \<Rightarrow> (\<exists>a. cv_http env w' = Inr a \<and> hr_status a div 100 = 2) | Inl _ \<Rightarrow> True)"
proof -
  obtain r w' where run: "wait_ready READY_ATTEMPTS env w = (r, w')" by fastforce
  from wait_ready_calls [OF this] show ?thesis
    unfolding run by (auto simp: READY_ATTEMPTS_def split: sum.split)
qed

section \<open>Witnesses\<close>

text \<open>A one-node template of the 12GB profile, and a runtime that offers its model.\<close>

definition subject_graph :: payload where
  "subject_graph =
     [(''1'', JObj [(''class_type'', JStr ''UNETLoader''),
         (''inputs'', JObj [(''unet_name'', JStr ''klein''), (''weight_dtype'', JStr ''fp8'')])])]"

definition subject_document :: json where
  "subject_document = JObj
     [(''capability_id'', JStr SUBJECT12_CAPABILITY), (''contract_version'', JInt 1),
      (''template_version'', JStr ''2''), (''graph'', JObj subject_graph), (''inputs'', JArr []),
      (''image_slots'', JArr []), (''output_node_id'', JStr ''1''),
      (''output_content_type'', JStr ''image/png''), (''model_id'', JStr ''m''), (''model_version'', JStr ''1'')]"

definition subject_template :: comfy_template where
  "subject_template =
     \<lparr>ct_capability_id = SUBJECT12_CAPABILITY, ct_contract_version = 1, ct_template_version = ''2'',
      ct_graph = subject_graph, ct_inputs = [], ct_image_slots = [], ct_output_node_id = ''1'',
      ct_output_content_type = ''image/png'', ct_model_id = ''m'', ct_model_version = ''1'', ct_audio_slots = []\<rparr>"

definition subject_dirs :: template_dirs where
  "subject_dirs = \<lparr>td_packaged = [], td_profiles = [(''s'', Inr subject_document)]\<rparr>"

definition subject_stats :: json where
  "subject_stats = JObj
     [(''devices'', JArr [JObj [(''type'', JStr ''cuda''), (''vram_total'', JInt (12288 * MIB))]]),
      (''system'', JObj [(''argv'', JArr [JStr ''main.py'', JStr ''--reserve-vram'', JStr ''1''])])]"

definition subject_info :: json where
  "subject_info = JObj [(''UNETLoader'', JObj [(''input'', JObj [(''required'', JObj
     [(''unet_name'', JArr [JArr [JStr ''other'', JStr ''klein'']])])])])]"

definition plain_text :: py_text where
  "plain_text = \<lparr>pt_str = \<lambda>_. ''v'', pt_repr = \<lambda>_. ''v'', pt_secs = \<lambda>_. ''0''\<rparr>"

definition subject_env :: comfy_env where
  "subject_env = demo_comfy_env\<lparr>cv_http := \<lambda>w. Inr \<lparr>hr_status = 200, hr_json = Inr
     (case hd w of
        System_stats \<Rightarrow> subject_stats
      | Object_info \<Rightarrow> subject_info
      | _ \<Rightarrow> JObj [(''prompt_id'', JStr ''p''), (''p'', JObj
          [(''status'', JObj [(''completed'', JBool True)]),
           (''outputs'', JObj [(''1'', JObj [(''images'', JArr [JObj [(''filename'', JStr ''f.png'')]])])])])])\<rparr>\<rparr>"

lemma subject_template: "profile_template subject_dirs SUBJECT12 = Inr subject_template"
  by code_simp

lemma subject_models: "graph_models plain_text subject_graph = Inr [''klein'']"
  by code_simp

lemma subject_checks:
  "for_each (check_node subject_info) (dvalues subject_graph) = Inr ()"
  "check_memory subject_stats 12000 = Inr ()"
  "jitem subject_stats ''system'' =
     Inr (JObj [(''argv'', JArr [JStr ''main.py'', JStr ''--reserve-vram'', JStr ''1''])])"
  by code_simp+

lemma subject_profile:
  obtains spec where "get_profile PROFILES SUBJECT12 = Inr spec" "mp_engine spec = None" "mp_name spec = SUBJECT12"
    "mp_check_launch spec = Subject12Check" "\<not> mp_has_features spec"
  by (simp add: get_profile_def PROFILES_def STANDARD_def LIGHTX8_def SUBJECT12_def)

lemma subject_description:
  "\<exists>d. describe_profile plain_text subject_dirs SUBJECT12 = Inr d \<and> pget d ''min_vram_mb'' = JInt 12000"
proof -
  obtain spec where "get_profile PROFILES SUBJECT12 = Inr spec" "mp_engine spec = None" "mp_name spec = SUBJECT12"
    by (rule subject_profile)
  then show ?thesis
    by (simp add: describe_profile_def subject_template subject_models comfy_description_def
        subject12_description_def subject_template_def pget_def Let_def)
qed

lemma subject_inspected:
  "\<exists>v. inspected_versions plain_text subject_dirs SUBJECT12 subject_stats subject_info = Inr v"
proof -
  obtain spec where s: "get_profile PROFILES SUBJECT12 = Inr spec" "mp_engine spec = None"
    "mp_name spec = SUBJECT12" "mp_check_launch spec = Subject12Check" "\<not> mp_has_features spec"
    by (rule subject_profile)
  obtain d where d: "describe_profile plain_text subject_dirs SUBJECT12 = Inr d"
    "pget d ''min_vram_mb'' = JInt 12000"
    using subject_description by blast
  have g: "ct_graph subject_template = subject_graph" by (simp add: subject_template_def)
  have launch: "check_launch spec [''main.py'', ''--reserve-vram'', ''1''] x = Inr ()" for x
    by (simp add: check_launch_def s(4) check_subject12_launch_def SUBJECT12_REFUSED_FLAGS_def)
  show ?thesis
    by (simp add: inspected_versions_def d subject_template g subject_checks int_value_def jget_def payload_get_def
        as_strings_def s(1,5) launch launch_versions_def flag_argument_def profile_features_def)
qed

lemma subject_runtime:
  obtains v where "inspect_runtime subject_env plain_text subject_dirs SUBJECT12 w =
     (Inr v, Object_info # System_stats # w)"
  using subject_inspected
  by (auto simp: inspect_runtime_def get_json_def subject_env_def mbind_def mcall_def mlift_def)

theorem runtime_inspected_sound_witness:
  "\<exists>v. inspection_ok plain_text subject_dirs SUBJECT12 subject_stats subject_info v"
proof -
  obtain v where v: "inspect_runtime subject_env plain_text subject_dirs SUBJECT12 [] =
      (Inr v, [Object_info, System_stats])"
    by (rule subject_runtime)
  from runtime_inspected_sound [OF v] show ?thesis
    by (auto simp: subject_env_def)
qed

definition subject_versions :: versions where
  "subject_versions = (case fst (inspect_runtime subject_env plain_text subject_dirs SUBJECT12 []) of
     Inr v \<Rightarrow> v | Inl _ \<Rightarrow> [])"

definition subject_plugin :: profile_plugin where
  "subject_plugin =
     \<lparr>pp_comfy = demo_comfy\<lparr>cp_registry := [(SUBJECT12_CAPABILITY, subject_template)]\<rparr>,
      pp_profile = SUBJECT12, pp_versions = subject_versions, pp_namespaced = False\<rparr>"

definition subject_request :: validated_request where
  "subject_request = \<lparr>vr_capability_id = SUBJECT12_CAPABILITY, vr_contract_version = 1,
     vr_inputs = [(''images'', JObj [])], vr_seed = None\<rparr>"

lemma subject_comfy:
  "case fst (comfy_execute 1 subject_env (demo_comfy\<lparr>cp_registry := [(SUBJECT12_CAPABILITY, subject_template)]\<rparr>)
      ''j'' ([], []) [] 99 subject_request [Object_info, System_stats, Probe]) of
     Inr (Some _) \<Rightarrow> True | _ \<Rightarrow> False"
  by code_simp

lemma inspected_distinct:
  assumes "inspected_versions pt dirs profile stats info = Inr v"
  shows "distinct (keys v)"
proof -
  obtain w c fs recipe system argv where "launch_versions pt profile recipe system argv = Inr w"
    "dict_merge (AList.update CONFIG_KEY c w) fs = v"
    using assms unfolding inspected_versions_def by (elim ebind_InrE) (drule sum.inject(2) [THEN iffD1], blast)
  then show ?thesis using launch_versions_lookup(3) by (auto intro: distinct_merge)
qed

lemma subject_executed:
  "\<exists>out w. profile_execute 1 subject_env plain_text subject_dirs subject_plugin ''j'' ([], []) [] 99
     subject_request [] = (Inr (Some out), w)"
proof -
  obtain v where v: "inspect_runtime subject_env plain_text subject_dirs SUBJECT12 w =
      (Inr v, Object_info # System_stats # w)" for w
    using subject_inspected
    by (auto simp: inspect_runtime_def get_json_def subject_env_def mbind_def mcall_def mlift_def)
  then have reg: "pp_versions subject_plugin = v" by (simp add: subject_plugin_def subject_versions_def)
  have "distinct (keys v)"
    using v [of "[]"] by (auto elim!: inspect_runtime_Inr dest: inspected_distinct)
  then have eq: "dict_eq v (pp_versions subject_plugin)" unfolding reg by (rule dict_eq_refl)
  have up: "ensure_running 1 subject_env (pp_comfy subject_plugin) [] = (Inr (Some ()), [Probe])"
    by (simp add: ensure_running_def probe_up_def subject_env_def demo_comfy_env_def mbind_def mcatch_def
        mcall_def mreturn_def)
  obtain out w where "comfy_execute 1 subject_env (pp_comfy subject_plugin) ''j'' ([], []) [] 99 subject_request
      [Object_info, System_stats, Probe] = (Inr (Some out), w)"
    using subject_comfy by (auto simp: subject_plugin_def split: sum.splits option.splits prod.splits)
      (metis surj_pair fst_conv)
  moreover have "pp_profile subject_plugin = SUBJECT12" "\<not> pp_namespaced subject_plugin"
    by (simp_all add: subject_plugin_def)
  ultimately show ?thesis
    by (simp add: profile_execute_def mbind_def up v eq profile_attested_def mlift_def mreturn_def
        del: One_nat_def)
qed

theorem profile_job_rechecked_witness:
  "\<exists>out w actual. profile_execute 1 subject_env plain_text subject_dirs subject_plugin ''j'' ([], []) [] 99
      subject_request [] = (Inr (Some out), w) \<and>
    dict_eq actual subject_versions \<and> attests subject_plugin actual subject_request out"
proof -
  obtain out w where run: "profile_execute 1 subject_env plain_text subject_dirs subject_plugin ''j'' ([], []) [] 99
      subject_request [] = (Inr (Some out), w)"
    using subject_executed by blast
  have "pp_versions subject_plugin = subject_versions" by (simp add: subject_plugin_def)
  with profile_job_rechecked [OF run] run show ?thesis by auto
qed

end
