(* ===== verification/AgentMain.thy ===== *)
theory AgentMain
  imports ProfileRuntime
begin

text \<open>
  \<open>agent_main.py\<close>: what the worker's entry point builds from its environment. \<open>host\<close> is what it takes from
  outside: the parsers of the standard library (\<open>shlex.split\<close>, \<open>float\<close>, \<open>json.loads\<close>), the tests of an
  address, the template files and the temporary directory. Runtime versions that are no object of strings
  are TypeError here. Exceptions of the build are those of contracts.py, of the preparation \<open>agent_exn\<close>.
\<close>

section \<open>The host\<close>

record host =
  ho_join :: "string list \<Rightarrow> string"
  ho_shlex :: "string \<Rightarrow> exn + string list"
  ho_float :: "string \<Rightarrow> exn + rat"
  ho_loads :: "string \<Rightarrow> json option"
  ho_private :: "string \<Rightarrow> exn + unit"
  ho_scheme :: "string \<Rightarrow> string"
  ho_templates :: "string \<Rightarrow> template_files"
  ho_dirs :: template_dirs
  ho_tempdir :: string

definition STATIC_AUTH :: string where "STATIC_AUTH = ''static''"
definition GOOGLE_OIDC_AUTH :: string where "GOOGLE_OIDC_AUTH = ''google_oidc''"
definition DEFAULT_WORKSPACE_NAME :: string where "DEFAULT_WORKSPACE_NAME = ''outbound-gpu-worker''"
definition AGENT_COMFY_PLUGIN_ID :: string where "AGENT_COMFY_PLUGIN_ID = ''comfy-workflow''"
definition DEFAULT_COMFY_STARTUP_TIMEOUT_SECONDS :: rat where "DEFAULT_COMFY_STARTUP_TIMEOUT_SECONDS = 180"

definition DEFAULT_MAX_INPUT_BYTES :: int where "DEFAULT_MAX_INPUT_BYTES = 2 * 1024 * 1024 * 1024"

definition agent_required :: "environment \<Rightarrow> string \<Rightarrow> exn + string" where
  "agent_required environment name =
     (let v = env_get environment name [] in
      if v = [] then Inl (ValueError (name @ '' is required'')) else Inr v)"

section \<open>Plugins\<close>

text \<open>A plugin the agent may run: the reference plugin, the generic or a profile's ComfyUI plugin, the engine's.\<close>

datatype worker_plugin =
    Echo_plugin
  | Workflow_plugin comfy_plugin
  | Comfy_profile_plugin profile_plugin
  | Engine_profile_plugin engine_plugin

fun plugin_manifest :: "worker_plugin \<Rightarrow> capability_manifest" where
  "plugin_manifest Echo_plugin = echo_capabilities"
| "plugin_manifest (Workflow_plugin cp) = comfy_capabilities (cp_registry cp)"
| "plugin_manifest (Comfy_profile_plugin pp) = comfy_capabilities (cp_registry (pp_comfy pp))"
| "plugin_manifest (Engine_profile_plugin ep) = engine_capabilities (ep_recipe ep)"

fun plugin_validate :: "worker_plugin \<Rightarrow> lease_grant \<Rightarrow> exn + validated_request" where
  "plugin_validate Echo_plugin = echo_validate"
| "plugin_validate (Workflow_plugin cp) = comfy_validate (cp_registry cp)"
| "plugin_validate (Comfy_profile_plugin pp) = comfy_validate (cp_registry (pp_comfy pp))"
| "plugin_validate (Engine_profile_plugin ep) = engine_validate (ep_recipe ep)"

definition claimed_ids :: "worker_plugin \<Rightarrow> string list" where
  "claimed_ids p = map wc_capability_id (cm_capabilities (plugin_manifest p))"

text \<open>\<open>_comfy_runtime\<close>, with the base URL of its callers.\<close>

definition comfy_runtime :: "host \<Rightarrow> environment \<Rightarrow> string \<Rightarrow> exn + comfy_settings" where
  "comfy_runtime h environment base_url =
     (let raw = env_get environment ''OGWP_COMFY_START_COMMAND'' [] in
      ebind (if strip raw \<noteq> [] then ebind (ho_shlex h raw) (\<lambda>c. Inr (Some c)) else Inr None) (\<lambda>command.
      ebind (case map_of environment ''OGWP_COMFY_STARTUP_TIMEOUT_SECONDS'' of
               None \<Rightarrow> Inr DEFAULT_COMFY_STARTUP_TIMEOUT_SECONDS | Some t \<Rightarrow> ho_float h t) (\<lambda>timeout.
      Inr \<lparr>st_base_url = base_url, st_start_command = command, st_startup_timeout_seconds = timeout\<rparr>)))"

text \<open>\<open>_comfy_workflow_plugin\<close>: the machine's templates less the excluded capabilities.\<close>

definition comfy_workflow_plugin :: "host \<Rightarrow> environment \<Rightarrow> string list \<Rightarrow> exn + worker_plugin" where
  "comfy_workflow_plugin h environment exclude =
     (let directory = env_get environment ''OGWP_COMFY_TEMPLATES_DIR'' [] in
      ebind (from_directory (if directory \<noteq> [] then ho_templates h directory else td_packaged (ho_dirs h)))
        (\<lambda>registry.
      ebind (comfy_runtime h environment (env_get environment ''OGWP_COMFY_URL'' DEFAULT_COMFY_BASE_URL))
        (\<lambda>settings.
      ebind (new_comfy_plugin (ho_private h) (filter (\<lambda>(c, _). c \<notin> set exclude) registry) settings) (\<lambda>cp.
      Inr (Workflow_plugin cp)))))"

text \<open>\<open>_plugin\<close> over KNOWN_PLUGINS.\<close>

definition named_plugin :: "host \<Rightarrow> environment \<Rightarrow> string \<Rightarrow> exn + worker_plugin" where
  "named_plugin h environment name =
     (if strip name = DETERMINISTIC_ECHO_PLUGIN_ID then Inr Echo_plugin
      else if strip name = AGENT_COMFY_PLUGIN_ID then comfy_workflow_plugin h environment []
      else Inl (ValueError (''unknown worker plugin: '' @ name)))"

section \<open>Building the agent\<close>

datatype credential_source = Static_token string | Google_audience string

definition agent_credential :: "environment \<Rightarrow> exn + credential_source" where
  "agent_credential environment =
     (let auth = env_get environment ''OGWP_WORKER_AUTH'' STATIC_AUTH in
      if auth = STATIC_AUTH
      then ebind (agent_required environment ''OGWP_WORKER_TOKEN'') (\<lambda>t. Inr (Static_token t))
      else if auth = GOOGLE_OIDC_AUTH
      then ebind (agent_required environment ''OGWP_WORKER_AUDIENCE'') (\<lambda>a. Inr (Google_audience a))
      else Inl (ValueError (''unsupported OGWP_WORKER_AUTH: '' @ auth)))"

text \<open>A list of ids as Python prints it.\<close>

definition py_list :: "string list \<Rightarrow> string" where
  "py_list xs = ''['' @ join_with '', '' (map (\<lambda>x. CHR 0x27 # x @ [CHR 0x27]) xs) @ '']''"

text \<open>The loop over the profile plugins.\<close>

fun claim_profiles :: "worker_plugin list \<Rightarrow> string list \<Rightarrow> exn + string list" where
  "claim_profiles [] claimed = Inr claimed"
| "claim_profiles (p # ps) claimed =
     (let own = claimed_ids p; twice = sort (remdups (filter (\<lambda>c. c \<in> set claimed) own)) in
      if twice \<noteq> []
      then Inl (ValueError (''profile capabilities claimed twice: '' @ py_list twice))
      else claim_profiles ps (claimed @ own))"

definition check_overlap :: "string list \<Rightarrow> worker_plugin \<Rightarrow> exn + unit" where
  "check_overlap claimed p =
     (let overlap = sort (remdups (filter (\<lambda>c. c \<in> set claimed) (claimed_ids p))) in
      ensure (overlap = [])
        (ValueError (''profile capabilities also claimed elsewhere: '' @ py_list overlap)))"

definition agent_plugins ::
  "host \<Rightarrow> environment \<Rightarrow> worker_plugin list \<Rightarrow> bool \<Rightarrow> exn + worker_plugin list"
where
  "agent_plugins h environment profile_plugins exclusive =
     (let names = split_on (CHR '','') (env_get environment ''OGWP_WORKER_PLUGINS'' DETERMINISTIC_ECHO_PLUGIN_ID)
      in
      if exclusive
      then if profile_plugins = [] then Inl (ValueError ''an exclusive agent needs its profile plugin'')
           else Inr profile_plugins
      else if profile_plugins = [] then map_result (named_plugin h environment) names
      else
        ebind (claim_profiles profile_plugins []) (\<lambda>claimed.
        ebind (map_result (\<lambda>name. if strip name = AGENT_COMFY_PLUGIN_ID
            then comfy_workflow_plugin h environment claimed else named_plugin h environment name) names)
          (\<lambda>generic.
        ebind (for_each (check_overlap claimed) generic) (\<lambda>_.
        Inr (generic @ profile_plugins)))))"

definition load_json :: "host \<Rightarrow> string \<Rightarrow> exn + json" where
  "load_json h txt = (case ho_loads h txt of None \<Rightarrow> Inl (ValueError ''invalid JSON'') | Some v \<Rightarrow> Inr v)"

definition as_versions :: "json \<Rightarrow> exn + versions" where
  "as_versions v =
     (case v of
        JObj d \<Rightarrow> map_result (\<lambda>(k, x). case x of JStr s \<Rightarrow> Inr (k, s) | _ \<Rightarrow> Inl (TypeError k)) d
      | _ \<Rightarrow> Inl (TypeError ''runtime versions''))"

text \<open>The agent's own defaults: polls between 2 and 60 seconds, leases of 1200 seconds.\<close>

definition build_agent_from_env ::
  "host \<Rightarrow> environment \<Rightarrow> worker_plugin list \<Rightarrow> bool \<Rightarrow> exn + credential_source \<times> worker_plugin list \<times> agent"
where
  "build_agent_from_env h environment profile_plugins exclusive =
     ebind (agent_required environment ''OGWP_WORKER_COORDINATOR_URL'') (\<lambda>coordinator_url.
     ebind (agent_required environment ''OGWP_WORKER_ID'') (\<lambda>worker_id.
     ebind (agent_credential environment) (\<lambda>credential.
     ebind (agent_plugins h environment profile_plugins exclusive) (\<lambda>plugins.
     ebind (load_json h (env_get environment ''OGWP_WORKER_RUNTIME_VERSIONS'' ''{}'')) (\<lambda>versions_json.
     ebind (env_int environment ''OGWP_WORKER_CONCURRENCY'' ''1'') (\<lambda>concurrency.
     ebind (case map_of environment ''OGWP_WORKER_MAX_INPUT_BYTES'' of
              None \<Rightarrow> Inr DEFAULT_MAX_INPUT_BYTES | Some t \<Rightarrow> int_of_text t) (\<lambda>max_input_bytes.
     let vram_mb = env_get environment ''OGWP_WORKER_VRAM_MB'' [];
         tenant = env_get environment ''OGWP_WORKER_TENANT'' [] in
     ebind (if vram_mb \<noteq> [] then ebind (int_of_text vram_mb) (\<lambda>n. Inr (Some n)) else Inr None) (\<lambda>vram.
     ebind (as_versions versions_json) (\<lambda>v.
     ebind (new_agent coordinator_url worker_id (map plugin_manifest plugins)
       (\<lambda>i lease. if i < length plugins then classed (plugin_validate (plugins ! i) lease)
                  else Inl (OtherError ''IndexError''))
       (case map_of environment ''OGWP_WORKER_WORKSPACE'' of
          None \<Rightarrow> path_join (path_of (ho_tempdir h)) DEFAULT_WORKSPACE_NAME | Some wsroot \<Rightarrow> path_of wsroot)
       concurrency max_input_bytes 2 60 1200 (if tenant = [] then None else Some tenant)
       (map_of environment ''OGWP_WORKER_GPU_MODEL'') vram v) (\<lambda>agent.
     Inr (credential, plugins, agent)))))))))))"

section \<open>The engine's environment\<close>

definition ENGINE_COMMAND_VARIABLE :: string where "ENGINE_COMMAND_VARIABLE = ''MVS_ENGINE_COMMAND''"
definition ENGINE_URL_VARIABLE :: string where "ENGINE_URL_VARIABLE = ''OGWP_ENGINE_URL''"

definition engine_command :: "host \<Rightarrow> environment \<Rightarrow> exn + string list" where
  "engine_command h environment =
     (let raw = env_get environment ENGINE_COMMAND_VARIABLE [] in
      if strip raw \<noteq> [] then ho_shlex h raw else Inr [AISMITH_ENGINE])"

definition engine_seconds :: "host \<Rightarrow> environment \<Rightarrow> string \<Rightarrow> rat \<Rightarrow> exn + rat" where
  "engine_seconds h environment variable fallback =
     (let raw = env_get environment variable [] in
      if strip raw = [] then Inr fallback
      else ebind (ho_float h raw) (\<lambda>v.
        if \<not> v > 0 then Inl (ValueError (variable @ '' must be a positive number of seconds'')) else Inr v))"

definition engine_url :: "host \<Rightarrow> environment \<Rightarrow> exn + string option" where
  "engine_url h environment =
     runner_url (ho_scheme h) (ho_private h) (env_get environment ENGINE_URL_VARIABLE [])"

abbreviation engine_lift :: "exn + 'a \<Rightarrow> engine_exn + 'a" where
  "engine_lift \<equiv> map_sum (\<lambda>e. EngineOther (exn_name (class_of e))) (\<lambda>a. a)"

text \<open>\<open>prepare_engine_environment\<close> from the environment; \<open>inspected\<close> is the full inspection over the URL or
  by the command, with its timeout.\<close>

definition engine_settings ::
  "host \<Rightarrow> py_text \<Rightarrow> (string option \<Rightarrow> string list \<Rightarrow> rat \<Rightarrow> engine_exn + payload) \<Rightarrow> string \<Rightarrow> environment \<Rightarrow>
     engine_exn + environment"
where
  "engine_settings h pt inspected profile environment =
     ebind (engine_lift (require_qualified PROFILES profile)) (\<lambda>_.
     ebind (engine_lift (engine_seconds h environment ''MVS_ENGINE_FULL_INSPECT_TIMEOUT_SECONDS'' 1800)) (\<lambda>timeout.
     ebind (engine_lift (engine_url h environment)) (\<lambda>url.
     case url of
       Some u \<Rightarrow> prepare_engine_environment pt profile (inspected (Some u) [] timeout) [(ENGINE_URL_VARIABLE, u)]
     | None \<Rightarrow>
         ebind (engine_lift (engine_command h environment)) (\<lambda>command.
         prepare_engine_environment pt profile (inspected None command timeout)
           [(ENGINE_COMMAND_VARIABLE, ho_join h command)]))))"

definition engine_plugin_from_env :: "host \<Rightarrow> string \<Rightarrow> environment \<Rightarrow> exn + engine_plugin" where
  "engine_plugin_from_env h profile environment =
     ebind (case map_of environment ''OGWP_WORKER_RUNTIME_VERSIONS'' of
              None \<Rightarrow> Inl (KeyError ''OGWP_WORKER_RUNTIME_VERSIONS'') | Some t \<Rightarrow> load_json h t) (\<lambda>j.
     ebind (engine_command h environment) (\<lambda>command.
     ebind (engine_url h environment) (\<lambda>url.
     ebind (engine_seconds h environment ''MVS_ENGINE_INSPECT_TIMEOUT_SECONDS'' INSPECT_TIMEOUT_SECONDS) (\<lambda>timeout.
     ebind (engine_seconds h environment ''MVS_ENGINE_KILL_GRACE_SECONDS'' 10) (\<lambda>_.
     ebind (as_versions j) (\<lambda>v.
     new_engine_plugin profile v command False timeout url))))))"

section \<open>Preparing the profiles\<close>

text \<open>\<open>json.loads\<close> of an object of version objects.\<close>

definition as_profile_versions :: "json \<Rightarrow> exn + (string, versions) dict" where
  "as_profile_versions v =
     (case v of
        JObj d \<Rightarrow> map_result (\<lambda>(k, x). ebind (as_versions x) (\<lambda>y. Inr (k, y))) d
      | _ \<Rightarrow> Inl (TypeError ''profile versions''))"

definition per_profile_versions ::
  "host \<Rightarrow> environment \<Rightarrow> string list \<Rightarrow> agent_exn + (string, versions) dict"
where
  "per_profile_versions h prepared profiles =
     ebind (classed (case map_of prepared ''OGWP_WORKER_RUNTIME_VERSIONS'' of
              None \<Rightarrow> Inl (KeyError ''OGWP_WORKER_RUNTIME_VERSIONS'') | Some t \<Rightarrow> load_json h t)) (\<lambda>j.
     ebind (classed (as_versions j)) (\<lambda>merged.
     let raw = env_get prepared ''MVS_WORKER_PROFILE_VERSIONS'' [] in
     ebind (classed (ebind (load_json h (if raw \<noteq> [] then raw else ''{}'')) as_profile_versions)) (\<lambda>per_profile.
     if per_profile \<noteq> [] then Inr per_profile
     else case profiles of [] \<Rightarrow> Inl (OtherError ''IndexError'') | p # _ \<Rightarrow> Inr [(p, merged)])))"

text \<open>The plugin of each profile, in order; only the first is not namespaced.\<close>

fun profile_plugins_from ::
  "host \<Rightarrow> environment \<Rightarrow> (string, versions) dict \<Rightarrow> bool \<Rightarrow> string list \<Rightarrow> agent_exn + worker_plugin list"
where
  "profile_plugins_from h prepared per_profile namespaced [] = Inr []"
| "profile_plugins_from h prepared per_profile namespaced (profile # profiles) =
     ebind (classed (case map_of per_profile profile of None \<Rightarrow> Inl (KeyError profile) | Some v \<Rightarrow> Inr v)) (\<lambda>v.
     ebind (classed (case map_of prepared ''OGWP_COMFY_URL'' of
        None \<Rightarrow> Inl (KeyError ''OGWP_COMFY_URL'') | Some u \<Rightarrow> Inr u)) (\<lambda>url.
     ebind (classed (comfy_runtime h prepared url)) (\<lambda>settings.
     ebind (new_profile_plugin (ho_private h) (ho_dirs h) profile v namespaced settings) (\<lambda>pp.
     ebind (profile_plugins_from h prepared per_profile True profiles) (\<lambda>rest.
     Inr (Comfy_profile_plugin pp # rest))))))"

definition prepare_mixed_profiles ::
  "host \<Rightarrow> comfy_env \<Rightarrow> py_text \<Rightarrow> (string \<Rightarrow> environment \<Rightarrow> engine_exn + environment) \<Rightarrow> environment \<Rightarrow>
     (environment \<times> worker_plugin list) comfy_run"
where
  "prepare_mixed_profiles h env pt engine environment =
     (if strip (env_get environment PROFILE_VARIABLE []) = [] then mreturn (environment, [])
      else
        mbind (mlift (classed (parse_profiles PROFILES (env_get environment PROFILE_VARIABLE [])))) (\<lambda>profiles.
        if list_ex (\<lambda>p. case map_of PROFILES p of None \<Rightarrow> False | Some spec \<Rightarrow> \<not> mp_mixed_mode spec) profiles
        then mraise value_error
        else
          mbind (prepare_environment env pt (ho_dirs h) (\<lambda>p. engine p environment) environment) (\<lambda>settings.
          let prepared = dict_merge environment settings in
          mbind (mlift (per_profile_versions h prepared profiles)) (\<lambda>per_profile.
          mbind (mlift (profile_plugins_from h prepared per_profile False profiles)) (\<lambda>plugins.
          mreturn (prepared, plugins))))))"

definition prepare_mixed_profile ::
  "host \<Rightarrow> comfy_env \<Rightarrow> py_text \<Rightarrow> (string \<Rightarrow> environment \<Rightarrow> engine_exn + environment) \<Rightarrow> environment \<Rightarrow>
     (environment \<times> worker_plugin option) comfy_run"
where
  "prepare_mixed_profile h env pt engine environment =
     mbind (prepare_mixed_profiles h env pt engine environment) (\<lambda>(prepared, plugins).
     if length plugins > 1 then mraise value_error
     else mreturn (prepared, case plugins of [] \<Rightarrow> None | p # _ \<Rightarrow> Some p))"

definition is_engine_profile :: "string \<Rightarrow> bool" where
  "is_engine_profile name = (map_option mp_kind (map_of PROFILES name) = Some profile_kind.Engine)"

definition prepare_engine_profile ::
  "host \<Rightarrow> (string \<Rightarrow> environment \<Rightarrow> engine_exn + environment) \<Rightarrow> environment \<Rightarrow>
     agent_exn + (environment \<times> worker_plugin) option"
where
  "prepare_engine_profile h engine environment =
     (let names = comma_entries (env_get environment PROFILE_VARIABLE []) in
      if names = [] \<or> filter is_engine_profile names = [] then Inr None
      else if 1 < length names then Inl value_error
      else
        ebind (classed (parse_profiles PROFILES (hd names))) (\<lambda>profiles.
        case profiles of
          [profile] \<Rightarrow>
            if filter (\<lambda>n. n \<noteq> ENGINE_PLUGIN_ID) (comma_entries (env_get environment ''OGWP_WORKER_PLUGINS'' [])) \<noteq> []
            then Inl value_error
            else if strip (env_get environment ''OGWP_WORKER_CONCURRENCY'' ''1'') \<noteq> ''1'' then Inl value_error
            else
              ebind (map_sum engine_class_of (\<lambda>s. s) (engine profile environment)) (\<lambda>settings.
              let prepared = dict_merge environment settings in
              ebind (classed (engine_plugin_from_env h profile prepared)) (\<lambda>ep.
              Inr (Some (prepared, Engine_profile_plugin ep))))
        | _ \<Rightarrow> Inl value_error))"

text \<open>\<open>main\<close>, up to the agent it runs.\<close>

definition prepared_agent ::
  "host \<Rightarrow> comfy_env \<Rightarrow> py_text \<Rightarrow> (string \<Rightarrow> environment \<Rightarrow> engine_exn + environment) \<Rightarrow> environment \<Rightarrow>
     (credential_source \<times> worker_plugin list \<times> agent) comfy_run"
where
  "prepared_agent h env pt engine environment =
     mbind (mlift (prepare_engine_profile h engine environment)) (\<lambda>e.
     case e of
       Some (prepared, plugin) \<Rightarrow> mlift (classed (build_agent_from_env h prepared [plugin] True))
     | None \<Rightarrow>
         mbind (prepare_mixed_profiles h env pt engine environment) (\<lambda>(prepared, plugins).
         mlift (classed (build_agent_from_env h prepared plugins False))))"

end
