(* ===== verification/AgentMainProps.thy ===== *)
theory AgentMainProps
  imports AgentMain EngineProps RuntimeProps
begin

text \<open>
  What the agent's entry point guarantees of the agent it builds: which plugin serves a capability, and
  that an engine profile runs alone.
\<close>

section \<open>The capability table of an agent\<close>

definition manifest_ids :: "capability_manifest \<Rightarrow> string list" where
  "manifest_ids m = map wc_capability_id (cm_capabilities m)"

lemma claimed_manifest: "claimed_ids p = manifest_ids (plugin_manifest p)"
  by (simp add: claimed_ids_def manifest_ids_def)

definition owned_entries :: "int \<Rightarrow> capability_manifest list \<Rightarrow> (string \<times> nat \<times> worker_capability) list" where
  "owned_entries concurrency plugins =
     concat (map (\<lambda>(p, m). map (\<lambda>c. (wc_capability_id c, p,
        \<lparr>wc_capability_id = wc_capability_id c, wc_plugin_id = cm_plugin_id m,
         wc_plugin_version = cm_plugin_version m, wc_concurrency = concurrency\<rparr>))
        (cm_capabilities m)) (enumerate 0 plugins))"

lemma new_agent_tables:
  assumes "new_agent url worker_id plugins validate wsroot concurrency max_bytes lo hi lease tenant gpu vram vs
    = Inr a"
  shows "ac_plugins a = fold (\<lambda>(k, p, _). AList.update k p) (owned_entries concurrency plugins) []"
    "ac_capabilities a = fold (\<lambda>(k, _, c). AList.update k c) (owned_entries concurrency plugins) []"
    "ac_validate a = validate" "ac_worker_id a = worker_id" "ac_coordinator_url a = rstrip_char (CHR ''/'') url"
    "ac_runtime_versions a = vs" "plugins \<noteq> []"
  using assms by (auto simp: new_agent_def owned_entries_def Let_def split: if_splits)

lemma owned_entry:
  "(k, i, c) \<in> set (owned_entries concurrency plugins) \<Longrightarrow>
     i < length plugins \<and> k \<in> set (manifest_ids (plugins ! i)) \<and> wc_concurrency c = concurrency"
  by (auto simp: owned_entries_def in_set_enumerate_eq manifest_ids_def)

lemma owned_entry_ex:
  "i < length plugins \<Longrightarrow> k \<in> set (manifest_ids (plugins ! i)) \<Longrightarrow>
     \<exists>c. (k, i, c) \<in> set (owned_entries concurrency plugins)"
  by (fastforce simp: owned_entries_def in_set_enumerate_eq manifest_ids_def)

lemma owned_keys: "fst ` set (owned_entries concurrency plugins) = (\<Union>m \<in> set plugins. set (manifest_ids m))"
proof (intro equalityI subsetI)
  fix k assume "k \<in> fst ` set (owned_entries concurrency plugins)"
  then obtain i c where "(k, i, c) \<in> set (owned_entries concurrency plugins)" by auto
  from owned_entry [OF this] show "k \<in> (\<Union>m \<in> set plugins. set (manifest_ids m))"
    by (auto intro: nth_mem)
next
  fix k assume "k \<in> (\<Union>m \<in> set plugins. set (manifest_ids m))"
  then obtain i where "i < length plugins" "k \<in> set (manifest_ids (plugins ! i))"
    by (auto simp: in_set_conv_nth [of _ plugins])
  from owned_entry_ex [OF this] obtain c where "(k, i, c) \<in> set (owned_entries concurrency plugins)" ..
  then show "k \<in> fst ` set (owned_entries concurrency plugins)" by (rule rev_image_eqI) simp
qed

lemma fold_update_lookup:
  "map_of (fold (\<lambda>x. AList.update (f x) (g x)) xs d) k =
     (case map_of (rev (map (\<lambda>x. (f x, g x)) xs)) k of Some v \<Rightarrow> Some v | None \<Rightarrow> map_of d k)"
  by (induction xs arbitrary: d) (auto split: option.split)

lemma fold_update_SomeD:
  "map_of (fold (\<lambda>x. AList.update (f x) (g x)) xs []) k = Some v \<Longrightarrow> \<exists>x \<in> set xs. f x = k \<and> g x = v"
  by (auto simp: fold_update_lookup split: option.splits dest!: map_of_SomeD)

lemma fold_update_all:
  assumes "x \<in> set xs" "f x = k" "\<And>y. y \<in> set xs \<Longrightarrow> f y = k \<Longrightarrow> g y = v"
  shows "map_of (fold (\<lambda>x. AList.update (f x) (g x)) xs []) k = Some v"
proof (cases "map_of (rev (map (\<lambda>x. (f x, g x)) xs)) k")
  case None
  then have "k \<notin> f ` set xs" by (simp add: map_of_eq_None_iff image_image)
  with assms(1,2) show ?thesis by blast
next
  case (Some u)
  then have "(k, u) \<in> set (map (\<lambda>x. (f x, g x)) xs)" by (auto dest: map_of_SomeD)
  then have "u = v" using assms(3) by auto
  then show ?thesis using Some by (simp add: fold_update_lookup)
qed

lemma fold_update_keys:
  "set (keys (fold (\<lambda>x. AList.update (f x) (g x)) xs d)) = set (keys d) \<union> f ` set xs"
  by (induction xs arbitrary: d) (auto simp: keys_update)

lemma split_update: "(\<lambda>(k, p, _). AList.update k p) = (\<lambda>x. AList.update (fst x) (fst (snd x)))"
  "(\<lambda>(k, _, c). AList.update k c) = (\<lambda>x. AList.update (fst x) (snd (snd x)))"
  by (auto simp: fun_eq_iff)

lemma new_agent_serves:
  assumes "new_agent url worker_id plugins validate wsroot concurrency max_bytes lo hi lease tenant gpu vram vs
    = Inr a"
  shows "map_of (ac_plugins a) k = Some i \<Longrightarrow> i < length plugins \<and> k \<in> set (manifest_ids (plugins ! i))"
    "i < length plugins \<Longrightarrow> k \<in> set (manifest_ids (plugins ! i)) \<Longrightarrow>
       (\<And>j. j < length plugins \<Longrightarrow> k \<in> set (manifest_ids (plugins ! j)) \<Longrightarrow> j = i) \<Longrightarrow>
       map_of (ac_plugins a) k = Some i"
    "set (keys (ac_capabilities a)) = (\<Union>m \<in> set plugins. set (manifest_ids m))"
    "map_of (ac_capabilities a) k = Some c \<Longrightarrow> wc_concurrency c = concurrency"
proof -
  note t = new_agent_tables(1,2) [OF assms, unfolded split_update]
  show "i < length plugins \<and> k \<in> set (manifest_ids (plugins ! i))" if "map_of (ac_plugins a) k = Some i"
    using fold_update_SomeD [OF that [unfolded t(1)]] by (auto dest: owned_entry)
  show "map_of (ac_plugins a) k = Some i" if i: "i < length plugins" "k \<in> set (manifest_ids (plugins ! i))"
    and u: "\<And>j. j < length plugins \<Longrightarrow> k \<in> set (manifest_ids (plugins ! j)) \<Longrightarrow> j = i"
  proof -
    obtain c where "(k, i, c) \<in> set (owned_entries concurrency plugins)" using owned_entry_ex [OF i] by blast
    then show ?thesis unfolding t(1)
      by (rule fold_update_all) (auto dest!: owned_entry intro: u)
  qed
  show "set (keys (ac_capabilities a)) = (\<Union>m \<in> set plugins. set (manifest_ids m))"
    unfolding t(2) fold_update_keys owned_keys by simp
  show "wc_concurrency c = concurrency" if "map_of (ac_capabilities a) k = Some c"
    using fold_update_SomeD [OF that [unfolded t(2)]] by (auto dest: owned_entry)
qed

section \<open>Profiles and generic plugins\<close>

lemma sort_Nil_iff: "sort xs = [] \<longleftrightarrow> xs = []"
  by (metis length_0_conv length_sort)

lemma claim_profiles_Inr:
  assumes "claim_profiles ps claimed = Inr all"
  shows "set all = set claimed \<union> (\<Union>p \<in> set ps. set (claimed_ids p))"
    "i < length ps \<Longrightarrow> k \<in> set (claimed_ids (ps ! i)) \<Longrightarrow> k \<notin> set claimed"
    "i < length ps \<Longrightarrow> j < length ps \<Longrightarrow> k \<in> set (claimed_ids (ps ! i)) \<Longrightarrow> k \<in> set (claimed_ids (ps ! j)) \<Longrightarrow> i = j"
proof -
  have "set all = set claimed \<union> (\<Union>p \<in> set ps. set (claimed_ids p)) \<and>
    (\<forall>i k. i < length ps \<longrightarrow> k \<in> set (claimed_ids (ps ! i)) \<longrightarrow> k \<notin> set claimed) \<and>
    (\<forall>i j k. i < length ps \<longrightarrow> j < length ps \<longrightarrow> k \<in> set (claimed_ids (ps ! i)) \<longrightarrow>
       k \<in> set (claimed_ids (ps ! j)) \<longrightarrow> i = j)"
    using assms
  proof (induction ps claimed rule: claim_profiles.induct)
    case (2 p ps claimed)
    have own: "filter (\<lambda>c. c \<in> set claimed) (claimed_ids p) = []"
      and rest: "claim_profiles ps (claimed @ claimed_ids p) = Inr all"
      using "2.prems" by (auto simp: Let_def sort_Nil_iff remdups_eq_nil_iff split: if_splits)
    then have fresh: "\<And>k. k \<in> set (claimed_ids p) \<Longrightarrow> k \<notin> set claimed" by (auto simp: filter_empty_conv)
    have empty: "sort (remdups (filter (\<lambda>c. c \<in> set claimed) (claimed_ids p))) = []" using own by simp
    have ih: "set all = set (claimed @ claimed_ids p) \<union> (\<Union>p \<in> set ps. set (claimed_ids p))"
      "\<And>i k. i < length ps \<Longrightarrow> k \<in> set (claimed_ids (ps ! i)) \<Longrightarrow> k \<notin> set (claimed @ claimed_ids p)"
      "\<And>i j k. i < length ps \<Longrightarrow> j < length ps \<Longrightarrow> k \<in> set (claimed_ids (ps ! i)) \<Longrightarrow>
         k \<in> set (claimed_ids (ps ! j)) \<Longrightarrow> i = j"
      using "2.IH" [OF refl refl _ rest] empty by blast+
    show ?case
    proof (intro conjI allI impI)
      show "set all = set claimed \<union> (\<Union>p \<in> set (p # ps). set (claimed_ids p))" using ih(1) by auto
    next
      fix i k assume "i < length (p # ps)" "k \<in> set (claimed_ids ((p # ps) ! i))"
      then show "k \<notin> set claimed" using fresh ih(2) by (cases i) auto
    next
      fix i j k assume "i < length (p # ps)" "j < length (p # ps)" "k \<in> set (claimed_ids ((p # ps) ! i))"
        "k \<in> set (claimed_ids ((p # ps) ! j))"
      then show "i = j" using ih(2) [of "i - 1" k] ih(2) [of "j - 1" k] ih(3) [of "i - 1" "j - 1" k]
        by (cases i; cases j) auto
    qed
  qed simp
  then show "set all = set claimed \<union> (\<Union>p \<in> set ps. set (claimed_ids p))"
    "i < length ps \<Longrightarrow> k \<in> set (claimed_ids (ps ! i)) \<Longrightarrow> k \<notin> set claimed"
    "i < length ps \<Longrightarrow> j < length ps \<Longrightarrow> k \<in> set (claimed_ids (ps ! i)) \<Longrightarrow> k \<in> set (claimed_ids (ps ! j)) \<Longrightarrow> i = j"
    by blast+
qed

lemma check_overlap_Inr:
  "check_overlap claimed p = Inr () \<Longrightarrow> k \<in> set (claimed_ids p) \<Longrightarrow> k \<notin> set claimed"
  by (auto simp: check_overlap_def Let_def filter_empty_conv sort_Nil_iff)

lemma agent_plugins_mixed:
  assumes "agent_plugins h environment pps False = Inr plugins" "pps \<noteq> []"
  obtains claimed generic where "plugins = generic @ pps" "claim_profiles pps [] = Inr claimed"
    "list_all (\<lambda>p. check_overlap claimed p = Inr ()) generic"
  using assms unfolding agent_plugins_def Let_def
  by (auto elim!: ebind_InrE simp: for_each_Inr_iff list_all_iff)

lemma profile_position_unique:
  assumes "agent_plugins h environment pps False = Inr plugins" "pps \<noteq> []" "i < length pps"
    "k \<in> set (claimed_ids (pps ! i))" "j < length plugins" "k \<in> set (claimed_ids (plugins ! j))"
  shows "j = length plugins - length pps + i"
  using assms(1,2)
proof (rule agent_plugins_mixed)
  fix claimed generic
  assume p: "plugins = generic @ pps" "claim_profiles pps [] = Inr claimed"
    "list_all (\<lambda>p. check_overlap claimed p = Inr ()) generic"
  have "k \<in> set claimed" using claim_profiles_Inr(1) [OF p(2)] assms(3,4) by (auto intro: nth_mem)
  then have "\<not> j < length generic"
    using assms(6) p(1,3) check_overlap_Inr [of claimed "generic ! j" k] by (auto simp: nth_append list_all_iff)
  then have "k \<in> set (claimed_ids (pps ! (j - length generic)))" "j - length generic < length pps"
    using assms(5,6) p(1) by (auto simp: nth_append)
  from claim_profiles_Inr(3) [OF p(2) assms(3) this(2) assms(4) this(1)] show ?thesis
    using \<open>\<not> j < length generic\<close> p(1) by simp
qed

lemma build_agent_Inr:
  assumes "build_agent_from_env h environment pps exclusive = Inr (credential, plugins, agent)"
  obtains url worker_id versions_json vs concurrency max_bytes vram where
    "agent_required environment ''OGWP_WORKER_COORDINATOR_URL'' = Inr url"
    "agent_required environment ''OGWP_WORKER_ID'' = Inr worker_id"
    "agent_credential environment = Inr credential"
    "agent_plugins h environment pps exclusive = Inr plugins"
    "load_json h (env_get environment ''OGWP_WORKER_RUNTIME_VERSIONS'' ''{}'') = Inr versions_json"
    "env_int environment ''OGWP_WORKER_CONCURRENCY'' ''1'' = Inr concurrency"
    "as_versions versions_json = Inr vs"
    "new_agent url worker_id (map plugin_manifest plugins)
       (\<lambda>i lease. if i < length plugins then classed (plugin_validate (plugins ! i) lease)
                  else Inl (OtherError ''IndexError''))
       (case map_of environment ''OGWP_WORKER_WORKSPACE'' of
          None \<Rightarrow> path_join (path_of (ho_tempdir h)) DEFAULT_WORKSPACE_NAME | Some wsroot \<Rightarrow> path_of wsroot)
       concurrency max_bytes 2 60 1200
       (if env_get environment ''OGWP_WORKER_TENANT'' [] = [] then None
        else Some (env_get environment ''OGWP_WORKER_TENANT'' []))
       (map_of environment ''OGWP_WORKER_GPU_MODEL'') vram vs = Inr agent"
  using assms unfolding build_agent_from_env_def Let_def
  by (elim ebind_InrE) (simp only: sum.inject prod.inject)

lemma manifest_nth:
  "i < length ps \<Longrightarrow> k \<in> set (manifest_ids (map plugin_manifest ps ! i)) \<longleftrightarrow> k \<in> set (claimed_ids (ps ! i))"
  by (simp add: claimed_manifest)

text \<open>Claim C36: A job of a profile's capability reaches the profile's plugin and no other. In an agent built
  with profile plugins beside the configured ones, a capability a profile plugin claims is served by exactly
  that plugin, its leases are validated by it, and no other plugin of the agent declares the capability; and
  every capability the agent serves is declared by the plugin that serves it.\<close>

theorem profile_jobs_routed:
  assumes "build_agent_from_env h environment pps False = Inr (credential, plugins, agent)"
    "i < length pps" "k \<in> set (claimed_ids (pps ! i))"
  shows "let pos = length plugins - length pps + i in
    map_of (ac_plugins agent) k = Some pos \<and> plugins ! pos = pps ! i \<and>
    ac_validate agent pos lease = classed (plugin_validate (pps ! i) lease) \<and>
    (\<forall>j < length plugins. k \<in> set (claimed_ids (plugins ! j)) \<longrightarrow> j = pos) \<and>
    (\<forall>c j. map_of (ac_plugins agent) c = Some j \<longrightarrow> j < length plugins \<and> c \<in> set (claimed_ids (plugins ! j)))"
proof -
  have ne: "pps \<noteq> []" using assms(2) by auto
  from assms(1) show ?thesis
  proof (rule build_agent_Inr)
    fix url worker_id versions_json vs concurrency max_bytes vram
    assume pl: "agent_plugins h environment pps False = Inr plugins"
      and new: "new_agent url worker_id (map plugin_manifest plugins)
       (\<lambda>i lease. if i < length plugins then classed (plugin_validate (plugins ! i) lease)
                  else Inl (OtherError ''IndexError''))
       (case map_of environment ''OGWP_WORKER_WORKSPACE'' of
          None \<Rightarrow> path_join (path_of (ho_tempdir h)) DEFAULT_WORKSPACE_NAME | Some wsroot \<Rightarrow> path_of wsroot)
       concurrency max_bytes 2 60 1200
       (if env_get environment ''OGWP_WORKER_TENANT'' [] = [] then None
        else Some (env_get environment ''OGWP_WORKER_TENANT'' []))
       (map_of environment ''OGWP_WORKER_GPU_MODEL'') vram vs = Inr agent"
    define pos where "pos = length plugins - length pps + i"
    obtain generic where g: "plugins = generic @ pps" using pl ne by (auto elim: agent_plugins_mixed)
    then have here: "pos < length plugins" "plugins ! pos = pps ! i"
      using assms(2) by (auto simp: pos_def nth_append)
    have only: "j = pos" if "j < length plugins" "k \<in> set (claimed_ids (plugins ! j))" for j
      unfolding pos_def by (rule profile_position_unique [OF pl ne assms(2,3) that])
    have "map_of (ac_plugins agent) k = Some pos"
    proof (rule new_agent_serves(2) [OF new])
      show "pos < length (map plugin_manifest plugins)" using here(1) by simp
      show "k \<in> set (manifest_ids (map plugin_manifest plugins ! pos))"
        using here assms(3) by (simp add: claimed_manifest)
      show "j = pos" if "j < length (map plugin_manifest plugins)"
        "k \<in> set (manifest_ids (map plugin_manifest plugins ! j))" for j
        using that by (intro only) (simp_all add: claimed_manifest)
    qed
    moreover have "ac_validate agent pos lease = classed (plugin_validate (pps ! i) lease)"
      using here new_agent_tables(3) [OF new] by simp
    moreover have "j < length plugins \<and> c \<in> set (claimed_ids (plugins ! j))"
      if "map_of (ac_plugins agent) c = Some j" for c j
      using new_agent_serves(1) [OF new that] by (auto simp: claimed_manifest)
    ultimately show ?thesis using here only by (simp add: pos_def Let_def)
  qed
qed

text \<open>Versions of several profiles that are left in the environment are taken for those of a single profile, although
  the versions that were just inspected are at hand.\<close>

lemma leftover_versions_used:
  assumes "map_of prepared ''OGWP_WORKER_RUNTIME_VERSIONS'' = Some t" "load_json h t = Inr j"
    "as_versions j = Inr inspected" "map_of prepared ''MVS_WORKER_PROFILE_VERSIONS'' = Some raw" "raw \<noteq> []"
    "ebind (load_json h raw) as_profile_versions = Inr old" "old \<noteq> []"
  shows "per_profile_versions h prepared [profile] = Inr old"
  using assms by (simp add: per_profile_versions_def env_get_def Let_def)

section \<open>The engine worker\<close>

lemma strip_strip: "strip (strip s) = strip s"
proof -
  have hd: "dropWhile is_space (rev (dropWhile is_space (rev t))) = rev (dropWhile is_space (rev t))"
    if "t = dropWhile is_space t" for t
  proof (cases "rev (dropWhile is_space (rev t))")
    case (Cons c r)
    obtain u where "t = rev (dropWhile is_space (rev t)) @ u"
      by (metis rev_append rev_rev_ident takeWhile_dropWhile_id)
    then have "hd t = c" "t \<noteq> []" using Cons by auto
    then have "\<not> is_space c" using that hd_dropWhile [of is_space t] by auto
    then show ?thesis by (simp add: Cons)
  next
    case Nil
    then show ?thesis by (simp only: Nil dropWhile.simps)
  qed
  have "dropWhile is_space (dropWhile is_space s) = dropWhile is_space s" by simp
  from hd [OF this [symmetric]] show ?thesis by (simp add: strip_def)
qed

lemma comma_entry:
  assumes "name \<in> set (comma_entries v)"
  shows "name \<noteq> []" "comma_entries name = [name]"
proof -
  obtain s where s: "s \<in> set (split_on (CHR '','') v)" "name = strip s" "name \<noteq> []"
    using assms by (auto simp: comma_entries_def)
  have "set (strip s) \<subseteq> set s"
    by (auto simp: strip_def dest!: set_dropWhileD)
  then have "CHR '','' \<notin> set name" using split_on_parts [OF s(1)] s(2) by blast
  then show "name \<noteq> []" "comma_entries name = [name]"
    using s(2,3) by (simp_all add: comma_entries_def split_on_no strip_strip)
qed

lemma prepare_engine_cases:
  assumes "prepare_engine_profile h engine environment = Inr (Some (prepared, plugin))"
  obtains profile settings ep where
    "comma_entries (env_get environment PROFILE_VARIABLE []) = [profile]" "is_engine_profile profile"
    "list_all (\<lambda>n. n = ENGINE_PLUGIN_ID) (comma_entries (env_get environment ''OGWP_WORKER_PLUGINS'' []))"
    "engine profile environment = Inr settings" "prepared = dict_merge environment settings"
    "engine_plugin_from_env h profile prepared = Inr ep" "plugin = Engine_profile_plugin ep"
proof -
  let ?names = "comma_entries (env_get environment PROFILE_VARIABLE [])"
  have names: "?names \<noteq> []" "filter is_engine_profile ?names \<noteq> []" "\<not> 1 < length ?names"
    using assms by (auto simp: prepare_engine_profile_def Let_def split: if_splits)
  then obtain name where name: "?names = [name]" by (cases ?names) auto
  then have engine: "is_engine_profile name" using names(2) by (auto split: if_splits)
  have run: "ebind (classed (parse_profiles PROFILES name)) (\<lambda>profiles.
      case profiles of
        [profile] \<Rightarrow>
          if filter (\<lambda>n. n \<noteq> ENGINE_PLUGIN_ID) (comma_entries (env_get environment ''OGWP_WORKER_PLUGINS'' [])) \<noteq> []
          then Inl value_error
          else if strip (env_get environment ''OGWP_WORKER_CONCURRENCY'' ''1'') \<noteq> ''1'' then Inl value_error
          else
            ebind (map_sum engine_class_of (\<lambda>s. s) (engine profile environment)) (\<lambda>settings.
            let prepared = dict_merge environment settings in
            ebind (classed (engine_plugin_from_env h profile prepared)) (\<lambda>ep.
            Inr (Some (prepared, Engine_profile_plugin ep))))
      | _ \<Rightarrow> Inl value_error) = Inr (Some (prepared, plugin))"
    using assms names unfolding prepare_engine_profile_def name Let_def by (simp add: engine)
  then obtain profiles where ps: "parse_profiles PROFILES name = Inr profiles"
    by (elim ebind_InrE) (auto simp: classed_Inr)
  have "profiles = comma_entries name"
    using ps by (auto simp: parse_profiles_def Let_def result_simps comma_entries_def split: if_splits)
  moreover have "name \<in> set (comma_entries (env_get environment PROFILE_VARIABLE []))" using name by simp
  ultimately have single: "profiles = [name]" using comma_entry(2) by blast
  show thesis
  proof (cases "filter (\<lambda>n. n \<noteq> ENGINE_PLUGIN_ID)
      (comma_entries (env_get environment ''OGWP_WORKER_PLUGINS'' [])) = []")
    case False
    then show thesis using run by (simp add: ps single)
  next
    case True
    then have "ebind (map_sum engine_class_of (\<lambda>s. s) (engine name environment)) (\<lambda>settings.
        let prepared = dict_merge environment settings in
        ebind (classed (engine_plugin_from_env h name prepared)) (\<lambda>ep.
        Inr (Some (prepared, Engine_profile_plugin ep)))) = Inr (Some (prepared, plugin))"
      using run by (simp add: ps single split: if_splits)
    then obtain settings ep where "engine name environment = Inr settings"
      "engine_plugin_from_env h name (dict_merge environment settings) = Inr ep"
      "prepared = dict_merge environment settings" "plugin = Engine_profile_plugin ep"
      by (elim ebind_InrE) (auto simp: classed_Inr Let_def elim!: ebind_InrE)
    with that name engine True show thesis by (simp add: filter_empty_conv list_all_iff)
  qed
qed

lemma engine_environment_last:
  assumes "prepare_engine_environment pt profile r transport = Inr s"
  shows "last s = (''OGWP_WORKER_CONCURRENCY'', ''1'') \<and> s \<noteq> []"
  using assms unfolding prepare_engine_environment_def Let_def
  by (elim ebind_InrE) (auto split: prod.splits)

lemma prepare_engine_settings:
  assumes "engine_settings h pt inspected profile environment = Inr settings"
  shows "map_of (dict_merge environment settings) ''OGWP_WORKER_CONCURRENCY'' = Some ''1''"
proof -
  have "\<exists>r transport. prepare_engine_environment pt profile r transport = Inr settings"
    using assms unfolding engine_settings_def
    by (elim ebind_InrE) (auto split: option.splits elim!: ebind_InrE)
  then have "last settings = (''OGWP_WORKER_CONCURRENCY'', ''1'')" "settings \<noteq> []"
    using engine_environment_last by blast+
  then obtain rest where "settings = rest @ [(''OGWP_WORKER_CONCURRENCY'', ''1'')]"
    by (metis append_butlast_last_id)
  then show ?thesis by (simp add: map_of_dict_merge)
qed

lemma engine_plugin_built:
  assumes "engine_plugin_from_env h profile environment = Inr ep"
  obtains raw j spec where "map_of environment ''OGWP_WORKER_RUNTIME_VERSIONS'' = Some raw"
    "load_json h raw = Inr j" "as_versions j = Inr (ep_versions ep)" "ep_profile ep = profile"
    "engine_profile profile = Inr (spec, ep_recipe ep)"
    "map_of (ep_versions ep) RECIPE_KEY = Some (profile_recipe_version profile spec)"
  using assms unfolding engine_plugin_from_env_def new_engine_plugin_def
  by (elim ebind_InrE) (auto split: option.splits sum.splits if_splits)

lemma in_update: "(k, v) \<in> set (AList.update a b d) \<Longrightarrow> (k, v) = (a, b) \<or> (k, v) \<in> set d"
  by (induction d) (auto split: if_splits)

lemma in_fold_update:
  "(k, v) \<in> set (fold (\<lambda>x. AList.update (f x) (g x)) xs d) \<Longrightarrow>
     (k, v) \<in> set d \<or> (\<exists>x \<in> set xs. f x = k \<and> g x = v)"
  by (induction xs arbitrary: d) (auto dest: in_update)

lemma new_agent_concurrency:
  assumes "new_agent url worker_id plugins validate wsroot concurrency max_bytes lo hi lease tenant gpu vram vs
    = Inr a"
  shows "list_all (\<lambda>(k, c). wc_concurrency c = concurrency) (ac_capabilities a)"
  unfolding new_agent_tables(2) [OF assms] split_update
  by (auto simp: list_all_iff dest!: in_fold_update owned_entry)

lemma int_of_text_one: "int_of_text ''1'' = Inr 1"
  by code_simp

lemma exclusive_agent:
  assumes "build_agent_from_env h environment [plugin] True = Inr (credential, plugins, agent)"
    "map_of environment ''OGWP_WORKER_CONCURRENCY'' = Some ''1''"
    "map_of environment ''OGWP_WORKER_RUNTIME_VERSIONS'' = Some raw"
  shows "plugins = [plugin]" "set (keys (ac_capabilities agent)) = set (claimed_ids plugin)"
    "list_all (\<lambda>(k, c). wc_concurrency c = 1) (ac_capabilities agent)"
    "ebind (load_json h raw) as_versions = Inr (ac_runtime_versions agent)"
proof -
  have "plugins = [plugin] \<and> set (keys (ac_capabilities agent)) = set (claimed_ids plugin) \<and>
    list_all (\<lambda>(k, c). wc_concurrency c = 1) (ac_capabilities agent) \<and>
    ebind (load_json h raw) as_versions = Inr (ac_runtime_versions agent)"
    using assms(1)
  proof (rule build_agent_Inr)
    fix url worker_id versions_json vs concurrency max_bytes vram
    assume p: "agent_plugins h environment [plugin] True = Inr plugins"
      and v: "load_json h (env_get environment ''OGWP_WORKER_RUNTIME_VERSIONS'' ''{}'') = Inr versions_json"
        "as_versions versions_json = Inr vs"
      and c: "env_int environment ''OGWP_WORKER_CONCURRENCY'' ''1'' = Inr concurrency"
      and new: "new_agent url worker_id (map plugin_manifest plugins)
       (\<lambda>i lease. if i < length plugins then classed (plugin_validate (plugins ! i) lease)
                  else Inl (OtherError ''IndexError''))
       (case map_of environment ''OGWP_WORKER_WORKSPACE'' of
          None \<Rightarrow> path_join (path_of (ho_tempdir h)) DEFAULT_WORKSPACE_NAME | Some wsroot \<Rightarrow> path_of wsroot)
       concurrency max_bytes 2 60 1200
       (if env_get environment ''OGWP_WORKER_TENANT'' [] = [] then None
        else Some (env_get environment ''OGWP_WORKER_TENANT'' []))
       (map_of environment ''OGWP_WORKER_GPU_MODEL'') vram vs = Inr agent"
    have one: "plugins = [plugin]" using p by (simp add: agent_plugins_def Let_def)
    have "concurrency = 1" using c by (simp add: env_int_def env_get_def assms(2) int_of_text_one)
    moreover have "set (keys (ac_capabilities agent)) = set (claimed_ids plugin)"
      using new_agent_serves(3) [OF new] by (simp add: one claimed_manifest)
    moreover have "ebind (load_json h raw) as_versions = Inr vs"
      using v by (simp add: env_get_def assms(3))
    ultimately show ?thesis
      using one new_agent_concurrency [OF new] new_agent_tables(6) [OF new] by simp
  qed
  then show "plugins = [plugin]" "set (keys (ac_capabilities agent)) = set (claimed_ids plugin)"
    "list_all (\<lambda>(k, c). wc_concurrency c = 1) (ac_capabilities agent)"
    "ebind (load_json h raw) as_versions = Inr (ac_runtime_versions agent)"
    by blast+
qed

lemma engine_profile_named:
  assumes "prepare_engine_profile h engine environment = Inr None"
  shows "\<not> list_ex is_engine_profile (comma_entries (env_get environment PROFILE_VARIABLE []))"
  using assms unfolding prepare_engine_profile_def Let_def
  by (auto simp: list_ex_iff filter_empty_conv split: if_splits list.splits elim!: ebind_InrE)

lemma prepared_agent_engine:
  assumes "prepared_agent h env pt engine environment w = (Inr r, w')"
    "list_ex is_engine_profile (comma_entries (env_get environment PROFILE_VARIABLE []))"
  obtains prepared plugin where "prepare_engine_profile h engine environment = Inr (Some (prepared, plugin))"
    "build_agent_from_env h prepared [plugin] True = Inr r" "w' = w"
proof (cases "prepare_engine_profile h engine environment")
  case (Inr e)
  then obtain prepared plugin where e: "e = Some (prepared, plugin)"
    using engine_profile_named [of h engine environment] assms(2) by (cases e) auto
  show thesis using assms(1) that [of prepared plugin]
    by (auto simp: prepared_agent_def mbind_def mlift_def Inr e classed_Inr split: sum.splits)
qed (use assms(1) in \<open>simp add: prepared_agent_def mbind_def mlift_def\<close>)

text \<open>Claim C37: An engine worker runs alone. When an engine profile is configured and an agent is built, that
  profile is the only one named, the agent's only plugin is the engine's for that profile, it serves exactly
  the recipe's capabilities, one job at a time, it registers the very versions the plugin checks before each
  job, which carry the profile's recipe, and ComfyUI was not called.\<close>

theorem engine_worker_alone:
  assumes "prepared_agent h env pt (engine_settings h pt inspected) environment w =
      (Inr (credential, plugins, agent), w')"
    "list_ex is_engine_profile (comma_entries (env_get environment PROFILE_VARIABLE []))"
  shows "w' = w \<and> (\<exists>profile ep spec.
    comma_entries (env_get environment PROFILE_VARIABLE []) = [profile] \<and> plugins = [Engine_profile_plugin ep] \<and>
    ep_profile ep = profile \<and> engine_profile profile = Inr (spec, ep_recipe ep) \<and>
    set (keys (ac_capabilities agent)) = set (recipe_capability_ids (ep_recipe ep)) \<and>
    list_all (\<lambda>(k, c). wc_concurrency c = 1) (ac_capabilities agent) \<and>
    ac_runtime_versions agent = ep_versions ep \<and>
    map_of (ep_versions ep) RECIPE_KEY = Some (profile_recipe_version profile spec))"
proof -
  obtain prepared plugin where
    p: "prepare_engine_profile h (engine_settings h pt inspected) environment = Inr (Some (prepared, plugin))"
    and b: "build_agent_from_env h prepared [plugin] True = Inr (credential, plugins, agent)" and "w' = w"
    using prepared_agent_engine [OF assms] by blast
  obtain profile settings ep where n: "comma_entries (env_get environment PROFILE_VARIABLE []) = [profile]"
    and s: "engine_settings h pt inspected profile environment = Inr settings"
      "prepared = dict_merge environment settings"
    and ep: "engine_plugin_from_env h profile prepared = Inr ep" "plugin = Engine_profile_plugin ep"
    using prepare_engine_cases [OF p] by metis
  obtain raw j spec where raw: "map_of prepared ''OGWP_WORKER_RUNTIME_VERSIONS'' = Some raw"
    and j: "load_json h raw = Inr j" "as_versions j = Inr (ep_versions ep)" and "ep_profile ep = profile"
      "engine_profile profile = Inr (spec, ep_recipe ep)"
      "map_of (ep_versions ep) RECIPE_KEY = Some (profile_recipe_version profile spec)"
    using engine_plugin_built [OF ep(1)] by metis
  note agent = exclusive_agent [OF b prepare_engine_settings [OF s(1), folded s(2)] raw]
  have "claimed_ids plugin = recipe_capability_ids (ep_recipe ep)"
    by (simp add: ep(2) claimed_ids_def engine_capabilities_def recipe_capability_ids_def)
  moreover have "ac_runtime_versions agent = ep_versions ep" using agent(4) j by simp
  ultimately show ?thesis
    using agent(1,2,3) n ep(2) \<open>w' = w\<close> \<open>ep_profile ep = profile\<close>
      \<open>engine_profile profile = Inr (spec, ep_recipe ep)\<close>
      \<open>map_of (ep_versions ep) RECIPE_KEY = Some (profile_recipe_version profile spec)\<close> by auto
qed

section \<open>Witnesses\<close>

text \<open>A host whose JSON parser answers a fixed object, a machine with the echo plugin and the subject12 profile,
  and an engine worker whose inspection matches the recipe.\<close>

definition demo_host :: "versions \<Rightarrow> host" where
  "demo_host v =
     \<lparr>ho_join = concat, ho_shlex = \<lambda>s. Inr [s], ho_float = \<lambda>_. Inr 1,
      ho_loads = \<lambda>_. Some (JObj (map (\<lambda>(k, x). (k, JStr x)) v)),
      ho_private = \<lambda>_. Inr (), ho_scheme = \<lambda>_. ''http'', ho_templates = \<lambda>_. [], ho_dirs = subject_dirs,
      ho_tempdir = ''/tmp''\<rparr>"

definition demo_environment :: environment where
  "demo_environment =
     [(''OGWP_WORKER_COORDINATOR_URL'', ''https://pool''), (''OGWP_WORKER_ID'', ''w1''), (''OGWP_WORKER_TOKEN'', ''t'')]"

definition demo_profile :: worker_plugin where
  "demo_profile = Comfy_profile_plugin subject_plugin"

lemma demo_profile_claims: "claimed_ids demo_profile = [SUBJECT12_CAPABILITY]"
  by (simp add: demo_profile_def claimed_ids_def comfy_capabilities_def capability_schemas_def
      subject_plugin_def subject_template_def Let_def)

lemma echo_claims: "claimed_ids Echo_plugin = [DETERMINISTIC_ECHO_CAPABILITY]"
  by (simp add: claimed_ids_def echo_capabilities_def)

lemma demo_environment_facts:
  "agent_required demo_environment ''OGWP_WORKER_COORDINATOR_URL'' = Inr ''https://pool''"
  "agent_required demo_environment ''OGWP_WORKER_ID'' = Inr ''w1''"
  "agent_credential demo_environment = Inr (Static_token ''t'')"
  by code_simp+

lemma demo_environment_unset:
  "map_of demo_environment ''OGWP_WORKER_PLUGINS'' = None"
  "map_of demo_environment ''OGWP_WORKER_RUNTIME_VERSIONS'' = None"
  "map_of demo_environment ''OGWP_WORKER_CONCURRENCY'' = None"
  "map_of demo_environment ''OGWP_WORKER_MAX_INPUT_BYTES'' = None"
  "map_of demo_environment ''OGWP_WORKER_VRAM_MB'' = None"
  "map_of demo_environment ''OGWP_WORKER_TENANT'' = None"
  by (simp_all add: demo_environment_def)

lemma demo_plugins:
  "agent_plugins (demo_host v) demo_environment [demo_profile] False = Inr [Echo_plugin, demo_profile]"
proof -
  have n: "split_on (CHR '','') DETERMINISTIC_ECHO_PLUGIN_ID = [DETERMINISTIC_ECHO_PLUGIN_ID]"
    "strip DETERMINISTIC_ECHO_PLUGIN_ID = DETERMINISTIC_ECHO_PLUGIN_ID"
    "DETERMINISTIC_ECHO_PLUGIN_ID \<noteq> AGENT_COMFY_PLUGIN_ID" "DETERMINISTIC_ECHO_CAPABILITY \<noteq> SUBJECT12_CAPABILITY"
    by code_simp+
  show ?thesis
    by (simp add: agent_plugins_def env_get_def demo_environment_unset Let_def n demo_profile_claims echo_claims
        named_plugin_def check_overlap_def ensure_def)
qed

lemma demo_load: "load_json (demo_host v) t = Inr (JObj (map (\<lambda>(k, x). (k, JStr x)) v))"
  by (simp add: load_json_def demo_host_def)

lemma versions_back: "as_versions (JObj (map (\<lambda>(k, x). (k, JStr x)) v)) = Inr v"
  by (induction v) (auto simp: as_versions_def split: prod.splits)

lemma demo_agent:
  "\<exists>agent. build_agent_from_env (demo_host []) demo_environment [demo_profile] False =
     Inr (Static_token ''t'', [Echo_plugin, demo_profile], agent)"
  by (simp add: build_agent_from_env_def demo_environment_facts demo_plugins demo_load env_get_def
      demo_environment_unset env_int_def int_of_text_one versions_back [of "[]", simplified] Let_def new_agent_def)

theorem profile_jobs_routed_witness:
  "\<exists>agent. build_agent_from_env (demo_host []) demo_environment [demo_profile] False =
      Inr (Static_token ''t'', [Echo_plugin, demo_profile], agent) \<and>
    map_of (ac_plugins agent) SUBJECT12_CAPABILITY = Some 1 \<and>
    ac_validate agent 1 demo_lease = classed (plugin_validate demo_profile demo_lease)"
proof -
  obtain agent where a: "build_agent_from_env (demo_host []) demo_environment [demo_profile] False =
      Inr (Static_token ''t'', [Echo_plugin, demo_profile], agent)"
    using demo_agent by blast
  have "SUBJECT12_CAPABILITY \<in> set (claimed_ids ([demo_profile] ! 0))" by (simp add: demo_profile_claims)
  with a show ?thesis using profile_jobs_routed [OF a, of 0 SUBJECT12_CAPABILITY demo_lease]
    by (auto simp: Let_def)
qed

definition engine_environment :: environment where
  "engine_environment = demo_environment @ [(PROFILE_VARIABLE, MESH3D)]"

lemma engine_environment_profile:
  "comma_entries (env_get engine_environment PROFILE_VARIABLE []) = [MESH3D]"
  "comma_entries (env_get engine_environment ''OGWP_WORKER_PLUGINS'' []) = []"
  "strip (env_get engine_environment ''OGWP_WORKER_CONCURRENCY'' ''1'') = ''1''"
  by code_simp+

lemma mesh3d_named: "is_engine_profile MESH3D" "parse_profiles PROFILES MESH3D = Inr [MESH3D]"
  "require_qualified PROFILES MESH3D = Inr ()"
  by code_simp+

lemma engine_environment_unset:
  "env_get engine_environment ENGINE_URL_VARIABLE [] = []"
  "env_get engine_environment ENGINE_COMMAND_VARIABLE [] = []"
  "env_get engine_environment ''MVS_ENGINE_FULL_INSPECT_TIMEOUT_SECONDS'' [] = []"
  by code_simp+

definition engine_demo_settings :: environment where
  "engine_demo_settings =
     [(''MVS_WORKER_PROFILE'', MESH3D), (ENGINE_COMMAND_VARIABLE, AISMITH_ENGINE),
      (''OGWP_WORKER_VRAM_MB'', ''24564''), (''OGWP_WORKER_GPU_MODEL'', ''RTX 4090''),
      (''OGWP_WORKER_RUNTIME_VERSIONS'', versions_text demo_registered), (''OGWP_WORKER_CONCURRENCY'', ''1'')]"

lemma demo_gpus: "qualifying_gpus demo_pt MESH3D_RECIPE demo_report =
     [[(''compute_capability'', JStr ''8.9''), (''memory_mb'', JInt 24564), (''name'', JStr ''RTX 4090'')]]"
  by code_simp

lemma demo_vram: "int_str 24564 = ''24564''" "int_of_text ''24564'' = Inr 24564"
  subgoal
  proof -
    have "digit_char 2 = CHR ''2''" "digit_char 4 = CHR ''4''" "digit_char 5 = CHR ''5''" "digit_char 6 = CHR ''6''"
      by code_simp+
    then show ?thesis by (simp add: int_str_def nat_str.simps)
  qed
  subgoal by code_simp
  done

lemma demo_gpu:
  "int_str (memory_mb (largest_gpu (qualifying_gpus demo_pt MESH3D_RECIPE demo_report))) = ''24564''"
  "str_of (pt_str demo_pt) (pget (largest_gpu (qualifying_gpus demo_pt MESH3D_RECIPE demo_report)) ''name'') =
     ''RTX 4090''"
  by (simp_all add: demo_gpus largest_gpu_def memory_mb_def demo_vram pget_def str_of_def)

abbreviation demo_inspected :: "string option \<Rightarrow> string list \<Rightarrow> rat \<Rightarrow> engine_exn + payload" where
  "demo_inspected \<equiv> \<lambda>_ _ _. Inr demo_report"

lemma engine_demo_shape:
  "engine_settings (demo_host demo_registered) demo_pt demo_inspected MESH3D engine_environment =
     Inr engine_demo_settings"
proof -
  obtain spec where "engine_profile MESH3D = Inr (spec, MESH3D_RECIPE)" using mesh3d_profile by blast
  then show ?thesis
    by (simp add: engine_settings_def prepare_engine_environment_def mesh3d_named engine_seconds_def
        engine_environment_unset engine_url_def runner_url_def strip_def engine_command_def demo_versions
        Let_def demo_gpu engine_demo_settings_def) (simp add: demo_host_def)
qed

definition engine_demo_prepared :: environment where
  "engine_demo_prepared = dict_merge engine_environment engine_demo_settings"

lemma engine_prepared_lookup:
  "map_of engine_demo_prepared n =
     (case map_of (rev engine_demo_settings) n of Some v \<Rightarrow> Some v | None \<Rightarrow> map_of engine_environment n)"
  by (simp add: engine_demo_prepared_def map_of_dict_merge map_add_def)

lemma engine_prepared_facts:
  "agent_required engine_demo_prepared ''OGWP_WORKER_COORDINATOR_URL'' = Inr ''https://pool''"
  "agent_required engine_demo_prepared ''OGWP_WORKER_ID'' = Inr ''w1''"
  "agent_credential engine_demo_prepared = Inr (Static_token ''t'')"
  "map_of engine_demo_prepared ''OGWP_WORKER_RUNTIME_VERSIONS'' = Some (versions_text demo_registered)"
  "map_of engine_demo_prepared ''OGWP_WORKER_CONCURRENCY'' = Some ''1''"
  "map_of engine_demo_prepared ''OGWP_WORKER_VRAM_MB'' = Some ''24564''"
  "map_of engine_demo_prepared ''OGWP_WORKER_TENANT'' = None"
  "map_of engine_demo_prepared ''OGWP_WORKER_MAX_INPUT_BYTES'' = None"
  "map_of engine_demo_prepared ENGINE_URL_VARIABLE = None"
  "map_of engine_demo_prepared ENGINE_COMMAND_VARIABLE = Some AISMITH_ENGINE"
  "map_of engine_demo_prepared ''MVS_ENGINE_INSPECT_TIMEOUT_SECONDS'' = None"
  "map_of engine_demo_prepared ''MVS_ENGINE_KILL_GRACE_SECONDS'' = None"
  by (simp_all add: engine_prepared_lookup engine_demo_settings_def engine_environment_def demo_environment_def
      agent_required_def agent_credential_def env_get_def PROFILE_VARIABLE_def ENGINE_URL_VARIABLE_def
      ENGINE_COMMAND_VARIABLE_def STATIC_AUTH_def)

lemma demo_registered_recipe:
  assumes "engine_profile MESH3D = Inr (spec, MESH3D_RECIPE)"
  shows "map_of demo_registered RECIPE_KEY = Some (profile_recipe_version MESH3D spec)"
proof -
  obtain spec' rest where p: "engine_profile MESH3D = Inr (spec', MESH3D_RECIPE)"
    and v: "demo_registered = (RECIPE_KEY, profile_recipe_version MESH3D spec') # rest"
    using demo_versions assms by (elim engine_versions_Inr) auto
  from p assms have "spec' = spec" by simp
  then show ?thesis by (simp add: v)
qed

lemma engine_demo_plugin:
  "\<exists>ep. engine_plugin_from_env (demo_host demo_registered) MESH3D engine_demo_prepared = Inr ep"
proof -
  obtain spec where spec: "engine_profile MESH3D = Inr (spec, MESH3D_RECIPE)" using mesh3d_profile by blast
  have command: "engine_command (demo_host demo_registered) engine_demo_prepared = Inr [AISMITH_ENGINE]"
  proof -
    have "strip AISMITH_ENGINE \<noteq> []" by code_simp
    then show ?thesis
      by (simp add: engine_command_def env_get_def engine_prepared_facts demo_host_def)
  qed
  show ?thesis
    by (simp add: engine_plugin_from_env_def engine_prepared_facts demo_load versions_back command engine_url_def
        runner_url_def env_get_def engine_seconds_def strip_def new_engine_plugin_def mesh3d_named spec
        demo_registered_recipe)
qed

lemma engine_demo_run:
  obtains plugins agent where
    "prepared_agent (demo_host demo_registered) demo_comfy_env demo_pt
       (engine_settings (demo_host demo_registered) demo_pt demo_inspected) engine_environment [] =
     (Inr (Static_token ''t'', plugins, agent), [])"
proof -
  obtain ep where ep: "engine_plugin_from_env (demo_host demo_registered) MESH3D engine_demo_prepared = Inr ep"
    using engine_demo_plugin by blast
  have p: "prepare_engine_profile (demo_host demo_registered)
      (engine_settings (demo_host demo_registered) demo_pt demo_inspected) engine_environment =
    Inr (Some (engine_demo_prepared, Engine_profile_plugin ep))"
    by (simp add: prepare_engine_profile_def engine_environment_profile mesh3d_named engine_demo_shape
        engine_demo_prepared_def [symmetric] ep)
  have "\<exists>agent. build_agent_from_env (demo_host demo_registered) engine_demo_prepared [Engine_profile_plugin ep]
      True = Inr (Static_token ''t'', [Engine_profile_plugin ep], agent)"
    by (simp add: build_agent_from_env_def engine_prepared_facts agent_plugins_def demo_load env_get_def
        env_int_def int_of_text_one demo_vram versions_back Let_def new_agent_def)
  with that show thesis by (auto simp: prepared_agent_def mbind_def mlift_def p)
qed

theorem engine_worker_alone_witness:
  "\<exists>plugins agent ep. prepared_agent (demo_host demo_registered) demo_comfy_env demo_pt
       (engine_settings (demo_host demo_registered) demo_pt demo_inspected) engine_environment [] =
     (Inr (Static_token ''t'', plugins, agent), []) \<and>
    plugins = [Engine_profile_plugin ep] \<and> ac_runtime_versions agent = ep_versions ep \<and>
    list_all (\<lambda>(k, c). wc_concurrency c = 1) (ac_capabilities agent)"
proof -
  obtain plugins agent where run: "prepared_agent (demo_host demo_registered) demo_comfy_env demo_pt
       (engine_settings (demo_host demo_registered) demo_pt demo_inspected) engine_environment [] =
     (Inr (Static_token ''t'', plugins, agent), [])"
    by (rule engine_demo_run)
  have "list_ex is_engine_profile (comma_entries (env_get engine_environment PROFILE_VARIABLE []))"
    by (simp add: engine_environment_profile mesh3d_named)
  from engine_worker_alone [OF run this] show ?thesis using run by blast
qed

end
