(* ===== verification/ObjectGraph.thy ===== *)
theory ObjectGraph
  imports Validation "HOL-Library.Multiset"
begin

text \<open>
  \<open>_validate_json_tree\<close> of \<open>validation.py\<close> on the objects it walks. A caller in the same process may pass a
  payload whose containers are shared or contain themselves; the loop tells containers apart by \<open>id\<close>. Dicts
  and lists live in a \<open>heap\<close> by their identity; an identity without an entry is an object of another class
  (a tuple, a set, bytes), which the loop refuses. \<open>reads_all\<close> relates values to the JSON trees they stand
  for and the containers read on the way, with their multiplicity.
\<close>

section \<open>Objects\<close>

datatype py_value =
    PyNone
  | PyBool bool
  | PyInt int
  | PyFloat string num
  | PyStr string
  | PyRef nat

datatype py_container = PyDict "(py_value \<times> py_value) list" | PyList "py_value list"

type_synonym heap = "(nat, py_container) dict"

fun str_key :: "py_value \<Rightarrow> string option" where
  "str_key (PyStr s) = Some s"
| "str_key _ = None"

section \<open>The loop\<close>

text \<open>The head of the list is the top of the stack, and \<open>stack.extend\<close> leaves the last child on top. \<open>seen\<close> are
  the identities met so far. It ends because an iteration meets a new container or shrinks the stack.\<close>

definition unseen :: "heap \<Rightarrow> nat list \<Rightarrow> nat" where
  "unseen h seen = card (set (keys h) - set seen)"

lemma unseen_less: "map_of h a = Some c \<Longrightarrow> a \<notin> set seen \<Longrightarrow> unseen h (a # seen) < unseen h seen"
proof -
  assume "map_of h a = Some c" "a \<notin> set seen"
  then have "a \<in> set (keys h) - set seen" by (auto dest: map_of_SomeD intro: rev_image_eqI)
  then show ?thesis unfolding unseen_def by (intro psubset_card_mono) auto
qed

function graph_loop :: "heap \<Rightarrow> nat list \<Rightarrow> (py_value \<times> nat) list \<Rightarrow> exn + unit" where
  "graph_loop h seen [] = Inr ()"
| "graph_loop h seen ((v, depth) # stack) =
     (if MAX_JOB_PAYLOAD_DEPTH < depth
      then Inl (ValueError (''job payload exceeds depth '' @ nat_str MAX_JOB_PAYLOAD_DEPTH))
      else case v of
        PyRef a \<Rightarrow>
          (case map_of h a of
             Some (PyDict kvs) \<Rightarrow>
               if a \<in> set seen then Inl (ValueError ''job payload contains a repeated or cyclic container'')
               else if list_ex (\<lambda>(k, _). str_key k = None) kvs
               then Inl (ValueError ''job payload object keys must be strings'')
               else graph_loop h (a # seen) (rev (map (\<lambda>p. (snd p, depth + 1)) kvs) @ stack)
           | Some (PyList xs) \<Rightarrow>
               if a \<in> set seen then Inl (ValueError ''job payload contains a repeated or cyclic container'')
               else graph_loop h (a # seen) (rev (map (\<lambda>x. (x, depth + 1)) xs) @ stack)
           | None \<Rightarrow> Inl (ValueError ''job payload contains an unsupported value''))
      | PyFloat _ n \<Rightarrow>
          (case n of Fin _ \<Rightarrow> graph_loop h seen stack
           | _ \<Rightarrow> Inl (ValueError ''job payload numbers must be finite''))
      | _ \<Rightarrow> graph_loop h seen stack)"
  by pat_completeness auto

termination
  by (relation "measures [\<lambda>(h, seen, _). unseen h seen, \<lambda>(_, _, stack). length stack]")
    (auto simp: unseen_less)

declare graph_loop.simps [simp del]

definition validate_json_graph :: "heap \<Rightarrow> py_value \<Rightarrow> exn + unit" where
  "validate_json_graph h v = graph_loop h [] [(v, 1)]"

section \<open>What a value stands for\<close>

fun scalar_json :: "py_value \<Rightarrow> json option" where
  "scalar_json PyNone = Some JNull"
| "scalar_json (PyBool b) = Some (JBool b)"
| "scalar_json (PyInt i) = Some (JInt i)"
| "scalar_json (PyFloat r n) = Some (JFloat r n)"
| "scalar_json (PyStr s) = Some (JStr s)"
| "scalar_json (PyRef _) = None"

inductive reads_all :: "heap \<Rightarrow> py_value list \<Rightarrow> json list \<Rightarrow> nat multiset \<Rightarrow> bool" for h where
  reads_nil: "reads_all h [] [] {#}"
| reads_scalar: "scalar_json v = Some j \<Longrightarrow> reads_all h vs js A \<Longrightarrow> reads_all h (v # vs) (j # js) A"
| reads_list: "map_of h a = Some (PyList xs) \<Longrightarrow> reads_all h xs ys A \<Longrightarrow> reads_all h vs js B \<Longrightarrow>
    reads_all h (PyRef a # vs) (JArr ys # js) (add_mset a (A + B))"
| reads_dict: "map_of h a = Some (PyDict kvs) \<Longrightarrow> map (str_key \<circ> fst) kvs = map Some ks \<Longrightarrow>
    reads_all h (map snd kvs) ys A \<Longrightarrow> reads_all h vs js B \<Longrightarrow>
    reads_all h (PyRef a # vs) (JObj (zip ks ys) # js) (add_mset a (A + B))"

inductive_cases reads_nilE: "reads_all h [] js A"
inductive_cases reads_consE: "reads_all h (v # vs) js A"
inductive_cases reads_refE: "reads_all h (PyRef a # vs) js A"

lemma reads_nil_iff [simp]: "reads_all h [] js A \<longleftrightarrow> js = [] \<and> A = {#}"
  by (auto elim: reads_nilE intro: reads_nil)

lemma reads_length: "reads_all h vs js A \<Longrightarrow> length js = length vs"
  by (induction rule: reads_all.induct) auto

lemma reads_scalar_iff:
  "scalar_json v = Some j \<Longrightarrow> reads_all h (v # vs) js A \<longleftrightarrow> (\<exists>ks. js = j # ks \<and> reads_all h vs ks A)"
  by (auto elim!: reads_consE intro: reads_scalar)

lemma reads_list_iff:
  "map_of h a = Some (PyList xs) \<Longrightarrow> reads_all h (PyRef a # vs) js A \<longleftrightarrow>
     (\<exists>ys ks B C. js = JArr ys # ks \<and> A = add_mset a (B + C) \<and> reads_all h xs ys B \<and> reads_all h vs ks C)"
  by (auto elim!: reads_refE intro: reads_list) blast

lemma reads_dict_iff:
  "map_of h a = Some (PyDict kvs) \<Longrightarrow> reads_all h (PyRef a # vs) js A \<longleftrightarrow>
     (\<exists>ns ys ks B C. js = JObj (zip ns ys) # ks \<and> A = add_mset a (B + C) \<and>
        map (str_key \<circ> fst) kvs = map Some ns \<and> reads_all h (map snd kvs) ys B \<and> reads_all h vs ks C)"
  by (auto elim!: reads_refE intro: reads_dict) blast

lemma reads_opaque: "map_of h a = None \<Longrightarrow> \<not> reads_all h (PyRef a # vs) js A"
  by (auto elim: reads_refE)

text \<open>Every value is a scalar, a container or an opaque object.\<close>

lemma value_cases [case_names scalar opaque list dict]:
  obtains j where "scalar_json v = Some j"
  | a where "v = PyRef a" "map_of h a = None"
  | a xs where "v = PyRef a" "map_of h a = Some (PyList xs)"
  | a kvs where "v = PyRef a" "map_of h a = Some (PyDict kvs)"
proof (cases v)
  case (PyRef a)
  with that show thesis by (cases "map_of h a"; cases "the (map_of h a)") auto
qed (use that(1) in auto)

lemma reads_append:
  "reads_all h (vs @ ws) js A \<longleftrightarrow>
     (\<exists>ks ls B C. js = ks @ ls \<and> A = B + C \<and> reads_all h vs ks B \<and> reads_all h ws ls C)"
proof (induction vs arbitrary: js A)
  case (Cons v vs)
  show ?case
  proof (cases rule: value_cases [where v = v and h = h])
    case (list a xs)
    show ?thesis
      by (simp only: append_Cons list(1) reads_list_iff [OF list(2)] Cons.IH)
        (fastforce simp: ac_simps)
  next
    case (dict a kvs)
    show ?thesis
      by (simp only: append_Cons dict(1) reads_dict_iff [OF dict(2)] Cons.IH)
        (fastforce simp: ac_simps)
  next
    case (scalar j)
    show ?thesis
    proof
      assume "reads_all h ((v # vs) @ ws) js A"
      then obtain ks ls B C where "js = j # ks @ ls" "A = B + C" "reads_all h vs ks B" "reads_all h ws ls C"
        by (auto simp: reads_scalar_iff [OF scalar] Cons.IH)
      then show "\<exists>ks ls B C. js = ks @ ls \<and> A = B + C \<and> reads_all h (v # vs) ks B \<and> reads_all h ws ls C"
        by (intro exI [of _ "j # ks"] exI [of _ ls] exI [of _ B] exI [of _ C])
          (simp add: reads_scalar_iff [OF scalar])
    next
      assume "\<exists>ks ls B C. js = ks @ ls \<and> A = B + C \<and> reads_all h (v # vs) ks B \<and> reads_all h ws ls C"
      then show "reads_all h ((v # vs) @ ws) js A"
        by (auto simp: reads_scalar_iff [OF scalar] Cons.IH) blast
    qed
  qed (simp add: reads_opaque)
qed simp

lemma reads_rev_1: "reads_all h vs js A \<Longrightarrow> reads_all h (rev vs) (rev js) A"
proof (induction vs arbitrary: js A)
  case (Cons v vs)
  then obtain ks ls B C where *: "js = ks @ ls" "A = B + C" "reads_all h [v] ks B" "reads_all h vs ls C"
    using reads_append [of h "[v]" vs js A, THEN iffD1] by (simp only: append_Cons append_Nil) blast
  have "rev ks = ks" using reads_length [OF *(3)] by (auto simp: length_Suc_conv)
  with * Cons.IH [OF *(4)] have "rev js = rev ls @ ks" "A = C + B" "reads_all h (rev vs) (rev ls) C"
    by (simp_all add: ac_simps)
  with *(3) show ?case unfolding rev.simps(2) reads_append by blast
qed simp

lemma reads_rev: "reads_all h (rev vs) js A \<longleftrightarrow> reads_all h vs (rev js) A"
  using reads_rev_1 [of h vs "rev js" A] reads_rev_1 [of h "rev vs" js A] by auto

lemma reads_deterministic:
  "reads_all h vs js A \<Longrightarrow> reads_all h vs js' A' \<Longrightarrow> js' = js \<and> A' = A"
proof (induction arbitrary: js' A' rule: reads_all.induct)
  case (reads_scalar v j vs js A)
  obtain ks where "js' = j # ks" "reads_all h vs ks A'"
    using reads_scalar.prems reads_scalar.hyps(1) by (auto simp: reads_scalar_iff)
  then show ?case using reads_scalar.IH [of ks A'] by simp
next
  case (reads_list a xs ys A vs js B)
  obtain ys' ks' B' C' where "js' = JArr ys' # ks'" "A' = add_mset a (B' + C')" "reads_all h xs ys' B'"
    "reads_all h vs ks' C'"
    using reads_list.prems reads_list.hyps(1) by (auto simp: reads_list_iff)
  then show ?case using reads_list.IH(1) [of ys' B'] reads_list.IH(2) [of ks' C'] by simp
next
  case (reads_dict a kvs ks ys A vs js B)
  obtain ns ys' ks' B' C' where "js' = JObj (zip ns ys') # ks'" "A' = add_mset a (B' + C')"
    "map Some ks = map Some ns" "reads_all h (map snd kvs) ys' B'" "reads_all h vs ks' C'"
    using reads_dict.prems reads_dict.hyps(1,2) by (auto simp: reads_dict_iff)
  then show ?case using reads_dict.IH(1) [of ys' B'] reads_dict.IH(2) [of ks' C']
    by (simp add: inj_map_eq_map)
qed simp

section \<open>The loop accepts exactly the trees\<close>

text \<open>The values of a stack stand for JSON trees that share no container, neither with each other nor with what
  was seen, and the loop on these trees accepts them.\<close>

definition tree_shaped :: "heap \<Rightarrow> nat list \<Rightarrow> (py_value \<times> nat) list \<Rightarrow> bool" where
  "tree_shaped h seen st =
     (\<exists>js A. reads_all h (map fst st) js A \<and> (\<forall>a. count A a \<le> 1) \<and> (\<forall>a \<in> set seen. a \<notin># A) \<and>
        tree_loop (zip js (map snd st)) = Inr ())"

lemma fresh_add:
  "(\<forall>x. count (add_mset a A) x \<le> 1) \<and> (\<forall>x \<in> set seen. x \<notin># add_mset a A) \<longleftrightarrow>
     a \<notin> set seen \<and> (\<forall>x. count A x \<le> 1) \<and> (\<forall>x \<in> set (a # seen). x \<notin># A)"
  by (auto simp: not_in_iff split: if_splits)

lemma tree_shaped_deep: "MAX_JOB_PAYLOAD_DEPTH < d \<Longrightarrow> \<not> tree_shaped h seen ((v, d) # st)"
  by (auto simp: tree_shaped_def elim!: reads_consE)

lemma tree_shaped_scalar:
  assumes "scalar_json v = Some j" "d \<le> MAX_JOB_PAYLOAD_DEPTH"
  shows "tree_shaped h seen ((v, d) # st) \<longleftrightarrow>
     (case v of PyFloat _ n \<Rightarrow> (\<exists>q. n = Fin q) | _ \<Rightarrow> True) \<and> tree_shaped h seen st"
proof -
  have "tree_loop ((j, d) # rest) = Inr () \<longleftrightarrow>
      (case v of PyFloat _ n \<Rightarrow> (\<exists>q. n = Fin q) | _ \<Rightarrow> True) \<and> tree_loop rest = Inr ()" for rest
    using assms by (cases v) (auto split: num.splits)
  then have loop: "tree_loop (zip (j # ks) (map snd ((v, d) # st))) = Inr () \<longleftrightarrow>
      (case v of PyFloat _ n \<Rightarrow> (\<exists>q. n = Fin q) | _ \<Rightarrow> True) \<and> tree_loop (zip ks (map snd st)) = Inr ()" for ks
    by (simp del: tree_loop.simps)
  have r: "reads_all h (map fst ((v, d) # st)) js A \<longleftrightarrow> (\<exists>ks. js = j # ks \<and> reads_all h (map fst st) ks A)" for js A
    by (simp add: reads_scalar_iff [OF assms(1)])
  have "tree_shaped h seen ((v, d) # st) \<longleftrightarrow>
      (\<exists>ks A. reads_all h (map fst st) ks A \<and> (\<forall>a. count A a \<le> 1) \<and> (\<forall>a \<in> set seen. a \<notin># A) \<and>
         tree_loop (zip (j # ks) (map snd ((v, d) # st))) = Inr ())"
    unfolding tree_shaped_def r by blast
  then show ?thesis unfolding loop tree_shaped_def by blast
qed

lemma zip_children:
  assumes "length ys = length xs"
  shows "zip (rev ys @ ks) (map snd (rev (map (\<lambda>x. (f x, n)) xs) @ st)) =
    rev (map (\<lambda>y. (y, n)) ys) @ zip ks (map snd st)"
proof -
  have "map snd (rev (map (\<lambda>x. (f x, n)) xs)) = replicate (length (rev ys)) n"
    using assms by (simp add: rev_map [symmetric] o_def map_replicate_const)
  then show ?thesis
    by (simp add: zip_append1 zip_replicate2 rev_map)
qed

lemma children_shaped:
  "tree_shaped h seen (rev (map (\<lambda>x. (f x, n)) xs) @ st) \<longleftrightarrow>
     (\<exists>ys ks B C. reads_all h (map f xs) ys B \<and> reads_all h (map fst st) ks C \<and>
        (\<forall>a. count (B + C) a \<le> 1) \<and> (\<forall>a \<in> set seen. a \<notin># B + C) \<and>
        tree_loop (rev (map (\<lambda>y. (y, n)) ys) @ zip ks (map snd st)) = Inr ())"
  (is "?L \<longleftrightarrow> ?R")
proof
  assume ?L
  then obtain js A where *: "reads_all h (rev (map f xs) @ map fst st) js A" "\<forall>a. count A a \<le> 1"
    "\<forall>a \<in> set seen. a \<notin># A" "tree_loop (zip js (map snd (rev (map (\<lambda>x. (f x, n)) xs) @ st))) = Inr ()"
    by (auto simp: tree_shaped_def rev_map o_def)
  then obtain ys ks B C where r: "js = ys @ ks" "A = B + C" "reads_all h (map f xs) (rev ys) B"
    "reads_all h (map fst st) ks C"
    by (auto simp: reads_append reads_rev)
  have "length (rev ys) = length xs" using reads_length [OF r(3)] by simp
  from zip_children [OF this, of ks f n st] * r show ?R by auto
next
  assume ?R
  then obtain ys ks B C where *: "reads_all h (map f xs) ys B" "reads_all h (map fst st) ks C"
    "\<forall>a. count (B + C) a \<le> 1" "\<forall>a \<in> set seen. a \<notin># B + C"
    "tree_loop (rev (map (\<lambda>y. (y, n)) ys) @ zip ks (map snd st)) = Inr ()" by blast
  have "reads_all h (map fst (rev (map (\<lambda>x. (f x, n)) xs) @ st)) (rev ys @ ks) (B + C)"
  proof -
    have "reads_all h (rev (map f xs) @ map fst st) (rev ys @ ks) (B + C)"
      unfolding reads_append using *(1,2) by (metis reads_rev rev_rev_ident)
    then show ?thesis by (simp add: rev_map o_def)
  qed
  moreover have "length ys = length xs" using reads_length [OF *(1)] by simp
  from zip_children [OF this, of ks f n st] *(5)
  have "tree_loop (zip (rev ys @ ks) (map snd (rev (map (\<lambda>x. (f x, n)) xs) @ st))) = Inr ()" by simp
  ultimately show ?L using *(3,4) unfolding tree_shaped_def by blast
qed

lemma tree_shaped_list:
  assumes "map_of h a = Some (PyList xs)" "d \<le> MAX_JOB_PAYLOAD_DEPTH"
  shows "tree_shaped h seen ((PyRef a, d) # st) \<longleftrightarrow>
     a \<notin> set seen \<and> tree_shaped h (a # seen) (rev (map (\<lambda>x. (x, d + 1)) xs) @ st)"
proof -
  have loop: "tree_loop (zip (JArr ys # ks) (map snd ((PyRef a, d) # st))) =
      tree_loop (rev (map (\<lambda>y. (y, d + 1)) ys) @ zip ks (map snd st))" for ys ks
    using assms(2) by simp
  have "tree_shaped h seen ((PyRef a, d) # st) \<longleftrightarrow>
    (\<exists>ys ks B C. reads_all h (map (\<lambda>x. x) xs) ys B \<and> reads_all h (map fst st) ks C \<and>
       ((\<forall>x. count (add_mset a (B + C)) x \<le> 1) \<and> (\<forall>x \<in> set seen. x \<notin># add_mset a (B + C))) \<and>
       tree_loop (zip (JArr ys # ks) (map snd ((PyRef a, d) # st))) = Inr ())"
    unfolding tree_shaped_def list.map(2) [of fst] fst_conv reads_list_iff [OF assms(1)] list.map_ident by blast
  also have "\<dots> \<longleftrightarrow> a \<notin> set seen \<and> tree_shaped h (a # seen) (rev (map (\<lambda>x. (x, d + 1)) xs) @ st)"
    unfolding children_shaped fresh_add loop by blast
  finally show ?thesis .
qed

lemma map_Some_ex: "(\<exists>ks. map f xs = map Some ks) \<longleftrightarrow> \<not> list_ex (\<lambda>x. f x = None) xs"
  by (induction xs) (auto simp: Cons_eq_map_conv map_eq_Cons_conv)

lemma tree_shaped_dict:
  assumes "map_of h a = Some (PyDict kvs)" "d \<le> MAX_JOB_PAYLOAD_DEPTH"
  shows "tree_shaped h seen ((PyRef a, d) # st) \<longleftrightarrow>
     a \<notin> set seen \<and> \<not> list_ex (\<lambda>(k, _). str_key k = None) kvs \<and>
     tree_shaped h (a # seen) (rev (map (\<lambda>p. (snd p, d + 1)) kvs) @ st)"
proof -
  have loop: "tree_loop (zip (JObj (zip ns ys) # ks) (map snd ((PyRef a, d) # st))) =
      tree_loop (rev (map (\<lambda>y. (y, d + 1)) ys) @ zip ks (map snd st))" if "length ns = length ys" for ns ys ks
  proof -
    have "map (\<lambda>p. (snd p, d + 1)) (zip ns ys) = map (\<lambda>y. (y, d + 1)) (map snd (zip ns ys))" by simp
    then show ?thesis using assms(2) that by (simp del: map_map)
  qed
  have len: "length ns = length ys"
    if "map (str_key \<circ> fst) kvs = map Some ns" "reads_all h (map snd kvs) ys B" for ns ys B
    using reads_length [OF that(2)] that(1) by (metis length_map)
  have keys: "(\<exists>ns. map (str_key \<circ> fst) kvs = map Some ns) \<longleftrightarrow> \<not> list_ex (\<lambda>(k, _). str_key k = None) kvs"
    unfolding map_Some_ex by (simp add: split_def o_def)
  have "tree_shaped h seen ((PyRef a, d) # st) \<longleftrightarrow>
    (\<exists>ns ys ks B C. map (str_key \<circ> fst) kvs = map Some ns \<and> reads_all h (map snd kvs) ys B \<and>
       reads_all h (map fst st) ks C \<and>
       ((\<forall>x. count (add_mset a (B + C)) x \<le> 1) \<and> (\<forall>x \<in> set seen. x \<notin># add_mset a (B + C))) \<and>
       tree_loop (zip (JObj (zip ns ys) # ks) (map snd ((PyRef a, d) # st))) = Inr ())"
    unfolding tree_shaped_def list.map(2) [of fst] fst_conv reads_dict_iff [OF assms(1)] by blast
  also have "\<dots> \<longleftrightarrow>
    (\<exists>ns ys ks B C. map (str_key \<circ> fst) kvs = map Some ns \<and> reads_all h (map snd kvs) ys B \<and>
       reads_all h (map fst st) ks C \<and>
       (a \<notin> set seen \<and> (\<forall>x. count (B + C) x \<le> 1) \<and> (\<forall>x \<in> set (a # seen). x \<notin># B + C)) \<and>
       tree_loop (rev (map (\<lambda>y. (y, d + 1)) ys) @ zip ks (map snd st)) = Inr ())"
    unfolding fresh_add by (intro ex_cong1 conj_cong refl) (simp only: loop len)
  also have "\<dots> \<longleftrightarrow> a \<notin> set seen \<and> (\<exists>ns. map (str_key \<circ> fst) kvs = map Some ns) \<and>
     tree_shaped h (a # seen) (rev (map (\<lambda>p. (snd p, d + 1)) kvs) @ st)"
    unfolding children_shaped by blast
  finally show ?thesis unfolding keys .
qed

lemma graph_loop_iff: "graph_loop h seen st = Inr () \<longleftrightarrow> tree_shaped h seen st"
proof (induction h seen st rule: graph_loop.induct)
  case (1 h seen)
  show ?case by (simp add: tree_shaped_def graph_loop.simps)
next
  case (2 h seen v d st)
  show ?case
  proof (cases "MAX_JOB_PAYLOAD_DEPTH < d")
    case True
    then show ?thesis by (simp add: tree_shaped_deep graph_loop.simps)
  next
    case False
    then have d: "d \<le> MAX_JOB_PAYLOAD_DEPTH" by simp
    show ?thesis
    proof (cases rule: value_cases [where v = v and h = h])
      case (scalar j)
      then show ?thesis using False 2 tree_shaped_scalar [OF scalar d, of h seen st]
        by (cases v) (auto simp: graph_loop.simps split: num.splits)
    next
      case (opaque a)
      then show ?thesis using False by (auto simp: graph_loop.simps tree_shaped_def reads_opaque)
    next
      case (list a xs)
      then show ?thesis using False 2 by (simp add: tree_shaped_list [OF list(2) d] graph_loop.simps)
    next
      case (dict a kvs)
      then show ?thesis using False 2 by (simp add: tree_shaped_dict [OF dict(2) d] graph_loop.simps)
    qed
  qed
qed

text \<open>Claim C38: The payload walk accepts exactly the trees. It always ends, also on a payload that contains itself,
  and accepts a value if and only if the value stands for a JSON tree that reads every container at most once
  (no sharing, no cycle) and passes the depth and number checks of the loop on trees.\<close>

theorem payload_graph_tree:
  "validate_json_graph h v = Inr () \<longleftrightarrow>
     (\<exists>j A. reads_all h [v] [j] A \<and> (\<forall>a. count A a \<le> 1) \<and> validate_json_tree j = Inr ())"
proof -
  have one: "reads_all h [v] js A \<Longrightarrow> \<exists>j. js = [j]" for js A
    by (auto dest!: reads_length simp: length_Suc_conv)
  have "validate_json_graph h v = Inr () \<longleftrightarrow>
      (\<exists>js A. reads_all h [v] js A \<and> (\<forall>a. count A a \<le> 1) \<and> tree_loop (zip js [1]) = Inr ())"
    by (simp add: validate_json_graph_def graph_loop_iff tree_shaped_def del: tree_loop.simps)
  also have "\<dots> \<longleftrightarrow> (\<exists>j A. reads_all h [v] [j] A \<and> (\<forall>a. count A a \<le> 1) \<and> tree_loop (zip [j] [1]) = Inr ())"
    using one by blast
  finally show ?thesis by (simp add: validate_json_tree_def del: tree_loop.simps)
qed

text \<open>A shared and a cyclic list are refused, a tree is accepted, and a tuple inside a list is refused.\<close>

lemma shared_refused:
  "validate_json_graph [(0, PyList [PyRef 1, PyRef 1]), (1, PyList [])] (PyRef 0) =
     Inl (ValueError ''job payload contains a repeated or cyclic container'')"
  "validate_json_graph [(0, PyDict [(PyStr ''a'', PyRef 0)])] (PyRef 0) =
     Inl (ValueError ''job payload contains a repeated or cyclic container'')"
  by code_simp+

lemma tree_accepted:
  "validate_json_graph [(0, PyDict [(PyStr ''a'', PyRef 1), (PyStr ''b'', PyNone)]), (1, PyList [PyInt 1])]
     (PyRef 0) = Inr ()"
  "validate_json_graph [(0, PyList [PyRef 7])] (PyRef 0) =
     Inl (ValueError ''job payload contains an unsupported value'')"
  by code_simp+

end
