(* ===== verification/Processes.thy ===== *)
theory Processes
  imports EngineProps
begin

text \<open>
  The processes \<open>engine.py\<close> starts: \<open>_run_stage\<close>, the process of \<open>run_inspect\<close>, and \<open>_kill_group\<close>, which ends a
  process and what it left behind. The operating system and asyncio are the record \<open>process_env\<close>: each answer
  is a function of the calls made so far. An await may answer with an exception, as when the task itself
  is cancelled. Engine has what is made of the outcomes: the messages of a stage that was cancelled or timed out are
  raised by \<open>run_local\<close>, those of an inspection by \<open>run_inspect\<close>. Also \<open>_run_start_command\<close> of \<open>comfy.py\<close>, whose
  result here is what it logs.
\<close>

section \<open>Processes\<close>

datatype process_call =
    Spawn "string list" "(string, string) dict"
  | Running string
  | Wait_first rat
  | Communicate rat
  | Sigterm_group
  | Grace_wait rat
  | Sigkill_group
  | Reap
  | Not_running string
  | Spawn_start "string list"
  | Kill_process

type_synonym 'a process_run = "(process_call, engine_exn, 'a) run"

text \<open>\<open>px_returncode\<close>: \<open>process.returncode\<close>, \<open>px_wait\<close>: which of the exit and the cancel event
  \<open>asyncio.wait\<close> saw, \<open>px_code\<close>: the exit code once the process was waited for.\<close>

record process_env =
  px_spawn :: "process_call list \<Rightarrow> engine_exn + unit"
  px_returncode :: "process_call list \<Rightarrow> int option"
  px_wait :: "process_call list \<Rightarrow> engine_exn + (int option \<times> bool)"
  px_communicate :: "process_call list \<Rightarrow> engine_exn + string"
  px_term :: "process_call list \<Rightarrow> engine_exn + unit"
  px_grace :: "process_call list \<Rightarrow> engine_exn + unit"
  px_kill :: "process_call list \<Rightarrow> engine_exn + unit"
  px_reap :: "process_call list \<Rightarrow> engine_exn + unit"
  px_code :: "process_call list \<Rightarrow> int"

definition timeout_error :: engine_exn where "timeout_error = EngineOther ''TimeoutError''"

definition signal_errors :: "engine_exn list" where
  "signal_errors = [EngineOther ''ProcessLookupError'', EngineOther ''PermissionError'']"

definition engine_environment_of :: "(string, string) dict \<Rightarrow> (string, string) dict" where
  "engine_environment_of environ = dict_merge environ [(''AISMITH_OFFLINE'', ''1'')]"

text \<open>\<open>with suppress(ProcessLookupError, PermissionError)\<close>\<close>

definition signalled :: "process_call \<Rightarrow> (process_call list \<Rightarrow> engine_exn + unit) \<Rightarrow> unit process_run" where
  "signalled c answer = mcatch (mcall c answer) (\<lambda>e. if e \<in> set signal_errors then mreturn () else mraise e)"

definition kill_group :: "process_env \<Rightarrow> rat \<Rightarrow> unit process_run" where
  "kill_group env grace_seconds w =
     mbind
       (if px_returncode env w = None
        then mbind (signalled Sigterm_group (px_term env)) (\<lambda>_.
             mcatch (mcall (Grace_wait grace_seconds) (px_grace env))
               (\<lambda>e. if e = timeout_error then mreturn () else mraise e))
        else mreturn ())
       (\<lambda>_. mbind (signalled Sigkill_group (px_kill env)) (\<lambda>_. mcall Reap (px_reap env))) w"

text \<open>\<open>_run_stage\<close>; \<open>_running\<close> gets the job and loses it again.\<close>

definition run_stage ::
  "process_env \<Rightarrow> (string, string) dict \<Rightarrow> string \<Rightarrow> string list \<Rightarrow> rat \<Rightarrow> rat \<Rightarrow> stage_outcome process_run"
where
  "run_stage env environ job argv timeout grace_seconds =
     mbind (mcall (Spawn argv (engine_environment_of environ)) (px_spawn env)) (\<lambda>_.
     mbind (mcall (Running job) (\<lambda>_. Inr ())) (\<lambda>_.
     mfinally
       (mbind (mcall (Wait_first timeout) (px_wait env)) (\<lambda>(code, cancelled).
        mreturn (case code of Some c \<Rightarrow> Stage_exit c
                 | None \<Rightarrow> if cancelled then Stage_cancelled else Stage_timed_out)))
       (mbind (kill_group env grace_seconds) (\<lambda>_. mcall (Not_running job) (\<lambda>_. Inr ())))))"

text \<open>The process of \<open>run_inspect\<close>.\<close>

definition inspect_process ::
  "process_env \<Rightarrow> (string, string) dict \<Rightarrow> string list \<Rightarrow> bool \<Rightarrow> rat \<Rightarrow> rat \<Rightarrow> inspect_run process_run"
where
  "inspect_process env environ command full timeout grace_seconds =
     mbind (mcall (Spawn (command @ [''inspect''] @ (if full then [''--full''] else [])) (engine_environment_of environ))
       (px_spawn env)) (\<lambda>_.
     mbind
       (mfinally
          (mcatch (mbind (mcall (Communicate timeout) (px_communicate env)) (\<lambda>stdout. mreturn (Some stdout)))
             (\<lambda>e. if e = timeout_error then mreturn None else mraise e))
          (kill_group env grace_seconds))
       (\<lambda>r. case r of
          None \<Rightarrow> mreturn Inspect_timeout
        | Some stdout \<Rightarrow> (\<lambda>w. (Inr (Inspect_exit (px_code env w) stdout), w))))"

definition local_inspect ::
  "process_env \<Rightarrow> py_text \<Rightarrow> (string \<Rightarrow> json option) \<Rightarrow> (string, string) dict \<Rightarrow> string list \<Rightarrow> bool \<Rightarrow> rat \<Rightarrow> rat \<Rightarrow>
     payload process_run"
where
  "local_inspect env pt loads environ command full timeout grace_seconds =
     mbind (inspect_process env environ command full timeout grace_seconds) (\<lambda>r.
     mlift (run_inspect pt loads timeout r))"

section \<open>Ending a process\<close>

text \<open>The killing is not disturbed: a signal is delivered or finds no process it may signal, the wait of the grace
  ends or times out, and a killed process can be waited for.\<close>

definition undisturbed :: "process_env \<Rightarrow> bool" where
  "undisturbed env \<longleftrightarrow>
     (\<forall>l. px_term env l \<in> {Inr ()} \<union> Inl ` set signal_errors \<and>
          px_kill env l \<in> {Inr ()} \<union> Inl ` set signal_errors \<and>
          px_grace env l \<in> {Inr (), Inl timeout_error} \<and> px_reap env l = Inr ())"

definition terminated :: "process_env \<Rightarrow> rat \<Rightarrow> process_call list \<Rightarrow> process_call list" where
  "terminated env grace_seconds w =
     [Reap, Sigkill_group] @
     (if px_returncode env w = None then [Grace_wait grace_seconds, Sigterm_group] else []) @ w"

lemma signalled_done:
  "answer (c # w) \<in> {Inr ()} \<union> Inl ` set signal_errors \<Longrightarrow> signalled c answer w = (Inr (), c # w)"
  by (auto simp: signalled_def mcatch_def mcall_def mreturn_def)

lemma kill_group_undisturbed:
  assumes "undisturbed env"
  shows "kill_group env grace_seconds w = (Inr (), terminated env grace_seconds w)"
proof -
  have sigterm: "signalled Sigterm_group (px_term env) l = (Inr (), Sigterm_group # l)"
    and kill: "signalled Sigkill_group (px_kill env) l = (Inr (), Sigkill_group # l)"
    and reap: "px_reap env l = Inr ()" for l
    using assms by (auto intro!: signalled_done simp: undisturbed_def)
  have grace: "mcatch (mcall (Grace_wait grace_seconds) (px_grace env))
      (\<lambda>e. if e = timeout_error then mreturn () else mraise e) l = (Inr (), Grace_wait grace_seconds # l)" for l
  proof -
    have "px_grace env (Grace_wait grace_seconds # l) \<in> {Inr (), Inl timeout_error}"
      using assms by (simp add: undisturbed_def)
    then show ?thesis by (auto simp: mcatch_def mcall_def mreturn_def)
  qed
  show ?thesis
    by (simp add: kill_group_def terminated_def mbind_def sigterm grace kill reap mreturn_def mcall_def)
qed


lemma engine_offline: "map_of (engine_environment_of environ) ''AISMITH_OFFLINE'' = Some ''1''"
  by (simp add: engine_environment_of_def map_of_dict_merge)

text \<open>An inspection ends its process as well, also when it does not finish in time.\<close>

lemma inspect_never_left:
  assumes "undisturbed env" "px_spawn env (Spawn (command @ [''inspect'']) (engine_environment_of environ) # w) = Inr ()"
    "px_communicate env (Communicate timeout # Spawn (command @ [''inspect'']) (engine_environment_of environ) # w) =
       Inl timeout_error"
  shows "local_inspect env pt loads environ command False timeout grace_seconds w =
    (Inl (InspectTimedOut (''engine inspect did not finish in '' @ pt_secs pt timeout @ '' s'')),
     terminated env grace_seconds
       (Communicate timeout # Spawn (command @ [''inspect'']) (engine_environment_of environ) # w))"
  using assms(2,3)
  by (simp add: local_inspect_def inspect_process_def mbind_def mcall_def mfinally_def mcatch_def
      kill_group_undisturbed [OF assms(1)] mreturn_def mlift_def run_inspect_def)

section \<open>The start command of ComfyUI\<close>

definition STARTUP_COMMAND_TIMEOUT_SECONDS :: rat where "STARTUP_COMMAND_TIMEOUT_SECONDS = 30"
definition MAX_STARTUP_STDERR_LENGTH :: nat where "MAX_STARTUP_STDERR_LENGTH = 500"

datatype start_result = Start_ok | Start_timed_out | Start_exited int string

definition run_start_command :: "process_env \<Rightarrow> string list \<Rightarrow> start_result process_run" where
  "run_start_command env command =
     mbind (mcall (Spawn_start command) (px_spawn env)) (\<lambda>_.
     mbind
       (mcatch
          (mbind (mcall (Communicate STARTUP_COMMAND_TIMEOUT_SECONDS) (px_communicate env)) (\<lambda>err. mreturn (Some err)))
          (\<lambda>e. if e = timeout_error then mreturn None else mraise e))
       (\<lambda>r. case r of
          None \<Rightarrow> mbind (mcall Kill_process (px_kill env)) (\<lambda>_. mbind (mcall Reap (px_reap env)) (\<lambda>_.
                  mreturn Start_timed_out))
        | Some err \<Rightarrow> (\<lambda>w.
            (Inr (if px_code env w \<noteq> 0
                  then Start_exited (px_code env w) (drop (length err - MAX_STARTUP_STDERR_LENGTH) err)
                  else Start_ok), w))))"

text \<open>A start command that fails is not an error of the job, and one that hangs is killed and waited for.\<close>

lemma start_command_bounded:
  assumes "run_start_command env command w = (Inr r, w')"
  shows "w' = [Communicate 30, Spawn_start command] @ w \<and> r \<noteq> Start_timed_out \<or>
    w' = [Reap, Kill_process, Communicate 30, Spawn_start command] @ w \<and> r = Start_timed_out"
  using assms
  by (auto simp: run_start_command_def run_simps STARTUP_COMMAND_TIMEOUT_SECONDS_def split: option.splits if_splits)

section \<open>Examples\<close>

definition calm_env :: process_env where
  "calm_env =
     \<lparr>px_spawn = \<lambda>_. Inr (), px_returncode = \<lambda>_. None, px_wait = \<lambda>_. Inl (EngineOther ''CancelledError''),
      px_communicate = \<lambda>_. Inr [], px_term = \<lambda>_. Inr (), px_grace = \<lambda>_. Inl timeout_error, px_kill = \<lambda>_. Inr (),
      px_reap = \<lambda>_. Inr (), px_code = \<lambda>_. - 9\<rparr>"


text \<open>Cancelled a second time in the grace, the stage is not killed and the job stays listed.\<close>

lemma second_cancel_leaves_stage:
  "run_stage (calm_env\<lparr>px_grace := \<lambda>_. Inl (EngineOther ''CancelledError'')\<rparr>) [] ''j'' [''run''] 60 10 [] =
     (Inl (EngineOther ''CancelledError''),
      [Grace_wait 10, Sigterm_group, Wait_first 60, Running ''j'', Spawn [''run''] [(''AISMITH_OFFLINE'', ''1'')]])"
  by code_simp

end
