(* ===== verification/PostgresPool.thy ===== *)
theory PostgresPool
  imports PostgresStore Effects
begin

text \<open>
  The life of a Postgres store (\<open>postgres.py\<close>): \<open>_PoolOwner\<close>, which opens and closes the connection pool, and the
  migrations \<open>PostgresJobStore\<close> runs when it starts. \<open>asyncpg\<close> is the record \<open>database\<close>: each answer is a function of
  the calls made so far; the answer to \<open>Migrate\<close> is that of reading the file and executing it. A pool is a
  number. An operation leaves the state it had when it raised.
\<close>

section \<open>The pool\<close>

text \<open>\<open>RuntimeError\<close> of a store that was not started, and what the database or asyncpg raises.\<close>

datatype pool_exn = NotStarted string | DatabaseError string

datatype database_call =
    Create_pool string
  | Close_pool nat
  | Acquire nat
  | Release_connection nat
  | Advisory_lock string
  | Advisory_unlock string
  | Migrate string
  | Execute_query string

record database =
  db_create :: "database_call list \<Rightarrow> pool_exn + nat"
  db_answer :: "database_call list \<Rightarrow> pool_exn + unit"
  db_result :: "database_call list \<Rightarrow> pool_exn + string"

record pool_owner =
  ow_url :: string
  ow_pool :: "nat option"
  ow_owns :: bool

type_synonym 'a database_run = "(database_call, pool_exn, 'a) run"

definition new_pool_owner :: "string \<Rightarrow> nat option \<Rightarrow> pool_owner" where
  "new_pool_owner database_url pool = \<lparr>ow_url = database_url, ow_pool = pool, ow_owns = False\<rparr>"

definition owner_start ::
  "database \<Rightarrow> pool_owner \<Rightarrow> database_call list \<Rightarrow> (pool_exn + unit) \<times> pool_owner \<times> database_call list"
where
  "owner_start db ow w =
     (case ow_pool ow of
        Some _ \<Rightarrow> (Inr (), ow, w)
      | None \<Rightarrow>
          (case mcall (Create_pool (ow_url ow)) (db_create db) w of
             (Inl e, w') \<Rightarrow> (Inl e, ow, w')
           | (Inr p, w') \<Rightarrow> (Inr (), ow\<lparr>ow_pool := Some p, ow_owns := True\<rparr>, w')))"

definition owner_stop ::
  "database \<Rightarrow> pool_owner \<Rightarrow> database_call list \<Rightarrow> (pool_exn + unit) \<times> pool_owner \<times> database_call list"
where
  "owner_stop db ow w =
     (case ow_pool ow of
        None \<Rightarrow> (Inr (), ow, w)
      | Some p \<Rightarrow>
          if \<not> ow_owns ow then (Inr (), ow, w)
          else (case mcall (Close_pool p) (db_answer db) w of
                  (Inl e, w') \<Rightarrow> (Inl e, ow, w')
                | (Inr _, w') \<Rightarrow> (Inr (), ow\<lparr>ow_pool := None, ow_owns := False\<rparr>, w')))"

definition require_pool :: "pool_owner \<Rightarrow> pool_exn + nat" where
  "require_pool ow =
     (case ow_pool ow of
        None \<Rightarrow> Inl (NotStarted ''PostgreSQL worker pool store has not started'') | Some p \<Rightarrow> Inr p)"

text \<open>\<open>async with pool.acquire() as connection\<close>\<close>

definition with_connection :: "database \<Rightarrow> pool_owner \<Rightarrow> 'a database_run \<Rightarrow> 'a database_run" where
  "with_connection db ow body =
     mbind (mlift (require_pool ow)) (\<lambda>p.
     mbind (mcall (Acquire p) (db_answer db)) (\<lambda>_.
     mfinally body (mcall (Release_connection p) (db_answer db))))"

definition pool_execute :: "database \<Rightarrow> pool_owner \<Rightarrow> string \<Rightarrow> bool database_run" where
  "pool_execute db ow query =
     mbind (with_connection db ow (mcall (Execute_query query) (db_result db))) (\<lambda>result.
     mreturn (result = ''UPDATE 1''))"

section \<open>Migrations\<close>

definition MIGRATION_FILES :: "string list" where
  "MIGRATION_FILES = [''001_worker_pool.sql'', ''002_worker_telemetry.sql'', ''003_worker_tenancy.sql'',
     ''004_execution_provenance.sql'']"

definition MIGRATION_ADVISORY_LOCK_KEY :: string where
  "MIGRATION_ADVISORY_LOCK_KEY = ''outbound_gpu_worker_pool.migrations''"

definition run_migrations :: "database \<Rightarrow> pool_owner \<Rightarrow> unit database_run" where
  "run_migrations db ow =
     with_connection db ow
       (mbind (mcall (Advisory_lock MIGRATION_ADVISORY_LOCK_KEY) (db_answer db)) (\<lambda>_.
        mfinally (mfor (\<lambda>name. mcall (Migrate name) (db_answer db)) MIGRATION_FILES)
          (mcall (Advisory_unlock MIGRATION_ADVISORY_LOCK_KEY) (db_answer db))))"

definition job_store_start ::
  "database \<Rightarrow> pool_owner \<Rightarrow> database_call list \<Rightarrow> (pool_exn + unit) \<times> pool_owner \<times> database_call list"
where
  "job_store_start db ow w =
     (case owner_start db ow w of
        (Inl e, ow', w') \<Rightarrow> (Inl e, ow', w')
      | (Inr _, ow', w') \<Rightarrow> (case run_migrations db ow' w' of (r, w'') \<Rightarrow> (r, ow', w'')))"

section \<open>What a start does\<close>

lemma mfor_calls:
  "mfor (\<lambda>x. mcall (f x) answer) xs w = (r, w') \<Longrightarrow>
     \<exists>k \<le> length xs. w' = rev (map f (take k xs)) @ w \<and> (k = length xs \<or> r \<noteq> Inr ()) \<and> (xs = [] \<or> 0 < k)"
proof (induction xs arbitrary: w)
  case (Cons x xs)
  show ?case
  proof (cases "answer (f x # w)")
    case (Inl e)
    then have "r = Inl e" "w' = f x # w" using Cons.prems by (auto simp: mbind_def mcall_def)
    then show ?thesis by (intro exI [of _ 1]) simp
  next
    case (Inr u)
    then have "mfor (\<lambda>x. mcall (f x) answer) xs (f x # w) = (r, w')"
      using Cons.prems by (simp add: mbind_def mcall_def [of "f x"])
    from Cons.IH [OF this] obtain k where "k \<le> length xs" "w' = rev (map f (take k xs)) @ f x # w"
      "k = length xs \<or> r \<noteq> Inr ()" by blast
    then show ?thesis by (intro exI [of _ "Suc k"]) auto
  qed
qed (simp add: mreturn_def)

text \<open>Claim C40: The migrations run in order, on one connection, under the advisory lock, and neither outlives them.
  When a started store is migrated, either no connection or no lock was given, or the calls are the lock, an
  initial part of the migrations in order, the unlock and the release of the connection, whatever
  fails; and a migration that succeeds has run all of them.\<close>

theorem migrations_locked:
  assumes "run_migrations db ow w = (r, w')" "ow_pool ow = Some p"
  shows "(\<exists>e. r = Inl e \<and> w' = Acquire p # w) \<or>
    (\<exists>e. r = Inl e \<and> w' = [Release_connection p, Advisory_lock MIGRATION_ADVISORY_LOCK_KEY, Acquire p] @ w) \<or>
    (\<exists>k. w' = [Release_connection p, Advisory_unlock MIGRATION_ADVISORY_LOCK_KEY] @
           rev (map Migrate (take k MIGRATION_FILES)) @ [Advisory_lock MIGRATION_ADVISORY_LOCK_KEY, Acquire p] @ w \<and>
         0 < k \<and> k \<le> length MIGRATION_FILES \<and> (r = Inr () \<longrightarrow> k = length MIGRATION_FILES))"
proof -
  let ?m = "mfor (\<lambda>name. mcall (Migrate name) (db_answer db)) MIGRATION_FILES"
  let ?l = "Advisory_lock MIGRATION_ADVISORY_LOCK_KEY # Acquire p # w"
  obtain q l where m: "?m ?l = (q, l)" by (cases "?m ?l")
  from mfor_calls [OF m] obtain k where k: "k \<le> length MIGRATION_FILES"
    "l = rev (map Migrate (take k MIGRATION_FILES)) @ ?l" "k = length MIGRATION_FILES \<or> q \<noteq> Inr ()" "0 < k"
    by (auto simp: MIGRATION_FILES_def)
  let ?body = "mbind (mcall (Advisory_lock MIGRATION_ADVISORY_LOCK_KEY) (db_answer db)) (\<lambda>_.
    mfinally ?m (mcall (Advisory_unlock MIGRATION_ADVISORY_LOCK_KEY) (db_answer db)))"
  obtain q' l' where body: "?body (Acquire p # w) = (q', l')" by (cases "?body (Acquire p # w)")
  have ends: "(\<exists>e. q' = Inl e) \<and> l' = ?l \<or>
      l' = Advisory_unlock MIGRATION_ADVISORY_LOCK_KEY # l \<and> (q = Inr () \<or> q' \<noteq> Inr ())"
  proof (cases "db_answer db ?l")
    case (Inl e)
    then have "?body (Acquire p # w) = (Inl e, ?l)" by (simp add: mbind_def mcall_def)
    then show ?thesis unfolding body by simp
  next
    case (Inr u)
    then have "mfinally ?m (mcall (Advisory_unlock MIGRATION_ADVISORY_LOCK_KEY) (db_answer db)) ?l = (q', l')"
      using body by (simp add: mbind_def mcall_def [of "Advisory_lock MIGRATION_ADVISORY_LOCK_KEY"])
    then show ?thesis unfolding mfinally_iff m by (auto simp: mcall_iff)
  qed
  have conn: "run_migrations db ow w =
      mbind (mcall (Acquire p) (db_answer db))
        (\<lambda>_. mfinally ?body (mcall (Release_connection p) (db_answer db))) w"
    by (simp add: run_migrations_def with_connection_def require_pool_def assms(2) mlift_def mbind_def)
  show ?thesis
  proof (cases "db_answer db (Acquire p # w)")
    case (Inl e)
    then have "run_migrations db ow w = (Inl e, Acquire p # w)" unfolding conn by (simp add: mbind_def mcall_def)
    then show ?thesis using assms(1) by simp
  next
    case (Inr u)
    then have "mfinally ?body (mcall (Release_connection p) (db_answer db)) (Acquire p # w) = (r, w')"
      using assms(1) unfolding conn by (simp add: mbind_def [of "mcall (Acquire p) (db_answer db)"] mcall_def [of "Acquire p"])
    then have "w' = Release_connection p # l' \<and> (r = q' \<or> (\<exists>e. r = Inl e))"
      unfolding mfinally_iff body by (auto simp: mcall_iff)
    with ends k show ?thesis by auto
  qed
qed

text \<open>A stop closes the pool a start has opened, and only that one.\<close>

lemma stop_closes_own_pool:
  assumes "owner_start db (new_pool_owner url given) w = (Inr (), ow, w')" "owner_stop db ow w' = (Inr (), ow', w'')"
  shows "(case given of
      Some _ \<Rightarrow> w'' = w \<and> ow' = new_pool_owner url given
    | None \<Rightarrow> \<exists>p. w'' = [Close_pool p, Create_pool url] @ w \<and> ow' = new_pool_owner url None)"
  using assms
  by (auto simp: owner_start_def owner_stop_def new_pool_owner_def mcall_def split: option.splits sum.splits)

section \<open>Examples\<close>

text \<open>A database whose second migration fails.\<close>

definition failing_database :: database where
  "failing_database =
     \<lparr>db_create = \<lambda>_. Inr 7,
      db_answer = \<lambda>w. if hd w = Migrate ''002_worker_telemetry.sql'' then Inl (DatabaseError ''SQL'') else Inr (),
      db_result = \<lambda>_. Inr ''UPDATE 1''\<rparr>"

theorem migrations_locked_witness:
  "\<exists>k. snd (run_migrations failing_database (new_pool_owner ''db'' (Some 7)) []) =
     [Release_connection 7, Advisory_unlock MIGRATION_ADVISORY_LOCK_KEY] @
     rev (map Migrate (take k MIGRATION_FILES)) @ [Advisory_lock MIGRATION_ADVISORY_LOCK_KEY, Acquire 7] \<and> 0 < k"
proof -
  obtain r w' where run: "run_migrations failing_database (new_pool_owner ''db'' (Some 7)) [] = (r, w')"
    by (cases "run_migrations failing_database (new_pool_owner ''db'' (Some 7)) []")
  have len: "length (snd (run_migrations failing_database (new_pool_owner ''db'' (Some 7)) [])) = 6" by code_simp
  have "ow_pool (new_pool_owner ''db'' (Some 7)) = Some 7" by (simp add: new_pool_owner_def)
  from migrations_locked [OF run this] len show ?thesis by (auto simp: run)
qed

text \<open>The start has failed, and the pool it opened is open: nobody but this store can close it.\<close>

lemma failed_migration_keeps_pool:
  "fst (job_store_start failing_database (new_pool_owner ''db'' None) []) = Inl (DatabaseError ''SQL'')"
  "fst (snd (job_store_start failing_database (new_pool_owner ''db'' None) [])) =
     \<lparr>ow_url = ''db'', ow_pool = Some 7, ow_owns = True\<rparr>"
  by code_simp+

end
