(* ===== verification/SecretsCheck.thy ===== *)
theory SecretsCheck
  imports ProfileRuntime
begin

text \<open>
  \<open>scripts/check_secrets.py\<close>: the scan of a repository's full history and of its raw objects. Git and the
  scanner are the record \<open>scan_host\<close>; an exception is the name of its class, which is all that is printed of it. The
  report of a scan is absent, no JSON, or a JSON value.
\<close>

section \<open>A scan\<close>

datatype scan_report = No_report | Bad_report | Report json

record scan_host =
  sh_shallow :: "string + string"
  sh_fsck :: "string + unit"
  sh_descriptions :: "string + string list"
  sh_content :: "string \<Rightarrow> string \<Rightarrow> string + bytes"
  sh_history :: "string + int \<times> scan_report"
  sh_corpus :: "(string, bytes) dict \<Rightarrow> string + int \<times> scan_report"

definition PUBLIC_KEYS :: "string list" where
  "PUBLIC_KEYS = [''RuleID'', ''File'', ''StartLine'', ''EndLine'', ''Commit'']"

definition safe_finding :: "json \<Rightarrow> string + json" where
  "safe_finding finding =
     (case finding of
        JObj d \<Rightarrow> Inr (JObj (map (\<lambda>k. (k, payload_get d k JNull)) PUBLIC_KEYS))
      | _ \<Rightarrow> Inl ''AttributeError'')"

record scan_result =
  sr_scan :: string
  sr_findings :: "json list"

definition run_scan :: "string \<Rightarrow> string + int \<times> scan_report \<Rightarrow> string + scan_result" where
  "run_scan name answer =
     ebind answer (\<lambda>(returncode, report).
     if returncode \<notin> {0, 1} \<or> report = No_report then Inl ''RuntimeError''
     else case report of
       Report (JArr findings) \<Rightarrow>
         if returncode = 1 \<and> findings = [] then Inl ''RuntimeError''
         else ebind (map_result safe_finding findings) (\<lambda>safe.
           Inr \<lparr>sr_scan = name, sr_findings = safe\<rparr>)
     | Report _ \<Rightarrow> Inl ''RuntimeError''
     | _ \<Rightarrow> Inl ''JSONDecodeError'')"

section \<open>The check\<close>

text \<open>\<open>s.split()\<close>\<close>

definition words_of :: "string \<Rightarrow> string list" where
  "words_of s = filter (\<lambda>w. w \<noteq> []) (split_on (CHR '' '') (map (\<lambda>c. if is_space c then CHR '' '' else c) s))"

definition object_name :: "string \<Rightarrow> string \<Rightarrow> string" where
  "object_name otype sha = otype @ ''-'' @ sha @ ''.txt''"

fun read_objects ::
  "scan_host \<Rightarrow> string list \<Rightarrow> (string, bytes) dict \<Rightarrow> nat \<times> nat \<Rightarrow> string + (string, bytes) dict \<times> nat \<times> nat"
where
  "read_objects h [] corpus counts = Inr (corpus, counts)"
| "read_objects h (description # rest) corpus (blobs, commits) =
     (case words_of description of
        [sha, otype, length_text] \<Rightarrow>
          if otype \<notin> {''blob'', ''commit''} then read_objects h rest corpus (blobs, commits)
          else
            ebind (sh_content h otype sha) (\<lambda>content.
            case int_of_text length_text of
              Inl _ \<Rightarrow> Inl ''ValueError''
            | Inr n \<Rightarrow>
                if int (length content) \<noteq> n then Inl ''RuntimeError''
                else read_objects h rest (AList.update (object_name otype sha) content corpus)
                  (if otype = ''blob'' then (blobs + 1, commits) else (blobs, commits + 1)))
      | _ \<Rightarrow> Inl ''ValueError'')"

definition scan_json :: "scan_result \<Rightarrow> json" where
  "scan_json r = JObj [(''scan'', JStr (sr_scan r)), (''finding_count'', JInt (int (length (sr_findings r)))),
     (''findings'', JArr (sr_findings r))]"

text \<open>What is printed, and the exit code.\<close>

definition check_secrets :: "scan_host \<Rightarrow> string + string \<times> int" where
  "check_secrets h =
     ebind (sh_shallow h) (\<lambda>shallow.
     if strip shallow \<noteq> ''false'' then Inl ''RuntimeError''
     else
       ebind (sh_fsck h) (\<lambda>_.
       ebind (sh_descriptions h) (\<lambda>descriptions.
       ebind (read_objects h descriptions [] (0, 0)) (\<lambda>(corpus, blobs, commits).
       ebind (run_scan ''history'' (sh_history h)) (\<lambda>history.
       ebind (run_scan ''raw-objects'' (sh_corpus h corpus)) (\<lambda>raw.
       Inr (''SECRETS_CHECK '' @ enc_spaced (JObj
              [(''objects'', JObj [(''blob'', JInt (int blobs)), (''commit'', JInt (int commits))]),
               (''scans'', JArr [scan_json history, scan_json raw])]),
            if sr_findings history \<noteq> [] \<or> sr_findings raw \<noteq> [] then 1 else 0)))))))"

definition secrets_main :: "scan_host \<Rightarrow> string \<times> int" where
  "secrets_main h =
     (case check_secrets h of
        Inl name \<Rightarrow> (''Secrets check incomplete ('' @ name @ ''); failing closed.'', 2)
      | Inr r \<Rightarrow> r)"

section \<open>It fails closed\<close>

lemma run_scan_clean:
  assumes "run_scan name answer = Inr r" "sr_findings r = []"
  shows "answer = Inr (0, Report (JArr []))"
proof -
  obtain code report where a: "answer = Inr (code, report)" using assms(1) by (cases answer) (auto simp: run_scan_def)
  with assms(1) obtain findings where f: "report = Report (JArr findings)"
    by (auto simp: run_scan_def split: if_splits scan_report.splits json.splits)
  have "code = 0 \<or> code = 1" "\<not> (code = 1 \<and> findings = [])" "map_result safe_finding findings = Inr (sr_findings r)"
    using assms(1) by (auto simp: run_scan_def a f result_simps split: if_splits)
  with assms(2) map_result_length [of safe_finding findings] show ?thesis by (auto simp: a f)
qed

text \<open>The objects of a description are in the corpus, whole.\<close>

definition object_read :: "scan_host \<Rightarrow> (string, bytes) dict \<Rightarrow> string \<Rightarrow> bool" where
  "object_read h corpus description =
     (case words_of description of
        [sha, otype, length_text] \<Rightarrow>
          otype \<notin> {''blob'', ''commit''} \<or>
          (\<exists>content. sh_content h otype sha = Inr content \<and> int_of_text length_text = Inr (int (length content)) \<and>
             map_of corpus (object_name otype sha) = Some content)
      | _ \<Rightarrow> False)"

lemma object_name_inj:
  assumes "object_name otype sha = object_name otype' sha'" "otype \<in> {''blob'', ''commit''}" "otype' \<in> {''blob'', ''commit''}"
  shows "otype = otype' \<and> sha = sha'"
  using assms by (auto simp: object_name_def)

lemma read_object_Inr:
  assumes "read_objects h (description # rest) corpus counts = Inr out"
  obtains sha otype length_text counts' where "words_of description = [sha, otype, length_text]"
    "otype \<notin> {''blob'', ''commit''}" "read_objects h rest corpus counts' = Inr out"
  | sha otype length_text counts' content where "words_of description = [sha, otype, length_text]"
    "otype \<in> {''blob'', ''commit''}" "sh_content h otype sha = Inr content"
    "int_of_text length_text = Inr (int (length content))"
    "read_objects h rest (AList.update (object_name otype sha) content corpus) counts' = Inr out"
proof -
  obtain blobs commits where c: "counts = (blobs, commits)" by (cases counts)
  obtain sha otype length_text where w: "words_of description = [sha, otype, length_text]"
    using assms by (auto simp: c split: list.splits)
  show thesis
  proof (cases "otype \<in> {''blob'', ''commit''}")
    case True
    then obtain content where content: "sh_content h otype sha = Inr content"
      using assms by (cases "sh_content h otype sha") (auto simp: c w)
    obtain n where n: "int_of_text length_text = Inr n"
      using assms True content by (cases "int_of_text length_text") (auto simp: c w)
    have "int (length content) = n" using assms True content n by (auto simp: c w split: if_splits)
    moreover obtain counts' where "read_objects h rest (AList.update (object_name otype sha) content corpus) counts' = Inr out"
      using assms True content n by (auto simp: c w split: if_splits)
    ultimately show thesis using that(2) [OF w True content] n by blast
  next
    case False
    then show thesis using assms that(1) [OF w False] by (simp add: c w)
  qed
qed

lemma read_objects_keeps:
  "read_objects h ds corpus counts = Inr (corpus', n) \<Longrightarrow> otype \<in> {''blob'', ''commit''} \<Longrightarrow>
     sh_content h otype sha = Inr content \<Longrightarrow> map_of corpus (object_name otype sha) = Some content \<Longrightarrow>
     map_of corpus' (object_name otype sha) = Some content"
proof (induction ds arbitrary: corpus counts)
  case (Cons d ds)
  from Cons.prems(1) show ?case
  proof (cases rule: read_object_Inr)
    case (1 sha' otype' t counts')
    then show ?thesis using Cons.IH Cons.prems by blast
  next
    case (2 sha' otype' t counts' content')
    have "map_of (AList.update (object_name otype' sha') content' corpus) (object_name otype sha) = Some content"
      using Cons.prems(2,3,4) object_name_inj [of otype sha otype' sha'] 2(2,3) by (auto simp: update_conv')
    then show ?thesis using Cons.IH [OF 2(5)] Cons.prems(2,3) by blast
  qed
qed simp

lemma read_objects_all:
  "read_objects h ds corpus counts = Inr (corpus', n) \<Longrightarrow> list_all (object_read h corpus') ds"
proof (induction ds arbitrary: corpus counts)
  case (Cons d ds)
  from Cons.prems(1) show ?case
  proof (cases rule: read_object_Inr)
    case (1 sha' otype' t counts')
    then show ?thesis using Cons.IH by (auto simp: object_read_def)
  next
    case (2 sha otype t counts' content)
    have "map_of corpus' (object_name otype sha) = Some content"
      using read_objects_keeps [OF 2(5) 2(2,3)] by simp
    then show ?thesis using Cons.IH [OF 2(5)] 2 by (auto simp: object_read_def)
  qed
qed simp

text \<open>The script exits with 0 only for a complete repository all of whose blobs and commits were read whole and
  handed to the scanner, and when both scans completed and reported nothing.\<close>

theorem secrets_fail_closed:
  assumes "secrets_main h = (out, 0)"
  shows "\<exists>descriptions corpus. sh_descriptions h = Inr descriptions \<and> sh_fsck h = Inr () \<and>
    list_all (object_read h corpus) descriptions \<and>
    sh_history h = Inr (0, Report (JArr [])) \<and> sh_corpus h corpus = Inr (0, Report (JArr []))"
proof -
  obtain r where c: "check_secrets h = Inr r" and r: "snd r = 0"
    using assms by (cases "check_secrets h") (auto simp: secrets_main_def)
  from c obtain shallow descriptions corpus n history raw where
    d: "sh_fsck h = Inr ()" "sh_descriptions h = Inr descriptions"
    "read_objects h descriptions [] (0, 0) = Inr (corpus, n)" "run_scan ''history'' (sh_history h) = Inr history"
    "run_scan ''raw-objects'' (sh_corpus h corpus) = Inr raw"
    "snd r = (if sr_findings history \<noteq> [] \<or> sr_findings raw \<noteq> [] then 1 else 0)"
    unfolding check_secrets_def by (elim ebind_InrE) (auto split: if_splits elim!: ebind_InrE)
  have "sr_findings history = []" "sr_findings raw = []" using d(6) r by (auto split: if_splits)
  with d read_objects_all [OF d(3)] run_scan_clean show ?thesis by blast
qed

section \<open>It prints no credential\<close>

text \<open>A finding without its other fields, among them the match and the secret.\<close>

fun redacted :: "scan_report \<Rightarrow> scan_report" where
  "redacted (Report (JArr findings)) = Report (JArr (map (\<lambda>f. case f of
       JObj d \<Rightarrow> JObj (filter (\<lambda>(k, _). k \<in> set PUBLIC_KEYS) d) | _ \<Rightarrow> JNull) findings))"
| "redacted r = r"

definition redact_host :: "scan_host \<Rightarrow> scan_host" where
  "redact_host h = h\<lparr>sh_history := map_sum (\<lambda>e. e) (map_prod (\<lambda>c. c) redacted) (sh_history h),
     sh_corpus := \<lambda>corpus. map_sum (\<lambda>e. e) (map_prod (\<lambda>c. c) redacted) (sh_corpus h corpus)\<rparr>"

lemma safe_finding_redacted:
  "safe_finding (case f of JObj d \<Rightarrow> JObj (filter (\<lambda>(k, _). k \<in> set PUBLIC_KEYS) d) | _ \<Rightarrow> JNull) = safe_finding f"
proof (cases f)
  case (JObj d)
  have "payload_get (filter (\<lambda>(k, _). k \<in> set PUBLIC_KEYS) d) k JNull = payload_get d k JNull"
    if "k \<in> set PUBLIC_KEYS" for k
  proof -
    have "map_of (filter (\<lambda>(k, _). k \<in> set PUBLIC_KEYS) d) k = map_of d k" using that by (induction d) auto
    then show ?thesis by (simp add: payload_get_def)
  qed
  then show ?thesis by (simp add: JObj safe_finding_def)
qed (simp_all add: safe_finding_def)

lemma run_scan_redacted:
  "run_scan name (map_sum (\<lambda>e. e) (map_prod (\<lambda>c. c) redacted) answer) = run_scan name answer"
proof (cases answer)
  case (Inr a)
  obtain code report where a: "a = (code, report)" by (cases a)
  have "map_result safe_finding (map (\<lambda>f. case f of JObj d \<Rightarrow> JObj (filter (\<lambda>(k, _). k \<in> set PUBLIC_KEYS) d)
      | _ \<Rightarrow> JNull) findings) = map_result safe_finding findings" for findings
    by (induction findings) (simp_all add: safe_finding_redacted del: set_simps)
  then show ?thesis
    by (cases "(code, report)" rule: prod.exhaust; cases report)
      (auto simp: Inr a run_scan_def split: json.splits)
qed simp

text \<open>What is printed and the exit code do not depend on the other fields of a finding.\<close>

theorem secrets_redacted: "secrets_main (redact_host h) = secrets_main h"
proof -
  have r: "read_objects (redact_host h) ds corpus counts = read_objects h ds corpus counts" for ds corpus counts
  proof (induction ds arbitrary: corpus counts)
    case (Cons d ds)
    have content: "sh_content (redact_host h) = sh_content h" by (simp add: redact_host_def)
    show ?case by (cases counts) (simp only: read_objects.simps Cons.IH content)
  qed simp
  have same: "sh_shallow (redact_host h) = sh_shallow h" "sh_fsck (redact_host h) = sh_fsck h"
    "sh_descriptions (redact_host h) = sh_descriptions h"
    "run_scan name (sh_history (redact_host h)) = run_scan name (sh_history h)"
    "run_scan name (sh_corpus (redact_host h) corpus) = run_scan name (sh_corpus h corpus)" for name corpus
    by (simp_all add: redact_host_def run_scan_redacted)
  show ?thesis unfolding secrets_main_def check_secrets_def r same by (rule refl)
qed

section \<open>Examples\<close>

definition clean_repository :: scan_host where
  "clean_repository =
     \<lparr>sh_shallow = Inr (''false'' @ [CHR 0x0A]), sh_fsck = Inr (),
      sh_descriptions = Inr [''ab blob 2'', ''cd tree 30'', ''ef commit 1''],
      sh_content = \<lambda>_ sha. Inr (encode (if sha = ''ab'' then ''xy'' else ''z'')),
      sh_history = Inr (0, Report (JArr [])), sh_corpus = \<lambda>_. Inr (0, Report (JArr []))\<rparr>"

lemma clean_repository_passes: "snd (secrets_main clean_repository) = 0"
  by code_simp

text \<open>A finding is printed without its secret, and a truncated object stops the check.\<close>

lemma finding_reported:
  "snd (secrets_main (clean_repository\<lparr>sh_history := Inr (1, Report (JArr [JObj
      [(''RuleID'', JStr ''aws''), (''Secret'', JStr ''AKIA'')]]))\<rparr>)) = 1"
  "secrets_main (clean_repository\<lparr>sh_descriptions := Inr [''ab blob 3'']\<rparr>) =
     (''Secrets check incomplete (RuntimeError); failing closed.'', 2)"
  by code_simp+

end
