(* ===== verification/Spec2Isabelle.thy ===== *)
theory Spec2Isabelle
  imports AgentPool PostgresRegistry ComfyProps EngineProps Gcs Coordinator RuntimeProps AgentMainProps ObjectGraph Processes PostgresPool SecretsCheck
begin

text \<open>
  The outbound GPU worker pool (package \<open>outbound_gpu_worker_pool\<close>): a coordinator keeps a queue of
  jobs; workers, which only make outbound calls, register by heartbeat, lease a compatible job,
  renew the lease, and complete, fail or release it. A lease gives the worker a claim token, and
  every later call on the job is fenced by it. An output is attested by a manifest the coordinator
  verifies against the stored bytes. Jobs, workers and the audit log live in memory or in Postgres.

  \<^bold>\<open>Theories and what they model\<close> (files under src/src/outbound_gpu_worker_pool/).

  \<^item> Prelude, Sha256, Json, Regex: the part of Python the program uses. A fallible function returns
    \<open>exn + 'a\<close> and is sequenced by \<open>ebind\<close>; a dict is an association list in insertion order; JSON
    values with Python's \<open>==\<close>; \<open>re\<close> as derivatives of regular expressions; SHA-256 on words.
  \<^item> Contracts (contracts.py): enumerations, dataclasses and exceptions. Validation (validation.py):
    the checks of a submission and its canonical digest. ObjectGraph: the payload check again, on
    Python objects that may be shared or cyclic, and its equivalence with the one on trees.
  \<^item> JobSpec, JobStoreSpec: what the \<open>JobStore\<close> protocol promises. JobSpec has the effect of each
    operation on one row and the relation of the moves of a row; the locale \<open>job_store\<close> has the
    laws of a provider and their consequences over every run.
  \<^item> MemoryStore, MemoryProps (memory.py): \<open>MemoryJobStore\<close>, an interpretation of \<open>job_store\<close>.
    PostgresStore, PostgresProps (postgres.py, migrations/001_worker_pool.sql): the SQL statements of
    \<open>PostgresJobStore\<close> as functions on rows, the other interpretation, and the refinement of
    MemoryStore through \<open>pg_table\<close>, which reads the rows as the dictionary of the memory store.
  \<^item> Registry (memory.py): the worker registry and the audit log, with the locale \<open>worker_registry\<close>;
    PostgresRegistry: the same over rows, the second interpretation, and its refinement.
  \<^item> AssetStore (memory.py): the create-once assets and their grants. RateLimiter (service.py): the
    token buckets. Enrollment, Auth (enrollment.py, auth.py): the allowlist and the authenticators.
    EngineRecipes, Profiles (engine_recipes.py, machine_profiles.py): declared profiles and recipes.
  \<^item> Service, ServiceProps (service.py): \<open>WorkerPoolService\<close> over the in-memory stores. The state is
    one record \<open>pool_state\<close>; an operation maps it to a result and the state it leaves, which is kept
    when the operation raises, as in the code.
  \<^item> Routes, RoutesProps (routes.py): the request models, the status mapping and the handlers, over
    Service.
  \<^item> Plugins (plugins.py, gpu_sampler.py): the plugin contract, the reference plugin and the GPU sampler.
    Effects: runs that record the calls they make; paths. Agent, AgentProps (agent.py): \<open>WorkerAgent\<close>. What is outside the agent is the record \<open>agent_env\<close>:
    each answer is a function of the calls made so far, which the state keeps; the job's heartbeat task
    makes some number of exchanges at each await. AgentPool: the agent against the coordinator's routes.
  \<^item> Comfy, ComfyProps (comfy.py), Engine, EngineProps (engine.py): the two plugins, as runs over the calls
    they make to the runtime, the sidecar, the disk and the clocks (\<open>comfy_env\<close>, \<open>engine_env\<close>).
  \<^item> Gcs (assets/gcs.py): the cloud asset store over the answers of the cloud client (\<open>gcs_env\<close>), and its
    refinement of AssetStore over a bucket (\<open>bucket_env\<close>). Coordinator (coordinator_main.py,
    coordinator.py): what is built from the environment, and the life of the stores.
  \<^item> ProfileRuntime, RuntimeProps (machine_profiles.py): what a profile's template is fingerprinted to, the
    inspection of a runtime, the profile plugin and the preparation of a worker. AgentMain, AgentMainProps
    (agent_main.py, and the settings of engine.py): the plugins and the agent built from the environment, over
    the record \<open>host\<close>.
  \<^item> Processes (engine.py, comfy.py): the processes of a stage, of an inspection and of the start command, and how a
    process group is ended. PostgresPool (postgres.py): the connection pool and the locked migrations.
  \<^item> SecretsCheck (scripts/check_secrets.py): the scan of the repository, which fails closed and prints no credential.

  \<^bold>\<open>What the lemmas show.\<close> The invariants of a table of jobs and of workers, kept by every operation of
  both stores; fencing (a claim token that is not the current one has no effect) and that settling
  happens at most once; that a lease picks the right job for an eligible worker only; what a
  completion attests; idempotent submission; the bound on the number of leases and the recovery of a
  lapsed one; the budget of the rate limiters over any window; what authentication admits; that the
  Postgres statements refine the in-memory operations; that all of this holds for a caller of
  the HTTP routes; and that the agent settles a lease once, cleans up after it, polls within its bounds,
  stops when told, and speaks the coordinator's protocol; that only the approved graph reaches ComfyUI; and
  that the engine plugin returns only a verified output of the registered engine; that a profile's job runs only on
  a runtime just inspected, and is served by the profile's plugin; that no engine stage is left running, and that the migrations hold their
  lock. Each property stands after its own text block; a property with hypotheses has a
  witness that applies it to concrete data.

  \<^bold>\<open>Conventions.\<close> Strings are lists of characters below 256. Times are integers, microseconds. Floats are exact rationals
  where they are computed with (rate limiter), and a JSON float is its decimal text with its value.
  Readings of a clock, fresh tokens and generated ids are arguments (\<open>readings\<close>, \<open>store_op\<close>). Calls on a
  store run one at a time, as the code's locks and statements make them; a service call runs to its
  end, except that authentication is split at the await of the authenticator. The loops of the
  modelled code are structural recursions or have a measure, except \<open>run_forever\<close> and the two polling
  loops of Comfy, whose turns are bounded by an argument: as many as it takes until the stop event is
  seen set, or until the clocks reach the timeout and the deadline, are enough.

  \<^bold>\<open>Parameters.\<close> What is not in the repository is an argument: \<open>json.loads\<close> and \<open>str\<close> of a JSON value, the
  verifier of Google tokens, the facts read from the packaged template files, pydantic's
  conversions (\<open>pydantic\<close>), the format of times in JSON, and of Postgres its uuid type, text comparison, numeric conversions and the
  order in which it returns unordered rows (\<open>pg_env\<close>); ORDER BY on text is by code point.

  \<^bold>\<open>Not modelled.\<close> The execution of SQL over a connection and the text of the migrations; FastAPI's
  dispatch beyond what \<open>route\<close> says, uvicorn; signal handlers and the construction of HTTP clients in
  the agent's entry point; the package's re-exports.
\<close>

end
